(* ===== verification/Prelude.thy ===== *)
theory Prelude
  imports Complex_Main
begin

text \<open>
  Generic material shared by every theory of the development: the shape of a fallible
  operation on a state (with the roll back of a database transaction), SQL-like operations on a
  table kept as a list of rows, exact decimals with the rounding of \<open>decimal.js\<close>, and the few
  JavaScript string functions the sources use.  Nothing here is specific to one component.
\<close>

named_theorems stm_simps \<open>unfolding of the state and error combinators\<close>
named_theorems tbl_simps \<open>rewriting of the table operations\<close>
named_theorems dec_simps \<open>rounding of decimals that already fit\<close>

section \<open>Fallible operations on a state\<close>

text \<open>
  An asynchronous method of a service is a function from the state to an outcome and a new
  state.  An exception keeps the effects that were performed before it; a database transaction
  (\<open>dataSource.transaction(...)\<close>) undoes them.
\<close>

type_synonym ('e, 'a, 's) stm = "'s \<Rightarrow> ('e + 'a) \<times> 's"

definition retM :: "'a \<Rightarrow> ('e, 'a, 's) stm" where
  "retM a s = (Inr a, s)"

definition failM :: "'e \<Rightarrow> ('e, 'a, 's) stm" where
  "failM e s = (Inl e, s)"

definition bindM :: "('e, 'a, 's) stm \<Rightarrow> ('a \<Rightarrow> ('e, 'b, 's) stm) \<Rightarrow> ('e, 'b, 's) stm" where
  "bindM m k s = (case m s of (Inl e, s') \<Rightarrow> (Inl e, s') | (Inr a, s') \<Rightarrow> k a s')"

definition getM :: "('s \<Rightarrow> 'a) \<Rightarrow> ('e, 'a, 's) stm" where
  "getM f s = (Inr (f s), s)"

definition updM :: "('s \<Rightarrow> 's) \<Rightarrow> ('e, unit, 's) stm" where
  "updM f s = (Inr (), f s)"

definition assertM :: "bool \<Rightarrow> 'e \<Rightarrow> ('e, unit, 's) stm" where
  "assertM c e s = (if c then (Inr (), s) else (Inl e, s))"

definition someM :: "'a option \<Rightarrow> 'e \<Rightarrow> ('e, 'a, 's) stm" where
  "someM x e s = (case x of None \<Rightarrow> (Inl e, s) | Some a \<Rightarrow> (Inr a, s))"

definition liftM :: "'e + 'a \<Rightarrow> ('e, 'a, 's) stm" where
  "liftM r s = (r, s)"

text \<open>A database transaction: all of it or nothing.\<close>

definition txM :: "('e, 'a, 's) stm \<Rightarrow> ('e, 'a, 's) stm" where
  "txM m s = (case m s of (Inl e, s') \<Rightarrow> (Inl e, s) | (Inr a, s') \<Rightarrow> (Inr a, s'))"

text \<open>\<open>try { m } catch (e) { h(e) }\<close>.\<close>

definition catchM :: "('e, 'a, 's) stm \<Rightarrow> ('e \<Rightarrow> ('e, 'a, 's) stm) \<Rightarrow> ('e, 'a, 's) stm" where
  "catchM m h s = (case m s of (Inl e, s') \<Rightarrow> h e s' | (Inr a, s') \<Rightarrow> (Inr a, s'))"

definition whenM :: "bool \<Rightarrow> ('e, unit, 's) stm \<Rightarrow> ('e, unit, 's) stm" where
  "whenM c m s = (if c then m s else (Inr (), s))"

lemma retM_eq [simp]: "retM a s = (Inr a, s)" by (simp add: retM_def)
lemma failM_eq [simp]: "failM e s = (Inl e, s)" by (simp add: failM_def)
lemma getM_eq [simp]: "getM f s = (Inr (f s), s)" by (simp add: getM_def)
lemma updM_eq [simp]: "updM f s = (Inr (), f s)" by (simp add: updM_def)
lemma assertM_True [simp]: "assertM True e s = (Inr (), s)" by (simp add: assertM_def)
lemma assertM_False [simp]: "assertM False e s = (Inl e, s)" by (simp add: assertM_def)
lemma someM_None [simp]: "someM None e s = (Inl e, s)" by (simp add: someM_def)
lemma someM_Some [simp]: "someM (Some a) e s = (Inr a, s)" by (simp add: someM_def)
lemma liftM_eq [simp]: "liftM r s = (r, s)" by (simp add: liftM_def)
lemma whenM_True [simp]: "whenM True m s = m s" by (simp add: whenM_def)
lemma whenM_False [simp]: "whenM False m s = (Inr (), s)" by (simp add: whenM_def)

lemmas [stm_simps] = bindM_def txM_def catchM_def assertM_def someM_def whenM_def

text \<open>Inversion of a successful sequence, and of a successful transaction.\<close>

lemma bindM_InrE:
  assumes "bindM m k s = (Inr b, s')"
  obtains a s1 where "m s = (Inr a, s1)" and "k a s1 = (Inr b, s')"
  using assms by (auto simp: bindM_def split: prod.splits sum.splits)

lemma txM_Inr_iff [simp]: "txM m s = (Inr a, s') \<longleftrightarrow> m s = (Inr a, s')"
  by (auto simp: txM_def split: prod.splits sum.splits)

lemma txM_Inl: "txM m s = (Inl e, s') \<Longrightarrow> s' = s"
  by (auto simp: txM_def split: prod.splits sum.splits)

lemma assertM_Inr_iff [simp]: "assertM c e s = (Inr u, s') \<longleftrightarrow> c \<and> s' = s"
  by (auto simp: assertM_def)

lemma someM_Inr_iff [simp]: "someM x e s = (Inr a, s') \<longleftrightarrow> x = Some a \<and> s' = s"
  by (auto simp: someM_def split: option.splits)

text \<open>
  A property of states that every piece of an operation keeps is kept by the operation: the
  rules below follow the combinators, so a handler's preservation proof is a chain of them.
\<close>

definition keeps :: "('s \<Rightarrow> bool) \<Rightarrow> ('e, 'a, 's) stm \<Rightarrow> bool" where
  "keeps I m \<longleftrightarrow> (\<forall>s. I s \<longrightarrow> I (snd (m s)))"

lemma keepsI: "(\<And>s. I s \<Longrightarrow> I (snd (m s))) \<Longrightarrow> keeps I m"
  by (simp add: keeps_def)

lemma keepsD: "keeps I m \<Longrightarrow> I s \<Longrightarrow> I (snd (m s))"
  by (simp add: keeps_def)

lemma keeps_retM [intro, simp]: "keeps I (retM a)" by (simp add: keeps_def)
lemma keeps_failM [intro, simp]: "keeps I (failM e)" by (simp add: keeps_def)
lemma keeps_getM [intro, simp]: "keeps I (getM f)" by (simp add: keeps_def)
lemma keeps_assertM [intro, simp]: "keeps I (assertM c e)" by (simp add: keeps_def assertM_def)
lemma keeps_someM [intro, simp]: "keeps I (someM x e)"
  by (simp add: keeps_def someM_def split: option.splits)
lemma keeps_liftM [intro, simp]: "keeps I (liftM r)" by (simp add: keeps_def)

lemma keeps_updM [intro]: "(\<And>s. I s \<Longrightarrow> I (f s)) \<Longrightarrow> keeps I (updM f)"
  by (simp add: keeps_def)

lemma keeps_whenM [intro]: "(c \<Longrightarrow> keeps I m) \<Longrightarrow> keeps I (whenM c m)"
  by (simp add: keeps_def whenM_def)

lemma keeps_bindM [intro]:
  assumes "keeps I m" and "\<And>a. keeps I (k a)"
  shows "keeps I (bindM m k)"
proof (rule keepsI)
  fix s assume "I s"
  then have "I (snd (m s))" using assms(1) by (blast dest: keepsD)
  then show "I (snd (bindM m k s))"
    using assms(2) by (auto simp: bindM_def keeps_def split: prod.splits sum.splits)
qed

lemma keeps_txM [intro]: "keeps I m \<Longrightarrow> keeps I (txM m)"
  by (fastforce simp: keeps_def txM_def split: prod.splits sum.splits)

lemma keeps_catchM [intro]:
  assumes "keeps I m" and "\<And>e. keeps I (h e)"
  shows "keeps I (catchM m h)"
proof (rule keepsI)
  fix s assume "I s"
  then have "I (snd (m s))" using assms(1) by (blast dest: keepsD)
  then show "I (snd (catchM m h s))"
    using assms(2) by (auto simp: catchM_def keeps_def split: prod.splits sum.splits)
qed

section \<open>Tables\<close>

text \<open>
  A table is the list of its rows in insertion order.  \<open>findOne\<close> is the first row that matches,
  \<open>update\<close> maps the matching rows, \<open>affected\<close> counts them, an insert appends.
\<close>

definition find_row :: "('r \<Rightarrow> bool) \<Rightarrow> 'r list \<Rightarrow> 'r option" where
  "find_row P t = List.find P t"

definition update_where :: "('r \<Rightarrow> bool) \<Rightarrow> ('r \<Rightarrow> 'r) \<Rightarrow> 'r list \<Rightarrow> 'r list" where
  "update_where P f t = map (\<lambda>r. if P r then f r else r) t"

definition affected :: "('r \<Rightarrow> bool) \<Rightarrow> 'r list \<Rightarrow> nat" where
  "affected P t = length (filter P t)"

definition insert_row :: "'r \<Rightarrow> 'r list \<Rightarrow> 'r list" where
  "insert_row r t = t @ [r]"

definition sum_over :: "('r \<Rightarrow> 'n::comm_monoid_add) \<Rightarrow> 'r list \<Rightarrow> 'n" where
  "sum_over g t = sum_list (map g t)"

lemma find_row_Nil [simp]: "find_row P [] = None"
  by (simp add: find_row_def)

lemma find_row_Cons [simp]:
  "find_row P (r # t) = (if P r then Some r else find_row P t)"
  by (simp add: find_row_def)

lemma update_where_Nil [simp]: "update_where P f [] = []"
  by (simp add: update_where_def)

lemma update_where_Cons [simp]:
  "update_where P f (r # t) = (if P r then f r else r) # update_where P f t"
  by (simp add: update_where_def)

lemma find_row_SomeD: "find_row P t = Some r \<Longrightarrow> P r \<and> r \<in> set t"
  by (induction t) (auto split: if_splits)

lemma find_row_None_iff: "find_row P t = None \<longleftrightarrow> (\<forall>r \<in> set t. \<not> P r)"
  by (induction t) auto

lemma find_row_insert_row [tbl_simps]:
  "find_row P (insert_row r t) =
    (case find_row P t of Some x \<Rightarrow> Some x | None \<Rightarrow> if P r then Some r else None)"
  by (induction t) (auto simp: insert_row_def)

lemma set_insert_row [simp]: "set (insert_row r t) = insert r (set t)"
  by (simp add: insert_row_def)

lemma map_insert_row [simp]: "map f (insert_row r t) = map f t @ [f r]"
  by (simp add: insert_row_def)

lemma map_update_where_key [simp]:
  "(\<And>r. g (f r) = g r) \<Longrightarrow> map g (update_where P f t) = map g t"
  by (induction t) auto

lemma length_update_where [simp]: "length (update_where P f t) = length t"
  by (simp add: update_where_def)

lemma set_update_where: "set (update_where P f t) = (\<lambda>r. if P r then f r else r) ` set t"
  by (simp add: update_where_def)

lemma update_where_none [simp]: "\<forall>r \<in> set t. \<not> P r \<Longrightarrow> update_where P f t = t"
  by (induction t) auto

lemma affected_Nil [simp]: "affected P [] = 0"
  by (simp add: affected_def)

lemma affected_Cons [simp]: "affected P (r # t) = (if P r then 1 else 0) + affected P t"
  by (simp add: affected_def)

lemma affected_0_iff: "affected P t = 0 \<longleftrightarrow> (\<forall>r \<in> set t. \<not> P r)"
  by (induction t) auto

lemma sum_over_Nil [simp]: "sum_over g [] = 0"
  by (simp add: sum_over_def)

lemma sum_over_Cons [simp]: "sum_over g (r # t) = g r + sum_over g t"
  by (simp add: sum_over_def)

lemma sum_over_insert_row [simp]: "sum_over g (insert_row r t) = sum_over g t + g r"
  by (simp add: sum_over_def insert_row_def)

text \<open>A row addressed by a key that no other row has: what an update by id does.\<close>

abbreviation (input) by_key :: "('r \<Rightarrow> 'k) \<Rightarrow> 'k \<Rightarrow> 'r \<Rightarrow> bool" where
  "by_key key k \<equiv> (\<lambda>r. key r = k)"

lemma find_row_by_key:
  assumes "distinct (map key t)" and "r \<in> set t"
  shows "find_row (by_key key (key r)) t = Some r"
  using assms by (induction t) (auto simp: rev_image_eqI)

lemma find_row_update_where_key [tbl_simps]:
  assumes "\<And>r. key (f r) = key r"
  shows "find_row (by_key key j) (update_where (by_key key k) f t) =
    (if j = k then map_option f (find_row (by_key key j) t) else find_row (by_key key j) t)"
  using assms by (induction t) auto

lemma find_row_update_where_other:
  assumes "\<And>r. P r \<Longrightarrow> Q (f r) = Q r" and "\<And>r. P r \<Longrightarrow> \<not> Q r"
  shows "find_row Q (update_where P f t) = find_row Q t"
  using assms by (induction t) auto

lemma update_where_key_eq:
  assumes "distinct (map key t)" and "find_row (by_key key k) t = Some r"
    and "x \<in> set t" and "key x = k"
  shows "x = r"
  using assms by (induction t) (auto split: if_splits simp: rev_image_eqI)

lemma find_row_update_any:
  assumes "\<And>r. P (f r) = P r"
  shows "find_row P (update_where Q f t) = map_option (\<lambda>r. if Q r then f r else r) (find_row P t)"
  using assms by (induction t) auto

lemma find_row_update_none:
  "(\<And>r. Q r \<Longrightarrow> \<not> P (f r)) \<Longrightarrow> (\<And>r. \<not> Q r \<Longrightarrow> \<not> P r) \<Longrightarrow> find_row P (update_where Q f t) = None"
  by (induction t) auto

lemma list_ex_update_where: "list_ex Q (update_where P f t) = list_ex (\<lambda>r. Q (if P r then f r else r)) t"
  by (induction t) auto

lemma find_row_update_key_at:
  assumes "key (f r) = k" and "find_row (by_key key k) t = Some r" and "distinct (map key t)"
  shows "find_row (by_key key j) (update_where (by_key key k) f t) =
    (if j = k then Some (f r) else find_row (by_key key j) t)"
  using assms
proof (induction t)
  case (Cons x t)
  show ?case
  proof (cases "key x = k")
    case True
    moreover from True Cons.prems(3) have "\<forall>y \<in> set t. \<not> by_key key k y" by (auto simp: rev_image_eqI)
    ultimately show ?thesis using Cons.prems by simp
  next
    case False
    with Cons show ?thesis by auto
  qed
qed simp

lemma sum_over_update_key:
  assumes "distinct (map key t)" and "find_row (by_key key k) t = Some r"
  shows "sum_over g (update_where (by_key key k) f t) = sum_over g t - g r + (g (f r) :: 'n::ab_group_add)"
  using assms
proof (induction t)
  case Nil
  then show ?case by simp
next
  case (Cons x t)
  show ?case
  proof (cases "key x = k")
    case True
    with Cons.prems have "x = r" by simp
    moreover from True Cons.prems(1) have "\<forall>y \<in> set t. \<not> by_key key k y"
      by (auto simp: rev_image_eqI)
    ultimately show ?thesis using True by simp
  next
    case False
    with Cons show ?thesis by simp
  qed
qed

section \<open>Decimals\<close>

text \<open>
  Amounts are \<open>decimal.js\<close> values: exact decimals (rationals here; the library keeps 20
  significant digits, more than a \<open>numeric(15,4)\<close> column holds).  \<open>toFixed(n)\<close> and
  \<open>toDecimalPlaces(n)\<close> round half away from zero (\<open>ROUND_HALF_UP\<close>, the library's default).
\<close>

type_synonym money = rat

definition round_half_up :: "rat \<Rightarrow> int" where
  "round_half_up x = (if 0 \<le> x then \<lfloor>x + 1/2\<rfloor> else - \<lfloor>1/2 - x\<rfloor>)"

definition to_fixed :: "nat \<Rightarrow> rat \<Rightarrow> rat" where
  "to_fixed n x = of_int (round_half_up (x * 10 ^ n)) / 10 ^ n"

definition fits :: "nat \<Rightarrow> rat \<Rightarrow> bool" where
  "fits n x \<longleftrightarrow> to_fixed n x = x"

lemma round_half_up_of_int [simp]: "round_half_up (of_int k) = k"
proof -
  have "\<lfloor>(of_int k :: rat) + 1/2\<rfloor> = k" by linarith
  moreover have "\<lfloor>1/2 - (of_int k :: rat)\<rfloor> = - k" by linarith
  ultimately show ?thesis by (simp add: round_half_up_def)
qed

lemma round_half_up_close: "\<bar>of_int (round_half_up x) - x\<bar> \<le> 1/2"
proof (cases "0 \<le> x")
  case True
  have "of_int \<lfloor>x + 1/2\<rfloor> \<le> x + 1/2" and "x + 1/2 < of_int \<lfloor>x + 1/2\<rfloor> + 1"
    by linarith+
  then have "\<bar>of_int \<lfloor>x + 1/2\<rfloor> - x\<bar> \<le> 1/2" unfolding abs_le_iff by linarith
  with True show ?thesis by (simp only: round_half_up_def if_True)
next
  case False
  have "of_int \<lfloor>1/2 - x\<rfloor> \<le> 1/2 - x" and "1/2 - x < of_int \<lfloor>1/2 - x\<rfloor> + 1"
    by linarith+
  then have "\<bar>of_int (- \<lfloor>1/2 - x\<rfloor>) - x\<bar> \<le> 1/2" unfolding abs_le_iff of_int_minus by linarith
  with False show ?thesis by (simp only: round_half_up_def if_False)
qed

lemma round_half_up_mono: "x \<le> y \<Longrightarrow> round_half_up x \<le> round_half_up y"
  unfolding round_half_up_def
  by (cases "0 \<le> x"; cases "0 \<le> y") (simp_all add: floor_mono, linarith+)

lemma fits_iff: "fits n x \<longleftrightarrow> (\<exists>k::int. x = of_int k / 10 ^ n)"
proof
  assume "fits n x"
  then show "\<exists>k::int. x = of_int k / 10 ^ n"
    unfolding fits_def to_fixed_def by metis
next
  assume "\<exists>k::int. x = of_int k / 10 ^ n"
  then show "fits n x" by (auto simp: fits_def to_fixed_def)
qed

lemma fits_to_fixed [simp, intro]: "fits n (to_fixed n x)"
  unfolding fits_iff to_fixed_def by blast

lemma to_fixed_fits [dec_simps]: "fits n x \<Longrightarrow> to_fixed n x = x"
  by (simp add: fits_def)

lemma fits_add [intro]: "fits n x \<Longrightarrow> fits n y \<Longrightarrow> fits n (x + y)"
  unfolding fits_iff by (metis add_divide_distrib of_int_add)

lemma fits_diff [intro]: "fits n x \<Longrightarrow> fits n y \<Longrightarrow> fits n (x - y)"
  unfolding fits_iff by (metis diff_divide_distrib of_int_diff)

lemma fits_0 [simp, intro]: "fits n 0"
  unfolding fits_iff by (rule exI [of _ 0]) simp

lemma fits_of_int [simp, intro]: "fits n (of_int k)"
  unfolding fits_iff by (rule exI [of _ "k * 10 ^ n"]) simp

lemma fits_numeral [simp, intro]: "fits n (numeral k)"
  using fits_of_int [of n "numeral k"] by simp

lemma to_fixed_nonneg: "0 \<le> x \<Longrightarrow> 0 \<le> to_fixed n x"
  by (simp add: to_fixed_def round_half_up_def)

lemma to_fixed_mono: "x \<le> y \<Longrightarrow> to_fixed n x \<le> to_fixed n y"
  unfolding to_fixed_def by (intro divide_right_mono) (simp_all add: round_half_up_mono mult_right_mono)

end
