(* ===== verification/JsString.thy ===== *)
theory JsString
  imports Prelude "HOL-Library.Char_ord"
begin

text \<open>
  The string and JSON operations of JavaScript that the sources use, on ASCII/Latin-1 strings
  (\<open>char list\<close>): \<open>trim\<close>, \<open>toLowerCase\<close>, \<open>padStart\<close>, \<open>split\<close>, the digit classes of the
  regular expressions, and a JSON value.  A JSON number is kept as the text \<open>String(v)\<close> prints.
\<close>

section \<open>Characters and strings\<close>

abbreviation code :: "char \<Rightarrow> nat" where
  "code c \<equiv> of_char c"

definition js_space :: "char \<Rightarrow> bool" where
  "js_space c \<longleftrightarrow> code c \<in> {9, 10, 11, 12, 13, 32, 160}"

definition is_digit :: "char \<Rightarrow> bool" where
  "is_digit c \<longleftrightarrow> 48 \<le> code c \<and> code c \<le> 57"

definition is_alpha :: "char \<Rightarrow> bool" where
  "is_alpha c \<longleftrightarrow> 65 \<le> code c \<and> code c \<le> 90 \<or> 97 \<le> code c \<and> code c \<le> 122"

definition lower_char :: "char \<Rightarrow> char" where
  "lower_char c = (if 65 \<le> code c \<and> code c \<le> 90 then char_of (code c + 32) else c)"

definition upper_char :: "char \<Rightarrow> char" where
  "upper_char c = (if 97 \<le> code c \<and> code c \<le> 122 then char_of (code c - 32) else c)"

definition to_lower :: "string \<Rightarrow> string" where
  "to_lower s = map lower_char s"

definition to_upper :: "string \<Rightarrow> string" where
  "to_upper s = map upper_char s"

definition js_trim :: "string \<Rightarrow> string" where
  "js_trim s = rev (dropWhile js_space (rev (dropWhile js_space s)))"

text \<open>\<open>s.replace(/\D/g, '')\<close>\<close>

definition digits_of :: "string \<Rightarrow> string" where
  "digits_of s = filter is_digit s"

text \<open>\<open>s.padStart(n, c)\<close>\<close>

definition pad_start :: "nat \<Rightarrow> char \<Rightarrow> string \<Rightarrow> string" where
  "pad_start n c s = replicate (n - length s) c @ s"

definition starts_with :: "string \<Rightarrow> string \<Rightarrow> bool" where
  "starts_with p s \<longleftrightarrow> take (length p) s = p"

definition ends_with :: "string \<Rightarrow> string \<Rightarrow> bool" where
  "ends_with p s \<longleftrightarrow> length p \<le> length s \<and> drop (length s - length p) s = p"

text \<open>A substring test, and \<open>s.split(c)\<close>.\<close>

fun contains :: "string \<Rightarrow> string \<Rightarrow> bool" where
  "contains p [] \<longleftrightarrow> p = []"
| "contains p (c # s) \<longleftrightarrow> starts_with p (c # s) \<or> contains p s"

fun split_on :: "char \<Rightarrow> string \<Rightarrow> string list" where
  "split_on d [] = [[]]"
| "split_on d (c # s) =
    (if c = d then [] # split_on d s
     else (case split_on d s of [] \<Rightarrow> [[c]] | w # ws \<Rightarrow> (c # w) # ws))"

fun join_with :: "string \<Rightarrow> string list \<Rightarrow> string" where
  "join_with sep [] = []"
| "join_with sep [w] = w"
| "join_with sep (w # v # ws) = w @ sep @ join_with sep (v # ws)"

text \<open>Decimal numerals: \<open>String(n)\<close> and \<open>parseInt\<close> on a run of digits.\<close>

fun nat_str :: "nat \<Rightarrow> string" where
  "nat_str n =
    (if n < 10 then [char_of (48 + n)] else nat_str (n div 10) @ [char_of (48 + n mod 10)])"

declare nat_str.simps [simp del]

definition digit_val :: "char \<Rightarrow> nat" where
  "digit_val c = code c - 48"

definition digits_val :: "string \<Rightarrow> nat" where
  "digits_val s = foldl (\<lambda>v c. 10 * v + digit_val c) 0 s"

section \<open>Laws\<close>

lemma is_digit_not_space [simp]: "is_digit c \<Longrightarrow> \<not> js_space c"
  by (auto simp: is_digit_def js_space_def)

lemma is_alpha_not_space [simp]: "is_alpha c \<Longrightarrow> \<not> js_space c"
  by (auto simp: is_alpha_def js_space_def)

lemma is_digit_not_alpha [simp]: "is_digit c \<Longrightarrow> \<not> is_alpha c"
  by (auto simp: is_digit_def is_alpha_def)

lemma js_trim_Nil [simp]: "js_trim [] = []"
  by (simp add: js_trim_def)

lemma dropWhile_hd: "xs = [] \<or> \<not> P (hd xs) \<Longrightarrow> dropWhile P xs = xs"
  by (cases xs) auto

lemma hd_dropWhile_not: "dropWhile P xs = [] \<or> \<not> P (hd (dropWhile P xs))"
  by (metis hd_dropWhile)

text \<open>A text that neither starts nor ends with white space is its own trim.\<close>

lemma js_trim_id:
  assumes "s \<noteq> []" and "\<not> js_space (hd s)" and "\<not> js_space (last s)"
  shows "js_trim s = s"
proof -
  from assms have "dropWhile js_space s = s" by (intro dropWhile_hd) simp
  moreover from assms have "dropWhile js_space (rev s) = rev s"
    by (intro dropWhile_hd) (simp add: hd_rev)
  ultimately show ?thesis by (simp add: js_trim_def)
qed

lemma last_js_trim: "js_trim s = [] \<or> \<not> js_space (last (js_trim s))"
  using hd_dropWhile_not [of js_space "rev (dropWhile js_space s)"]
  by (simp only: js_trim_def last_rev rev_is_Nil_conv)

lemma hd_js_trim: "js_trim s = [] \<or> \<not> js_space (hd (js_trim s))"
proof -
  let ?u = "dropWhile js_space s"
  let ?v = "dropWhile js_space (rev ?u)"
  show ?thesis
  proof (cases "?v = []")
    case True
    then show ?thesis by (simp add: js_trim_def)
  next
    case False
    have "rev ?u = takeWhile js_space (rev ?u) @ ?v" by simp
    then have "?u = rev ?v @ rev (takeWhile js_space (rev ?u))" by (metis rev_append rev_rev_ident)
    then have A: "hd ?u = hd (rev ?v)" using False by (metis hd_append2 rev_is_Nil_conv)
    have "?u \<noteq> []" using False by (metis dropWhile.simps(1) rev.simps(1))
    then have B: "\<not> js_space (hd ?u)" using hd_dropWhile_not [of js_space s] by blast
    have "js_trim s = rev ?v" by (simp only: js_trim_def)
    with A B show ?thesis by metis
  qed
qed

lemma js_trim_idem [simp]: "js_trim (js_trim s) = js_trim s"
proof (cases "js_trim s = []")
  case False
  then show ?thesis using hd_js_trim [of s] last_js_trim [of s] by (intro js_trim_id) auto
qed simp

lemma code_lower_char: "code (lower_char c) = (if 65 \<le> code c \<and> code c \<le> 90 then code c + 32 else code c)"
  by (simp add: lower_char_def)

lemma lower_char_idem [simp]: "lower_char (lower_char c) = lower_char c"
  by (auto simp: lower_char_def)

lemma to_lower_idem [simp]: "to_lower (to_lower s) = to_lower s"
  by (simp add: to_lower_def)

lemma js_space_lower_char [simp]: "js_space (lower_char c) = js_space c"
  by (auto simp: js_space_def lower_char_def)

lemma dropWhile_map_lower: "dropWhile js_space (map lower_char s) = map lower_char (dropWhile js_space s)"
  by (induction s) auto

lemma js_trim_to_lower: "js_trim (to_lower s) = to_lower (js_trim s)"
  by (simp add: js_trim_def to_lower_def dropWhile_map_lower rev_map)

lemma digits_of_append [simp]: "digits_of (s @ t) = digits_of s @ digits_of t"
  by (simp add: digits_of_def)

lemma digits_of_id: "list_all is_digit s \<Longrightarrow> digits_of s = s"
  by (simp add: digits_of_def list_all_iff)

lemma digits_of_all [simp]: "list_all is_digit (digits_of s)"
  by (simp add: digits_of_def list_all_iff)

lemma length_pad_start [simp]: "length (pad_start n c s) = max n (length s)"
  by (simp add: pad_start_def)

lemma pad_start_full [simp]: "n \<le> length s \<Longrightarrow> pad_start n c s = s"
  by (simp add: pad_start_def)

lemma starts_with_append [simp]: "starts_with p (p @ s)"
  by (simp add: starts_with_def)

lemma is_digit_char_of: "n < (10::nat) \<Longrightarrow> is_digit (char_of (48 + n))"
  by (simp add: is_digit_def)

lemma nat_str_digits: "list_all is_digit (nat_str n)"
proof (induction n rule: nat_str.induct)
  case (1 n)
  show ?case
  proof (cases "n < 10")
    case True
    then show ?thesis by (subst nat_str.simps) (simp add: is_digit_char_of)
  next
    case False
    with 1 show ?thesis by (subst nat_str.simps) (simp add: is_digit_char_of)
  qed
qed

lemma digits_val_snoc [simp]: "digits_val (s @ [c]) = 10 * digits_val s + digit_val c"
  by (simp add: digits_val_def)

lemma digit_val_char_of [simp]: "n < (10::nat) \<Longrightarrow> digit_val (char_of (48 + n)) = n"
  by (simp add: digit_val_def)

text \<open>Printing a number and reading it back.\<close>

lemma digits_val_nat_str [simp]: "digits_val (nat_str n) = n"
proof (induction n rule: nat_str.induct)
  case (1 n)
  show ?case
  proof (cases "n < 10")
    case True
    then show ?thesis by (subst nat_str.simps) (simp add: digits_val_def)
  next
    case False
    then show ?thesis using 1 by (subst nat_str.simps) (simp del: of_nat_add)
  qed
qed

lemma nat_str_inj: "nat_str m = nat_str n \<Longrightarrow> m = n"
  by (metis digits_val_nat_str)

lemma split_on_ne [simp]: "split_on d s \<noteq> []"
  by (induction s) (auto split: list.splits)

lemma split_on_no_sep: "d \<notin> set s \<Longrightarrow> split_on d s = [s]"
  by (induction s) auto

section \<open>JSON\<close>

datatype json =
    JNull
  | JBool bool
  | JNum string
  | JStr string
  | JArr "json list"
  | JObj "(string \<times> json) list"

definition obj_get :: "string \<Rightarrow> json \<Rightarrow> json option" where
  "obj_get k v = (case v of JObj kvs \<Rightarrow> map_of kvs k | _ \<Rightarrow> None)"

text \<open>
  \<open>{ ...a, k: v }\<close>: a key that is already there keeps its place and takes the new value.
\<close>

fun alist_set :: "'k \<Rightarrow> 'v \<Rightarrow> ('k \<times> 'v) list \<Rightarrow> ('k \<times> 'v) list" where
  "alist_set k v [] = [(k, v)]"
| "alist_set k v ((k', w) # kvs) = (if k' = k then (k, v) # kvs else (k', w) # alist_set k v kvs)"

definition alist_assign :: "('k \<times> 'v) list \<Rightarrow> ('k \<times> 'v) list \<Rightarrow> ('k \<times> 'v) list" where
  "alist_assign a b = fold (\<lambda>(k, v). alist_set k v) b a"

lemma map_of_alist_set [simp]: "map_of (alist_set k v kvs) = (map_of kvs)(k \<mapsto> v)"
  by (induction k v kvs rule: alist_set.induct) (auto simp: fun_eq_iff)

lemma map_of_alist_assign: "map_of (alist_assign a b) k =
    (case map_of (rev b) k of Some v \<Rightarrow> Some v | None \<Rightarrow> map_of a k)"
  by (induction b arbitrary: a)
    (auto simp: alist_assign_def map_add_def split: option.splits)

text \<open>Truthiness of a JSON value that may be missing.\<close>

definition js_truthy :: "json option \<Rightarrow> bool" where
  "js_truthy v =
    (case v of
       None \<Rightarrow> False
     | Some JNull \<Rightarrow> False
     | Some (JBool b) \<Rightarrow> b
     | Some (JNum s) \<Rightarrow> s \<noteq> ''0''
     | Some (JStr s) \<Rightarrow> s \<noteq> []
     | Some _ \<Rightarrow> True)"

definition json_str :: "json option \<Rightarrow> string option" where
  "json_str v = (case v of Some (JStr s) \<Rightarrow> Some s | _ \<Rightarrow> None)"

text \<open>\<open>a ?? b\<close> on values that may be null.\<close>

definition coalesce :: "'a option \<Rightarrow> 'a option \<Rightarrow> 'a option" where
  "coalesce a b = (case a of Some x \<Rightarrow> Some x | None \<Rightarrow> b)"

lemma coalesce_simps [simp]: "coalesce None b = b" "coalesce (Some x) b = Some x"
  by (simp_all add: coalesce_def)

end
