(* ===== verification/PayEntities.thy ===== *)
theory PayEntities
  imports JsString
begin

text \<open>
  The data of the payment service (apps/payment): the enums and entities of its database, the
  exceptions its services throw, and the state its operations work on.  The tables are those
  the migrations create; unique constraints are checked where rows are inserted.  A \<open>uuid\<close> is a
  number (a generated id is one that was never used), a \<open>Date\<close> is its milliseconds since the
  epoch, and a \<open>numeric\<close> column is the decimal its string denotes.
\<close>

section \<open>Enums\<close>

type_synonym uuid = nat
type_synonym date = int

datatype currency_code = NGN

datatype payment_provider_key = VFD | MANUAL

datatype address_status = ADDR_ACTIVE | ADDR_INACTIVE

datatype transaction_type = CREDIT | DEBIT

datatype transaction_kind = DEPOSIT | PAYOUT | BILL_PAYMENT | REVERSAL | ADJUSTMENT

datatype bill_type = AIRTIME | DATA | CABLE_TV | UTILITY | INTERNET | BETTING | OTHER

datatype transaction_status = PENDING | PROCESSING | SUCCESSFUL | FAILED | UNMATCHED

definition billTypeFromCategory :: "string \<Rightarrow> bill_type" where
  "billTypeFromCategory category =
    (let c = to_lower (js_trim category) in
     if c = ''airtime'' then AIRTIME
     else if c = ''data'' then DATA
     else if c = ''cable tv'' then CABLE_TV
     else if c = ''utility'' then UTILITY
     else if c = ''internet subscription'' then INTERNET
     else if c = ''betting'' \<or> c = ''gaming'' then BETTING
     else OTHER)"

section \<open>Exceptions\<close>

text \<open>
  The Nest HTTP exceptions by class, a plain \<open>Error\<close>, and the violation of a unique index
  (PostgreSQL 23505).  \<open>LimitExceeded\<close> is the 403 with a machine-readable code and, where the
  source sends one, the remaining allowance.
\<close>

datatype http_error =
    BadRequest string
  | Unauthorized string
  | Forbidden string
  | LimitExceeded string "money option"
  | NotFound string
  | Conflict string
  | TooManyRequests string
  | ServiceUnavailable string
  | PlainError string
  | UniqueViolation

section \<open>Entities\<close>

record wallet =
  w_id :: uuid
  w_userId :: uuid
  w_currency :: currency_code
  w_balance :: money

record address =
  a_id :: uuid
  a_walletId :: uuid
  a_provider :: payment_provider_key
  a_providerAccountNumber :: string
  a_providerAccountName :: "string option"
  a_providerTierRaw :: "string option"
  a_providerMetadata :: json
  a_status :: address_status
  a_activatedAt :: date
  a_deactivatedAt :: "date option"

record label_value =
  lv_label :: string
  lv_value :: string

record bill_details =
  bd_category :: string
  bd_billerId :: string
  bd_billerName :: string
  bd_division :: string
  bd_productId :: string
  bd_paymentItem :: string
  bd_paymentItemName :: string
  bd_customerId :: string
  bd_customerName :: "string option"
  bd_customerAddress :: "string option"
  bd_token :: "string option"
  bd_extraTokens :: "label_value list option"
  bd_details :: "label_value list option"

record transaction =
  t_id :: uuid
  t_walletId :: "uuid option"
  t_currency :: currency_code
  t_type :: transaction_type
  t_kind :: transaction_kind
  t_billType :: "bill_type option"
  t_status :: transaction_status
  t_provider :: payment_provider_key
  t_accountNumber :: string
  t_amount :: money
  t_fee :: "money option"
  t_feeVat :: "money option"
  t_stampDuty :: "money option"
  t_beneficiaryId :: "uuid option"
  t_balanceAfter :: "money option"
  t_reference :: string
  t_externalId :: "string option"
  t_providerStatusCode :: "string option"
  t_bill :: "bill_details option"
  t_narration :: "string option"
  t_occurredAt :: "date option"
  t_verifiedAt :: "date option"
  t_rawPayload :: "json option"
  t_createdAt :: date

record beneficiary =
  b_id :: uuid
  b_userId :: uuid
  b_currency :: currency_code
  b_provider :: payment_provider_key
  b_bankCode :: string
  b_bankName :: "string option"
  b_accountNumber :: string
  b_accountName :: "string option"
  b_updatedAt :: date

record webhook_event =
  h_id :: uuid
  h_provider :: payment_provider_key
  h_eventType :: string
  h_reference :: "string option"
  h_payload :: json
  h_verified :: bool
  h_verifiedAt :: "date option"
  h_verificationNote :: "string option"
  h_tsqPayload :: "json option"

record bill_beneficiary =
  bb_id :: uuid
  bb_userId :: uuid
  bb_billType :: bill_type
  bb_billerId :: string
  bb_billerName :: string
  bb_division :: string
  bb_productId :: string
  bb_customerId :: string
  bb_lastPaymentItem :: string
  bb_lastPaymentItemName :: string
  bb_lastAmount :: money
  bb_payCount :: nat
  bb_lastPaidAt :: date
  bb_nickname :: "string option"
  bb_dismissed :: bool

section \<open>State\<close>

text \<open>
  Queued BullMQ jobs (with the number of attempts they may take) and the observable calls to
  the outside: notifications, Slack issues, and the requests that move money at the provider.
\<close>

datatype job =
    ProcessTransaction uuid
  | PayoutStatusQuery uuid
  | BillStatusQuery uuid
  | FetchBillToken uuid

datatype notification_event =
  CREDIT_RECEIVED | PAYOUT_SUCCESSFUL | PAYOUT_FAILED | ACCOUNT_CREDITED | ACCOUNT_DEBITED

datatype effect =
    Notify uuid notification_event bool
  | BillReceipt uuid bool
  | FailureAlert uuid
  | SlackIssue string uuid
  | TransferRequest string money
  | BillRequest string money

record pay_state =
  wallets :: "wallet list"
  addresses :: "address list"
  txns :: "transaction list"
  beneficiaries :: "beneficiary list"
  hooks :: "webhook_event list"
  bill_bens :: "bill_beneficiary list"
  free_payouts :: "bool option"
  jobs :: "(job \<times> nat) list"
  outbox :: "effect list"
  next_id :: uuid

type_synonym 'a pay = "(http_error, 'a, pay_state) stm"

definition emit :: "effect \<Rightarrow> pay_state \<Rightarrow> pay_state" where
  "emit e s = s\<lparr>outbox := outbox s @ [e]\<rparr>"

definition enqueue :: "job \<Rightarrow> nat \<Rightarrow> pay_state \<Rightarrow> pay_state" where
  "enqueue j n s = s\<lparr>jobs := jobs s @ [(j, n)]\<rparr>"

text \<open>A new transaction row; columns the caller does not set are null.\<close>

definition new_txn ::
  "uuid option \<Rightarrow> transaction_type \<Rightarrow> transaction_kind \<Rightarrow> transaction_status \<Rightarrow>
   payment_provider_key \<Rightarrow> string \<Rightarrow> money \<Rightarrow> string \<Rightarrow> date \<Rightarrow> transaction" where
  "new_txn w ty kind st prov acct amt ref now =
    \<lparr>t_id = 0, t_walletId = w, t_currency = NGN, t_type = ty, t_kind = kind, t_billType = None,
     t_status = st, t_provider = prov, t_accountNumber = acct, t_amount = amt, t_fee = None,
     t_feeVat = None, t_stampDuty = None, t_beneficiaryId = None, t_balanceAfter = None,
     t_reference = ref, t_externalId = None, t_providerStatusCode = None, t_bill = None,
     t_narration = None, t_occurredAt = None, t_verifiedAt = None, t_rawPayload = None,
     t_createdAt = now\<rparr>"

definition same_reference :: "payment_provider_key \<Rightarrow> string \<Rightarrow> transaction \<Rightarrow> bool" where
  "same_reference p r t \<longleftrightarrow> t_provider t = p \<and> t_reference t = r"

text \<open>
  Inserting a row assigns its id and enforces \<open>UQ_transactions_provider_reference\<close>.
\<close>

definition insert_txn :: "transaction \<Rightarrow> transaction pay" where
  "insert_txn t s =
    (case find_row (same_reference (t_provider t) (t_reference t)) (txns s) of
       Some _ \<Rightarrow> (Inl UniqueViolation, s)
     | None \<Rightarrow>
        (let t' = t\<lparr>t_id := next_id s\<rparr>
         in (Inr t', s\<lparr>txns := insert_row t' (txns s), next_id := Suc (next_id s)\<rparr>)))"

definition find_txn :: "uuid \<Rightarrow> pay_state \<Rightarrow> transaction option" where
  "find_txn i s = find_row (by_key t_id i) (txns s)"

definition update_txn :: "uuid \<Rightarrow> (transaction \<Rightarrow> transaction) \<Rightarrow> pay_state \<Rightarrow> pay_state" where
  "update_txn i f s = s\<lparr>txns := update_where (by_key t_id i) f (txns s)\<rparr>"

definition find_wallet :: "uuid \<Rightarrow> pay_state \<Rightarrow> wallet option" where
  "find_wallet i s = find_row (by_key w_id i) (wallets s)"

definition update_wallet :: "uuid \<Rightarrow> (wallet \<Rightarrow> wallet) \<Rightarrow> pay_state \<Rightarrow> pay_state" where
  "update_wallet i f s = s\<lparr>wallets := update_where (by_key w_id i) f (wallets s)\<rparr>"

text \<open>Statuses the services treat as final.\<close>

definition is_final :: "transaction_status \<Rightarrow> bool" where
  "is_final st \<longleftrightarrow> st = SUCCESSFUL \<or> st = FAILED"

section \<open>Laws of the primitive operations\<close>

lemma emit_simps [simp]:
  "wallets (emit e s) = wallets s" "txns (emit e s) = txns s" "addresses (emit e s) = addresses s"
  "next_id (emit e s) = next_id s" "jobs (emit e s) = jobs s" "outbox (emit e s) = outbox s @ [e]"
  "free_payouts (emit e s) = free_payouts s" "hooks (emit e s) = hooks s"
  "beneficiaries (emit e s) = beneficiaries s" "bill_bens (emit e s) = bill_bens s"
  by (simp_all add: emit_def)

lemma enqueue_simps [simp]:
  "wallets (enqueue j n s) = wallets s" "txns (enqueue j n s) = txns s"
  "addresses (enqueue j n s) = addresses s" "next_id (enqueue j n s) = next_id s"
  "jobs (enqueue j n s) = jobs s @ [(j, n)]" "outbox (enqueue j n s) = outbox s"
  "free_payouts (enqueue j n s) = free_payouts s" "hooks (enqueue j n s) = hooks s"
  "beneficiaries (enqueue j n s) = beneficiaries s" "bill_bens (enqueue j n s) = bill_bens s"
  by (simp_all add: enqueue_def)

lemma update_txn_simps [simp]:
  "wallets (update_txn i f s) = wallets s" "addresses (update_txn i f s) = addresses s"
  "next_id (update_txn i f s) = next_id s" "jobs (update_txn i f s) = jobs s"
  "outbox (update_txn i f s) = outbox s" "free_payouts (update_txn i f s) = free_payouts s"
  "txns (update_txn i f s) = update_where (by_key t_id i) f (txns s)"
  "hooks (update_txn i f s) = hooks s" "beneficiaries (update_txn i f s) = beneficiaries s"
  "bill_bens (update_txn i f s) = bill_bens s"
  by (simp_all add: update_txn_def)

lemma update_wallet_simps [simp]:
  "txns (update_wallet i f s) = txns s" "addresses (update_wallet i f s) = addresses s"
  "next_id (update_wallet i f s) = next_id s" "jobs (update_wallet i f s) = jobs s"
  "outbox (update_wallet i f s) = outbox s" "free_payouts (update_wallet i f s) = free_payouts s"
  "wallets (update_wallet i f s) = update_where (by_key w_id i) f (wallets s)"
  "hooks (update_wallet i f s) = hooks s" "beneficiaries (update_wallet i f s) = beneficiaries s"
  "bill_bens (update_wallet i f s) = bill_bens s"
  by (simp_all add: update_wallet_def)

lemma new_txn_simps [simp]:
  "t_walletId (new_txn w ty k st p a m r d) = w" "t_type (new_txn w ty k st p a m r d) = ty"
  "t_kind (new_txn w ty k st p a m r d) = k" "t_status (new_txn w ty k st p a m r d) = st"
  "t_provider (new_txn w ty k st p a m r d) = p" "t_accountNumber (new_txn w ty k st p a m r d) = a"
  "t_amount (new_txn w ty k st p a m r d) = m" "t_reference (new_txn w ty k st p a m r d) = r"
  "t_createdAt (new_txn w ty k st p a m r d) = d" "t_fee (new_txn w ty k st p a m r d) = None"
  "t_balanceAfter (new_txn w ty k st p a m r d) = None"
  by (simp_all add: new_txn_def)

lemma insert_txn_InrD:
  assumes "insert_txn t s = (Inr t', s')"
  shows "t' = t\<lparr>t_id := next_id s\<rparr>"
    and "s' = s\<lparr>txns := insert_row t' (txns s), next_id := Suc (next_id s)\<rparr>"
    and "find_row (same_reference (t_provider t) (t_reference t)) (txns s) = None"
  using assms by (auto simp: insert_txn_def Let_def split: option.splits)

lemma insert_txn_InlD: "insert_txn t s = (Inl e, s') \<Longrightarrow> e = UniqueViolation \<and> s' = s"
  by (auto simp: insert_txn_def Let_def split: option.splits)

lemma find_txn_update_txn:
  assumes "\<And>t. t_id (f t) = t_id t"
  shows "find_txn j (update_txn i f s) =
    (if j = i then map_option f (find_txn j s) else find_txn j s)"
  using find_row_update_where_key [of t_id f, OF assms] by (simp add: find_txn_def)

lemma find_wallet_update_wallet:
  assumes "\<And>w. w_id (f w) = w_id w"
  shows "find_wallet j (update_wallet i f s) =
    (if j = i then map_option f (find_wallet j s) else find_wallet j s)"
  using find_row_update_where_key [of w_id f, OF assms] by (simp add: find_wallet_def)

lemma find_wallet_emit [simp]: "find_wallet i (emit e s) = find_wallet i s"
  by (simp add: find_wallet_def)

lemma find_wallet_enqueue [simp]: "find_wallet i (enqueue j n s) = find_wallet i s"
  by (simp add: find_wallet_def)

lemma find_wallet_update_txn [simp]: "find_wallet i (update_txn j f s) = find_wallet i s"
  by (simp add: find_wallet_def)

lemma find_txn_update_wallet [simp]: "find_txn i (update_wallet j f s) = find_txn i s"
  by (simp add: find_txn_def)

lemma find_txn_emit [simp]: "find_txn i (emit e s) = find_txn i s"
  by (simp add: find_txn_def)

lemma find_txn_enqueue [simp]: "find_txn i (enqueue j n s) = find_txn i s"
  by (simp add: find_txn_def)

lemma find_txn_id: "find_txn i s = Some t \<Longrightarrow> t_id t = i \<and> t \<in> set (txns s)"
  by (auto simp: find_txn_def dest: find_row_SomeD)

lemma find_wallet_id: "find_wallet i s = Some w \<Longrightarrow> w_id w = i \<and> w \<in> set (wallets s)"
  by (auto simp: find_wallet_def dest: find_row_SomeD)

section \<open>A small concrete state\<close>

text \<open>
  One customer (7) with one wallet (11) of a thousand naira and one account at the provider:
  the state on which the properties are applied at concrete inputs.
\<close>

definition sample_wallet :: wallet where
  "sample_wallet = \<lparr>w_id = 11, w_userId = 7, w_currency = NGN, w_balance = 1000\<rparr>"

definition sample_address :: address where
  "sample_address =
    \<lparr>a_id = 2, a_walletId = 11, a_provider = VFD, a_providerAccountNumber = ''1001'',
     a_providerAccountName = None, a_providerTierRaw = None, a_providerMetadata = JObj [],
     a_status = ADDR_ACTIVE, a_activatedAt = 0, a_deactivatedAt = None\<rparr>"

definition sample_pay :: "transaction list \<Rightarrow> pay_state" where
  "sample_pay ts =
    \<lparr>wallets = [sample_wallet], addresses = [sample_address], txns = ts, beneficiaries = [],
     hooks = [], bill_bens = [], free_payouts = Some True, jobs = [], outbox = [], next_id = 100\<rparr>"

lemma sample_simps [simp]:
  "wallets (sample_pay ts) = [sample_wallet]" "addresses (sample_pay ts) = [sample_address]"
  "txns (sample_pay ts) = ts" "next_id (sample_pay ts) = 100" "jobs (sample_pay ts) = []"
  "outbox (sample_pay ts) = []" "beneficiaries (sample_pay ts) = []"
  "free_payouts (sample_pay ts) = Some True" "bill_bens (sample_pay ts) = []"
  "hooks (sample_pay ts) = []"
  "w_id sample_wallet = 11" "w_userId sample_wallet = 7" "w_balance sample_wallet = 1000"
  "w_currency sample_wallet = NGN"
  by (simp_all add: sample_pay_def sample_wallet_def)

lemma find_sample [simp]:
  "find_wallet i (sample_pay ts) = (if i = 11 then Some sample_wallet else None)"
  "find_txn j (sample_pay ts) = find_row (by_key t_id j) ts"
  by (auto simp: find_wallet_def find_txn_def)

end
