(* ===== verification/Fees.thy ===== *)
theory Fees
  imports PayEntities
begin

text \<open>
  What a payout and a bill cost on top of the amount: \<open>payouts/fee.util.ts\<close> (tiered transfer
  fee, 7.5\% VAT rounded to kobo, stamp duty) and \<open>bills/bill-fee.ts\<close>, with the bounds the
  other components rely on.
\<close>

section \<open>Transfer fee, VAT, stamp duty\<close>

definition TIER_1_MAX :: money where "TIER_1_MAX = 5000"
definition TIER_2_MAX :: money where "TIER_2_MAX = 50000"
definition TIER_1_FEE :: money where "TIER_1_FEE = 10"
definition TIER_2_FEE :: money where "TIER_2_FEE = 25"
definition TIER_3_FEE :: money where "TIER_3_FEE = 50"

definition calculateTransferFee :: "money \<Rightarrow> money" where
  "calculateTransferFee amount =
    (if amount \<le> TIER_1_MAX then TIER_1_FEE
     else if amount \<le> TIER_2_MAX then TIER_2_FEE
     else TIER_3_FEE)"

definition FREE_PAYOUTS_PER_DAY :: nat where "FREE_PAYOUTS_PER_DAY = 2"
definition VAT_RATE :: money where "VAT_RATE = 75 / 1000"

definition withVat :: "money \<Rightarrow> money" where
  "withVat fee = to_fixed 2 (fee + fee * VAT_RATE)"

definition STAMP_DUTY :: money where "STAMP_DUTY = 50"
definition STAMP_DUTY_THRESHOLD :: money where "STAMP_DUTY_THRESHOLD = 10000"

definition stampDuty :: "money \<Rightarrow> money" where
  "stampDuty amount = (if STAMP_DUTY_THRESHOLD \<le> amount then STAMP_DUTY else 0)"

lemmas fee_defs = TIER_1_MAX_def TIER_2_MAX_def TIER_1_FEE_def TIER_2_FEE_def TIER_3_FEE_def
  VAT_RATE_def STAMP_DUTY_def STAMP_DUTY_THRESHOLD_def FREE_PAYOUTS_PER_DAY_def

text \<open>The breakdown \<open>done(fee)\<close> of \<open>PayoutsService.payoutCharges\<close> returns.\<close>

record charges =
  ch_fee :: money
  ch_vat :: money
  ch_stampDuty :: money
  ch_total :: money

definition charges_for :: "money \<Rightarrow> money \<Rightarrow> charges" where
  "charges_for duty fee =
    (let vat = withVat fee - fee
     in \<lparr>ch_fee = fee, ch_vat = vat, ch_stampDuty = duty, ch_total = fee + vat + duty\<rparr>)"

section \<open>Bill fees\<close>

record provider_biller =
  pb_id :: string
  pb_name :: string
  pb_division :: string
  pb_product :: string
  pb_category :: string
  pb_convenienceFee :: "money option"

record bill_fees =
  bf_convenienceFee :: money
  bf_serviceFee :: money
  bf_total :: money

definition FEE_FREE_TYPES :: "bill_type list" where
  "FEE_FREE_TYPES = [AIRTIME, DATA]"

definition calculateBillFees :: "provider_biller \<Rightarrow> money \<Rightarrow> bill_fees" where
  "calculateBillFees biller configuredServiceFee =
    (let convenienceFee = (case pb_convenienceFee biller of None \<Rightarrow> 0 | Some f \<Rightarrow> f);
         serviceFee = (if billTypeFromCategory (pb_category biller) \<in> set FEE_FREE_TYPES then 0
                       else configuredServiceFee)
     in \<lparr>bf_convenienceFee = convenienceFee, bf_serviceFee = serviceFee,
         bf_total = convenienceFee + serviceFee\<rparr>)"

section \<open>Bounds\<close>

lemma fits_decimal: "fits 4 (of_int k / 10000)"
  unfolding fits_iff by (rule exI [of _ k]) simp

lemma fits_2_4: "fits 2 x \<Longrightarrow> fits 4 x"
proof -
  assume "fits 2 x"
  then obtain k :: int where "x = of_int k / 10 ^ 2" unfolding fits_iff by blast
  then have "x = of_int (k * 100) / 10 ^ 4" by simp
  then show "fits 4 x" unfolding fits_iff by blast
qed

lemma withVat_values [simp]:
  "withVat 0 = 0" "withVat 10 = 1075 / 100" "withVat 25 = 2688 / 100" "withVat 50 = 5375 / 100"
  by (simp_all add: withVat_def fee_defs to_fixed_def round_half_up_def floor_eq_iff)

lemma fits_withVat: "fits 2 (withVat fee)"
  by (simp add: withVat_def)

lemma calculateTransferFee_cases:
  "calculateTransferFee a = 10 \<or> calculateTransferFee a = 25 \<or> calculateTransferFee a = 50"
  by (simp add: calculateTransferFee_def fee_defs)

lemma calculateTransferFee_bounds: "10 \<le> calculateTransferFee a" "calculateTransferFee a \<le> 50"
  using calculateTransferFee_cases [of a] by auto

lemma stampDuty_bounds: "0 \<le> stampDuty a" "stampDuty a \<le> 50"
  by (simp_all add: stampDuty_def fee_defs)

lemma fits_stampDuty [simp]: "fits n (stampDuty a)"
  by (simp add: stampDuty_def fee_defs)

text \<open>VAT never loses more than half a kobo to rounding, and is monotone in the fee.\<close>

lemma withVat_close: "\<bar>withVat fee - fee * (1 + VAT_RATE)\<bar> \<le> 1 / 200"
proof -
  define y where "y = (fee + fee * VAT_RATE) * 10 ^ 2"
  have "withVat fee - fee * (1 + VAT_RATE) = (of_int (round_half_up y) - y) / 100"
    by (simp add: withVat_def to_fixed_def y_def field_simps)
  then show ?thesis using round_half_up_close [of y] by (simp only: abs_divide) simp
qed

lemma withVat_mono: "a \<le> b \<Longrightarrow> withVat a \<le> withVat b"
  unfolding withVat_def by (intro to_fixed_mono add_mono mult_right_mono) (simp_all add: VAT_RATE_def)

lemma withVat_nonneg: "0 \<le> fee \<Longrightarrow> 0 \<le> withVat fee"
  using withVat_mono [of 0 fee] by simp

lemma charges_for_simps [simp]:
  "ch_fee (charges_for d f) = f" "ch_vat (charges_for d f) = withVat f - f"
  "ch_stampDuty (charges_for d f) = d" "ch_total (charges_for d f) = withVat f + d"
  by (simp_all add: charges_for_def Let_def)

lemma fits_charges_total: "fits 2 d \<Longrightarrow> fits 2 (ch_total (charges_for d f))"
  by (simp add: fits_add fits_withVat)

text \<open>The transfer fee is monotone in the amount, the total charge too.\<close>

lemma calculateTransferFee_mono: "a \<le> b \<Longrightarrow> calculateTransferFee a \<le> calculateTransferFee b"
  by (simp add: calculateTransferFee_def fee_defs)

lemma stampDuty_mono: "a \<le> b \<Longrightarrow> stampDuty a \<le> stampDuty b"
  by (simp add: stampDuty_def fee_defs)

lemma bf_total_nonneg:
  assumes "0 \<le> cfg" and "\<And>f. pb_convenienceFee b = Some f \<Longrightarrow> 0 \<le> f"
  shows "0 \<le> bf_total (calculateBillFees b cfg)"
  using assms by (auto simp: calculateBillFees_def Let_def split: option.splits)

text \<open>
  The charge of a payout.  For every amount the fee is one of the three tiers, the VAT is 7.5
  percent of it to within half a kobo, the stamp duty is 50 from 10000 up and nothing below, the
  total is their sum in whole kobo, between 10.75 and 103.75, and a larger amount is never
  charged less.
\<close>

theorem payout_charge:
  assumes "a \<le> b"
  shows "calculateTransferFee a \<in> {10, 25, 50} \<and>
    \<bar>ch_vat (charges_for (stampDuty a) (calculateTransferFee a)) - calculateTransferFee a * 75 / 1000\<bar> \<le> 1 / 200 \<and>
    stampDuty a = (if 10000 \<le> a then 50 else 0) \<and>
    fits 2 (ch_total (charges_for (stampDuty a) (calculateTransferFee a))) \<and>
    ch_total (charges_for (stampDuty a) (calculateTransferFee a)) =
      ch_fee (charges_for (stampDuty a) (calculateTransferFee a)) +
      ch_vat (charges_for (stampDuty a) (calculateTransferFee a)) + stampDuty a \<and>
    1075 / 100 \<le> ch_total (charges_for (stampDuty a) (calculateTransferFee a)) \<and>
    ch_total (charges_for (stampDuty a) (calculateTransferFee a)) \<le> 10375 / 100 \<and>
    ch_total (charges_for (stampDuty a) (calculateTransferFee a)) \<le>
      ch_total (charges_for (stampDuty b) (calculateTransferFee b))"
proof -
  have vat: "\<bar>ch_vat (charges_for (stampDuty a) (calculateTransferFee a)) - calculateTransferFee a * 75 / 1000\<bar>
      \<le> 1 / 200"
    using withVat_close [of "calculateTransferFee a"] by (simp add: VAT_RATE_def algebra_simps)
  have mono: "withVat (calculateTransferFee a) + stampDuty a \<le> withVat (calculateTransferFee b) + stampDuty b"
    using assms by (intro add_mono withVat_mono calculateTransferFee_mono stampDuty_mono)
  have low: "1075 / 100 \<le> withVat (calculateTransferFee a)" and high: "withVat (calculateTransferFee a) \<le> 5375 / 100"
    using calculateTransferFee_cases [of a] by auto
  show ?thesis
    using calculateTransferFee_cases [of a] vat mono low high stampDuty_bounds [of a]
      fits_charges_total [OF fits_stampDuty, of a "calculateTransferFee a"]
    by (auto simp: stampDuty_def fee_defs)
qed

theorem payout_charge_witness:
  "ch_total (charges_for (stampDuty 5000) (calculateTransferFee 5000)) = 1075 / 100 \<and>
   ch_total (charges_for (stampDuty 5000) (calculateTransferFee 5000)) \<le>
     ch_total (charges_for (stampDuty 60000) (calculateTransferFee 60000))"
  using payout_charge [of 5000 60000] by (simp add: calculateTransferFee_def stampDuty_def fee_defs)

end
