(* ===== verification/Wallets.thy ===== *)
theory Wallets
  imports Fees
begin

text \<open>
  \<open>WalletsService\<close>: reading and creating wallets, and the two operations that change a
  balance under the row lock.  The interface the payout, bill, posting and deposit components
  rely on is the locale \<open>wallet_ops\<close>; it is interpreted on the model of the service at the end.
\<close>

section \<open>Operations\<close>

definition findById :: "uuid \<Rightarrow> pay_state \<Rightarrow> wallet option" where
  "findById i s = find_wallet i s"

definition findAllForUser :: "uuid \<Rightarrow> pay_state \<Rightarrow> wallet list" where
  "findAllForUser u s = filter (\<lambda>w. w_userId w = u) (wallets s)"

definition findByUserAndCurrency :: "uuid \<Rightarrow> currency_code \<Rightarrow> pay_state \<Rightarrow> wallet option" where
  "findByUserAndCurrency u c s = find_row (\<lambda>w. w_userId w = u \<and> w_currency w = c) (wallets s)"

text \<open>The insert of \<open>save\<close>, with \<open>UQ_wallets_user_currency\<close>.\<close>

definition insert_wallet :: "uuid \<Rightarrow> currency_code \<Rightarrow> wallet pay" where
  "insert_wallet u c s =
    (case findByUserAndCurrency u c s of
       Some _ \<Rightarrow> (Inl UniqueViolation, s)
     | None \<Rightarrow>
        (let w = \<lparr>w_id = next_id s, w_userId = u, w_currency = c, w_balance = 0\<rparr>
         in (Inr w, s\<lparr>wallets := insert_row w (wallets s), next_id := Suc (next_id s)\<rparr>)))"

text \<open>
  \<open>others\<close> is what concurrent requests commit between the look-up and the insert.
\<close>

definition getOrCreateWallet ::
  "(pay_state \<Rightarrow> pay_state) \<Rightarrow> uuid \<Rightarrow> currency_code \<Rightarrow> wallet pay" where
  "getOrCreateWallet others userId currency =
    bindM (getM (findByUserAndCurrency userId currency)) (\<lambda>existing.
    case existing of
      Some w \<Rightarrow> retM w
    | None \<Rightarrow>
        bindM (updM others) (\<lambda>_.
        catchM (insert_wallet userId currency) (\<lambda>_.
          bindM (getM (findByUserAndCurrency userId currency)) (\<lambda>wallet.
          someM wallet (NotFound ''Wallet not found'')))))"

definition creditForUpdate :: "uuid \<Rightarrow> money \<Rightarrow> wallet pay" where
  "creditForUpdate walletId amount =
    bindM (getM (find_wallet walletId)) (\<lambda>found.
    bindM (someM found (NotFound ''Wallet not found'')) (\<lambda>w.
    (let newBalance = w_balance w + amount in
     bindM (updM (update_wallet walletId (\<lambda>r. r\<lparr>w_balance := to_fixed 4 newBalance\<rparr>))) (\<lambda>_.
     retM (w\<lparr>w_balance := to_fixed 4 newBalance\<rparr>)))))"

definition debitForUpdate :: "uuid \<Rightarrow> money \<Rightarrow> wallet pay" where
  "debitForUpdate walletId amount =
    bindM (getM (find_wallet walletId)) (\<lambda>found.
    bindM (someM found (NotFound ''Wallet not found'')) (\<lambda>w.
    bindM (assertM (\<not> w_balance w < amount) (BadRequest ''Insufficient balance'')) (\<lambda>_.
    (let newBalance = w_balance w - amount in
     bindM (updM (update_wallet walletId (\<lambda>r. r\<lparr>w_balance := to_fixed 4 newBalance\<rparr>))) (\<lambda>_.
     retM (w\<lparr>w_balance := to_fixed 4 newBalance\<rparr>))))))"

definition wallet_balance :: "pay_state \<Rightarrow> uuid \<Rightarrow> money option" where
  "wallet_balance s i = map_option w_balance (find_wallet i s)"

section \<open>The functional behaviour of a credit and a debit\<close>

definition set_balance :: "uuid \<Rightarrow> money \<Rightarrow> pay_state \<Rightarrow> pay_state" where
  "set_balance i b s = update_wallet i (\<lambda>r. r\<lparr>w_balance := b\<rparr>) s"

lemma set_balance_simps [simp]:
  "txns (set_balance i b s) = txns s" "addresses (set_balance i b s) = addresses s"
  "next_id (set_balance i b s) = next_id s" "jobs (set_balance i b s) = jobs s"
  "outbox (set_balance i b s) = outbox s" "free_payouts (set_balance i b s) = free_payouts s"
  "hooks (set_balance i b s) = hooks s" "beneficiaries (set_balance i b s) = beneficiaries s"
  "bill_bens (set_balance i b s) = bill_bens s"
  "map w_id (wallets (set_balance i b s)) = map w_id (wallets s)"
  "map w_userId (wallets (set_balance i b s)) = map w_userId (wallets s)"
  by (simp_all add: set_balance_def)

lemma find_txn_set_balance [simp]: "find_txn j (set_balance i b s) = find_txn j s"
  by (simp add: find_txn_def)

lemma find_wallet_set_balance:
  "find_wallet j (set_balance i b s) =
    (if j = i then map_option (\<lambda>w. w\<lparr>w_balance := b\<rparr>) (find_wallet j s) else find_wallet j s)"
  by (simp add: set_balance_def find_wallet_update_wallet)

lemma creditForUpdate_eq:
  "creditForUpdate i a s =
    (case find_wallet i s of
       None \<Rightarrow> (Inl (NotFound ''Wallet not found''), s)
     | Some w \<Rightarrow> (let b = to_fixed 4 (w_balance w + a)
                 in (Inr (w\<lparr>w_balance := b\<rparr>), set_balance i b s)))"
  by (simp add: creditForUpdate_def stm_simps set_balance_def Let_def split: option.splits)

lemma debitForUpdate_eq:
  "debitForUpdate i a s =
    (case find_wallet i s of
       None \<Rightarrow> (Inl (NotFound ''Wallet not found''), s)
     | Some w \<Rightarrow> (if w_balance w < a then (Inl (BadRequest ''Insufficient balance''), s)
                 else (let b = to_fixed 4 (w_balance w - a)
                       in (Inr (w\<lparr>w_balance := b\<rparr>), set_balance i b s))))"
  by (simp add: debitForUpdate_def stm_simps set_balance_def Let_def split: option.splits)

text \<open>Inversion: what is known after a credit or a debit that went through.\<close>

lemma creditForUpdate_InrD:
  assumes "creditForUpdate i a s = (Inr w', s')"
  obtains w where "find_wallet i s = Some w"
    and "w' = w\<lparr>w_balance := to_fixed 4 (w_balance w + a)\<rparr>"
    and "s' = set_balance i (to_fixed 4 (w_balance w + a)) s"
  using assms by (auto simp: creditForUpdate_eq Let_def split: option.splits)

lemma debitForUpdate_InrD:
  assumes "debitForUpdate i a s = (Inr w', s')"
  obtains w where "find_wallet i s = Some w" and "a \<le> w_balance w"
    and "w' = w\<lparr>w_balance := to_fixed 4 (w_balance w - a)\<rparr>"
    and "s' = set_balance i (to_fixed 4 (w_balance w - a)) s"
  using assms by (auto simp: debitForUpdate_eq Let_def not_less split: option.splits if_splits)

lemma creditForUpdate_InlD: "creditForUpdate i a s = (Inl e, s') \<Longrightarrow> s' = s"
  by (auto simp: creditForUpdate_eq Let_def split: option.splits)

lemma debitForUpdate_InlD: "debitForUpdate i a s = (Inl e, s') \<Longrightarrow> s' = s"
  by (auto simp: debitForUpdate_eq Let_def split: option.splits if_splits)

section \<open>The interface of the other components\<close>

text \<open>
  What a component that moves money relies on: a credit and a debit change one balance by
  exactly the amount (on amounts with at most four decimals, the precision of the column), a
  debit the wallet cannot cover is refused with nothing changed, and no other wallet is touched.
\<close>

locale wallet_ops =
  fixes credit :: "uuid \<Rightarrow> money \<Rightarrow> 's \<Rightarrow> (http_error + wallet) \<times> 's"
    and debit :: "uuid \<Rightarrow> money \<Rightarrow> 's \<Rightarrow> (http_error + wallet) \<times> 's"
    and balance :: "'s \<Rightarrow> uuid \<Rightarrow> money option"
  assumes credit_law: "balance s i = Some b \<Longrightarrow> fits 4 b \<Longrightarrow> fits 4 a \<Longrightarrow>
      \<exists>w s'. credit i a s = (Inr w, s') \<and> w_balance w = b + a \<and> balance s' = (balance s)(i \<mapsto> b + a)"
    and debit_law: "balance s i = Some b \<Longrightarrow> fits 4 b \<Longrightarrow> fits 4 a \<Longrightarrow> a \<le> b \<Longrightarrow>
      \<exists>w s'. debit i a s = (Inr w, s') \<and> w_balance w = b - a \<and> balance s' = (balance s)(i \<mapsto> b - a)"
    and debit_short: "balance s i = Some b \<Longrightarrow> b < a \<Longrightarrow> \<exists>e. debit i a s = (Inl e, s)"
    and unknown_wallet: "balance s i = None \<Longrightarrow>
      (\<exists>e. credit i a s = (Inl e, s)) \<and> (\<exists>e. debit i a s = (Inl e, s))"
begin

text \<open>A refund of exactly what was debited restores every balance.\<close>

lemma credit_after_debit:
  assumes "balance s i = Some b" and "fits 4 b" and "fits 4 a" and "debit i a s = (Inr w, s1)"
  obtains w' s2 where "credit i a s1 = (Inr w', s2)" and "balance s2 = balance s"
proof -
  have "\<not> b < a" using assms(1,4) debit_short by fastforce
  then have "balance s1 = (balance s)(i \<mapsto> b - a)"
    using debit_law [OF assms(1-3)] assms(4) by auto
  moreover from this have "\<exists>w' s2. credit i a s1 = (Inr w', s2) \<and> balance s2 = (balance s1)(i \<mapsto> b - a + a)"
    using credit_law [of s1 i "b - a" a] assms(2,3) by auto
  ultimately show ?thesis using that assms(1) by (auto simp: fun_upd_idem)
qed

text \<open>
  Debiting an amount and then a charge (the order payouts need, because the charge depends on
  what happened under the lock) is debiting the sum: same success, same balances.
\<close>

lemma debit_twice:
  assumes "balance s i = Some b" and "fits 4 b" and "fits 4 a" and "fits 4 c" and "a + c \<le> b"
    and "0 \<le> c"
  obtains w1 s1 w2 s2 where "debit i a s = (Inr w1, s1)" and "debit i c s1 = (Inr w2, s2)"
    and "w_balance w2 = b - (a + c)" and "balance s2 = (balance s)(i \<mapsto> b - (a + c))"
proof -
  obtain w1 s1 where 1: "debit i a s = (Inr w1, s1)" and b1: "balance s1 = (balance s)(i \<mapsto> b - a)"
    using debit_law [OF assms(1-3)] assms(5,6) by force
  then obtain w2 s2 where "debit i c s1 = (Inr w2, s2)" and "w_balance w2 = b - a - c"
    and "balance s2 = (balance s1)(i \<mapsto> b - a - c)"
    using debit_law [of s1 i "b - a" c] assms by force
  with 1 b1 that show ?thesis by (simp add: diff_diff_add)
qed

lemma debit_twice_short:
  assumes "balance s i = Some b" and "fits 4 b" and "fits 4 a" and "b < a + c"
  shows "(\<exists>e. debit i a s = (Inl e, s)) \<or>
    (\<exists>w1 s1 e. debit i a s = (Inr w1, s1) \<and> debit i c s1 = (Inl e, s1))"
proof (cases "b < a")
  case True
  then show ?thesis using debit_short assms(1) by blast
next
  case False
  then obtain w1 s1 where "debit i a s = (Inr w1, s1)" and "balance s1 i = Some (b - a)"
    using debit_law [OF assms(1-3)] by force
  then show ?thesis using debit_short [of s1 i "b - a" c] assms(4) by force
qed

text \<open>No sequence of one debit leaves a balance negative.\<close>

lemma debit_nonneg:
  assumes "balance s i = Some b" and "fits 4 b" and "fits 4 a" and "debit i a s = (Inr w, s1)"
  shows "0 \<le> w_balance w"
proof -
  have "\<not> b < a" using assms(1,4) debit_short by fastforce
  then show ?thesis using debit_law [OF assms(1-3)] assms(4) by auto
qed

end

lemma wallet_balance_set_balance:
  "find_wallet i s \<noteq> None \<Longrightarrow> wallet_balance (set_balance i b s) = (wallet_balance s)(i \<mapsto> b)"
  by (rule ext) (auto simp: wallet_balance_def find_wallet_set_balance)

interpretation wl: wallet_ops creditForUpdate debitForUpdate wallet_balance
proof (unfold_locales, goal_cases)
  case (1 s i b a)
  then obtain w where "find_wallet i s = Some w" and "b = w_balance w"
    by (auto simp: wallet_balance_def)
  with 1 show ?case
    by (simp add: creditForUpdate_eq wallet_balance_set_balance to_fixed_fits fits_add Let_def)
next
  case (2 s i b a)
  then obtain w where "find_wallet i s = Some w" and "b = w_balance w"
    by (auto simp: wallet_balance_def)
  with 2 show ?case
    by (simp add: debitForUpdate_eq wallet_balance_set_balance to_fixed_fits fits_diff Let_def)
next
  case (3 s i b a)
  then show ?case by (auto simp: debitForUpdate_eq wallet_balance_def Let_def)
next
  case (4 s i a)
  then show ?case by (auto simp: debitForUpdate_eq creditForUpdate_eq wallet_balance_def)
qed

end
