(* ===== verification/Addresses.thy ===== *)
theory Addresses
  imports Wallets
begin

text \<open>
  \<open>AddressService\<close>: the provider accounts that fund a wallet.  A wallet has at most one ACTIVE
  address (the partial unique index) and a provider account belongs to one address only; both
  are checked where a row is inserted.  \<open>provider.createAccount\<close> is a parameter: its outcome.
\<close>

section \<open>Operations\<close>

record provider_account =
  pa_provider :: payment_provider_key
  pa_accountNumber :: string
  pa_accountName :: "string option"
  pa_tierRaw :: "string option"
  pa_metadata :: json

definition active_for :: "uuid \<Rightarrow> address \<Rightarrow> bool" where
  "active_for w a \<longleftrightarrow> a_walletId a = w \<and> a_status a = ADDR_ACTIVE"

definition findActiveByProviderAccountNumber ::
  "payment_provider_key \<Rightarrow> string \<Rightarrow> pay_state \<Rightarrow> address option" where
  "findActiveByProviderAccountNumber p n s =
    find_row (\<lambda>a. a_provider a = p \<and> a_providerAccountNumber a = n \<and> a_status a = ADDR_ACTIVE)
      (addresses s)"

definition findActiveForWallet :: "uuid \<Rightarrow> pay_state \<Rightarrow> address option" where
  "findActiveForWallet w s = find_row (active_for w) (addresses s)"

text \<open>The insert, with the two unique indexes of the table.\<close>

definition insert_address :: "uuid \<Rightarrow> provider_account \<Rightarrow> date \<Rightarrow> address pay" where
  "insert_address w acc now s =
    (if find_row (\<lambda>a. a_provider a = pa_provider acc \<and>
                     a_providerAccountNumber a = pa_accountNumber acc) (addresses s) \<noteq> None
        \<or> findActiveForWallet w s \<noteq> None
     then (Inl UniqueViolation, s)
     else (let a = \<lparr>a_id = next_id s, a_walletId = w, a_provider = pa_provider acc,
                    a_providerAccountNumber = pa_accountNumber acc,
                    a_providerAccountName = pa_accountName acc, a_providerTierRaw = pa_tierRaw acc,
                    a_providerMetadata = pa_metadata acc, a_status = ADDR_ACTIVE,
                    a_activatedAt = now, a_deactivatedAt = None\<rparr>
           in (Inr a, s\<lparr>addresses := insert_row a (addresses s), next_id := Suc (next_id s)\<rparr>)))"

definition insertActiveAddress :: "uuid \<Rightarrow> provider_account \<Rightarrow> date \<Rightarrow> address pay" where
  "insertActiveAddress walletId account now =
    catchM (insert_address walletId account now) (\<lambda>_.
      bindM (getM (findActiveForWallet walletId)) (\<lambda>winner.
      someM winner (PlainError ''Address insert conflict but no ACTIVE row found afterward'')))"

text \<open>\<open>others\<close>: what concurrent requests commit during the call to the provider.\<close>

definition provisionAddress ::
  "(http_error + provider_account) \<Rightarrow> (pay_state \<Rightarrow> pay_state) \<Rightarrow> uuid \<Rightarrow> currency_code \<Rightarrow>
   date \<Rightarrow> address pay" where
  "provisionAddress createAccount others userId currency now =
    bindM (getOrCreateWallet (\<lambda>s. s) userId currency) (\<lambda>wallet.
    bindM (getM (findActiveForWallet (w_id wallet))) (\<lambda>existing.
    case existing of
      Some a \<Rightarrow> retM a
    | None \<Rightarrow>
        bindM (liftM createAccount) (\<lambda>account.
        bindM (updM others) (\<lambda>_.
        insertActiveAddress (w_id wallet) account now))))"

definition switchProvider ::
  "(http_error + provider_account) \<Rightarrow> uuid \<Rightarrow> date \<Rightarrow> address pay" where
  "switchProvider createAccount walletId now =
    bindM (liftM createAccount) (\<lambda>account.
    txM (
      bindM (updM (\<lambda>s. s\<lparr>addresses := update_where (active_for walletId)
          (\<lambda>a. a\<lparr>a_status := ADDR_INACTIVE, a_deactivatedAt := Some now\<rparr>) (addresses s)\<rparr>)) (\<lambda>_.
      insertActiveAddress walletId account now)))"

section \<open>Invariants\<close>

text \<open>The unique indexes, as invariants of the tables.\<close>

definition wallets_unique :: "pay_state \<Rightarrow> bool" where
  "wallets_unique s \<longleftrightarrow> distinct (map (\<lambda>w. (w_userId w, w_currency w)) (wallets s))"

definition one_active :: "pay_state \<Rightarrow> bool" where
  "one_active s \<longleftrightarrow> distinct (map a_walletId (filter (\<lambda>a. a_status a = ADDR_ACTIVE) (addresses s)))"

lemma find_row_key_None_notin:
  "find_row (\<lambda>r. key r = k) t = None \<longleftrightarrow> k \<notin> key ` set t"
  by (auto simp: find_row_None_iff)

lemma insert_wallet_unique:
  "wallets_unique s \<Longrightarrow> insert_wallet u c s = (r, s') \<Longrightarrow> wallets_unique s'"
  by (auto simp: insert_wallet_def findByUserAndCurrency_def wallets_unique_def Let_def
      find_row_None_iff split: option.splits)

lemma insert_wallet_user:
  "insert_wallet u c s = (Inr w, s') \<Longrightarrow> w_userId w = u \<and> w_currency w = c \<and> w \<in> set (wallets s')"
  by (auto simp: insert_wallet_def Let_def split: option.splits)

lemma findByUserAndCurrency_SomeD:
  "findByUserAndCurrency u c s = Some w \<Longrightarrow> w_userId w = u \<and> w_currency w = c \<and> w \<in> set (wallets s)"
  unfolding findByUserAndCurrency_def by (drule find_row_SomeD) simp

lemma insert_wallet_cases:
  obtains (dup) w where "findByUserAndCurrency u c s = Some w"
    and "insert_wallet u c s = (Inl UniqueViolation, s)"
  | (new) w s' where "findByUserAndCurrency u c s = None" and "insert_wallet u c s = (Inr w, s')"
  by (cases "findByUserAndCurrency u c s") (auto simp: insert_wallet_def Let_def)

text \<open>
  Whatever other requests commit in between, \<open>getOrCreateWallet\<close> returns a stored wallet of that
  user and currency and never creates a second one.
\<close>

lemma getOrCreateWallet_total:
  assumes "wallets_unique s" and "wallets_unique (others s)"
  obtains w s' where "getOrCreateWallet others u c s = (Inr w, s')" and "w_userId w = u"
    and "w_currency w = c" and "w \<in> set (wallets s')" and "wallets_unique s'"
proof (cases "findByUserAndCurrency u c s")
  case (Some w)
  moreover from this have "getOrCreateWallet others u c s = (Inr w, s)"
    by (simp add: getOrCreateWallet_def stm_simps)
  ultimately show ?thesis using that findByUserAndCurrency_SomeD assms(1) by blast
next
  case None
  show ?thesis
  proof (cases u c "others s" rule: insert_wallet_cases)
    case (dup w)
    with None have "getOrCreateWallet others u c s = (Inr w, others s)"
      by (simp add: getOrCreateWallet_def stm_simps)
    then show ?thesis using that dup(1) findByUserAndCurrency_SomeD assms(2) by blast
  next
    case (new w s')
    with None have "getOrCreateWallet others u c s = (Inr w, s')"
      by (simp add: getOrCreateWallet_def stm_simps)
    then show ?thesis
      using that insert_wallet_user insert_wallet_unique new(2) assms(2) by blast
  qed
qed

lemma findActiveForWallet_None_iff:
  "findActiveForWallet w s = None \<longleftrightarrow> (\<forall>a \<in> set (addresses s). a_status a = ADDR_ACTIVE \<longrightarrow> a_walletId a \<noteq> w)"
  by (auto simp: findActiveForWallet_def find_row_None_iff active_for_def)

lemma findActiveForWallet_SomeD:
  "findActiveForWallet w s = Some a \<Longrightarrow> a_walletId a = w \<and> a_status a = ADDR_ACTIVE \<and> a \<in> set (addresses s)"
  by (auto simp: findActiveForWallet_def active_for_def dest: find_row_SomeD)

lemma insert_address_one_active:
  "one_active s \<Longrightarrow> insert_address w acc now s = (r, s') \<Longrightarrow> one_active s'"
  by (auto simp: insert_address_def one_active_def Let_def findActiveForWallet_None_iff insert_row_def
      split: if_splits)

lemma insert_address_InrD:
  assumes "insert_address w acc now s = (Inr a, s')"
  shows "a_walletId a = w" and "a_status a = ADDR_ACTIVE" and "a \<in> set (addresses s')"
    and "wallets s' = wallets s" and "txns s' = txns s"
  using assms by (auto simp: insert_address_def Let_def split: if_splits)

lemma insert_address_InlD: "insert_address w acc now s = (Inl e, s') \<Longrightarrow> s' = s"
  by (auto simp: insert_address_def Let_def split: if_splits)

lemma insertActiveAddress_one_active:
  assumes "one_active s"
  shows "one_active (snd (insertActiveAddress w acc now s))"
  using assms insert_address_one_active [of s w acc now]
  by (auto simp: insertActiveAddress_def stm_simps split: prod.splits sum.splits option.splits)

text \<open>What \<open>insertActiveAddress\<close> returns is an ACTIVE address of that wallet, in the table.\<close>

lemma insertActiveAddress_InrD:
  assumes "insertActiveAddress w acc now s = (Inr a, s')"
  shows "a_walletId a = w \<and> a_status a = ADDR_ACTIVE \<and> a \<in> set (addresses s')"
proof (cases "insert_address w acc now s")
  case (Pair r s1)
  show ?thesis
  proof (cases r)
    case (Inr a')
    with Pair assms show ?thesis
      using insert_address_InrD [of w acc now s a' s1] by (auto simp: insertActiveAddress_def stm_simps)
  next
    case (Inl e)
    with Pair have "s1 = s" by (auto dest: insert_address_InlD)
    with Pair Inl assms show ?thesis
      by (auto simp: insertActiveAddress_def stm_simps dest: findActiveForWallet_SomeD split: option.splits)
  qed
qed

lemma one_active_deactivate:
  "one_active s \<Longrightarrow> one_active (s\<lparr>addresses := update_where (active_for w)
     (\<lambda>a. a\<lparr>a_status := ADDR_INACTIVE, a_deactivatedAt := Some now\<rparr>) (addresses s)\<rparr>)"
proof -
  have "map a_walletId (filter (\<lambda>a. a_status a = ADDR_ACTIVE) (update_where (active_for w)
      (\<lambda>a. a\<lparr>a_status := ADDR_INACTIVE, a_deactivatedAt := Some now\<rparr>) t)) =
    filter (\<lambda>v. v \<noteq> w) (map a_walletId (filter (\<lambda>a. a_status a = ADDR_ACTIVE) t))" for t
    by (induction t) (auto simp: active_for_def)
  then show "one_active s \<Longrightarrow> one_active (s\<lparr>addresses := update_where (active_for w)
     (\<lambda>a. a\<lparr>a_status := ADDR_INACTIVE, a_deactivatedAt := Some now\<rparr>) (addresses s)\<rparr>)"
    by (simp add: one_active_def)
qed

lemma switchProvider_keeps_one_active: "keeps one_active (switchProvider acc w now)"
  unfolding switchProvider_def
  by (intro keeps_bindM keeps_txM keeps_updM keeps_liftM one_active_deactivate keepsI
      insertActiveAddress_one_active)

text \<open>A redelivered provisioning message changes nothing and does not depend on the provider.\<close>

lemma provisionAddress_existing:
  assumes "findByUserAndCurrency u c s = Some w" and "findActiveForWallet (w_id w) s = Some a"
  shows "provisionAddress acc others u c now s = (Inr a, s)"
  using assms by (simp add: provisionAddress_def getOrCreateWallet_def stm_simps)

end
