(* ===== verification/VfdCodes.thy ===== *)
theory VfdCodes
  imports Prelude
begin

text \<open>
  \<open>providers/vfd/vfd-transfer-codes.ts\<close>: the two code tables of the provider (the \<open>status\<close> of a
  /transfer response and the \<open>transactionStatus\<close> of a status query) and the single decision
  taken from them.  The locale \<open>outcome_table\<close> states what the payout code relies on for
  either table.  Long dashes in the descriptions are written as a hyphen.  A JavaScript object
  also answers for the names of \<open>Object.prototype\<close>; such a code would give a value without the
  fields, which resolves to \<open>REQUERY\<close> like an unknown code does here.
\<close>

section \<open>Classification\<close>

datatype vfd_category = VC_SUCCESSFUL | VC_FAILED | VC_PENDING

datatype vfd_reversal = RI_REVERSE | RI_NO_DEBIT | RI_NO_REVERSAL | RI_NONE

record vfd_classification =
  vc_category :: vfd_category
  vc_tsqRequired :: bool
  vc_reversal :: vfd_reversal
  vc_description :: string

definition vfd_entry :: "string \<Rightarrow> vfd_category \<Rightarrow> vfd_reversal \<Rightarrow> bool \<Rightarrow> vfd_classification" where
  "vfd_entry description category reversal tsqRequired =
    \<lparr>vc_category = category, vc_tsqRequired = tsqRequired, vc_reversal = reversal,
     vc_description = description\<rparr>"

definition TRANSFER_RESPONSE_CODES :: "(string \<times> vfd_classification) list" where
  "TRANSFER_RESPONSE_CODES = [
   (''00'', vfd_entry ''Successful Transfer'' VC_SUCCESSFUL RI_NONE False),
   (''99'', vfd_entry ''Failed Transaction'' VC_FAILED RI_NO_DEBIT False),
   (''02'', vfd_entry ''Signature Mismatch'' VC_FAILED RI_NO_DEBIT False),
   (''98'', vfd_entry ''Invalid uniqueSenderAccountId / Transaction Exists'' VC_FAILED RI_NO_DEBIT True),
   (''500'', vfd_entry ''Pending State - run TSQ'' VC_PENDING RI_NONE True)]"

definition UNKNOWN_TRANSFER_RESPONSE :: vfd_classification where
  "UNKNOWN_TRANSFER_RESPONSE =
    vfd_entry ''Unrecognized or missing /transfer response status - verify via TSQ''
      VC_PENDING RI_NONE True"

text \<open>\<open>if (!status)\<close>: a missing, null or empty status.\<close>

definition classify_with ::
  "(string \<times> vfd_classification) list \<Rightarrow> vfd_classification \<Rightarrow> string option \<Rightarrow> vfd_classification" where
  "classify_with table unknown st =
    (case st of
       None \<Rightarrow> unknown
     | Some c \<Rightarrow> if c = [] then unknown
                 else (case map_of table c of Some v \<Rightarrow> v | None \<Rightarrow> unknown))"

definition classifyVfdTransferResponse :: "string option \<Rightarrow> vfd_classification" where
  "classifyVfdTransferResponse = classify_with TRANSFER_RESPONSE_CODES UNKNOWN_TRANSFER_RESPONSE"

definition TRANSACTION_STATUS_CODES :: "(string \<times> vfd_classification) list" where
  "TRANSACTION_STATUS_CODES = [
   (''00'', vfd_entry ''Approved or Completed Successfully'' VC_SUCCESSFUL RI_NONE False),
   (''01'', vfd_entry ''Status Unknown, Please wait for Settlement Report'' VC_PENDING RI_NONE True),
   (''02'', vfd_entry ''Status Unknown, Please wait for Settlement Report'' VC_PENDING RI_NONE True),
   (''03'', vfd_entry ''Invalid Sender'' VC_FAILED RI_REVERSE False),
   (''05'', vfd_entry ''Do not Honor'' VC_FAILED RI_REVERSE False),
   (''06'', vfd_entry ''Dormant Account'' VC_FAILED RI_REVERSE False),
   (''07'', vfd_entry ''Invalid Account'' VC_FAILED RI_REVERSE False),
   (''08'', vfd_entry ''Account Name Mismatch'' VC_FAILED RI_REVERSE False),
   (''09'', vfd_entry ''Request Processing in Progress'' VC_PENDING RI_NONE True),
   (''12'', vfd_entry ''Invalid Transaction'' VC_FAILED RI_REVERSE False),
   (''13'', vfd_entry ''Invalid Amount'' VC_FAILED RI_REVERSE False),
   (''14'', vfd_entry ''Invalid Batch Number'' VC_FAILED RI_REVERSE False),
   (''15'', vfd_entry ''Invalid Session or Record ID'' VC_FAILED RI_REVERSE False),
   (''16'', vfd_entry ''Unknown Bank Code'' VC_FAILED RI_REVERSE False),
   (''17'', vfd_entry ''Invalid Channel'' VC_FAILED RI_REVERSE False),
   (''18'', vfd_entry ''Wrong Method Call'' VC_FAILED RI_REVERSE False),
   (''21'', vfd_entry ''Failed with reversal'' VC_FAILED RI_REVERSE False),
   (''25'', vfd_entry ''Unable to Locate Record'' VC_PENDING RI_NONE True),
   (''26'', vfd_entry ''Successful'' VC_SUCCESSFUL RI_NONE False),
   (''30'', vfd_entry ''Format Error'' VC_FAILED RI_REVERSE False),
   (''34'', vfd_entry ''Suspected Fraud'' VC_FAILED RI_NO_REVERSAL False),
   (''35'', vfd_entry ''Contact Sending Bank'' VC_FAILED RI_NO_REVERSAL False),
   (''51'', vfd_entry ''No Sufficient Funds'' VC_FAILED RI_NO_DEBIT False),
   (''57'', vfd_entry ''Transaction not Permitted to Sender'' VC_FAILED RI_REVERSE False),
   (''58'', vfd_entry ''Transaction not Permitted on Channel'' VC_FAILED RI_REVERSE False),
   (''61'', vfd_entry ''Transaction Limit Exceeded'' VC_FAILED RI_REVERSE False),
   (''63'', vfd_entry ''Security Violation'' VC_FAILED RI_NO_REVERSAL False),
   (''65'', vfd_entry ''Exceeds Withdrawal Frequency'' VC_FAILED RI_REVERSE False),
   (''68'', vfd_entry ''Response Received Too Late'' VC_FAILED RI_REVERSE False),
   (''69'', vfd_entry ''Unsuccessful Account/Amount Block'' VC_FAILED RI_REVERSE False),
   (''70'', vfd_entry ''Unsuccessful Account/Amount Block'' VC_FAILED RI_REVERSE False),
   (''71'', vfd_entry ''Empty Mandate Reference Number'' VC_FAILED RI_REVERSE False),
   (''81'', vfd_entry ''Transaction Failed'' VC_FAILED RI_REVERSE False),
   (''91'', vfd_entry ''Beneficiary Bank Not Available'' VC_FAILED RI_REVERSE True),
   (''92'', vfd_entry ''Routing Error'' VC_FAILED RI_REVERSE False),
   (''94'', vfd_entry ''Duplicate Transaction'' VC_PENDING RI_NONE True),
   (''96'', vfd_entry ''System Malfunction'' VC_PENDING RI_NONE True),
   (''97'', vfd_entry ''Timeout Waiting for response from Destination'' VC_FAILED RI_REVERSE False),
   (''98'', vfd_entry ''Transaction Exists'' VC_FAILED RI_NO_DEBIT True),
   (''99'', vfd_entry ''Transaction Failed'' VC_FAILED RI_NO_DEBIT False),
   (''500'', vfd_entry ''Internal server error'' VC_PENDING RI_NONE True)]"

definition UNKNOWN_TRANSACTION_STATUS :: vfd_classification where
  "UNKNOWN_TRANSACTION_STATUS =
    vfd_entry (''Missing/unrecognized transactionStatus '' @
        ''(docs: null = \"Failed with reversal\") - verify via TSQ'')
      VC_FAILED RI_REVERSE True"

definition classifyVfdTransactionStatus :: "string option \<Rightarrow> vfd_classification" where
  "classifyVfdTransactionStatus = classify_with TRANSACTION_STATUS_CODES UNKNOWN_TRANSACTION_STATUS"

datatype transfer_outcome = TO_SUCCESSFUL | TO_FAILED | TO_HOLD | TO_REQUERY

definition resolveVfdOutcome :: "vfd_classification \<Rightarrow> transfer_outcome" where
  "resolveVfdOutcome c =
    (if vc_tsqRequired c then TO_REQUERY
     else if vc_category c = VC_SUCCESSFUL then TO_SUCCESSFUL
     else if vc_category c = VC_FAILED then
       (if vc_reversal c = RI_NO_REVERSAL then TO_HOLD else TO_FAILED)
     else TO_REQUERY)"

section \<open>What both tables guarantee\<close>

text \<open>
  An entry is coherent when success reverses nothing, when a failure says what to do with the
  money, and when a pending code asks for a query.
\<close>

definition coherent :: "vfd_classification \<Rightarrow> bool" where
  "coherent c \<longleftrightarrow>
    (vc_category c = VC_SUCCESSFUL \<longrightarrow> vc_reversal c = RI_NONE \<and> \<not> vc_tsqRequired c) \<and>
    (vc_category c = VC_FAILED \<longrightarrow> vc_reversal c \<noteq> RI_NONE) \<and>
    (vc_category c = VC_PENDING \<longrightarrow> vc_reversal c = RI_NONE \<and> vc_tsqRequired c)"

locale outcome_table =
  fixes classify :: "string option \<Rightarrow> vfd_classification"
  assumes classify_coherent: "coherent (classify st)"
    and classify_missing: "vc_tsqRequired (classify None)" "vc_tsqRequired (classify (Some []))"
begin

text \<open>Money is returned only for a definite failure that the provider does not forbid to reverse.\<close>

lemma failed_iff:
  "resolveVfdOutcome (classify st) = TO_FAILED \<longleftrightarrow>
    \<not> vc_tsqRequired (classify st) \<and> vc_category (classify st) = VC_FAILED \<and>
    vc_reversal (classify st) \<in> {RI_REVERSE, RI_NO_DEBIT}"
  using classify_coherent [of st]
  by (cases "vc_reversal (classify st)") (auto simp: resolveVfdOutcome_def coherent_def)

lemma successful_iff:
  "resolveVfdOutcome (classify st) = TO_SUCCESSFUL \<longleftrightarrow> vc_category (classify st) = VC_SUCCESSFUL"
  using classify_coherent [of st] by (auto simp: resolveVfdOutcome_def coherent_def)

lemma requery_iff:
  "resolveVfdOutcome (classify st) = TO_REQUERY \<longleftrightarrow> vc_tsqRequired (classify st)"
  using classify_coherent [of st]
  by (cases "vc_category (classify st)") (auto simp: resolveVfdOutcome_def coherent_def)

lemma missing_requeries:
  "resolveVfdOutcome (classify None) = TO_REQUERY" "resolveVfdOutcome (classify (Some [])) = TO_REQUERY"
  using classify_missing by (simp_all add: resolveVfdOutcome_def)

end

lemma vfd_entry_simps [simp]:
  "vc_category (vfd_entry d c r t) = c" "vc_tsqRequired (vfd_entry d c r t) = t"
  "vc_reversal (vfd_entry d c r t) = r" "vc_description (vfd_entry d c r t) = d"
  by (simp_all add: vfd_entry_def)

lemma coherent_entry [simp]:
  "coherent (vfd_entry d c r t) =
    (case c of VC_SUCCESSFUL \<Rightarrow> r = RI_NONE \<and> \<not> t
     | VC_FAILED \<Rightarrow> r \<noteq> RI_NONE
     | VC_PENDING \<Rightarrow> r = RI_NONE \<and> t)"
  by (auto simp: coherent_def split: vfd_category.splits)

lemma resolve_entry [simp]:
  "resolveVfdOutcome (vfd_entry d c r t) =
    (if t then TO_REQUERY
     else (case c of VC_SUCCESSFUL \<Rightarrow> TO_SUCCESSFUL
           | VC_FAILED \<Rightarrow> (if r = RI_NO_REVERSAL then TO_HOLD else TO_FAILED)
           | VC_PENDING \<Rightarrow> TO_REQUERY))"
  by (auto simp: resolveVfdOutcome_def split: vfd_category.splits)

lemma classify_with_cases: "classify_with t u st = u \<or> classify_with t u st \<in> snd ` set t"
  by (auto simp: classify_with_def split: option.splits dest!: map_of_SomeD intro: rev_image_eqI)

lemma classify_with_coherent:
  "list_all (coherent \<circ> snd) t \<Longrightarrow> coherent u \<Longrightarrow> coherent (classify_with t u st)"
  using classify_with_cases [of t u st] by (auto simp: list_all_iff)

lemma classify_with_unknown:
  "\<forall>c. st = Some c \<longrightarrow> c \<notin> fst ` set t \<Longrightarrow> classify_with t u st = u"
  by (auto simp: classify_with_def split: option.splits dest!: map_of_SomeD)
    (metis fst_conv imageI)

text \<open>Which codes lead to a given decision: a computation over the rows of the table.\<close>

lemma classify_with_outcome_iff:
  assumes "distinct (map fst t)" and "[] \<notin> fst ` set t" and "resolveVfdOutcome u \<noteq> r"
  shows "resolveVfdOutcome (classify_with t u (Some c)) = r \<longleftrightarrow>
    c \<in> set (map fst (filter (\<lambda>e. resolveVfdOutcome (snd e) = r) t))"
proof -
  have M: "map_of t c = Some v \<longleftrightarrow> (c, v) \<in> set t" for v
    using assms(1) by (auto dest: map_of_SomeD)
  show ?thesis
  proof (cases "map_of t c")
    case None
    then have "c \<notin> fst ` set t" by (simp add: map_of_eq_None_iff)
    then show ?thesis using None assms(3) by (auto simp: classify_with_def)
  next
    case (Some v)
    then have "(c, v) \<in> set t" and "c \<noteq> []" using M assms(2) by (force, force)
    then have "classify_with t u (Some c) = v" using Some by (simp add: classify_with_def)
    moreover have "c \<in> set (map fst (filter (\<lambda>e. resolveVfdOutcome (snd e) = r) t)) \<longleftrightarrow>
        resolveVfdOutcome v = r"
      using M Some by (auto simp: image_iff) force
    ultimately show ?thesis by simp
  qed
qed

lemma tables_coherent:
  "list_all (coherent \<circ> snd) TRANSFER_RESPONSE_CODES" "coherent UNKNOWN_TRANSFER_RESPONSE"
  "list_all (coherent \<circ> snd) TRANSACTION_STATUS_CODES" "coherent UNKNOWN_TRANSACTION_STATUS"
  by (simp_all add: TRANSFER_RESPONSE_CODES_def TRANSACTION_STATUS_CODES_def 
      UNKNOWN_TRANSFER_RESPONSE_def UNKNOWN_TRANSACTION_STATUS_def)

interpretation transfer_table: outcome_table classifyVfdTransferResponse
proof (unfold_locales, goal_cases)
  case (1 st)
  then show ?case by (simp add: classifyVfdTransferResponse_def classify_with_coherent tables_coherent)
qed (simp_all add: classifyVfdTransferResponse_def classify_with_def UNKNOWN_TRANSFER_RESPONSE_def)

interpretation status_table: outcome_table classifyVfdTransactionStatus
proof (unfold_locales, goal_cases)
  case (1 st)
  then show ?case by (simp add: classifyVfdTransactionStatus_def classify_with_coherent tables_coherent)
qed (simp_all add: classifyVfdTransactionStatus_def classify_with_def UNKNOWN_TRANSACTION_STATUS_def)

lemma status_codes_distinct:
  "distinct (map fst TRANSACTION_STATUS_CODES)" "[] \<notin> fst ` set TRANSACTION_STATUS_CODES"
  "resolveVfdOutcome UNKNOWN_TRANSACTION_STATUS = TO_REQUERY"
  by (simp_all add: TRANSACTION_STATUS_CODES_def UNKNOWN_TRANSACTION_STATUS_def)

lemma status_outcome_rows:
  "map fst (filter (\<lambda>e. resolveVfdOutcome (snd e) = TO_HOLD) TRANSACTION_STATUS_CODES) =
    [''34'', ''35'', ''63'']"
  "map fst (filter (\<lambda>e. resolveVfdOutcome (snd e) = TO_SUCCESSFUL) TRANSACTION_STATUS_CODES) =
    [''00'', ''26'']"
  by (simp_all add: TRANSACTION_STATUS_CODES_def)

text \<open>The codes that must never be refunded automatically, and those that settle a payout.\<close>

lemma status_hold_codes:
  "resolveVfdOutcome (classifyVfdTransactionStatus (Some c)) = TO_HOLD \<longleftrightarrow>
    c \<in> {''34'', ''35'', ''63''}"
  using classify_with_outcome_iff [OF status_codes_distinct(1,2), of UNKNOWN_TRANSACTION_STATUS TO_HOLD c]
  by (simp only: classifyVfdTransactionStatus_def status_outcome_rows status_codes_distinct(3)) simp

lemma status_successful_codes:
  "resolveVfdOutcome (classifyVfdTransactionStatus (Some c)) = TO_SUCCESSFUL \<longleftrightarrow>
    c \<in> {''00'', ''26''}"
  using classify_with_outcome_iff [OF status_codes_distinct(1,2), of UNKNOWN_TRANSACTION_STATUS TO_SUCCESSFUL c]
  by (simp only: classifyVfdTransactionStatus_def status_outcome_rows status_codes_distinct(3)) simp

lemma transfer_never_holds: "resolveVfdOutcome (classifyVfdTransferResponse st) \<noteq> TO_HOLD"
  by (cases st) (simp_all add: classifyVfdTransferResponse_def classify_with_def
      TRANSFER_RESPONSE_CODES_def UNKNOWN_TRANSFER_RESPONSE_def)

lemma unknown_requeries:
  "resolveVfdOutcome UNKNOWN_TRANSFER_RESPONSE = TO_REQUERY"
  "resolveVfdOutcome UNKNOWN_TRANSACTION_STATUS = TO_REQUERY"
  by (simp_all add: UNKNOWN_TRANSFER_RESPONSE_def UNKNOWN_TRANSACTION_STATUS_def)

lemma decided_codes_known:
  "resolveVfdOutcome u = TO_REQUERY \<Longrightarrow> resolveVfdOutcome (classify_with t u (Some c)) \<noteq> TO_REQUERY \<Longrightarrow>
    c \<in> fst ` set t"
  using classify_with_unknown [of "Some c" t u] by (metis option.inject)

text \<open>
  What a provider code does to the money.  A status query settles a payout as paid for exactly
  the codes 00 and 26, and withholds it for review for exactly 34, 35 and 63; the answer to the
  transfer itself is never a hold; money is given back only for a code of the tables that says
  FAILED, asks for no query and does not forbid the reversal; and a missing, empty or unknown code
  never settles anything: it is asked again.
\<close>

theorem vfd_codes_and_money:
  "{c. resolveVfdOutcome (classifyVfdTransactionStatus (Some c)) = TO_SUCCESSFUL} = {''00'', ''26''} \<and>
   {c. resolveVfdOutcome (classifyVfdTransactionStatus (Some c)) = TO_HOLD} = {''34'', ''35'', ''63''} \<and>
   {st. resolveVfdOutcome (classifyVfdTransferResponse st) = TO_HOLD} = {} \<and>
   {v. \<exists>st. v \<in> {classifyVfdTransferResponse st, classifyVfdTransactionStatus st} \<and>
      resolveVfdOutcome v = TO_FAILED} \<subseteq>
     {v. vc_category v = VC_FAILED \<and> \<not> vc_tsqRequired v \<and> vc_reversal v \<in> {RI_REVERSE, RI_NO_DEBIT}} \<and>
   {c. resolveVfdOutcome (classifyVfdTransferResponse (Some c)) \<noteq> TO_REQUERY} \<subseteq>
     fst ` set TRANSFER_RESPONSE_CODES \<and>
   {c. resolveVfdOutcome (classifyVfdTransactionStatus (Some c)) \<noteq> TO_REQUERY} \<subseteq>
     fst ` set TRANSACTION_STATUS_CODES \<and>
   resolveVfdOutcome (classifyVfdTransferResponse None) = TO_REQUERY \<and>
   resolveVfdOutcome (classifyVfdTransactionStatus None) = TO_REQUERY"
proof (intro conjI)
  show "{c. resolveVfdOutcome (classifyVfdTransferResponse (Some c)) \<noteq> TO_REQUERY} \<subseteq>
     fst ` set TRANSFER_RESPONSE_CODES"
    unfolding classifyVfdTransferResponse_def using decided_codes_known [OF unknown_requeries(1)] by blast
  show "{c. resolveVfdOutcome (classifyVfdTransactionStatus (Some c)) \<noteq> TO_REQUERY} \<subseteq>
     fst ` set TRANSACTION_STATUS_CODES"
    unfolding classifyVfdTransactionStatus_def using decided_codes_known [OF unknown_requeries(2)] by blast
  show "{v. \<exists>st. v \<in> {classifyVfdTransferResponse st, classifyVfdTransactionStatus st} \<and>
      resolveVfdOutcome v = TO_FAILED} \<subseteq>
     {v. vc_category v = VC_FAILED \<and> \<not> vc_tsqRequired v \<and> vc_reversal v \<in> {RI_REVERSE, RI_NO_DEBIT}}"
    using transfer_table.failed_iff status_table.failed_iff by blast
qed (use status_successful_codes status_hold_codes transfer_never_holds
    transfer_table.missing_requeries status_table.missing_requeries in blast)+

end
