(* ===== verification/Providers.thy ===== *)
theory Providers
  imports Addresses VfdCodes
begin

text \<open>
  \<open>payment-provider.interface.ts\<close> and \<open>payment-provider.registry.ts\<close>: what the payment
  components know of a provider (its operations, each a function from its input to a result
  or an exception) and how one is resolved by currency or by key.
\<close>

section \<open>The interface of a provider\<close>

datatype transfer_type = INTRA | INTER

record applicant =
  ap_bvn :: string
  ap_dateOfBirth :: string
  ap_firstName :: string
  ap_lastName :: string

record provider_bank =
  bk_code :: string
  bk_name :: string

record account_details =
  ad_accountNumber :: string
  ad_accountId :: string
  ad_clientId :: string
  ad_clientName :: string
  ad_bvn :: "string option"
  ad_balance :: "string option"

record transfer_recipient =
  rc_name :: "string option"
  rc_clientId :: "string option"
  rc_bvn :: "string option"
  rc_accountNumber :: string
  rc_accountId :: "string option"
  rc_bankName :: "string option"
  rc_currency :: "string option"

record transfer_input =
  ti_from :: account_details
  ti_senderAccountId :: "string option"
  ti_to :: transfer_recipient
  ti_bankCode :: string
  ti_transferType :: transfer_type
  ti_amount :: money
  ti_reference :: string
  ti_narration :: string

record transfer_result =
  tr_outcome :: transfer_outcome
  tr_providerReference :: string
  tr_externalId :: "string option"
  tr_providerStatusCode :: "string option"
  tr_rawPayload :: "json option"

record payment_provider =
  pp_key :: payment_provider_key
  pp_createAccount :: "applicant \<Rightarrow> http_error + provider_account"
  pp_listBanks :: "http_error + provider_bank list"
  pp_resolveTransferType :: "string \<Rightarrow> transfer_type"
  pp_getAccountDetails :: "string option \<Rightarrow> http_error + account_details"
  pp_lookupTransferRecipient :: "string \<Rightarrow> string \<Rightarrow> transfer_type \<Rightarrow> http_error + transfer_recipient"
  pp_initiateTransfer :: "transfer_input \<Rightarrow> http_error + transfer_result"
  pp_queryTransferStatus :: "string \<Rightarrow> http_error + transfer_result"

section \<open>The registry\<close>

record registry =
  rg_byKey :: "(payment_provider_key \<times> payment_provider) list"
  rg_byCurrency :: "(currency_code \<times> payment_provider) list"

definition resolveProviderKey :: "string \<Rightarrow> http_error + payment_provider_key" where
  "resolveProviderKey raw =
    (if raw = ''vfd'' then Inr VFD else Inl (PlainError ''Unknown payment provider''))"

fun register_currencies ::
  "(currency_code \<times> string) list \<Rightarrow> registry \<Rightarrow> http_error + registry" where
  "register_currencies [] rg = Inr rg"
| "register_currencies ((currency, raw) # rest) rg =
    (case resolveProviderKey raw of
       Inl e \<Rightarrow> Inl e
     | Inr key \<Rightarrow>
        (case map_of (rg_byKey rg) key of
           None \<Rightarrow> Inl (PlainError ''Unknown payment provider key for currency'')
         | Some provider \<Rightarrow>
             register_currencies rest
               (rg\<lparr>rg_byCurrency := alist_set currency provider (rg_byCurrency rg)\<rparr>)))"

definition make_registry ::
  "payment_provider \<Rightarrow> (currency_code \<times> string) list \<Rightarrow> http_error + registry" where
  "make_registry vfd providerByCurrency =
    register_currencies providerByCurrency \<lparr>rg_byKey = [(VFD, vfd)], rg_byCurrency = []\<rparr>"

definition getProviderForCurrency ::
  "registry \<Rightarrow> currency_code \<Rightarrow> http_error + payment_provider" where
  "getProviderForCurrency rg c =
    (case map_of (rg_byCurrency rg) c of
       None \<Rightarrow> Inl (ServiceUnavailable ''No payment provider configured for currency'')
     | Some p \<Rightarrow> Inr p)"

definition getProviderByKey ::
  "registry \<Rightarrow> payment_provider_key \<Rightarrow> http_error + payment_provider" where
  "getProviderByKey rg k =
    (case map_of (rg_byKey rg) k of
       None \<Rightarrow> Inl (ServiceUnavailable ''Unknown payment provider'')
     | Some p \<Rightarrow> Inr p)"

section \<open>The provisioning message\<close>

text \<open>
  \<open>AccountProvisioningConsumer.process\<close>: the message is acknowledged when an address is there,
  and rejected without requeue (dead-lettered) on any exception.
\<close>

datatype delivery = Ack | DeadLetter

definition process_provisioning ::
  "registry \<Rightarrow> (pay_state \<Rightarrow> pay_state) \<Rightarrow> uuid \<Rightarrow> currency_code \<Rightarrow> applicant \<Rightarrow> date \<Rightarrow> delivery pay" where
  "process_provisioning rg others userId currency message now =
    catchM
      (bindM (provisionAddress
          (case getProviderForCurrency rg currency of
             Inl e \<Rightarrow> Inl e
           | Inr provider \<Rightarrow> pp_createAccount provider message)
          others userId currency now) (\<lambda>_. retM Ack))
      (\<lambda>_. retM DeadLetter)"

text \<open>
  A registry that could be built resolves each configured currency to the VFD adapter, and
  nothing but VFD by key.
\<close>

lemma register_currencies_vfd:
  assumes "register_currencies cs rg = Inr rg'" and "rg_byKey rg = [(VFD, vfd)]"
    and "\<forall>(c, p) \<in> set (rg_byCurrency rg). p = vfd"
  shows "rg_byKey rg' = [(VFD, vfd)]"
    and "map_of (rg_byCurrency rg') c =
      (if c \<in> fst ` set cs then Some vfd else map_of (rg_byCurrency rg) c)"
proof -
  have "rg_byKey rg' = [(VFD, vfd)] \<and> (\<forall>c. map_of (rg_byCurrency rg') c =
      (if c \<in> fst ` set cs then Some vfd else map_of (rg_byCurrency rg) c))"
    using assms
  proof (induction cs rg rule: register_currencies.induct)
    case (1 rg)
    then show ?case by simp
  next
    case (2 currency raw rest rg)
    have set_vfd: "\<forall>(c, p) \<in> set (alist_set k vfd kvs). p = vfd"
      if "\<forall>(c, p) \<in> set kvs. p = vfd" for k :: currency_code and kvs
      using that by (induction k vfd kvs rule: alist_set.induct) auto
    from 2 show ?case
      by (auto simp: resolveProviderKey_def set_vfd split: if_splits)
  qed
  then show "rg_byKey rg' = [(VFD, vfd)]" and "map_of (rg_byCurrency rg') c =
      (if c \<in> fst ` set cs then Some vfd else map_of (rg_byCurrency rg) c)" by auto
qed

lemma make_registry_resolves:
  assumes "make_registry vfd cfg = Inr rg"
  shows "getProviderForCurrency rg c =
      (if c \<in> fst ` set cfg then Inr vfd
       else Inl (ServiceUnavailable ''No payment provider configured for currency''))"
    and "getProviderByKey rg k = (if k = VFD then Inr vfd else Inl (ServiceUnavailable ''Unknown payment provider''))"
  using register_currencies_vfd [OF assms [unfolded make_registry_def], of vfd]
  by (auto simp: getProviderForCurrency_def getProviderByKey_def)

text \<open>A message that was acknowledged left an ACTIVE address on a wallet of that user.\<close>

lemma process_provisioning_Ack:
  assumes "process_provisioning rg others u c m now s = (Inr Ack, s')"
  obtains a where "a \<in> set (addresses s')" and "a_status a = ADDR_ACTIVE"
proof -
  have "\<exists>a. a \<in> set (addresses s') \<and> a_status a = ADDR_ACTIVE"
    using assms
    by (auto simp: process_provisioning_def provisionAddress_def stm_simps
        dest!: insertActiveAddress_InrD findActiveForWallet_SomeD
        split: prod.splits sum.splits option.splits)
  with that show ?thesis by blast
qed

end
