(* ===== verification/PayNotify.thy ===== *)
theory PayNotify
  imports Providers
begin

text \<open>
  \<open>NotificationsService\<close> as far as money operations see it: whether a transaction event is
  published at all.  Push, Slack feed and receipt email of one event are one effect here;
  their texts are in theory Messages.  Every failure in there is swallowed by the source.
\<close>

section \<open>Operations\<close>

definition notifyTransaction ::
  "transaction option \<Rightarrow> notification_event \<Rightarrow> bool \<Rightarrow> pay_state \<Rightarrow> pay_state" where
  "notifyTransaction transaction event receiptEmail s =
    (case transaction of
       None \<Rightarrow> s
     | Some t \<Rightarrow>
        (case t_walletId t of
           None \<Rightarrow> s
         | Some w \<Rightarrow>
            (case findById w s of
               None \<Rightarrow> s
             | Some _ \<Rightarrow> emit (Notify (t_id t) event receiptEmail) s)))"

definition alertTransaction :: "transaction \<Rightarrow> pay_state \<Rightarrow> pay_state" where
  "alertTransaction t s = emit (FailureAlert (t_id t)) s"

definition sendBillReceiptEmail :: "transaction \<Rightarrow> bool \<Rightarrow> pay_state \<Rightarrow> pay_state" where
  "sendBillReceiptEmail t tokenMissing s =
    (case t_walletId t of
       None \<Rightarrow> s
     | Some w \<Rightarrow>
        (case findById w s of
           None \<Rightarrow> s
         | Some _ \<Rightarrow>
            (case t_bill t of None \<Rightarrow> s | Some _ \<Rightarrow> emit (BillReceipt (t_id t) tokenMissing) s)))"

definition reportIssueToSlack :: "string \<Rightarrow> uuid \<Rightarrow> pay_state \<Rightarrow> pay_state" where
  "reportIssueToSlack title i s = emit (SlackIssue title i) s"

section \<open>A notification never touches the books\<close>

text \<open>The part of the state that is stored; notifications and alerts leave it alone.\<close>

definition books :: "pay_state \<Rightarrow> pay_state" where
  "books s = s\<lparr>outbox := []\<rparr>"

lemma books_emit [simp]: "books (emit e s) = books s"
  by (simp add: books_def emit_def)

lemma books_notify [simp]:
  "books (notifyTransaction t ev r s) = books s"
  "books (alertTransaction t0 s) = books s"
  "books (sendBillReceiptEmail t0 b s) = books s"
  "books (reportIssueToSlack m i s) = books s"
  by (simp_all add: notifyTransaction_def alertTransaction_def sendBillReceiptEmail_def
      reportIssueToSlack_def split: option.splits)

lemma booksD:
  assumes "books s = books s'"
  shows "wallets s = wallets s'" "txns s = txns s'" "addresses s = addresses s'"
    "next_id s = next_id s'" "jobs s = jobs s'" "free_payouts s = free_payouts s'"
    "hooks s = hooks s'" "beneficiaries s = beneficiaries s'" "bill_bens s = bill_bens s'"
  using assms by (cases s; cases s'; simp add: books_def)+

lemmas notify_simps [simp] =
  booksD [OF books_notify(1)] booksD [OF books_notify(2)]
  booksD [OF books_notify(3)] booksD [OF books_notify(4)]

lemma find_notify [simp]:
  "find_wallet i (notifyTransaction t ev r s) = find_wallet i s"
  "find_txn i (notifyTransaction t ev r s) = find_txn i s"
  "find_wallet i (alertTransaction t0 s) = find_wallet i s"
  "find_txn i (alertTransaction t0 s) = find_txn i s"
  "find_wallet i (sendBillReceiptEmail t0 b s) = find_wallet i s"
  "find_txn i (sendBillReceiptEmail t0 b s) = find_txn i s"
  "find_wallet i (reportIssueToSlack m j s) = find_wallet i s"
  "find_txn i (reportIssueToSlack m j s) = find_txn i s"
  by (simp_all add: find_wallet_def find_txn_def)

lemma outbox_notify:
  "outbox (notifyTransaction t ev r s) =
    outbox s @ (case t of None \<Rightarrow> [] | Some x \<Rightarrow>
      (case t_walletId x of None \<Rightarrow> [] | Some w \<Rightarrow>
        (if find_wallet w s = None then [] else [Notify (t_id x) ev r])))"
  by (auto simp: notifyTransaction_def findById_def split: option.splits)

lemma outbox_reportIssue [simp]: "outbox (reportIssueToSlack m i s) = outbox s @ [SlackIssue m i]"
  by (simp add: reportIssueToSlack_def)

lemma outbox_alert [simp]: "outbox (alertTransaction t s) = outbox s @ [FailureAlert (t_id t)]"
  by (simp add: alertTransaction_def)

end
