(* ===== verification/Payins.thy ===== *)
theory Payins
  imports PayNotify
begin

text \<open>
  Money in: the inward-credit webhook with its status check at the provider
  (\<open>webhooks.service.ts\<close>, \<open>webhooks.controller.ts\<close>, \<open>vfd-auth-header.ts\<close>), the recording of a
  deposit (\<open>transactions.service.ts\<close>), the worker that credits it
  (\<open>transactions.processor.ts\<close>), and the reads of the transaction history with the parsing of
  their query parameters (\<open>transactions.controller.ts\<close>).

  Parameters: \<open>dec\<close> is the parsing of \<open>decimal.js\<close> (None when it throws; infinite values and NaN
  are not modelled), \<open>parse_date\<close> is \<open>new Date(text)\<close> (None for an invalid date), \<open>queue_ok\<close>
  tells whether the job queue accepts the job, \<open>now\<close> is the clock.
\<close>

section \<open>Recording a deposit\<close>

record payin_input =
  pi_provider :: payment_provider_key
  pi_currency :: currency_code
  pi_accountNumber :: string
  pi_amount :: money
  pi_reference :: string
  pi_externalId :: "string option"
  pi_narration :: "string option"
  pi_occurredAt :: "date option"
  pi_rawPayload :: "json option"

text \<open>\<open>INSERT ... ON CONFLICT DO NOTHING\<close> returning the new row, if there is one.\<close>

definition insert_or_ignore :: "transaction \<Rightarrow> transaction option pay" where
  "insert_or_ignore t = catchM (bindM (insert_txn t) (\<lambda>t'. retM (Some t'))) (\<lambda>_. retM None)"

definition payin_wallet :: "payin_input \<Rightarrow> pay_state \<Rightarrow> wallet option" where
  "payin_wallet inp s =
    (case findActiveByProviderAccountNumber (pi_provider inp) (pi_accountNumber inp) s of
       None \<Rightarrow> None
     | Some a \<Rightarrow> findById (a_walletId a) s)"

definition payin_row :: "payin_input \<Rightarrow> wallet option \<Rightarrow> date \<Rightarrow> transaction" where
  "payin_row inp w now =
    (new_txn (map_option w_id w) CREDIT DEPOSIT (if w = None then UNMATCHED else PENDING)
       (pi_provider inp) (pi_accountNumber inp) (to_fixed 4 (pi_amount inp)) (pi_reference inp) now)
      \<lparr>t_currency := pi_currency inp, t_externalId := pi_externalId inp,
       t_narration := pi_narration inp, t_occurredAt := pi_occurredAt inp,
       t_verifiedAt := (if w = None then Some now else None), t_rawPayload := pi_rawPayload inp\<rparr>"

definition recordPayin :: "bool \<Rightarrow> payin_input \<Rightarrow> date \<Rightarrow> transaction option pay" where
  "recordPayin queue_ok inp now =
    bindM (getM (payin_wallet inp)) (\<lambda>w.
    bindM (insert_or_ignore (payin_row inp w now)) (\<lambda>inserted.
    case inserted of
      None \<Rightarrow> retM None
    | Some t \<Rightarrow>
        (if w = None then retM (Some t)
         else bindM (assertM queue_ok (PlainError ''queue unavailable'')) (\<lambda>_.
              bindM (updM (enqueue (ProcessTransaction (t_id t)) 5)) (\<lambda>_.
              retM (Some t))))))"

section \<open>The worker\<close>

text \<open>\<open>others\<close>: what is committed between the worker's read and its update.\<close>

definition process_deposit :: "(pay_state \<Rightarrow> pay_state) \<Rightarrow> uuid \<Rightarrow> date \<Rightarrow> unit pay" where
  "process_deposit others tid now =
    bindM (getM (find_txn tid)) (\<lambda>found.
    case found of
      None \<Rightarrow> retM ()
    | Some t \<Rightarrow>
        (if is_final (t_status t) then retM ()
         else if t_type t = DEBIT then
           failM (PlainError ''DEBIT transaction processing not implemented'')
         else
           bindM (updM others) (\<lambda>_.
           bindM (updM (update_txn tid (\<lambda>r. r\<lparr>t_status := PROCESSING\<rparr>))) (\<lambda>_.
           bindM (txM
             (bindM (case t_walletId t of
                       None \<Rightarrow> failM (NotFound ''Wallet not found'')
                     | Some w \<Rightarrow> creditForUpdate w (t_amount t)) (\<lambda>wallet.
              updM (update_txn tid (\<lambda>r. r\<lparr>t_status := SUCCESSFUL,
                      t_balanceAfter := Some (w_balance wallet), t_verifiedAt := Some now\<rparr>))))) (\<lambda>_.
           updM (notifyTransaction (Some t) CREDIT_RECEIVED True))))))"

definition handle_deposit_failed :: "uuid \<Rightarrow> nat \<Rightarrow> nat \<Rightarrow> date \<Rightarrow> unit pay" where
  "handle_deposit_failed tid attemptsMade maxAttempts now =
    (if attemptsMade < maxAttempts then retM ()
     else bindM (getM (find_txn tid)) (\<lambda>failed.
          bindM (updM (\<lambda>s. case failed of None \<Rightarrow> s | Some t \<Rightarrow> alertTransaction t s)) (\<lambda>_.
          bindM (updM (reportIssueToSlack
                   ''Deposit could not be credited - failed permanently'' tid)) (\<lambda>_.
          updM (update_txn tid (\<lambda>r. r\<lparr>t_status := FAILED, t_verifiedAt := Some now\<rparr>))))))"

section \<open>The webhook\<close>

record inward_dto =
  wd_reference :: string
  wd_amount :: string
  wd_account_number :: string
  wd_originator_account_number :: "string option"
  wd_originator_account_name :: "string option"
  wd_originator_bank :: "string option"
  wd_originator_narration :: "string option"
  wd_timestamp :: "string option"
  wd_transaction_channel :: "string option"
  wd_session_id :: "string option"

definition opt_field :: "string \<Rightarrow> string option \<Rightarrow> (string \<times> json) list" where
  "opt_field k v = (case v of None \<Rightarrow> [] | Some x \<Rightarrow> [(k, JStr x)])"

definition dto_fields :: "inward_dto \<Rightarrow> (string \<times> json) list" where
  "dto_fields d =
    [(''reference'', JStr (wd_reference d)), (''amount'', JStr (wd_amount d)),
     (''account_number'', JStr (wd_account_number d))] @
    opt_field ''originator_account_number'' (wd_originator_account_number d) @
    opt_field ''originator_account_name'' (wd_originator_account_name d) @
    opt_field ''originator_bank'' (wd_originator_bank d) @
    opt_field ''originator_narration'' (wd_originator_narration d) @
    opt_field ''timestamp'' (wd_timestamp d) @
    opt_field ''transaction_channel'' (wd_transaction_channel d) @
    opt_field ''session_id'' (wd_session_id d)"

text \<open>
  The header check.  A constant-time comparison of two buffers of equal length is equality;
  None stands for a missing or repeated header.
\<close>

definition isValidVfdAuthHeader :: "string option \<Rightarrow> string \<Rightarrow> bool" where
  "isValidVfdAuthHeader header token =
    (case header of
       None \<Rightarrow> False
     | Some h \<Rightarrow> token \<noteq> [] \<and> js_trim h = ''vfd '' @ token)"

definition insert_hook :: "inward_dto \<Rightarrow> uuid pay" where
  "insert_hook dto s =
    (let i = next_id s;
         h = \<lparr>h_id = i, h_provider = VFD, h_eventType = ''inward-credit'',
              h_reference = Some (wd_reference dto), h_payload = JObj (dto_fields dto),
              h_verified = False, h_verifiedAt = None, h_verificationNote = None,
              h_tsqPayload = None\<rparr>
     in (Inr i, s\<lparr>hooks := insert_row h (hooks s), next_id := Suc i\<rparr>))"

definition update_hook :: "uuid \<Rightarrow> (webhook_event \<Rightarrow> webhook_event) \<Rightarrow> pay_state \<Rightarrow> pay_state" where
  "update_hook i f s = s\<lparr>hooks := update_where (by_key h_id i) f (hooks s)\<rparr>"

definition noteFailure :: "uuid \<Rightarrow> string \<Rightarrow> json option \<Rightarrow> pay_state \<Rightarrow> pay_state" where
  "noteFailure i note tsq =
    update_hook i (\<lambda>h. h\<lparr>h_verificationNote := Some note, h_tsqPayload := tsq\<rparr>)"

text \<open>A field of the status query's \<open>data\<close>, and how a template literal prints it.\<close>

definition tsq_data :: "transfer_result \<Rightarrow> json option" where
  "tsq_data r = (case tr_rawPayload r of None \<Rightarrow> None | Some p \<Rightarrow> obj_get ''data'' p)"

definition field_of :: "string \<Rightarrow> json option \<Rightarrow> json option" where
  "field_of k v = (case v of None \<Rightarrow> None | Some o' \<Rightarrow> obj_get k o')"

definition js_show :: "json option \<Rightarrow> string" where
  "js_show v =
    (case v of
       None \<Rightarrow> ''undefined''
     | Some JNull \<Rightarrow> ''null''
     | Some (JBool b) \<Rightarrow> (if b then ''true'' else ''false'')
     | Some (JNum n) \<Rightarrow> n
     | Some (JStr t) \<Rightarrow> t
     | Some _ \<Rightarrow> ''[object Object]'')"

definition json_text :: "json option \<Rightarrow> string option" where
  "json_text v = (case v of Some (JStr t) \<Rightarrow> Some t | Some (JNum n) \<Rightarrow> Some n | _ \<Rightarrow> None)"

definition parseAmount :: "(string \<Rightarrow> money option) \<Rightarrow> string \<Rightarrow> http_error + money" where
  "parseAmount dec raw =
    (case dec raw of None \<Rightarrow> Inl (PlainError ''[DecimalError] Invalid argument'') | Some a \<Rightarrow> Inr a)"

text \<open>The amount the provider's record confirms: None when it is missing.\<close>

definition tsq_amount ::
  "(string \<Rightarrow> money option) \<Rightarrow> json option \<Rightarrow> http_error + money option" where
  "tsq_amount dec tsq =
    (let v = field_of ''amount'' tsq in
     if \<not> js_truthy v then Inr None
     else (case json_text v of
             None \<Rightarrow> Inl (PlainError ''[DecimalError] Invalid argument'')
           | Some t \<Rightarrow> (case parseAmount dec t of Inl e \<Rightarrow> Inl e | Inr a \<Rightarrow> Inr (Some a))))"

definition mismatches :: "inward_dto \<Rightarrow> json option \<Rightarrow> money \<Rightarrow> money option \<Rightarrow> string list" where
  "mismatches dto tsq claimed confirmed =
    (let accountNo = field_of ''accountNo'' tsq;
         fromNo = field_of ''fromAccountNo'' tsq
     in (if confirmed = Some claimed then []
         else [''amount (webhook '' @ wd_amount dto @ '', TSQ '' @
               js_show (field_of ''amount'' tsq) @ '')'']) @
        (if js_truthy accountNo \<and> accountNo = Some (JStr (wd_account_number dto)) then []
         else [''destination account (webhook '' @ wd_account_number dto @ '', TSQ '' @
               js_show accountNo @ '')'']) @
        (case wd_originator_account_number dto of
           None \<Rightarrow> []
         | Some orig \<Rightarrow>
             if orig \<noteq> [] \<and> js_truthy fromNo \<and> fromNo \<noteq> Some (JStr orig)
             then [''source account (webhook '' @ orig @ '', TSQ '' @ js_show fromNo @ '')'']
             else []))"

definition nonnull :: "json option \<Rightarrow> json option" where
  "nonnull v = (if v = Some JNull then None else v)"

definition payin_payload :: "inward_dto \<Rightarrow> json option \<Rightarrow> json" where
  "payin_payload dto tsq =
    JObj (alist_assign (dto_fields dto)
      ((let fromNo = field_of ''fromAccountNo'' tsq in
        if js_truthy fromNo
        then [(''originator_account_number'', the fromNo)] else []) @
       [(''tsq'', case tsq of None \<Rightarrow> JNull | Some d \<Rightarrow> d)]))"

definition code_text :: "string option \<Rightarrow> string" where
  "code_text c = (case c of None \<Rightarrow> ''unknown'' | Some x \<Rightarrow> x)"

definition parse_timestamp ::
  "(string \<Rightarrow> date option) \<Rightarrow> string option \<Rightarrow> http_error + date option" where
  "parse_timestamp parse_date ts =
    (case ts of
       None \<Rightarrow> Inr None
     | Some t \<Rightarrow> if t = [] then Inr None
                 else (case parse_date t of
                         None \<Rightarrow> Inl (PlainError ''invalid input syntax for type timestamp'')
                       | Some d \<Rightarrow> Inr (Some d)))"

definition handleVfdInwardCredit ::
  "(string \<Rightarrow> money option) \<Rightarrow> (string \<Rightarrow> date option) \<Rightarrow> registry \<Rightarrow> bool \<Rightarrow> inward_dto \<Rightarrow> date \<Rightarrow>
   unit pay" where
  "handleVfdInwardCredit dec parse_date rg queue_ok dto now =
    bindM (insert_hook dto) (\<lambda>event.
    bindM (liftM (getProviderForCurrency rg NGN)) (\<lambda>provider.
    bindM (liftM (pp_queryTransferStatus provider (wd_reference dto))) (\<lambda>requery.
    (if tr_outcome requery = TO_REQUERY then
       bindM (updM (noteFailure event
         (''TSQ inconclusive (status '' @ code_text (tr_providerStatusCode requery) @ '')'')
         (tr_rawPayload requery))) (\<lambda>_.
       failM (ServiceUnavailable ''Could not verify transaction with VFD yet''))
     else if tr_outcome requery = TO_FAILED \<or> tr_outcome requery = TO_HOLD then
       updM (noteFailure event
         (''TSQ did not confirm the transaction (status '' @
          code_text (tr_providerStatusCode requery) @ '')'') (tr_rawPayload requery))
     else
       (let tsq = tsq_data requery in
        bindM (liftM (parseAmount dec (wd_amount dto))) (\<lambda>claimed.
        bindM (liftM (tsq_amount dec tsq)) (\<lambda>confirmed.
        (let bad = mismatches dto tsq claimed confirmed in
         if bad \<noteq> [] then
           updM (noteFailure event (''Mismatch with TSQ: '' @ join_with ''; '' bad)
             (tr_rawPayload requery))
         else
           bindM (updM (update_hook event (\<lambda>h. h\<lparr>h_verified := True, h_verifiedAt := Some now,
                    h_tsqPayload := tr_rawPayload requery\<rparr>))) (\<lambda>_.
           bindM (liftM (parse_timestamp parse_date (wd_timestamp dto))) (\<lambda>occurred.
           bindM (recordPayin queue_ok
             \<lparr>pi_provider = VFD, pi_currency = NGN, pi_accountNumber = wd_account_number dto,
              pi_amount = the confirmed, pi_reference = wd_reference dto,
              pi_externalId = json_text (coalesce (nonnull (field_of ''sessionId'' tsq))
                                (map_option JStr (wd_session_id dto))),
              pi_narration = wd_originator_narration dto, pi_occurredAt = occurred,
              pi_rawPayload = Some (payin_payload dto tsq)\<rparr> now) (\<lambda>_.
           retM ())))))))))))"

definition inwardCredit ::
  "(string \<Rightarrow> money option) \<Rightarrow> (string \<Rightarrow> date option) \<Rightarrow> registry \<Rightarrow> bool \<Rightarrow> string \<Rightarrow>
   string option \<Rightarrow> inward_dto \<Rightarrow> date \<Rightarrow> string pay" where
  "inwardCredit dec parse_date rg queue_ok configured authHeader dto now =
    bindM (assertM (configured \<noteq> []) (ServiceUnavailable ''VFD webhook is not configured'')) (\<lambda>_.
    bindM (assertM (isValidVfdAuthHeader authHeader configured) (Unauthorized ''Unauthorized'')) (\<lambda>_.
    bindM (handleVfdInwardCredit dec parse_date rg queue_ok dto now) (\<lambda>_.
    retM ''received'')))"

section \<open>Laws of the deposit path\<close>

lemma insert_or_ignore_eq:
  "insert_or_ignore t s =
    (case find_row (same_reference (t_provider t) (t_reference t)) (txns s) of
       Some _ \<Rightarrow> (Inr None, s)
     | None \<Rightarrow> (Inr (Some (t\<lparr>t_id := next_id s\<rparr>)),
                s\<lparr>txns := insert_row (t\<lparr>t_id := next_id s\<rparr>) (txns s), next_id := Suc (next_id s)\<rparr>))"
  by (simp add: insert_or_ignore_def insert_txn_def stm_simps Let_def split: option.splits)

lemma payin_row_simps [simp]:
  "t_provider (payin_row inp w now) = pi_provider inp"
  "t_reference (payin_row inp w now) = pi_reference inp"
  "t_type (payin_row inp w now) = CREDIT" "t_kind (payin_row inp w now) = DEPOSIT"
  "t_amount (payin_row inp w now) = to_fixed 4 (pi_amount inp)"
  "t_walletId (payin_row inp w now) = map_option w_id w"
  "t_status (payin_row inp w now) = (if w = None then UNMATCHED else PENDING)"
  "t_fee (payin_row inp w now) = None" "t_createdAt (payin_row inp w now) = now"
  "t_accountNumber (payin_row inp w now) = pi_accountNumber inp"
  by (simp_all add: payin_row_def)

definition payin_known :: "payin_input \<Rightarrow> pay_state \<Rightarrow> bool" where
  "payin_known inp s \<longleftrightarrow>
    find_row (same_reference (pi_provider inp) (pi_reference inp)) (txns s) \<noteq> None"

definition payin_recorded :: "payin_input \<Rightarrow> date \<Rightarrow> pay_state \<Rightarrow> transaction" where
  "payin_recorded inp now s = (payin_row inp (payin_wallet inp s) now)\<lparr>t_id := next_id s\<rparr>"

definition payin_stored :: "payin_input \<Rightarrow> date \<Rightarrow> pay_state \<Rightarrow> pay_state" where
  "payin_stored inp now s =
    s\<lparr>txns := insert_row (payin_recorded inp now s) (txns s), next_id := Suc (next_id s)\<rparr>"

lemma recordPayin_known: "payin_known inp s \<Longrightarrow> recordPayin q inp now s = (Inr None, s)"
  by (auto simp: recordPayin_def payin_known_def insert_or_ignore_eq stm_simps split: option.splits)

lemma recordPayin_new:
  assumes "\<not> payin_known inp s"
  shows "recordPayin q inp now s =
    (let t = payin_recorded inp now s; s1 = payin_stored inp now s in
     if payin_wallet inp s = None then (Inr (Some t), s1)
     else if q then (Inr (Some t), enqueue (ProcessTransaction (t_id t)) 5 s1)
     else (Inl (PlainError ''queue unavailable''), s1))"
  using assms
  by (simp add: recordPayin_def payin_known_def insert_or_ignore_eq payin_recorded_def
      payin_stored_def stm_simps Let_def)

lemma payin_stored_known [simp]: "payin_known inp (payin_stored inp now s)"
  by (auto simp: payin_known_def payin_stored_def payin_recorded_def find_row_insert_row
      same_reference_def split: option.splits)

lemma payin_known_enqueue [simp]: "payin_known inp (enqueue j n s) = payin_known inp s"
  by (simp add: payin_known_def)

lemma recordPayin_makes_known: "payin_known inp (snd (recordPayin q inp now s))"
  by (cases "payin_known inp s") (simp_all add: recordPayin_known recordPayin_new Let_def)

lemma recordPayin_books:
  assumes "recordPayin q inp now s = (r, s')"
  shows "wallets s' = wallets s"
    and "txns s' = txns s \<or> txns s' = insert_row (payin_recorded inp now s) (txns s)"
  using assms
  by (cases "payin_known inp s";
      auto simp: recordPayin_known recordPayin_new Let_def payin_stored_def split: if_splits)+

text \<open>The two branches of the worker that move money or stop.\<close>

lemma process_deposit_final:
  "find_txn tid s = Some t \<Longrightarrow> is_final (t_status t) \<Longrightarrow> process_deposit others tid now s = (Inr (), s)"
  by (simp add: process_deposit_def stm_simps)

definition credited :: "uuid \<Rightarrow> wallet \<Rightarrow> transaction \<Rightarrow> date \<Rightarrow> pay_state \<Rightarrow> pay_state" where
  "credited tid w t now s =
    (let b = to_fixed 4 (w_balance w + t_amount t) in
     notifyTransaction (Some t) CREDIT_RECEIVED True
       (update_txn tid (\<lambda>r. r\<lparr>t_status := SUCCESSFUL, t_balanceAfter := Some b,
            t_verifiedAt := Some now\<rparr>)
         (set_balance (w_id w) b (update_txn tid (\<lambda>r. r\<lparr>t_status := PROCESSING\<rparr>) s))))"

lemma process_deposit_eq:
  assumes "find_txn tid s = Some t" and "\<not> is_final (t_status t)" and "t_type t = CREDIT"
  shows "process_deposit others tid now s =
    (let s0 = update_txn tid (\<lambda>r. r\<lparr>t_status := PROCESSING\<rparr>) (others s) in
     case t_walletId t of
       None \<Rightarrow> (Inl (NotFound ''Wallet not found''), s0)
     | Some i \<Rightarrow>
        (case find_wallet i (others s) of
           None \<Rightarrow> (Inl (NotFound ''Wallet not found''), s0)
         | Some w \<Rightarrow> (Inr (), credited tid w t now (others s))))"
  using assms find_wallet_id
  by (auto simp: process_deposit_def stm_simps creditForUpdate_eq credited_def Let_def
      split: option.splits)

lemma credited_txn:
  assumes "find_txn tid s = Some t"
  shows "find_txn tid (credited tid w t0 now s) = Some (t\<lparr>t_status := SUCCESSFUL,
    t_balanceAfter := Some (to_fixed 4 (w_balance w + t_amount t0)), t_verifiedAt := Some now\<rparr>)"
  using assms by (simp add: credited_def Let_def find_txn_update_txn)

lemma credited_balance:
  assumes "find_wallet i s = Some w"
  shows "wallet_balance (credited tid w t now s) =
    (wallet_balance s)(i \<mapsto> to_fixed 4 (w_balance w + t_amount t))"
  using assms find_wallet_id [OF assms]
  by (auto simp: wallet_balance_def credited_def Let_def find_wallet_set_balance fun_eq_iff)

section \<open>Laws of the webhook\<close>

lemma update_hook_simps [simp]:
  "wallets (update_hook i f s) = wallets s" "txns (update_hook i f s) = txns s"
  "addresses (update_hook i f s) = addresses s" "jobs (update_hook i f s) = jobs s"
  "outbox (update_hook i f s) = outbox s" "next_id (update_hook i f s) = next_id s"
  by (simp_all add: update_hook_def)

lemma noteFailure_simps [simp]:
  "wallets (noteFailure i n p s) = wallets s" "txns (noteFailure i n p s) = txns s"
  "jobs (noteFailure i n p s) = jobs s" "outbox (noteFailure i n p s) = outbox s"
  by (simp_all add: noteFailure_def)

lemma insert_hook_simps:
  "insert_hook dto s = (Inr i, s') \<Longrightarrow>
    i = next_id s \<and> wallets s' = wallets s \<and> txns s' = txns s \<and> jobs s' = jobs s \<and>
    addresses s' = addresses s \<and> outbox s' = outbox s"
  by (auto simp: insert_hook_def Let_def)

lemma insert_hook_ok: "\<exists>s'. insert_hook dto s = (Inr (next_id s), s')"
  by (simp add: insert_hook_def Let_def)

text \<open>No mismatch means that the provider's record agrees with the claim.\<close>

definition accounts_agree :: "inward_dto \<Rightarrow> json option \<Rightarrow> bool" where
  "accounts_agree dto tsq \<longleftrightarrow>
    (let fromNo = field_of ''fromAccountNo'' tsq in
     wd_account_number dto \<noteq> [] \<and>
     field_of ''accountNo'' tsq = Some (JStr (wd_account_number dto)) \<and>
     (\<forall>orig. wd_originator_account_number dto = Some orig \<longrightarrow>
        orig = [] \<or> \<not> js_truthy fromNo \<or> fromNo = Some (JStr orig)))"

lemma mismatches_Nil_iff:
  "mismatches dto tsq claimed confirmed = [] \<longleftrightarrow> confirmed = Some claimed \<and> accounts_agree dto tsq"
  by (auto simp: mismatches_def accounts_agree_def Let_def js_truthy_def split: option.splits)

definition confirmed_by ::
  "(string \<Rightarrow> money option) \<Rightarrow> inward_dto \<Rightarrow> transfer_result \<Rightarrow> money \<Rightarrow> bool" where
  "confirmed_by dec dto r a \<longleftrightarrow>
    tr_outcome r = TO_SUCCESSFUL \<and> dec (wd_amount dto) = Some a \<and>
    tsq_amount dec (tsq_data r) = Inr (Some a) \<and>
    accounts_agree dto (tsq_data r)"

lemma parseAmount_Inr: "parseAmount dec raw = Inr a \<Longrightarrow> dec raw = Some a"
  by (auto simp: parseAmount_def split: option.splits)

lemma transfer_outcome_rest:
  "r \<noteq> TO_REQUERY \<Longrightarrow> \<not> (r = TO_FAILED \<or> r = TO_HOLD) \<Longrightarrow> r = TO_SUCCESSFUL"
  by (cases r) auto

text \<open>
  The body after the query, by cases: nothing but the event log changes, or the claim is
  confirmed and what happens is the recording of the payin.
\<close>

lemma handle_cases:
  assumes "handleVfdInwardCredit dec pd rg q dto now s = (res, s')"
  obtains (log) "wallets s' = wallets s" and "txns s' = txns s" and "jobs s' = jobs s"
  | (credit) provider r a inp s1 res1 where "getProviderForCurrency rg NGN = Inr provider"
    and "pp_queryTransferStatus provider (wd_reference dto) = Inr r"
    and "confirmed_by dec dto r a"
    and "recordPayin q inp now s1 = (res1, s')" and "pi_amount inp = a"
    and "pi_reference inp = wd_reference dto" and "pi_provider inp = VFD"
    and "pi_accountNumber inp = wd_account_number dto"
    and "wallets s1 = wallets s" and "txns s1 = txns s" and "jobs s1 = jobs s"
    and "addresses s1 = addresses s"
proof -
  obtain s0 where hook: "insert_hook dto s = (Inr (next_id s), s0)" using insert_hook_ok by blast
  note h0 = insert_hook_simps [OF hook]
  note unf = handleVfdInwardCredit_def bindM_def Let_def hook
  show ?thesis
  proof (cases "\<exists>provider r a. getProviderForCurrency rg NGN = Inr provider \<and>
      pp_queryTransferStatus provider (wd_reference dto) = Inr r \<and> confirmed_by dec dto r a \<and>
      parse_timestamp pd (wd_timestamp dto) \<in> range Inr")
    case True
    then obtain provider r a occ where p: "getProviderForCurrency rg NGN = Inr provider"
      and r: "pp_queryTransferStatus provider (wd_reference dto) = Inr r"
      and c: "confirmed_by dec dto r a"
      and o: "parse_timestamp pd (wd_timestamp dto) = Inr occ" by blast
    from c have "tr_outcome r = TO_SUCCESSFUL" "parseAmount dec (wd_amount dto) = Inr a"
      "tsq_amount dec (tsq_data r) = Inr (Some a)" "accounts_agree dto (tsq_data r)"
      by (auto simp: confirmed_by_def parseAmount_def)
    with assms h0 p r o show ?thesis
      by (auto simp: unf mismatches_Nil_iff intro!: credit [OF p r c] split: prod.splits sum.splits)
  next
    case False
    then have "wallets s' = wallets s \<and> txns s' = txns s \<and> jobs s' = jobs s"
      using assms h0
      by (auto simp: unf confirmed_by_def mismatches_Nil_iff dest!: parseAmount_Inr transfer_outcome_rest
          split: prod.splits sum.splits if_splits)
    then show ?thesis by (blast intro: log)
  qed
qed

section \<open>Properties\<close>

text \<open>
  A redelivered inward credit is recorded once.  Whatever the first delivery did (stored a
  pending or an unmatched deposit, or lost its job to an unavailable queue), a second delivery
  with the same provider and reference, whatever else it says, returns null and changes nothing.
\<close>

theorem recordPayin_idempotent:
  "recordPayin q' (inp\<lparr>pi_currency := c, pi_accountNumber := n, pi_amount := a, pi_externalId := e,
      pi_narration := m, pi_occurredAt := d, pi_rawPayload := p\<rparr>) now' (snd (recordPayin q inp now s)) =
    (Inr None, snd (recordPayin q inp now s))"
  using recordPayin_makes_known [of inp q now s] by (intro recordPayin_known) (simp add: payin_known_def)

text \<open>
  C22: A deposit is credited exactly once.  The worker run on a deposit that is not final and
  belongs to a wallet adds its amount to that wallet and to no other, marks it SUCCESSFUL with
  the balance it left, and a redelivered job (or a retry after the commit) is a no-op.
\<close>

theorem deposit_credited_once:
  assumes "find_txn tid s = Some t" and "t_type t = CREDIT" and "\<not> is_final (t_status t)"
    and "t_walletId t = Some i" and "find_wallet i s = Some w"
  shows "process_deposit (\<lambda>x. x) tid now s = (Inr (), credited tid w t now s) \<and>
    wallet_balance (credited tid w t now s) =
      (wallet_balance s)(i \<mapsto> to_fixed 4 (w_balance w + t_amount t)) \<and>
    map_option t_status (find_txn tid (credited tid w t now s)) = Some SUCCESSFUL \<and>
    map_option t_balanceAfter (find_txn tid (credited tid w t now s)) =
      Some (wallet_balance (credited tid w t now s) i) \<and>
    process_deposit others tid later (credited tid w t now s) = (Inr (), credited tid w t now s)"
proof -
  note txn = credited_txn [OF assms(1), of w t now]
  have "process_deposit others tid later (credited tid w t now s) = (Inr (), credited tid w t now s)"
    by (rule process_deposit_final [OF txn]) (simp add: is_final_def)
  then show ?thesis
    using assms txn credited_balance [OF assms(5), of tid t now]
    by (simp add: process_deposit_eq Let_def)
qed

definition sample_deposit :: transaction where
  "sample_deposit = (new_txn (Some 11) CREDIT DEPOSIT PENDING VFD ''1001'' 250 ''R1'' 5)\<lparr>t_id := 9\<rparr>"

theorem deposit_credited_once_witness:
  "\<exists>s1. process_deposit (\<lambda>x. x) 9 6 (sample_pay [sample_deposit]) = (Inr (), s1) \<and>
    wallet_balance s1 11 = Some 1250 \<and> process_deposit (\<lambda>x. x) 9 7 s1 = (Inr (), s1)"
  using deposit_credited_once [of 9 "sample_pay [sample_deposit]" sample_deposit 11 sample_wallet 6
      "\<lambda>x. x" 7]
  by (auto simp: sample_deposit_def is_final_def to_fixed_fits)

text \<open>
  C23: The webhook only ever records what the provider itself confirmed.  It never changes a
  balance; if it stores a transaction at all, then the status query for that reference
  succeeded, the amount of the query equals the amount claimed, its destination (and, where
  both name one, its source) account agree, and the row is a credit of exactly that amount
  under that reference.
\<close>

theorem webhook_records_only_confirmed:
  assumes "handleVfdInwardCredit dec pd rg q dto now s = (res, s')"
  shows "wallets s' = wallets s \<and>
    (txns s' = txns s \<or>
     (\<exists>provider r a t. getProviderForCurrency rg NGN = Inr provider \<and>
        pp_queryTransferStatus provider (wd_reference dto) = Inr r \<and> confirmed_by dec dto r a \<and>
        txns s' = insert_row t (txns s) \<and> t_type t = CREDIT \<and> t_amount t = to_fixed 4 a \<and>
        t_reference t = wd_reference dto \<and> t_provider t = VFD \<and>
        t_status t \<in> {PENDING, UNMATCHED}))"
  using assms
proof (cases rule: handle_cases)
  case log
  then show ?thesis by simp
next
  case (credit provider r a inp s1 res1)
  let ?t = "payin_recorded inp now s1"
  from credit have "t_type ?t = CREDIT" "t_amount ?t = to_fixed 4 a" "t_reference ?t = wd_reference dto"
    "t_provider ?t = VFD" "t_status ?t \<in> {PENDING, UNMATCHED}"
    by (simp_all add: payin_recorded_def)
  moreover have "wallets s' = wallets s" "txns s' = txns s \<or> txns s' = insert_row ?t (txns s)"
    using recordPayin_books [OF credit(4)] credit by simp_all
  ultimately show ?thesis using credit(1-3) by blast
qed

definition sample_provider :: "transfer_result \<Rightarrow> payment_provider" where
  "sample_provider r =
    \<lparr>pp_key = VFD, pp_createAccount = (\<lambda>_. Inl (PlainError ''unused'')), pp_listBanks = Inr [],
     pp_resolveTransferType = (\<lambda>_. INTER),
     pp_getAccountDetails = (\<lambda>_. Inr \<lparr>ad_accountNumber = ''1000'', ad_accountId = ''5'',
       ad_clientId = ''6'', ad_clientName = ''POOL'', ad_bvn = None, ad_balance = None\<rparr>),
     pp_lookupTransferRecipient = (\<lambda>acct bank ty. Inr \<lparr>rc_name = Some ''ADA'', rc_clientId = None,
       rc_bvn = None, rc_accountNumber = acct, rc_accountId = None, rc_bankName = None,
       rc_currency = None\<rparr>),
     pp_initiateTransfer = (\<lambda>_. Inr r), pp_queryTransferStatus = (\<lambda>_. Inr r)\<rparr>"

definition sample_registry :: "transfer_result \<Rightarrow> registry" where
  "sample_registry r = \<lparr>rg_byKey = [(VFD, sample_provider r)], rg_byCurrency = [(NGN, sample_provider r)]\<rparr>"

definition sample_tsq :: transfer_result where
  "sample_tsq = \<lparr>tr_outcome = TO_SUCCESSFUL, tr_providerReference = ''R1'', tr_externalId = None,
    tr_providerStatusCode = Some ''00'',
    tr_rawPayload = Some (JObj [(''data'', JObj [(''amount'', JStr ''250''), (''accountNo'', JStr ''1001'')])])\<rparr>"

definition sample_inward :: inward_dto where
  "sample_inward = \<lparr>wd_reference = ''R1'', wd_amount = ''250'', wd_account_number = ''1001'',
    wd_originator_account_number = None, wd_originator_account_name = None, wd_originator_bank = None,
    wd_originator_narration = None, wd_timestamp = None, wd_transaction_channel = None,
    wd_session_id = None\<rparr>"

definition sample_dec :: "string \<Rightarrow> money option" where
  "sample_dec t = (if t \<noteq> [] \<and> list_all is_digit t then Some (of_nat (digits_val t)) else None)"

lemma sample_dec_250: "sample_dec ''250'' = Some 250"
  by (simp add: sample_dec_def is_digit_def digits_val_def digit_val_def)

theorem webhook_records_only_confirmed_witness:
  "\<exists>res s'. handleVfdInwardCredit sample_dec (\<lambda>_. None) (sample_registry sample_tsq) True
      sample_inward 3 (sample_pay []) = (res, s') \<and>
    wallets s' = [sample_wallet] \<and> map t_amount (txns s') = [250] \<and> length (jobs s') = 1"
proof -
  let ?h = "handleVfdInwardCredit sample_dec (\<lambda>_. None) (sample_registry sample_tsq) True
      sample_inward 3 (sample_pay [])"
  obtain res s' where h: "?h = (res, s')" by force
  have len: "length (txns s') = 1 \<and> length (jobs s') = 1"
    using h
    by (auto simp: handleVfdInwardCredit_def stm_simps Let_def insert_hook_def sample_registry_def
        getProviderForCurrency_def sample_provider_def sample_tsq_def sample_inward_def parseAmount_def
        sample_dec_250 tsq_amount_def tsq_data_def field_of_def obj_get_def js_truthy_def json_text_def
        mismatches_Nil_iff accounts_agree_def parse_timestamp_def recordPayin_def insert_or_ignore_eq
        payin_wallet_def findActiveByProviderAccountNumber_def findById_def sample_address_def insert_row_def
        update_hook_def find_wallet_def)
  then have "\<exists>a. confirmed_by sample_dec sample_inward sample_tsq a \<and>
      map t_amount (txns s') = [to_fixed 4 a]"
    using webhook_records_only_confirmed [OF h]
    by (auto simp: sample_registry_def getProviderForCurrency_def sample_provider_def insert_row_def)
  moreover have "confirmed_by sample_dec sample_inward sample_tsq a \<Longrightarrow> to_fixed 4 a = 250" for a
    by (simp add: confirmed_by_def sample_inward_def sample_dec_250 to_fixed_fits)
  ultimately have "map t_amount (txns s') = [250]" by force
  with len show ?thesis
    using h webhook_records_only_confirmed [OF h] by simp
qed

text \<open>
  A queue outage strands a deposit.  If the job queue refuses the job after the row was
  stored, the webhook fails, and every redelivery, which the failure asks the provider for, is
  treated as a duplicate: the deposit stays PENDING and no job for it is ever queued by it.
\<close>

theorem queue_outage_strands_deposit:
  assumes "\<not> payin_known inp s" and "payin_wallet inp s = Some w"
  shows "\<exists>e s1 t. recordPayin False inp now s = (Inl e, s1) \<and> t \<in> set (txns s1) \<and>
    t_status t = PENDING \<and> t_reference t = pi_reference inp \<and> jobs s1 = jobs s \<and>
    recordPayin True inp later s1 = (Inr None, s1)"
proof -
  let ?s1 = "payin_stored inp now s"
  have "recordPayin False inp now s = (Inl (PlainError ''queue unavailable''), ?s1)"
    using assms by (simp add: recordPayin_new Let_def)
  moreover have "payin_recorded inp now s \<in> set (txns ?s1)" "jobs ?s1 = jobs s"
    by (simp_all add: payin_stored_def)
  moreover have "t_status (payin_recorded inp now s) = PENDING"
    "t_reference (payin_recorded inp now s) = pi_reference inp"
    using assms(2) by (simp_all add: payin_recorded_def)
  ultimately show ?thesis using recordPayin_known payin_stored_known by blast
qed

definition sample_payin :: payin_input where
  "sample_payin = \<lparr>pi_provider = VFD, pi_currency = NGN, pi_accountNumber = ''1001'', pi_amount = 250,
    pi_reference = ''R1'', pi_externalId = None, pi_narration = None, pi_occurredAt = None,
    pi_rawPayload = None\<rparr>"

theorem queue_outage_strands_deposit_witness:
  "\<exists>e s1. recordPayin False sample_payin 3 (sample_pay []) = (Inl e, s1) \<and>
    recordPayin True sample_payin 4 s1 = (Inr None, s1)"
proof -
  have "\<not> payin_known sample_payin (sample_pay [])" by (simp add: payin_known_def)
  moreover have "payin_wallet sample_payin (sample_pay []) = Some sample_wallet"
    by (simp add: payin_wallet_def sample_payin_def findActiveByProviderAccountNumber_def
        sample_address_def findById_def)
  ultimately show ?thesis using queue_outage_strands_deposit by blast
qed

text \<open>
  C38: The status check of the worker is not protected against a second worker.  When the same
  job runs twice at once (a job BullMQ considers stalled is handed out again) and the second
  run commits between the first one's read and its update, the wallet is credited twice.
\<close>

theorem overlapping_workers_credit_twice:
  assumes "find_txn tid s = Some t" and "t_type t = CREDIT" and "\<not> is_final (t_status t)"
    and "t_walletId t = Some i" and "find_wallet i s = Some w"
    and "fits 4 (w_balance w)" and "fits 4 (t_amount t)"
  shows "wallet_balance (snd (process_deposit (\<lambda>x. snd (process_deposit (\<lambda>y. y) tid now x)) tid now s)) i =
    Some (w_balance w + t_amount t + t_amount t)"
proof -
  let ?s1 = "credited tid w t now s"
  have once: "process_deposit (\<lambda>y. y) tid now s = (Inr (), ?s1)"
    using assms(1-5) by (simp add: process_deposit_eq Let_def)
  have "wallet_balance ?s1 i = Some (w_balance w + t_amount t)"
    using credited_balance [OF assms(5), of tid t now] assms(6,7) by (simp add: to_fixed_fits fits_add)
  then obtain w1 where w1: "find_wallet i ?s1 = Some w1" "w_balance w1 = w_balance w + t_amount t"
    by (auto simp: wallet_balance_def)
  have "process_deposit (\<lambda>x. snd (process_deposit (\<lambda>y. y) tid now x)) tid now s =
      (Inr (), credited tid w1 t now ?s1)"
    using assms(1-4) once w1(1) by (simp add: process_deposit_eq Let_def)
  moreover have "fits 4 (w_balance w1 + t_amount t)" unfolding w1(2) by (intro fits_add assms(6,7))
  ultimately show ?thesis
    using credited_balance [OF w1(1), of tid t now] w1(2) by (simp only: to_fixed_fits) simp
qed

theorem overlapping_workers_credit_twice_witness:
  "wallet_balance (snd (process_deposit (\<lambda>x. snd (process_deposit (\<lambda>y. y) 9 6 x)) 9 6
     (sample_pay [sample_deposit]))) 11 = Some 1500"
  using overlapping_workers_credit_twice [of 9 "sample_pay [sample_deposit]" sample_deposit 11 sample_wallet 6]
  by (simp add: sample_deposit_def is_final_def)

end
