(* ===== verification/History.thy ===== *)
theory History
  imports Payins
begin

text \<open>
  The transaction history: the query of \<open>TransactionsService.findAllForUser\<close>, the ownership check
  of \<open>findOneForUser\<close>, and the controller's parsing of query parameters and mapping of rows to
  responses (\<open>transactions.controller.ts\<close>).
\<close>

section \<open>Queries\<close>

record txn_filters =
  f_type :: "transaction_type option"
  f_status :: "transaction_status list"
  f_from :: "date option"
  f_to :: "date option"
  f_before :: "date option"

text \<open>\<open>COALESCE(t.occurredAt, t.createdAt)\<close>\<close>

definition happenedAt :: "transaction \<Rightarrow> date" where
  "happenedAt t = (case t_occurredAt t of Some d \<Rightarrow> d | None \<Rightarrow> t_createdAt t)"

definition opt_all :: "('a \<Rightarrow> bool) \<Rightarrow> 'a option \<Rightarrow> bool" where
  "opt_all P v = (case v of None \<Rightarrow> True | Some x \<Rightarrow> P x)"

definition matches_filters :: "txn_filters \<Rightarrow> transaction \<Rightarrow> bool" where
  "matches_filters f t \<longleftrightarrow>
    opt_all (\<lambda>ty. t_type t = ty) (f_type f) \<and>
    (f_status f = [] \<or> t_status t \<in> set (f_status f)) \<and>
    opt_all (\<lambda>b. t_createdAt t < b) (f_before f) \<and>
    opt_all (\<lambda>d. d \<le> happenedAt t) (f_from f) \<and>
    opt_all (\<lambda>d. happenedAt t \<le> d) (f_to f)"

definition owns_txn :: "uuid \<Rightarrow> pay_state \<Rightarrow> transaction \<Rightarrow> bool" where
  "owns_txn u s t \<longleftrightarrow>
    (case t_walletId t of None \<Rightarrow> False | Some w \<Rightarrow> w \<in> set (map w_id (findAllForUser u s)))"

text \<open>
  \<open>ORDER BY created_at DESC LIMIT\<close>; rows created at the same instant keep their order of
  insertion here, which SQL leaves open.
\<close>

definition findTransactionsForUser ::
  "uuid \<Rightarrow> nat \<Rightarrow> txn_filters \<Rightarrow> pay_state \<Rightarrow> transaction list" where
  "findTransactionsForUser u limit f s =
    (if findAllForUser u s = [] then []
     else take limit (sort_key (\<lambda>t. - t_createdAt t)
            (filter (\<lambda>t. owns_txn u s t \<and> matches_filters f t) (txns s))))"

definition findOneForUser :: "uuid \<Rightarrow> uuid \<Rightarrow> pay_state \<Rightarrow> http_error + transaction" where
  "findOneForUser u i s =
    (case find_txn i s of
       None \<Rightarrow> Inl (NotFound ''Transaction not found'')
     | Some t \<Rightarrow>
        (case t_walletId t of
           None \<Rightarrow> Inl (NotFound ''Transaction not found'')
         | Some w \<Rightarrow>
            (case findById w s of
               None \<Rightarrow> Inl (NotFound ''Transaction not found'')
             | Some wal \<Rightarrow> if w_userId wal \<noteq> u then Inl (NotFound ''Transaction not found'')
                            else Inr t)))"

section \<open>Query parameters\<close>

text \<open>\<open>Number.parseInt(raw, 10)\<close>: leading white space, a sign, then the longest run of digits.\<close>

definition js_parse_int :: "string \<Rightarrow> int option" where
  "js_parse_int raw =
    (let t = dropWhile js_space raw;
         neg = starts_with ''-'' t;
         ds = takeWhile is_digit (if neg \<or> starts_with ''+'' t then tl t else t)
     in if ds = [] then None
        else Some (if neg then - int (digits_val ds) else int (digits_val ds)))"

definition DEFAULT_LIMIT :: int where "DEFAULT_LIMIT = 20"
definition MAX_LIMIT :: int where "MAX_LIMIT = 200"

definition parseLimit :: "string option \<Rightarrow> nat" where
  "parseLimit raw =
    (let parsed = (case raw of
           None \<Rightarrow> Some DEFAULT_LIMIT
         | Some r \<Rightarrow> if r = [] then Some DEFAULT_LIMIT else js_parse_int r)
     in case parsed of
          None \<Rightarrow> nat DEFAULT_LIMIT
        | Some n \<Rightarrow> if n < 1 then nat DEFAULT_LIMIT else nat (min n MAX_LIMIT))"

definition parseType :: "string option \<Rightarrow> transaction_type option" where
  "parseType raw =
    (if raw = Some ''CREDIT'' then Some CREDIT
     else if raw = Some ''DEBIT'' then Some DEBIT else None)"

definition status_names :: "(string \<times> transaction_status) list" where
  "status_names =
    [(''PENDING'', PENDING), (''PROCESSING'', PROCESSING), (''SUCCESSFUL'', SUCCESSFUL),
     (''FAILED'', FAILED), (''UNMATCHED'', UNMATCHED)]"

definition parseStatuses :: "string option \<Rightarrow> transaction_status list" where
  "parseStatuses raw =
    (case raw of
       None \<Rightarrow> []
     | Some r \<Rightarrow> if r = [] then []
                 else List.map_filter (\<lambda>w. map_of status_names (to_upper (js_trim w))) (split_on CHR '','' r))"

definition parseDate :: "(string \<Rightarrow> date option) \<Rightarrow> string option \<Rightarrow> date option" where
  "parseDate parse_date raw =
    (case raw of None \<Rightarrow> None | Some r \<Rightarrow> if r = [] then None else parse_date r)"

section \<open>Responses\<close>

record txn_response =
  tx_id :: uuid
  tx_type :: transaction_type
  tx_kind :: transaction_kind
  tx_billType :: "bill_type option"
  tx_status :: transaction_status
  tx_currency :: currency_code
  tx_amount :: money
  tx_fee :: "money option"
  tx_feeVat :: "money option"
  tx_stampDuty :: "money option"
  tx_balanceAfter :: "money option"
  tx_reference :: string
  tx_sessionId :: "string option"
  tx_provider :: payment_provider_key
  tx_narration :: "string option"
  tx_counterpartyName :: "string option"
  tx_counterpartyAccountNumber :: "string option"
  tx_counterpartyBankName :: "string option"
  tx_bill :: "bill_details option"
  tx_occurredAt :: "date option"
  tx_verifiedAt :: "date option"
  tx_createdAt :: date

definition payload_text :: "string \<Rightarrow> json option \<Rightarrow> string option" where
  "payload_text k payload = json_str (field_of k payload)"

definition counterparty ::
  "transaction \<Rightarrow> beneficiary option \<Rightarrow> string option \<times> string option \<times> string option" where
  "counterparty t ben =
    (case t_bill t of
       Some bill \<Rightarrow> (Some (bd_billerName bill), Some (bd_customerId bill), None)
     | None \<Rightarrow>
        (if t_type t = DEBIT then
           (case ben of
              None \<Rightarrow> (None, None, None)
            | Some b \<Rightarrow> (b_accountName b, Some (b_accountNumber b), b_bankName b))
         else (payload_text ''originator_account_name'' (t_rawPayload t),
               payload_text ''originator_account_number'' (t_rawPayload t), None)))"

definition toResponse :: "transaction \<Rightarrow> beneficiary option \<Rightarrow> txn_response" where
  "toResponse t ben =
    (let (name, account, bank) = counterparty t ben in
     \<lparr>tx_id = t_id t, tx_type = t_type t, tx_kind = t_kind t, tx_billType = t_billType t,
      tx_status = t_status t, tx_currency = t_currency t, tx_amount = t_amount t,
      tx_fee = t_fee t, tx_feeVat = t_feeVat t, tx_stampDuty = t_stampDuty t,
      tx_balanceAfter = t_balanceAfter t, tx_reference = t_reference t,
      tx_sessionId = t_externalId t, tx_provider = t_provider t, tx_narration = t_narration t,
      tx_counterpartyName = name, tx_counterpartyAccountNumber = account,
      tx_counterpartyBankName = bank, tx_bill = t_bill t, tx_occurredAt = t_occurredAt t,
      tx_verifiedAt = t_verifiedAt t, tx_createdAt = t_createdAt t\<rparr>)"

text \<open>The join with the beneficiary.\<close>

definition beneficiary_of :: "pay_state \<Rightarrow> transaction \<Rightarrow> beneficiary option" where
  "beneficiary_of s t =
    (case t_beneficiaryId t of None \<Rightarrow> None | Some i \<Rightarrow> find_row (by_key b_id i) (beneficiaries s))"

definition list_transactions ::
  "(string \<Rightarrow> date option) \<Rightarrow> uuid \<Rightarrow> string option \<Rightarrow> string option \<Rightarrow> string option \<Rightarrow>
   string option \<Rightarrow> string option \<Rightarrow> string option \<Rightarrow> pay_state \<Rightarrow> txn_response list" where
  "list_transactions parse_date u limit ty status since until before s =
    map (\<lambda>t. toResponse t (beneficiary_of s t))
      (findTransactionsForUser u (parseLimit limit)
        \<lparr>f_type = parseType ty, f_status = parseStatuses status,
         f_from = parseDate parse_date since, f_to = parseDate parse_date until,
         f_before = parseDate parse_date before\<rparr> s)"

definition transaction_detail :: "uuid \<Rightarrow> uuid \<Rightarrow> pay_state \<Rightarrow> http_error + txn_response" where
  "transaction_detail u i s =
    (case findOneForUser u i s of
       Inl e \<Rightarrow> Inl e
     | Inr t \<Rightarrow> Inr (toResponse t (beneficiary_of s t)))"

section \<open>Laws\<close>

lemma parseLimit_bounds: "1 \<le> parseLimit raw" "parseLimit raw \<le> 200"
  by (auto simp: parseLimit_def DEFAULT_LIMIT_def MAX_LIMIT_def Let_def split: option.splits)

lemma matches_before:
  "matches_filters (f\<lparr>f_before := Some d\<rparr>) t \<longleftrightarrow>
    matches_filters (f\<lparr>f_before := None\<rparr>) t \<and> t_createdAt t < d"
  by (auto simp: matches_filters_def opt_all_def)

text \<open>
  The engine of the cursor: in a list sorted by a key without duplicates, the elements beyond
  the first n are those whose key is beyond the key of the n-th.
\<close>

lemma filter_beyond_last:
  assumes "sorted (map k xs)" and "distinct (map k xs)" and "0 < n" and "take n xs \<noteq> []"
  shows "filter (\<lambda>x. k (last (take n xs)) < k x) xs = drop n xs"
proof -
  have split: "xs = take n xs @ drop n xs" by simp
  let ?l = "last (take n xs)"
  have "k x \<le> k ?l" if "x \<in> set (take n xs)" for x
  proof -
    have "sorted (map k (take n xs))" using assms(1) by (metis sorted_wrt_take take_map)
    moreover have "take n xs = butlast (take n xs) @ [?l]" using assms(4) by simp
    ultimately have "\<forall>y \<in> set (butlast (take n xs)). k y \<le> k ?l"
      by (metis (no_types, lifting) list.set_intros(1) list.simps(9) map_append sorted_append image_eqI set_map)
    with that show ?thesis by (metis \<open>take n xs = butlast (take n xs) @ [?l]\<close> Un_iff empty_iff empty_set
          insert_iff list.simps(15) order_refl set_append)
  qed
  then have A: "filter (\<lambda>x. k ?l < k x) (take n xs) = []" by (auto simp: filter_empty_conv leD)
  have "k ?l < k x" if "x \<in> set (drop n xs)" for x
  proof -
    have "?l \<in> set (take n xs)" using assms(4) by simp
    moreover have "sorted (map k (take n xs) @ map k (drop n xs))"
      using assms(1) by (metis append_take_drop_id map_append)
    moreover have "distinct (map k (take n xs) @ map k (drop n xs))"
      using assms(2) by (metis append_take_drop_id map_append)
    ultimately have "k ?l \<le> k x" and "k ?l \<noteq> k x" using that by (auto simp: sorted_append)
    then show ?thesis by simp
  qed
  then have "filter (\<lambda>x. k ?l < k x) (drop n xs) = drop n xs" by (simp add: filter_id_conv)
  with A show ?thesis by (metis split filter_append append_Nil)
qed

lemma sort_key_filter: "sort_key k (filter P xs) = filter P (sort_key k xs)"
  by (simp add: filter_sort)

lemma matches_cursor:
  assumes "opt_all (\<lambda>b. d < b) (f_before f)"
  shows "matches_filters (f\<lparr>f_before := Some d\<rparr>) t \<longleftrightarrow> matches_filters f t \<and> t_createdAt t < d"
  using assms by (auto simp: matches_filters_def opt_all_def split: option.splits)

section \<open>Properties\<close>

text \<open>
  Paging by cursor loses and repeats nothing.  When no two transactions of a customer were
  created at the same instant, a non-empty page followed by the page asked for with \<open>before\<close> set
  to the creation time of its last row is exactly the longer page: the infinite scroll of the
  app shows every transaction that matches the filters, once, newest first.
\<close>

theorem history_pages_compose:
  assumes "distinct (map t_createdAt (filter (owns_txn u s) (txns s)))"
    and "findTransactionsForUser u n f s \<noteq> []"
    and "d = t_createdAt (last (findTransactionsForUser u n f s))"
  shows "findTransactionsForUser u n f s @ findTransactionsForUser u m (f\<lparr>f_before := Some d\<rparr>) s =
    findTransactionsForUser u (n + m) f s"
proof -
  let ?k = "\<lambda>t. - t_createdAt t"
  let ?rows = "filter (\<lambda>t. owns_txn u s t \<and> matches_filters f t) (txns s)"
  let ?xs = "sort_key ?k ?rows"
  have user: "findAllForUser u s \<noteq> []" and page: "findTransactionsForUser u n f s = take n ?xs"
    using assms(2) by (auto simp: findTransactionsForUser_def split: if_splits)
  have ne: "take n ?xs \<noteq> []" and "0 < n" and d: "d = t_createdAt (last (take n ?xs))"
    using assms(2,3) page by (auto intro: gr0I)
  have "distinct (map t_createdAt ?rows)"
    using distinct_map_filter [OF assms(1), of "matches_filters f"] by (simp add: conj_commute)
  then have "distinct (map ?k ?xs)" by (auto simp: distinct_map inj_on_def distinct_filter)
  then have rest: "filter (\<lambda>t. ?k (last (take n ?xs)) < ?k t) ?xs = drop n ?xs"
    using \<open>0 < n\<close> ne by (intro filter_beyond_last) simp_all
  have "last (take n ?xs) \<in> set ?rows"
    using ne in_set_takeD [OF last_in_set [OF ne]] by simp
  then have "opt_all (\<lambda>b. d < b) (f_before f)" unfolding d by (simp add: matches_filters_def)
  from matches_cursor [OF this]
  have "filter (\<lambda>t. owns_txn u s t \<and> matches_filters (f\<lparr>f_before := Some d\<rparr>) t) (txns s) =
      filter (\<lambda>t. ?k (last (take n ?xs)) < ?k t) ?rows"
    by (auto simp: d intro: filter_cong)
  then have "findTransactionsForUser u m (f\<lparr>f_before := Some d\<rparr>) s =
      take m (filter (\<lambda>t. ?k (last (take n ?xs)) < ?k t) ?xs)"
    unfolding findTransactionsForUser_def by (simp only: user if_False sort_key_filter)
  then have "findTransactionsForUser u m (f\<lparr>f_before := Some d\<rparr>) s = take m (drop n ?xs)"
    by (simp only: rest)
  then show ?thesis using user by (simp add: findTransactionsForUser_def take_add)
qed

definition sample_row :: "uuid \<Rightarrow> date \<Rightarrow> transaction" where
  "sample_row i d = (new_txn (Some 11) CREDIT DEPOSIT SUCCESSFUL VFD ''1001'' 250 ''R1'' d)\<lparr>t_id := i\<rparr>"

lemma sample_row_simps [simp]:
  "t_id (sample_row i d) = i" "t_createdAt (sample_row i d) = d" "t_walletId (sample_row i d) = Some 11"
  by (simp_all add: sample_row_def)

definition sample_history :: "transaction list" where
  "sample_history = [sample_row 1 5, sample_row 2 9, sample_row 3 7]"

definition no_filters :: txn_filters where
  "no_filters = \<lparr>f_type = None, f_status = [], f_from = None, f_to = None, f_before = None\<rparr>"

lemmas sample_query = sample_history_def no_filters_def findTransactionsForUser_def
  findAllForUser_def owns_txn_def matches_filters_def opt_all_def

theorem history_pages_compose_witness:
  "map t_id (findTransactionsForUser 7 2 no_filters (sample_pay sample_history)) = [2, 3] \<and>
    findTransactionsForUser 7 2 no_filters (sample_pay sample_history) @
    findTransactionsForUser 7 5 (no_filters\<lparr>f_before := Some 7\<rparr>) (sample_pay sample_history) =
    findTransactionsForUser 7 (2 + 5) no_filters (sample_pay sample_history)"
proof -
  have "sort_key (\<lambda>t. - t_createdAt t) sample_history = [sample_row 2 9, sample_row 3 7, sample_row 1 5]"
    by (simp add: sample_history_def)
  then have page: "findTransactionsForUser 7 2 no_filters (sample_pay sample_history) = [sample_row 2 9, sample_row 3 7]"
    by (simp add: sample_query sort_key_filter)
  have "distinct (map t_createdAt (filter (owns_txn 7 (sample_pay sample_history)) sample_history))"
    by (simp add: sample_query)
  then have "findTransactionsForUser 7 2 no_filters (sample_pay sample_history) @
    findTransactionsForUser 7 5 (no_filters\<lparr>f_before := Some 7\<rparr>) (sample_pay sample_history) =
    findTransactionsForUser 7 (2 + 5) no_filters (sample_pay sample_history)"
    by (intro history_pages_compose) (simp_all add: page)
  then show ?thesis by (simp only: page list.map sample_row_simps simp_thms)
qed

text \<open>
  A customer only sees transactions of their own wallets.  Every row of the history belongs
  to a wallet of the user who asks, satisfies the filters, there are at most as many as asked
  for, and they come newest first; the detail view answers with a row exactly when the row
  exists and sits on a wallet of that user, and otherwise says not found whether it does not
  exist or belongs to someone else.
\<close>

theorem history_is_private:
  "(\<forall>t \<in> set (findTransactionsForUser u n f s). t \<in> set (txns s) \<and> matches_filters f t \<and>
     (\<exists>w \<in> set (wallets s). w_userId w = u \<and> t_walletId t = Some (w_id w))) \<and>
   length (findTransactionsForUser u n f s) \<le> n \<and>
   sorted (rev (map t_createdAt (findTransactionsForUser u n f s))) \<and>
   (findOneForUser u i s = Inl (NotFound ''Transaction not found'') \<or>
    (\<exists>t w. findOneForUser u i s = Inr t \<and> find_txn i s = Some t \<and> w \<in> set (wallets s) \<and>
       w_userId w = u \<and> t_walletId t = Some (w_id w)))"
proof (intro conjI)
  show "\<forall>t \<in> set (findTransactionsForUser u n f s). t \<in> set (txns s) \<and> matches_filters f t \<and>
     (\<exists>w \<in> set (wallets s). w_userId w = u \<and> t_walletId t = Some (w_id w))"
    by (fastforce simp: findTransactionsForUser_def owns_txn_def findAllForUser_def
        dest!: in_set_takeD split: if_splits option.splits)
  show "length (findTransactionsForUser u n f s) \<le> n"
    by (simp add: findTransactionsForUser_def)
  have "sorted (map (\<lambda>t. - t_createdAt t) (take n (sort_key (\<lambda>t. - t_createdAt t) xs)))" for xs
    using sorted_wrt_take [of "(\<le>)" "map (\<lambda>t. - t_createdAt t) (sort_key (\<lambda>t. - t_createdAt t) xs)" n]
    by (simp add: take_map)
  from this [of "filter (\<lambda>t. owns_txn u s t \<and> matches_filters f t) (txns s)"]
  have "sorted (map (\<lambda>t. - t_createdAt t) (findTransactionsForUser u n f s))"
    by (simp only: findTransactionsForUser_def split: if_split) simp
  then show "sorted (rev (map t_createdAt (findTransactionsForUser u n f s)))"
    by (simp add: sorted_wrt_rev sorted_wrt_map)
  show "findOneForUser u i s = Inl (NotFound ''Transaction not found'') \<or>
    (\<exists>t w. findOneForUser u i s = Inr t \<and> find_txn i s = Some t \<and> w \<in> set (wallets s) \<and>
       w_userId w = u \<and> t_walletId t = Some (w_id w))"
    by (auto simp: findOneForUser_def findById_def dest: find_wallet_id split: option.splits)
qed

theorem history_is_private_witness:
  "length (findTransactionsForUser 8 5 no_filters (sample_pay sample_history)) \<le> 5 \<and>
    findOneForUser 8 2 (sample_pay sample_history) = Inl (NotFound ''Transaction not found'')"
proof -
  have "findOneForUser 8 2 (sample_pay sample_history) \<noteq> Inr t" for t
    by (simp add: findOneForUser_def findById_def sample_query)
  then show ?thesis
    using history_is_private [of 8 5 no_filters "sample_pay sample_history" 2] by auto
qed

end
