(* ===== verification/Beneficiaries.thy ===== *)
theory Beneficiaries
  imports History
begin

text \<open>
  \<open>BeneficiariesService\<close> (saved payout recipients, upserted on every payout) and \<open>BanksService\<close>
  (the cached bank list).
\<close>

section \<open>Beneficiaries\<close>

record upsert_beneficiary =
  ub_userId :: uuid
  ub_currency :: currency_code
  ub_provider :: payment_provider_key
  ub_bankCode :: string
  ub_bankName :: "string option"
  ub_accountNumber :: string
  ub_accountName :: "string option"

definition same_beneficiary :: "upsert_beneficiary \<Rightarrow> beneficiary \<Rightarrow> bool" where
  "same_beneficiary i b \<longleftrightarrow>
    b_userId b = ub_userId i \<and> b_provider b = ub_provider i \<and> b_bankCode b = ub_bankCode i \<and>
    b_accountNumber b = ub_accountNumber i"

text \<open>\<open>INSERT ... ON CONFLICT (user, provider, bank, account) DO UPDATE\<close>, then the row.\<close>

definition upsertBeneficiary :: "upsert_beneficiary \<Rightarrow> date \<Rightarrow> beneficiary pay" where
  "upsertBeneficiary i now =
    bindM (updM (\<lambda>s.
      case find_row (same_beneficiary i) (beneficiaries s) of
        Some _ \<Rightarrow> s\<lparr>beneficiaries := update_where (same_beneficiary i)
                     (\<lambda>b. b\<lparr>b_bankName := ub_bankName i, b_accountName := ub_accountName i,
                            b_updatedAt := now\<rparr>) (beneficiaries s)\<rparr>
      | None \<Rightarrow> s\<lparr>beneficiaries := insert_row
                     \<lparr>b_id = next_id s, b_userId = ub_userId i, b_currency = ub_currency i,
                      b_provider = ub_provider i, b_bankCode = ub_bankCode i,
                      b_bankName = ub_bankName i, b_accountNumber = ub_accountNumber i,
                      b_accountName = ub_accountName i, b_updatedAt = now\<rparr> (beneficiaries s),
                  next_id := Suc (next_id s)\<rparr>)) (\<lambda>_.
    bindM (getM (\<lambda>s. find_row (same_beneficiary i) (beneficiaries s))) (\<lambda>row.
    someM row (NotFound ''EntityNotFound'')))"

definition findOwnedById :: "uuid \<Rightarrow> uuid \<Rightarrow> pay_state \<Rightarrow> http_error + beneficiary" where
  "findOwnedById u i s =
    (case find_row (\<lambda>b. b_id b = i \<and> b_userId b = u) (beneficiaries s) of
       None \<Rightarrow> Inl (NotFound ''Beneficiary not found'')
     | Some b \<Rightarrow> Inr b)"

text \<open>
  The recent recipients: one entry per beneficiary with at least one DEBIT that did not fail,
  with the number of such transfers and the time of the last, most recent first.
\<close>

definition counted_transfer :: "uuid \<Rightarrow> transaction \<Rightarrow> bool" where
  "counted_transfer b t \<longleftrightarrow> t_beneficiaryId t = Some b \<and> t_type t = DEBIT \<and> t_status t \<noteq> FAILED"

definition recent_transfers :: "pay_state \<Rightarrow> beneficiary \<Rightarrow> transaction list" where
  "recent_transfers s b = filter (counted_transfer (b_id b)) (txns s)"

definition last_transfer_at :: "pay_state \<Rightarrow> beneficiary \<Rightarrow> date" where
  "last_transfer_at s b = Max (set (map t_createdAt (recent_transfers s b)))"

definition recentBeneficiaries :: "uuid \<Rightarrow> pay_state \<Rightarrow> (beneficiary \<times> nat \<times> date) list" where
  "recentBeneficiaries u s =
    map (\<lambda>b. (b, length (recent_transfers s b), last_transfer_at s b))
      (sort_key (\<lambda>b. - last_transfer_at s b)
        (filter (\<lambda>b. b_userId b = u \<and> recent_transfers s b \<noteq> []) (beneficiaries s)))"

section \<open>Banks\<close>

text \<open>
  \<open>cached\<close> is the parsed cache entry (None when missing or corrupt), \<open>fetch\<close> the provider's
  answer; the second component is the cache afterwards.
\<close>

definition listBanks ::
  "provider_bank list option \<Rightarrow> (http_error + provider_bank list) \<Rightarrow>
   (http_error + provider_bank list) \<times> provider_bank list option" where
  "listBanks cached fetch =
    (if (case cached of Some l \<Rightarrow> l \<noteq> [] | None \<Rightarrow> False) then (Inr (the cached), cached)
     else (case fetch of
             Inl e \<Rightarrow> (Inl e, cached)
           | Inr banks \<Rightarrow> (Inr banks, if banks \<noteq> [] then Some banks else cached)))"

section \<open>Laws\<close>

text \<open>The unique index of the table as an invariant.\<close>

definition beneficiary_key :: "beneficiary \<Rightarrow> uuid \<times> payment_provider_key \<times> string \<times> string" where
  "beneficiary_key b = (b_userId b, b_provider b, b_bankCode b, b_accountNumber b)"

definition beneficiaries_unique :: "pay_state \<Rightarrow> bool" where
  "beneficiaries_unique s \<longleftrightarrow> distinct (map beneficiary_key (beneficiaries s))"

lemma same_beneficiary_key:
  "same_beneficiary i b \<longleftrightarrow>
    beneficiary_key b = (ub_userId i, ub_provider i, ub_bankCode i, ub_accountNumber i)"
  by (auto simp: same_beneficiary_def beneficiary_key_def)

text \<open>An upsert always returns the one row for the recipient, with the new names, and keeps the index.\<close>

lemma find_row_update_same:
  assumes "\<And>r. P (f r) = P r"
  shows "find_row P (update_where P f t) = map_option f (find_row P t)"
  using assms by (induction t) auto

lemma upsertBeneficiary_eq:
  "\<exists>b s'. upsertBeneficiary i now s = (Inr b, s') \<and> same_beneficiary i b \<and>
    b_bankName b = ub_bankName i \<and> b_accountName b = ub_accountName i \<and>
    b \<in> set (beneficiaries s') \<and> wallets s' = wallets s \<and> txns s' = txns s \<and>
    addresses s' = addresses s \<and> jobs s' = jobs s \<and> outbox s' = outbox s \<and>
    free_payouts s' = free_payouts s \<and> next_id s \<le> next_id s'"
proof (cases "find_row (same_beneficiary i) (beneficiaries s)")
  case None
  then show ?thesis
    by (auto simp: upsertBeneficiary_def stm_simps find_row_insert_row same_beneficiary_def)
next
  case (Some b)
  let ?f = "\<lambda>b. b\<lparr>b_bankName := ub_bankName i, b_accountName := ub_accountName i, b_updatedAt := now\<rparr>"
  have "find_row (same_beneficiary i) (update_where (same_beneficiary i) ?f (beneficiaries s)) = Some (?f b)"
    using Some find_row_update_same [of "same_beneficiary i" ?f] by (simp add: same_beneficiary_def)
  moreover from find_row_SomeD [OF this] find_row_SomeD [OF Some]
  have "same_beneficiary i (?f b)" "?f b \<in> set (update_where (same_beneficiary i) ?f (beneficiaries s))"
    by (simp_all add: same_beneficiary_def)
  ultimately show ?thesis using Some by (auto simp: upsertBeneficiary_def stm_simps)
qed

lemma upsertBeneficiary_unique: "keeps beneficiaries_unique (upsertBeneficiary i now)"
  unfolding upsertBeneficiary_def
  by (intro keeps_bindM keeps_updM keeps_getM keeps_someM)
    (auto simp: beneficiaries_unique_def find_row_None_iff same_beneficiary_key beneficiary_key_def
      split: option.splits)

end
