(* ===== verification/PinVerifier.thy ===== *)
theory PinVerifier
  imports PayEntities
begin

text \<open>
  \<open>PinVerifierService\<close>: the payment service asks the auth service to check the transaction PIN
  and learns the limits in force.  The HTTP call is a parameter: its reply.
\<close>

record transfer_limit =
  tl_amount :: money
  tl_since :: date
  tl_until :: date

record transfer_caps =
  tc_perTransfer :: "money option"
  tc_daily :: "money option"
  tc_tierPerTransfer :: "money option"
  tc_tierDaily :: "money option"

record pin_body =
  pb_transferLimit :: "transfer_limit option"
  pb_caps :: "transfer_caps option"

datatype 'b http_reply = Unreachable | Reply nat 'b

text \<open>\<open>response.ok\<close>\<close>

definition http_ok :: "nat \<Rightarrow> bool" where
  "http_ok status \<longleftrightarrow> 200 \<le> status \<and> status \<le> 299"

definition pin_assertValid ::
  "string \<Rightarrow> pin_body http_reply \<Rightarrow> http_error + (transfer_limit option \<times> transfer_caps option)" where
  "pin_assertValid internalApiKey reply =
    (if internalApiKey = [] then Inl (ServiceUnavailable ''Payouts are temporarily unavailable'')
     else (case reply of
             Unreachable \<Rightarrow> Inl (ServiceUnavailable ''Payouts are temporarily unavailable'')
           | Reply status body \<Rightarrow>
               if http_ok status then Inr (pb_transferLimit body, pb_caps body)
               else if status = 401 then Inl (Forbidden ''Incorrect PIN'')
               else if status = 429 then
                 Inl (TooManyRequests ''Too many failed PIN attempts. Try again in 15 minutes.'')
               else Inl (ServiceUnavailable ''Payouts are temporarily unavailable'')))"

definition getTransferLimit :: "string \<Rightarrow> transfer_limit option http_reply \<Rightarrow> transfer_limit option" where
  "getTransferLimit internalApiKey reply =
    (if internalApiKey = [] then None
     else (case reply of
             Unreachable \<Rightarrow> None
           | Reply status body \<Rightarrow> if http_ok status then body else None))"

definition getTransferCaps :: "string \<Rightarrow> transfer_caps http_reply \<Rightarrow> transfer_caps option" where
  "getTransferCaps internalApiKey reply =
    (if internalApiKey = [] then None
     else (case reply of
             Unreachable \<Rightarrow> None
           | Reply status body \<Rightarrow> if http_ok status then Some body else None))"

text \<open>The check fails closed: it only passes on a 2xx reply to a configured caller.\<close>

lemma pin_assertValid_Inr:
  "pin_assertValid key reply = Inr r \<longleftrightarrow>
    key \<noteq> [] \<and> (\<exists>status body. reply = Reply status body \<and> http_ok status \<and>
      r = (pb_transferLimit body, pb_caps body))"
  by (auto simp: pin_assertValid_def split: http_reply.splits if_splits)

end
