(* ===== verification/Payouts.thy ===== *)
theory Payouts
  imports Beneficiaries PinVerifier
begin

text \<open>
  \<open>PayoutsService\<close> and the status query worker (\<open>payout-status-query.processor.ts\<close>): charges and
  limits, the payout itself (checks, debit under the wallet lock, request to the provider,
  application of its answer), the later status synchronisation, and the reversal of a failed
  payout.

  \<open>payout_env\<close> holds what comes from outside: the auth service's reply, the configured registry,
  the bank list cache, the random digits, the clock, whether the queue accepts jobs, and what
  other requests commit before the debit (\<open>pe_others\<close>) and while the provider is called
  (\<open>pe_during\<close>).
\<close>

section \<open>Charges and limits\<close>

text \<open>Midnight in Lagos (UTC+1).\<close>

definition startOfLagosDay :: "date \<Rightarrow> date" where
  "startOfLagosDay now =
    (let hour = 3600000; day = 24 * hour in ((now + hour) div day) * day - hour)"

definition freePayoutsEnabled :: "pay_state \<Rightarrow> bool" where
  "freePayoutsEnabled s = (free_payouts s \<noteq> Some False)"

definition setFreePayoutsEnabled :: "bool \<Rightarrow> bool pay" where
  "setFreePayoutsEnabled enabled =
    bindM (updM (\<lambda>s. s\<lparr>free_payouts := Some enabled\<rparr>)) (\<lambda>_. retM enabled)"

definition payouts_today :: "date \<Rightarrow> uuid \<Rightarrow> pay_state \<Rightarrow> nat" where
  "payouts_today now w s =
    affected (\<lambda>t. t_walletId t = Some w \<and> t_kind t = PAYOUT \<and> t_status t \<noteq> FAILED \<and>
                  startOfLagosDay now \<le> t_createdAt t) (txns s)"

definition payoutCharges :: "date \<Rightarrow> uuid option \<Rightarrow> money \<Rightarrow> pay_state \<Rightarrow> charges" where
  "payoutCharges now walletId amount s =
    (let done = charges_for (stampDuty amount) in
     if (case walletId of
           None \<Rightarrow> False
         | Some w \<Rightarrow> freePayoutsEnabled s \<and> payouts_today now w s < FREE_PAYOUTS_PER_DAY)
     then done 0 else done (calculateTransferFee amount))"

definition counts_as_outflow :: "uuid \<Rightarrow> date \<Rightarrow> transaction \<Rightarrow> bool" where
  "counts_as_outflow w since t \<longleftrightarrow>
    t_walletId t = Some w \<and> t_type t = DEBIT \<and> t_provider t \<noteq> MANUAL \<and>
    t_status t \<in> {PENDING, PROCESSING, SUCCESSFUL} \<and> since \<le> t_createdAt t"

definition outflowSince :: "uuid \<Rightarrow> date \<Rightarrow> pay_state \<Rightarrow> money" where
  "outflowSince w since s = sum_over t_amount (filter (counts_as_outflow w since) (txns s))"

definition assertWithinTransferLimit :: "uuid \<Rightarrow> money \<Rightarrow> transfer_limit option \<Rightarrow> unit pay" where
  "assertWithinTransferLimit w amount limit s =
    (case limit of
       None \<Rightarrow> (Inr (), s)
     | Some l \<Rightarrow>
        (let used = outflowSince w (tl_since l) s;
             remaining = max (tl_amount l - used) 0
         in if amount > remaining
            then (Inl (LimitExceeded ''NEW_DEVICE_LIMIT'' (Some (to_fixed 2 remaining))), s)
            else (Inr (), s)))"

definition assertWithinCaps :: "date \<Rightarrow> uuid \<Rightarrow> money \<Rightarrow> transfer_caps \<Rightarrow> unit pay" where
  "assertWithinCaps now w amount caps s =
    (if (case tc_perTransfer caps of Some c \<Rightarrow> amount > c | None \<Rightarrow> False)
     then (Inl (LimitExceeded ''TRANSFER_LIMIT'' None), s)
     else (case tc_daily caps of
             None \<Rightarrow> (Inr (), s)
           | Some daily \<Rightarrow>
              (let used = outflowSince w (startOfLagosDay now) s;
                   remaining = max (daily - used) 0
               in if amount > remaining
                  then (Inl (LimitExceeded ''TRANSFER_LIMIT'' (Some (to_fixed 2 remaining))), s)
                  else (Inr (), s))))"

definition checkCaps :: "bool \<Rightarrow> date \<Rightarrow> uuid \<Rightarrow> money \<Rightarrow> transfer_caps option \<Rightarrow> unit pay" where
  "checkCaps enforce now w amount caps =
    (case caps of
       Some c \<Rightarrow> if enforce then assertWithinCaps now w amount c else retM ()
     | None \<Rightarrow> retM ())"

record fee_preview =
  fp_amount :: money
  fp_fee :: money
  fp_vat :: money
  fp_stampDuty :: money
  fp_total :: money

definition calculateFee ::
  "(string \<Rightarrow> money option) \<Rightarrow> date \<Rightarrow> uuid \<Rightarrow> string \<Rightarrow> pay_state \<Rightarrow> http_error + fee_preview" where
  "calculateFee dec now userId amountRaw s =
    (case dec amountRaw of
       None \<Rightarrow> Inl (BadRequest ''amount must be a numeric string'')
     | Some amount \<Rightarrow>
        if amount \<le> 0 then Inl (BadRequest ''amount must be greater than zero'')
        else (let wallet = findByUserAndCurrency userId NGN s;
                  c = payoutCharges now (map_option w_id wallet) amount s
              in Inr \<lparr>fp_amount = to_fixed 4 amount, fp_fee = to_fixed 4 (ch_total c),
                      fp_vat = to_fixed 4 (ch_vat c), fp_stampDuty = to_fixed 4 (ch_stampDuty c),
                      fp_total = to_fixed 4 (amount + ch_total c)\<rparr>))"

record limit_status =
  ls_limit :: money
  ls_used :: money
  ls_remaining :: money
  ls_until :: date

definition transferLimitStatus :: "transfer_limit option \<Rightarrow> uuid \<Rightarrow> pay_state \<Rightarrow> limit_status option" where
  "transferLimitStatus limit userId s =
    (case limit of
       None \<Rightarrow> None
     | Some l \<Rightarrow>
        (let used = (case findByUserAndCurrency userId NGN s of
                       Some w \<Rightarrow> outflowSince (w_id w) (tl_since l) s | None \<Rightarrow> 0);
             remaining = max (tl_amount l - used) 0
         in Some \<lparr>ls_limit = tl_amount l, ls_used = to_fixed 2 used,
                  ls_remaining = to_fixed 2 remaining, ls_until = tl_until l\<rparr>))"

definition transferCapsStatus ::
  "bool \<Rightarrow> date \<Rightarrow> transfer_caps option \<Rightarrow> uuid \<Rightarrow> pay_state \<Rightarrow>
   http_error + (transfer_caps \<times> money \<times> bool)" where
  "transferCapsStatus enforce now caps userId s =
    (case caps of
       None \<Rightarrow> Inl (ServiceUnavailable ''Try again shortly'')
     | Some c \<Rightarrow>
        (let used = (case findByUserAndCurrency userId NGN s of
                       Some w \<Rightarrow> outflowSince (w_id w) (startOfLagosDay now) s | None \<Rightarrow> 0)
         in Inr (c, to_fixed 2 used, enforce)))"

section \<open>The payout\<close>

record payout_dto =
  po_pin :: string
  po_beneficiaryId :: "uuid option"
  po_bankCode :: "string option"
  po_accountNumber :: "string option"
  po_amount :: string
  po_narration :: "string option"

record payout_env =
  pe_dec :: "string \<Rightarrow> money option"
  pe_internalKey :: string
  pe_pinReply :: "uuid \<Rightarrow> string \<Rightarrow> pin_body http_reply"
  pe_registry :: registry
  pe_walletName :: string
  pe_cachedBanks :: "provider_bank list option"
  pe_random :: "nat \<Rightarrow> nat"
  pe_enforceCaps :: bool
  pe_queue_ok :: bool
  pe_others :: "pay_state \<Rightarrow> pay_state"
  pe_during :: "pay_state \<Rightarrow> pay_state"
  pe_now :: date

text \<open>Ten attempts at a reference that no transaction of the provider has.\<close>

definition reference_taken :: "payment_provider_key \<Rightarrow> string \<Rightarrow> pay_state \<Rightarrow> bool" where
  "reference_taken p r s \<longleftrightarrow> find_row (same_reference p r) (txns s) \<noteq> None"

fun try_reference ::
  "nat \<Rightarrow> (nat \<Rightarrow> nat) \<Rightarrow> nat \<Rightarrow> string \<Rightarrow> payment_provider_key \<Rightarrow> string pay" where
  "try_reference 0 rand attempt name p s =
    (Inl (PlainError ''Could not generate a unique transaction reference''), s)"
| "try_reference (Suc left) rand attempt name p s =
    (let digits = pad_start 9 CHR ''0'' (nat_str (rand attempt));
         reference = name @ digits
     in if reference_taken p reference s
        then try_reference left rand (Suc attempt) name p s
        else (Inr reference, s))"

definition generateReference :: "(nat \<Rightarrow> nat) \<Rightarrow> string \<Rightarrow> payment_provider_key \<Rightarrow> string pay" where
  "generateReference rand name p = try_reference 10 rand 0 name p"

definition saveBeneficiary ::
  "(http_error + provider_bank list) \<Rightarrow> uuid \<Rightarrow> payment_provider_key \<Rightarrow> string \<Rightarrow>
   transfer_recipient \<Rightarrow> date \<Rightarrow> beneficiary pay" where
  "saveBeneficiary banksResult userId p bankCode recipient now =
    bindM (liftM banksResult) (\<lambda>banks.
    upsertBeneficiary
      \<lparr>ub_userId = userId, ub_currency = NGN, ub_provider = p, ub_bankCode = bankCode,
       ub_bankName = coalesce (map_option bk_name (List.find (\<lambda>b. bk_code b = bankCode) banks))
                       (rc_bankName recipient),
       ub_accountNumber = rc_accountNumber recipient, ub_accountName = rc_name recipient\<rparr> now)"

definition nonempty :: "string option \<Rightarrow> bool" where
  "nonempty v = (case v of None \<Rightarrow> False | Some x \<Rightarrow> x \<noteq> [])"

text \<open>The transaction of \<open>initiatePayout\<close>: debit, charge, limits, row; all or nothing.\<close>

definition payout_row ::
  "wallet \<Rightarrow> address \<Rightarrow> payment_provider_key \<Rightarrow> money \<Rightarrow> charges \<Rightarrow> money \<Rightarrow> string \<Rightarrow> uuid \<Rightarrow>
   string option \<Rightarrow> date \<Rightarrow> transaction" where
  "payout_row wallet address p amount c balance reference beneficiaryId narration now =
    (new_txn (Some (w_id wallet)) DEBIT PAYOUT PROCESSING p (a_providerAccountNumber address)
       (to_fixed 4 amount) reference now)
      \<lparr>t_fee := Some (to_fixed 4 (ch_total c)), t_feeVat := Some (to_fixed 4 (ch_vat c)),
       t_stampDuty := Some (to_fixed 4 (ch_stampDuty c)), t_balanceAfter := Some balance,
       t_beneficiaryId := Some beneficiaryId, t_narration := narration\<rparr>"

definition debit_payout ::
  "bool \<Rightarrow> wallet \<Rightarrow> address \<Rightarrow> payment_provider_key \<Rightarrow> money \<Rightarrow> transfer_limit option \<Rightarrow>
   transfer_caps option \<Rightarrow> string \<Rightarrow> uuid \<Rightarrow> string option \<Rightarrow> date \<Rightarrow> transaction pay" where
  "debit_payout enforce wallet address p amount limit caps reference beneficiaryId narration now =
    txM
      (bindM (debitForUpdate (w_id wallet) amount) (\<lambda>_.
       bindM (getM (payoutCharges now (Some (w_id wallet)) amount)) (\<lambda>c.
       bindM (debitForUpdate (w_id wallet) (ch_total c)) (\<lambda>debited.
       bindM (assertWithinTransferLimit (w_id wallet) amount limit) (\<lambda>_.
       bindM (checkCaps enforce now (w_id wallet) amount caps) (\<lambda>_.
       insert_txn (payout_row wallet address p amount c (w_balance debited) reference
                     beneficiaryId narration now)))))))"

section \<open>Reversal\<close>

text \<open>
  The writes of the reversal's transaction (a failed bill's reversal names no beneficiary), from the row \<open>t\<close> it has read.  The read takes no
  lock, so \<open>others\<close> may commit between it and the writes.
\<close>

definition refund_of :: "transaction \<Rightarrow> money" where
  "refund_of t = t_amount t + (case t_fee t of Some f \<Rightarrow> f | None \<Rightarrow> 0)"

definition reversal_row ::
  "bool \<Rightarrow> transaction \<Rightarrow> string \<Rightarrow> string \<Rightarrow> money \<Rightarrow> date \<Rightarrow> transaction" where
  "reversal_row keep_beneficiary t prefix what balance now =
    (new_txn (t_walletId t) CREDIT REVERSAL SUCCESSFUL (t_provider t) (t_accountNumber t)
       (to_fixed 4 (refund_of t)) (prefix @ t_reference t) now)
      \<lparr>t_currency := t_currency t, t_balanceAfter := Some balance,
       t_beneficiaryId := (if keep_beneficiary then t_beneficiaryId t else None),
       t_narration := Some (what @ t_reference t),
       t_verifiedAt := Some now\<rparr>"

definition credit_owner :: "transaction \<Rightarrow> money \<Rightarrow> wallet pay" where
  "credit_owner t amount =
    (case t_walletId t of
       None \<Rightarrow> failM (NotFound ''Wallet not found'')
     | Some w \<Rightarrow> creditForUpdate w amount)"

definition reverse_writes :: "bool \<Rightarrow> string \<Rightarrow> transaction \<Rightarrow> date \<Rightarrow> unit pay" where
  "reverse_writes keep_beneficiary what t now =
    txM
      (bindM (credit_owner t (refund_of t)) (\<lambda>wallet.
       bindM (updM (update_txn (t_id t) (\<lambda>r. r\<lparr>t_status := FAILED, t_verifiedAt := Some now\<rparr>))) (\<lambda>_.
       bindM (insert_txn (reversal_row keep_beneficiary t ''REV-'' what (w_balance wallet) now)) (\<lambda>_.
       retM ()))))"

definition reverseFailedPayout :: "(pay_state \<Rightarrow> pay_state) \<Rightarrow> uuid \<Rightarrow> date \<Rightarrow> unit pay" where
  "reverseFailedPayout others tid now =
    bindM (getM (find_txn tid)) (\<lambda>found.
    case found of
      None \<Rightarrow> retM ()
    | Some t \<Rightarrow>
        (if is_final (t_status t) then retM ()
         else bindM (updM others) (\<lambda>_.
              bindM (reverse_writes True ''Reversal for failed payout '' t now) (\<lambda>_.
              bindM (updM (notifyTransaction (Some t) PAYOUT_FAILED True)) (\<lambda>_.
              updM (reportIssueToSlack ''Payout failed at provider (customer refunded)'' (t_id t)))))))"

definition holdForReview :: "transaction \<Rightarrow> pay_state \<Rightarrow> pay_state" where
  "holdForReview t = reportIssueToSlack ''Payout on HOLD - funds kept, needs manual review'' (t_id t)"

definition mark_successful :: "uuid \<Rightarrow> date \<Rightarrow> pay_state \<Rightarrow> pay_state" where
  "mark_successful tid now =
    update_txn tid (\<lambda>r. r\<lparr>t_status := SUCCESSFUL, t_verifiedAt := Some now\<rparr>)"

definition find_or_fail :: "uuid \<Rightarrow> transaction pay" where
  "find_or_fail tid =
    bindM (getM (find_txn tid)) (\<lambda>row. someM row (NotFound ''EntityNotFound''))"

definition applyTransferResult :: "bool \<Rightarrow> transaction \<Rightarrow> transfer_result \<Rightarrow> date \<Rightarrow> transaction pay" where
  "applyTransferResult queue_ok t r now =
    bindM (updM (update_txn (t_id t) (\<lambda>x. x\<lparr>t_externalId := tr_externalId r,
             t_providerStatusCode := tr_providerStatusCode r, t_rawPayload := tr_rawPayload r\<rparr>))) (\<lambda>_.
    bindM
      (case tr_outcome r of
         TO_SUCCESSFUL \<Rightarrow>
           bindM (updM (mark_successful (t_id t) now)) (\<lambda>_.
           updM (notifyTransaction (Some t) PAYOUT_SUCCESSFUL True))
       | TO_FAILED \<Rightarrow> reverseFailedPayout (\<lambda>x. x) (t_id t) now
       | TO_HOLD \<Rightarrow> updM (holdForReview t)
       | TO_REQUERY \<Rightarrow>
           bindM (assertM queue_ok (PlainError ''queue unavailable'')) (\<lambda>_.
           updM (enqueue (PayoutStatusQuery (t_id t)) 10))) (\<lambda>_.
    find_or_fail (t_id t)))"

section \<open>Initiating a payout\<close>

text \<open>Where the money goes: the saved beneficiary if one is named, else the fields of the request.\<close>

definition payout_destination ::
  "uuid \<Rightarrow> payout_dto \<Rightarrow> pay_state \<Rightarrow> http_error + (string \<times> string)" where
  "payout_destination userId dto s =
    (let dest = (case po_beneficiaryId dto of
                   None \<Rightarrow> Inr (po_bankCode dto, po_accountNumber dto)
                 | Some i \<Rightarrow>
                    (case findOwnedById userId i s of
                       Inl e \<Rightarrow> Inl e
                     | Inr b \<Rightarrow> Inr (Some (b_bankCode b), Some (b_accountNumber b))))
     in case dest of
          Inl e \<Rightarrow> Inl e
        | Inr (bank, account) \<Rightarrow>
           if nonempty bank \<and> nonempty account then Inr (the bank, the account)
           else Inl (BadRequest ''beneficiaryId, or both bankCode and accountNumber, are required''))"

definition payout_amount :: "(string \<Rightarrow> money option) \<Rightarrow> string \<Rightarrow> http_error + money" where
  "payout_amount dec raw =
    (case parseAmount dec raw of
       Inl e \<Rightarrow> Inl e
     | Inr a \<Rightarrow> if a \<le> 0 then Inl (BadRequest ''amount must be greater than zero'') else Inr a)"

text \<open>
  The provider is asked for the pool account, the customer's account and the recipient at
  once; the first failure (here in that order) is thrown.
\<close>

definition payout_lookups ::
  "payment_provider \<Rightarrow> string \<Rightarrow> string \<Rightarrow> string \<Rightarrow> transfer_type \<Rightarrow>
   http_error + (account_details \<times> account_details \<times> transfer_recipient)" where
  "payout_lookups provider sender accountNumber bankCode ty =
    (case pp_getAccountDetails provider None of
       Inl e \<Rightarrow> Inl e
     | Inr from_details \<Rightarrow>
        (case pp_getAccountDetails provider (Some sender) of
           Inl e \<Rightarrow> Inl e
         | Inr senderDetails \<Rightarrow>
            (case pp_lookupTransferRecipient provider accountNumber bankCode ty of
               Inl e \<Rightarrow> Inl e
             | Inr recipient \<Rightarrow> Inr (from_details, senderDetails, recipient))))"

text \<open>
  \<open>initiatePayout\<close> in two parts: everything up to the reference (checks, look-ups, the saved
  beneficiary), and the movement of money.
\<close>

record payout_plan =
  pl_limit :: "transfer_limit option"
  pl_caps :: "transfer_caps option"
  pl_provider :: payment_provider
  pl_amount :: money
  pl_wallet :: wallet
  pl_address :: address
  pl_bankCode :: string
  pl_from :: account_details
  pl_sender :: account_details
  pl_recipient :: transfer_recipient
  pl_beneficiary :: beneficiary
  pl_reference :: string

definition prepare_payout :: "payout_env \<Rightarrow> uuid \<Rightarrow> payout_dto \<Rightarrow> payout_plan pay" where
  "prepare_payout env userId dto =
    bindM (liftM (pin_assertValid (pe_internalKey env) (pe_pinReply env userId (po_pin dto)))) (\<lambda>limits.
    bindM (liftM (getProviderForCurrency (pe_registry env) NGN)) (\<lambda>provider.
    bindM (getM (payout_destination userId dto)) (\<lambda>dest.
    bindM (liftM dest) (\<lambda>account.
    bindM (liftM (payout_amount (pe_dec env) (po_amount dto))) (\<lambda>amount.
    bindM (getM (findByUserAndCurrency userId NGN)) (\<lambda>found.
    bindM (someM found (NotFound ''Wallet not found'')) (\<lambda>wallet.
    bindM (getM (findActiveForWallet (w_id wallet))) (\<lambda>active.
    bindM (someM active (BadRequest ''No active payout account for this wallet'')) (\<lambda>address.
    bindM (liftM (payout_lookups provider (a_providerAccountNumber address) (snd account) (fst account)
             (pp_resolveTransferType provider (fst account)))) (\<lambda>details.
    bindM (saveBeneficiary (fst (listBanks (pe_cachedBanks env) (pp_listBanks provider)))
             userId (pp_key provider) (fst account) (snd (snd details)) (pe_now env)) (\<lambda>beneficiary.
    bindM (generateReference (pe_random env) (pe_walletName env) (pp_key provider)) (\<lambda>reference.
    retM \<lparr>pl_limit = fst limits, pl_caps = snd limits, pl_provider = provider, pl_amount = amount,
          pl_wallet = wallet, pl_address = address, pl_bankCode = fst account,
          pl_from = fst details, pl_sender = fst (snd details), pl_recipient = snd (snd details),
          pl_beneficiary = beneficiary, pl_reference = reference\<rparr>))))))))))))"

definition execute_payout :: "payout_env \<Rightarrow> payout_dto \<Rightarrow> payout_plan \<Rightarrow> transaction pay" where
  "execute_payout env dto plan =
    bindM (debit_payout (pe_enforceCaps env) (pl_wallet plan) (pl_address plan)
             (pp_key (pl_provider plan)) (pl_amount plan) (pl_limit plan) (pl_caps plan)
             (pl_reference plan) (b_id (pl_beneficiary plan)) (po_narration dto) (pe_now env)) (\<lambda>transaction.
    bindM (updM (emit (TransferRequest (pl_reference plan) (pl_amount plan)))) (\<lambda>_.
    bindM (updM (pe_during env)) (\<lambda>_.
    bindM (liftM (pp_initiateTransfer (pl_provider plan)
             \<lparr>ti_from = pl_from plan,
              ti_senderAccountId = (if ad_accountId (pl_sender plan) = [] then None
                                    else Some (ad_accountId (pl_sender plan))),
              ti_to = pl_recipient plan, ti_bankCode = pl_bankCode plan,
              ti_transferType = pp_resolveTransferType (pl_provider plan) (pl_bankCode plan),
              ti_amount = pl_amount plan, ti_reference = pl_reference plan,
              ti_narration = (case po_narration dto of Some n \<Rightarrow> n | None \<Rightarrow> ''Payout'')\<rparr>)) (\<lambda>result.
    applyTransferResult (pe_queue_ok env) transaction result (pe_now env)))))"

definition initiatePayout :: "payout_env \<Rightarrow> uuid \<Rightarrow> payout_dto \<Rightarrow> transaction pay" where
  "initiatePayout env userId dto =
    bindM (prepare_payout env userId dto) (\<lambda>plan.
    bindM (updM (pe_others env)) (\<lambda>_.
    execute_payout env dto plan))"

definition resolveRecipient ::
  "registry \<Rightarrow> string \<Rightarrow> string \<Rightarrow>
   http_error + (string \<times> string option \<times> string \<times> string option)" where
  "resolveRecipient rg accountNumber bankCode =
    (case getProviderForCurrency rg NGN of
       Inl e \<Rightarrow> Inl e
     | Inr provider \<Rightarrow>
        (case pp_lookupTransferRecipient provider accountNumber bankCode
                (pp_resolveTransferType provider bankCode) of
           Inl e \<Rightarrow> Inl e
         | Inr r \<Rightarrow> Inr (rc_accountNumber r, rc_name r, bankCode, rc_bankName r)))"

section \<open>Status synchronisation\<close>

datatype sync_result =
  SYNC_NOT_FOUND | SYNC_ALREADY_FINAL | SYNC_SUCCESSFUL | SYNC_FAILED | SYNC_HOLD | SYNC_UNRESOLVED

text \<open>\<open>others\<close>: what is committed while the provider is asked.\<close>

definition record_provider_answer :: "transaction \<Rightarrow> transfer_result \<Rightarrow> pay_state \<Rightarrow> pay_state" where
  "record_provider_answer t r =
    update_txn (t_id t) (\<lambda>x. x\<lparr>t_externalId := coalesce (tr_externalId r) (t_externalId t),
      t_providerStatusCode := tr_providerStatusCode r,
      t_rawPayload := coalesce (tr_rawPayload r) (t_rawPayload t)\<rparr>)"

definition syncPayoutStatus ::
  "registry \<Rightarrow> (pay_state \<Rightarrow> pay_state) \<Rightarrow> uuid \<Rightarrow> date \<Rightarrow> sync_result pay" where
  "syncPayoutStatus rg others tid now =
    bindM (getM (find_txn tid)) (\<lambda>found.
    case found of
      None \<Rightarrow> retM SYNC_NOT_FOUND
    | Some t \<Rightarrow>
        (if is_final (t_status t) then retM SYNC_ALREADY_FINAL
         else
           bindM (liftM (getProviderByKey rg (t_provider t))) (\<lambda>provider.
           bindM (liftM (pp_queryTransferStatus provider (t_reference t))) (\<lambda>r.
           bindM (updM others) (\<lambda>_.
           bindM (updM (record_provider_answer t r)) (\<lambda>_.
           (case tr_outcome r of
              TO_SUCCESSFUL \<Rightarrow>
                bindM (updM (mark_successful tid now)) (\<lambda>_.
                bindM (updM (notifyTransaction (Some t) PAYOUT_SUCCESSFUL True)) (\<lambda>_.
                retM SYNC_SUCCESSFUL))
            | TO_FAILED \<Rightarrow>
                bindM (reverseFailedPayout (\<lambda>x. x) tid now) (\<lambda>_. retM SYNC_FAILED)
            | TO_HOLD \<Rightarrow> bindM (updM (holdForReview t)) (\<lambda>_. retM SYNC_HOLD)
            | TO_REQUERY \<Rightarrow> retM SYNC_UNRESOLVED)))))))"

definition run_payout_status_query ::
  "registry \<Rightarrow> (pay_state \<Rightarrow> pay_state) \<Rightarrow> uuid \<Rightarrow> date \<Rightarrow> unit pay" where
  "run_payout_status_query rg others tid now =
    bindM (syncPayoutStatus rg others tid now) (\<lambda>outcome.
    if outcome = SYNC_UNRESOLVED then failM (PlainError ''Payout still unresolved'') else retM ())"

definition handle_payout_query_failed :: "uuid \<Rightarrow> nat \<Rightarrow> nat \<Rightarrow> unit pay" where
  "handle_payout_query_failed tid attemptsMade maxAttempts =
    (if attemptsMade < maxAttempts then retM ()
     else updM (reportIssueToSlack ''Payout status check gave up - needs manual reconciliation'' tid))"

end
