(* ===== verification/PayoutLaws.thy ===== *)
theory PayoutLaws
  imports Payouts
begin

text \<open>
  Laws and properties of payouts: what the debit transaction does on success and that it does
  nothing on failure, the limits it enforces under the lock, the agreement of the fee preview
  with the charge, the reversal, and the shape of a whole payout request.
\<close>

section \<open>Limits\<close>

lemma le_max_iff: "(0::money) < a \<Longrightarrow> \<not> max (l - u) 0 < a \<longleftrightarrow> u + a \<le> l"
  by (auto simp: max_def algebra_simps)

lemma assertWithinTransferLimit_state: "assertWithinTransferLimit w a l s = (r, s') \<Longrightarrow> s' = s"
  by (auto simp: assertWithinTransferLimit_def Let_def split: option.splits if_splits)

lemma assertWithinTransferLimit_Inr:
  assumes "0 < a"
  shows "assertWithinTransferLimit w a l s = (Inr u, s') \<longleftrightarrow>
    s' = s \<and> (\<forall>x. l = Some x \<longrightarrow> outflowSince w (tl_since x) s + a \<le> tl_amount x)"
  using le_max_iff [OF assms]
  by (auto simp: assertWithinTransferLimit_def Let_def split: option.splits if_splits)

definition within_caps :: "date \<Rightarrow> uuid \<Rightarrow> money \<Rightarrow> transfer_caps \<Rightarrow> pay_state \<Rightarrow> bool" where
  "within_caps now w a c s \<longleftrightarrow>
    (\<forall>m. tc_perTransfer c = Some m \<longrightarrow> a \<le> m) \<and>
    (\<forall>m. tc_daily c = Some m \<longrightarrow> outflowSince w (startOfLagosDay now) s + a \<le> m)"

lemma checkCaps_state: "checkCaps enforce now w a caps s = (r, s') \<Longrightarrow> s' = s"
  by (auto simp: checkCaps_def assertWithinCaps_def Let_def split: option.splits if_splits)

lemma checkCaps_Inr:
  assumes "0 < a"
  shows "checkCaps enforce now w a caps s = (Inr u, s') \<longleftrightarrow>
    s' = s \<and> (enforce \<longrightarrow> (\<forall>c. caps = Some c \<longrightarrow> within_caps now w a c s))"
  using le_max_iff [OF assms]
  by (auto simp: checkCaps_def assertWithinCaps_def within_caps_def Let_def not_less
      split: option.splits if_splits)

text \<open>The reads under the lock do not see the balance change.\<close>

lemma outflowSince_set_balance [simp]: "outflowSince w d (set_balance i b s) = outflowSince w d s"
  by (simp add: outflowSince_def)

lemma payoutCharges_set_balance [simp]:
  "payoutCharges now w a (set_balance i b s) = payoutCharges now w a s"
  by (simp add: payoutCharges_def payouts_today_def freePayoutsEnabled_def cong: option.case_cong)

lemma within_caps_set_balance [simp]:
  "within_caps now w a c (set_balance i b s) = within_caps now w a c s"
  by (simp add: within_caps_def)

lemma set_balance_twice [simp]: "set_balance i b (set_balance i c s) = set_balance i b s"
  by (simp add: set_balance_def update_wallet_def update_where_def comp_def)

lemma payoutCharges_fits [simp, intro]: "fits 4 (ch_total (payoutCharges now w a s))"
  unfolding payoutCharges_def Let_def
  by (auto intro!: fits_2_4 fits_add fits_withVat simp del: withVat_values)

lemma payoutCharges_nonneg: "0 \<le> ch_total (payoutCharges now w a s)"
  using withVat_nonneg [of "calculateTransferFee a"] calculateTransferFee_bounds [of a] stampDuty_bounds [of a]
  by (auto simp: payoutCharges_def Let_def)

section \<open>The debit transaction\<close>

lemma payout_row_simps [simp]:
  "t_walletId (payout_row w ad p a c b ref ben nar now) = Some (w_id w)"
  "t_type (payout_row w ad p a c b ref ben nar now) = DEBIT"
  "t_kind (payout_row w ad p a c b ref ben nar now) = PAYOUT"
  "t_status (payout_row w ad p a c b ref ben nar now) = PROCESSING"
  "t_provider (payout_row w ad p a c b ref ben nar now) = p"
  "t_amount (payout_row w ad p a c b ref ben nar now) = to_fixed 4 a"
  "t_fee (payout_row w ad p a c b ref ben nar now) = Some (to_fixed 4 (ch_total c))"
  "t_feeVat (payout_row w ad p a c b ref ben nar now) = Some (to_fixed 4 (ch_vat c))"
  "t_stampDuty (payout_row w ad p a c b ref ben nar now) = Some (to_fixed 4 (ch_stampDuty c))"
  "t_balanceAfter (payout_row w ad p a c b ref ben nar now) = Some b"
  "t_reference (payout_row w ad p a c b ref ben nar now) = ref"
  "t_createdAt (payout_row w ad p a c b ref ben nar now) = now"
  by (simp_all add: payout_row_def)

lemma debit_payout_InlD: "debit_payout e w ad p a l caps ref ben nar now s = (Inl err, s') \<Longrightarrow> s' = s"
  unfolding debit_payout_def by (rule txM_Inl)

text \<open>
  What a successful debit transaction has established: the balance covered amount and charges,
  the limits held on the state it locked, and the only changes are the balance and the new row.
\<close>

lemma debit_payout_InrD:
  assumes "debit_payout e w ad p a l caps ref ben nar now s = (Inr t, s')" and "0 < a"
  obtains w0 c b1 b2 where "find_wallet (w_id w) s = Some w0"
    and "c = payoutCharges now (Some (w_id w)) a s"
    and "b1 = to_fixed 4 (w_balance w0 - a)" and "b2 = to_fixed 4 (b1 - ch_total c)"
    and "a \<le> w_balance w0" and "ch_total c \<le> b1"
    and "\<And>x. l = Some x \<Longrightarrow> outflowSince (w_id w) (tl_since x) s + a \<le> tl_amount x"
    and "\<And>x. e \<Longrightarrow> caps = Some x \<Longrightarrow> within_caps now (w_id w) a x s"
    and "t = (payout_row w ad p a c b2 ref ben nar now)\<lparr>t_id := next_id s\<rparr>"
    and "find_row (same_reference p ref) (txns s) = None"
    and "s' = (set_balance (w_id w) b2 s)\<lparr>txns := insert_row t (txns s), next_id := Suc (next_id s)\<rparr>"
proof -
  from assms(1)
  have "bindM (debitForUpdate (w_id w) a) (\<lambda>_.
       bindM (getM (payoutCharges now (Some (w_id w)) a)) (\<lambda>c.
       bindM (debitForUpdate (w_id w) (ch_total c)) (\<lambda>debited.
       bindM (assertWithinTransferLimit (w_id w) a l) (\<lambda>_.
       bindM (checkCaps e now (w_id w) a caps) (\<lambda>_.
       insert_txn (payout_row w ad p a c (w_balance debited) ref ben nar now)))))) s = (Inr t, s')"
    unfolding debit_payout_def txM_Inr_iff .
  then show ?thesis
    by (elim bindM_InrE debitForUpdate_InrD)
      (clarsimp simp: assertWithinTransferLimit_Inr [OF assms(2)] checkCaps_Inr [OF assms(2)]
        find_wallet_set_balance, frule insert_txn_InrD(1), frule insert_txn_InrD(2),
        drule insert_txn_InrD(3), rule that [OF _ refl refl refl]; simp)
qed

text \<open>On balances and amounts of at most four decimals there is no rounding left.\<close>

lemma debit_payout_balances:
  assumes "debit_payout e w ad p a l caps ref ben nar now s = (Inr t, s')" and "0 < a"
    and "find_wallet (w_id w) s = Some w0" and "fits 4 (w_balance w0)" and "fits 4 a"
  shows "wallet_balance s' = (wallet_balance s)(w_id w \<mapsto> w_balance w0 - (a + the (t_fee t)))"
    and "0 \<le> w_balance w0 - (a + the (t_fee t))" and "t_amount t = a"
    and "t_balanceAfter t = Some (w_balance w0 - (a + the (t_fee t)))"
proof -
  obtain c b1 b2 where c: "c = payoutCharges now (Some (w_id w)) a s"
    and b: "b1 = to_fixed 4 (w_balance w0 - a)" "b2 = to_fixed 4 (b1 - ch_total c)"
    and le: "ch_total c \<le> b1"
    and t: "t = (payout_row w ad p a c b2 ref ben nar now)\<lparr>t_id := next_id s\<rparr>"
    and s': "s' = (set_balance (w_id w) b2 s)\<lparr>txns := insert_row t (txns s), next_id := Suc (next_id s)\<rparr>"
    using debit_payout_InrD [OF assms(1,2)] assms(3) by (metis option.inject)
  have f: "fits 4 (ch_total c)" unfolding c by simp
  have b1: "b1 = w_balance w0 - a" unfolding b(1) by (intro to_fixed_fits fits_diff assms(4,5))
  have b2: "b2 = w_balance w0 - (a + ch_total c)"
    unfolding b(2) b1 using to_fixed_fits [OF fits_diff [OF fits_diff [OF assms(4,5)] f]]
    by (simp only: diff_diff_eq)
  have fee: "t_fee t = Some (ch_total c)" unfolding t using f by (simp add: to_fixed_fits)
  have wb: "wallet_balance s' = wallet_balance (set_balance (w_id w) b2 s)"
    unfolding s' by (simp add: wallet_balance_def find_wallet_def fun_eq_iff)
  show "wallet_balance s' = (wallet_balance s)(w_id w \<mapsto> w_balance w0 - (a + the (t_fee t)))"
    unfolding wb fee using assms(3) by (simp add: wallet_balance_set_balance b2)
  show "0 \<le> w_balance w0 - (a + the (t_fee t))" using le b1 fee by simp
  show "t_amount t = a" unfolding t using assms(5) by (simp add: to_fixed_fits)
  show "t_balanceAfter t = Some (w_balance w0 - (a + the (t_fee t)))" unfolding fee using t b2 by simp
qed

section \<open>Reversal\<close>

lemma credit_owner_InrD:
  assumes "credit_owner t a s = (Inr w', s')"
  obtains i w where "t_walletId t = Some i" and "find_wallet i s = Some w"
    and "w' = w\<lparr>w_balance := to_fixed 4 (w_balance w + a)\<rparr>"
    and "s' = set_balance i (to_fixed 4 (w_balance w + a)) s"
  using assms
  by (auto simp: credit_owner_def split: option.splits elim!: creditForUpdate_InrD)

lemma reversal_row_simps [simp]:
  "t_walletId (reversal_row k t pre what b now) = t_walletId t"
  "t_type (reversal_row k t pre what b now) = CREDIT" "t_kind (reversal_row k t pre what b now) = REVERSAL"
  "t_status (reversal_row k t pre what b now) = SUCCESSFUL"
  "t_provider (reversal_row k t pre what b now) = t_provider t"
  "t_amount (reversal_row k t pre what b now) = to_fixed 4 (refund_of t)"
  "t_reference (reversal_row k t pre what b now) = pre @ t_reference t"
  "t_fee (reversal_row k t pre what b now) = None"
  "t_createdAt (reversal_row k t pre what b now) = now"
  by (simp_all add: reversal_row_def)

text \<open>The state after a reversal that went through.\<close>

definition reversed :: "bool \<Rightarrow> string \<Rightarrow> transaction \<Rightarrow> wallet \<Rightarrow> date \<Rightarrow> pay_state \<Rightarrow> pay_state" where
  "reversed k what t w now s =
    (let b = to_fixed 4 (w_balance w + refund_of t);
         r = (reversal_row k t ''REV-'' what b now)\<lparr>t_id := next_id s\<rparr>
     in (update_txn (t_id t) (\<lambda>x. x\<lparr>t_status := FAILED, t_verifiedAt := Some now\<rparr>)
          (set_balance (w_id w) b s))
        \<lparr>txns := insert_row r (update_where (by_key t_id (t_id t))
            (\<lambda>x. x\<lparr>t_status := FAILED, t_verifiedAt := Some now\<rparr>) (txns s)),
         next_id := Suc (next_id s)\<rparr>)"

lemma same_reference_update:
  assumes "\<And>x. t_provider (f x) = t_provider x" and "\<And>x. t_reference (f x) = t_reference x"
  shows "find_row (same_reference p r) (update_where P f t) = None \<longleftrightarrow>
    find_row (same_reference p r) t = None"
  using assms by (induction t) (auto simp: same_reference_def)

definition rev_used :: "transaction \<Rightarrow> pay_state \<Rightarrow> bool" where
  "rev_used t s \<longleftrightarrow> reference_taken (t_provider t) (''REV-'' @ t_reference t) s"

lemma reverse_writes_eq:
  assumes "t_walletId t = Some i" and "find_wallet i s = Some w"
  shows "reverse_writes k what t now s =
    (if rev_used t s then (Inl UniqueViolation, s) else (Inr (), reversed k what t w now s))"
  using assms find_wallet_id [OF assms(2)]
    same_reference_update [of "\<lambda>x. x\<lparr>t_status := FAILED, t_verifiedAt := Some now\<rparr>"
      "t_provider t" "''REV-'' @ t_reference t" "by_key t_id (t_id t)" "txns s"]
  by (auto simp: reverse_writes_def stm_simps credit_owner_def creditForUpdate_eq Let_def
      insert_txn_def rev_used_def reference_taken_def reversed_def
      split: option.splits)

lemma reversed_balance:
  assumes "find_wallet i s = Some w"
  shows "wallet_balance (reversed k what t w now s) =
    (wallet_balance s)(i \<mapsto> to_fixed 4 (w_balance w + refund_of t))"
  using assms find_wallet_id [OF assms]
  by (auto simp: wallet_balance_def reversed_def Let_def find_wallet_def set_balance_def
      update_txn_def update_wallet_def find_row_update_where_key fun_eq_iff)

lemma reversed_rev_used [simp]: "rev_used t (reversed k what t w now s)"
  by (auto simp: rev_used_def reference_taken_def reversed_def Let_def find_row_insert_row
      same_reference_def split: option.splits)

lemma reversed_txn:
  assumes "find_txn (t_id t) s = Some t"
  shows "find_txn (t_id t) (reversed k what t w now s) =
    Some (t\<lparr>t_status := FAILED, t_verifiedAt := Some now\<rparr>)"
  using assms
  by (simp add: reversed_def Let_def find_txn_def find_row_insert_row find_row_update_where_key)

end
