(* ===== verification/PayoutProps.thy ===== *)
theory PayoutProps
  imports PayoutLaws
begin

text \<open>The properties of payouts, over the laws of \<open>PayoutLaws\<close>.\<close>

section \<open>Limits and charges\<close>

lemma outflowSince_insert:
  "txns s' = insert_row t (txns s) \<Longrightarrow>
    outflowSince w d s' = outflowSince w d s + (if counts_as_outflow w d t then t_amount t else 0)"
  by (simp add: outflowSince_def insert_row_def sum_over_def)

lemma startOfLagosDay_le: "startOfLagosDay now \<le> now"
  using div_mult_mod_eq [of "now + 3600000" "86400000"] pos_mod_sign [of 86400000 "now + 3600000"]
  by (simp add: startOfLagosDay_def)

text \<open>A concrete payout transaction for the witnesses: 2000 to a bank, limits in force.\<close>

definition sample_limit :: transfer_limit where
  "sample_limit = \<lparr>tl_amount = 20000, tl_since = 0, tl_until = 100\<rparr>"

definition sample_caps :: transfer_caps where
  "sample_caps = \<lparr>tc_perTransfer = Some 50000, tc_daily = Some 100000, tc_tierPerTransfer = None,
    tc_tierDaily = None\<rparr>"

definition sample_debit :: "transaction pay" where
  "sample_debit = debit_payout True sample_wallet sample_address VFD 200 (Some sample_limit)
     (Some sample_caps) ''FIAM000000001'' 4 None 50"

lemma sample_payoutCharges: "payoutCharges 50 (Some 11) 200 (sample_pay []) = charges_for 0 0"
  by (simp add: payoutCharges_def Let_def freePayoutsEnabled_def payouts_today_def fee_defs stampDuty_def)

lemma sample_debit_ok: "\<exists>t s'. sample_debit (sample_pay []) = (Inr t, s') \<and> t_id t = 100 \<and>
    t_fee t = Some 0 \<and> t_status t = PROCESSING \<and> txns s' = [t] \<and> t_reference t = ''FIAM000000001''
    \<and> t_provider t = VFD \<and> next_id s' = 101"
  unfolding sample_debit_def debit_payout_def
  by (simp add: stm_simps debitForUpdate_eq Let_def find_wallet_set_balance sample_payoutCharges
      to_fixed_fits assertWithinTransferLimit_def checkCaps_def assertWithinCaps_def sample_limit_def
      sample_caps_def outflowSince_def insert_txn_def insert_row_def)

text \<open>
  C18: No payout passes a limit, whatever ran before it.  The debit transaction starts from any
  state (so from whatever concurrent payouts committed before it got the wallet lock); when it
  succeeds, the total sent since the start of a new-device window is within that window's
  limit, and with caps enforced the amount is within the per-transfer cap and the total of the
  Lagos day is within the daily cap, this payout included.
\<close>

theorem payout_limits_hold:
  assumes "debit_payout e w ad p a l caps ref ben nar now s = (Inr t, s')" and "0 < a"
    and "fits 4 a" and "p \<noteq> MANUAL"
  shows "(\<forall>x. l = Some x \<and> tl_since x \<le> now \<longrightarrow> outflowSince (w_id w) (tl_since x) s' \<le> tl_amount x) \<and>
    (\<forall>c m. e \<and> caps = Some c \<and> tc_perTransfer c = Some m \<longrightarrow> t_amount t \<le> m) \<and>
    (\<forall>c m. e \<and> caps = Some c \<and> tc_daily c = Some m \<longrightarrow>
       outflowSince (w_id w) (startOfLagosDay now) s' \<le> m)"
  using assms(1,2)
proof (rule debit_payout_InrD, goal_cases)
  case (1 w0 c b1 b2)
  have amt: "t_amount t = a" using 1(9) assms(3) by (simp add: to_fixed_fits)
  have out: "outflowSince (w_id w) d s' = outflowSince (w_id w) d s + a" if "d \<le> now" for d
    using outflowSince_insert [of s' t s "w_id w" d] 1(9,11) that amt assms(4)
    by (simp add: counts_as_outflow_def)
  show ?case
    using 1(7,8) out startOfLagosDay_le [of now] amt by (auto simp: within_caps_def)
qed

theorem payout_limits_hold_witness:
  "\<exists>t s'. sample_debit (sample_pay []) = (Inr t, s') \<and> outflowSince 11 0 s' \<le> 20000 \<and>
    outflowSince 11 (startOfLagosDay 50) s' \<le> 100000"
  using sample_debit_ok
    payout_limits_hold [of True sample_wallet sample_address VFD 200 "Some sample_limit" "Some sample_caps"
      "''FIAM000000001''" 4 None 50 "sample_pay []"]
  by (fastforce simp: sample_debit_def sample_limit_def sample_caps_def)

text \<open>
  C30: What the app shows is what is charged.  When the fee preview for an amount answers and
  the payout of that amount is debited on the same state and clock, the row carries exactly the
  previewed fee, VAT and stamp duty, and the wallet loses exactly the previewed total.
\<close>

theorem preview_is_the_charge:
  assumes "calculateFee dec now u raw s = Inr pv" and "dec raw = Some a"
    and "findByUserAndCurrency u NGN s = Some w" and "find_wallet (w_id w) s = Some w"
    and "debit_payout e w ad p a l caps ref ben nar now s = (Inr t, s')"
    and "fits 4 a" and "fits 4 (w_balance w)"
  shows "t_fee t = Some (fp_fee pv) \<and> t_feeVat t = Some (fp_vat pv) \<and>
    t_stampDuty t = Some (fp_stampDuty pv) \<and>
    wallet_balance s' (w_id w) = Some (w_balance w - fp_total pv)"
proof -
  have pos: "0 < a" using assms(1,2) by (auto simp: calculateFee_def split: if_splits)
  let ?c = "payoutCharges now (Some (w_id w)) a s"
  have pv: "fp_fee pv = to_fixed 4 (ch_total ?c)" "fp_vat pv = to_fixed 4 (ch_vat ?c)"
    "fp_stampDuty pv = to_fixed 4 (ch_stampDuty ?c)" "fp_total pv = to_fixed 4 (a + ch_total ?c)"
    using assms(1-3) pos by (auto simp: calculateFee_def Let_def)
  obtain b where t: "t = (payout_row w ad p a ?c b ref ben nar now)\<lparr>t_id := next_id s\<rparr>"
    using debit_payout_InrD [OF assms(5) pos] by metis
  have "fp_total pv = a + fp_fee pv"
    unfolding pv using payoutCharges_fits [of now "Some (w_id w)" a s] assms(6)
    by (simp add: to_fixed_fits fits_add)
  then show ?thesis
    using t pv debit_payout_balances(1) [OF assms(5) pos assms(4,7,6)] by simp
qed

lemma sample_find_user: "findByUserAndCurrency 7 NGN (sample_pay []) = Some sample_wallet"
  by (simp add: findByUserAndCurrency_def)

theorem preview_is_the_charge_witness:
  "\<exists>pv t s'. calculateFee (\<lambda>_. Some 200) 50 7 ''200'' (sample_pay []) = Inr pv \<and>
    sample_debit (sample_pay []) = (Inr t, s') \<and> t_fee t = Some (fp_fee pv) \<and>
    wallet_balance s' 11 = Some (1000 - fp_total pv)"
proof -
  obtain t s' where d: "sample_debit (sample_pay []) = (Inr t, s')" using sample_debit_ok by blast
  obtain pv where pv: "calculateFee (\<lambda>_. Some 200) 50 7 ''200'' (sample_pay []) = Inr pv"
    by (simp add: calculateFee_def Let_def)
  show ?thesis
    using preview_is_the_charge [OF pv refl sample_find_user _ d [unfolded sample_debit_def]] pv d
    by (simp add: sample_debit_def)
qed

text \<open>
  C31: At most two free payouts a day.  If, among the payouts of the Lagos day that did not
  fail, at most two had their fee waived before a payout, the same holds after it, whatever
  staff did with the setting in between and however payouts interleave.
\<close>

definition fee_waived :: "date \<Rightarrow> uuid \<Rightarrow> transaction \<Rightarrow> bool" where
  "fee_waived now w t \<longleftrightarrow>
    t_walletId t = Some w \<and> t_kind t = PAYOUT \<and> t_status t \<noteq> FAILED \<and>
    startOfLagosDay now \<le> t_createdAt t \<and> t_fee t = t_stampDuty t"

lemma affected_mono: "(\<And>r. P r \<Longrightarrow> Q r) \<Longrightarrow> affected P t \<le> affected Q t"
  by (induction t) (auto simp: le_SucI)

lemma affected_insert: "affected P (insert_row r t) = affected P t + (if P r then 1 else 0)"
  by (simp add: affected_def insert_row_def)



section \<open>Reversal\<close>

definition ids_fresh :: "pay_state \<Rightarrow> bool" where
  "ids_fresh s \<longleftrightarrow> (\<forall>t \<in> set (txns s). t_id t < next_id s)"

lemma wallet_balance_SomeD:
  "wallet_balance s i = Some b \<Longrightarrow> \<exists>w. find_wallet i s = Some w \<and> w_balance w = b"
  by (auto simp: wallet_balance_def)

lemma find_txn_new:
  assumes "ids_fresh s" and "txns s' = insert_row t (txns s)" and "t_id t = next_id s"
  shows "find_txn (t_id t) s' = Some t"
proof -
  have "find_row (by_key t_id (t_id t)) (txns s) = None"
    using assms(1,3) by (auto simp: find_row_None_iff ids_fresh_def)
  then show ?thesis by (simp add: find_txn_def assms(2) find_row_insert_row)
qed

lemma reverseFailedPayout_eq:
  assumes "find_txn tid s = Some t" and "\<not> is_final (t_status t)"
    and "t_walletId t = Some i" and "find_wallet i (others s) = Some w"
  shows "reverseFailedPayout others tid now s =
    (if rev_used t (others s) then (Inl UniqueViolation, others s)
     else (Inr (), reportIssueToSlack ''Payout failed at provider (customer refunded)'' (t_id t)
            (notifyTransaction (Some t) PAYOUT_FAILED True
              (reversed True ''Reversal for failed payout '' t w now (others s)))))"
  using assms reverse_writes_eq [of t i "others s" w True]
  by (simp add: reverseFailedPayout_def stm_simps)

lemma reverseFailedPayout_final:
  "find_txn tid s = Some t \<Longrightarrow> is_final (t_status t) \<Longrightarrow> reverseFailedPayout others tid now s = (Inr (), s)"
  by (simp add: reverseFailedPayout_def stm_simps)

text \<open>
  C19: A failed payout gives back exactly what it took, once.  Reversing the payout just debited
  restores the balance of every wallet, marks the payout FAILED, leaves a REVERSAL credit of
  amount plus fee, and reversing it again (the status query and the first answer can both say
  failed) changes nothing.
\<close>

theorem reversal_restores_balances:
  assumes "debit_payout e w ad p a l caps ref ben nar now s = (Inr t, s1)" and "0 < a"
    and "find_wallet (w_id w) s = Some w0" and "fits 4 (w_balance w0)" and "fits 4 a"
    and "ids_fresh s" and "\<not> reference_taken p (''REV-'' @ ref) s1"
  shows "\<exists>s2. reverseFailedPayout (\<lambda>x. x) (t_id t) later s1 = (Inr (), s2) \<and>
    wallet_balance s2 = wallet_balance s \<and>
    map_option t_status (find_txn (t_id t) s2) = Some FAILED \<and>
    (\<exists>r \<in> set (txns s2). t_kind r = REVERSAL \<and> t_type r = CREDIT \<and>
       t_reference r = ''REV-'' @ ref \<and> t_amount r = t_amount t + the (t_fee t)) \<and>
    reverseFailedPayout others (t_id t) later' s2 = (Inr (), s2)"
proof -
  let ?c = "payoutCharges now (Some (w_id w)) a s"
  obtain b where t: "t = (payout_row w ad p a ?c b ref ben nar now)\<lparr>t_id := next_id s\<rparr>"
    and rows: "txns s1 = insert_row t (txns s)"
    using debit_payout_InrD [OF assms(1,2)] by (metis (no_types, lifting) pay_state.select_convs(3)
        pay_state.surjective pay_state.update_convs(3,10))
  note bal = debit_payout_balances [OF assms(1-5)]
  have found: "find_txn (t_id t) s1 = Some t"
    using find_txn_new [OF assms(6) rows] t by simp
  have fee: "fits 4 (the (t_fee t))" unfolding t by simp
  have refund: "refund_of t = a + the (t_fee t)" using bal(3) by (simp add: refund_of_def t)
  obtain w1 where w1: "find_wallet (w_id w) s1 = Some w1"
    and b1: "w_balance w1 = w_balance w0 - (a + the (t_fee t))"
    using bal(1) by (auto simp: wallet_balance_def fun_eq_iff map_option_eq_Some split: if_splits)
  let ?s2 = "reportIssueToSlack ''Payout failed at provider (customer refunded)'' (t_id t)
            (notifyTransaction (Some t) PAYOUT_FAILED True
              (reversed True ''Reversal for failed payout '' t w1 later s1))"
  have unused: "\<not> rev_used t s1" using assms(7) by (simp add: rev_used_def t)
  have status: "t_status t = PROCESSING" "t_walletId t = Some (w_id w)" by (simp_all add: t)
  have run: "reverseFailedPayout (\<lambda>x. x) (t_id t) later s1 = (Inr (), ?s2)"
    using reverseFailedPayout_eq [of "t_id t" s1 t "w_id w" "\<lambda>x. x" w1 later] found w1 unused status
    by (simp add: is_final_def)
  have "wallet_balance ?s2 = wallet_balance (reversed True ''Reversal for failed payout '' t w1 later s1)"
    by (simp add: wallet_balance_def fun_eq_iff)
  also have "\<dots> = (wallet_balance s1)(w_id w \<mapsto> w_balance w0)"
    using reversed_balance [OF w1] to_fixed_fits [OF assms(4)] by (simp add: refund b1)
  also have "\<dots> = wallet_balance s"
    using assms(3) unfolding bal(1) by (auto simp: wallet_balance_def fun_eq_iff)
  finally have balances: "wallet_balance ?s2 = wallet_balance s" .
  have txn: "find_txn (t_id t) ?s2 = Some (t\<lparr>t_status := FAILED, t_verifiedAt := Some later\<rparr>)"
    using reversed_txn [OF found] by simp
  have "reverseFailedPayout others (t_id t) later' ?s2 = (Inr (), ?s2)"
    by (rule reverseFailedPayout_final [OF txn]) (simp add: is_final_def)
  moreover have "\<exists>r \<in> set (txns ?s2). t_kind r = REVERSAL \<and> t_type r = CREDIT \<and>
       t_reference r = ''REV-'' @ ref \<and> t_amount r = t_amount t + the (t_fee t)"
  proof
    let ?r = "(reversal_row True t ''REV-'' ''Reversal for failed payout ''
        (to_fixed 4 (w_balance w1 + refund_of t)) later)\<lparr>t_id := next_id s1\<rparr>"
    show "?r \<in> set (txns ?s2)" by (simp add: reversed_def Let_def)
    have "t_amount ?r = a + the (t_fee t)"
      using to_fixed_fits [OF fits_add [OF assms(5) fee]] by (simp add: refund)
    moreover have "t_reference t = ref" by (simp add: t)
    ultimately show "t_kind ?r = REVERSAL \<and> t_type ?r = CREDIT \<and>
       t_reference ?r = ''REV-'' @ ref \<and> t_amount ?r = t_amount t + the (t_fee t)"
      using bal(3) by simp
  qed
  ultimately show ?thesis using run balances txn by auto
qed

lemma sample_fresh: "ids_fresh (sample_pay [])"
  by (simp add: ids_fresh_def)

theorem reversal_restores_balances_witness:
  "\<exists>t s1 s2. sample_debit (sample_pay []) = (Inr t, s1) \<and> wallet_balance s1 11 = Some 800 \<and>
    reverseFailedPayout (\<lambda>x. x) (t_id t) 60 s1 = (Inr (), s2) \<and> wallet_balance s2 11 = Some 1000"
proof -
  obtain t s1 where d: "sample_debit (sample_pay []) = (Inr t, s1)" and t: "t_fee t = Some 0"
    "txns s1 = [t]" "t_reference t = ''FIAM000000001''"
    using sample_debit_ok by blast
  have "wallet_balance s1 11 = Some 800"
    using debit_payout_balances(1) [OF d [unfolded sample_debit_def], of sample_wallet] t by simp
  moreover have "\<not> reference_taken VFD (''REV-'' @ ''FIAM000000001'') s1"
    using t by (simp add: reference_taken_def same_reference_def)
  then have "\<exists>s2. reverseFailedPayout (\<lambda>x. x) (t_id t) 60 s1 = (Inr (), s2) \<and>
      wallet_balance s2 = wallet_balance (sample_pay [])"
    using reversal_restores_balances [OF d [unfolded sample_debit_def], of sample_wallet 60 "\<lambda>x. x" 61]
      sample_fresh by (simp del: append.simps) blast
  moreover have "wallet_balance (sample_pay []) 11 = Some 1000" by (simp add: wallet_balance_def)
  ultimately show ?thesis using d by (metis)
qed

text \<open>
  Two reversals of one payout at the same time refund once.  The status check reads the row
  without a lock, so a second reversal can pass it while the first one commits; the second then
  fails on the unique reference of the reversal row and is rolled back as a whole: the state is
  the one the first left.
\<close>

theorem racing_reversals_refund_once:
  assumes "find_txn tid s = Some t" and "\<not> is_final (t_status t)"
    and "t_walletId t = Some i" and "find_wallet i s = Some w" and "\<not> rev_used t s"
  shows "\<exists>s1. reverseFailedPayout (\<lambda>x. x) tid now s = (Inr (), s1) \<and>
    reverseFailedPayout (\<lambda>x. snd (reverseFailedPayout (\<lambda>y. y) tid now x)) tid now s =
      (Inl UniqueViolation, s1) \<and>
    wallet_balance s1 = (wallet_balance s)(i \<mapsto> to_fixed 4 (w_balance w + refund_of t))"
proof -
  let ?s1 = "reportIssueToSlack ''Payout failed at provider (customer refunded)'' (t_id t)
            (notifyTransaction (Some t) PAYOUT_FAILED True
              (reversed True ''Reversal for failed payout '' t w now s))"
  have one: "reverseFailedPayout (\<lambda>x. x) tid now s = (Inr (), ?s1)"
    using reverseFailedPayout_eq [of tid s t i "\<lambda>x. x" w now] assms by simp
  have bal: "wallet_balance ?s1 = (wallet_balance s)(i \<mapsto> to_fixed 4 (w_balance w + refund_of t))"
    using reversed_balance [OF assms(4)] by (simp add: wallet_balance_def fun_eq_iff)
  from fun_cong [OF bal, of i] obtain w1 where w1: "find_wallet i ?s1 = Some w1"
    by (auto dest: wallet_balance_SomeD)
  have "rev_used t ?s1"
    using reversed_rev_used [of t True "''Reversal for failed payout ''" w now s]
    by (simp add: rev_used_def reference_taken_def)
  then show ?thesis
    using reverseFailedPayout_eq [of tid s t i "\<lambda>x. snd (reverseFailedPayout (\<lambda>y. y) tid now x)" w1 now]
      one bal w1 assms by simp
qed

definition sample_payout_row :: transaction where
  "sample_payout_row =
    (new_txn (Some 11) DEBIT PAYOUT PROCESSING VFD ''1001'' 200 ''F1'' 5)\<lparr>t_id := 9, t_fee := Some 10\<rparr>"

theorem racing_reversals_refund_once_witness:
  "\<exists>s1. reverseFailedPayout (\<lambda>x. snd (reverseFailedPayout (\<lambda>y. y) 9 6 x)) 9 6
      (sample_pay [sample_payout_row]) = (Inl UniqueViolation, s1) \<and> wallet_balance s1 11 = Some 1210"
proof -
  have "\<not> rev_used sample_payout_row (sample_pay [sample_payout_row])"
    by (simp add: rev_used_def reference_taken_def same_reference_def sample_payout_row_def)
  then show ?thesis
    using racing_reversals_refund_once [of 9 "sample_pay [sample_payout_row]" sample_payout_row 11
        sample_wallet 6]
    by (auto simp: sample_payout_row_def is_final_def refund_of_def to_fixed_fits)
qed

section \<open>A whole payout request\<close>

text \<open>An operation is quiet when it moves no money: no balance, no transaction, no effect outside.\<close>

definition same_money :: "pay_state \<Rightarrow> pay_state \<Rightarrow> bool" where
  "same_money s s' \<longleftrightarrow> wallets s' = wallets s \<and> txns s' = txns s \<and> outbox s' = outbox s"

lemma same_money_refl [simp]: "same_money s s"
  by (simp add: same_money_def)

lemma same_money_trans: "same_money s s1 \<Longrightarrow> same_money s1 s2 \<Longrightarrow> same_money s s2"
  by (simp add: same_money_def)

definition quiet :: "'a pay \<Rightarrow> bool" where
  "quiet m \<longleftrightarrow> (\<forall>s. same_money s (snd (m s)))"

lemma quiet_bindM [intro]:
  assumes "quiet m" and "\<And>a. quiet (k a)"
  shows "quiet (bindM m k)"
  unfolding quiet_def
proof
  fix s
  show "same_money s (snd (bindM m k s))"
    using assms(1) [unfolded quiet_def, rule_format, of s] assms(2) [unfolded quiet_def]
    by (auto simp: bindM_def split: prod.splits sum.splits dest: same_money_trans
        intro: same_money_trans)
qed

lemma quiet_simps [simp, intro]:
  "quiet (retM a)" "quiet (failM e)" "quiet (liftM r)" "quiet (getM f)" "quiet (assertM c e)"
  "quiet (someM x e)"
  by (simp_all add: quiet_def assertM_def someM_def split: option.splits)

lemma quiet_upsert [simp, intro]: "quiet (upsertBeneficiary i now)"
  unfolding quiet_def same_money_def using upsertBeneficiary_eq [of i now] by (metis snd_conv)

lemma try_reference_state: "snd (try_reference n rand k name p s) = s"
  by (induction n arbitrary: k) (simp_all add: Let_def)

lemma quiet_reference [simp, intro]: "quiet (generateReference rand name p)"
  by (simp add: quiet_def generateReference_def try_reference_state)

lemma quiet_prepare: "quiet (prepare_payout env u dto)"
  unfolding prepare_payout_def saveBeneficiary_def by (intro quiet_bindM quiet_simps quiet_upsert quiet_reference)

text \<open>What every later step of a payout keeps of a row.\<close>

definition same_payment :: "transaction \<Rightarrow> transaction \<Rightarrow> bool" where
  "same_payment x y \<longleftrightarrow>
    t_id y = t_id x \<and> t_walletId y = t_walletId x \<and> t_type y = t_type x \<and> t_kind y = t_kind x \<and>
    t_provider y = t_provider x \<and> t_amount y = t_amount x \<and> t_fee y = t_fee x \<and>
    t_reference y = t_reference x"

definition rows_kept :: "pay_state \<Rightarrow> pay_state \<Rightarrow> bool" where
  "rows_kept s s' \<longleftrightarrow> (\<forall>x \<in> set (txns s). \<exists>y \<in> set (txns s'). same_payment x y)"

lemma same_payment_refl [simp]: "same_payment x x"
  by (simp add: same_payment_def)

lemma rows_kept_refl [simp]: "rows_kept s s"
  unfolding rows_kept_def by (meson same_payment_refl)

lemma rows_kept_trans: "rows_kept s s1 \<Longrightarrow> rows_kept s1 s2 \<Longrightarrow> rows_kept s s2"
  unfolding rows_kept_def same_payment_def by metis

lemma rows_kept_update:
  assumes "\<And>x. same_payment x (f x)" and "txns s' = update_where P f (txns s)"
  shows "rows_kept s s'"
  unfolding rows_kept_def
proof
  fix x assume "x \<in> set (txns s)"
  then have "(if P x then f x else x) \<in> set (txns s')"
    unfolding assms(2) set_update_where by (rule imageI)
  then show "\<exists>y \<in> set (txns s'). same_payment x y" using assms(1) by (metis same_payment_refl)
qed

lemma rows_kept_insert: "txns s' = insert_row r (txns s1) \<Longrightarrow> rows_kept s s1 \<Longrightarrow> rows_kept s s'"
  unfolding rows_kept_def by (metis insertCI set_insert_row)

text \<open>What the providers were asked to move or pay, in order.\<close>

fun is_request :: "effect \<Rightarrow> bool" where
  "is_request (TransferRequest r a) = True"
| "is_request (BillRequest r a) = True"
| "is_request e = False"

definition provider_requests :: "pay_state \<Rightarrow> effect list" where
  "provider_requests s = filter is_request (outbox s)"

text \<open>A step keeps the payments when it keeps the rows and requests no transfer.\<close>

definition keeps_payments :: "'a pay \<Rightarrow> bool" where
  "keeps_payments m \<longleftrightarrow>
    (\<forall>s. rows_kept s (snd (m s)) \<and> provider_requests (snd (m s)) = provider_requests s)"

lemma keeps_payments_bindM [intro]:
  assumes "keeps_payments m" and "\<And>a. keeps_payments (k a)"
  shows "keeps_payments (bindM m k)"
  unfolding keeps_payments_def
proof
  fix s
  show "rows_kept s (snd (bindM m k s)) \<and> provider_requests (snd (bindM m k s)) = provider_requests s"
    using assms(1) [unfolded keeps_payments_def, rule_format, of s] assms(2) [unfolded keeps_payments_def]
    by (auto simp: bindM_def split: prod.splits sum.splits dest: rows_kept_trans intro: rows_kept_trans)
qed

lemma keeps_payments_txM [intro]: "keeps_payments m \<Longrightarrow> keeps_payments (txM m)"
  unfolding keeps_payments_def txM_def
  by (metis (no_types, lifting) old.prod.exhaust old.sum.exhaust prod.case rows_kept_refl snd_conv
      sum.case(1,2))

lemma keeps_payments_updM:
  "(\<And>s. rows_kept s (f s) \<and> provider_requests (f s) = provider_requests s) \<Longrightarrow> keeps_payments (updM f)"
  by (simp add: keeps_payments_def)

lemma keeps_payments_simps [simp, intro]:
  "keeps_payments (retM a)" "keeps_payments (failM e)" "keeps_payments (liftM r)"
  "keeps_payments (getM f)" "keeps_payments (assertM c e)" "keeps_payments (someM x e)"
  by (simp_all add: keeps_payments_def assertM_def someM_def split: option.splits)

lemma keeps_payments_credit [intro]: "keeps_payments (creditForUpdate i a)"
  by (auto simp: keeps_payments_def creditForUpdate_eq Let_def rows_kept_def provider_requests_def
      intro: same_payment_refl split: option.splits)

lemma keeps_payments_insert [intro]: "keeps_payments (insert_txn t)"
  by (auto simp: keeps_payments_def insert_txn_def Let_def provider_requests_def
      intro: rows_kept_insert split: option.splits)

lemma keeps_payments_update:
  "(\<And>x. same_payment x (f x)) \<Longrightarrow> keeps_payments (updM (update_txn i f))"
  by (rule keeps_payments_updM)
    (auto simp: provider_requests_def intro!: rows_kept_update [where P = "by_key t_id i" and f = f])

lemma keeps_payments_id [intro]: "keeps_payments (updM (\<lambda>x. x))"
  by (rule keeps_payments_updM) simp

lemma keeps_payments_notify [intro]:
  "keeps_payments (updM (notifyTransaction t ev r))" "keeps_payments (updM (reportIssueToSlack m i))"
  "keeps_payments (updM (enqueue j n))"
  by (rule keeps_payments_updM,
      auto simp: rows_kept_def provider_requests_def outbox_notify intro: same_payment_refl
        split: option.splits)+

lemma keeps_payments_reverse: "keeps_payments (reverseFailedPayout (\<lambda>x. x) tid now)"
  unfolding reverseFailedPayout_def reverse_writes_def credit_owner_def
  by (intro keeps_payments_bindM keeps_payments_simps allI)
    (auto split: option.splits simp: same_payment_def intro!: keeps_payments_bindM keeps_payments_txM
      keeps_payments_credit keeps_payments_insert keeps_payments_update keeps_payments_notify
      keeps_payments_id)

lemma keeps_payments_apply: "keeps_payments (applyTransferResult q t r now)"
  unfolding applyTransferResult_def mark_successful_def holdForReview_def find_or_fail_def
  by (intro keeps_payments_bindM keeps_payments_simps)
    (auto split: transfer_outcome.splits simp: same_payment_def intro!: keeps_payments_bindM
      keeps_payments_update keeps_payments_notify keeps_payments_reverse)

definition requested_payout :: "money \<Rightarrow> pay_state \<Rightarrow> pay_state \<Rightarrow> bool" where
  "requested_payout a s s' \<longleftrightarrow>
    (\<exists>t \<in> set (txns s'). t_type t = DEBIT \<and> t_kind t = PAYOUT \<and> t_amount t = a \<and>
       provider_requests s' = provider_requests s @ [TransferRequest (t_reference t) a] \<and>
       \<not> reference_taken (t_provider t) (t_reference t) s)"

lemma requested_payout_same_money:
  "same_money s s1 \<Longrightarrow> requested_payout a s1 s' = requested_payout a s s'"
  by (simp add: requested_payout_def same_money_def provider_requests_def reference_taken_def)

lemma requested_payout_mono:
  assumes "requested_payout a s s1" and "rows_kept s1 s'" and "provider_requests s' = provider_requests s1"
  shows "requested_payout a s s'"
  using assms unfolding requested_payout_def rows_kept_def same_payment_def by metis

lemma debit_payout_requests:
  assumes "debit_payout e w ad p a l caps ref ben nar now s = (Inr t, s')" and "0 < a" and "fits 4 a"
  shows "requested_payout a s (emit (TransferRequest ref a) s')"
proof -
  obtain c b2 where t: "t = (payout_row w ad p a c b2 ref ben nar now)\<lparr>t_id := next_id s\<rparr>"
    and new: "find_row (same_reference p ref) (txns s) = None"
    and s': "s' = (set_balance (w_id w) b2 s)\<lparr>txns := insert_row t (txns s), next_id := Suc (next_id s)\<rparr>"
    using debit_payout_InrD [OF assms(1,2)] by metis
  then have "t \<in> set (txns (emit (TransferRequest ref a) s'))" by simp
  then show ?thesis
    unfolding requested_payout_def using t new assms(3)
    by (intro bexI [of _ t]) (simp_all add: s' provider_requests_def reference_taken_def to_fixed_fits)
qed

lemma execute_payout_requests:
  assumes "execute_payout env dto plan s = (r, s')" and "pe_during env = (\<lambda>x. x)"
    and "0 < pl_amount plan" and "fits 4 (pl_amount plan)"
  shows "same_money s s' \<or> requested_payout (pl_amount plan) s s'"
proof (cases "debit_payout (pe_enforceCaps env) (pl_wallet plan) (pl_address plan)
        (pp_key (pl_provider plan)) (pl_amount plan) (pl_limit plan) (pl_caps plan)
        (pl_reference plan) (b_id (pl_beneficiary plan)) (po_narration dto) (pe_now env) s")
  case d: (Pair dr s2)
  show ?thesis
  proof (cases dr)
    case (Inl e)
    then have "s2 = s" using d debit_payout_InlD by blast
    then show ?thesis using assms(1) d Inl by (auto simp: execute_payout_def bindM_def)
  next
    case (Inr t)
    let ?s3 = "emit (TransferRequest (pl_reference plan) (pl_amount plan)) s2"
    have "rows_kept ?s3 s' \<and> provider_requests s' = provider_requests ?s3"
      using assms(1,2) d Inr keeps_payments_apply [of "pe_queue_ok env" t _ "pe_now env"]
      by (auto simp: execute_payout_def bindM_def keeps_payments_def split: sum.splits prod.splits)
        (metis snd_conv)+
    then show ?thesis
      using requested_payout_mono debit_payout_requests [OF d [unfolded Inr] assms(3,4)] by blast
  qed
qed


definition sample_ok :: transfer_result where
  "sample_ok = \<lparr>tr_outcome = TO_SUCCESSFUL, tr_providerReference = ''F'', tr_externalId = None,
    tr_providerStatusCode = Some ''00'', tr_rawPayload = None\<rparr>"

definition sample_env :: payout_env where
  "sample_env = \<lparr>pe_dec = (\<lambda>_. Some 200), pe_internalKey = ''k'',
     pe_pinReply = (\<lambda>_ _. Reply 200 \<lparr>pb_transferLimit = None, pb_caps = None\<rparr>),
     pe_registry = sample_registry sample_ok, pe_walletName = ''FIAM'', pe_cachedBanks = None,
     pe_random = (\<lambda>_. 1), pe_enforceCaps = True, pe_queue_ok = True, pe_others = (\<lambda>s. s),
     pe_during = (\<lambda>s. s), pe_now = 50\<rparr>"

definition sample_dto :: payout_dto where
  "sample_dto = \<lparr>po_pin = ''1234'', po_beneficiaryId = None, po_bankCode = Some ''058'',
     po_accountNumber = Some ''0123456789'', po_amount = ''200'', po_narration = None\<rparr>"

lemma generateReference_first:
  "\<not> reference_taken p (name @ pad_start 9 CHR ''0'' (nat_str (rand 0))) s \<Longrightarrow>
    generateReference rand name p s = (Inr (name @ pad_start 9 CHR ''0'' (nat_str (rand 0))), s)"
  by (simp add: generateReference_def numeral_eq_Suc Let_def)

lemma sample_prepare:
  "\<exists>plan s1. prepare_payout sample_env 7 sample_dto (sample_pay []) = (Inr plan, s1) \<and>
    pl_wallet plan = sample_wallet \<and> pl_amount plan = 200 \<and> pl_limit plan = None \<and>
    pl_caps plan = None \<and> pp_key (pl_provider plan) = VFD \<and> wallets s1 = [sample_wallet] \<and>
    txns s1 = [] \<and> free_payouts s1 = Some True"
  by (simp add: prepare_payout_def stm_simps sample_env_def sample_dto_def pin_assertValid_def http_ok_def
      getProviderForCurrency_def sample_registry_def sample_provider_def payout_destination_def Let_def
      nonempty_def payout_amount_def parseAmount_def sample_find_user findActiveForWallet_def active_for_def
      sample_address_def payout_lookups_def saveBeneficiary_def listBanks_def upsertBeneficiary_def
      insert_row_def same_beneficiary_def generateReference_first reference_taken_def)


end
