(* ===== verification/Bills.thy ===== *)
theory Bills
  imports PayoutProps
begin

text \<open>
  Bill payments: \<open>bills.service.ts\<close> with \<open>biller-rules.ts\<close>, \<open>bill-beneficiaries.service.ts\<close> and the
  worker \<open>bill-status-query.processor.ts\<close>.  The bills operations of the provider are a record of
  functions; \<open>bills_env\<close> holds what comes from outside, as \<open>payout_env\<close> does.  A price of the
  item list is None when it is null or not a number; the dash of the narration is a hyphen.
\<close>

section \<open>The provider's bills interface\<close>

type_synonym biller_key = "string \<times> string \<times> string"

record bill_item =
  bi_paymentCode :: string
  bi_name :: string
  bi_amount :: "money option"
  bi_isAmountFixed :: bool
  bi_productId :: "string option"
  bi_division :: "string option"

record customer_validation =
  cv_valid :: bool
  cv_name :: "string option"
  cv_address :: "string option"
  cv_details :: "label_value list"

record bill_pay_input =
  bp_customerId :: string
  bp_amount :: money
  bp_biller :: biller_key
  bp_paymentItem :: string
  bp_reference :: string
  bp_phoneNumber :: "string option"

datatype bill_outcome = BO_SUCCESSFUL | BO_FAILED | BO_REQUERY

record bill_result =
  br_outcome :: bill_outcome
  br_providerStatusCode :: "string option"
  br_token :: "string option"
  br_extraTokens :: "label_value list"
  br_details :: "label_value list option"
  br_rawPayload :: "json option"

record bills_provider =
  bv_listCategories :: "http_error + string list"
  bv_listBillers :: "string option \<Rightarrow> http_error + provider_biller list"
  bv_listItems :: "biller_key \<Rightarrow> http_error + bill_item list"
  bv_validateCustomer :: "string \<Rightarrow> biller_key \<Rightarrow> string \<Rightarrow> http_error + customer_validation"
  bv_payBill :: "bill_pay_input \<Rightarrow> http_error + bill_result"
  bv_queryStatus :: "string \<Rightarrow> http_error + bill_result"

section \<open>Biller rules\<close>

fun any_suffix :: "(string \<Rightarrow> bool) \<Rightarrow> string \<Rightarrow> bool" where
  "any_suffix P [] \<longleftrightarrow> P []"
| "any_suffix P (c # s) \<longleftrightarrow> P (c # s) \<or> any_suffix P s"

text \<open>\<open>/a\s*b/i\<close> somewhere in a text; \<open>rest\<close> tests what follows the match.\<close>

definition words_match :: "string \<Rightarrow> string \<Rightarrow> (string \<Rightarrow> bool) \<Rightarrow> string \<Rightarrow> bool" where
  "words_match a b rest text0 =
    any_suffix (\<lambda>s. starts_with a s \<and>
      (let r = dropWhile js_space (drop (length a) s)
       in starts_with b r \<and> rest (drop (length b) r))) (to_lower text0)"

definition word_char :: "char \<Rightarrow> bool" where
  "word_char c \<longleftrightarrow> is_alpha c \<or> is_digit c \<or> c = CHR ''_''"

definition at_boundary :: "string \<Rightarrow> bool" where
  "at_boundary s \<longleftrightarrow> s = [] \<or> \<not> word_char (hd s)"

definition is_ikedc :: "string \<Rightarrow> bool" where
  "is_ikedc t \<longleftrightarrow> contains ''ikedc'' (to_lower t) \<or> words_match ''ikeja'' ''electric'' (\<lambda>_. True) t"

definition is_ibedc :: "string \<Rightarrow> bool" where
  "is_ibedc t \<longleftrightarrow> contains ''ibedc'' (to_lower t) \<or> words_match ''ibadan'' ''electric'' (\<lambda>_. True) t"

definition is_band_a :: "string \<Rightarrow> bool" where
  "is_band_a t \<longleftrightarrow> words_match ''band'' ''a'' at_boundary t"

definition IBEDC_BAND_A_MIN :: money where "IBEDC_BAND_A_MIN = 5000"

definition biller_matches :: "(string \<Rightarrow> bool) \<Rightarrow> provider_biller \<Rightarrow> bool" where
  "biller_matches P b \<longleftrightarrow> P (pb_id b) \<or> P (pb_name b)"

definition trimmed_nonempty :: "string option \<Rightarrow> bool" where
  "trimmed_nonempty v = (case v of None \<Rightarrow> False | Some t \<Rightarrow> js_trim t \<noteq> [])"

definition assertBillerRules ::
  "provider_biller \<Rightarrow> bill_item \<Rightarrow> money \<Rightarrow> string option \<Rightarrow> http_error + unit" where
  "assertBillerRules biller item amount phoneNumber =
    (if biller_matches is_ikedc biller \<and> \<not> trimmed_nonempty phoneNumber then
       Inl (BadRequest (''A phone number is required to pay '' @ pb_name biller))
     else if biller_matches is_ibedc biller \<and> is_band_a (bi_name item) \<and> amount < IBEDC_BAND_A_MIN then
       Inl (BadRequest (''The minimum amount for '' @ pb_name biller @ '' (Band A) is 5000.00''))
     else Inr ())"

section \<open>Bill beneficiaries\<close>

definition same_bill_ben :: "uuid \<Rightarrow> bill_details \<Rightarrow> bill_beneficiary \<Rightarrow> bool" where
  "same_bill_ben u b r \<longleftrightarrow>
    bb_userId r = u \<and> bb_billerId r = bd_billerId b \<and> bb_division r = bd_division b \<and>
    bb_productId r = bd_productId b \<and> bb_customerId r = bd_customerId b"

definition recordSuccess :: "uuid \<Rightarrow> bill_details \<Rightarrow> money \<Rightarrow> date \<Rightarrow> pay_state \<Rightarrow> pay_state" where
  "recordSuccess u b amount now s =
    (case find_row (same_bill_ben u b) (bill_bens s) of
       Some _ \<Rightarrow> s\<lparr>bill_bens := update_where (same_bill_ben u b)
          (\<lambda>r. r\<lparr>bb_billerName := bd_billerName b, bb_billType := billTypeFromCategory (bd_category b),
                 bb_lastPaymentItem := bd_paymentItem b,
                 bb_lastPaymentItemName := bd_paymentItemName b, bb_lastAmount := amount,
                 bb_payCount := bb_payCount r + 1, bb_lastPaidAt := now\<rparr>) (bill_bens s)\<rparr>
     | None \<Rightarrow> s\<lparr>bill_bens := insert_row
          \<lparr>bb_id = next_id s, bb_userId = u, bb_billType = billTypeFromCategory (bd_category b),
           bb_billerId = bd_billerId b, bb_billerName = bd_billerName b, bb_division = bd_division b,
           bb_productId = bd_productId b, bb_customerId = bd_customerId b,
           bb_lastPaymentItem = bd_paymentItem b, bb_lastPaymentItemName = bd_paymentItemName b,
           bb_lastAmount = amount, bb_payCount = 1, bb_lastPaidAt = now, bb_nickname = None,
           bb_dismissed = False\<rparr> (bill_bens s), next_id := Suc (next_id s)\<rparr>)"

text \<open>Nicknamed first, then by most recent payment; thirty at most.\<close>

definition list_bill_bens :: "uuid \<Rightarrow> bill_type option \<Rightarrow> pay_state \<Rightarrow> bill_beneficiary list" where
  "list_bill_bens u ty s =
    (let rows = sort_key (\<lambda>b. - bb_lastPaidAt b)
           (filter (\<lambda>b. bb_userId b = u \<and> \<not> bb_dismissed b \<and> opt_all (\<lambda>t. bb_billType b = t) ty)
             (bill_bens s))
     in take 30 (filter (\<lambda>b. bb_nickname b \<noteq> None) rows @ filter (\<lambda>b. bb_nickname b = None) rows))"

definition find_bill_ben :: "uuid \<Rightarrow> uuid \<Rightarrow> pay_state \<Rightarrow> http_error + bill_beneficiary" where
  "find_bill_ben u i s =
    (case find_row (\<lambda>b. bb_id b = i \<and> bb_userId b = u \<and> \<not> bb_dismissed b) (bill_bens s) of
       None \<Rightarrow> Inl (NotFound ''Beneficiary not found'')
     | Some b \<Rightarrow> Inr b)"

definition update_bill_ben :: "uuid \<Rightarrow> (bill_beneficiary \<Rightarrow> bill_beneficiary) \<Rightarrow> pay_state \<Rightarrow> pay_state" where
  "update_bill_ben i f s = s\<lparr>bill_bens := update_where (by_key bb_id i) f (bill_bens s)\<rparr>"

definition rename_bill_ben :: "uuid \<Rightarrow> uuid \<Rightarrow> string \<Rightarrow> bill_beneficiary pay" where
  "rename_bill_ben u i nickname =
    bindM (getM (find_bill_ben u i)) (\<lambda>r.
    bindM (liftM r) (\<lambda>found.
    (let name = (if js_trim nickname = [] then None else Some (js_trim nickname)) in
     bindM (updM (update_bill_ben (bb_id found) (\<lambda>b. b\<lparr>bb_nickname := name\<rparr>))) (\<lambda>_.
     retM (found\<lparr>bb_nickname := name\<rparr>)))))"

definition dismiss_bill_ben :: "uuid \<Rightarrow> uuid \<Rightarrow> unit pay" where
  "dismiss_bill_ben u i =
    bindM (getM (find_bill_ben u i)) (\<lambda>r.
    bindM (liftM r) (\<lambda>found.
    updM (update_bill_ben (bb_id found) (\<lambda>b. b\<lparr>bb_dismissed := True, bb_nickname := None\<rparr>))))"

section \<open>The catalogue\<close>

text \<open>The cache-aside read: a non-empty hit is served, a non-empty load is stored.\<close>

definition cached_list :: "'a list option \<Rightarrow> (http_error + 'a list) \<Rightarrow> (http_error + 'a list) \<times> 'a list option" where
  "cached_list hit load =
    (if (case hit of Some l \<Rightarrow> l \<noteq> [] | None \<Rightarrow> False) then (Inr (the hit), hit)
     else (case load of
             Inl e \<Rightarrow> (Inl e, hit)
           | Inr fresh \<Rightarrow> (Inr fresh, if fresh \<noteq> [] then Some fresh else hit)))"

text \<open>The key of the cache and the argument of the load for a category.\<close>

definition biller_scope :: "string option \<Rightarrow> string" where
  "biller_scope category =
    (case category of
       None \<Rightarrow> ''all''
     | Some c \<Rightarrow> (let k = to_lower (js_trim c) in if k = [] then ''all'' else k))"

definition listBillers ::
  "bills_provider \<Rightarrow> (string \<Rightarrow> provider_biller list option) \<Rightarrow> string option \<Rightarrow>
   http_error + provider_biller list" where
  "listBillers bv cache category =
    fst (cached_list (cache (biller_scope category))
      (bv_listBillers bv (case category of
          None \<Rightarrow> None | Some c \<Rightarrow> if js_trim c = [] then None else Some (js_trim c))))"

definition listBillersWithFees ::
  "bills_provider \<Rightarrow> (string \<Rightarrow> provider_biller list option) \<Rightarrow> money \<Rightarrow> string option \<Rightarrow>
   http_error + (provider_biller \<times> money) list" where
  "listBillersWithFees bv cache serviceFee category =
    (case listBillers bv cache category of
       Inl e \<Rightarrow> Inl e
     | Inr billers \<Rightarrow>
         Inr (map (\<lambda>b. (b, to_fixed 2 (bf_total (calculateBillFees b serviceFee)))) billers))"

definition resolveBiller ::
  "bills_provider \<Rightarrow> (string \<Rightarrow> provider_biller list option) \<Rightarrow> biller_key \<Rightarrow> http_error + provider_biller" where
  "resolveBiller bv cache ref =
    (case listBillers bv cache None of
       Inl e \<Rightarrow> Inl e
     | Inr billers \<Rightarrow>
        (case List.find (\<lambda>b. (pb_id b, pb_division b, pb_product b) = ref) billers of
           None \<Rightarrow> Inl (BadRequest ''Unknown biller'')
         | Some b \<Rightarrow> Inr b))"

definition validateCustomer ::
  "bills_provider \<Rightarrow> (string \<Rightarrow> provider_biller list option) \<Rightarrow> biller_key \<Rightarrow> string \<Rightarrow> string \<Rightarrow>
   http_error + customer_validation" where
  "validateCustomer bv cache ref paymentItem customerId =
    (case resolveBiller bv cache ref of
       Inl e \<Rightarrow> Inl e
     | Inr biller \<Rightarrow>
        (case bv_validateCustomer bv customerId ref paymentItem of
           Inl e \<Rightarrow> Inl e
         | Inr r \<Rightarrow>
            if cv_valid r then Inr r
            else Inl (BadRequest (''We couldn't verify that '' @ pb_name biller @
              '' number. Please check it and try again.''))))"

section \<open>Paying a bill\<close>

record pay_bill_dto =
  pd_pin :: string
  pd_biller :: biller_key
  pd_paymentItem :: string
  pd_customerId :: string
  pd_amount :: "string option"
  pd_phoneNumber :: "string option"

record bills_env =
  be_dec :: "string \<Rightarrow> money option"
  be_internalKey :: string
  be_pinReply :: "uuid \<Rightarrow> string \<Rightarrow> pin_body http_reply"
  be_registry :: registry
  be_bills :: bills_provider
  be_cachedBillers :: "string \<Rightarrow> provider_biller list option"
  be_walletName :: string
  be_serviceFee :: money
  be_phoneLookup :: "uuid \<Rightarrow> string option"
  be_random :: "nat \<Rightarrow> nat"
  be_enforceCaps :: bool
  be_queue_ok :: bool
  be_others :: "pay_state \<Rightarrow> pay_state"
  be_during :: "pay_state \<Rightarrow> pay_state"
  be_now :: date

text \<open>Who decides the amount: the item when its price is fixed and positive, else the customer.\<close>

definition bill_amount ::
  "(string \<Rightarrow> money option) \<Rightarrow> bill_item \<Rightarrow> string option \<Rightarrow> http_error + money" where
  "bill_amount dec item raw =
    (if bi_isAmountFixed item \<and> (case bi_amount item of Some a \<Rightarrow> 0 < a | None \<Rightarrow> False) then
       (let amount = the (bi_amount item) in
        case raw of
          None \<Rightarrow> Inr amount
        | Some r \<Rightarrow>
           (case parseAmount dec r of
              Inl e \<Rightarrow> Inl e
            | Inr a \<Rightarrow> if a \<noteq> amount then Inl (BadRequest (bi_name item @ '' costs more or less''))
                       else Inr amount))
     else
       (case raw of
          None \<Rightarrow> Inl (BadRequest ''amount is required'')
        | Some r \<Rightarrow> payout_amount dec r))"

definition VALIDATION_REQUIRED_CATEGORIES :: "string list" where
  "VALIDATION_REQUIRED_CATEGORIES = [''utility'', ''cable tv'', ''betting'', ''gaming'']"

text \<open>The account holder of a meter or smartcard, where the category asks for it.\<close>

definition bill_holder ::
  "bills_provider \<Rightarrow> provider_biller \<Rightarrow> pay_bill_dto \<Rightarrow> http_error + (string option \<times> string option)" where
  "bill_holder bv biller dto =
    (if to_lower (pb_category biller) \<in> set VALIDATION_REQUIRED_CATEGORIES then
       (case bv_validateCustomer bv (pd_customerId dto) (pd_biller dto) (pd_paymentItem dto) of
          Inl e \<Rightarrow> Inl e
        | Inr r \<Rightarrow>
           if cv_valid r then Inr (cv_name r, cv_address r)
           else Inl (BadRequest (''We couldn't verify that '' @ pb_name biller @
              '' number. Please check it and try again.'')))
     else Inr (None, None))"

definition truthy_text :: "string option \<Rightarrow> string option" where
  "truthy_text v = (if v = Some [] then None else v)"

definition bill_details_of ::
  "provider_biller \<Rightarrow> bill_item \<Rightarrow> string \<Rightarrow> string option \<times> string option \<Rightarrow> bill_details" where
  "bill_details_of biller item customerId holder =
    \<lparr>bd_category = pb_category biller, bd_billerId = pb_id biller, bd_billerName = pb_name biller,
     bd_division = pb_division biller, bd_productId = pb_product biller,
     bd_paymentItem = bi_paymentCode item, bd_paymentItemName = bi_name item,
     bd_customerId = customerId, bd_customerName = truthy_text (fst holder),
     bd_customerAddress = truthy_text (snd holder), bd_token = None, bd_extraTokens = None,
     bd_details = None\<rparr>"

definition bill_row ::
  "wallet \<Rightarrow> address \<Rightarrow> payment_provider_key \<Rightarrow> money \<Rightarrow> money \<Rightarrow> money \<Rightarrow> string \<Rightarrow> bill_details \<Rightarrow>
   date \<Rightarrow> transaction" where
  "bill_row wallet address p amount fee balance reference bill now =
    (new_txn (Some (w_id wallet)) DEBIT BILL_PAYMENT PROCESSING p (a_providerAccountNumber address)
       (to_fixed 4 amount) reference now)
      \<lparr>t_billType := Some (billTypeFromCategory (bd_category bill)), t_fee := Some (to_fixed 4 fee),
       t_balanceAfter := Some balance,
       t_narration := Some (take 255 (bd_billerName bill @ '' - '' @ bd_paymentItemName bill)),
       t_bill := Some bill\<rparr>"

definition debit_bill ::
  "bool \<Rightarrow> wallet \<Rightarrow> address \<Rightarrow> (http_error + payment_provider_key) \<Rightarrow> money \<Rightarrow> money \<Rightarrow>
   transfer_caps option \<Rightarrow> string \<Rightarrow> bill_details \<Rightarrow> date \<Rightarrow> transaction pay" where
  "debit_bill enforce wallet address key amount fee caps reference bill now =
    txM
      (bindM (debitForUpdate (w_id wallet) (amount + fee)) (\<lambda>debited.
       bindM (checkCaps enforce now (w_id wallet) amount caps) (\<lambda>_.
       bindM (liftM key) (\<lambda>p.
       insert_txn (bill_row wallet address p amount fee (w_balance debited) reference bill now)))))"

section \<open>After the provider's answer\<close>

definition isTokenCategory :: "transaction \<Rightarrow> bool" where
  "isTokenCategory t =
    (case t_bill t of
       None \<Rightarrow> False
     | Some b \<Rightarrow> (let c = to_lower (bd_category b) in c = ''utility'' \<or> c = ''cable tv''))"

definition expectsToken :: "transaction \<Rightarrow> bool" where
  "expectsToken t = (t_billType t = Some UTILITY)"

text \<open>The tokens and receipt lines of an answer, kept where the answer has none.\<close>

definition with_tokens :: "bill_result \<Rightarrow> bill_details \<Rightarrow> bill_details" where
  "with_tokens issued b =
    b\<lparr>bd_token := coalesce (br_token issued) (bd_token b),
      bd_extraTokens := (if br_extraTokens issued \<noteq> [] then Some (br_extraTokens issued)
                         else bd_extraTokens b),
      bd_details := (if (case br_details issued of Some d \<Rightarrow> d \<noteq> [] | None \<Rightarrow> False)
                     then br_details issued else bd_details b)\<rparr>"

definition rememberRecipient :: "transaction \<Rightarrow> date \<Rightarrow> pay_state \<Rightarrow> pay_state" where
  "rememberRecipient t now s =
    (case (t_bill t, t_walletId t) of
       (Some bill, Some w) \<Rightarrow>
         (case findById w s of
            None \<Rightarrow> s
          | Some wallet \<Rightarrow> recordSuccess (w_userId wallet) bill (t_amount t) now s)
     | _ \<Rightarrow> s)"

definition markSuccessful :: "bool \<Rightarrow> transaction \<Rightarrow> bill_result \<Rightarrow> date \<Rightarrow> pay_state \<Rightarrow> pay_state" where
  "markSuccessful queue_ok t issued now s =
    (let bill = map_option (with_tokens issued) (t_bill t);
         holdReceipt = expectsToken t \<and> \<not> nonempty (case bill of None \<Rightarrow> None | Some b \<Rightarrow> bd_token b);
         s1 = update_txn (t_id t) (\<lambda>r. r\<lparr>t_status := SUCCESSFUL, t_verifiedAt := Some now,
                t_bill := (if bill = None then t_bill r else bill)\<rparr>) s;
         s2 = notifyTransaction (Some (t\<lparr>t_bill := bill\<rparr>)) PAYOUT_SUCCESSFUL (\<not> holdReceipt) s1;
         s3 = (if holdReceipt \<and> queue_ok then enqueue (FetchBillToken (t_id t)) 6 s2 else s2)
     in rememberRecipient t now s3)"

definition reverseFailedBill :: "(pay_state \<Rightarrow> pay_state) \<Rightarrow> uuid \<Rightarrow> date \<Rightarrow> unit pay" where
  "reverseFailedBill others tid now =
    bindM (getM (find_txn tid)) (\<lambda>found.
    case found of
      None \<Rightarrow> retM ()
    | Some t \<Rightarrow>
        (if is_final (t_status t) then retM ()
         else bindM (updM others) (\<lambda>_.
              bindM (reverse_writes False ''Reversal for failed bill payment '' t now) (\<lambda>_.
              bindM (updM (notifyTransaction (Some t) PAYOUT_FAILED True)) (\<lambda>_.
              updM (reportIssueToSlack ''Bill payment failed at provider (customer refunded)''
                      (t_id t)))))))"

definition applyBillResult ::
  "bills_provider \<Rightarrow> bool \<Rightarrow> transaction \<Rightarrow> bill_result \<Rightarrow> date \<Rightarrow> transaction pay" where
  "applyBillResult bv queue_ok t initial now =
    bindM (updM (update_txn (t_id t) (\<lambda>x. x\<lparr>t_providerStatusCode := br_providerStatusCode initial,
             t_rawPayload := br_rawPayload initial\<rparr>))) (\<lambda>_.
    bindM
      (case br_outcome initial of
         BO_SUCCESSFUL \<Rightarrow>
           (let r = (if \<not> nonempty (br_token initial) \<and> isTokenCategory t
                     then (case bv_queryStatus bv (t_reference t) of
                             Inl _ \<Rightarrow> initial
                           | Inr q \<Rightarrow> if br_outcome q = BO_SUCCESSFUL then q else initial)
                     else initial)
            in updM (markSuccessful queue_ok t r now))
       | BO_FAILED \<Rightarrow> reverseFailedBill (\<lambda>x. x) (t_id t) now
       | BO_REQUERY \<Rightarrow>
           bindM (assertM queue_ok (PlainError ''queue unavailable'')) (\<lambda>_.
           updM (enqueue (BillStatusQuery (t_id t)) 10))) (\<lambda>_.
    find_or_fail (t_id t)))"

section \<open>The payment\<close>

record bill_plan =
  bl_caps :: "transfer_caps option"
  bl_biller :: provider_biller
  bl_item :: bill_item
  bl_amount :: money
  bl_phone :: "string option"
  bl_holder :: "string option \<times> string option"
  bl_fee :: money
  bl_wallet :: wallet
  bl_address :: address
  bl_reference :: string

definition prepare_bill :: "bills_env \<Rightarrow> uuid \<Rightarrow> pay_bill_dto \<Rightarrow> bill_plan pay" where
  "prepare_bill env userId dto =
    bindM (liftM (pin_assertValid (be_internalKey env) (be_pinReply env userId (pd_pin dto)))) (\<lambda>limits.
    bindM (liftM (resolveBiller (be_bills env) (be_cachedBillers env) (pd_biller dto))) (\<lambda>biller.
    bindM (liftM (bv_listItems (be_bills env) (pd_biller dto))) (\<lambda>items.
    bindM (someM (List.find (\<lambda>i. bi_paymentCode i = pd_paymentItem dto) items)
             (BadRequest ''Unknown payment item'')) (\<lambda>item.
    bindM (liftM (bill_amount (be_dec env) item (pd_amount dto))) (\<lambda>amount.
    (let phone = (if trimmed_nonempty (pd_phoneNumber dto)
                  then map_option js_trim (pd_phoneNumber dto) else be_phoneLookup env userId) in
    bindM (liftM (assertBillerRules biller item amount phone)) (\<lambda>_.
    bindM (liftM (bill_holder (be_bills env) biller dto)) (\<lambda>holder.
    bindM (getM (findByUserAndCurrency userId NGN)) (\<lambda>found.
    bindM (someM found (NotFound ''Wallet not found'')) (\<lambda>wallet.
    bindM (getM (findActiveForWallet (w_id wallet))) (\<lambda>active.
    bindM (someM active (BadRequest ''No active account for this wallet'')) (\<lambda>address.
    bindM (liftM (getProviderForCurrency (be_registry env) NGN)) (\<lambda>provider.
    bindM (generateReference (be_random env) (be_walletName env @ ''-B'') (pp_key provider)) (\<lambda>reference.
    retM \<lparr>bl_caps = snd limits, bl_biller = biller, bl_item = item, bl_amount = amount,
          bl_phone = phone, bl_holder = holder,
          bl_fee = bf_total (calculateBillFees biller (be_serviceFee env)),
          bl_wallet = wallet, bl_address = address, bl_reference = reference\<rparr>))))))))))))))"

definition execute_bill :: "bills_env \<Rightarrow> pay_bill_dto \<Rightarrow> bill_plan \<Rightarrow> transaction pay" where
  "execute_bill env dto plan =
    bindM (debit_bill (be_enforceCaps env) (bl_wallet plan) (bl_address plan)
             (case getProviderForCurrency (be_registry env) NGN of
                Inl e \<Rightarrow> Inl e | Inr p \<Rightarrow> Inr (pp_key p))
             (bl_amount plan) (bl_fee plan) (bl_caps plan) (bl_reference plan)
             (bill_details_of (bl_biller plan) (bl_item plan) (pd_customerId dto) (bl_holder plan))
             (be_now env)) (\<lambda>transaction.
    bindM (updM (emit (BillRequest (bl_reference plan) (bl_amount plan)))) (\<lambda>_.
    bindM (updM (be_during env)) (\<lambda>_.
    bindM (liftM (bv_payBill (be_bills env)
             \<lparr>bp_customerId = pd_customerId dto, bp_amount = bl_amount plan,
              bp_biller = (pb_id (bl_biller plan),
                (case bi_division (bl_item plan) of Some d \<Rightarrow> d | None \<Rightarrow> pb_division (bl_biller plan)),
                (case bi_productId (bl_item plan) of Some d \<Rightarrow> d | None \<Rightarrow> pb_product (bl_biller plan))),
              bp_paymentItem = bi_paymentCode (bl_item plan), bp_reference = bl_reference plan,
              bp_phoneNumber = bl_phone plan\<rparr>)) (\<lambda>result.
    applyBillResult (be_bills env) (be_queue_ok env) transaction result (be_now env)))))"

definition payBill :: "bills_env \<Rightarrow> uuid \<Rightarrow> pay_bill_dto \<Rightarrow> transaction pay" where
  "payBill env userId dto =
    bindM (prepare_bill env userId dto) (\<lambda>plan.
    bindM (updM (be_others env)) (\<lambda>_.
    execute_bill env dto plan))"

section \<open>Tokens and status queries\<close>

datatype token_result = TOKEN_NOT_FOUND | TOKEN_SENT

definition fetchTokenAndSendReceipt :: "bills_provider \<Rightarrow> uuid \<Rightarrow> token_result pay" where
  "fetchTokenAndSendReceipt bv tid =
    bindM (getM (find_txn tid)) (\<lambda>found.
    case found of
      None \<Rightarrow> retM TOKEN_NOT_FOUND
    | Some t \<Rightarrow>
        (case t_bill t of
           None \<Rightarrow> retM TOKEN_NOT_FOUND
         | Some bill \<Rightarrow>
             (if nonempty (bd_token bill) then
                bindM (updM (sendBillReceiptEmail t False)) (\<lambda>_. retM TOKEN_SENT)
              else
                bindM (liftM (bv_queryStatus bv (t_reference t))) (\<lambda>r.
                bindM (assertM (br_outcome r = BO_SUCCESSFUL \<and> nonempty (br_token r))
                         (PlainError ''Token not issued yet'')) (\<lambda>_.
                (let bill' = with_tokens r bill in
                 bindM (updM (update_txn tid (\<lambda>x. x\<lparr>t_bill := Some bill'\<rparr>))) (\<lambda>_.
                 bindM (updM (sendBillReceiptEmail (t\<lparr>t_bill := Some bill'\<rparr>) False)) (\<lambda>_.
                 retM TOKEN_SENT))))))))"

definition sendReceiptWithoutToken :: "uuid \<Rightarrow> unit pay" where
  "sendReceiptWithoutToken tid =
    bindM (getM (find_txn tid)) (\<lambda>found.
    case found of
      None \<Rightarrow> retM ()
    | Some t \<Rightarrow>
        (if t_bill t = None then retM ()
         else bindM (updM (sendBillReceiptEmail t True)) (\<lambda>_.
              updM (reportIssueToSlack ''Electricity token not issued - recover it with VFD'' tid))))"

definition syncBillStatus ::
  "bills_provider \<Rightarrow> bool \<Rightarrow> (pay_state \<Rightarrow> pay_state) \<Rightarrow> uuid \<Rightarrow> date \<Rightarrow> sync_result pay" where
  "syncBillStatus bv queue_ok others tid now =
    bindM (getM (find_txn tid)) (\<lambda>found.
    case found of
      None \<Rightarrow> retM SYNC_NOT_FOUND
    | Some t \<Rightarrow>
        (if t_bill t = None then retM SYNC_NOT_FOUND
         else if is_final (t_status t) then retM SYNC_ALREADY_FINAL
         else
           bindM (liftM (bv_queryStatus bv (t_reference t))) (\<lambda>r.
           bindM (updM others) (\<lambda>_.
           bindM (updM (update_txn tid (\<lambda>x. x\<lparr>t_providerStatusCode := br_providerStatusCode r,
                    t_rawPayload := coalesce (br_rawPayload r) (t_rawPayload t)\<rparr>))) (\<lambda>_.
           (case br_outcome r of
              BO_SUCCESSFUL \<Rightarrow>
                bindM (updM (markSuccessful queue_ok t r now)) (\<lambda>_. retM SYNC_SUCCESSFUL)
            | BO_FAILED \<Rightarrow>
                bindM (reverseFailedBill (\<lambda>x. x) tid now) (\<lambda>_. retM SYNC_FAILED)
            | BO_REQUERY \<Rightarrow> retM SYNC_UNRESOLVED))))))"

definition run_bill_job ::
  "bills_provider \<Rightarrow> bool \<Rightarrow> (pay_state \<Rightarrow> pay_state) \<Rightarrow> job \<Rightarrow> date \<Rightarrow> unit pay" where
  "run_bill_job bv queue_ok others j now =
    (case j of
       FetchBillToken tid \<Rightarrow> bindM (fetchTokenAndSendReceipt bv tid) (\<lambda>_. retM ())
     | BillStatusQuery tid \<Rightarrow>
         bindM (syncBillStatus bv queue_ok others tid now) (\<lambda>outcome.
         if outcome = SYNC_UNRESOLVED then failM (PlainError ''Bill payment still unresolved'')
         else retM ())
     | _ \<Rightarrow> retM ())"

definition handle_bill_job_failed :: "job \<Rightarrow> nat \<Rightarrow> nat \<Rightarrow> unit pay" where
  "handle_bill_job_failed j attemptsMade maxAttempts =
    (if attemptsMade < maxAttempts then retM ()
     else (case j of
             FetchBillToken tid \<Rightarrow> sendReceiptWithoutToken tid
           | BillStatusQuery tid \<Rightarrow>
               updM (reportIssueToSlack ''Bill status check gave up - needs manual reconciliation'' tid)
           | _ \<Rightarrow> retM ()))"

end
