(* ===== verification/Internal.thy ===== *)
theory Internal
  imports Bills
begin

text \<open>
  What the admin console calls in the payment service (\<open>internal/\<close>) and the treasury report:
  manual postings, the assignment of an unmatched deposit, the re-query of a stuck payout, the
  guard of those routes, the reconciliation summary and the hourly pool balance.
\<close>

section \<open>The guard\<close>

definition internalKeyGuard :: "string \<Rightarrow> string option \<Rightarrow> http_error + bool" where
  "internalKeyGuard configured header =
    (if configured = [] then
       Inl (ServiceUnavailable ''Internal API is not configured (missing INTERNAL_API_KEY)'')
     else if (case header of Some h \<Rightarrow> h | None \<Rightarrow> []) \<noteq> configured then Inl (Unauthorized ''Unauthorized'')
     else Inr True)"

section \<open>Manual postings\<close>

record posting_dto =
  pg_walletId :: uuid
  pg_type :: transaction_type
  pg_amount :: string
  pg_reference :: string
  pg_narration :: string
  pg_meta :: "(string \<times> json) list"

record posting_view =
  pv_transactionId :: uuid
  pv_status :: transaction_status
  pv_type :: transaction_type
  pv_amount :: money
  pv_balanceAfter :: "money option"
  pv_reference :: string
  pv_replayed :: bool

definition posting_view_of :: "bool \<Rightarrow> transaction \<Rightarrow> posting_view" where
  "posting_view_of replayed t =
    \<lparr>pv_transactionId = t_id t, pv_status = t_status t, pv_type = t_type t, pv_amount = t_amount t,
     pv_balanceAfter = t_balanceAfter t, pv_reference = t_reference t, pv_replayed = replayed\<rparr>"

definition findExisting :: "string \<Rightarrow> pay_state \<Rightarrow> transaction option" where
  "findExisting reference s = find_row (same_reference MANUAL reference) (txns s)"

definition posting_row :: "posting_dto \<Rightarrow> wallet \<Rightarrow> money \<Rightarrow> string \<Rightarrow> date \<Rightarrow> transaction" where
  "posting_row dto wallet amount account now =
    (new_txn (Some (pg_walletId dto)) (pg_type dto) ADJUSTMENT SUCCESSFUL MANUAL account
       (to_fixed 4 amount) (pg_reference dto) now)
      \<lparr>t_currency := w_currency wallet, t_balanceAfter := Some (w_balance wallet),
       t_narration := Some (pg_narration dto), t_occurredAt := Some now, t_verifiedAt := Some now,
       t_rawPayload := Some (JObj (alist_assign [(''manual'', JBool True)] (pg_meta dto)))\<rparr>"

definition apply_posting :: "posting_dto \<Rightarrow> money \<Rightarrow> date \<Rightarrow> transaction pay" where
  "apply_posting dto amount now =
    txM
      (bindM (if pg_type dto = CREDIT then creditForUpdate (pg_walletId dto) amount
              else debitForUpdate (pg_walletId dto) amount) (\<lambda>wallet.
       bindM (getM (findActiveForWallet (pg_walletId dto))) (\<lambda>active.
       insert_txn (posting_row dto wallet amount
         (case active of Some a \<Rightarrow> a_providerAccountNumber a | None \<Rightarrow> ''MANUAL'') now))))"

text \<open>\<open>others\<close>: what is committed between the look-up of a replay and the posting's transaction.\<close>

definition post_adjustment ::
  "(string \<Rightarrow> money option) \<Rightarrow> (pay_state \<Rightarrow> pay_state) \<Rightarrow> posting_dto \<Rightarrow> date \<Rightarrow> posting_view pay" where
  "post_adjustment dec others dto now =
    bindM (liftM (parseAmount dec (pg_amount dto))) (\<lambda>amount.
    bindM (assertM (0 < amount) (BadRequest ''Amount must be greater than zero'')) (\<lambda>_.
    bindM (getM (findExisting (pg_reference dto))) (\<lambda>replay.
    (case replay of
       Some t \<Rightarrow> retM (posting_view_of True t)
     | None \<Rightarrow>
         bindM (updM others) (\<lambda>_.
         catchM
           (bindM (apply_posting dto amount now) (\<lambda>created.
            bindM (updM (notifyTransaction (Some created)
                     (if pg_type dto = CREDIT then ACCOUNT_CREDITED else ACCOUNT_DEBITED) True)) (\<lambda>_.
            retM (posting_view_of False created))))
           (\<lambda>err.
             if err = UniqueViolation then
               bindM (getM (findExisting (pg_reference dto))) (\<lambda>winner.
               case winner of
                 Some t \<Rightarrow> retM (posting_view_of True t)
               | None \<Rightarrow> failM err)
             else failM err))))))"

section \<open>Unmatched deposits\<close>

record assign_dto =
  as_walletId :: uuid
  as_reference :: string
  as_meta :: "(string \<times> json) list"

record assign_view =
  av_transactionId :: uuid
  av_status :: transaction_status
  av_amount :: money
  av_balanceAfter :: "money option"
  av_replayed :: bool

definition resolved_payload :: "json option \<Rightarrow> assign_dto \<Rightarrow> json \<Rightarrow> json" where
  "resolved_payload old dto stamp =
    JObj (alist_set ''resolution''
      (JObj (alist_assign [(''reference'', JStr (as_reference dto)), (''at'', stamp)] (as_meta dto)))
      (case old of Some (JObj kvs) \<Rightarrow> kvs | _ \<Rightarrow> []))"

text \<open>The body of the transaction; the row is locked, so the check and the update are one step.\<close>

definition assign_in_tx :: "uuid \<Rightarrow> assign_dto \<Rightarrow> json \<Rightarrow> date \<Rightarrow> (transaction \<times> bool) pay" where
  "assign_in_tx tid dto stamp now =
    txM
      (bindM (getM (find_txn tid)) (\<lambda>found.
       bindM (someM found (NotFound ''Transaction not found'')) (\<lambda>t.
       if t_status t = SUCCESSFUL \<and> t_walletId t = Some (as_walletId dto) then retM (t, True)
       else
         bindM (assertM (t_type t = CREDIT \<and> t_status t = UNMATCHED \<and> t_walletId t = None)
                  (Conflict ''This deposit is not awaiting assignment'')) (\<lambda>_.
         bindM (creditForUpdate (as_walletId dto) (t_amount t)) (\<lambda>wallet.
         bindM (assertM (w_currency wallet = t_currency t) (BadRequest ''Currency mismatch'')) (\<lambda>_.
         bindM (updM (update_txn (t_id t) (\<lambda>r. r\<lparr>t_walletId := Some (w_id wallet),
                  t_status := SUCCESSFUL, t_balanceAfter := Some (w_balance wallet),
                  t_verifiedAt := Some now,
                  t_rawPayload := Some (resolved_payload (t_rawPayload t) dto stamp)\<rparr>))) (\<lambda>_.
         bindM (find_or_fail (t_id t)) (\<lambda>done_row.
         retM (done_row, False)))))))))"

definition assign_unmatched :: "uuid \<Rightarrow> assign_dto \<Rightarrow> json \<Rightarrow> date \<Rightarrow> assign_view pay" where
  "assign_unmatched tid dto stamp now =
    bindM (assign_in_tx tid dto stamp now) (\<lambda>(t, replayed).
    bindM (whenM (\<not> replayed) (updM (notifyTransaction (Some t) CREDIT_RECEIVED True))) (\<lambda>_.
    retM \<lparr>av_transactionId = t_id t, av_status = t_status t, av_amount = t_amount t,
          av_balanceAfter = t_balanceAfter t, av_replayed = replayed\<rparr>))"

section \<open>Re-query from the console\<close>

record requery_view =
  rq_outcome :: sync_result
  rq_status :: transaction_status
  rq_providerStatusCode :: "string option"

definition requery :: "registry \<Rightarrow> (pay_state \<Rightarrow> pay_state) \<Rightarrow> uuid \<Rightarrow> date \<Rightarrow> requery_view pay" where
  "requery rg others tid now =
    bindM (getM (find_txn tid)) (\<lambda>found.
    bindM (someM found (NotFound ''Transaction not found'')) (\<lambda>t.
    bindM (assertM (t_type t = DEBIT \<and> t_provider t \<noteq> MANUAL)
             (BadRequest ''Only customer payouts can be re-queried'')) (\<lambda>_.
    bindM (assertM (t_status t = PENDING \<or> t_status t = PROCESSING)
             (Conflict ''This payout is already final'')) (\<lambda>_.
    bindM (catchM (syncPayoutStatus rg others tid now) (\<lambda>_.
             failM (ServiceUnavailable
               ''The provider could not be reached. Nothing was changed; try again shortly.''))) (\<lambda>outcome.
    bindM (find_or_fail tid) (\<lambda>after.
    retM \<lparr>rq_outcome = outcome, rq_status = t_status after,
          rq_providerStatusCode = t_providerStatusCode after\<rparr>))))))"

section \<open>Reconciliation and the pool balance\<close>

definition providerPoolBalance ::
  "(string \<Rightarrow> money option) \<Rightarrow> registry \<Rightarrow> money option \<times> string option" where
  "providerPoolBalance dec rg =
    (case getProviderForCurrency rg NGN of
       Inl _ \<Rightarrow> (None, Some ''Could not reach the provider'')
     | Inr provider \<Rightarrow>
        (case pp_getAccountDetails provider None of
           Inl _ \<Rightarrow> (None, Some ''Could not reach the provider'')
         | Inr details \<Rightarrow>
            (case ad_balance details of
               None \<Rightarrow> (None, Some ''The provider did not report a balance'')
             | Some raw \<Rightarrow>
                 if raw = [] then (None, Some ''The provider did not report a balance'')
                 else (case dec raw of
                         None \<Rightarrow> (None, Some ''Could not reach the provider'')
                       | Some n \<Rightarrow> (Some (to_fixed 2 n), None)))))"

definition STUCK_AFTER_MINUTES :: int where "STUCK_AFTER_MINUTES = 15"

definition recent_success :: "date \<Rightarrow> transaction \<Rightarrow> bool" where
  "recent_success now t \<longleftrightarrow>
    t_status t = SUCCESSFUL \<and> t_currency t = NGN \<and> now - 24 * 3600000 \<le> t_createdAt t"

definition stuck :: "date \<Rightarrow> transaction \<Rightarrow> bool" where
  "stuck now t \<longleftrightarrow>
    t_type t = DEBIT \<and> t_provider t \<noteq> MANUAL \<and> t_status t \<in> {PENDING, PROCESSING} \<and>
    t_createdAt t < now - STUCK_AFTER_MINUTES * 60000"

definition owed_to_customers :: "pay_state \<Rightarrow> money" where
  "owed_to_customers s = sum_over w_balance (filter (\<lambda>w. w_currency w = NGN) (wallets s))"

record reconciliation =
  rn_owed :: money
  rn_wallets :: nat
  rn_poolBalance :: "money option"
  rn_error :: "string option"
  rn_difference :: "money option"
  rn_shortfall :: "bool option"
  rn_count :: nat
  rn_credits :: money
  rn_debits :: money
  rn_fees :: money
  rn_vat :: money
  rn_stampDuty :: money
  rn_transferFees :: money
  rn_unmatched :: "transaction list"
  rn_unmatchedTotal :: money
  rn_stuck :: "transaction list"
  rn_stuckTotal :: money

definition opt_money :: "money option \<Rightarrow> money" where
  "opt_money v = (case v of Some a \<Rightarrow> a | None \<Rightarrow> 0)"

definition oldest_first :: "transaction list \<Rightarrow> transaction list" where
  "oldest_first ts = take 50 (sort_key t_createdAt ts)"

definition reconciliation_summary ::
  "(string \<Rightarrow> money option) \<Rightarrow> registry \<Rightarrow> date \<Rightarrow> pay_state \<Rightarrow> reconciliation" where
  "reconciliation_summary dec rg now s =
    (let pool = providerPoolBalance dec rg;
         owed = owed_to_customers s;
         recent = filter (recent_success now) (txns s);
         difference = map_option (\<lambda>b. b - owed) (fst pool);
         fees = sum_over (\<lambda>t. opt_money (t_fee t)) recent;
         vat = sum_over (\<lambda>t. opt_money (t_feeVat t)) recent;
         duty = sum_over (\<lambda>t. opt_money (t_stampDuty t)) recent;
         unmatched = oldest_first (filter (\<lambda>t. t_status t = UNMATCHED) (txns s));
         stuck_rows = oldest_first (filter (stuck now) (txns s))
     in \<lparr>rn_owed = to_fixed 2 owed,
         rn_wallets = affected (\<lambda>w. w_currency w = NGN) (wallets s),
         rn_poolBalance = fst pool, rn_error = snd pool,
         rn_difference = map_option (to_fixed 2) difference,
         rn_shortfall = map_option (\<lambda>d. d < 0) difference,
         rn_count = length recent,
         rn_credits = to_fixed 2 (sum_over t_amount (filter (\<lambda>t. t_type t = CREDIT) recent)),
         rn_debits = to_fixed 2 (sum_over t_amount (filter (\<lambda>t. t_type t = DEBIT) recent)),
         rn_fees = to_fixed 2 fees, rn_vat = to_fixed 2 vat, rn_stampDuty = to_fixed 2 duty,
         rn_transferFees = to_fixed 2 (fees - vat - duty),
         rn_unmatched = unmatched, rn_unmatchedTotal = to_fixed 2 (sum_over t_amount unmatched),
         rn_stuck = stuck_rows, rn_stuckTotal = to_fixed 2 (sum_over t_amount stuck_rows)\<rparr>)"

text \<open>The hourly report: pool balance (thousands separators removed), owed, number of wallets.\<close>

definition pool_report ::
  "(string \<Rightarrow> money option) \<Rightarrow> registry \<Rightarrow> pay_state \<Rightarrow> http_error + (money \<times> money \<times> nat)" where
  "pool_report dec rg s =
    (case getProviderForCurrency rg NGN of
       Inl e \<Rightarrow> Inl e
     | Inr provider \<Rightarrow>
        (case pp_getAccountDetails provider None of
           Inl e \<Rightarrow> Inl e
         | Inr details \<Rightarrow>
            (case ad_balance details of
               None \<Rightarrow> Inl (PlainError ''VFD did not return the pool account balance'')
             | Some raw \<Rightarrow>
                (case parseAmount dec (filter (\<lambda>c. c \<noteq> CHR '','') raw) of
                   Inl e \<Rightarrow> Inl e
                 | Inr pool \<Rightarrow>
                     Inr (pool, owed_to_customers s, affected (\<lambda>w. w_currency w = NGN) (wallets s))))))"

end
