(* ===== verification/Ledger.thy ===== *)
theory Ledger
  imports Internal
begin

text \<open>
  The books of the payment service as a whole.  A wallet's balance is the sum of its entries:
  successful credits minus every debit with its charges (a failed debit stays a debit; its
  REVERSAL row is the credit that gives it back).  The steps are the atomic changes of the
  database the handlers make: each is one database transaction or one statement of the code
  (the deposit worker's read, check and credit count as one).  \<open>ledger_ok\<close> is kept by every step, so it holds in
  every state the steps reach, in any order and interleaving; the handlers are then shown to be
  sequences of such steps, with steps of other requests in between.
\<close>

section \<open>Entries and the invariant\<close>

definition entry :: "uuid \<Rightarrow> transaction \<Rightarrow> money" where
  "entry w t =
    (if t_walletId t \<noteq> Some w then 0
     else (case t_type t of
             CREDIT \<Rightarrow> if t_status t = SUCCESSFUL then t_amount t else 0
           | DEBIT \<Rightarrow> - refund_of t))"

definition ledger_balance :: "uuid \<Rightarrow> pay_state \<Rightarrow> money" where
  "ledger_balance w s = sum_over (entry w) (txns s)"

definition row_ok :: "uuid set \<Rightarrow> nat \<Rightarrow> transaction \<Rightarrow> bool" where
  "row_ok W n t \<longleftrightarrow>
    t_id t < n \<and> fits 4 (t_amount t) \<and> 0 \<le> t_amount t \<and>
    fits 4 (opt_money (t_fee t)) \<and> 0 \<le> opt_money (t_fee t) \<and>
    (\<forall>i. t_walletId t = Some i \<longrightarrow> i \<in> W)"

definition ref_key :: "transaction \<Rightarrow> payment_provider_key \<times> string" where
  "ref_key t = (t_provider t, t_reference t)"

definition rows_ok :: "uuid set \<Rightarrow> nat \<Rightarrow> transaction list \<Rightarrow> bool" where
  "rows_ok W n T \<longleftrightarrow>
    distinct (map t_id T) \<and> distinct (map ref_key T) \<and> (\<forall>t \<in> set T. row_ok W n t)"

definition wallets_ok :: "nat \<Rightarrow> wallet list \<Rightarrow> bool" where
  "wallets_ok n ws \<longleftrightarrow>
    distinct (map w_id ws) \<and> (\<forall>w \<in> set ws. w_id w < n \<and> fits 4 (w_balance w) \<and> 0 \<le> w_balance w)"

definition ledger_ok :: "pay_state \<Rightarrow> bool" where
  "ledger_ok s \<longleftrightarrow>
    wallets_ok (next_id s) (wallets s) \<and> rows_ok (w_id ` set (wallets s)) (next_id s) (txns s) \<and>
    (\<forall>w \<in> set (wallets s). w_balance w = ledger_balance (w_id w) s)"

lemma refund_of_opt: "refund_of t = t_amount t + opt_money (t_fee t)"
  by (simp add: refund_of_def opt_money_def)

section \<open>Changing the rows\<close>

lemma ref_key_unused:
  "find_row (same_reference p r) T = None \<longleftrightarrow> (p, r) \<notin> ref_key ` set T"
  by (auto simp: find_row_None_iff same_reference_def ref_key_def)

lemma row_ok_mono: "row_ok W n t \<Longrightarrow> n \<le> m \<Longrightarrow> W \<subseteq> V \<Longrightarrow> row_ok V m t"
  by (auto simp: row_ok_def)

lemma rows_ok_mono: "rows_ok W n T \<Longrightarrow> n \<le> m \<Longrightarrow> W \<subseteq> V \<Longrightarrow> rows_ok V m T"
  by (auto simp: rows_ok_def intro: row_ok_mono)

lemma rows_ok_insert:
  assumes "rows_ok W n T" and "row_ok W (Suc n) t" and "t_id t = n"
    and "find_row (same_reference (t_provider t) (t_reference t)) T = None"
  shows "rows_ok W (Suc n) (insert_row t T)"
  using assms unfolding rows_ok_def ref_key_unused
  by (auto simp: ref_key_def intro: row_ok_mono) (auto simp: row_ok_def)

text \<open>An update may annotate a row, change its status or give it to a wallet, not its money.\<close>

definition keeps_money :: "transaction \<Rightarrow> transaction \<Rightarrow> bool" where
  "keeps_money x y \<longleftrightarrow>
    t_id y = t_id x \<and> t_provider y = t_provider x \<and> t_reference y = t_reference x \<and>
    t_amount y = t_amount x \<and> t_fee y = t_fee x \<and> t_type y = t_type x"

lemma same_payment_keeps_money: "same_payment x y \<Longrightarrow> keeps_money x y"
  by (simp add: same_payment_def keeps_money_def)

lemma rows_ok_update:
  assumes "rows_ok W n T" and "\<And>x. keeps_money x (f x)"
    and "\<And>x i. x \<in> set T \<Longrightarrow> P x \<Longrightarrow> t_walletId (f x) = Some i \<Longrightarrow> i \<in> W"
  shows "rows_ok W n (update_where P f T)"
proof -
  have "map t_id (update_where P f T) = map t_id T"
    "map ref_key (update_where P f T) = map ref_key T"
    using assms(2) by (simp_all add: keeps_money_def ref_key_def)
  moreover have "row_ok W n y" if y: "y \<in> set (update_where P f T)" for y
  proof -
    from y obtain x where x: "x \<in> set T" "y = (if P x then f x else x)"
      by (auto simp: set_update_where)
    then have "row_ok W n x" using assms(1) by (simp add: rows_ok_def)
    then show ?thesis using x assms(2) [of x] assms(3) by (auto simp: row_ok_def keeps_money_def)
  qed
  ultimately show ?thesis using assms(1) by (simp add: rows_ok_def)
qed

lemma sum_update_same:
  "(\<And>x. x \<in> set T \<Longrightarrow> P x \<Longrightarrow> g (f x) = g x) \<Longrightarrow> sum_over g (update_where P f T) = sum_over g T"
  by (induction T) auto

section \<open>The three shapes of a step\<close>

text \<open>No money: balances and the entries are as before.\<close>

lemma ledger_ok_quiet:
  assumes "ledger_ok s" and "wallets s' = wallets s" and "txns s' = txns s" and "next_id s \<le> next_id s'"
  shows "ledger_ok s'"
  using assms by (auto simp: ledger_ok_def wallets_ok_def ledger_balance_def intro: rows_ok_mono)

text \<open>A row is annotated, or its entry does not depend on what changes.\<close>

lemma ledger_ok_update:
  assumes "ledger_ok s" and "wallets s' = wallets s" and "next_id s' = next_id s"
    and "txns s' = update_where P f (txns s)" and "\<And>x. same_payment x (f x)"
    and "\<And>x. x \<in> set (txns s) \<Longrightarrow> P x \<Longrightarrow> t_type x = DEBIT \<or> (t_status (f x) = SUCCESSFUL) = (t_status x = SUCCESSFUL)"
  shows "ledger_ok s'"
proof -
  have "rows_ok (w_id ` set (wallets s)) (next_id s) (txns s')"
    unfolding assms(4)
  proof (rule rows_ok_update)
    show "rows_ok (w_id ` set (wallets s)) (next_id s) (txns s)" using assms(1) by (simp add: ledger_ok_def)
    show "keeps_money x (f x)" for x by (rule same_payment_keeps_money [OF assms(5)])
    show "i \<in> w_id ` set (wallets s)" if "x \<in> set (txns s)" "t_walletId (f x) = Some i" for x i
      using that assms(1) assms(5) [of x] by (auto simp: ledger_ok_def rows_ok_def row_ok_def same_payment_def)
  qed
  moreover have "ledger_balance i s' = ledger_balance i s" for i
    unfolding ledger_balance_def assms(4)
  proof (rule sum_update_same)
    fix x assume "x \<in> set (txns s)" "P x"
    then show "entry i (f x) = entry i x"
      using assms(5) [of x] assms(6) [of x]
      by (auto simp: entry_def same_payment_def refund_of_def split: transaction_type.splits)
  qed
  ultimately show ?thesis using assms(1-3) by (simp add: ledger_ok_def)
qed

text \<open>Money moves on one wallet, and the entries of that wallet change by as much.\<close>

lemma set_wallets_set_balance:
  "wallets (set_balance i b s) = map (\<lambda>w. if w_id w = i then w\<lparr>w_balance := b\<rparr> else w) (wallets s)"
  by (simp add: set_balance_def update_where_def)

lemma ledger_ok_move:
  assumes "ledger_ok s" and "find_wallet i s = Some w" and "wallets s' = wallets (set_balance i b s)"
    and "rows_ok (w_id ` set (wallets s)) (next_id s') (txns s')" and "next_id s \<le> next_id s'"
    and "fits 4 b" and "0 \<le> b"
    and "\<And>j. ledger_balance j s' = ledger_balance j s + (if j = i then b - w_balance w else 0)"
  shows "ledger_ok s'"
proof -
  have ids: "w_id ` set (wallets s') = w_id ` set (wallets s)"
    using set_balance_simps(10) [of i b s] unfolding assms(3) by (metis list.set_map)
  have "wallets_ok (next_id s') (wallets s')"
    using assms(1,5,6,7) unfolding assms(3)
    by (fastforce simp: ledger_ok_def wallets_ok_def set_wallets_set_balance comp_def if_distrib
        cong: if_cong)
  moreover have "w_balance v = ledger_balance (w_id v) s'" if v: "v \<in> set (wallets s')" for v
  proof -
    have w: "w \<in> set (wallets s)" "w_id w = i" using find_wallet_id [OF assms(2)] by auto
    obtain u where u: "u \<in> set (wallets s)" "v = (if w_id u = i then u\<lparr>w_balance := b\<rparr> else u)"
      using v unfolding assms(3) set_wallets_set_balance by auto
    have "w_balance u = ledger_balance (w_id u) s" "w_balance w = ledger_balance (w_id w) s"
      using u(1) w(1) assms(1) by (auto simp: ledger_ok_def)
    then show ?thesis using u w by (cases "w_id u = i") (auto simp: assms(8))
  qed
  ultimately show ?thesis using assms(4) ids by (simp add: ledger_ok_def)
qed

section \<open>The steps\<close>

text \<open>The atomic operations, and the rule for what one of them does to the books.\<close>

inductive pay_step :: "pay_state \<Rightarrow> pay_state \<Rightarrow> bool" where
  other_tables: "wallets s' = wallets s \<Longrightarrow> txns s' = txns s \<Longrightarrow> next_id s \<le> next_id s' \<Longrightarrow> pay_step s s'"
| new_wallet: "insert_wallet u c s = (r, s') \<Longrightarrow> pay_step s s'"
| deposit: "insert_or_ignore (payin_row inp (payin_wallet inp s) now) s = (r, s') \<Longrightarrow>
    0 \<le> pi_amount inp \<Longrightarrow> pay_step s s'"
| credit_deposit: "process_deposit (\<lambda>x. x) tid now s = (r, s') \<Longrightarrow> pay_step s s'"
| update_row: "(\<And>x. same_payment x (f x)) \<Longrightarrow>
    (\<And>x. x \<in> set (txns s) \<Longrightarrow> t_id x = tid \<Longrightarrow>
       t_type x = DEBIT \<or> (t_status (f x) = SUCCESSFUL) = (t_status x = SUCCESSFUL)) \<Longrightarrow>
    pay_step s (update_txn tid f s)"
| debit_for_payout: "debit_payout e w ad p a l caps ref ben nar now s = (r, s') \<Longrightarrow> 0 < a \<Longrightarrow>
    fits 4 a \<Longrightarrow> pay_step s s'"
| debit_for_bill: "debit_bill e w ad key a fee caps ref bill now s = (r, s') \<Longrightarrow> 0 < a \<Longrightarrow> fits 4 a \<Longrightarrow>
    0 \<le> fee \<Longrightarrow> fits 4 fee \<Longrightarrow> pay_step s s'"
| reversal: "reverse_writes k what t now s = (r, s') \<Longrightarrow> x \<in> set (txns s) \<Longrightarrow> same_payment t x \<Longrightarrow>
    t_type x = DEBIT \<Longrightarrow> pay_step s s'"
| posting: "apply_posting dto a now s = (r, s') \<Longrightarrow> 0 < a \<Longrightarrow> fits 4 a \<Longrightarrow> pay_step s s'"
| assignment: "assign_in_tx tid dto stamp now s = (r, s') \<Longrightarrow> pay_step s s'"

lemma entry_new:
  "t_walletId t = Some i \<Longrightarrow> entry j t =
    (if j = i then (case t_type t of CREDIT \<Rightarrow> if t_status t = SUCCESSFUL then t_amount t else 0
                    | DEBIT \<Rightarrow> - refund_of t) else 0)"
  by (auto simp: entry_def)

lemma ledger_okD:
  assumes "ledger_ok s" and "find_wallet i s = Some w"
  shows "w_id w = i" "i \<in> w_id ` set (wallets s)" "fits 4 (w_balance w)" "0 \<le> w_balance w"
  using find_wallet_id [OF assms(2)] assms(1) by (auto simp: ledger_ok_def wallets_ok_def)

text \<open>A debit or credit together with its row.\<close>

lemma ledger_ok_move_insert:
  assumes "ledger_ok s" and "find_wallet i s = Some w" and "fits 4 b" and "0 \<le> b"
    and "t_walletId t = Some i" and "t_id t = next_id s"
    and "find_row (same_reference (t_provider t) (t_reference t)) (txns s) = None"
    and "fits 4 (t_amount t)" "0 \<le> t_amount t" "fits 4 (opt_money (t_fee t))" "0 \<le> opt_money (t_fee t)"
    and "entry i t = b - w_balance w"
  shows "ledger_ok ((set_balance i b s)\<lparr>txns := insert_row t (txns s), next_id := Suc (next_id s)\<rparr>)"
    (is "ledger_ok ?s'")
proof (rule ledger_ok_move [OF assms(1,2)])
  show "rows_ok (w_id ` set (wallets s)) (next_id ?s') (txns ?s')"
    using assms ledger_okD [OF assms(1,2)]
    by (auto simp: ledger_ok_def row_ok_def intro!: rows_ok_insert)
  show "ledger_balance j ?s' = ledger_balance j s + (if j = i then b - w_balance w else 0)" for j
    using assms(5,12) by (simp add: ledger_balance_def entry_def)
qed (use assms(3,4) in simp_all)

lemma ledger_ok_insert_quiet:
  assumes "ledger_ok s" and "t_id t = next_id s" and "row_ok (w_id ` set (wallets s)) (Suc (next_id s)) t"
    and "find_row (same_reference (t_provider t) (t_reference t)) (txns s) = None" and "\<And>j. entry j t = 0"
  shows "ledger_ok (s\<lparr>txns := insert_row t (txns s), next_id := Suc (next_id s)\<rparr>)"
proof -
  have "rows_ok (w_id ` set (wallets s)) (Suc (next_id s)) (insert_row t (txns s))"
    using assms by (intro rows_ok_insert) (auto simp: ledger_ok_def)
  then show ?thesis using assms(1,5)
    by (auto simp: ledger_ok_def wallets_ok_def ledger_balance_def)
qed

lemma payin_wallet_SomeD: "payin_wallet inp s = Some w \<Longrightarrow> w \<in> set (wallets s)"
  by (auto simp: payin_wallet_def findById_def dest: find_wallet_id split: option.splits)

lemma ledger_ok_deposit:
  assumes "ledger_ok s" and "insert_or_ignore (payin_row inp (payin_wallet inp s) now) s = (r, s')"
    and "0 \<le> pi_amount inp"
  shows "ledger_ok s'"
proof (cases "find_row (same_reference (pi_provider inp) (pi_reference inp)) (txns s)")
  case (Some x)
  with assms(1,2) show ?thesis by (simp add: insert_or_ignore_eq)
next
  case None
  let ?t = "(payin_row inp (payin_wallet inp s) now)\<lparr>t_id := next_id s\<rparr>"
  have "ledger_ok (s\<lparr>txns := insert_row ?t (txns s), next_id := Suc (next_id s)\<rparr>)"
  proof (rule ledger_ok_insert_quiet [OF assms(1)])
    show "row_ok (w_id ` set (wallets s)) (Suc (next_id s)) ?t"
      using to_fixed_nonneg [OF assms(3)]
      by (auto simp: row_ok_def opt_money_def dest: payin_wallet_SomeD)
  qed (use None in \<open>simp_all add: entry_def\<close>)
  then show ?thesis using None assms(2) by (simp add: insert_or_ignore_eq)
qed

lemma sum_over_0: "(\<And>t. t \<in> set T \<Longrightarrow> g t = 0) \<Longrightarrow> sum_over g T = 0"
  by (induction T) auto

lemma ledger_ok_new_wallet:
  assumes "ledger_ok s" and "insert_wallet u c s = (r, s')"
  shows "ledger_ok s'"
proof (cases "findByUserAndCurrency u c s")
  case (Some w)
  with assms show ?thesis by (simp add: insert_wallet_def)
next
  case None
  have fresh: "next_id s \<notin> w_id ` set (wallets s)" using assms(1) by (auto simp: ledger_ok_def wallets_ok_def)
  have "entry (next_id s) t = 0" if "t \<in> set (txns s)" for t
    using that assms(1) fresh by (auto simp: ledger_ok_def rows_ok_def row_ok_def entry_def)
  then have "ledger_balance (next_id s) s = 0"
    unfolding ledger_balance_def by (rule sum_over_0)
  then show ?thesis
    using assms None fresh
    by (auto simp: insert_wallet_def Let_def ledger_ok_def wallets_ok_def ledger_balance_def
        intro: rows_ok_mono simp: less_Suc_eq)
qed

text \<open>A posting, a payout's debit and a bill's debit.\<close>

lemma posting_row_simps [simp]:
  "t_walletId (posting_row dto w a acct now) = Some (pg_walletId dto)"
  "t_type (posting_row dto w a acct now) = pg_type dto"
  "t_status (posting_row dto w a acct now) = SUCCESSFUL"
  "t_kind (posting_row dto w a acct now) = ADJUSTMENT"
  "t_provider (posting_row dto w a acct now) = MANUAL"
  "t_reference (posting_row dto w a acct now) = pg_reference dto"
  "t_amount (posting_row dto w a acct now) = to_fixed 4 a"
  "t_fee (posting_row dto w a acct now) = None"
  "t_balanceAfter (posting_row dto w a acct now) = Some (w_balance w)"
  by (simp_all add: posting_row_def)

lemma apply_posting_InrD:
  assumes "apply_posting dto a now s = (Inr t, s')"
  obtains w b acct where "find_wallet (pg_walletId dto) s = Some w"
    and "b = to_fixed 4 (if pg_type dto = CREDIT then w_balance w + a else w_balance w - a)"
    and "pg_type dto = DEBIT \<Longrightarrow> a \<le> w_balance w"
    and "t = (posting_row dto (w\<lparr>w_balance := b\<rparr>) a acct now)\<lparr>t_id := next_id s\<rparr>"
    and "find_row (same_reference MANUAL (pg_reference dto)) (txns s) = None"
    and "s' = (set_balance (pg_walletId dto) b s)\<lparr>txns := insert_row t (txns s), next_id := Suc (next_id s)\<rparr>"
proof -
  let ?i = "pg_walletId dto"
  from assms obtain w1 s1 acct where
    1: "(if pg_type dto = CREDIT then creditForUpdate ?i a else debitForUpdate ?i a) s = (Inr w1, s1)"
    and 2: "insert_txn (posting_row dto w1 a acct now) s1 = (Inr t, s')"
    unfolding apply_posting_def txM_Inr_iff by (elim bindM_InrE) simp
  from 1 obtain w where w: "find_wallet ?i s = Some w" "pg_type dto = DEBIT \<Longrightarrow> a \<le> w_balance w"
    and b: "w1 = w\<lparr>w_balance := to_fixed 4 (if pg_type dto = CREDIT then w_balance w + a else w_balance w - a)\<rparr>"
      "s1 = set_balance ?i (to_fixed 4 (if pg_type dto = CREDIT then w_balance w + a else w_balance w - a)) s"
    by (cases "pg_type dto") (auto elim!: creditForUpdate_InrD debitForUpdate_InrD)
  from insert_txn_InrD [OF 2] show ?thesis
    by (intro that [OF w(1) refl w(2)]) (simp_all add: b)
qed

lemma ledger_ok_posting:
  assumes "ledger_ok s" and "apply_posting dto a now s = (r, s')" and "0 < a" and "fits 4 a"
  shows "ledger_ok s'"
proof (cases r)
  case (Inl e)
  then have "s' = s" using assms(2) txM_Inl unfolding apply_posting_def by metis
  then show ?thesis using assms(1) by simp
next
  case (Inr t)
  let ?i = "pg_walletId dto"
  from assms(2) [unfolded Inr] show ?thesis
  proof (rule apply_posting_InrD, goal_cases)
    case (1 w b acct)
    note w = ledger_okD [OF assms(1) 1(1)]
    have b: "b = (if pg_type dto = CREDIT then w_balance w + a else w_balance w - a)"
      unfolding 1(2) using w(3) assms(4) by (auto intro: to_fixed_fits fits_add fits_diff)
    show ?case
      unfolding 1(6)
    proof (rule ledger_ok_move_insert [OF assms(1) 1(1)])
      show "fits 4 b" unfolding 1(2) by simp
      show "0 \<le> b" using b w(4) 1(3) assms(3) by (cases "pg_type dto") auto
      show "entry ?i t = b - w_balance w"
        using assms(4) by (cases "pg_type dto") (auto simp: 1(4) b entry_def refund_of_def to_fixed_fits)
    qed (use 1(4,5) assms(3,4) in \<open>auto simp: opt_money_def to_fixed_fits\<close>)
  qed
qed

lemma ledger_ok_debit_payout:
  assumes "ledger_ok s" and "debit_payout e w ad p a l caps ref ben nar now s = (r, s')"
    and "0 < a" and "fits 4 a"
  shows "ledger_ok s'"
proof (cases r)
  case (Inl err)
  then show ?thesis using assms(1,2) debit_payout_InlD by blast
next
  case (Inr t)
  note d = assms(2) [unfolded Inr]
  from d assms(3) show ?thesis
  proof (rule debit_payout_InrD, goal_cases)
    case (1 w0 c b1 b2)
    note w = ledger_okD [OF assms(1) 1(1)]
    have f: "fits 4 (ch_total c)" "0 \<le> ch_total c" unfolding 1(2) using payoutCharges_nonneg by auto
    have b1: "b1 = w_balance w0 - a" unfolding 1(3) by (intro to_fixed_fits fits_diff w(3) assms(4))
    have b2: "b2 = w_balance w0 - a - ch_total c"
      unfolding 1(4) b1 by (intro to_fixed_fits fits_diff w(3) assms(4) f)
    show ?case
      unfolding 1(11)
    proof (rule ledger_ok_move_insert [OF assms(1) 1(1)])
      show "fits 4 b2" unfolding 1(4) by simp
      show "0 \<le> b2" using 1(6) b1 b2 by simp
      show "entry (w_id w) t = b2 - w_balance w0"
        using assms(4) f by (simp add: 1(9) b2 entry_def refund_of_def to_fixed_fits)
    qed (use 1(9,10) assms(3,4) f in \<open>auto simp: opt_money_def to_fixed_fits\<close>)
  qed
qed

lemma bill_row_simps [simp]:
  "t_walletId (bill_row w ad p a f b ref bill now) = Some (w_id w)"
  "t_type (bill_row w ad p a f b ref bill now) = DEBIT"
  "t_kind (bill_row w ad p a f b ref bill now) = BILL_PAYMENT"
  "t_status (bill_row w ad p a f b ref bill now) = PROCESSING"
  "t_provider (bill_row w ad p a f b ref bill now) = p"
  "t_amount (bill_row w ad p a f b ref bill now) = to_fixed 4 a"
  "t_fee (bill_row w ad p a f b ref bill now) = Some (to_fixed 4 f)"
  "t_reference (bill_row w ad p a f b ref bill now) = ref"
  "t_bill (bill_row w ad p a f b ref bill now) = Some bill"
  by (simp_all add: bill_row_def)

lemma debit_bill_InrD:
  assumes "debit_bill e w ad key a fee caps ref bill now s = (Inr t, s')" and "0 < a"
  obtains w0 b p where "find_wallet (w_id w) s = Some w0" and "a + fee \<le> w_balance w0"
    and "b = to_fixed 4 (w_balance w0 - (a + fee))" and "key = Inr p"
    and "\<And>x. e \<Longrightarrow> caps = Some x \<Longrightarrow> within_caps now (w_id w) a x s"
    and "t = (bill_row w ad p a fee b ref bill now)\<lparr>t_id := next_id s\<rparr>"
    and "find_row (same_reference p ref) (txns s) = None"
    and "s' = (set_balance (w_id w) b s)\<lparr>txns := insert_row t (txns s), next_id := Suc (next_id s)\<rparr>"
  using assms(1) unfolding debit_bill_def txM_Inr_iff
  by (elim bindM_InrE debitForUpdate_InrD)
    (clarsimp simp: checkCaps_Inr [OF assms(2)], frule insert_txn_InrD(1), frule insert_txn_InrD(2),
      drule insert_txn_InrD(3), rule that [OF _ _ refl]; simp)

lemma ledger_ok_debit_bill:
  assumes "ledger_ok s" and "debit_bill e w ad key a fee caps ref bill now s = (r, s')"
    and "0 < a" and "fits 4 a" and "0 \<le> fee" and "fits 4 fee"
  shows "ledger_ok s'"
proof (cases r)
  case (Inl err)
  then have "s' = s" using assms(2) txM_Inl unfolding debit_bill_def by metis
  then show ?thesis using assms(1) by simp
next
  case (Inr t)
  from assms(2) [unfolded Inr] assms(3) show ?thesis
  proof (rule debit_bill_InrD, goal_cases)
    case (1 w0 b p)
    note w = ledger_okD [OF assms(1) 1(1)]
    have b: "b = w_balance w0 - (a + fee)"
      unfolding 1(3) by (intro to_fixed_fits fits_diff fits_add w(3) assms(4,6))
    show ?case
      unfolding 1(8)
    proof (rule ledger_ok_move_insert [OF assms(1) 1(1)])
      show "fits 4 b" unfolding 1(3) by simp
      show "0 \<le> b" using 1(2) b by simp
      show "entry (w_id w) t = b - w_balance w0"
        using assms(4,6) by (simp add: 1(6) b entry_def refund_of_def to_fixed_fits)
    qed (use 1(6,7) assms(3-6) in \<open>auto simp: opt_money_def to_fixed_fits\<close>)
  qed
qed

text \<open>A credit together with the update of its row: a deposit, an assigned deposit.\<close>

lemma ledger_ok_rows: "ledger_ok s \<Longrightarrow> distinct (map t_id (txns s))"
  by (simp add: ledger_ok_def rows_ok_def)

lemma ledger_ok_move_update:
  assumes "ledger_ok s" and "find_wallet i s = Some w" and "find_txn tid s = Some t"
    and "\<And>x. keeps_money x (f x)" and "t_walletId (f t) = Some i" and "fits 4 b" and "0 \<le> b"
    and "\<And>j. entry j (f t) = entry j t + (if j = i then b - w_balance w else 0)"
    and "wallets s' = wallets (set_balance i b s)" and "next_id s' = next_id s"
    and "txns s' = update_where (by_key t_id tid) f (txns s)"
  shows "ledger_ok s'"
proof (rule ledger_ok_move [OF assms(1,2,9)])
  note key = ledger_ok_rows [OF assms(1)] assms(3) [unfolded find_txn_def]
  show "rows_ok (w_id ` set (wallets s)) (next_id s') (txns s')"
    unfolding assms(10,11)
  proof (rule rows_ok_update)
    show "rows_ok (w_id ` set (wallets s)) (next_id s) (txns s)" using assms(1) by (simp add: ledger_ok_def)
    fix x j assume "x \<in> set (txns s)" "t_id x = tid" "t_walletId (f x) = Some j"
    then have "x = t" using update_where_key_eq [OF key] by blast
    then show "j \<in> w_id ` set (wallets s)"
      using \<open>t_walletId (f x) = Some j\<close> assms(5) ledger_okD [OF assms(1,2)] by simp
  qed (rule assms(4))
  show "ledger_balance j s' = ledger_balance j s + (if j = i then b - w_balance w else 0)" for j
    unfolding ledger_balance_def assms(11) sum_over_update_key [OF key] assms(8) by simp
qed (use assms(6,7,10) in simp_all)

lemma ledger_ok_notify [simp]:
  "ledger_ok (notifyTransaction t ev b s) = ledger_ok s" "ledger_ok (reportIssueToSlack m i s) = ledger_ok s"
  "ledger_ok (alertTransaction t0 s) = ledger_ok s" "ledger_ok (emit e s) = ledger_ok s"
  by (simp_all add: ledger_ok_def ledger_balance_def)

lemma ledger_ok_status:
  assumes "ledger_ok s" and "find_txn tid s = Some t" and "t_type t = DEBIT \<or> t_status t \<noteq> SUCCESSFUL \<and> st \<noteq> SUCCESSFUL"
  shows "ledger_ok (update_txn tid (\<lambda>r. r\<lparr>t_status := st, t_verifiedAt := v r\<rparr>) s)"
proof (rule ledger_ok_update [OF assms(1)])
  fix x assume "x \<in> set (txns s)" "t_id x = tid"
  then have "x = t"
    using update_where_key_eq [OF ledger_ok_rows [OF assms(1)] assms(2) [unfolded find_txn_def]] by blast
  then show "t_type x = DEBIT \<or> (t_status (x\<lparr>t_status := st, t_verifiedAt := v x\<rparr>) = SUCCESSFUL) =
      (t_status x = SUCCESSFUL)"
    using assms(3) by auto
qed (simp_all add: same_payment_def)

lemma ledger_ok_credited:
  assumes "ledger_ok s" and "find_txn tid s = Some t" and "find_wallet i s = Some w"
    and "t_walletId t = Some i" and "t_type t = CREDIT" and "t_status t \<noteq> SUCCESSFUL"
  shows "ledger_ok (credited tid w t now s)"
proof -
  note w = ledger_okD [OF assms(1,3)]
  have t: "fits 4 (t_amount t)" "0 \<le> t_amount t"
    using assms(1) find_txn_id [OF assms(2)] by (auto simp: ledger_ok_def rows_ok_def row_ok_def)
  define b where "b = to_fixed 4 (w_balance w + t_amount t)"
  have b: "b = w_balance w + t_amount t" unfolding b_def by (intro to_fixed_fits fits_add w(3) t(1))
  let ?f = "\<lambda>r. (r\<lparr>t_status := PROCESSING\<rparr>)\<lparr>t_status := SUCCESSFUL, t_balanceAfter := Some b,
      t_verifiedAt := Some now\<rparr>"
  have upd: "update_where P h (update_where P g T) = update_where P (h \<circ> g) T"
    if "\<And>r. P (g r) = P r" for P h and g :: "transaction \<Rightarrow> transaction" and T
    using that by (induction T) auto
  have "ledger_ok (update_txn tid (\<lambda>r. r\<lparr>t_status := SUCCESSFUL, t_balanceAfter := Some b,
            t_verifiedAt := Some now\<rparr>)
         (set_balance (w_id w) b (update_txn tid (\<lambda>r. r\<lparr>t_status := PROCESSING\<rparr>) s)))"
  proof (rule ledger_ok_move_update [OF assms(1,3,2), of ?f b])
    show "entry j (?f t) = entry j t + (if j = i then b - w_balance w else 0)" for j
      using assms(4-6) b by (simp add: entry_def)
    show "fits 4 b" by (simp add: b_def)
  qed (use w t b assms(4) in \<open>simp_all add: keeps_money_def upd comp_def set_balance_def\<close>)
  then show ?thesis by (simp add: credited_def Let_def b_def)
qed

lemma ledger_ok_process_deposit:
  assumes "ledger_ok s" and "process_deposit (\<lambda>x. x) tid now s = (r, s')"
  shows "ledger_ok s'"
proof (cases "find_txn tid s")
  case None
  with assms show ?thesis by (simp add: process_deposit_def stm_simps)
next
  case (Some t)
  show ?thesis
  proof (cases "is_final (t_status t) \<or> t_type t = DEBIT")
    case True
    with Some assms show ?thesis by (auto simp: process_deposit_def stm_simps split: if_splits)
  next
    case False
    then have t: "\<not> is_final (t_status t)" "t_type t = CREDIT" "t_status t \<noteq> SUCCESSFUL"
      by (auto simp: is_final_def intro: transaction_type.exhaust [of "t_type t"])
    have "ledger_ok (update_txn tid (\<lambda>r. r\<lparr>t_status := PROCESSING\<rparr>) s)"
      using ledger_ok_status [OF assms(1) Some, of PROCESSING t_verifiedAt] t(3) by simp
    then show ?thesis
      using assms Some t process_deposit_eq [OF Some t(1,2), of "\<lambda>x. x" now]
        ledger_ok_credited [OF assms(1) Some]
      by (auto simp: Let_def split: option.splits)
  qed
qed

lemma ledger_ok_reversed:
  assumes "ledger_ok s" and "x \<in> set (txns s)" and "same_payment t x" and "t_type x = DEBIT"
    and "t_walletId t = Some i" and "find_wallet i s = Some w" and "\<not> rev_used t s"
  shows "ledger_ok (reversed k what t w now s)"
proof -
  note w = ledger_okD [OF assms(1,6)]
  have x: "t_id x = t_id t" "t_walletId x = Some i" "refund_of x = refund_of t"
    using assms(3,5) by (auto simp: same_payment_def refund_of_def)
  have "row_ok (w_id ` set (wallets s)) (next_id s) x" using assms(1,2) by (simp add: ledger_ok_def rows_ok_def)
  then have "fits 4 (refund_of x)" "0 \<le> refund_of x"
    unfolding refund_of_opt by (auto simp: row_ok_def)
  then have rf: "fits 4 (refund_of t)" "0 \<le> refund_of t" unfolding x(3) .
  define b where "b = to_fixed 4 (w_balance w + refund_of t)"
  have b: "b = w_balance w + refund_of t" unfolding b_def by (intro to_fixed_fits fits_add w(3) rf(1))
  let ?f = "\<lambda>r. r\<lparr>t_status := FAILED, t_verifiedAt := Some now\<rparr>"
  let ?s1 = "update_txn (t_id t) ?f s"
  let ?r = "(reversal_row k t ''REV-'' what b now)\<lparr>t_id := next_id s\<rparr>"
  have found: "find_txn (t_id t) s = Some x"
    using find_row_by_key [OF ledger_ok_rows [OF assms(1)] assms(2)] x(1) by (simp add: find_txn_def)
  have "ledger_ok ?s1" using ledger_ok_status [OF assms(1) found, of FAILED "\<lambda>_. Some now"] assms(4) by simp
  moreover have "find_row (same_reference (t_provider t) (''REV-'' @ t_reference t)) (txns ?s1) = None"
    using assms(7) same_reference_update [of ?f] by (simp add: rev_used_def reference_taken_def)
  ultimately have "ledger_ok ((set_balance i b ?s1)\<lparr>txns := insert_row ?r (txns ?s1),
      next_id := Suc (next_id ?s1)\<rparr>)"
  proof (intro ledger_ok_move_insert [of ?s1 i w b ?r])
    show "entry i ?r = b - w_balance w"
      using assms(5) rf(1) b by (simp add: entry_def to_fixed_fits)
    show "fits 4 b" by (simp add: b_def)
    show "0 \<le> b" using rf(2) w(4) by (simp add: b)
  qed (use assms(5,6) rf in \<open>simp_all add: to_fixed_fits opt_money_def\<close>)
  also have "(set_balance i b ?s1)\<lparr>txns := insert_row ?r (txns ?s1), next_id := Suc (next_id ?s1)\<rparr> =
      reversed k what t w now s"
    using w(1) by (simp add: reversed_def Let_def b_def set_balance_def update_wallet_def update_txn_def)
  finally show ?thesis .
qed

lemma ledger_ok_reversal:
  assumes "ledger_ok s" and "reverse_writes k what t now s = (r, s')" and "x \<in> set (txns s)"
    and "same_payment t x" and "t_type x = DEBIT"
  shows "ledger_ok s'"
proof (cases "t_walletId t")
  case None
  with assms(1,2) show ?thesis by (simp add: reverse_writes_def stm_simps credit_owner_def)
next
  case (Some i)
  show ?thesis
  proof (cases "find_wallet i s")
    case None
    with Some assms(1,2) show ?thesis
      by (simp add: reverse_writes_def stm_simps credit_owner_def creditForUpdate_eq)
  next
    case w: (Some w)
    then show ?thesis
      using assms reverse_writes_eq [OF Some w, of k what now] ledger_ok_reversed [OF assms(1,3-5) Some w]
      by (auto split: if_splits)
  qed
qed

definition assigned :: "transaction \<Rightarrow> wallet \<Rightarrow> assign_dto \<Rightarrow> json \<Rightarrow> date \<Rightarrow> transaction \<Rightarrow> transaction" where
  "assigned t w dto stamp now r =
    r\<lparr>t_walletId := Some (w_id w), t_status := SUCCESSFUL,
      t_balanceAfter := Some (to_fixed 4 (w_balance w + t_amount t)), t_verifiedAt := Some now,
      t_rawPayload := Some (resolved_payload (t_rawPayload t) dto stamp)\<rparr>"

lemma assign_in_tx_eq:
  assumes "find_txn tid s = Some t"
  shows "assign_in_tx tid dto stamp now s =
    (if t_status t = SUCCESSFUL \<and> t_walletId t = Some (as_walletId dto) then (Inr (t, True), s)
     else if \<not> (t_type t = CREDIT \<and> t_status t = UNMATCHED \<and> t_walletId t = None)
     then (Inl (Conflict ''This deposit is not awaiting assignment''), s)
     else (case find_wallet (as_walletId dto) s of
             None \<Rightarrow> (Inl (NotFound ''Wallet not found''), s)
           | Some w \<Rightarrow>
              if w_currency w \<noteq> t_currency t then (Inl (BadRequest ''Currency mismatch''), s)
              else (Inr (assigned t w dto stamp now t, False),
                    update_txn tid (assigned t w dto stamp now)
                      (set_balance (as_walletId dto) (to_fixed 4 (w_balance w + t_amount t)) s))))"
  using assms find_txn_id [OF assms]
  by (simp add: assign_in_tx_def stm_simps creditForUpdate_eq find_or_fail_def find_txn_update_txn
      assigned_def [abs_def] Let_def split: option.splits)

lemma ledger_ok_assignment:
  assumes "ledger_ok s" and "assign_in_tx tid dto stamp now s = (r, s')"
  shows "ledger_ok s'"
proof (cases "find_txn tid s")
  case None
  with assms show ?thesis by (simp add: assign_in_tx_def stm_simps)
next
  case (Some t)
  show ?thesis
  proof (cases "s' = s")
    case False
    then obtain w where c: "t_type t = CREDIT" "t_status t = UNMATCHED" "t_walletId t = None"
      and w: "find_wallet (as_walletId dto) s = Some w"
      and s': "s' = update_txn tid (assigned t w dto stamp now)
          (set_balance (as_walletId dto) (to_fixed 4 (w_balance w + t_amount t)) s)"
      using assms(2) unfolding assign_in_tx_eq [OF Some] by (auto split: if_splits option.splits)
    note wd = ledger_okD [OF assms(1) w]
    have amt: "fits 4 (t_amount t)" "0 \<le> t_amount t"
      using assms(1) find_txn_id [OF Some] by (auto simp: ledger_ok_def rows_ok_def row_ok_def)
    have b: "to_fixed 4 (w_balance w + t_amount t) = w_balance w + t_amount t"
      by (intro to_fixed_fits fits_add wd(3) amt(1))
    show ?thesis
      unfolding s' b
    proof (rule ledger_ok_move_update [OF assms(1) w Some, of "assigned t w dto stamp now"])
      show "entry j (assigned t w dto stamp now t) = entry j t +
          (if j = as_walletId dto then w_balance w + t_amount t - w_balance w else 0)" for j
        using c wd(1) by (simp add: entry_def assigned_def)
      show "fits 4 (w_balance w + t_amount t)" by (intro fits_add wd(3) amt(1))
    qed (use wd amt in \<open>simp_all add: keeps_money_def assigned_def\<close>)
  qed (use assms(1) in simp)
qed

lemma ledger_ok_update_row:
  assumes "ledger_ok s" and "\<And>x. same_payment x (f x)"
    and "\<And>x. x \<in> set (txns s) \<Longrightarrow> t_id x = tid \<Longrightarrow>
      t_type x = DEBIT \<or> (t_status (f x) = SUCCESSFUL) = (t_status x = SUCCESSFUL)"
  shows "ledger_ok (update_txn tid f s)"
  by (rule ledger_ok_update [OF assms(1) _ _ _ assms(2), where P = "by_key t_id tid"])
    (simp_all add: assms(3))

text \<open>Every atomic step keeps the books.\<close>

lemma pay_step_ledger_ok: "pay_step s s' \<Longrightarrow> ledger_ok s \<Longrightarrow> ledger_ok s'"
proof (induction rule: pay_step.induct)
  case (other_tables s' s)
  then show ?case by (blast intro: ledger_ok_quiet)
next
  case (update_row f s tid)
  show ?case by (rule ledger_ok_update_row [OF update_row(3,1,2)])
qed (rule ledger_ok_new_wallet ledger_ok_deposit ledger_ok_process_deposit ledger_ok_debit_payout
    ledger_ok_debit_bill ledger_ok_reversal ledger_ok_posting ledger_ok_assignment; assumption)+

end
