(* ===== verification/InternalProps.thy ===== *)
theory InternalProps
  imports Ledger
begin

text \<open>Laws and properties of the console's actions: postings, assigned deposits, re-queries.\<close>

section \<open>Postings\<close>

definition posting_balance :: "posting_dto \<Rightarrow> money \<Rightarrow> wallet \<Rightarrow> money" where
  "posting_balance dto a w =
    to_fixed 4 (if pg_type dto = CREDIT then w_balance w + a else w_balance w - a)"

definition posting_account :: "posting_dto \<Rightarrow> pay_state \<Rightarrow> string" where
  "posting_account dto s =
    (case findActiveForWallet (pg_walletId dto) s of
       Some a \<Rightarrow> a_providerAccountNumber a | None \<Rightarrow> ''MANUAL'')"

definition posted_row :: "posting_dto \<Rightarrow> money \<Rightarrow> date \<Rightarrow> wallet \<Rightarrow> pay_state \<Rightarrow> transaction" where
  "posted_row dto a now w s =
    (posting_row dto (w\<lparr>w_balance := posting_balance dto a w\<rparr>) a (posting_account dto s) now)
      \<lparr>t_id := next_id s\<rparr>"

lemma apply_posting_eq:
  "apply_posting dto a now s =
    (case find_wallet (pg_walletId dto) s of
       None \<Rightarrow> (Inl (NotFound ''Wallet not found''), s)
     | Some w \<Rightarrow>
        if pg_type dto = DEBIT \<and> w_balance w < a then (Inl (BadRequest ''Insufficient balance''), s)
        else if findExisting (pg_reference dto) s \<noteq> None then (Inl UniqueViolation, s)
        else (Inr (posted_row dto a now w s),
              (set_balance (pg_walletId dto) (posting_balance dto a w) s)
                \<lparr>txns := insert_row (posted_row dto a now w s) (txns s), next_id := Suc (next_id s)\<rparr>))"
proof -
  have acct: "findActiveForWallet i (set_balance j b s) = findActiveForWallet i s" for i j b
    by (simp add: findActiveForWallet_def)
  show ?thesis
    by (cases "pg_type dto"; cases "find_wallet (pg_walletId dto) s")
      (auto simp: apply_posting_def stm_simps creditForUpdate_eq debitForUpdate_eq Let_def acct
        insert_txn_def findExisting_def posted_row_def posting_balance_def posting_account_def
        split: option.splits)
qed

text \<open>What the replay check finds after a posting: its row.\<close>

lemma findExisting_posted:
  assumes "findExisting (pg_reference dto) s = None"
  shows "findExisting (pg_reference dto)
      (s'\<lparr>txns := insert_row (posted_row dto a now w s) (txns s), next_id := n\<rparr>) =
    Some (posted_row dto a now w s)"
  using assms
  by (simp add: findExisting_def find_row_insert_row posted_row_def same_reference_def)

lemma post_adjustment_eq:
  assumes "parseAmount dec (pg_amount dto) = Inr a" and "0 < a"
    and "findExisting (pg_reference dto) s = None"
  shows "post_adjustment dec others dto now s =
    (let s1 = others s in
     case apply_posting dto a now s1 of
       (Inr t, s2) \<Rightarrow>
         (Inr (posting_view_of False t),
          notifyTransaction (Some t)
            (if pg_type dto = CREDIT then ACCOUNT_CREDITED else ACCOUNT_DEBITED) True s2)
     | (Inl e, s2) \<Rightarrow>
         (case (e = UniqueViolation, findExisting (pg_reference dto) s2) of
            (True, Some t) \<Rightarrow> (Inr (posting_view_of True t), s2)
          | _ \<Rightarrow> (Inl e, s2)))"
  using assms
  by (auto simp: post_adjustment_def stm_simps Let_def split: prod.splits sum.splits option.splits)

lemma post_adjustment_replay:
  assumes "parseAmount dec (pg_amount dto) = Inr a" and "0 < a"
    and "findExisting (pg_reference dto) s = Some t"
  shows "post_adjustment dec others dto now s = (Inr (posting_view_of True t), s)"
  using assms by (simp add: post_adjustment_def stm_simps)

text \<open>
  C29: A posting is applied once.  Whatever raced with it, when a posting answers with a view, the
  same request sent again, at any time and in whatever company, answers with the same view marked
  as replayed and changes nothing; when the first answer was not a replay, the wallet's balance
  moved by exactly the posted amount; when it fails, it has written nothing of its own.
\<close>

lemma posting_view_replayed: "posting_view_of True t = (posting_view_of False t)\<lparr>pv_replayed := True\<rparr>"
  by (simp add: posting_view_of_def)

lemma post_adjustment_InrD:
  assumes "post_adjustment dec others dto now s = (Inr v, s1)"
  obtains a where "parseAmount dec (pg_amount dto) = Inr a" and "0 < a"
  using assms unfolding post_adjustment_def by (elim bindM_InrE) simp

lemma post_adjustment_known:
  assumes "post_adjustment dec others dto now s = (Inr v, s1)"
  obtains t where "findExisting (pg_reference dto) s1 = Some t"
    and "v\<lparr>pv_replayed := True\<rparr> = posting_view_of True t"
    and "\<not> pv_replayed v \<Longrightarrow> \<exists>a w. dec (pg_amount dto) = Some a \<and>
      find_wallet (pg_walletId dto) (others s) = Some w \<and>
      wallet_balance s1 (pg_walletId dto) = Some (posting_balance dto a w)"
proof -
  obtain a where a: "parseAmount dec (pg_amount dto) = Inr a" "0 < a"
    by (rule post_adjustment_InrD [OF assms])
  then have dec: "dec (pg_amount dto) = Some a" by (auto simp: parseAmount_def split: option.splits)
  have bal: "wallet_balance (notifyTransaction u e b ((set_balance i x s0)\<lparr>txns := T, next_id := n\<rparr>)) i = Some x"
    if "find_wallet i s0 = Some w" for u e b i x s0 T n w
  proof -
    have "find_wallet i (z\<lparr>txns := T, next_id := n\<rparr>) = find_wallet i z" for z
      by (simp add: find_wallet_def)
    then show ?thesis using that by (simp add: wallet_balance_def find_wallet_set_balance)
  qed
  show thesis
  proof (cases "findExisting (pg_reference dto) s")
    case (Some t)
    with assms show thesis by (intro that) (auto simp: post_adjustment_replay [OF a Some] posting_view_of_def)
  next
    case None
    show thesis
    proof (cases "findExisting (pg_reference dto) (others s)")
      case (Some t)
      with assms show thesis
        by (intro that)
          (auto simp: post_adjustment_eq [OF a None] apply_posting_eq posting_view_of_def Let_def
            split: option.splits if_splits)
    next
      case none: None
      from assms obtain w where w: "find_wallet (pg_walletId dto) (others s) = Some w"
        and v: "v = posting_view_of False (posted_row dto a now w (others s))"
        and s1: "s1 = notifyTransaction (Some (posted_row dto a now w (others s)))
            (if pg_type dto = CREDIT then ACCOUNT_CREDITED else ACCOUNT_DEBITED) True
            ((set_balance (pg_walletId dto) (posting_balance dto a w) (others s))
              \<lparr>txns := insert_row (posted_row dto a now w (others s)) (txns (others s)),
               next_id := Suc (next_id (others s))\<rparr>)"
        by (auto simp: post_adjustment_eq [OF a None] apply_posting_eq none Let_def
            split: option.splits if_splits)
      have "findExisting (pg_reference dto) s1 = Some (posted_row dto a now w (others s))"
        using findExisting_posted [OF none, where s' = "set_balance i b (others s)" for i b]
        by (simp add: s1 findExisting_def)
      then show thesis using w v bal [OF w] dec s1 by (intro that) (auto simp: posting_view_of_def)
    qed
  qed
qed

lemma post_adjustment_InlD:
  assumes "post_adjustment dec others dto now s = (Inl e, s1)"
  shows "s1 = s \<or> s1 = others s"
proof (cases "\<exists>a. parseAmount dec (pg_amount dto) = Inr a \<and> 0 < a")
  case True
  then obtain a where a: "parseAmount dec (pg_amount dto) = Inr a" "0 < a" by blast
  with assms show ?thesis
    by (cases "findExisting (pg_reference dto) s")
      (auto simp: post_adjustment_replay [OF a] post_adjustment_eq [OF a] apply_posting_eq Let_def
        split: option.splits if_splits)
next
  case False
  with assms show ?thesis
    by (cases "parseAmount dec (pg_amount dto)") (auto simp: post_adjustment_def stm_simps)
qed

theorem postings_apply_once:
  "(case post_adjustment dec others dto now s of
      (Inr v, s1) \<Rightarrow>
        post_adjustment dec others2 dto now2 s1 = (Inr (v\<lparr>pv_replayed := True\<rparr>), s1) \<and>
        (pv_replayed v \<or>
          (\<exists>a w. dec (pg_amount dto) = Some a \<and> find_wallet (pg_walletId dto) (others s) = Some w \<and>
             wallet_balance s1 (pg_walletId dto) = Some (posting_balance dto a w)))
    | (Inl e, s1) \<Rightarrow> s1 = s \<or> s1 = others s)"
proof (cases "post_adjustment dec others dto now s")
  case (Pair r s1)
  show ?thesis
  proof (cases r)
    case (Inl e)
    with Pair show ?thesis using post_adjustment_InlD by auto
  next
    case (Inr v)
    with Pair have p: "post_adjustment dec others dto now s = (Inr v, s1)" by simp
    obtain a where "parseAmount dec (pg_amount dto) = Inr a" "0 < a" by (rule post_adjustment_InrD [OF p])
    with p show ?thesis
      by (rule_tac post_adjustment_known [OF p]) (auto simp: post_adjustment_replay)
  qed
qed

section \<open>Assigned deposits\<close>

definition assign_view_of :: "bool \<Rightarrow> transaction \<Rightarrow> assign_view" where
  "assign_view_of replayed t =
    \<lparr>av_transactionId = t_id t, av_status = t_status t, av_amount = t_amount t,
     av_balanceAfter = t_balanceAfter t, av_replayed = replayed\<rparr>"

lemma assign_unmatched_eq:
  "assign_unmatched tid dto stamp now s =
    (case assign_in_tx tid dto stamp now s of
       (Inl e, s') \<Rightarrow> (Inl e, s')
     | (Inr (t, replayed), s') \<Rightarrow>
         (Inr (assign_view_of replayed t),
          if replayed then s' else notifyTransaction (Some t) CREDIT_RECEIVED True s'))"
  by (auto simp: assign_unmatched_def stm_simps assign_view_of_def split: prod.splits sum.splits)

lemma assigned_simps [simp]:
  "t_id (assigned t w dto stamp now r) = t_id r" "t_type (assigned t w dto stamp now r) = t_type r"
  "t_amount (assigned t w dto stamp now r) = t_amount r"
  "t_status (assigned t w dto stamp now r) = SUCCESSFUL"
  "t_walletId (assigned t w dto stamp now r) = Some (w_id w)"
  by (simp_all add: assigned_def)

lemma assign_in_tx_newD:
  assumes "assign_in_tx tid dto stamp now s = (Inr (u, False), s0)"
  obtains t w where "find_txn tid s = Some t" and "find_wallet (as_walletId dto) s = Some w"
    and "u = assigned t w dto stamp now t"
    and "s0 = update_txn tid (assigned t w dto stamp now)
      (set_balance (as_walletId dto) (to_fixed 4 (w_balance w + t_amount t)) s)"
proof -
  obtain t where t: "find_txn tid s = Some t"
    using assms by (cases "find_txn tid s") (auto simp: assign_in_tx_def stm_simps)
  from assms show thesis
    unfolding assign_in_tx_eq [OF t]
    by (cases "find_wallet (as_walletId dto) s") (auto split: if_splits intro: that [OF t])
qed

text \<open>
  An unmatched deposit is assigned to one wallet, once.  After an assignment that was not a
  replay, the wallet is richer by the deposit's amount; assigning again to the same wallet is a
  replay that changes nothing, and assigning to any other wallet is refused with a conflict and
  changes nothing.
\<close>

theorem deposit_assigned_once:
  assumes "assign_unmatched tid dto stamp now s = (Inr v, s1)" and "\<not> av_replayed v"
  shows "(\<exists>t w. find_txn tid s = Some t \<and> find_wallet (as_walletId dto) s = Some w \<and>
      wallet_balance s1 (as_walletId dto) = Some (to_fixed 4 (w_balance w + t_amount t))) \<and>
    (\<forall>dto2 stamp2 now2.
       assign_unmatched tid dto2 stamp2 now2 s1 =
         (if as_walletId dto2 = as_walletId dto then (Inr (v\<lparr>av_replayed := True\<rparr>), s1)
          else (Inl (Conflict ''This deposit is not awaiting assignment''), s1)))"
proof -
  from assms obtain u s0 where u: "assign_in_tx tid dto stamp now s = (Inr (u, False), s0)"
    and v: "v = assign_view_of False u" and s1: "s1 = notifyTransaction (Some u) CREDIT_RECEIVED True s0"
    by (auto simp: assign_unmatched_eq assign_view_of_def split: prod.splits sum.splits if_splits)
  from u obtain t w where t: "find_txn tid s = Some t" and w: "find_wallet (as_walletId dto) s = Some w"
    and ut: "u = assigned t w dto stamp now t"
    and s0: "s0 = update_txn tid (assigned t w dto stamp now)
      (set_balance (as_walletId dto) (to_fixed 4 (w_balance w + t_amount t)) s)"
    by (rule assign_in_tx_newD)
  have found: "find_txn tid s1 = Some u"
    using t by (simp add: s1 s0 ut find_txn_update_txn)
  have wid: "w_id w = as_walletId dto" using find_wallet_id [OF w] by simp
  have "wallet_balance s1 (as_walletId dto) = Some (to_fixed 4 (w_balance w + t_amount t))"
    using w by (simp add: s1 s0 wallet_balance_def find_wallet_set_balance)
  moreover have "assign_unmatched tid dto2 stamp2 now2 s1 =
      (if as_walletId dto2 = as_walletId dto then (Inr (v\<lparr>av_replayed := True\<rparr>), s1)
       else (Inl (Conflict ''This deposit is not awaiting assignment''), s1))" for dto2 stamp2 now2
    unfolding assign_unmatched_eq assign_in_tx_eq [OF found] v
    by (simp add: ut wid assign_view_of_def)
  ultimately show ?thesis using t w by blast
qed

definition sample_unmatched :: transaction where
  "sample_unmatched =
    (new_txn None CREDIT DEPOSIT UNMATCHED VFD ''2002'' 300 ''R9'' 5)\<lparr>t_id := 20\<rparr>"

lemma sample_unmatched_simps [simp]:
  "t_id sample_unmatched = 20" "t_type sample_unmatched = CREDIT" "t_status sample_unmatched = UNMATCHED"
  "t_walletId sample_unmatched = None" "t_amount sample_unmatched = 300" "t_currency sample_unmatched = NGN"
  by (simp_all add: sample_unmatched_def new_txn_def)

definition sample_assign :: assign_dto where
  "sample_assign = \<lparr>as_walletId = 11, as_reference = ''CASE7'', as_meta = []\<rparr>"

theorem deposit_assigned_once_witness:
  "\<exists>v s1. assign_unmatched 20 sample_assign JNull 50 (sample_pay [sample_unmatched]) = (Inr v, s1) \<and>
    wallet_balance s1 11 = Some 1300 \<and>
    assign_unmatched 20 (sample_assign\<lparr>as_walletId := 12\<rparr>) JNull 60 s1 =
      (Inl (Conflict ''This deposit is not awaiting assignment''), s1)"
proof -
  have f: "find_txn 20 (sample_pay [sample_unmatched]) = Some sample_unmatched" by simp
  obtain v s1 where v: "assign_unmatched 20 sample_assign JNull 50 (sample_pay [sample_unmatched]) = (Inr v, s1)"
    "\<not> av_replayed v"
    by (simp add: assign_unmatched_eq assign_in_tx_eq [OF f] sample_assign_def assign_view_of_def)
  have m: "to_fixed 4 1300 = (1300 :: rat)" by (intro to_fixed_fits fits_numeral)
  show ?thesis
    using deposit_assigned_once [OF v] v(1) m by (auto simp: sample_assign_def)
qed

section \<open>Re-querying a bill from the console\<close>

text \<open>The payout's query ends in a refund when the provider says the transfer failed.\<close>

lemma sync_failed_eq:
  assumes "find_txn tid s = Some t" and "\<not> is_final (t_status t)" and "t_walletId t = Some i"
    and "find_wallet i s = Some w" and "\<not> rev_used t s"
    and "getProviderByKey rg (t_provider t) = Inr p"
    and "pp_queryTransferStatus p (t_reference t) = Inr r" and "tr_outcome r = TO_FAILED"
  obtains s' where "syncPayoutStatus rg (\<lambda>x. x) tid now s = (Inr SYNC_FAILED, s')"
    and "wallet_balance s' i = Some (to_fixed 4 (w_balance w + refund_of t))"
    and "\<exists>u. find_txn tid s' = Some u \<and> t_status u = FAILED"
proof -
  let ?s1 = "record_provider_answer t r s"
  obtain u where u: "find_txn tid ?s1 = Some u" "t_status u = t_status t" "t_walletId u = t_walletId t"
    "refund_of u = refund_of t" "t_provider u = t_provider t" "t_reference u = t_reference t" "t_id u = tid"
    using assms(1) find_txn_id [OF assms(1)]
    by (simp add: record_provider_answer_def find_txn_update_txn refund_of_def)
  have w: "find_wallet i ?s1 = Some w"
    using assms(4) by (simp add: record_provider_answer_def find_wallet_def)
  have "rev_used u ?s1 = rev_used t s"
    unfolding rev_used_def u reference_taken_def record_provider_answer_def
    by (simp add: same_reference_update)
  then have nr: "\<not> rev_used u ?s1" using assms(5) by simp
  have nf: "\<not> is_final (t_status u)" "t_walletId u = Some i" using assms(2,3) u by simp_all
  show ?thesis
  proof (rule that)
    show "syncPayoutStatus rg (\<lambda>x. x) tid now s = (Inr SYNC_FAILED,
        reportIssueToSlack ''Payout failed at provider (customer refunded)'' tid
          (notifyTransaction (Some u) PAYOUT_FAILED True
            (reversed True ''Reversal for failed payout '' u w now ?s1)))"
      using assms(1,2,6-8) reverseFailedPayout_eq [OF u(1) nf, of "\<lambda>x. x" w now] w nr u(7)
      by (simp add: syncPayoutStatus_def bindM_def)
    have "wallet_balance (reversed True what u w now ?s1) i = Some (to_fixed 4 (w_balance w + refund_of t))"
      for what using reversed_balance [OF w, of True what u now] u(4) by simp
    then show "wallet_balance (reportIssueToSlack ''Payout failed at provider (customer refunded)'' tid
          (notifyTransaction (Some u) PAYOUT_FAILED True
            (reversed True ''Reversal for failed payout '' u w now ?s1))) i =
        Some (to_fixed 4 (w_balance w + refund_of t))"
      by (simp add: wallet_balance_def)
  qed (use reversed_txn [of u ?s1] u in simp)
qed

text \<open>
  The console's re-query treats a bill payment as a payout.  For a bill that is still
  processing it asks the transfer endpoint about the bill's reference; when that endpoint says the
  transfer failed (as it does for a reference it has never seen), the customer is refunded the
  bill's amount and fee and the bill is marked FAILED, whatever the bill endpoint would have said.
\<close>

theorem requery_refunds_a_bill:
  assumes "find_txn tid s = Some t" and "t_kind t = BILL_PAYMENT" and "t_type t = DEBIT"
    and "t_provider t \<noteq> MANUAL" and "t_status t = PROCESSING"
    and "getProviderByKey rg (t_provider t) = Inr p"
    and "pp_queryTransferStatus p (t_reference t) = Inr r" and "tr_outcome r = TO_FAILED"
    and "t_walletId t = Some i" and "find_wallet i s = Some w"
    and "\<not> reference_taken (t_provider t) (''REV-'' @ t_reference t) s"
  shows "\<exists>v s'. requery rg (\<lambda>x. x) tid now s = (Inr v, s') \<and> rq_outcome v = SYNC_FAILED \<and>
    rq_status v = FAILED \<and> wallet_balance s' i = Some (to_fixed 4 (w_balance w + refund_of t))"
proof -
  have "\<not> is_final (t_status t)" "\<not> rev_used t s"
    using assms(5,11) by (simp_all add: is_final_def rev_used_def)
  then show ?thesis
  proof (rule sync_failed_eq [OF assms(1) _ assms(9,10) _ assms(6-8)])
    fix s'
    assume "syncPayoutStatus rg (\<lambda>x. x) tid now s = (Inr SYNC_FAILED, s')"
      "wallet_balance s' i = Some (to_fixed 4 (w_balance w + refund_of t))"
      "\<exists>u. find_txn tid s' = Some u \<and> t_status u = FAILED"
    then show ?thesis
      using assms(1,3-5) by (auto simp: requery_def bindM_def catchM_def find_or_fail_def)
  qed
qed

definition sample_bill :: transaction where
  "sample_bill =
    (new_txn (Some 11) DEBIT BILL_PAYMENT PROCESSING VFD ''1001'' 100 ''FIAM-B1'' 5)
      \<lparr>t_id := 30, t_fee := Some 50\<rparr>"

definition sample_unknown :: transfer_result where
  "sample_unknown = sample_tsq\<lparr>tr_outcome := TO_FAILED, tr_providerStatusCode := Some ''108''\<rparr>"

theorem requery_refunds_a_bill_witness:
  "\<exists>v s'. requery (sample_registry sample_unknown) (\<lambda>x. x) 30 60 (sample_pay [sample_bill]) = (Inr v, s') \<and>
    rq_status v = FAILED \<and> wallet_balance s' 11 = Some 1150"
proof -
  have m: "to_fixed 4 (1000 + refund_of sample_bill) = 1150"
    using to_fixed_fits [OF fits_numeral, of 4 "Num.inc (num.Bit1 num.One)"]
    by (simp add: sample_bill_def new_txn_def refund_of_def to_fixed_fits)
  show ?thesis
    using requery_refunds_a_bill [of 30 "sample_pay [sample_bill]" sample_bill "sample_registry sample_unknown"
        "sample_provider sample_unknown" sample_unknown 11 sample_wallet 60] m
    by (auto simp: sample_bill_def new_txn_def sample_registry_def getProviderByKey_def sample_provider_def
        sample_unknown_def reference_taken_def same_reference_def)
qed

end
