(* ===== verification/Steps.thy ===== *)
theory Steps
  imports Prelude
begin

text \<open>
  Requests as sequences of atomic steps.  A computation is \<open>stepwise\<close> from a state when, started
  where the invariant holds, it only makes steps of a given relation, however it ends.  The locale
  gives the rules that follow the monadic structure of the code, so that one invariant proof over
  the atomic steps covers every request built from them.
\<close>

definition stepwise ::
  "('s \<Rightarrow> 's \<Rightarrow> bool) \<Rightarrow> ('s \<Rightarrow> bool) \<Rightarrow> ('e, 'a, 's) stm \<Rightarrow> 's \<Rightarrow> bool" where
  "stepwise step good m s \<longleftrightarrow> (good s \<longrightarrow> step\<^sup>*\<^sup>* s (snd (m s)))"

lemma stepwise_read [simp]:
  "stepwise step good (bindM (getM g) k) s = stepwise step good (k (g s)) s"
  by (simp add: stepwise_def bindM_def)

locale step_system =
  fixes step :: "'s \<Rightarrow> 's \<Rightarrow> bool" and good :: "'s \<Rightarrow> bool"
  assumes step_keeps: "step s s' \<Longrightarrow> good s \<Longrightarrow> good s'"
begin

lemma steps_keep: "step\<^sup>*\<^sup>* s s' \<Longrightarrow> good s \<Longrightarrow> good s'"
  by (induction rule: rtranclp_induct) (auto intro: step_keeps)

lemma stepwise_keeps: "stepwise step good m s \<Longrightarrow> good s \<Longrightarrow> good (snd (m s))"
  by (auto simp: stepwise_def intro: steps_keep)

lemma stepwise_pure:
  "stepwise step good (retM a) s" "stepwise step good (failM e) s" "stepwise step good (getM g) s"
  "stepwise step good (liftM x) s" "stepwise step good (assertM b e) s" "stepwise step good (someM v e) s"
  by (simp_all add: stepwise_def assertM_def someM_def liftM_def retM_def failM_def getM_def
      split: option.splits sum.splits)

lemma stepwise_same: "snd (m s) = s \<Longrightarrow> stepwise step good m s"
  by (simp add: stepwise_def)

lemma stepwise_atomic: "(good s \<Longrightarrow> step s (snd (m s))) \<Longrightarrow> stepwise step good m s"
  by (auto simp: stepwise_def)

lemma stepwise_updM: "(good s \<Longrightarrow> step\<^sup>*\<^sup>* s (f s)) \<Longrightarrow> stepwise step good (updM f) s"
  by (simp add: stepwise_def updM_def)

lemma stepwise_updM_step: "(good s \<Longrightarrow> step s (f s)) \<Longrightarrow> stepwise step good (updM f) s"
  by (auto simp: stepwise_def updM_def)

lemma stepwise_bindM:
  assumes "stepwise step good m s"
    and "\<And>a s'. m s = (Inr a, s') \<Longrightarrow> step\<^sup>*\<^sup>* s s' \<Longrightarrow> good s \<Longrightarrow> good s' \<Longrightarrow> stepwise step good (k a) s'"
  shows "stepwise step good (bindM m k) s"
  unfolding stepwise_def
proof
  assume good: "good s"
  with assms(1) have m: "step\<^sup>*\<^sup>* s (snd (m s))" by (simp add: stepwise_def)
  then have "good (snd (m s))" using good by (rule steps_keep)
  with m good assms(2) show "step\<^sup>*\<^sup>* s (snd (bindM m k s))"
    by (cases "m s", cases "fst (m s)") (fastforce simp: bindM_def stepwise_def)+
qed

lemma stepwise_catchM:
  assumes "stepwise step good m s"
    and "\<And>e s'. m s = (Inl e, s') \<Longrightarrow> step\<^sup>*\<^sup>* s s' \<Longrightarrow> good s \<Longrightarrow> good s' \<Longrightarrow> stepwise step good (h e) s'"
  shows "stepwise step good (catchM m h) s"
  unfolding stepwise_def
proof
  assume good: "good s"
  with assms(1) have m: "step\<^sup>*\<^sup>* s (snd (m s))" by (simp add: stepwise_def)
  then have "good (snd (m s))" using good by (rule steps_keep)
  with m good assms(2) show "step\<^sup>*\<^sup>* s (snd (catchM m h s))"
    by (cases "m s", cases "fst (m s)") (fastforce simp: catchM_def stepwise_def)+
qed

lemma stepwise_if:
  "(b \<Longrightarrow> stepwise step good m s) \<Longrightarrow> (\<not> b \<Longrightarrow> stepwise step good n s) \<Longrightarrow>
    stepwise step good (if b then m else n) s"
  by simp

lemma stepwise_whenM: "(b \<Longrightarrow> stepwise step good m s) \<Longrightarrow> stepwise step good (whenM b m) s"
  by (cases b) (simp_all add: stepwise_def whenM_def)

lemma stepwise_option:
  "(v = None \<Longrightarrow> stepwise step good n s) \<Longrightarrow> (\<And>x. v = Some x \<Longrightarrow> stepwise step good (f x) s) \<Longrightarrow>
    stepwise step good (case v of None \<Rightarrow> n | Some x \<Rightarrow> f x) s"
  by (cases v) simp_all

end

end
