(* ===== verification/Requests.thy ===== *)
theory Requests
  imports InternalProps Steps
begin

text \<open>
  The requests, jobs and console actions of the payment service as sequences of the atomic steps
  of \<open>Ledger\<close>, and the properties of the books that follow for all of them, in any
  order and interleaving.
\<close>

section \<open>The steps form a step system\<close>

interpretation bk: step_system pay_step ledger_ok
  by unfold_locales (rule pay_step_ledger_ok)

abbreviation on_books :: "(http_error, 'a, pay_state) stm \<Rightarrow> pay_state \<Rightarrow> bool" where
  "on_books \<equiv> stepwise pay_step ledger_ok"

lemmas quiet_step = pay_step.other_tables

lemma pay_step_quiet [intro, simp]:
  "pay_step s (notifyTransaction t ev b s)" "pay_step s (reportIssueToSlack m i s)"
  "pay_step s (alertTransaction t0 s)" "pay_step s (sendBillReceiptEmail t0 b s)"
  "pay_step s (emit e s)" "pay_step s (enqueue j n s)" "pay_step s (update_hook i g s)"
  "pay_step s (noteFailure i note tsq s)" "pay_step s (recordSuccess u bd a now s)" "pay_step s s"
  by (auto intro!: quiet_step simp: update_hook_def noteFailure_def recordSuccess_def
      split: option.splits)

lemma on_books_quiet [intro, simp]:
  "on_books (updM (notifyTransaction t ev b)) s" "on_books (updM (reportIssueToSlack m i)) s"
  "on_books (updM (alertTransaction t0)) s" "on_books (updM (sendBillReceiptEmail t0 b)) s"
  "on_books (updM (emit e)) s" "on_books (updM (enqueue j n)) s" "on_books (updM (update_hook i g)) s"
  "on_books (updM (noteFailure i note tsq)) s"
  by (auto intro: bk.stepwise_updM_step)

lemmas [intro!, simp] = bk.stepwise_pure

lemmas on_books_rules =
  bk.stepwise_bindM bk.stepwise_if bk.stepwise_option bk.stepwise_whenM bk.stepwise_catchM

text \<open>What other requests do while one waits.\<close>

definition on_steps :: "(pay_state \<Rightarrow> pay_state) \<Rightarrow> bool" where
  "on_steps f \<longleftrightarrow> (\<forall>s. ledger_ok s \<longrightarrow> pay_step\<^sup>*\<^sup>* s (f s))"

lemma on_steps_id [simp]: "on_steps (\<lambda>s. s)" "on_steps id"
  by (simp_all add: on_steps_def)

lemma on_books_others [intro]: "on_steps f \<Longrightarrow> on_books (updM f) s"
  by (rule bk.stepwise_updM) (simp add: on_steps_def)

section \<open>A debit stays a debit\<close>

text \<open>The row of a debit keeps its owner, its amounts and its reference through every step.\<close>

definition debits_kept :: "pay_state \<Rightarrow> pay_state \<Rightarrow> bool" where
  "debits_kept s s' \<longleftrightarrow>
    (\<forall>x \<in> set (txns s). t_type x = DEBIT \<longrightarrow> (\<exists>y \<in> set (txns s'). same_payment x y))"

lemma rows_kept_debits: "rows_kept s s' \<Longrightarrow> debits_kept s s'"
  by (simp add: rows_kept_def debits_kept_def)

lemma same_payment_trans: "same_payment x y \<Longrightarrow> same_payment y z \<Longrightarrow> same_payment x z"
  by (simp add: same_payment_def)

lemma debits_kept_trans: "debits_kept s s1 \<Longrightarrow> debits_kept s1 s2 \<Longrightarrow> debits_kept s s2"
  unfolding debits_kept_def by (metis same_payment_def same_payment_trans)

lemma rows_kept_same: "txns s' = txns s \<Longrightarrow> rows_kept s s'"
  unfolding rows_kept_def by (metis same_payment_refl)

lemma rows_kept_update_txn: "(\<And>x. same_payment x (f x)) \<Longrightarrow> rows_kept s (update_txn tid f s)"
  by (rule rows_kept_update [where f = f and P = "by_key t_id tid"]) simp_all

lemma keeps_paymentsD: "m s = (r, s') \<Longrightarrow> keeps_payments m \<Longrightarrow> debits_kept s s'"
  unfolding keeps_payments_def by (metis rows_kept_debits snd_conv)

lemma keeps_payments_option [intro]:
  "keeps_payments n \<Longrightarrow> (\<And>x. keeps_payments (f x)) \<Longrightarrow>
    keeps_payments (case v of None \<Rightarrow> n | Some x \<Rightarrow> f x)"
  by (cases v) simp_all

lemma keeps_payments_if [intro]:
  "keeps_payments m \<Longrightarrow> keeps_payments n \<Longrightarrow> keeps_payments (if b then m else n)"
  by simp

lemma keeps_payments_debit [intro]: "keeps_payments (debitForUpdate i a)"
  by (auto simp: keeps_payments_def debitForUpdate_eq Let_def rows_kept_def provider_requests_def
      intro: same_payment_refl split: option.splits)

lemma keeps_payments_catchM [intro]:
  assumes "keeps_payments m" and "\<And>e. keeps_payments (h e)"
  shows "keeps_payments (catchM m h)"
  unfolding keeps_payments_def
proof
  fix s
  show "rows_kept s (snd (catchM m h s)) \<and> provider_requests (snd (catchM m h s)) = provider_requests s"
    using assms(1) [unfolded keeps_payments_def, rule_format, of s] assms(2) [unfolded keeps_payments_def]
    by (auto simp: catchM_def split: prod.splits sum.splits dest: rows_kept_trans intro: rows_kept_trans)
qed

lemma keeps_payments_same: "(\<And>s. snd (m s) = s) \<Longrightarrow> keeps_payments m"
  by (simp add: keeps_payments_def)

lemma keeps_payments_checks [intro]:
  "keeps_payments (assertWithinTransferLimit i a l)" "keeps_payments (checkCaps e now i a caps)"
  by (rule keeps_payments_same,
      simp add: assertWithinTransferLimit_def checkCaps_def assertWithinCaps_def Let_def
        split: option.splits)+

lemmas keeps_payments_rules =
  keeps_payments_checks keeps_payments_bindM keeps_payments_txM keeps_payments_option keeps_payments_if
  keeps_payments_catchM keeps_payments_credit keeps_payments_debit keeps_payments_insert
  keeps_payments_update keeps_payments_notify keeps_payments_id keeps_payments_simps

text \<open>The bodies of the transactions keep the rows they find.\<close>

lemma keeps_payments_transactions:
  "keeps_payments (insert_or_ignore t)" "keeps_payments (process_deposit (\<lambda>x. x) tid now)"
  "keeps_payments (debit_payout e w ad p a l caps ref ben nar now)"
  "keeps_payments (debit_bill e w ad key a fee caps ref bill now)"
  "keeps_payments (reverse_writes k what t now)" "keeps_payments (apply_posting dto a now)"
  unfolding insert_or_ignore_def process_deposit_def debit_payout_def debit_bill_def
    reverse_writes_def credit_owner_def apply_posting_def
  by (intro keeps_payments_rules | simp add: same_payment_def)+

lemma debits_kept_assignment:
  assumes "ledger_ok s" and "assign_in_tx tid dto stamp now s = (r, s')"
  shows "debits_kept s s'"
proof (cases "s' = s")
  case False
  then obtain t where t: "find_txn tid s = Some t"
    using assms(2) by (cases "find_txn tid s") (auto simp: assign_in_tx_def stm_simps)
  with False assms(2) obtain f where c: "t_type t = CREDIT"
    and s': "txns s' = update_where (by_key t_id tid) f (txns s)"
    unfolding assign_in_tx_eq [OF t] by (auto split: if_splits option.splits)
  note key = ledger_ok_rows [OF assms(1)] t [unfolded find_txn_def]
  show ?thesis
    unfolding debits_kept_def
  proof (intro ballI impI)
    fix x assume x: "x \<in> set (txns s)" "t_type x = DEBIT"
    then have "t_id x \<noteq> tid" using c update_where_key_eq [OF key] by auto
    then have "x \<in> set (txns s')"
      using x(1) imageI [OF x(1), of "\<lambda>x. if by_key t_id tid x then f x else x"]
      by (simp add: s' set_update_where)
    then show "\<exists>y \<in> set (txns s'). same_payment x y" using same_payment_refl by blast
  qed
qed (simp add: rows_kept_debits)

lemma pay_step_debits: "pay_step s s' \<Longrightarrow> ledger_ok s \<Longrightarrow> debits_kept s s'"
proof (induction rule: pay_step.induct)
  case (other_tables s' s)
  then show ?case by (intro rows_kept_debits rows_kept_same)
next
  case (new_wallet u c s r s')
  then show ?case by (intro rows_kept_debits rows_kept_same)
      (auto simp: insert_wallet_def Let_def split: option.splits)
next
  case (update_row f s tid)
  show ?case by (intro rows_kept_debits rows_kept_update_txn update_row(1))
next
  case (assignment tid dto stamp now s r s')
  then show ?case by (intro debits_kept_assignment)
qed (erule keeps_paymentsD, rule keeps_payments_transactions)+

lemma pay_steps_debits: "pay_step\<^sup>*\<^sup>* s s' \<Longrightarrow> ledger_ok s \<Longrightarrow> debits_kept s s'"
proof (induction rule: rtranclp_induct)
  case base
  show ?case by (simp add: rows_kept_debits)
next
  case (step s1 s2)
  then show ?case by (meson bk.steps_keep debits_kept_trans pay_step_debits)
qed

definition owed :: "transaction \<Rightarrow> pay_state \<Rightarrow> bool" where
  "owed t s \<longleftrightarrow> t_type t = DEBIT \<and> (\<exists>x \<in> set (txns s). same_payment t x)"

lemma owed_steps:
  assumes "owed t s" and "ledger_ok s" and "pay_step\<^sup>*\<^sup>* s s'"
  shows "owed t s'"
  using pay_steps_debits [OF assms(3,2)] assms(1) unfolding owed_def debits_kept_def
  by (metis same_payment_def same_payment_trans)

lemma owed_find: "find_txn tid s = Some t \<Longrightarrow> t_type t = DEBIT \<Longrightarrow> owed t s"
  unfolding owed_def using find_txn_id same_payment_refl by blast

lemma owed_row:
  assumes "owed t s" and "ledger_ok s" and "x \<in> set (txns s)" and "t_id x = t_id t"
  shows "t_type x = DEBIT"
proof -
  from assms(1) obtain y where y: "y \<in> set (txns s)" "same_payment t y" and d: "t_type t = DEBIT"
    by (auto simp: owed_def)
  then have "t_id y = t_id x" using assms(4) by (simp add: same_payment_def)
  then have "y = x"
    using ledger_ok_rows [OF assms(2)] assms(3) y(1) by (meson distinct_map inj_onD)
  then show ?thesis using y(2) d by (simp add: same_payment_def)
qed

lemma owed_update_row:
  "owed t s \<Longrightarrow> ledger_ok s \<Longrightarrow> (\<And>x. same_payment x (f x)) \<Longrightarrow> pay_step s (update_txn (t_id t) f s)"
  by (rule pay_step.update_row) (auto dest: owed_row)

lemma on_books_update_debit:
  "owed t s \<Longrightarrow> (\<And>x. same_payment x (f x)) \<Longrightarrow> on_books (updM (update_txn (t_id t) f)) s"
  by (intro bk.stepwise_updM_step owed_update_row)

section \<open>Reversals\<close>

lemma on_books_reverse_writes:
  assumes "owed t s"
  shows "on_books (reverse_writes k what t now) s"
proof (rule bk.stepwise_atomic)
  from assms obtain x where x: "x \<in> set (txns s)" "same_payment t x" "t_type x = DEBIT"
    by (auto simp: owed_def same_payment_def)
  show "pay_step s (snd (reverse_writes k what t now s))"
    by (rule pay_step.reversal [OF surjective_pairing x])
qed

lemma on_books_reversed:
  assumes "on_steps others" and "\<And>t. find_txn tid s = Some t \<Longrightarrow> t_type t = DEBIT"
  shows "on_books (reverseFailedPayout others tid now) s" "on_books (reverseFailedBill others tid now) s"
  unfolding reverseFailedPayout_def reverseFailedBill_def stepwise_read
  by (rule bk.stepwise_option, simp, rule bk.stepwise_if, simp,
      intro bk.stepwise_bindM on_books_others assms(1) on_books_quiet on_books_reverse_writes,
      blast intro: owed_steps owed_find assms(2))+

section \<open>Payouts\<close>

lemma on_books_find_or_fail [intro!, simp]: "on_books (find_or_fail tid) s"
  by (rule bk.stepwise_same) (simp add: find_or_fail_def stm_simps split: option.splits)

lemma owed_found:
  assumes "owed t s" and "ledger_ok s" and "find_txn (t_id t) s = Some x"
  shows "t_type x = DEBIT"
  using owed_row [OF assms(1,2)] find_txn_id [OF assms(3)] by blast

lemma on_books_reverse_owed:
  assumes "owed t s" and "on_steps others"
  shows "on_books (reverseFailedPayout others (t_id t) now) s"
    "on_books (reverseFailedBill others (t_id t) now) s"
  using on_books_reversed [OF assms(2)] owed_found [OF assms(1)] by (auto simp: stepwise_def)

lemma on_books_outcome:
  "on_books a s \<Longrightarrow> on_books b s \<Longrightarrow> on_books c s \<Longrightarrow> on_books d s \<Longrightarrow>
    on_books (case v of TO_SUCCESSFUL \<Rightarrow> a | TO_FAILED \<Rightarrow> b | TO_HOLD \<Rightarrow> c | TO_REQUERY \<Rightarrow> d) s"
  by (cases v) simp_all

text \<open>Backwards along the steps made so far, to where the debit was seen.\<close>

lemma owed_back: "pay_step\<^sup>*\<^sup>* s s' \<Longrightarrow> ledger_ok s \<Longrightarrow> owed t s \<Longrightarrow> owed t s'"
  by (rule owed_steps)

lemmas on_books_debit =
  bk.stepwise_bindM bk.stepwise_pure on_books_find_or_fail on_books_quiet on_books_update_debit
  on_books_reverse_owed on_steps_id

lemma on_books_apply:
  assumes "owed t s"
  shows "on_books (applyTransferResult q t r now) s"
  unfolding applyTransferResult_def mark_successful_def holdForReview_def
  by (cases "tr_outcome r"; simp; intro on_books_debit; (blast intro: owed_steps assms)?)
    (simp_all add: same_payment_def)

lemma snd_generateReference [simp]: "snd (generateReference rand name p s) = s"
proof -
  have "snd (try_reference n rand i name p s) = s" for n i
    by (induction n rand i name p s rule: try_reference.induct) (simp_all add: Let_def)
  then show ?thesis by (simp add: generateReference_def)
qed

lemma on_books_saveBeneficiary [intro!, simp]: "on_books (saveBeneficiary b u p c rc now) s"
  unfolding saveBeneficiary_def upsertBeneficiary_def
  by (intro bk.stepwise_bindM bk.stepwise_pure bk.stepwise_updM_step quiet_step)
    (auto split: option.splits)

lemma on_books_prepare_payout: "on_books (prepare_payout env u dto) s"
  unfolding prepare_payout_def
  by (intro bk.stepwise_bindM bk.stepwise_pure on_books_saveBeneficiary bk.stepwise_same
      snd_generateReference)

lemma prepare_payout_amount:
  assumes "prepare_payout env u dto s = (Inr plan, s')"
  shows "pe_dec env (po_amount dto) = Some (pl_amount plan)" "0 < pl_amount plan"
  using assms unfolding prepare_payout_def
  by (auto elim!: bindM_InrE simp: payout_amount_def parseAmount_def liftM_def
      split: option.splits sum.splits if_splits)

lemma debit_payout_owed:
  assumes "debit_payout e w ad p a l caps ref ben nar now s = (Inr t, s')" and "0 < a"
  shows "owed t s'"
  using assms by (rule debit_payout_InrD) (auto simp: owed_def)

lemma on_books_execute_payout:
  assumes "0 < pl_amount plan" and "fits 4 (pl_amount plan)" and "on_steps (pe_during env)"
  shows "on_books (execute_payout env dto plan) s"
  unfolding execute_payout_def
proof (rule bk.stepwise_bindM, goal_cases)
  case 1
  show ?case
    by (rule bk.stepwise_atomic, rule pay_step.debit_for_payout [OF surjective_pairing assms(1,2)])
next
  case (2 t s1)
  from debit_payout_owed [OF 2(1) assms(1)] show ?case
    by (intro bk.stepwise_bindM bk.stepwise_pure on_books_quiet on_books_others assms(3) on_books_apply)
      (blast intro: owed_steps)
qed

text \<open>The amounts a validated body may carry: at most four decimals.\<close>

definition decimals_ok :: "(string \<Rightarrow> money option) \<Rightarrow> bool" where
  "decimals_ok dec \<longleftrightarrow> (\<forall>x a. dec x = Some a \<longrightarrow> fits 4 a)"

lemma on_books_initiatePayout:
  assumes "decimals_ok (pe_dec env)" and "on_steps (pe_others env)" and "on_steps (pe_during env)"
  shows "on_books (initiatePayout env u dto) s"
  unfolding initiatePayout_def
proof (rule bk.stepwise_bindM [OF on_books_prepare_payout], goal_cases)
  case (1 plan s1)
  from prepare_payout_amount [OF 1(1)] assms show ?case
    by (intro bk.stepwise_bindM on_books_others on_books_execute_payout) (auto simp: decimals_ok_def)
qed

lemma on_books_sync_payout:
  assumes "on_steps others" and "\<And>t. find_txn tid s = Some t \<Longrightarrow> t_type t = DEBIT"
  shows "on_books (syncPayoutStatus rg others tid now) s"
  unfolding syncPayoutStatus_def stepwise_read
proof (rule bk.stepwise_option, goal_cases)
  case (2 t)
  have id: "t_id t = tid" using find_txn_id [OF 2] by simp
  have ow: "owed t s" by (rule owed_find [OF 2 assms(2) [OF 2]])
  show ?case
    unfolding record_provider_answer_def mark_successful_def holdForReview_def id [symmetric]
    by (intro bk.stepwise_if on_books_outcome on_books_debit on_books_others assms(1))
      ((erule (1) owed_back)+, rule ow | simp add: same_payment_def)+
qed simp

section \<open>Bills\<close>

lemma on_books_bill_outcome:
  "on_books a s \<Longrightarrow> on_books b s \<Longrightarrow> on_books c s \<Longrightarrow>
    on_books (case v of BO_SUCCESSFUL \<Rightarrow> a | BO_FAILED \<Rightarrow> b | BO_REQUERY \<Rightarrow> c) s"
  by (cases v) simp_all

lemma pay_step_remember [simp]: "pay_step s (rememberRecipient t now s)"
  by (auto simp: rememberRecipient_def split: option.splits)

lemma on_books_markSuccessful:
  assumes "owed t s"
  shows "on_books (updM (markSuccessful q t r now)) s"
proof (rule bk.stepwise_updM)
  assume ok: "ledger_ok s"
  let ?bill = "map_option (with_tokens r) (t_bill t)"
  let ?s1 = "update_txn (t_id t) (\<lambda>x. x\<lparr>t_status := SUCCESSFUL, t_verifiedAt := Some now,
               t_bill := (if ?bill = None then t_bill x else ?bill)\<rparr>) s"
  have 1: "pay_step\<^sup>*\<^sup>* s ?s1"
    by (rule r_into_rtranclp [where r = pay_step], rule owed_update_row [OF assms ok])
      (simp add: same_payment_def)
  have 2: "pay_step a (notifyTransaction u e b a)" "pay_step a (if c then enqueue j n a else a)"
    "pay_step a (rememberRecipient t now a)" for a u e b c j n by simp_all
  show "pay_step\<^sup>*\<^sup>* s (markSuccessful q t r now s)"
    unfolding markSuccessful_def Let_def
    by (rule rtranclp.rtrancl_into_rtrancl [OF rtranclp.rtrancl_into_rtrancl
          [OF rtranclp.rtrancl_into_rtrancl [OF 1 2(1)] 2(2)] 2(3)])
qed

lemma on_books_apply_bill:
  assumes "owed t s"
  shows "on_books (applyBillResult bv q t r now) s"
  unfolding applyBillResult_def Let_def
  by (intro on_books_bill_outcome on_books_debit on_books_markSuccessful)
    ((erule (1) owed_back)+, rule assms | simp add: same_payment_def assms)+

lemma on_books_prepare_bill: "on_books (prepare_bill env u dto) s"
  unfolding prepare_bill_def Let_def
  by (intro bk.stepwise_bindM bk.stepwise_pure bk.stepwise_same snd_generateReference)

lemma bill_amount_pos:
  assumes "bill_amount dec item raw = Inr a"
  shows "0 < a" "(\<And>x. bi_amount item = Some x \<Longrightarrow> fits 4 x) \<Longrightarrow> decimals_ok dec \<Longrightarrow> fits 4 a"
  using assms
  by (auto simp: bill_amount_def payout_amount_def parseAmount_def Let_def decimals_ok_def
      split: option.splits sum.splits if_splits)

lemma debit_bill_owed:
  assumes "debit_bill e w ad key a fee caps ref bill now s = (Inr t, s')" and "0 < a"
  shows "owed t s'"
  using assms by (rule debit_bill_InrD) (auto simp: owed_def)

text \<open>What the bill provider's catalogue and the configured fee may hold: amounts of money.\<close>

definition catalogue_ok :: "bills_env \<Rightarrow> bool" where
  "catalogue_ok env \<longleftrightarrow>
    decimals_ok (be_dec env) \<and> 0 \<le> be_serviceFee env \<and> fits 4 (be_serviceFee env) \<and>
    (\<forall>k b f. resolveBiller (be_bills env) (be_cachedBillers env) k = Inr b \<longrightarrow>
       pb_convenienceFee b = Some f \<longrightarrow> 0 \<le> f \<and> fits 4 f) \<and>
    (\<forall>k items. bv_listItems (be_bills env) k = Inr items \<longrightarrow>
       (\<forall>i \<in> set items. \<forall>a. bi_amount i = Some a \<longrightarrow> fits 4 a))"

lemma bf_total_fits:
  "fits 4 cfg \<Longrightarrow> (\<And>f. pb_convenienceFee b = Some f \<Longrightarrow> fits 4 f) \<Longrightarrow>
    fits 4 (bf_total (calculateBillFees b cfg))"
  by (auto simp: calculateBillFees_def Let_def intro!: fits_add split: option.splits)

lemma find_SomeD: "List.find P xs = Some x \<Longrightarrow> x \<in> set xs"
  by (auto simp: find_Some_iff)

lemma prepare_bill_plan:
  assumes "prepare_bill env u dto s = (Inr plan, s')"
  shows "\<exists>item items. bill_amount (be_dec env) item (pd_amount dto) = Inr (bl_amount plan) \<and>
    bv_listItems (be_bills env) (pd_biller dto) = Inr items \<and> item \<in> set items \<and>
    resolveBiller (be_bills env) (be_cachedBillers env) (pd_biller dto) = Inr (bl_biller plan) \<and>
    bl_fee plan = bf_total (calculateBillFees (bl_biller plan) (be_serviceFee env)) \<and>
    assertBillerRules (bl_biller plan) item (bl_amount plan) (bl_phone plan) = Inr () \<and>
    bl_item plan = item"
  using assms unfolding prepare_bill_def Let_def
  by (elim bindM_InrE) (clarsimp split del: if_split dest!: find_SomeD)

lemma prepare_bill_money:
  assumes "prepare_bill env u dto s = (Inr plan, s')" and "catalogue_ok env"
  shows "0 < bl_amount plan" "fits 4 (bl_amount plan)" "0 \<le> bl_fee plan" "fits 4 (bl_fee plan)"
proof -
  from prepare_bill_plan [OF assms(1)] obtain item items where
    p: "bill_amount (be_dec env) item (pd_amount dto) = Inr (bl_amount plan)"
      "bv_listItems (be_bills env) (pd_biller dto) = Inr items" "item \<in> set items"
      "resolveBiller (be_bills env) (be_cachedBillers env) (pd_biller dto) = Inr (bl_biller plan)"
      "bl_fee plan = bf_total (calculateBillFees (bl_biller plan) (be_serviceFee env))" by blast
  note c = assms(2) [unfolded catalogue_ok_def]
  show "0 < bl_amount plan" by (rule bill_amount_pos(1) [OF p(1)])
  show "fits 4 (bl_amount plan)" by (rule bill_amount_pos(2) [OF p(1)]) (use c p(2,3) in blast)+
  show "0 \<le> bl_fee plan" unfolding p(5) by (rule bf_total_nonneg) (use c p(4) in blast)+
  show "fits 4 (bl_fee plan)" unfolding p(5) by (rule bf_total_fits) (use c p(4) in blast)+
qed

lemma on_books_execute_bill:
  assumes "0 < bl_amount plan" and "fits 4 (bl_amount plan)" "0 \<le> bl_fee plan" "fits 4 (bl_fee plan)"
    and "on_steps (be_during env)"
  shows "on_books (execute_bill env dto plan) s"
  unfolding execute_bill_def
proof (rule bk.stepwise_bindM, goal_cases)
  case 1
  show ?case
    by (rule bk.stepwise_atomic, rule pay_step.debit_for_bill [OF surjective_pairing assms(1-4)])
next
  case (2 t s1)
  from debit_bill_owed [OF 2(1) assms(1)] show ?case
    by (intro bk.stepwise_bindM bk.stepwise_pure on_books_quiet on_books_others assms(5) on_books_apply_bill)
      (blast intro: owed_steps)
qed

lemma on_books_payBill:
  assumes "catalogue_ok env" and "on_steps (be_others env)" and "on_steps (be_during env)"
  shows "on_books (payBill env u dto) s"
  unfolding payBill_def
proof (rule bk.stepwise_bindM [OF on_books_prepare_bill], goal_cases)
  case (1 plan s1)
  from prepare_bill_money [OF 1(1) assms(1)] assms show ?case
    by (intro bk.stepwise_bindM on_books_others on_books_execute_bill)
qed

text \<open>The polling jobs of bills.\<close>

lemma on_books_sync_bill:
  assumes "on_steps others" and "\<And>t. find_txn tid s = Some t \<Longrightarrow> t_type t = DEBIT"
  shows "on_books (syncBillStatus bv q others tid now) s"
  unfolding syncBillStatus_def stepwise_read
proof (rule bk.stepwise_option, goal_cases)
  case (2 t)
  have id: "t_id t = tid" using find_txn_id [OF 2] by simp
  have ow: "owed t s" by (rule owed_find [OF 2 assms(2) [OF 2]])
  show ?case
    unfolding id [symmetric]
    by (intro bk.stepwise_if on_books_bill_outcome on_books_debit on_books_markSuccessful
        on_books_others assms(1))
      ((erule (1) owed_back)+, rule ow | simp add: same_payment_def)+
qed simp

lemma on_books_annotate:
  assumes "\<And>x. same_payment x (f x)" and "\<And>x. t_status (f x) = t_status x"
  shows "on_books (updM (update_txn tid f)) s"
  by (rule bk.stepwise_updM_step, rule pay_step.update_row) (simp_all add: assms)

lemma on_books_fetchToken: "on_books (fetchTokenAndSendReceipt bv tid) s"
  unfolding fetchTokenAndSendReceipt_def stepwise_read Let_def
  by (intro bk.stepwise_option bk.stepwise_if bk.stepwise_bindM bk.stepwise_pure on_books_quiet
      on_books_annotate) (simp_all add: same_payment_def)

lemma on_books_sendReceipt: "on_books (sendReceiptWithoutToken tid) s"
  unfolding sendReceiptWithoutToken_def stepwise_read
  by (intro bk.stepwise_option bk.stepwise_if bk.stepwise_bindM bk.stepwise_pure on_books_quiet)

section \<open>Deposits\<close>

lemma on_books_recordPayin:
  assumes "0 \<le> pi_amount inp"
  shows "on_books (recordPayin q inp now) s"
  unfolding recordPayin_def stepwise_read
  by (intro bk.stepwise_option bk.stepwise_if bk.stepwise_bindM bk.stepwise_pure on_books_quiet
      bk.stepwise_atomic pay_step.deposit [OF surjective_pairing assms])

lemma on_books_process_deposit: "on_books (process_deposit (\<lambda>x. x) tid now) s"
  by (rule bk.stepwise_atomic, rule pay_step.credit_deposit [OF surjective_pairing])

text \<open>The last attempt failed: the deposit is not credited, so it is not SUCCESSFUL.\<close>

lemma on_books_deposit_failed:
  assumes "\<And>t. find_txn tid s = Some t \<Longrightarrow> t_status t \<noteq> SUCCESSFUL"
  shows "on_books (handle_deposit_failed tid a m now) s"
proof -
  have 1: "pay_step x (case find_txn tid s of None \<Rightarrow> x | Some t \<Rightarrow> alertTransaction t x)" for x
    by (cases "find_txn tid s") simp_all
  let ?f = "\<lambda>r. r\<lparr>t_status := FAILED, t_verifiedAt := Some now\<rparr>"
  have 2: "pay_step x (update_txn tid ?f x)" if "txns x = txns s" "ledger_ok x" for x
  proof (rule pay_step.update_row)
    fix r assume "r \<in> set (txns x)" "t_id r = tid"
    then have "find_txn tid s = Some r"
      using find_row_by_key [OF ledger_ok_rows [OF that(2)]] that(1) by (fastforce simp: find_txn_def)
    then show "t_type r = DEBIT \<or> (t_status (?f r) = SUCCESSFUL) = (t_status r = SUCCESSFUL)"
      using assms by simp
  qed (simp add: same_payment_def)
  show ?thesis
    unfolding handle_deposit_failed_def stepwise_read
    by (intro bk.stepwise_if bk.stepwise_pure bk.stepwise_bindM bk.stepwise_updM_step pay_step_quiet 1 2)
      (auto split: option.splits)
qed

lemma on_books_insert_hook: "on_books (insert_hook dto) s"
  by (rule bk.stepwise_atomic, rule quiet_step) (simp_all add: insert_hook_def Let_def)

lemma tsq_amount_nonneg:
  assumes "tsq_amount dec tsq = Inr (Some a)" and "\<And>x a. dec x = Some a \<Longrightarrow> 0 \<le> a"
  shows "0 \<le> a"
  using assms(1)
  by (auto simp: tsq_amount_def parseAmount_def Let_def split: if_splits option.splits sum.splits
      intro: assms(2))

lemma mismatches_Nil: "mismatches dto tsq claimed confirmed = [] \<Longrightarrow> confirmed = Some claimed"
  by (auto simp: mismatches_def Let_def split: if_splits)

lemma on_books_webhook:
  assumes "\<And>x a. dec x = Some a \<Longrightarrow> 0 \<le> a"
  shows "on_books (inwardCredit dec pd rg q configured header dto now) s"
  unfolding inwardCredit_def handleVfdInwardCredit_def Let_def
  by (intro bk.stepwise_bindM bk.stepwise_pure bk.stepwise_if on_books_insert_hook on_books_quiet
      on_books_recordPayin)
    (auto dest!: mismatches_Nil tsq_amount_nonneg [OF _ assms])

section \<open>The console\<close>

lemma on_books_posting:
  assumes "decimals_ok dec" and "on_steps others"
  shows "on_books (post_adjustment dec others dto now) s"
  unfolding post_adjustment_def
proof (intro bk.stepwise_bindM bk.stepwise_pure, goal_cases)
  case (1 a s1 u s2 v s3)
  then have a: "0 < a" "fits 4 a"
    using assms(1) by (auto simp: decimals_ok_def parseAmount_def split: option.splits)
  show ?case
    by (intro bk.stepwise_option bk.stepwise_pure bk.stepwise_bindM on_books_others assms(2)
        bk.stepwise_catchM bk.stepwise_if on_books_quiet bk.stepwise_atomic
        pay_step.posting [OF surjective_pairing a])
qed

lemma on_books_assign: "on_books (assign_unmatched tid dto stamp now) s"
proof -
  have "on_books (assign_in_tx tid dto stamp now) s"
    by (rule bk.stepwise_atomic, rule pay_step.assignment [OF surjective_pairing])
  then show ?thesis
    unfolding assign_unmatched_def
    by (rule bk.stepwise_bindM)
      (auto intro!: bk.stepwise_bindM bk.stepwise_whenM split: prod.splits)
qed

lemma on_books_requery:
  assumes "on_steps others"
  shows "on_books (requery rg others tid now) s"
  unfolding requery_def stepwise_read
  by (intro bk.stepwise_bindM bk.stepwise_pure bk.stepwise_catchM on_books_find_or_fail
      on_books_sync_payout assms) auto

section \<open>Accounts\<close>

lemma on_books_insert_address: "on_books (insertActiveAddress w acc now) s"
proof -
  have "on_books (insert_address w acc now) s"
    by (rule bk.stepwise_atomic, rule quiet_step) (simp_all add: insert_address_def Let_def)
  then show ?thesis
    unfolding insertActiveAddress_def
    by (rule bk.stepwise_catchM) (auto intro!: bk.stepwise_bindM)
qed

lemma on_books_getOrCreateWallet:
  assumes "on_steps others"
  shows "on_books (getOrCreateWallet others u c) s"
  unfolding getOrCreateWallet_def stepwise_read
  by (intro bk.stepwise_option bk.stepwise_pure bk.stepwise_bindM on_books_others assms
      bk.stepwise_catchM bk.stepwise_atomic pay_step.new_wallet [OF surjective_pairing])

lemma on_books_provision:
  assumes "on_steps others"
  shows "on_books (process_provisioning rg others u c msg now) s"
  unfolding process_provisioning_def provisionAddress_def
  by (intro bk.stepwise_catchM bk.stepwise_option bk.stepwise_pure bk.stepwise_bindM on_books_others assms
      on_books_getOrCreateWallet on_steps_id on_books_insert_address)

section \<open>The service\<close>

text \<open>
  One entry per message, request, job and console action that changes the database, each under
  what the code relies on: amounts of at most four decimals (the bodies' validation and the
  provider's catalogue), deposits that are not negative, jobs about debits enqueued by
  debits, and a deposit's last failure while it is not yet SUCCESSFUL.  What runs in the middle of
  one (\<open>others\<close>, \<open>during\<close>) is any sequence of steps, so any other requests.
\<close>

inductive served :: "pay_state \<Rightarrow> pay_state \<Rightarrow> bool" where
  provisioning: "process_provisioning rg others u c msg now s = (r1, s') \<Longrightarrow> on_steps others \<Longrightarrow>
    served s s'"
| webhook: "inwardCredit dec pd rg q configured header dto now s = (r2, s') \<Longrightarrow>
    (\<And>x a. dec x = Some a \<Longrightarrow> 0 \<le> a) \<Longrightarrow> served s s'"
| deposit_job: "process_deposit (\<lambda>x. x) tid now s = (r3, s') \<Longrightarrow> served s s'"
| deposit_gave_up: "handle_deposit_failed tid a m now s = (r4, s') \<Longrightarrow>
    (\<And>t. find_txn tid s = Some t \<Longrightarrow> t_status t \<noteq> SUCCESSFUL) \<Longrightarrow> served s s'"
| payout: "initiatePayout pe u po s = (r5, s') \<Longrightarrow> decimals_ok (pe_dec pe) \<Longrightarrow>
    on_steps (pe_others pe) \<Longrightarrow> on_steps (pe_during pe) \<Longrightarrow> served s s'"
| payout_job: "syncPayoutStatus rg others tid now s = (r6, s') \<Longrightarrow> on_steps others \<Longrightarrow>
    (\<And>t. find_txn tid s = Some t \<Longrightarrow> t_type t = DEBIT) \<Longrightarrow> served s s'"
| bill: "payBill be u pb s = (r7, s') \<Longrightarrow> catalogue_ok be \<Longrightarrow>
    on_steps (be_others be) \<Longrightarrow> on_steps (be_during be) \<Longrightarrow> served s s'"
| bill_job: "syncBillStatus bv q others tid now s = (r8, s') \<Longrightarrow> on_steps others \<Longrightarrow>
    (\<And>t. find_txn tid s = Some t \<Longrightarrow> t_type t = DEBIT) \<Longrightarrow> served s s'"
| token_job: "fetchTokenAndSendReceipt bv tid s = (r9, s') \<Longrightarrow> served s s'"
| token_gave_up: "sendReceiptWithoutToken tid s = (r10, s') \<Longrightarrow> served s s'"
| manual_posting: "post_adjustment dec others pg now s = (r11, s') \<Longrightarrow> decimals_ok dec \<Longrightarrow>
    on_steps others \<Longrightarrow> served s s'"
| assigned_deposit: "assign_unmatched tid asg stamp now s = (r12, s') \<Longrightarrow> served s s'"
| console_requery: "requery rg others tid now s = (r13, s') \<Longrightarrow> on_steps others \<Longrightarrow> served s s'"

lemma on_books_run: "on_books m s \<Longrightarrow> m s = (r, s') \<Longrightarrow> ledger_ok s \<Longrightarrow> pay_step\<^sup>*\<^sup>* s s'"
  by (simp add: stepwise_def)

lemma served_steps: "served s s' \<Longrightarrow> ledger_ok s \<Longrightarrow> pay_step\<^sup>*\<^sup>* s s'"
proof (induction rule: served.induct)
  case (provisioning rg others u c msg now s r1 s')
  show ?case by (rule on_books_run [OF on_books_provision provisioning(1,3)], rule provisioning(2))
next
  case (webhook dec pd rg q configured header dto now s r2 s')
  show ?case by (rule on_books_run [OF on_books_webhook webhook(1,3)], rule webhook(2))
next
  case (deposit_job tid now s r3 s')
  show ?case by (rule on_books_run [OF on_books_process_deposit deposit_job])
next
  case (deposit_gave_up tid a m now s r4 s')
  show ?case by (rule on_books_run [OF on_books_deposit_failed deposit_gave_up(1,3)], rule deposit_gave_up(2))
next
  case (payout pe u po s r5 s')
  show ?case by (rule on_books_run [OF on_books_initiatePayout payout(1,5)]; rule payout(2-4))
next
  case (payout_job rg others tid now s r6 s')
  show ?case by (rule on_books_run [OF on_books_sync_payout payout_job(1,4)]; rule payout_job(2,3))
next
  case (bill be u pb s r7 s')
  show ?case by (rule on_books_run [OF on_books_payBill bill(1,5)]; rule bill(2-4))
next
  case (bill_job bv q others tid now s r8 s')
  show ?case by (rule on_books_run [OF on_books_sync_bill bill_job(1,4)]; rule bill_job(2,3))
next
  case (token_job bv tid s r9 s')
  show ?case by (rule on_books_run [OF on_books_fetchToken token_job])
next
  case (token_gave_up tid s r10 s')
  show ?case by (rule on_books_run [OF on_books_sendReceipt token_gave_up])
next
  case (manual_posting dec others pg now s r11 s')
  show ?case by (rule on_books_run [OF on_books_posting manual_posting(1,4)]; rule manual_posting(2,3))
next
  case (assigned_deposit tid asg stamp now s r12 s')
  show ?case by (rule on_books_run [OF on_books_assign assigned_deposit])
next
  case (console_requery rg others tid now s r13 s')
  show ?case by (rule on_books_run [OF on_books_requery console_requery(1,3)], rule console_requery(2))
qed

interpretation service: step_system served ledger_ok
  by unfold_locales (rule bk.steps_keep [OF served_steps])

definition empty_pay :: pay_state where
  "empty_pay =
    \<lparr>wallets = [], addresses = [], txns = [], beneficiaries = [], hooks = [], bill_bens = [],
     free_payouts = None, jobs = [], outbox = [], next_id = 10\<rparr>"

lemma empty_pay_simps [simp]:
  "wallets empty_pay = []" "txns empty_pay = []" "addresses empty_pay = []" "next_id empty_pay = 10"
  by (simp_all add: empty_pay_def)

lemma ledger_ok_empty: "ledger_ok empty_pay"
  by (simp add: ledger_ok_def wallets_ok_def rows_ok_def)

lemma service_ok: "served\<^sup>*\<^sup>* empty_pay s \<Longrightarrow> ledger_ok s"
  by (rule service.steps_keep [OF _ ledger_ok_empty])

section \<open>Properties of the service\<close>


text \<open>A customer is provisioned while the provider is down, then credited 500 by staff.\<close>

definition sample_msg :: applicant where
  "sample_msg = \<lparr>ap_bvn = ''22'', ap_dateOfBirth = ''1990-01-01'', ap_firstName = ''A'', ap_lastName = ''B''\<rparr>"

definition sample_posting :: posting_dto where
  "sample_posting = \<lparr>pg_walletId = 10, pg_type = CREDIT, pg_amount = ''500'', pg_reference = ''ADJ1'',
     pg_narration = ''correction'', pg_meta = []\<rparr>"

definition after_sample :: pay_state where
  "after_sample = snd (post_adjustment (\<lambda>_. Some 500) (\<lambda>x. x) sample_posting 9
     (snd (process_provisioning (sample_registry sample_tsq) (\<lambda>x. x) 7 NGN sample_msg 5 empty_pay)))"

lemma after_sample_reached: "served\<^sup>*\<^sup>* empty_pay after_sample"
proof -
  have 1: "served empty_pay
      (snd (process_provisioning (sample_registry sample_tsq) (\<lambda>x. x) 7 NGN sample_msg 5 empty_pay))"
    by (rule served.provisioning [OF surjective_pairing]) simp
  have 2: "served s (snd (post_adjustment (\<lambda>_. Some 500) (\<lambda>x. x) sample_posting 9 s))" for s
    by (rule served.manual_posting [OF surjective_pairing])
      (use fits_of_int [of 4 500] in \<open>simp_all add: decimals_ok_def\<close>)
  show ?thesis
    unfolding after_sample_def
    by (rule rtranclp.rtrancl_into_rtrancl [OF r_into_rtranclp [where r = served, OF 1] 2])
qed

definition sample_new_wallet :: wallet where
  "sample_new_wallet = \<lparr>w_id = 10, w_userId = 7, w_currency = NGN, w_balance = 0\<rparr>"

definition provisioned :: pay_state where
  "provisioned = empty_pay\<lparr>wallets := [sample_new_wallet], next_id := 11\<rparr>"

lemma provisioned_simps [simp]:
  "wallets provisioned = [sample_new_wallet]" "txns provisioned = []" "addresses provisioned = []"
  "next_id provisioned = 11" "w_id sample_new_wallet = 10" "w_balance sample_new_wallet = 0"
  by (simp_all add: provisioned_def sample_new_wallet_def)

lemma after_provisioning:
  "process_provisioning (sample_registry sample_tsq) (\<lambda>x. x) 7 NGN sample_msg 5 empty_pay =
    (Inr DeadLetter, provisioned)"
proof -
  have "insert_wallet 7 NGN empty_pay = (Inr sample_new_wallet, provisioned)"
    by (simp add: insert_wallet_def findByUserAndCurrency_def Let_def insert_row_def provisioned_def
        sample_new_wallet_def)
  then have "getOrCreateWallet (\<lambda>x. x) 7 NGN empty_pay = (Inr sample_new_wallet, provisioned)"
    by (simp add: getOrCreateWallet_def bindM_def catchM_def findByUserAndCurrency_def)
  moreover have "findActiveForWallet 10 provisioned = None" by (simp add: findActiveForWallet_def)
  ultimately have "provisionAddress (Inl e) (\<lambda>x. x) 7 NGN 5 empty_pay = (Inl e, provisioned)" for e
    by (simp add: provisionAddress_def bindM_def)
  moreover have "(case getProviderForCurrency (sample_registry sample_tsq) NGN of
      Inl e \<Rightarrow> Inl e | Inr p \<Rightarrow> pp_createAccount p sample_msg) = Inl (PlainError ''unused'')"
    by (simp add: getProviderForCurrency_def sample_registry_def sample_provider_def)
  ultimately show ?thesis
    unfolding process_provisioning_def by (simp only: bindM_def catchM_def prod.case sum.case retM_eq)
qed

lemma sample_posting_simps [simp]:
  "pg_walletId sample_posting = 10" "pg_type sample_posting = CREDIT"
  "pg_reference sample_posting = ''ADJ1''" "parseAmount (\<lambda>_. Some a) (pg_amount sample_posting) = Inr a"
  by (simp_all add: sample_posting_def parseAmount_def)

lemma after_sample_state:
  "wallets after_sample = [\<lparr>w_id = 10, w_userId = 7, w_currency = NGN, w_balance = 500\<rparr>]"
  "map t_reference (txns after_sample) = [''ADJ1'']"
proof -
  have none: "findExisting ''ADJ1'' provisioned = None" by (simp add: findExisting_def)
  have w: "find_wallet 10 provisioned = Some sample_new_wallet" by (simp add: find_wallet_def)
  have b: "posting_balance sample_posting 500 sample_new_wallet = 500"
    by (simp add: posting_balance_def to_fixed_fits)
  let ?t = "posted_row sample_posting 500 9 sample_new_wallet provisioned"
  have "post_adjustment (\<lambda>_. Some 500) (\<lambda>x. x) sample_posting 9 provisioned =
    (Inr (posting_view_of False ?t), notifyTransaction (Some ?t) ACCOUNT_CREDITED True
      ((set_balance 10 500 provisioned)\<lparr>txns := insert_row ?t [], next_id := 12\<rparr>))"
    using none w b by (subst post_adjustment_eq [where a = 500]) (simp_all add: apply_posting_eq Let_def)
  then have after: "after_sample = notifyTransaction (Some ?t) ACCOUNT_CREDITED True
      ((set_balance 10 500 provisioned)\<lparr>txns := insert_row ?t [], next_id := 12\<rparr>)"
    unfolding after_sample_def after_provisioning by simp
  show "wallets after_sample = [\<lparr>w_id = 10, w_userId = 7, w_currency = NGN, w_balance = 500\<rparr>]"
    unfolding after by (simp add: set_balance_def update_wallet_def sample_new_wallet_def)
  show "map t_reference (txns after_sample) = [''ADJ1'']"
    unfolding after by (simp add: insert_row_def posted_row_def)
qed




end
