(* ===== verification/BillProps.thy ===== *)
theory BillProps
  imports Requests
begin

text \<open>The properties of bill payments.\<close>

section \<open>A bill is asked for once, after its debit\<close>

lemma recordSuccess_simps [simp]:
  "txns (recordSuccess u b a now s) = txns s" "outbox (recordSuccess u b a now s) = outbox s"
  "wallets (recordSuccess u b a now s) = wallets s" "jobs (recordSuccess u b a now s) = jobs s"
  by (simp_all add: recordSuccess_def split: option.splits)

lemma rememberRecipient_simps [simp]:
  "txns (rememberRecipient t now s) = txns s" "outbox (rememberRecipient t now s) = outbox s"
  "wallets (rememberRecipient t now s) = wallets s" "jobs (rememberRecipient t now s) = jobs s"
  by (simp_all add: rememberRecipient_def split: option.splits)

lemma keeps_payments_markSuccessful [intro]: "keeps_payments (updM (markSuccessful q t r now))"
proof (rule keeps_payments_updM)
  fix s
  let ?bill = "map_option (with_tokens r) (t_bill t)"
  have "rows_kept s (markSuccessful q t r now s)"
    by (rule rows_kept_update [where P = "by_key t_id (t_id t)" and f = "\<lambda>x. x\<lparr>t_status := SUCCESSFUL,
          t_verifiedAt := Some now, t_bill := (if ?bill = None then t_bill x else ?bill)\<rparr>"])
      (simp_all add: markSuccessful_def Let_def same_payment_def)
  then show "rows_kept s (markSuccessful q t r now s) \<and>
      provider_requests (markSuccessful q t r now s) = provider_requests s"
    by (simp add: provider_requests_def markSuccessful_def Let_def outbox_notify split: option.splits)
qed

lemma keeps_payments_reverse_bill [intro]: "keeps_payments (reverseFailedBill (\<lambda>x. x) tid now)"
  unfolding reverseFailedBill_def
  by (intro keeps_payments_rules keeps_payments_transactions) 

lemma keeps_payments_outcome:
  "keeps_payments a \<Longrightarrow> keeps_payments b \<Longrightarrow> keeps_payments c \<Longrightarrow>
    keeps_payments (case v of BO_SUCCESSFUL \<Rightarrow> a | BO_FAILED \<Rightarrow> b | BO_REQUERY \<Rightarrow> c)"
  by (cases v) simp_all

lemma keeps_payments_apply_bill: "keeps_payments (applyBillResult bv q t r now)"
  unfolding applyBillResult_def find_or_fail_def Let_def
  by (intro keeps_payments_outcome keeps_payments_markSuccessful keeps_payments_reverse_bill
      keeps_payments_rules) (simp add: same_payment_def)

lemma quiet_prepare_bill: "quiet (prepare_bill env u dto)"
  unfolding prepare_bill_def Let_def by (intro quiet_bindM quiet_simps quiet_reference)

definition requested_bill :: "money \<Rightarrow> money \<Rightarrow> pay_state \<Rightarrow> pay_state \<Rightarrow> bool" where
  "requested_bill a fee s s' \<longleftrightarrow>
    (\<exists>t \<in> set (txns s'). t_type t = DEBIT \<and> t_kind t = BILL_PAYMENT \<and> t_amount t = a \<and>
       t_fee t = Some fee \<and>
       provider_requests s' = provider_requests s @ [BillRequest (t_reference t) a] \<and>
       \<not> reference_taken (t_provider t) (t_reference t) s)"

lemma requested_bill_same_money:
  "same_money s s1 \<Longrightarrow> requested_bill a fee s1 s' = requested_bill a fee s s'"
  by (simp add: requested_bill_def same_money_def provider_requests_def reference_taken_def)

lemma requested_bill_mono:
  assumes "requested_bill a fee s s1" and "rows_kept s1 s'" and "provider_requests s' = provider_requests s1"
  shows "requested_bill a fee s s'"
  using assms unfolding requested_bill_def rows_kept_def same_payment_def by metis

lemma debit_bill_requests:
  assumes "debit_bill e w ad key a fee caps ref bill now s = (Inr t, s')" and "0 < a" and "fits 4 a"
    and "fits 4 fee"
  shows "requested_bill a fee s (emit (BillRequest ref a) s')"
  using assms(1,2)
proof (rule debit_bill_InrD, goal_cases)
  case (1 w0 b p)
  then show ?case
    unfolding requested_bill_def using assms(3,4)
    by (intro bexI [of _ t]) (simp_all add: provider_requests_def reference_taken_def to_fixed_fits)
qed

lemma execute_bill_requests:
  assumes "execute_bill env dto plan s = (r, s')" and "be_during env = (\<lambda>x. x)"
    and "0 < bl_amount plan" and "fits 4 (bl_amount plan)" and "fits 4 (bl_fee plan)"
  shows "same_money s s' \<or> requested_bill (bl_amount plan) (bl_fee plan) s s'"
proof -
  define m where "m = debit_bill (be_enforceCaps env) (bl_wallet plan) (bl_address plan)
             (case getProviderForCurrency (be_registry env) NGN of
                Inl e \<Rightarrow> Inl e | Inr p \<Rightarrow> Inr (pp_key p))
             (bl_amount plan) (bl_fee plan) (bl_caps plan) (bl_reference plan)
             (bill_details_of (bl_biller plan) (bl_item plan) (pd_customerId dto) (bl_holder plan))
             (be_now env)"
  obtain dr s2 where d: "m s = (dr, s2)" by force
  show ?thesis
  proof (cases dr)
    case (Inl e)
    then have "s2 = s" using d txM_Inl unfolding m_def debit_bill_def by metis
    then show ?thesis using assms(1) d Inl by (auto simp: execute_bill_def bindM_def m_def [symmetric])
  next
    case (Inr t)
    let ?s3 = "emit (BillRequest (bl_reference plan) (bl_amount plan)) s2"
    have "rows_kept ?s3 s' \<and> provider_requests s' = provider_requests ?s3"
      using assms(1,2) d Inr keeps_payments_apply_bill [of "be_bills env" "be_queue_ok env" t _ "be_now env"]
      by (auto simp: execute_bill_def bindM_def keeps_payments_def m_def [symmetric] split: sum.splits prod.splits)
        (metis snd_conv)+
    then show ?thesis
      using requested_bill_mono debit_bill_requests [OF d [unfolded Inr m_def] assms(3-5)] by blast
  qed
qed


text \<open>A concrete payment: 200 of airtime.\<close>

definition sample_biller :: provider_biller where
  "sample_biller = \<lparr>pb_id = ''mtn'', pb_name = ''MTN'', pb_division = ''A'', pb_product = ''B'',
     pb_category = ''Airtime'', pb_convenienceFee = None\<rparr>"

definition sample_item :: bill_item where
  "sample_item = \<lparr>bi_paymentCode = ''P9'', bi_name = ''VTU'', bi_amount = None, bi_isAmountFixed = False,
     bi_productId = None, bi_division = None\<rparr>"

definition sample_bill_ok :: bill_result where
  "sample_bill_ok = \<lparr>br_outcome = BO_SUCCESSFUL, br_providerStatusCode = Some ''00'', br_token = None,
     br_extraTokens = [], br_details = None, br_rawPayload = None\<rparr>"

definition sample_bills :: bills_provider where
  "sample_bills = \<lparr>bv_listCategories = Inr [], bv_listBillers = (\<lambda>_. Inr [sample_biller]),
     bv_listItems = (\<lambda>_. Inr [sample_item]),
     bv_validateCustomer = (\<lambda>_ _ _. Inl (PlainError ''unused'')),
     bv_payBill = (\<lambda>_. Inr sample_bill_ok), bv_queryStatus = (\<lambda>_. Inr sample_bill_ok)\<rparr>"

definition sample_bill_env :: bills_env where
  "sample_bill_env = \<lparr>be_dec = (\<lambda>_. Some 200), be_internalKey = ''k'',
     be_pinReply = (\<lambda>_ _. Reply 200 \<lparr>pb_transferLimit = None, pb_caps = None\<rparr>),
     be_registry = sample_registry sample_ok, be_bills = sample_bills, be_cachedBillers = (\<lambda>_. None),
     be_walletName = ''FIAM'', be_serviceFee = 100, be_phoneLookup = (\<lambda>_. None), be_random = (\<lambda>_. 1),
     be_enforceCaps = True, be_queue_ok = True, be_others = (\<lambda>s. s), be_during = (\<lambda>s. s), be_now = 50\<rparr>"

definition sample_bill_dto :: pay_bill_dto where
  "sample_bill_dto = \<lparr>pd_pin = ''1234'', pd_biller = (''mtn'', ''A'', ''B''), pd_paymentItem = ''P9'',
     pd_customerId = ''0803'', pd_amount = Some ''200'', pd_phoneNumber = Some ''0803''\<rparr>"

lemma sample_bill_simps [simp]:
  "be_dec sample_bill_env = (\<lambda>_. Some 200)" "be_bills sample_bill_env = sample_bills"
  "be_cachedBillers sample_bill_env = (\<lambda>_. None)" "be_serviceFee sample_bill_env = 100"
  "be_registry sample_bill_env = sample_registry sample_ok" "be_others sample_bill_env = (\<lambda>s. s)"
  "be_during sample_bill_env = (\<lambda>s. s)" "be_enforceCaps sample_bill_env = True" "be_now sample_bill_env = 50"
  "be_queue_ok sample_bill_env = True" "be_random sample_bill_env = (\<lambda>_. 1)"
  "bv_listItems sample_bills k = Inr [sample_item]" "bi_amount sample_item = None"
  "bi_isAmountFixed sample_item = False" "pb_convenienceFee sample_biller = None"
  "bi_paymentCode sample_item = ''P9''" "pd_biller sample_bill_dto = (''mtn'', ''A'', ''B'')"
  "pd_paymentItem sample_bill_dto = ''P9''" "pd_amount sample_bill_dto = Some ''200''"
  "bv_payBill sample_bills x = Inr sample_bill_ok" "pd_phoneNumber sample_bill_dto = Some ''0803''"
  by (simp_all add: sample_bill_env_def sample_bills_def sample_item_def sample_biller_def sample_bill_dto_def)

lemma sample_resolve:
  "resolveBiller sample_bills (\<lambda>_. None) k =
    (if k = (''mtn'', ''A'', ''B'') then Inr sample_biller else Inl (BadRequest ''Unknown biller''))"
  by (auto simp: resolveBiller_def listBillers_def cached_list_def sample_bills_def sample_biller_def)

lemma sample_catalogue: "catalogue_ok sample_bill_env"
  by (auto simp: catalogue_ok_def decimals_ok_def sample_resolve split: if_splits)

lemma sample_not_electric:
  "biller_matches is_ikedc sample_biller = False" "biller_matches is_ibedc sample_biller = False"
  by code_simp+

lemma sample_rules: "assertBillerRules sample_biller sample_item 200 (Some ''0803'') = Inr ()"
  by (simp add: assertBillerRules_def sample_not_electric)

lemma sample_pin: "pin_assertValid (be_internalKey sample_bill_env)
    (be_pinReply sample_bill_env 7 (pd_pin sample_bill_dto)) = Inr (None, None)"
  by (simp add: sample_bill_env_def pin_assertValid_def http_ok_def)

lemma sample_text:
  "js_trim ''0803'' = ''0803''" "pb_category sample_biller = ''Airtime''" "to_lower ''Airtime'' = ''airtime''"
  "billTypeFromCategory ''Airtime'' = AIRTIME"
  by code_simp+

lemma sample_trim: "trimmed_nonempty (Some ''0803'')"
  by (simp add: trimmed_nonempty_def sample_text)

lemma sample_holder: "bill_holder sample_bills sample_biller sample_bill_dto = Inr (None, None)"
  by (simp add: bill_holder_def sample_text VALIDATION_REQUIRED_CATEGORIES_def)

lemma sample_bill_fee: "bf_total (calculateBillFees sample_biller 100) = 0"
  by (simp add: calculateBillFees_def Let_def sample_text FEE_FREE_TYPES_def)

lemma sample_prepare_bill:
  "\<exists>plan. prepare_bill sample_bill_env 7 sample_bill_dto (sample_pay []) = (Inr plan, sample_pay []) \<and>
    bl_wallet plan = sample_wallet \<and> bl_amount plan = 200 \<and> bl_caps plan = None \<and> bl_fee plan = 0"
  by (simp add: prepare_bill_def bindM_def sample_pin sample_resolve bill_amount_def payout_amount_def
      parseAmount_def sample_trim sample_text Let_def sample_rules sample_holder sample_find_user
      findActiveForWallet_def active_for_def sample_address_def getProviderForCurrency_def
      sample_registry_def generateReference_first reference_taken_def sample_bill_fee)


section \<open>Reversal\<close>

lemma reverseFailedBill_eq:
  assumes "find_txn tid s = Some t" and "\<not> is_final (t_status t)"
    and "t_walletId t = Some i" and "find_wallet i (others s) = Some w"
  shows "reverseFailedBill others tid now s =
    (if rev_used t (others s) then (Inl UniqueViolation, others s)
     else (Inr (), reportIssueToSlack ''Bill payment failed at provider (customer refunded)'' (t_id t)
            (notifyTransaction (Some t) PAYOUT_FAILED True
              (reversed False ''Reversal for failed bill payment '' t w now (others s)))))"
  using assms reverse_writes_eq [of t i "others s" w False]
  by (simp add: reverseFailedBill_def stm_simps)

lemma reverseFailedBill_final:
  "find_txn tid s = Some t \<Longrightarrow> is_final (t_status t) \<Longrightarrow> reverseFailedBill others tid now s = (Inr (), s)"
  by (simp add: reverseFailedBill_def stm_simps)

text \<open>
  A failed bill is refunded in full, once.  Reversing a debited bill gives every wallet exactly
  the balance it had before the debit (amount and fee), marks the bill FAILED, and a second reversal,
  whatever runs with it, changes nothing.
\<close>

theorem bill_reversal_restores:
  assumes "debit_bill e w ad (Inr p) a fee caps ref bill now s = (Inr t, s1)" and "0 < a"
    and "find_wallet (w_id w) s = Some w0" and "fits 4 (w_balance w0)" and "fits 4 a" and "fits 4 fee"
    and "ids_fresh s" and "\<not> reference_taken p (''REV-'' @ ref) s1"
  shows "\<exists>s2. reverseFailedBill (\<lambda>x. x) (t_id t) later s1 = (Inr (), s2) \<and>
    wallet_balance s1 (w_id w) = Some (w_balance w0 - (a + fee)) \<and>
    wallet_balance s2 = wallet_balance s \<and>
    map_option t_status (find_txn (t_id t) s2) = Some FAILED \<and>
    reverseFailedBill others (t_id t) later' s2 = (Inr (), s2)"
  using assms(1,2)
proof (rule debit_bill_InrD, goal_cases)
  case (1 v b q)
  then have v: "v = w0" and q: "q = p" using assms(3) by auto
  have b: "b = w_balance w0 - (a + fee)"
    unfolding 1(3) v by (intro to_fixed_fits fits_diff fits_add assms(4-6))
  have refund: "refund_of t = a + fee" using assms(5,6) by (simp add: 1(6) refund_of_def to_fixed_fits)
  have st: "t_status t = PROCESSING" "t_walletId t = Some (w_id w)" "\<not> rev_used t s1"
    using assms(8) q by (simp_all add: 1(6) rev_used_def)
  have rows: "txns s1 = insert_row t (txns s)" using 1(8) by simp
  have found: "find_txn (t_id t) s1 = Some t" using find_txn_new [OF assms(7) rows] 1(6) by simp
  have wb: "wallet_balance s1 = wallet_balance (set_balance (w_id w) b s)"
    unfolding 1(8) by (simp add: wallet_balance_def find_wallet_def fun_eq_iff)
  have w1: "find_wallet (w_id w) s1 = Some (w0\<lparr>w_balance := b\<rparr>)"
    using assms(3) find_wallet_set_balance [of "w_id w" "w_id w" b s] by (simp add: 1(8) find_wallet_def)
  let ?s2 = "reportIssueToSlack ''Bill payment failed at provider (customer refunded)'' (t_id t)
      (notifyTransaction (Some t) PAYOUT_FAILED True
        (reversed False ''Reversal for failed bill payment '' t (w0\<lparr>w_balance := b\<rparr>) later s1))"
  have run: "reverseFailedBill (\<lambda>x. x) (t_id t) later s1 = (Inr (), ?s2)"
    using reverseFailedBill_eq [OF found, of "w_id w" "\<lambda>x. x"] w1 st by (simp add: is_final_def)
  have "wallet_balance ?s2 = (wallet_balance s1)(w_id w \<mapsto> w_balance w0)"
    using reversed_balance [OF w1, of False _ t later] to_fixed_fits [OF assms(4)]
    by (simp add: wallet_balance_def refund b fun_eq_iff)
  also have "\<dots> = wallet_balance s"
    using assms(3) unfolding wb by (auto simp: wallet_balance_set_balance wallet_balance_def fun_eq_iff)
  finally have restored: "wallet_balance ?s2 = wallet_balance s" .
  have txn: "find_txn (t_id t) ?s2 = Some (t\<lparr>t_status := FAILED, t_verifiedAt := Some later\<rparr>)"
    using reversed_txn [OF found] by simp
  show ?case
    using run restored txn reverseFailedBill_final [OF txn] wb assms(3)
    by (intro exI [of _ ?s2]) (simp add: is_final_def wallet_balance_set_balance b)
qed

definition sample_bill_debit :: "transaction pay" where
  "sample_bill_debit = debit_bill True sample_wallet sample_address (Inr VFD) 200 50 None ''FB1''
     (bill_details_of sample_biller sample_item ''0803'' (None, None)) 50"

lemma sample_bill_debit_ok:
  "\<exists>t s1. sample_bill_debit (sample_pay []) = (Inr t, s1) \<and> txns s1 = [t] \<and> t_reference t = ''FB1''"
  unfolding sample_bill_debit_def
  by (simp add: debit_bill_def bindM_def txM_def debitForUpdate_eq Let_def checkCaps_def insert_txn_def
      insert_row_def)

theorem bill_reversal_restores_witness:
  "\<exists>t s1 s2. sample_bill_debit (sample_pay []) = (Inr t, s1) \<and> wallet_balance s1 11 = Some 750 \<and>
    reverseFailedBill (\<lambda>x. x) (t_id t) 60 s1 = (Inr (), s2) \<and>
    wallet_balance s2 = wallet_balance (sample_pay [])"
proof -
  obtain t s1 where d: "sample_bill_debit (sample_pay []) = (Inr t, s1)"
    and t: "txns s1 = [t]" "t_reference t = ''FB1''"
    using sample_bill_debit_ok by blast
  have "\<not> reference_taken VFD (''REV-'' @ ''FB1'') s1"
    using t by (simp add: reference_taken_def same_reference_def)
  then show ?thesis
    using bill_reversal_restores [OF d [unfolded sample_bill_debit_def], of sample_wallet 60 "\<lambda>x. x" 61]
      sample_fresh d by (simp del: append.simps) blast
qed

section \<open>Tokens and receipts\<close>

text \<open>
  A receipt for electricity waits for its token.  When a bill is marked successful the tokens of
  the answer are stored and none that was there is lost; the e-mailed receipt goes out at once unless
  the bill is for electricity and still has no token: then it is held back and the job that fetches
  the token is queued.  No balance changes.
\<close>

theorem electricity_receipt_waits:
  assumes "find_txn (t_id t) s = Some t" and "t_bill t = Some b"
    and "token = coalesce (br_token r) (bd_token b)"
    and "held = (expectsToken t \<and> \<not> nonempty token)"
  shows "map_option (\<lambda>x. (t_status x, map_option bd_token (t_bill x)))
      (find_txn (t_id t) (markSuccessful True t r now s)) = Some (SUCCESSFUL, Some token) \<and>
    jobs (markSuccessful True t r now s) = jobs s @ (if held then [(FetchBillToken (t_id t), 6)] else []) \<and>
    outbox (markSuccessful True t r now s) = outbox s @
      (case t_walletId t of None \<Rightarrow> []
       | Some w \<Rightarrow> if find_wallet w s = None then [] else [Notify (t_id t) PAYOUT_SUCCESSFUL (\<not> held)]) \<and>
    wallets (markSuccessful True t r now s) = wallets s"
proof -
  have find: "find_txn i (rememberRecipient t now x) = find_txn i x" for i x
    by (simp add: find_txn_def)
  show ?thesis
    using assms
    by (simp add: markSuccessful_def Let_def with_tokens_def find find_txn_update_txn outbox_notify
        split: option.splits)
qed

text \<open>
  The token job sends a receipt only with a token.  If it fails (the provider cannot be asked,
  or has not issued the token yet) nothing changed, so it can be tried again; if it says the receipt
  was sent, the stored bill has a token, the one it had before if it had one, and no balance changed.
\<close>

theorem receipt_carries_a_token:
  assumes "find_txn tid s = Some t" and "t_bill t = Some b"
    and "fetchTokenAndSendReceipt bv tid s = (res, s')"
  shows "(case res of
      Inl e \<Rightarrow> s' = s
    | Inr x \<Rightarrow> x = TOKEN_SENT \<and> wallets s' = wallets s \<and>
        (\<exists>b'. find_txn tid s' = Some (t\<lparr>t_bill := Some b'\<rparr>) \<and> nonempty (bd_token b') \<and>
          (if nonempty (bd_token b) then b' = b else bd_token b' \<noteq> bd_token b)))"
proof (cases "nonempty (bd_token b)")
  case True
  then have "res = Inr TOKEN_SENT" "s' = sendBillReceiptEmail t False s"
    using assms by (auto simp: fetchTokenAndSendReceipt_def bindM_def)
  moreover have "t\<lparr>t_bill := Some b\<rparr> = t" using assms(2) by simp
  ultimately show ?thesis using assms(1) True by (auto intro!: exI [of _ b])
next
  case False
  show ?thesis
  proof (cases "bv_queryStatus bv (t_reference t)")
    case (Inl e)
    with False assms show ?thesis by (auto simp: fetchTokenAndSendReceipt_def bindM_def)
  next
    case (Inr r)
    show ?thesis
    proof (cases "br_outcome r = BO_SUCCESSFUL \<and> nonempty (br_token r)")
      case ok: True
      let ?b = "with_tokens r b"
      have tok: "nonempty (bd_token ?b)" "bd_token ?b \<noteq> bd_token b"
        using ok False by (auto simp: with_tokens_def coalesce_def nonempty_def split: option.splits)
      have "res = Inr TOKEN_SENT"
        "s' = sendBillReceiptEmail (t\<lparr>t_bill := Some ?b\<rparr>) False
          (update_txn tid (\<lambda>x. x\<lparr>t_bill := Some ?b\<rparr>) s)"
        using assms False Inr ok by (auto simp: fetchTokenAndSendReceipt_def bindM_def Let_def)
      then show ?thesis using assms(1) tok False by (auto simp: find_txn_update_txn intro: exI [of _ ?b])
    qed (use assms False Inr in \<open>auto simp: fetchTokenAndSendReceipt_def bindM_def\<close>)
  qed
qed

text \<open>An electricity bill whose token the provider issues late.\<close>

definition sample_power :: transaction where
  "sample_power =
    (new_txn (Some 11) DEBIT BILL_PAYMENT PROCESSING VFD ''1001'' 100 ''FB2'' 5)
      \<lparr>t_id := 30, t_billType := Some UTILITY,
       t_bill := Some (bill_details_of sample_biller sample_item ''45'' (None, None))\<rparr>"

lemma sample_power_simps [simp]:
  "t_id sample_power = 30" "t_walletId sample_power = Some 11" "t_billType sample_power = Some UTILITY"
  "t_bill sample_power = Some (bill_details_of sample_biller sample_item ''45'' (None, None))"
  "bd_token (bill_details_of bl it cid h) = None"
  by (simp_all add: sample_power_def new_txn_def bill_details_of_def)

theorem electricity_receipt_waits_witness:
  "jobs (markSuccessful True sample_power sample_bill_ok 60 (sample_pay [sample_power])) = [(FetchBillToken 30, 6)] \<and>
   outbox (markSuccessful True sample_power sample_bill_ok 60 (sample_pay [sample_power])) =
     [Notify 30 PAYOUT_SUCCESSFUL False]"
  using electricity_receipt_waits [of sample_power "sample_pay [sample_power]" _ None sample_bill_ok True 60]
  by (simp add: sample_bill_ok_def coalesce_def expectsToken_def nonempty_def)

theorem receipt_carries_a_token_witness:
  "\<exists>s'. fetchTokenAndSendReceipt (sample_bills\<lparr>bv_queryStatus := \<lambda>_. Inr (sample_bill_ok\<lparr>br_token := Some ''77''\<rparr>)\<rparr>)
      30 (sample_pay [sample_power]) = (Inr TOKEN_SENT, s') \<and>
    (\<exists>b'. find_txn 30 s' = Some (sample_power\<lparr>t_bill := Some b'\<rparr>) \<and> nonempty (bd_token b'))"
proof -
  obtain x s' where run: "fetchTokenAndSendReceipt (sample_bills\<lparr>bv_queryStatus :=
      \<lambda>_. Inr (sample_bill_ok\<lparr>br_token := Some ''77''\<rparr>)\<rparr>) 30 (sample_pay [sample_power]) = (Inr x, s')"
    by (simp add: fetchTokenAndSendReceipt_def bindM_def Let_def nonempty_def sample_bill_ok_def)
  have "find_txn 30 (sample_pay [sample_power]) = Some sample_power" by simp
  from receipt_carries_a_token [OF this sample_power_simps(4) run] show ?thesis using run by auto
qed

end
