(* ===== verification/AccountProps.thy ===== *)
theory AccountProps
  imports Payins
begin

text \<open>Properties of account provisioning and of switching a wallet to another provider account.\<close>

lemma getOrCreateWallet_addresses: "addresses (snd (getOrCreateWallet (\<lambda>s. s) u c s)) = addresses s"
  by (auto simp: getOrCreateWallet_def stm_simps insert_wallet_def Let_def split: option.splits)

lemma one_active_addresses: "addresses s' = addresses s \<Longrightarrow> one_active s' = one_active s"
  by (simp add: one_active_def)

lemma keeps_one_active_provision:
  assumes "\<And>x. one_active x \<Longrightarrow> one_active (others x)"
  shows "keeps one_active (provisionAddress acc others u c now)"
proof -
  have "keeps one_active (getOrCreateWallet (\<lambda>s. s) u c)"
    by (rule keepsI) (metis getOrCreateWallet_addresses one_active_addresses)
  moreover have "keeps one_active (insertActiveAddress w a now)" for w a
    by (rule keepsI) (rule insertActiveAddress_one_active)
  ultimately show ?thesis
    unfolding provisionAddress_def
    by (intro keeps_bindM) (auto intro!: keeps_bindM assms split: option.splits)
qed

lemma one_active_single:
  assumes "one_active s" and "a \<in> set (addresses s)" and "a_walletId a = w" and "a_status a = ADDR_ACTIVE"
  shows "filter (active_for w) (addresses s) = [a]"
proof -
  have "filter (active_for w) t = [a]"
    if "distinct (map a_walletId (filter (\<lambda>a. a_status a = ADDR_ACTIVE) t))" "a \<in> set t" for t
    using that assms(3,4)
  proof (induction t)
    case (Cons x t)
    then show ?case
      by (cases "x = a")
        (auto simp: active_for_def filter_empty_conv image_iff split: if_splits)
  qed simp
  then show ?thesis using assms(1,2) by (simp add: one_active_def)
qed

lemma getOrCreateWallet_owner:
  "getOrCreateWallet (\<lambda>s. s) u c s = (Inr w, s') \<Longrightarrow> w_userId w = u \<and> w_currency w = c"
  by (auto simp: getOrCreateWallet_def stm_simps dest: insert_wallet_user findByUserAndCurrency_SomeD
      split: option.splits prod.splits sum.splits)

lemma provisionAddress_InrD:
  assumes "provisionAddress acc others u c now s = (Inr a, s')"
  obtains w :: wallet where "w_userId w = u" and "w_currency w = c" and "a_walletId a = w_id w"
    and "a_status a = ADDR_ACTIVE" and "a \<in> set (addresses s')"
proof -
  from assms obtain w s1 where w: "getOrCreateWallet (\<lambda>s. s) u c s = (Inr w, s1)"
    and rest: "(case findActiveForWallet (w_id w) s1 of Some a \<Rightarrow> retM a
      | None \<Rightarrow> bindM (liftM acc) (\<lambda>account. bindM (updM others) (\<lambda>_.
          insertActiveAddress (w_id w) account now))) s1 = (Inr a, s')"
    unfolding provisionAddress_def by (elim bindM_InrE) simp
  have "a_walletId a = w_id w \<and> a_status a = ADDR_ACTIVE \<and> a \<in> set (addresses s')"
    using rest
    by (auto dest!: insertActiveAddress_InrD findActiveForWallet_SomeD elim!: bindM_InrE split: option.splits)
  then show ?thesis using that [of w] getOrCreateWallet_owner [OF w] by blast
qed


lemma sample_one_active: "one_active (sample_pay [])"
  by (simp add: one_active_def)

definition sample_applicant :: applicant where
  "sample_applicant =
    \<lparr>ap_bvn = ''22'', ap_dateOfBirth = ''1990-01-01'', ap_firstName = ''A'', ap_lastName = ''B''\<rparr>"

lemma sample_provision:
  "process_provisioning (sample_registry sample_tsq) (\<lambda>x. x) 7 NGN sample_applicant 5 (sample_pay []) =
    (Inr Ack, sample_pay [])"
  using provisionAddress_existing [of 7 NGN "sample_pay []" sample_wallet sample_address]
  by (simp add: process_provisioning_def bindM_def catchM_def findByUserAndCurrency_def
      findActiveForWallet_def active_for_def sample_address_def)


text \<open>
  Switching the provider replaces the account or changes nothing.  When it succeeds, the
  wallet's only ACTIVE address is the new account; when it fails (the provider refuses, or the
  account number is already someone's) the database is as before.
\<close>

theorem switch_replaces_account:
  assumes "switchProvider acc w now s = (r, s')" and "one_active s"
  shows "(case r of
      Inl e \<Rightarrow> s' = s
    | Inr a \<Rightarrow> filter (active_for w) (addresses s') = [a] \<and>
        (\<exists>x. acc = Inr x \<and> a_provider a = pa_provider x \<and> a_providerAccountNumber a = pa_accountNumber x))"
proof -
  let ?off = "\<lambda>a. a\<lparr>a_status := ADDR_INACTIVE, a_deactivatedAt := Some now\<rparr>"
  let ?s1 = "s\<lparr>addresses := update_where (active_for w) ?off (addresses s)\<rparr>"
  have none: "findActiveForWallet w ?s1 = None"
    unfolding findActiveForWallet_def by (simp, rule find_row_update_none) (simp_all add: active_for_def)
  show ?thesis
  proof (cases acc)
    case (Inl e)
    with assms(1) show ?thesis by (auto simp: switchProvider_def bindM_def)
  next
    case (Inr x)
    show ?thesis
    proof (cases "insert_address w x now ?s1")
      case (Pair q s2)
      show ?thesis
      proof (cases q)
        case (Inl e)
        then have "s2 = ?s1" using Pair insert_address_InlD by blast
        then show ?thesis
          using assms(1) Inr Inl Pair none
          by (auto simp: switchProvider_def insertActiveAddress_def stm_simps)
      next
        case q: (Inr a)
        have "one_active s2"
          using insert_address_one_active [OF one_active_deactivate [OF assms(2)]] Pair by blast
        then have "filter (active_for w) (addresses s2) = [a]"
          using insert_address_InrD [OF Pair [unfolded q]] by (intro one_active_single)
        moreover have "a_provider a = pa_provider x \<and> a_providerAccountNumber a = pa_accountNumber x"
          using Pair q by (auto simp: insert_address_def Let_def split: if_splits)
        ultimately show ?thesis
          using assms(1) Inr q Pair
          by (auto simp: switchProvider_def insertActiveAddress_def stm_simps)
      qed
    qed
  qed
qed

definition sample_account :: provider_account where
  "sample_account = \<lparr>pa_provider = VFD, pa_accountNumber = ''2000'', pa_accountName = Some ''ADA'',
     pa_tierRaw = None, pa_metadata = JNull\<rparr>"

theorem switch_replaces_account_witness:
  "\<exists>a s'. switchProvider (Inr sample_account) 11 50 (sample_pay []) = (Inr a, s') \<and>
    filter (active_for 11) (addresses s') = [a] \<and> a_providerAccountNumber a = ''2000''"
proof -
  obtain a s' where run: "switchProvider (Inr sample_account) 11 50 (sample_pay []) = (Inr a, s')"
    by (simp add: switchProvider_def insertActiveAddress_def stm_simps insert_address_def Let_def
        sample_account_def sample_address_def active_for_def findActiveForWallet_def)
  show ?thesis
    using switch_replaces_account [OF run sample_one_active] run by (auto simp: sample_account_def)
qed

end
