(* ===== verification/RowTypes.thy ===== *)
theory RowTypes
  imports Requests
begin

text \<open>
  The kinds of transactions as a type discipline: what each \<open>TransactionKind\<close> says about the direction, the
  status, the fee, the wallet and the provider of its rows, kept by every atomic step of the books.
\<close>

section \<open>The forms\<close>

definition row_form :: "transaction \<Rightarrow> bool" where
  "row_form t \<longleftrightarrow>
    (case t_kind t of
       DEPOSIT \<Rightarrow> t_type t = CREDIT \<and> t_fee t = None \<and> (t_status t = SUCCESSFUL \<longrightarrow> t_walletId t \<noteq> None)
     | PAYOUT \<Rightarrow> t_type t = DEBIT \<and> t_fee t \<noteq> None \<and> t_walletId t \<noteq> None
     | BILL_PAYMENT \<Rightarrow> t_type t = DEBIT \<and> t_fee t \<noteq> None \<and> t_walletId t \<noteq> None
     | REVERSAL \<Rightarrow> t_type t = CREDIT \<and> t_fee t = None \<and> t_status t = SUCCESSFUL \<and> t_walletId t \<noteq> None
     | ADJUSTMENT \<Rightarrow> t_provider t = MANUAL \<and> t_fee t = None \<and> t_walletId t \<noteq> None \<and>
         (t_type t = CREDIT \<longrightarrow> t_status t = SUCCESSFUL))"

definition gives_back :: "transaction \<Rightarrow> transaction \<Rightarrow> bool" where
  "gives_back t x \<longleftrightarrow>
    t_type x = DEBIT \<and> t_walletId x = t_walletId t \<and> t_provider x = t_provider t \<and>
    t_reference t = ''REV-'' @ t_reference x \<and> t_amount t = refund_of x"

definition backed :: "pay_state \<Rightarrow> transaction \<Rightarrow> bool" where
  "backed s t \<longleftrightarrow> (t_kind t = REVERSAL \<longrightarrow> (\<exists>x \<in> set (txns s). gives_back t x))"

definition forms_ok :: "pay_state \<Rightarrow> bool" where
  "forms_ok s \<longleftrightarrow> (\<forall>t \<in> set (txns s). row_form t \<and> backed s t)"

text \<open>What may become of a row: its money stays, its form too; a reversal stays in its wallet.\<close>

definition evolves :: "transaction \<Rightarrow> transaction \<Rightarrow> bool" where
  "evolves x y \<longleftrightarrow> keeps_money x y \<and> t_kind y = t_kind x \<and> (row_form x \<longrightarrow> row_form y) \<and>
    (t_kind x = REVERSAL \<longrightarrow> t_walletId y = t_walletId x)"

definition new_form :: "pay_state \<Rightarrow> transaction \<Rightarrow> bool" where
  "new_form s t \<longleftrightarrow> row_form t \<and> backed s t"

definition rows_evolve :: "pay_state \<Rightarrow> pay_state \<Rightarrow> bool" where
  "rows_evolve s s' \<longleftrightarrow> (\<forall>y \<in> set (txns s'). (\<exists>x \<in> set (txns s). evolves x y) \<or> new_form s y)"

lemma evolves_refl [simp]: "evolves x x"
  by (simp add: evolves_def keeps_money_def)

lemma rows_evolve_same: "txns s' = txns s \<Longrightarrow> rows_evolve s s'"
  unfolding rows_evolve_def by (metis evolves_refl)

lemma rows_evolve_insert:
  "txns s' = insert_row t (txns s) \<Longrightarrow> new_form s t \<Longrightarrow> rows_evolve s s'"
  unfolding rows_evolve_def by (metis evolves_refl insert_iff set_insert_row)

lemma rows_evolve_update:
  assumes "txns s' = update_where P f (txns s)" and "\<And>x. x \<in> set (txns s) \<Longrightarrow> P x \<Longrightarrow> evolves x (f x)"
  shows "rows_evolve s s'"
  unfolding rows_evolve_def
proof (intro ballI disjI1)
  fix y assume "y \<in> set (txns s')"
  then obtain x where "x \<in> set (txns s)" "y = (if P x then f x else x)"
    unfolding assms(1) set_update_where by auto
  then show "\<exists>x \<in> set (txns s). evolves x y" using assms(2) by (intro bexI [of _ x]) auto
qed

lemma gives_back_same: "gives_back t x \<Longrightarrow> same_payment x z \<Longrightarrow> gives_back t z"
  by (simp add: gives_back_def same_payment_def refund_of_def)

lemma gives_back_evolves: "gives_back t x \<Longrightarrow> evolves t y \<Longrightarrow> t_kind t = REVERSAL \<Longrightarrow> gives_back y x"
  by (simp add: gives_back_def evolves_def keeps_money_def)

lemma backed_later: "gives_back t x \<Longrightarrow> x \<in> set (txns s) \<Longrightarrow> debits_kept s s' \<Longrightarrow> backed s' t"
  unfolding debits_kept_def backed_def by (metis gives_back_def gives_back_same)

lemma forms_ok_evolve:
  assumes "forms_ok s" and "debits_kept s s'" and "rows_evolve s s'"
  shows "forms_ok s'"
  unfolding forms_ok_def
proof
  fix y assume "y \<in> set (txns s')"
  with assms(3) consider x where "x \<in> set (txns s)" "evolves x y" | "new_form s y"
    unfolding rows_evolve_def by blast
  then show "row_form y \<and> backed s' y"
  proof cases
    case 1
    then have x: "row_form x" "backed s x" using assms(1) by (auto simp: forms_ok_def)
    have "backed s' y"
    proof (cases "t_kind x = REVERSAL")
      case True
      with x(2) obtain z where "z \<in> set (txns s)" "gives_back x z" unfolding backed_def by blast
      then show ?thesis using backed_later [OF gives_back_evolves [OF _ 1(2) True]] assms(2) by blast
    qed (use 1(2) in \<open>simp add: backed_def evolves_def\<close>)
    then show ?thesis using x(1) 1(2) by (simp add: evolves_def)
  next
    case 2
    then show ?thesis using backed_later assms(2) unfolding new_form_def backed_def by blast
  qed
qed

section \<open>The steps\<close>

lemma form_simps:
  "t_kind t = DEPOSIT \<Longrightarrow> row_form t \<longleftrightarrow>
    t_type t = CREDIT \<and> t_fee t = None \<and> (t_status t = SUCCESSFUL \<longrightarrow> t_walletId t \<noteq> None)"
  "t_kind t \<in> {PAYOUT, BILL_PAYMENT} \<Longrightarrow> row_form t \<longleftrightarrow> t_type t = DEBIT \<and> t_fee t \<noteq> None \<and> t_walletId t \<noteq> None"
  "t_kind t = REVERSAL \<Longrightarrow> row_form t \<longleftrightarrow>
    t_type t = CREDIT \<and> t_fee t = None \<and> t_status t = SUCCESSFUL \<and> t_walletId t \<noteq> None"
  "t_kind t = ADJUSTMENT \<Longrightarrow> row_form t \<longleftrightarrow> t_provider t = MANUAL \<and> t_fee t = None \<and> t_walletId t \<noteq> None \<and>
      (t_type t = CREDIT \<longrightarrow> t_status t = SUCCESSFUL)"
  by (auto simp: row_form_def)

lemma evolves_same_payment:
  assumes "same_payment x y" and "t_type x = DEBIT \<or> (t_status y = SUCCESSFUL) = (t_status x = SUCCESSFUL)"
  shows "evolves x y"
  using assms by (cases "t_kind x") (auto simp: evolves_def same_payment_keeps_money same_payment_def row_form_def)

text \<open>A credit that is not yet SUCCESSFUL is a deposit, whose status and wallet may change.\<close>

lemma evolves_deposit:
  assumes "row_form x" and "t_type x = CREDIT" and "t_status x \<noteq> SUCCESSFUL" and "keeps_money x y"
    and "t_kind y = t_kind x" and "t_status y = SUCCESSFUL \<Longrightarrow> t_walletId y \<noteq> None"
  shows "evolves x y"
  using assms by (cases "t_kind x") (auto simp: evolves_def keeps_money_def row_form_def)

lemma found_once: "ledger_ok s \<Longrightarrow> find_txn tid s = Some t \<Longrightarrow> x \<in> set (txns s) \<Longrightarrow> t_id x = tid \<Longrightarrow> x = t"
  using update_where_key_eq [OF ledger_ok_rows] unfolding find_txn_def by blast

lemma rows_evolve_process_deposit:
  assumes "ledger_ok s" and "forms_ok s" and "process_deposit (\<lambda>x. x) tid now s = (r, s')"
  shows "rows_evolve s s'"
proof (cases "find_txn tid s")
  case None
  with assms(3) show ?thesis by (intro rows_evolve_same) (simp add: process_deposit_def stm_simps)
next
  case (Some t)
  show ?thesis
  proof (cases "is_final (t_status t) \<or> t_type t = DEBIT")
    case True
    with Some assms(3) show ?thesis
      by (intro rows_evolve_same) (auto simp: process_deposit_def stm_simps split: if_splits)
  next
    case False
    then have t: "\<not> is_final (t_status t)" "t_type t = CREDIT" "t_status t \<noteq> SUCCESSFUL"
      by (auto simp: is_final_def intro: transaction_type.exhaust [of "t_type t"])
    have form: "row_form t" using assms(2) find_txn_id [OF Some] by (simp add: forms_ok_def)
    have upd: "update_where P h (update_where P g T) = update_where P (h \<circ> g) T"
      if "\<And>r. P (g r) = P r" for P h and g :: "transaction \<Rightarrow> transaction" and T
      using that by (induction T) auto
    show ?thesis
    proof (cases "\<exists>i w. t_walletId t = Some i \<and> find_wallet i s = Some w")
      case True
      then obtain i w where w: "t_walletId t = Some i" "find_wallet i s = Some w" by blast
      let ?f = "\<lambda>r. (r\<lparr>t_status := PROCESSING\<rparr>)\<lparr>t_status := SUCCESSFUL,
          t_balanceAfter := Some (to_fixed 4 (w_balance w + t_amount t)), t_verifiedAt := Some now\<rparr>"
      have "s' = credited tid w t now s"
        using assms(3) process_deposit_eq [OF Some t(1,2), of "\<lambda>x. x" now] w by (simp add: Let_def)
      then show ?thesis
      proof (intro rows_evolve_update [where P = "by_key t_id tid" and f = ?f])
        fix x assume "x \<in> set (txns s)" "t_id x = tid"
        then have "x = t" by (rule found_once [OF assms(1) Some])
        then show "evolves x (?f x)" using form t w by (intro evolves_deposit) (auto simp: keeps_money_def)
      qed (simp_all add: credited_def Let_def update_txn_def set_balance_def update_wallet_def upd comp_def)
    next
      case False
      have "s' = update_txn tid (\<lambda>r. r\<lparr>t_status := PROCESSING\<rparr>) s"
        using assms(3) False process_deposit_eq [OF Some t(1,2), of "\<lambda>x. x" now]
        by (auto simp: Let_def split: option.splits)
      then show ?thesis
      proof (intro rows_evolve_update [where P = "by_key t_id tid" and f = "\<lambda>r. r\<lparr>t_status := PROCESSING\<rparr>"])
        fix x assume "x \<in> set (txns s)" "t_id x = tid"
        then have "x = t" by (rule found_once [OF assms(1) Some])
        then show "evolves x (x\<lparr>t_status := PROCESSING\<rparr>)"
          using form t by (intro evolves_deposit) (auto simp: keeps_money_def)
      qed (simp_all add: update_txn_def)
    qed
  qed
qed


lemma rows_evolve_assignment:
  assumes "ledger_ok s" and "forms_ok s" and "assign_in_tx tid dto stamp now s = (r, s')"
  shows "rows_evolve s s'"
proof (cases "s' = s")
  case False
  then obtain t where t: "find_txn tid s = Some t"
    using assms(3) by (cases "find_txn tid s") (auto simp: assign_in_tx_def stm_simps)
  then obtain w where c: "t_type t = CREDIT" "t_status t = UNMATCHED"
    and s': "s' = update_txn tid (assigned t w dto stamp now)
        (set_balance (as_walletId dto) (to_fixed 4 (w_balance w + t_amount t)) s)"
    using assms(3) False unfolding assign_in_tx_eq [OF t] by (auto split: if_splits option.splits)
  have "row_form t" using assms(2) find_txn_id [OF t] by (simp add: forms_ok_def)
  then have "evolves t (assigned t w dto stamp now t)"
    using c by (intro evolves_deposit) (simp_all add: keeps_money_def assigned_def)
  then show ?thesis
    using found_once [OF assms(1) t]
    by (intro rows_evolve_update [where P = "by_key t_id tid" and f = "assigned t w dto stamp now"])
      (auto simp: s' update_txn_def)
qed (simp add: rows_evolve_same)

lemma rows_evolve_reversal:
  assumes "ledger_ok s" and "reverse_writes k what t now s = (r, s')" and "x \<in> set (txns s)"
    and "same_payment t x" and "t_type x = DEBIT"
  shows "rows_evolve s s'"
proof (cases "\<exists>i w. t_walletId t = Some i \<and> find_wallet i s = Some w \<and> \<not> rev_used t s")
  case False
  then have "s' = s"
    using assms(2) reverse_writes_eq [of t _ s _ k what now]
    by (cases "t_walletId t"; cases "find_wallet (the (t_walletId t)) s")
      (auto simp: reverse_writes_def stm_simps credit_owner_def creditForUpdate_eq split: if_splits)
  then show ?thesis by (simp add: rows_evolve_same)
next
  case True
  then obtain i w where w: "t_walletId t = Some i" "find_wallet i s = Some w" "\<not> rev_used t s" by blast
  then have s': "s' = reversed k what t w now s" using assms(2) reverse_writes_eq [OF w(1,2)] by simp
  let ?f = "\<lambda>r. r\<lparr>t_status := FAILED, t_verifiedAt := Some now\<rparr>"
  let ?r = "(reversal_row k t ''REV-'' what (to_fixed 4 (w_balance w + refund_of t)) now)\<lparr>t_id := next_id s\<rparr>"
  have x: "t_id x = t_id t" "t_walletId x = Some i" "refund_of x = refund_of t" "t_provider x = t_provider t"
    "t_reference x = t_reference t"
    using assms(4) w(1) by (auto simp: same_payment_def refund_of_def)
  have "row_ok (w_id ` set (wallets s)) (next_id s) x" using assms(1,3) by (simp add: ledger_ok_def rows_ok_def)
  then have "fits 4 (refund_of x)" unfolding refund_of_opt by (auto simp: row_ok_def)
  then have "gives_back ?r x" using x w(1) assms(5) by (simp add: gives_back_def to_fixed_fits)
  then have new: "new_form s ?r" using assms(3) w(1) by (auto simp: new_form_def backed_def form_simps)
  have old: "rows_evolve s (s\<lparr>txns := update_where (by_key t_id (t_id t)) ?f (txns s)\<rparr>)"
  proof (rule rows_evolve_update [where P = "by_key t_id (t_id t)" and f = ?f])
    fix y assume "y \<in> set (txns s)" "t_id y = t_id t"
    then have "y = x" using found_once [OF assms(1) find_row_by_key [OF ledger_ok_rows [OF assms(1)] assms(3),
      folded find_txn_def]] x(1) by simp
    then show "evolves y (?f y)" using assms(5) by (intro evolves_same_payment) (simp_all add: same_payment_def)
  qed simp_all
  show ?thesis
    using old new unfolding rows_evolve_def s' reversed_def Let_def by simp
qed

lemma rows_evolve_step: "pay_step s s' \<Longrightarrow> ledger_ok s \<Longrightarrow> forms_ok s \<Longrightarrow> rows_evolve s s'"
proof (induction rule: pay_step.induct)
  case (other_tables s' s)
  then show ?case by (simp add: rows_evolve_same)
next
  case (new_wallet u c s r s')
  then show ?case by (intro rows_evolve_same) (auto simp: insert_wallet_def Let_def split: option.splits)
next
  case (deposit inp s now r s')
  let ?t = "(payin_row inp (payin_wallet inp s) now)\<lparr>t_id := next_id s\<rparr>"
  have "new_form s ?t" by (simp add: new_form_def backed_def form_simps)
  then show ?case
    using deposit(1) rows_evolve_insert [of s' ?t s]
    by (auto simp: insert_or_ignore_eq rows_evolve_same split: option.splits)
next
  case (credit_deposit tid now s r s')
  then show ?case by (blast intro: rows_evolve_process_deposit)
next
  case (update_row f s tid)
  show ?case
    by (rule rows_evolve_update [where P = "by_key t_id tid" and f = f])
      (use update_row(1,2) in \<open>auto simp: update_txn_def intro: evolves_same_payment\<close>)
next
  case (debit_for_payout e w ad p a l caps ref ben nar now s r s')
  show ?case
  proof (cases r)
    case (Inl err)
    then show ?thesis using debit_for_payout(1) debit_payout_InlD by (blast intro: rows_evolve_same)
  next
    case (Inr t)
    from debit_for_payout(1) [unfolded Inr] debit_for_payout(2) show ?thesis
      by (rule debit_payout_InrD) (rule rows_evolve_insert [of s' t s]; simp add: new_form_def backed_def form_simps)
  qed
next
  case (debit_for_bill e w ad key a fee caps ref bill now s r s')
  show ?case
  proof (cases r)
    case (Inl err)
    then have "s' = s" using debit_for_bill(1) txM_Inl unfolding debit_bill_def by metis
    then show ?thesis by (simp add: rows_evolve_same)
  next
    case (Inr t)
    from debit_for_bill(1) [unfolded Inr] debit_for_bill(2) show ?thesis
      by (rule debit_bill_InrD) (rule rows_evolve_insert [of s' t s]; simp add: new_form_def backed_def form_simps)
  qed
next
  case (reversal k what t now s r s' x)
  then show ?case by (blast intro: rows_evolve_reversal)
next
  case (posting dto a now s r s')
  show ?case
  proof (cases r)
    case (Inl e)
    then have "s' = s" using posting(1) txM_Inl unfolding apply_posting_def by metis
    then show ?thesis by (simp add: rows_evolve_same)
  next
    case (Inr t)
    from posting(1) [unfolded Inr] show ?thesis
      by (rule apply_posting_InrD) (rule rows_evolve_insert [of s' t s]; simp add: new_form_def backed_def form_simps)
  qed
next
  case (assignment tid dto stamp now s r s')
  then show ?case by (blast intro: rows_evolve_assignment)
qed

section \<open>The running service\<close>

interpretation fm: step_system pay_step "\<lambda>s. ledger_ok s \<and> forms_ok s"
  by unfold_locales (blast intro: pay_step_ledger_ok forms_ok_evolve pay_step_debits rows_evolve_step)

lemma forms_ok_served: "served\<^sup>*\<^sup>* empty_pay s \<Longrightarrow> ledger_ok s \<and> forms_ok s"
proof (induction rule: rtranclp_induct)
  case base
  show ?case by (simp add: ledger_ok_empty forms_ok_def)
next
  case (step s1 s2)
  then show ?case using fm.steps_keep [OF served_steps] by blast
qed

text \<open>
  C20: Every row of the books is of the form its kind promises.  Deposits and reversals are credits,
  payouts and bill payments debits with a fee; a reversal or an adjustment that credits is SUCCESSFUL from
  the start, adjustments are the provider MANUAL's, and only an unmatched deposit has no wallet.  Each
  reversal gives back one debit of the same wallet and provider: amount and fee, under its reference.
\<close>

theorem rows_have_their_kind:
  assumes "served\<^sup>*\<^sup>* empty_pay s" and "t \<in> set (txns s)"
  shows "row_form t \<and> (t_kind t = REVERSAL \<longrightarrow> (\<exists>x \<in> set (txns s). gives_back t x))"
  using forms_ok_served [OF assms(1)] assms(2) by (simp add: forms_ok_def backed_def)

theorem rows_have_their_kind_witness: "map row_form (txns after_sample) = [True]"
proof -
  obtain t where t: "txns after_sample = [t]" using after_sample_state by (cases "txns after_sample") auto
  show ?thesis using rows_have_their_kind [OF after_sample_reached, of t] t by simp
qed

end
