(* ===== verification/VfdParsing.thy ===== *)
theory VfdParsing
  imports Providers
begin

text \<open>
  What the VFD adapter reads out of the provider's answers: \<open>vfd-bill-token.ts\<close> (the token of a
  bill, its receipt lines), \<open>vfd-customer-info.ts\<close> (the holder of a meter), \<open>vfd-bank-list.util.ts\<close>
  and \<open>vfd-date.util.ts\<close>.  A JSON object is the list of its entries in the order
  \<open>Object.entries\<close> gives them.
\<close>

section \<open>Values as texts\<close>

text \<open>\<open>String(v)\<close>.\<close>

fun js_String :: "json \<Rightarrow> string" where
  "js_String JNull = ''null''"
| "js_String (JBool b) = (if b then ''true'' else ''false'')"
| "js_String (JNum s) = s"
| "js_String (JStr s) = s"
| "js_String (JArr vs) = join_with '','' (map (\<lambda>v. if v = JNull then [] else js_String v) vs)"
| "js_String (JObj kvs) = ''[object Object]''"

text \<open>\<open>v ?? null\<close>, used as a text.\<close>

definition field_text :: "json option \<Rightarrow> string option" where
  "field_text v = (case v of None \<Rightarrow> None | Some JNull \<Rightarrow> None | Some w \<Rightarrow> Some (js_String w))"

definition scalar_text :: "json option \<Rightarrow> string option" where
  "scalar_text v =
    (case v of
       Some (JStr s) \<Rightarrow> if js_trim s = [] then None else Some (js_trim s)
     | Some (JNum s) \<Rightarrow> if js_trim s = [] then None else Some (js_trim s)
     | _ \<Rightarrow> None)"

definition first_some :: "('a \<Rightarrow> 'b option) \<Rightarrow> 'a list \<Rightarrow> 'b option" where
  "first_some f xs = (case List.map_filter f xs of [] \<Rightarrow> None | y # ys \<Rightarrow> Some y)"

lemma first_some_Nil [simp]: "first_some f [] = None"
  by (simp add: first_some_def map_filter_simps)

lemma first_some_Cons [simp]:
  "first_some f (x # xs) = (case f x of Some y \<Rightarrow> Some y | None \<Rightarrow> first_some f xs)"
  by (simp add: first_some_def map_filter_simps split: option.splits)

lemma first_some_SomeD: "first_some f xs = Some y \<Longrightarrow> \<exists>x \<in> set xs. f x = Some y"
  by (induction xs) (auto split: option.splits)

lemma scalar_text_SomeD: "scalar_text v = Some s \<Longrightarrow> s \<noteq> [] \<and> js_trim s = s"
  by (auto simp: scalar_text_def split: option.splits json.splits if_splits)

section \<open>The token of a bill\<close>

definition MAIN_KEYS :: "string list" where
  "MAIN_KEYS = [''token'', ''creditToken'', ''energyToken'', ''pin'']"

definition EXTRA_KEYS :: "(string \<times> string) list" where
  "EXTRA_KEYS = [(''kct1'', ''Key change token 1''), (''kct2'', ''Key change token 2'')]"

definition extractBillTokens :: "json option \<Rightarrow> string option \<times> label_value list" where
  "extractBillTokens data =
    (case data of
       Some (JObj kvs) \<Rightarrow>
         (first_some (\<lambda>k. scalar_text (map_of kvs k)) MAIN_KEYS,
          List.map_filter (\<lambda>(k, l). map_option (\<lambda>v. \<lparr>lv_label = l, lv_value = v\<rparr>)
              (scalar_text (map_of kvs k))) EXTRA_KEYS)
     | _ \<Rightarrow> (None, []))"

text \<open>\<open>digits.match(/.{1,4}/g)\<close>.\<close>

fun chunks4 :: "string \<Rightarrow> string list" where
  "chunks4 s = (if length s \<le> 4 then [s] else take 4 s # chunks4 (drop 4 s))"

declare chunks4.simps [simp del]

definition no_spaces :: "string \<Rightarrow> string" where
  "no_spaces s = filter (\<lambda>c. \<not> js_space c) s"

definition formatTokenForDisplay :: "string \<Rightarrow> string" where
  "formatTokenForDisplay token =
    (let digits = no_spaces token in
     if 12 \<le> length digits \<and> list_all is_digit digits then join_with '' '' (chunks4 digits)
     else token)"

definition DETAIL_KEYS :: "(string \<times> string list) list" where
  "DETAIL_KEYS = [
    (''Receipt no'', [''receiptno'', ''receiptnumber'', ''receiptid'', ''rctnum'']),
    (''Units'', [''units'', ''unit'', ''unitsvalue'', ''unitspurchased'', ''totalunit'', ''kwh'']),
    (''Tariff class'', [''tariffclass'', ''tariffname'', ''tariffindex'', ''tariff'']),
    (''Tariff rate'', [''tariffrate'', ''rate'']),
    (''VAT amount'', [''vatamount'', ''vat'', ''tax'', ''taxamount'']),
    (''VAT rate'', [''vatrate'', ''taxrate''])]"

definition normal_key :: "string \<Rightarrow> string" where
  "normal_key k = filter (\<lambda>c. is_alpha c \<or> is_digit c) (to_lower k)"

text \<open>The entries of an object or of an array.\<close>

definition entries_of :: "json option \<Rightarrow> (string \<times> json) list" where
  "entries_of data =
    (case data of
       Some (JObj kvs) \<Rightarrow> kvs
     | Some (JArr vs) \<Rightarrow> zip (map nat_str [0 ..< length vs]) vs
     | _ \<Rightarrow> [])"

definition extractBillDetails :: "json option \<Rightarrow> label_value list" where
  "extractBillDetails data =
    (let normalised = fold (\<lambda>(k, v). alist_set (normal_key k) v) (entries_of data) [] in
     List.map_filter (\<lambda>(label, keys).
       map_option (\<lambda>v. \<lparr>lv_label = label, lv_value = v\<rparr>)
         (first_some (\<lambda>k. scalar_text (map_of normalised k)) keys)) DETAIL_KEYS)"

section \<open>The holder of a meter\<close>

text \<open>A run of matching characters becomes one space: \<open>s.replace(/[...]+/g, ' ')\<close>.\<close>

fun squeeze :: "(char \<Rightarrow> bool) \<Rightarrow> string \<Rightarrow> string" where
  "squeeze P [] = []"
| "squeeze P (c # s) =
    (if P c then (if s \<noteq> [] \<and> P (hd s) then squeeze P s else CHR '' '' # squeeze P s)
     else c # squeeze P s)"

definition clean :: "json option \<Rightarrow> string option" where
  "clean v =
    (case v of
       Some (JStr s) \<Rightarrow>
         (let t = squeeze js_space (js_trim s) in if t = [] then None else Some t)
     | _ \<Rightarrow> None)"

definition is_upper :: "char \<Rightarrow> bool" where
  "is_upper c \<longleftrightarrow> 65 \<le> code c \<and> code c \<le> 90"

definition is_lower :: "char \<Rightarrow> bool" where
  "is_lower c \<longleftrightarrow> 97 \<le> code c \<and> code c \<le> 122"

text \<open>\<open>key.replace(/([a-z0-9])([A-Z])/g, '$1 $2')\<close>.\<close>

fun split_camel :: "string \<Rightarrow> string" where
  "split_camel [] = []"
| "split_camel (c # s) =
    (if (is_lower c \<or> is_digit c) \<and> s \<noteq> [] \<and> is_upper (hd s)
     then c # CHR '' '' # split_camel s else c # split_camel s)"

definition labelFor :: "string \<Rightarrow> string" where
  "labelFor key =
    (case to_lower (js_trim (squeeze (\<lambda>c. c = CHR ''_'' \<or> c = CHR ''-'') (split_camel key))) of
       [] \<Rightarrow> []
     | c # s \<Rightarrow> upper_char c # s)"

definition detail_value :: "json \<Rightarrow> string option" where
  "detail_value raw =
    (case (case raw of JNum s \<Rightarrow> Some s | _ \<Rightarrow> clean (Some raw)) of
       None \<Rightarrow> None
     | Some v \<Rightarrow> if v = [] \<or> 120 < length v then None else Some v)"

definition extractDetails :: "(string \<times> json) list \<Rightarrow> label_value list" where
  "extractDetails rec =
    take 12 (List.map_filter (\<lambda>(key, raw).
      map_option (\<lambda>v. \<lparr>lv_label = labelFor key, lv_value = v\<rparr>) (detail_value raw)) rec)"

text \<open>The regular expressions, which ignore case, as the keys they accept in lower case.\<close>

definition is_name_key :: "string \<Rightarrow> bool" where
  "is_name_key k \<longleftrightarrow> to_lower k \<in>
    {''customername'', ''customer_name'', ''customer name'',
     ''accountname'', ''account_name'', ''account name'',
     ''fullname'', ''full_name'', ''full name'', ''name'', ''customer''}"

definition is_address_key :: "string \<Rightarrow> bool" where
  "is_address_key k \<longleftrightarrow> to_lower k \<in>
    {''address'', ''customeraddress'', ''customer_address'', ''customer address''}"

definition is_envelope_key :: "string \<Rightarrow> bool" where
  "is_envelope_key k \<longleftrightarrow> to_lower k \<in>
    {''error'', ''status'', ''message'', ''responsecode'', ''responsemessage''}"

definition is_plain_object :: "json \<Rightarrow> bool" where
  "is_plain_object v = (case v of JObj _ \<Rightarrow> True | _ \<Rightarrow> False)"

text \<open>
  One level of \<open>flatten\<close>; \<open>lift\<close> gives the fields of a nested object, none of them at the third
  level.  The number is the number of levels that are still lifted.
\<close>

definition flatten_level ::
  "((string \<times> json) list \<Rightarrow> (string \<times> json) list) \<Rightarrow> (string \<times> json) list \<Rightarrow> (string \<times> json) list" where
  "flatten_level lift kvs =
    (let isWrapper = list_ex (\<lambda>(k, v). is_plain_object v) kvs in
     fold (\<lambda>(k, v) out.
        (case v of
           JObj inner \<Rightarrow> alist_assign out (lift inner)
         | _ \<Rightarrow> if isWrapper \<and> is_envelope_key k then out else alist_set k v out)) kvs [])"

primrec flatten :: "nat \<Rightarrow> (string \<times> json) list \<Rightarrow> (string \<times> json) list" where
  "flatten 0 kvs = flatten_level (\<lambda>_. []) kvs"
| "flatten (Suc n) kvs = flatten_level (flatten n) kvs"

text \<open>\<open>Object.entries\<close> lists the keys that are array indices first, in order.\<close>

definition is_index :: "string \<Rightarrow> bool" where
  "is_index k \<longleftrightarrow> k \<noteq> [] \<and> list_all is_digit k \<and> nat_str (digits_val k) = k \<and> digits_val k < 2 ^ 32 - 1"

definition js_entries :: "(string \<times> json) list \<Rightarrow> (string \<times> json) list" where
  "js_entries kvs =
    sort_key (\<lambda>(k, v). digits_val k) (filter (\<lambda>(k, v). is_index k) kvs) @
    filter (\<lambda>(k, v). \<not> is_index k) kvs"

record customer_info =
  ci_name :: "string option"
  ci_address :: "string option"
  ci_details :: "label_value list"

definition non_null :: "json option \<Rightarrow> json option" where
  "non_null v = (if v = Some JNull then None else v)"

definition extractCustomerInfo :: "json option \<Rightarrow> customer_info" where
  "extractCustomerInfo data =
    (let rec = js_entries (flatten 2 (entries_of data));
         look = map_of rec;
         found = first_some (\<lambda>(k, v). if is_name_key k then clean (Some v) else None) rec;
         address = first_some (\<lambda>(k, v). if is_address_key k then clean (Some v) else None) rec;
         firstN = clean (coalesce (non_null (look ''firstName'')) (look ''firstname''));
         lastN = clean (coalesce (non_null (look ''lastName'')) (look ''lastname''));
         joined = join_with '' '' (List.map_filter id [firstN, lastN])
     in \<lparr>ci_name = (case found of Some n \<Rightarrow> Some n | None \<Rightarrow> if joined = [] then None else Some joined),
         ci_address = address, ci_details = extractDetails rec\<rparr>)"

section \<open>Dates and banks\<close>

definition MONTH_ABBREVIATIONS :: "string list" where
  "MONTH_ABBREVIATIONS = [''Jan'', ''Feb'', ''Mar'', ''Apr'', ''May'', ''Jun'', ''Jul'', ''Aug'',
    ''Sep'', ''Oct'', ''Nov'', ''Dec'']"

definition iso_date :: "string \<Rightarrow> bool" where
  "iso_date s \<longleftrightarrow> length s = 10 \<and> list_all is_digit (take 4 s) \<and> s ! 4 = CHR ''-'' \<and>
    list_all is_digit (take 2 (drop 5 s)) \<and> s ! 7 = CHR ''-'' \<and> list_all is_digit (drop 8 s)"

definition formatDateForVfd :: "string \<Rightarrow> http_error + string" where
  "formatDateForVfd d =
    (if \<not> iso_date d then Inl (PlainError ''Expected ISO date'')
     else (let month = digits_val (take 2 (drop 5 d)) in
       if month = 0 \<or> 12 < month then Inl (PlainError ''Invalid month in date'')
       else Inr (drop 8 d @ ''-'' @ MONTH_ABBREVIATIONS ! (month - 1) @ ''-'' @ take 4 d)))"

definition bank_entry :: "json \<Rightarrow> provider_bank option" where
  "bank_entry entry =
    (case (obj_get ''code'' entry, obj_get ''name'' entry) of
       (Some (JStr c), Some (JStr n)) \<Rightarrow>
         if c \<noteq> [] \<and> js_trim n \<noteq> [] then Some \<lparr>bk_code = c, bk_name = js_trim n\<rparr> else None
     | _ \<Rightarrow> None)"

definition normalizeVfdBankList :: "json option \<Rightarrow> provider_bank list" where
  "normalizeVfdBankList data =
    (case data of
       Some d \<Rightarrow> (case obj_get ''bank'' d of
          Some (JArr entries) \<Rightarrow> List.map_filter bank_entry entries
        | _ \<Rightarrow> [])
     | None \<Rightarrow> [])"

section \<open>What the texts satisfy\<close>

lemma concat_chunks4 [simp]: "concat (chunks4 s) = s"
  by (induction s rule: chunks4.induct) (subst chunks4.simps, simp)

lemma chunks4_short: "w \<in> set (chunks4 s) \<Longrightarrow> length w \<le> 4"
  by (induction s rule: chunks4.induct) (subst (asm) (2) chunks4.simps, auto split: if_splits)

lemma no_spaces_append [simp]: "no_spaces (s @ t) = no_spaces s @ no_spaces t"
  by (simp add: no_spaces_def)

lemma no_spaces_space [simp]: "no_spaces (CHR '' '' # s) = no_spaces s"
  by (simp add: no_spaces_def js_space_def)

lemma no_spaces_idem [simp]: "no_spaces (no_spaces s) = no_spaces s"
  by (simp add: no_spaces_def)

lemma no_spaces_digits: "list_all is_digit s \<Longrightarrow> no_spaces s = s"
  by (induction s) (auto simp: no_spaces_def)

lemma no_spaces_join: "no_spaces (join_with '' '' ws) = no_spaces (concat ws)"
proof (induction ws)
  case (Cons w ws)
  then show ?case by (cases ws) simp_all
qed simp

lemma no_spaces_formatToken: "no_spaces (formatTokenForDisplay t) = no_spaces t"
  by (simp add: formatTokenForDisplay_def Let_def no_spaces_join)

lemma formatToken_idem [simp]:
  "formatTokenForDisplay (formatTokenForDisplay t) = formatTokenForDisplay t"
  by (cases "12 \<le> length (no_spaces t) \<and> list_all is_digit (no_spaces t)")
    (auto simp: formatTokenForDisplay_def Let_def no_spaces_join)

text \<open>A squeezed text has no two separators in a row and loses nothing else.\<close>

lemma squeeze_eq_Nil_iff [simp]: "squeeze P s = [] \<longleftrightarrow> s = []"
  by (induction s) auto

lemma no_spaces_squeeze: "no_spaces (squeeze js_space s) = no_spaces s"
proof (induction s)
  case (Cons c s)
  have "js_space CHR '' ''" by code_simp
  with Cons show ?case by (auto simp: no_spaces_def)
qed simp

text \<open>The month names are different, so a date can be read back.\<close>

lemma distinct_months: "distinct MONTH_ABBREVIATIONS" "length MONTH_ABBREVIATIONS = 12"
  by (simp_all add: MONTH_ABBREVIATIONS_def)

lemma length_months: "i < 12 \<Longrightarrow> length (MONTH_ABBREVIATIONS ! i) = 3"
  by (simp add: MONTH_ABBREVIATIONS_def nth_Cons' split: if_splits)

lemma list_all_length2: "length s = 2 \<Longrightarrow> s = [s ! 0, s ! 1]"
  by (cases s; cases "tl s") auto

lemma digit_val_inj: "is_digit c \<Longrightarrow> is_digit d \<Longrightarrow> digit_val c = digit_val d \<Longrightarrow> c = d"
  unfolding is_digit_def digit_val_def
  by (metis (no_types, opaque_lifting) le_add_diff_inverse of_char_eq_iff)

lemma two_digits_eq: "10 * a + b = 10 * c + d \<Longrightarrow> b < 10 \<Longrightarrow> d < 10 \<Longrightarrow> a = c \<and> b = (d::nat)"
  by arith

lemma two_digits_inj:
  assumes "length s = 2" and "length t = 2" and "list_all is_digit s" and "list_all is_digit t"
    and "digits_val s = digits_val t"
  shows "s = t"
proof -
  obtain a b c d where st: "s = [a, b]" "t = [c, d]"
    using assms(1,2) list_all_length2 by metis
  have lt: "digit_val b < 10" "digit_val d < 10"
    using assms(3,4) by (auto simp: st is_digit_def digit_val_def)
  from assms(5) have "10 * digit_val a + digit_val b = 10 * digit_val c + digit_val d"
    by (simp add: st digits_val_def)
  then have "digit_val a = digit_val c \<and> digit_val b = digit_val d" using lt by (rule two_digits_eq)
  with assms(3,4) show ?thesis by (auto simp: st intro: digit_val_inj)
qed

lemma formatDateForVfd_Inr_iff:
  "formatDateForVfd d = Inr t \<longleftrightarrow> iso_date d \<and>
    (let m = digits_val (take 2 (drop 5 d)) in m \<noteq> 0 \<and> m \<le> 12 \<and>
      t = drop 8 d @ ''-'' @ MONTH_ABBREVIATIONS ! (m - 1) @ ''-'' @ take 4 d)"
  by (auto simp: formatDateForVfd_def Let_def)

lemma append_eq_split:
  "length a = length b \<Longrightarrow> a @ x = b @ y \<longleftrightarrow> a = b \<and> x = y"
  by simp

lemma iso_date_parts:
  assumes "iso_date d"
  shows "d = take 4 d @ ''-'' @ take 2 (drop 5 d) @ ''-'' @ drop 8 d"
proof -
  have "length d = 10" "d ! 4 = CHR ''-''" "d ! 7 = CHR ''-''" using assms by (auto simp: iso_date_def)
  then have "d = take 4 d @ drop 4 d" "drop 4 d = CHR ''-'' # drop 5 d"
    "drop 5 d = take 2 (drop 5 d) @ drop 7 d" "drop 7 d = CHR ''-'' # drop 8 d"
    using Cons_nth_drop_Suc [of 4 d] Cons_nth_drop_Suc [of 7 d] append_take_drop_id [of 2 "drop 5 d"]
    by simp_all
  then show ?thesis by (metis append_Cons append_Nil)
qed

lemma formatDateForVfd_inj:
  assumes "formatDateForVfd d = Inr t" and "formatDateForVfd e = Inr t"
  shows "d = e"
proof -
  let ?m = "\<lambda>d. digits_val (take 2 (drop 5 d))"
  have d: "iso_date d" "?m d \<noteq> 0" "?m d \<le> 12"
    "t = drop 8 d @ ''-'' @ MONTH_ABBREVIATIONS ! (?m d - 1) @ ''-'' @ take 4 d"
    and e: "iso_date e" "?m e \<noteq> 0" "?m e \<le> 12"
    "t = drop 8 e @ ''-'' @ MONTH_ABBREVIATIONS ! (?m e - 1) @ ''-'' @ take 4 e"
    using assms by (auto simp: formatDateForVfd_Inr_iff Let_def)
  have L: "length d = 10" "length e = 10" using d(1) e(1) by (auto simp: iso_date_def)
  have M: "length (MONTH_ABBREVIATIONS ! (?m d - 1)) = 3" "length (MONTH_ABBREVIATIONS ! (?m e - 1)) = 3"
    using d(2,3) e(2,3) by (auto intro!: length_months)
  from d(4) e(4) L M have parts: "drop 8 d = drop 8 e" "take 4 d = take 4 e"
    "MONTH_ABBREVIATIONS ! (?m d - 1) = MONTH_ABBREVIATIONS ! (?m e - 1)"
    by (simp_all add: append_eq_split)
  then have "?m d - 1 = ?m e - 1"
    using d(2,3) e(2,3) distinct_months by (subst (asm) nth_eq_iff_index_eq) auto
  then have "?m d = ?m e" using d(2) e(2) by simp
  then have "take 2 (drop 5 d) = take 2 (drop 5 e)"
    using d(1) e(1) L by (intro two_digits_inj) (auto simp: iso_date_def)
  with parts iso_date_parts [OF d(1)] iso_date_parts [OF e(1)] show ?thesis by metis
qed

text \<open>
  Texts rewritten for display or for the provider can be read back.  Removing the spaces of a
  displayed token gives what the biller sent without spaces, showing it again changes nothing, a
  numeric token is shown in groups of at most four; and two different ISO dates are never sent
  to VFD as the same date.
\<close>

theorem texts_read_back:
  "no_spaces (formatTokenForDisplay t) = no_spaces t \<and>
   formatTokenForDisplay (formatTokenForDisplay t) = formatTokenForDisplay t \<and>
   (formatTokenForDisplay t = t \<or>
    (\<exists>groups. formatTokenForDisplay t = join_with '' '' groups \<and> list_all (\<lambda>g. length g \<le> 4) groups \<and>
       concat groups = no_spaces t)) \<and>
   inj_on formatDateForVfd {d. \<exists>x. formatDateForVfd d = Inr x}"
proof (intro conjI)
  show "formatTokenForDisplay t = t \<or>
    (\<exists>groups. formatTokenForDisplay t = join_with '' '' groups \<and> list_all (\<lambda>g. length g \<le> 4) groups \<and>
       concat groups = no_spaces t)"
    using chunks4_short [of _ "no_spaces t"]
    by (auto simp: formatTokenForDisplay_def Let_def list_all_iff intro!: exI [of _ "chunks4 (no_spaces t)"])
  show "inj_on formatDateForVfd {d. \<exists>x. formatDateForVfd d = Inr x}"
    by (auto intro!: inj_onI intro: formatDateForVfd_inj)
qed (simp_all add: no_spaces_formatToken)

end
