(* ===== verification/VfdToken.thy ===== *)
theory VfdToken
  imports VfdParsing Steps
begin

text \<open>
  The access token of the VFD adapter (\<open>vfd-payment.provider.ts\<close>, its token cache and
  \<open>authorizedFetch\<close>).  Many calls run at once on one event loop: a call runs from one \<open>await\<close>
  to the next without interruption, so \<open>authorizedFetch\<close> is written as what it does when it is
  called, when the token it waits for is there, and when a response is there.  \<open>vfd_step\<close> lets any
  number of calls, the provider, other users of the same credentials and the clock interleave.
\<close>

section \<open>Requests and responses\<close>

datatype vfd_base = WALLET_API | BILLS_API

record vfd_request =
  rq_post :: bool
  rq_base :: vfd_base
  rq_path :: string
  rq_query :: "(string \<times> string) list"
  rq_body :: "json option"

record vfd_response =
  rs_status :: nat
  rs_json :: "json option"

text \<open>\<open>await response.json().catch(() => null)\<close>: None for null and for what is not JSON.\<close>

definition body_of :: "vfd_response \<Rightarrow> json option" where
  "body_of r = non_null (rs_json r)"

definition response_ok :: "vfd_response \<Rightarrow> bool" where
  "response_ok r \<longleftrightarrow> 200 \<le> rs_status r \<and> rs_status r \<le> 299"

text \<open>\<open>body?.k\<close>.\<close>

definition field :: "string \<Rightarrow> json option \<Rightarrow> json option" where
  "field k v = (case v of None \<Rightarrow> None | Some w \<Rightarrow> obj_get k w)"

definition status_is :: "string \<Rightarrow> json option \<Rightarrow> bool" where
  "status_is cd body \<longleftrightarrow> field ''status'' body = Some (JStr cd)"

section \<open>The token\<close>

record vfd_client =
  vt_cached :: "(string \<times> int) option"
  vt_requesting :: bool

text \<open>\<open>expires_in\<close>, an integer by the provider's documentation.\<close>

definition expires_in :: "json option \<Rightarrow> int" where
  "expires_in v = (case field_text v of None \<Rightarrow> 3600 | Some s \<Rightarrow> int (digits_val s))"

definition payments_unavailable :: http_error where
  "payments_unavailable = ServiceUnavailable ''Payments are temporarily unavailable. Please try again shortly.''"

text \<open>
  \<open>requestAccessToken\<close>: the outcome of a token request with the configured credentials, from
  what the \<open>fetch\<close> gave, at the time it gave it.
\<close>

definition requestAccessToken ::
  "bool \<Rightarrow> int \<Rightarrow> (http_error + vfd_response) \<Rightarrow> http_error + (string \<times> int)" where
  "requestAccessToken configured now reply =
    (if \<not> configured then Inl payments_unavailable
     else (case reply of
         Inl e \<Rightarrow> Inl e
       | Inr response \<Rightarrow>
           (let body = body_of response;
                token = field ''access_token'' (field ''data'' body)
            in if \<not> response_ok response \<or> \<not> status_is ''00'' body \<or> \<not> js_truthy token
               then Inl payments_unavailable
               else (let ttlSeconds = min (expires_in (field ''expires_in'' (field ''data'' body))) (86400 * 30)
                     in Inr (the (field_text token), now + ttlSeconds * 1000)))))"

definition finishTokenRequest :: "http_error + (string \<times> int) \<Rightarrow> vfd_client \<Rightarrow> vfd_client" where
  "finishTokenRequest result c =
    (case result of
       Inl e \<Rightarrow> c\<lparr>vt_requesting := False\<rparr>
     | Inr token \<Rightarrow> c\<lparr>vt_cached := Some token, vt_requesting := False\<rparr>)"

text \<open>A token at hand, or a promise of one; the flag says that a new request goes out for it.\<close>

datatype token_answer = Have string | Wait bool

definition fetchAccessToken :: "vfd_client \<Rightarrow> token_answer \<times> vfd_client" where
  "fetchAccessToken c = (Wait (\<not> vt_requesting c), c\<lparr>vt_requesting := True\<rparr>)"

definition token_fresh :: "int \<Rightarrow> vfd_client \<Rightarrow> bool" where
  "token_fresh now c \<longleftrightarrow>
    (case vt_cached c of None \<Rightarrow> False | Some (t, expiresAt) \<Rightarrow> expiresAt > now + 30000)"

definition getAccessToken :: "int \<Rightarrow> vfd_client \<Rightarrow> token_answer \<times> vfd_client" where
  "getAccessToken now c =
    (if token_fresh now c then (Have (fst (the (vt_cached c))), c) else fetchAccessToken c)"

definition isInvalidWalletToken :: "vfd_response \<Rightarrow> bool" where
  "isInvalidWalletToken r \<longleftrightarrow>
    rs_status r = 403 \<and>
    contains ''invalid wallet token''
      (to_lower (case field_text (field ''message'' (body_of r)) of None \<Rightarrow> [] | Some m \<Rightarrow> m))"

definition token_rejected :: "vfd_response \<Rightarrow> bool" where
  "token_rejected r \<longleftrightarrow> rs_status r = 401 \<or> isInvalidWalletToken r"

section \<open>A call of authorizedFetch\<close>

text \<open>Where a call stands; the flag is True once it has been retried.\<close>

datatype fetch_pc =
    NotCalled
  | AwaitToken bool
  | AwaitReply string bool
  | Replied string bool vfd_response
  | Returned vfd_response
  | Threw http_error

definition proceed :: "bool \<Rightarrow> token_answer \<times> vfd_client \<Rightarrow> fetch_pc \<times> bool \<times> vfd_client" where
  "proceed retry a =
    (case a of
       (Have t, c) \<Rightarrow> (AwaitReply t retry, False, c)
     | (Wait new, c) \<Rightarrow> (AwaitToken retry, new, c))"

definition af_start :: "int \<Rightarrow> vfd_client \<Rightarrow> fetch_pc \<times> bool \<times> vfd_client" where
  "af_start now c = proceed False (getAccessToken now c)"

definition af_token :: "http_error + string \<Rightarrow> fetch_pc \<Rightarrow> fetch_pc" where
  "af_token result pc =
    (case pc of
       AwaitToken retry \<Rightarrow> (case result of Inl e \<Rightarrow> Threw e | Inr t \<Rightarrow> AwaitReply t retry)
     | _ \<Rightarrow> pc)"

definition discard_rejected :: "string \<Rightarrow> vfd_client \<Rightarrow> vfd_client" where
  "discard_rejected tok c =
    (if map_option fst (vt_cached c) = Some tok then c\<lparr>vt_cached := None\<rparr> else c)"

definition af_reply ::
  "int \<Rightarrow> string \<Rightarrow> bool \<Rightarrow> vfd_response \<Rightarrow> vfd_client \<Rightarrow> fetch_pc \<times> bool \<times> vfd_client" where
  "af_reply now tok retried response c =
    (if \<not> retried \<and> token_rejected response
     then proceed True (getAccessToken now (discard_rejected tok c))
     else (Returned response, False, c))"

section \<open>All calls together\<close>

datatype token_wait = Asked | Issued nat

text \<open>
  The provider's n-th token is \<open>issue n\<close>; \<open>vw_latest\<close> counts the tokens it has issued to these
  credentials.  \<open>vw_sent\<close> counts the fetches of a call and \<open>vw_first\<close> is the count of issued
  tokens when its first fetch was sent: both only serve to state the properties.
\<close>

record vfd_world =
  vw_client :: vfd_client
  vw_calls :: "nat \<Rightarrow> fetch_pc"
  vw_inflight :: "token_wait list"
  vw_latest :: nat
  vw_now :: int
  vw_sent :: "nat \<Rightarrow> nat"
  vw_first :: "nat \<Rightarrow> nat"

definition awaits_reply :: "fetch_pc \<Rightarrow> bool" where
  "awaits_reply pc = (case pc of AwaitReply t retried \<Rightarrow> True | _ \<Rightarrow> False)"

definition first_fetch :: "fetch_pc \<Rightarrow> bool" where
  "first_fetch pc = (case pc of AwaitReply t retried \<Rightarrow> \<not> retried | _ \<Rightarrow> False)"

text \<open>The calls move to new places; those that now await a response have sent a fetch.\<close>

definition goto :: "(nat \<Rightarrow> fetch_pc) \<Rightarrow> vfd_world \<Rightarrow> vfd_world" where
  "goto f w = w\<lparr>vw_calls := f,
     vw_sent := (\<lambda>i. if awaits_reply (f i) \<and> \<not> awaits_reply (vw_calls w i) then Suc (vw_sent w i) else vw_sent w i),
     vw_first := (\<lambda>i. if first_fetch (f i) \<and> \<not> awaits_reply (vw_calls w i) then vw_latest w else vw_first w i)\<rparr>"

definition enter :: "nat \<Rightarrow> fetch_pc \<times> bool \<times> vfd_client \<Rightarrow> vfd_world \<Rightarrow> vfd_world" where
  "enter i r w =
    (case r of (pc, new, c) \<Rightarrow>
       (goto ((vw_calls w)(i := pc)) w)\<lparr>vw_client := c,
          vw_inflight := (if new then vw_inflight w @ [Asked] else vw_inflight w)\<rparr>)"

text \<open>
  The provider rejects a request only when its token is not the last one it issued
  (\<open>serve\<close>).  A token request may fail before or after the provider has issued a token for it.
  \<open>elsewhere\<close>: another process with the same credentials asks for a token.
\<close>

inductive vfd_step :: "(nat \<Rightarrow> string) \<Rightarrow> vfd_world \<Rightarrow> vfd_world \<Rightarrow> bool" for issue where
  call: "vw_calls w i = NotCalled \<Longrightarrow>
    vfd_step issue w (enter i (af_start (vw_now w) (vw_client w)) w)"
| issues: "vw_inflight w = xs @ Asked # ys \<Longrightarrow>
    vfd_step issue w (w\<lparr>vw_latest := Suc (vw_latest w), vw_inflight := xs @ Issued (Suc (vw_latest w)) # ys\<rparr>)"
| token: "vw_inflight w = xs @ Issued n # ys \<Longrightarrow>
    requestAccessToken True (vw_now w) (Inr response) = Inr (issue n, e) \<Longrightarrow>
    vfd_step issue w ((goto (\<lambda>i. af_token (Inr (issue n)) (vw_calls w i)) w)\<lparr>
      vw_client := finishTokenRequest (Inr (issue n, e)) (vw_client w), vw_inflight := xs @ ys\<rparr>)"
| no_token: "vw_inflight w = xs @ x # ys \<Longrightarrow>
    requestAccessToken configured (vw_now w) reply = Inl err \<Longrightarrow>
    vfd_step issue w ((goto (\<lambda>i. af_token (Inl err) (vw_calls w i)) w)\<lparr>
      vw_client := finishTokenRequest (Inl err) (vw_client w), vw_inflight := xs @ ys\<rparr>)"
| elsewhere: "vfd_step issue w (w\<lparr>vw_latest := Suc (vw_latest w)\<rparr>)"
| serve: "vw_calls w i = AwaitReply t r \<Longrightarrow> (token_rejected response \<Longrightarrow> t \<noteq> issue (vw_latest w)) \<Longrightarrow>
    vfd_step issue w (goto ((vw_calls w)(i := Replied t r response)) w)"
| lost: "vw_calls w i = AwaitReply t r \<Longrightarrow> vfd_step issue w (goto ((vw_calls w)(i := Threw err)) w)"
| reply: "vw_calls w i = Replied t r response \<Longrightarrow>
    vfd_step issue w (enter i (af_reply (vw_now w) t r response (vw_client w)) w)"
| clock: "0 \<le> d \<Longrightarrow> vfd_step issue w (w\<lparr>vw_now := vw_now w + d\<rparr>)"

definition vfd_start :: "nat \<Rightarrow> int \<Rightarrow> vfd_world" where
  "vfd_start issued now = \<lparr>vw_client = \<lparr>vt_cached = None, vt_requesting = False\<rparr>,
    vw_calls = (\<lambda>i. NotCalled), vw_inflight = [], vw_latest = issued, vw_now = now,
    vw_sent = (\<lambda>i. 0), vw_first = (\<lambda>i. 0)\<rparr>"

section \<open>The invariant\<close>

text \<open>The token a call used in its first fetch, while that is not settled, and in its retry.\<close>

definition first_token :: "fetch_pc \<Rightarrow> string option" where
  "first_token pc =
    (case pc of AwaitReply t r \<Rightarrow> if r then None else Some t
              | Replied t r x \<Rightarrow> if r then None else Some t | _ \<Rightarrow> None)"

definition retry_token :: "fetch_pc \<Rightarrow> string option" where
  "retry_token pc =
    (case pc of AwaitReply t r \<Rightarrow> if r then Some t else None
              | Replied t r x \<Rightarrow> if r then Some t else None | _ \<Rightarrow> None)"

definition before_retry :: "fetch_pc \<Rightarrow> bool" where
  "before_retry pc \<longleftrightarrow> pc = AwaitToken True \<or> first_token pc \<noteq> None"

definition final_response :: "fetch_pc \<Rightarrow> vfd_response option" where
  "final_response pc =
    (case pc of Replied t r x \<Rightarrow> if r then Some x else None | Returned x \<Rightarrow> Some x | _ \<Rightarrow> None)"

definition sent_by :: "fetch_pc \<Rightarrow> nat set" where
  "sent_by pc =
    (case pc of NotCalled \<Rightarrow> {0} | AwaitToken r \<Rightarrow> {if r then 1 else 0}
              | AwaitReply t r \<Rightarrow> {if r then 2 else 1} | Replied t r x \<Rightarrow> {if r then 2 else 1}
              | _ \<Rightarrow> {0, 1, 2})"

lemmas pc_defs = first_token_def retry_token_def before_retry_def final_response_def sent_by_def
  awaits_reply_def first_fetch_def

definition slot_ok :: "vfd_world \<Rightarrow> bool" where
  "slot_ok w \<longleftrightarrow> length (vw_inflight w) \<le> 1 \<and>
    (vt_requesting (vw_client w) \<longleftrightarrow> vw_inflight w \<noteq> []) \<and>
    (vw_inflight w \<noteq> [] \<longrightarrow> \<not> token_fresh (vw_now w) (vw_client w))"

definition issued_ok :: "vfd_world \<Rightarrow> bool" where
  "issued_ok w \<longleftrightarrow> (\<forall>n. Issued n \<in> set (vw_inflight w) \<longrightarrow>
    n \<le> vw_latest w \<and> (\<forall>i. before_retry (vw_calls w i) \<longrightarrow> vw_first w i < n))"

definition cached_ok :: "(nat \<Rightarrow> string) \<Rightarrow> vfd_world \<Rightarrow> bool" where
  "cached_ok issue w \<longleftrightarrow> (\<forall>t e. vt_cached (vw_client w) = Some (t, e) \<longrightarrow>
    (\<exists>j \<le> vw_latest w. t = issue j \<and>
      (\<forall>i t'. first_token (vw_calls w i) = Some t' \<longrightarrow> t' = t \<or> vw_first w i < j)))"

definition call_ok :: "(nat \<Rightarrow> string) \<Rightarrow> nat \<Rightarrow> nat \<Rightarrow> nat \<Rightarrow> fetch_pc \<Rightarrow> bool" where
  "call_ok issue latest sent first pc \<longleftrightarrow>
    first \<le> latest \<and> sent \<in> sent_by pc \<and>
    (\<forall>t. retry_token pc = Some t \<longrightarrow> (\<exists>j \<le> latest. t = issue j \<and> first < j)) \<and>
    (\<forall>x. final_response pc = Some x \<and> token_rejected x \<longrightarrow> first + 2 \<le> latest)"

definition calls_ok :: "(nat \<Rightarrow> string) \<Rightarrow> vfd_world \<Rightarrow> bool" where
  "calls_ok issue w \<longleftrightarrow>
    (\<forall>i. call_ok issue (vw_latest w) (vw_sent w i) (vw_first w i) (vw_calls w i))"

definition vfd_ok :: "(nat \<Rightarrow> string) \<Rightarrow> vfd_world \<Rightarrow> bool" where
  "vfd_ok issue w \<longleftrightarrow> slot_ok w \<and> issued_ok w \<and> cached_ok issue w \<and> calls_ok issue w"

lemma vfd_start_ok: "vfd_ok issue (vfd_start n now)"
  by (simp add: vfd_ok_def slot_ok_def issued_ok_def cached_ok_def calls_ok_def call_ok_def vfd_start_def pc_defs)

lemma goto_sel [simp]:
  "vw_client (goto f w) = vw_client w" "vw_calls (goto f w) = f" "vw_inflight (goto f w) = vw_inflight w"
  "vw_latest (goto f w) = vw_latest w" "vw_now (goto f w) = vw_now w"
  by (simp_all add: goto_def)

lemma goto_first: "vw_first (goto f w) i =
    (if first_fetch (f i) \<and> \<not> awaits_reply (vw_calls w i) then vw_latest w else vw_first w i)"
  by (simp add: goto_def)

lemma goto_sent: "vw_sent (goto f w) i =
    (if awaits_reply (f i) \<and> \<not> awaits_reply (vw_calls w i) then Suc (vw_sent w i) else vw_sent w i)"
  by (simp add: goto_def)

lemma enter_sel [simp]:
  "vw_client (enter i (pc, new, c) w) = c" "vw_calls (enter i (pc, new, c) w) = (vw_calls w)(i := pc)"
  "vw_inflight (enter i (pc, new, c) w) = (if new then vw_inflight w @ [Asked] else vw_inflight w)"
  "vw_latest (enter i (pc, new, c) w) = vw_latest w" "vw_now (enter i (pc, new, c) w) = vw_now w"
  by (simp_all add: enter_def)

text \<open>What \<open>getAccessToken\<close> can answer.\<close>

lemma getAccessToken_cases:
  obtains (got) t e where "getAccessToken now c = (Have t, c)" "vt_cached c = Some (t, e)" "token_fresh now c"
  | (waits) "getAccessToken now c = (Wait (\<not> vt_requesting c), c\<lparr>vt_requesting := True\<rparr>)" "\<not> token_fresh now c"
  by (cases "token_fresh now c")
    (auto simp: getAccessToken_def token_fresh_def fetchAccessToken_def split: option.splits)

lemma token_fresh_sel [simp]:
  "token_fresh now (c\<lparr>vt_requesting := b\<rparr>) = token_fresh now c"
  by (simp add: token_fresh_def)

lemma token_fresh_discard: "token_fresh now (discard_rejected t c) \<Longrightarrow>
    token_fresh now c \<and> discard_rejected t c = c \<and> map_option fst (vt_cached c) \<noteq> Some t"
  by (auto simp: token_fresh_def discard_rejected_def split: option.splits if_splits)

lemma token_fresh_clock: "0 \<le> d \<Longrightarrow> token_fresh (now + d) c \<Longrightarrow> token_fresh now c"
  by (auto simp: token_fresh_def split: option.splits)

lemma vfd_okI:
  "slot_ok w \<Longrightarrow> issued_ok w \<Longrightarrow> cached_ok issue w \<Longrightarrow> calls_ok issue w \<Longrightarrow> vfd_ok issue w"
  by (simp add: vfd_ok_def)

lemma cached_okD:
  "cached_ok issue w \<Longrightarrow> vt_cached (vw_client w) = Some (t, e) \<Longrightarrow> \<exists>j \<le> vw_latest w. t = issue j \<and>
      (\<forall>i t'. first_token (vw_calls w i) = Some t' \<longrightarrow> t' = t \<or> vw_first w i < j)"
  by (simp add: cached_ok_def)

lemma calls_okD: "calls_ok issue w \<Longrightarrow> call_ok issue (vw_latest w) (vw_sent w i) (vw_first w i) (vw_calls w i)"
  by (simp add: calls_ok_def)

lemma call_ok_later: "call_ok issue m a b pc \<Longrightarrow> m \<le> n \<Longrightarrow> call_ok issue n a b pc"
  unfolding call_ok_def by (meson le_trans)

lemma slot_ok_idle: "slot_ok w \<Longrightarrow> token_fresh (vw_now w) (vw_client w) \<Longrightarrow>
    vw_inflight w = [] \<and> \<not> vt_requesting (vw_client w)"
  by (auto simp: slot_ok_def)

lemma first_fetch_awaits: "first_fetch pc \<Longrightarrow> awaits_reply pc"
  by (cases pc) (simp_all add: first_fetch_def awaits_reply_def)

lemma goto_unmoved:
  "f k = vw_calls w k \<Longrightarrow> vw_first (goto f w) k = vw_first w k"
  "f k = vw_calls w k \<Longrightarrow> vw_sent (goto f w) k = vw_sent w k"
  by (simp_all add: goto_first goto_sent) (blast dest: first_fetch_awaits)

lemma goto_one: "goto ((vw_calls w)(i := pc)) w = enter i (pc, False, vw_client w) w"
  by (simp add: enter_def goto_def)

text \<open>One call moves: what each part of the invariant asks of its new place.\<close>

definition new_first :: "nat \<Rightarrow> fetch_pc \<Rightarrow> vfd_world \<Rightarrow> nat" where
  "new_first i pc w = (if first_fetch pc \<and> \<not> awaits_reply (vw_calls w i) then vw_latest w else vw_first w i)"

definition new_sent :: "nat \<Rightarrow> fetch_pc \<Rightarrow> vfd_world \<Rightarrow> nat" where
  "new_sent i pc w = (if awaits_reply pc \<and> \<not> awaits_reply (vw_calls w i) then Suc (vw_sent w i) else vw_sent w i)"

lemma enter_first: "vw_first (enter i (pc, new, c) w) k = (if k = i then new_first i pc w else vw_first w k)"
  and enter_sent: "vw_sent (enter i (pc, new, c) w) k = (if k = i then new_sent i pc w else vw_sent w k)"
proof -
  have e: "vw_first (enter i (pc, new, c) w) = vw_first (goto ((vw_calls w)(i := pc)) w)"
    "vw_sent (enter i (pc, new, c) w) = vw_sent (goto ((vw_calls w)(i := pc)) w)"
    by (simp_all add: enter_def)
  show "vw_first (enter i (pc, new, c) w) k = (if k = i then new_first i pc w else vw_first w k)"
    by (cases "k = i") (simp_all add: e goto_unmoved, simp add: goto_first new_first_def)
  show "vw_sent (enter i (pc, new, c) w) k = (if k = i then new_sent i pc w else vw_sent w k)"
    by (cases "k = i") (simp_all add: e goto_unmoved, simp add: goto_sent new_sent_def)
qed

lemma enter_keeps:
  assumes ok: "vfd_ok issue w"
    and here: "call_ok issue (vw_latest w) (new_sent i pc w) (new_first i pc w) pc"
    and slot: "length (vw_inflight w) + (if new then 1 else 0) \<le> 1"
      "vt_requesting c \<longleftrightarrow> vw_inflight w \<noteq> [] \<or> new"
      "vw_inflight w \<noteq> [] \<or> new \<Longrightarrow> \<not> token_fresh (vw_now w) c"
    and flight: "\<And>n. Issued n \<in> set (vw_inflight w) \<Longrightarrow> before_retry pc \<Longrightarrow> new_first i pc w < n"
    and cache: "vt_cached c = None \<or> vt_cached c = vt_cached (vw_client w)"
      "first_token pc = None \<or> vt_cached c = None \<or> first_token pc = map_option fst (vt_cached c) \<or>
        first_token pc = first_token (vw_calls w i) \<and> new_first i pc w = vw_first w i"
  shows "vfd_ok issue (enter i (pc, new, c) w)"
proof (rule vfd_okI)
  have issued: "issued_ok w" and cached: "cached_ok issue w" and calls: "calls_ok issue w"
    using ok by (simp_all add: vfd_ok_def)
  show "slot_ok (enter i (pc, new, c) w)" using slot by (auto simp: slot_ok_def)
  show "issued_ok (enter i (pc, new, c) w)"
    using issued flight by (auto simp: issued_ok_def enter_first)
  show "calls_ok issue (enter i (pc, new, c) w)"
    using calls here by (auto simp: calls_ok_def enter_first enter_sent)
  show "cached_ok issue (enter i (pc, new, c) w)"
  proof (cases "vt_cached c")
    case None
    then show ?thesis by (simp add: cached_ok_def)
  next
    case (Some te)
    obtain t e where te: "te = (t, e)" by (cases te)
    with Some cache(1) have "vt_cached (vw_client w) = Some (t, e)" by simp
    from cached_okD [OF cached this] obtain j where j: "j \<le> vw_latest w" "t = issue j"
      and old: "\<And>i t'. first_token (vw_calls w i) = Some t' \<Longrightarrow> t' = t \<or> vw_first w i < j" by blast
    have "t' = t \<or> new_first i pc w < j" if "first_token pc = Some t'" for t'
      using cache(2) old [of i t'] that Some te by auto
    with j old Some te show ?thesis
      by (auto simp: cached_ok_def enter_first)
  qed
qed

text \<open>A call asks for a token, the first time or after a rejection.\<close>

lemma proceed_keeps:
  assumes ok: "vfd_ok issue w"
    and client: "vt_cached c = None \<or> vt_cached c = vt_cached (vw_client w)"
      "vt_requesting c = vt_requesting (vw_client w)"
    and place: "retried \<Longrightarrow> \<exists>t. first_token (vw_calls w i) = Some t \<and> map_option fst (vt_cached c) \<noteq> Some t"
      "retried \<Longrightarrow> vw_sent w i = 1" "\<not> retried \<Longrightarrow> vw_calls w i = NotCalled" "\<not> awaits_reply (vw_calls w i)"
  shows "vfd_ok issue (enter i (proceed retried (getAccessToken (vw_now w) c)) w)"
proof -
  have slot: "slot_ok w" and issued: "issued_ok w" and cached: "cached_ok issue w" and calls: "calls_ok issue w"
    using ok by (simp_all add: vfd_ok_def)
  have here: "call_ok issue (vw_latest w) (vw_sent w i) (vw_first w i) (vw_calls w i)"
    by (rule calls_okD [OF calls])
  have fresh: "token_fresh (vw_now w) c \<Longrightarrow> token_fresh (vw_now w) (vw_client w)"
    using client(1) by (auto simp: token_fresh_def)
  show ?thesis
  proof (cases rule: getAccessToken_cases [of "vw_now w" c])
    case (got t e)
    have idle: "vw_inflight w = []" "\<not> vt_requesting c"
      using slot_ok_idle [OF slot fresh [OF got(3)]] client(2) by simp_all
    have "vt_cached (vw_client w) = Some (t, e)" using client(1) got(2) by simp
    from cached_okD [OF cached this] obtain j where j: "j \<le> vw_latest w" "t = issue j"
      and old: "\<And>t'. first_token (vw_calls w i) = Some t' \<Longrightarrow> t' = t \<or> vw_first w i < j" by blast
    have newer: "retried \<Longrightarrow> vw_first w i < j" using place(1) old got(2) by auto
    show ?thesis unfolding got(1) proceed_def prod.case token_answer.case
    proof (rule enter_keeps [OF ok])
      show "call_ok issue (vw_latest w) (new_sent i (AwaitReply t retried) w)
          (new_first i (AwaitReply t retried) w) (AwaitReply t retried)"
        using here place j newer
        by (cases retried) (auto simp: call_ok_def new_sent_def new_first_def pc_defs)
    qed (use idle client got in \<open>auto simp: first_token_def\<close>)
  next
    case waits
    show ?thesis unfolding waits(1) proceed_def prod.case token_answer.case
    proof (rule enter_keeps [OF ok])
      show "call_ok issue (vw_latest w) (new_sent i (AwaitToken retried) w)
          (new_first i (AwaitToken retried) w) (AwaitToken retried)"
        using here place
        by (cases retried) (auto simp: call_ok_def new_sent_def new_first_def pc_defs)
      show "new_first i (AwaitToken retried) w < n"
        if "Issued n \<in> set (vw_inflight w)" "before_retry (AwaitToken retried)" for n
        using that issued place(1)
        by (auto simp: new_first_def first_fetch_def before_retry_def first_token_def issued_ok_def)
    qed (use slot client waits(2) in \<open>auto simp: first_token_def slot_ok_def Suc_le_eq le_Suc_eq\<close>)
  qed
qed

lemma moves_keep:
  assumes ok: "vfd_ok issue w"
    and place: "call_ok issue (vw_latest w) (new_sent i pc w) (new_first i pc w) pc"
    and settled: "before_retry pc \<Longrightarrow> first_token pc = first_token (vw_calls w i)"
      "before_retry pc \<Longrightarrow> before_retry (vw_calls w i) \<and> new_first i pc w = vw_first w i"
  shows "vfd_ok issue (enter i (pc, False, vw_client w) w)"
proof (rule enter_keeps [OF ok place])
  have slot: "slot_ok w" and issued: "issued_ok w" using ok by (simp_all add: vfd_ok_def)
  show "new_first i pc w < n" if "Issued n \<in> set (vw_inflight w)" "before_retry pc" for n
    using that issued settled(2) by (auto simp: issued_ok_def)
  show "first_token pc = None \<or> vt_cached (vw_client w) = None \<or>
      first_token pc = map_option fst (vt_cached (vw_client w)) \<or>
      first_token pc = first_token (vw_calls w i) \<and> new_first i pc w = vw_first w i"
    using settled by (auto simp: before_retry_def)
qed (use ok in \<open>auto simp: vfd_ok_def slot_ok_def\<close>)

lemma serve_keeps:
  assumes ok: "vfd_ok issue w" and pc: "vw_calls w i = AwaitReply t r"
    and rule: "token_rejected x \<Longrightarrow> t \<noteq> issue (vw_latest w)"
  shows "vfd_ok issue (goto ((vw_calls w)(i := Replied t r x)) w)"
  unfolding goto_one
proof (rule moves_keep [OF ok])
  have "call_ok issue (vw_latest w) (vw_sent w i) (vw_first w i) (AwaitReply t r)"
    using ok calls_okD [of issue w i] pc by (simp add: vfd_ok_def)
  then show "call_ok issue (vw_latest w) (new_sent i (Replied t r x) w) (new_first i (Replied t r x) w)
      (Replied t r x)"
    using rule
    by (cases r) (auto simp: call_ok_def new_sent_def new_first_def pc_defs le_less)
qed (use pc in \<open>auto simp: pc_defs new_first_def\<close>)

lemma lost_keeps:
  assumes ok: "vfd_ok issue w" and pc: "vw_calls w i = AwaitReply t r"
  shows "vfd_ok issue (goto ((vw_calls w)(i := Threw err)) w)"
  unfolding goto_one
proof (rule moves_keep [OF ok])
  have "call_ok issue (vw_latest w) (vw_sent w i) (vw_first w i) (AwaitReply t r)"
    using ok calls_okD [of issue w i] pc by (simp add: vfd_ok_def)
  then show "call_ok issue (vw_latest w) (new_sent i (Threw err) w) (new_first i (Threw err) w) (Threw err)"
    by (cases r) (auto simp: call_ok_def new_sent_def new_first_def pc_defs)
qed (simp_all add: pc_defs)

lemma reply_keeps:
  assumes ok: "vfd_ok issue w" and pc: "vw_calls w i = Replied t r x"
  shows "vfd_ok issue (enter i (af_reply (vw_now w) t r x (vw_client w)) w)"
proof -
  have here: "call_ok issue (vw_latest w) (vw_sent w i) (vw_first w i) (Replied t r x)"
    using ok calls_okD [of issue w i] pc by (simp add: vfd_ok_def)
  show ?thesis
  proof (cases "\<not> r \<and> token_rejected x")
    case True
    then show ?thesis unfolding af_reply_def if_P [OF True]
      by (intro proceed_keeps [OF ok])
        (use here pc in \<open>auto simp: discard_rejected_def pc_defs call_ok_def split: if_splits\<close>)
  next
    case False
    show ?thesis unfolding af_reply_def if_not_P [OF False]
    proof (rule moves_keep [OF ok])
      show "call_ok issue (vw_latest w) (new_sent i (Returned x) w) (new_first i (Returned x) w) (Returned x)"
        using here False by (cases r) (auto simp: call_ok_def new_sent_def new_first_def pc_defs)
    qed (simp_all add: pc_defs)
  qed
qed

text \<open>The provider issues a token; a token request ends; time passes.\<close>

lemma one_inflight: "slot_ok w \<Longrightarrow> vw_inflight w = xs @ x # ys \<Longrightarrow> xs = [] \<and> ys = []"
  by (auto simp: slot_ok_def)

lemma latest_keeps:
  assumes ok: "vfd_ok issue w"
    and flight: "fl = vw_inflight w \<or> vw_inflight w \<noteq> [] \<and> fl = [Issued (Suc (vw_latest w))]"
  shows "vfd_ok issue (w\<lparr>vw_latest := Suc (vw_latest w), vw_inflight := fl\<rparr>)"
proof (rule vfd_okI)
  have slot: "slot_ok w" and issued: "issued_ok w" and cached: "cached_ok issue w" and calls: "calls_ok issue w"
    using ok by (simp_all add: vfd_ok_def)
  show "slot_ok (w\<lparr>vw_latest := Suc (vw_latest w), vw_inflight := fl\<rparr>)"
    using slot flight by (auto simp: slot_ok_def)
  have "vw_first w i \<le> vw_latest w" for i
    using calls_okD [OF calls, of i] by (simp add: call_ok_def)
  then show "issued_ok (w\<lparr>vw_latest := Suc (vw_latest w), vw_inflight := fl\<rparr>)"
    using issued flight by (auto simp: issued_ok_def less_Suc_eq_le le_SucI)
  show "cached_ok issue (w\<lparr>vw_latest := Suc (vw_latest w), vw_inflight := fl\<rparr>)"
    using cached unfolding cached_ok_def by simp (meson le_SucI)
  show "calls_ok issue (w\<lparr>vw_latest := Suc (vw_latest w), vw_inflight := fl\<rparr>)"
    using calls by (auto simp: calls_ok_def intro: call_ok_later)
qed

lemma af_token_idem: "\<not> (\<exists>r. pc = AwaitToken r) \<Longrightarrow> af_token x pc = pc"
  by (cases pc) (simp_all add: af_token_def)

lemma token_call_ok:
  assumes "call_ok issue (vw_latest w) (vw_sent w i) (vw_first w i) (vw_calls w i)"
    and "n \<le> vw_latest w" and "before_retry (vw_calls w i) \<Longrightarrow> vw_first w i < n"
  shows "call_ok issue (vw_latest w)
    (vw_sent (goto (\<lambda>i. af_token (Inr (issue n)) (vw_calls w i)) w) i)
    (vw_first (goto (\<lambda>i. af_token (Inr (issue n)) (vw_calls w i)) w) i)
    (af_token (Inr (issue n)) (vw_calls w i))"
proof (cases "\<exists>r. vw_calls w i = AwaitToken r")
  case True
  then obtain r where "vw_calls w i = AwaitToken r" by blast
  with assms show ?thesis
    by (cases r) (auto simp: call_ok_def goto_first goto_sent af_token_def pc_defs)
next
  case False
  then show ?thesis using assms(1) by (simp add: goto_unmoved af_token_idem)
qed

lemma token_keeps:
  assumes ok: "vfd_ok issue w" and fl: "vw_inflight w = xs @ Issued n # ys"
  shows "vfd_ok issue ((goto (\<lambda>i. af_token (Inr (issue n)) (vw_calls w i)) w)\<lparr>
      vw_client := finishTokenRequest (Inr (issue n, e)) (vw_client w), vw_inflight := xs @ ys\<rparr>)" (is "vfd_ok _ ?v")
proof (rule vfd_okI)
  have slot: "slot_ok w" and issued: "issued_ok w" and calls: "calls_ok issue w"
    using ok by (simp_all add: vfd_ok_def)
  have fl1: "xs = [] \<and> ys = []" by (rule one_inflight [OF slot fl])
  with fl issued have n: "n \<le> vw_latest w" and first: "\<And>i. before_retry (vw_calls w i) \<Longrightarrow> vw_first w i < n"
    by (auto simp: issued_ok_def)
  show "slot_ok ?v" using fl1 by (simp add: slot_ok_def finishTokenRequest_def)
  show "issued_ok ?v" using fl1 by (simp add: issued_ok_def)
  show "calls_ok issue ?v"
    using calls token_call_ok [OF calls_okD [OF calls] n first] by (simp add: calls_ok_def)
  have "t' = issue n \<or> vw_first (goto (\<lambda>i. af_token (Inr (issue n)) (vw_calls w i)) w) i < n"
    if t': "first_token (af_token (Inr (issue n)) (vw_calls w i)) = Some t'" for i t'
  proof (cases "\<exists>r. vw_calls w i = AwaitToken r")
    case True
    with t' show ?thesis by (auto simp: af_token_def first_token_def split: if_splits)
  next
    case False
    then have "before_retry (vw_calls w i)" using t' by (simp add: af_token_idem before_retry_def)
    with first False show ?thesis by (simp add: goto_unmoved af_token_idem)
  qed
  with n show "cached_ok issue ?v" by (auto simp: cached_ok_def finishTokenRequest_def)
qed

lemma no_token_keeps:
  assumes ok: "vfd_ok issue w" and fl: "vw_inflight w = xs @ x # ys"
  shows "vfd_ok issue ((goto (\<lambda>i. af_token (Inl err) (vw_calls w i)) w)\<lparr>
      vw_client := finishTokenRequest (Inl err) (vw_client w), vw_inflight := xs @ ys\<rparr>)" (is "vfd_ok _ ?v")
proof (rule vfd_okI)
  have slot: "slot_ok w" and issued: "issued_ok w" and cached: "cached_ok issue w" and calls: "calls_ok issue w"
    using ok by (simp_all add: vfd_ok_def)
  have fl1: "xs = [] \<and> ys = []" by (rule one_inflight [OF slot fl])
  let ?g = "goto (\<lambda>i. af_token (Inl err) (vw_calls w i)) w"
  have same: "vw_first ?g i = vw_first w i" "vw_sent ?g i = vw_sent w i"
    and token: "first_token (af_token (Inl err) (vw_calls w i)) = first_token (vw_calls w i)" for i
    by (cases "vw_calls w i"; simp add: goto_first goto_sent af_token_def pc_defs)+
  show "slot_ok ?v" using fl1 by (simp add: slot_ok_def finishTokenRequest_def)
  show "issued_ok ?v" using fl1 by (simp add: issued_ok_def)
  show "cached_ok issue ?v" using cached by (simp add: cached_ok_def finishTokenRequest_def same token)
  have "call_ok issue (vw_latest w) (vw_sent w i) (vw_first w i) (af_token (Inl err) (vw_calls w i))" for i
    using calls_okD [OF calls, of i]
    by (cases "vw_calls w i") (auto simp: call_ok_def af_token_def pc_defs split: if_splits)
  then show "calls_ok issue ?v" by (simp add: calls_ok_def same)
qed

lemma clock_keeps: "vfd_ok issue w \<Longrightarrow> 0 \<le> d \<Longrightarrow> vfd_ok issue (w\<lparr>vw_now := vw_now w + d\<rparr>)"
  by (auto simp: vfd_ok_def slot_ok_def issued_ok_def cached_ok_def calls_ok_def dest: token_fresh_clock)

lemma vfd_step_keeps:
  assumes "vfd_step issue w w'" and "vfd_ok issue w"
  shows "vfd_ok issue w'"
  using assms
proof (induction rule: vfd_step.induct)
  case (call w i)
  then show ?case unfolding af_start_def
    by (intro proceed_keeps) (auto simp: awaits_reply_def)
next
  case (issues w xs ys)
  then have "xs = [] \<and> ys = []" using one_inflight by (auto simp: vfd_ok_def)
  with issues show ?case by (intro latest_keeps) auto
next
  case (elsewhere w)
  then show ?case using latest_keeps [of issue w "vw_inflight w"] by simp
qed (blast intro: token_keeps no_token_keeps serve_keeps lost_keeps reply_keeps clock_keeps)+

interpretation vfd_calls: step_system "vfd_step issue" "vfd_ok issue" for issue
  by unfold_locales (rule vfd_step_keeps)

text \<open>
  C36: The access token under any interleaving.  However many calls run at once, while other
  processes with the same credentials may replace the token at any time and token requests may
  fail, this process has at most one token request in flight; every call sends its request at most
  twice; and a call ends with a rejected token only if the provider issued two further tokens
  after it was first sent.
\<close>

theorem token_calls_safe:
  assumes "(vfd_step issue)\<^sup>*\<^sup>* (vfd_start n now) w"
  shows "length (vw_inflight w) \<le> 1 \<and> vw_sent w i \<le> 2 \<and>
    (case vw_calls w i of Returned r \<Rightarrow> \<not> token_rejected r \<or> vw_first w i + 2 \<le> vw_latest w | _ \<Rightarrow> True)"
proof -
  have ok: "vfd_ok issue w" by (rule vfd_calls.steps_keep [OF assms vfd_start_ok])
  then have "call_ok issue (vw_latest w) (vw_sent w i) (vw_first w i) (vw_calls w i)"
    by (simp add: vfd_ok_def calls_ok_def)
  then show ?thesis
    using ok by (cases "vw_calls w i")
      (auto simp: call_ok_def sent_by_def final_response_def vfd_ok_def slot_ok_def split: if_splits)
qed

text \<open>A rejected call whose token another call has already replaced takes the new one.\<close>

lemma af_reply_reuses:
  assumes "token_rejected r" and "vt_cached c = Some (t', e)" and "t' \<noteq> t" and "e > now + 30000"
  shows "af_reply now t False r c = (AwaitReply t' True, False, c)"
  using assms by (simp add: af_reply_def discard_rejected_def getAccessToken_def token_fresh_def proceed_def)

text \<open>Two calls that start together share the first token.\<close>

definition sample_token_reply :: vfd_response where
  "sample_token_reply = \<lparr>rs_status = 200, rs_json = Some (JObj [(''status'', JStr ''00''),
    (''data'', JObj [(''access_token'', JStr ''T1'')])])\<rparr>"

lemma sample_token: "requestAccessToken True 0 (Inr sample_token_reply) = Inr (''T1'', 3600000)"
  by code_simp

definition sample_issue :: "nat \<Rightarrow> string" where
  "sample_issue k = ''T'' @ nat_str k"

lemma sample_issue_1: "sample_issue (Suc 0) = ''T1''"
  by (simp add: sample_issue_def nat_str.simps [of "Suc 0"] char_of_def bit_Suc bit_0)

theorem token_calls_safe_witness:
  "\<exists>w. (vfd_step sample_issue)\<^sup>*\<^sup>* (vfd_start 0 0) w \<and>
    vw_calls w 3 = AwaitReply ''T1'' False \<and> vw_calls w 4 = AwaitReply ''T1'' False \<and>
    vw_latest w = 1 \<and> length (vw_inflight w) \<le> 1 \<and> vw_sent w 3 \<le> 2"
proof -
  let ?w0 = "vfd_start 0 0"
  let ?w1 = "enter 3 (af_start (vw_now ?w0) (vw_client ?w0)) ?w0"
  let ?w2 = "enter 4 (af_start (vw_now ?w1) (vw_client ?w1)) ?w1"
  let ?w3 = "?w2\<lparr>vw_latest := Suc (vw_latest ?w2), vw_inflight := [] @ Issued (Suc (vw_latest ?w2)) # []\<rparr>"
  let ?w4 = "(goto (\<lambda>i. af_token (Inr (sample_issue (Suc 0))) (vw_calls ?w3 i)) ?w3)\<lparr>
      vw_client := finishTokenRequest (Inr (sample_issue (Suc 0), 3600000)) (vw_client ?w3),
      vw_inflight := [] @ []\<rparr>"
  note start = vfd_start_def af_start_def getAccessToken_def token_fresh_def fetchAccessToken_def proceed_def
  have s1: "vfd_step sample_issue ?w0 ?w1" by (rule vfd_step.call) (simp add: vfd_start_def)
  have s2: "vfd_step sample_issue ?w1 ?w2" by (rule vfd_step.call) (simp add: start)
  have s3: "vfd_step sample_issue ?w2 ?w3" by (rule vfd_step.issues) (simp add: start)
  have s4: "vfd_step sample_issue ?w3 ?w4"
  proof (rule vfd_step.token)
    show "vw_inflight ?w3 = [] @ Issued (Suc 0) # []" by (simp add: start)
    have "vw_now ?w3 = 0" by (simp add: start)
    then show "requestAccessToken True (vw_now ?w3) (Inr sample_token_reply) =
        Inr (sample_issue (Suc 0), 3600000)"
      using sample_token by (simp only: sample_issue_1)
  qed
  note extend = rtranclp.rtrancl_into_rtrancl [of "vfd_step sample_issue" ?w0]
  have run: "(vfd_step sample_issue)\<^sup>*\<^sup>* ?w0 ?w4"
    by (rule extend [OF extend [OF extend [OF r_into_rtranclp [of "vfd_step sample_issue", OF s1] s2] s3] s4])
  have "vw_calls ?w4 3 = AwaitReply ''T1'' False" "vw_calls ?w4 4 = AwaitReply ''T1'' False" "vw_latest ?w4 = 1"
    by (simp_all add: start af_token_def sample_issue_1)
  then show ?thesis using token_calls_safe [OF run, of 3] run by blast
qed

end
