(* ===== verification/VfdAdapter.thy ===== *)
theory VfdAdapter
  imports VfdToken Bills
begin

text \<open>
  The operations of \<open>VfdPaymentProvider\<close> (\<open>vfd-payment.provider.ts\<close>): the request each sends and
  what it makes of the answer.  \<open>send\<close> is \<open>authorizedFetch\<close> (theory \<open>VfdToken\<close>) as one call sees
  it: an exception or a response.  A base URL with its path and parameters is kept as these parts;
  their percent-encoding and the log lines are not modelled.  \<open>sha512\<close> and \<open>num\<close> (the value of a
  decimal text) are arguments.  Both APIs of the adapter are records of these operations:
  \<open>vfd_provider\<close> and \<open>vfd_bills\<close>.
\<close>

type_synonym vfd_send = "vfd_request \<Rightarrow> http_error + vfd_response"

definition vfd_get :: "vfd_base \<Rightarrow> string \<Rightarrow> (string \<times> string) list \<Rightarrow> vfd_request" where
  "vfd_get base path query =
    \<lparr>rq_post = False, rq_base = base, rq_path = path, rq_query = query, rq_body = None\<rparr>"

definition text_or_empty :: "json option \<Rightarrow> string" where
  "text_or_empty v = (case field_text v of None \<Rightarrow> [] | Some t \<Rightarrow> t)"

text \<open>Reading a property of null or undefined, or iterating over what is not iterable.\<close>

definition type_error :: http_error where
  "type_error = PlainError ''TypeError''"

text \<open>\<open>d.toFixed(2)\<close> and \<open>d.toDecimalPlaces(2).toString()\<close>.\<close>

definition kobo :: "money \<Rightarrow> nat" where
  "kobo a = nat \<bar>round_half_up (a * 10 ^ 2)\<bar>"

definition fixed2_str :: "money \<Rightarrow> string" where
  "fixed2_str a = (if a < 0 then ''-'' else []) @ nat_str (kobo a div 100) @ ''.'' @
    pad_start 2 CHR ''0'' (nat_str (kobo a mod 100))"

definition dp2_str :: "money \<Rightarrow> string" where
  "dp2_str a = (if a < 0 \<and> kobo a \<noteq> 0 then ''-'' else []) @ nat_str (kobo a div 100) @
    (if kobo a mod 100 = 0 then []
     else if kobo a mod 10 = 0 then ''.'' @ nat_str (kobo a mod 100 div 10)
     else ''.'' @ pad_start 2 CHR ''0'' (nat_str (kobo a mod 100)))"

section \<open>Accounts and banks\<close>

definition account_unavailable :: http_error where
  "account_unavailable =
    ServiceUnavailable ''Account creation is currently unavailable. Please try again shortly.''"

definition vfd_createAccount :: "vfd_send \<Rightarrow> applicant \<Rightarrow> http_error + provider_account" where
  "vfd_createAccount send applicant =
    (case formatDateForVfd (ap_dateOfBirth applicant) of
       Inl e \<Rightarrow> Inl e
     | Inr dob \<Rightarrow>
    (case send \<lparr>rq_post = True, rq_base = WALLET_API, rq_path = ''/client/create'',
               rq_query = [(''bvn'', ap_bvn applicant), (''dateOfBirth'', dob)], rq_body = None\<rparr> of
       Inl e \<Rightarrow> Inl e
     | Inr response \<Rightarrow>
        (let body = body_of response; data = field ''data'' body in
         if \<not> js_truthy body then Inl account_unavailable
         else if status_is ''00'' body \<or> status_is ''01'' body then
           (if \<not> js_truthy (field ''accountNo'' data) then Inl account_unavailable
            else (let name = join_with '' '' (List.map_filter
                     (\<lambda>k. if js_truthy (field k data) then field_text (field k data) else None)
                     [''firstname'', ''middlename'', ''lastname''])
                  in Inr \<lparr>pa_provider = VFD, pa_accountNumber = text_or_empty (field ''accountNo'' data),
                          pa_accountName = (if name = [] then None else Some name),
                          pa_tierRaw = field_text (field ''currentTier'' data),
                          pa_metadata = (case non_null data of None \<Rightarrow> JObj [] | Some d \<Rightarrow> d)\<rparr>))
         else if list_ex (\<lambda>c. status_is c body) [''102'', ''103'', ''106'', ''199'', ''929''] then
           Inl (BadRequest (''We could not create your account with the details provided. '' @
             ''Please check them and try again.''))
         else Inl account_unavailable)))"

definition vfd_resolveTransferType :: "string \<Rightarrow> string \<Rightarrow> transfer_type" where
  "vfd_resolveTransferType ownBankCode bankCode =
    (if js_trim bankCode = ownBankCode then INTRA else INTER)"

definition vfd_listBanks :: "vfd_send \<Rightarrow> http_error + provider_bank list" where
  "vfd_listBanks send =
    (case send (vfd_get WALLET_API ''/bank'' []) of
       Inl e \<Rightarrow> Inl e
     | Inr response \<Rightarrow>
        (let body = body_of response in
         if \<not> response_ok response \<or> \<not> status_is ''00'' body
         then Inl (ServiceUnavailable ''Unable to fetch the bank list right now. Please try again.'')
         else Inr (normalizeVfdBankList (field ''data'' body))))"

text \<open>\<open>accountNumber ? ... : ''\<close>: an empty account number asks for the pool account, as none does.\<close>

definition vfd_getAccountDetails :: "vfd_send \<Rightarrow> string option \<Rightarrow> http_error + account_details" where
  "vfd_getAccountDetails send accountNumber =
    (case send (vfd_get WALLET_API ''/account/enquiry''
            (case accountNumber of None \<Rightarrow> [] | Some a \<Rightarrow> if a = [] then [] else [(''accountNumber'', a)])) of
       Inl e \<Rightarrow> Inl e
     | Inr response \<Rightarrow>
        (let body = body_of response; data = field ''data'' body in
         if \<not> response_ok response \<or> \<not> status_is ''00'' body \<or> \<not> js_truthy (field ''accountNo'' data)
         then Inl (ServiceUnavailable ''Unable to fetch account details right now. Please try again.'')
         else Inr \<lparr>ad_accountNumber = text_or_empty (field ''accountNo'' data),
                   ad_accountId = text_or_empty (field ''accountId'' data),
                   ad_clientId = text_or_empty (field ''clientId'' data),
                   ad_clientName = text_or_empty (field ''client'' data),
                   ad_bvn = field_text (field ''bvn'' data),
                   ad_balance = field_text (field ''accountBalance'' data)\<rparr>))"

definition transfer_type_str :: "transfer_type \<Rightarrow> string" where
  "transfer_type_str ty = (case ty of INTRA \<Rightarrow> ''intra'' | INTER \<Rightarrow> ''inter'')"

definition vfd_lookupTransferRecipient ::
  "vfd_send \<Rightarrow> string \<Rightarrow> string \<Rightarrow> transfer_type \<Rightarrow> http_error + transfer_recipient" where
  "vfd_lookupTransferRecipient send accountNumber bankCode ty =
    (case send (vfd_get WALLET_API ''/transfer/recipient''
            [(''accountNo'', accountNumber), (''bank'', bankCode), (''transfer_type'', transfer_type_str ty)]) of
       Inl e \<Rightarrow> Inl e
     | Inr response \<Rightarrow>
        (let body = body_of response; data = field ''data'' body; account = field ''account'' data in
         if status_is ''104'' body then Inl (BadRequest ''Beneficiary account not found'')
         else if \<not> response_ok response \<or> \<not> status_is ''00'' body \<or> \<not> js_truthy data
         then Inl (ServiceUnavailable ''Unable to resolve transfer recipient'')
         else Inr \<lparr>rc_name = field_text (field ''name'' data), rc_clientId = field_text (field ''clientId'' data),
                   rc_bvn = field_text (field ''bvn'' data),
                   rc_accountNumber = (case field_text (field ''number'' account) of
                                         None \<Rightarrow> accountNumber | Some n \<Rightarrow> n),
                   rc_accountId = field_text (field ''id'' account),
                   rc_bankName = field_text (field ''bank'' data),
                   rc_currency = field_text (field ''currency'' data)\<rparr>))"

section \<open>Transfers\<close>

definition opt_str :: "string option \<Rightarrow> json" where
  "opt_str v = JStr (case v of None \<Rightarrow> [] | Some t \<Rightarrow> t)"

definition transfer_payload :: "(string \<Rightarrow> string) \<Rightarrow> transfer_input \<Rightarrow> json" where
  "transfer_payload sha512 input = JObj
    [(''fromAccount'', JStr (ad_accountNumber (ti_from input))),
     (''uniqueSenderAccountId'', opt_str (ti_senderAccountId input)),
     (''fromClientId'', JStr (ad_clientId (ti_from input))),
     (''fromClient'', JStr (ad_clientName (ti_from input))),
     (''fromSavingsId'', JStr (ad_accountId (ti_from input))),
     (''fromBvn'', opt_str (ad_bvn (ti_from input))),
     (''toClientId'', opt_str (rc_clientId (ti_to input))),
     (''toClient'', opt_str (rc_name (ti_to input))),
     (''toSavingsId'', opt_str (rc_accountId (ti_to input))),
     (''toSession'', opt_str (rc_accountId (ti_to input))),
     (''toBvn'', opt_str (rc_bvn (ti_to input))),
     (''toAccount'', JStr (rc_accountNumber (ti_to input))),
     (''toBank'', JStr (ti_bankCode input)),
     (''signature'', JStr (sha512 (ad_accountNumber (ti_from input) @ rc_accountNumber (ti_to input)))),
     (''amount'', JStr (fixed2_str (ti_amount input))),
     (''remark'', JStr (ti_narration input)),
     (''transferType'', JStr (transfer_type_str (ti_transferType input))),
     (''reference'', JStr (ti_reference input))]"

text \<open>\<open>field ?? other\<close>.\<close>

definition field_or :: "json option \<Rightarrow> string option \<Rightarrow> string option" where
  "field_or v other = coalesce (field_text v) other"

definition unknown_transfer :: "string \<Rightarrow> transfer_result" where
  "unknown_transfer reference =
    \<lparr>tr_outcome = TO_REQUERY, tr_providerReference = reference, tr_externalId = None,
     tr_providerStatusCode = None, tr_rawPayload = None\<rparr>"

definition vfd_initiateTransfer ::
  "(string \<Rightarrow> string) \<Rightarrow> vfd_send \<Rightarrow> transfer_input \<Rightarrow> http_error + transfer_result" where
  "vfd_initiateTransfer sha512 send input =
    (case send \<lparr>rq_post = True, rq_base = WALLET_API, rq_path = ''/transfer'', rq_query = [],
               rq_body = Some (transfer_payload sha512 input)\<rparr> of
       Inl e \<Rightarrow> Inr (unknown_transfer (ti_reference input))
     | Inr response \<Rightarrow>
        (let body = body_of response; data = field ''data'' body in
         Inr \<lparr>tr_outcome = resolveVfdOutcome (classifyVfdTransferResponse (field_text (field ''status'' body))),
              tr_providerReference = (case field_text (field ''reference'' data) of
                                        None \<Rightarrow> ti_reference input | Some r \<Rightarrow> r),
              tr_externalId = field_or (field ''sessionId'' data) (field_text (field ''txnId'' data)),
              tr_providerStatusCode = field_text (field ''status'' body),
              tr_rawPayload = body\<rparr>))"

definition vfd_queryTransferStatus :: "vfd_send \<Rightarrow> string \<Rightarrow> http_error + transfer_result" where
  "vfd_queryTransferStatus send reference =
    (case send (vfd_get WALLET_API ''/transactions'' [(''reference'', reference)]) of
       Inl e \<Rightarrow> Inr (unknown_transfer reference)
     | Inr response \<Rightarrow>
        (let body = body_of response; data = field ''data'' body in
         if status_is ''108'' body then
           Inr \<lparr>tr_outcome = TO_FAILED, tr_providerReference = reference, tr_externalId = None,
                tr_providerStatusCode = Some ''108'', tr_rawPayload = body\<rparr>
         else (let c = field_text (field ''transactionStatus'' data) in
           Inr \<lparr>tr_outcome = resolveVfdOutcome (classifyVfdTransactionStatus c),
                tr_providerReference = reference,
                tr_externalId = field_or (field ''sessionId'' data) (field_text (field ''TxnId'' data)),
                tr_providerStatusCode = c, tr_rawPayload = body\<rparr>)))"

definition vfd_provider :: "string \<Rightarrow> (string \<Rightarrow> string) \<Rightarrow> vfd_send \<Rightarrow> payment_provider" where
  "vfd_provider ownBankCode sha512 send =
    \<lparr>pp_key = VFD, pp_createAccount = vfd_createAccount send, pp_listBanks = vfd_listBanks send,
     pp_resolveTransferType = vfd_resolveTransferType ownBankCode,
     pp_getAccountDetails = vfd_getAccountDetails send,
     pp_lookupTransferRecipient = vfd_lookupTransferRecipient send,
     pp_initiateTransfer = vfd_initiateTransfer sha512 send,
     pp_queryTransferStatus = vfd_queryTransferStatus send\<rparr>"

section \<open>Bills\<close>

definition billsGet ::
  "vfd_send \<Rightarrow> string \<Rightarrow> (string \<times> string) list \<Rightarrow> string \<Rightarrow> http_error + json option" where
  "billsGet send path query what =
    (case send (vfd_get BILLS_API path query) of
       Inl e \<Rightarrow> Inl e
     | Inr response \<Rightarrow>
        (let body = body_of response in
         if \<not> response_ok response \<or> \<not> status_is ''00'' body
         then Inl (ServiceUnavailable (''Unable to '' @ what @ '' right now. Please try again.''))
         else Inr body))"

text \<open>The rows of \<open>data ?? []\<close> for \<open>for ... of\<close>; a null row throws when its first property is read.\<close>

definition rows_of :: "json option \<Rightarrow> http_error + json list" where
  "rows_of v =
    (case non_null v of
       None \<Rightarrow> Inr []
     | Some (JArr rows) \<Rightarrow> if JNull \<in> set rows then Inl type_error else Inr rows
     | Some (JStr s) \<Rightarrow> Inr (map (\<lambda>c. JStr [c]) s)
     | _ \<Rightarrow> Inl type_error)"

definition vfd_listBillCategories :: "vfd_send \<Rightarrow> http_error + string list" where
  "vfd_listBillCategories send =
    (case billsGet send ''/billercategory'' [] ''load bill categories'' of
       Inl e \<Rightarrow> Inl e
     | Inr body \<Rightarrow>
        (case non_null (field ''data'' body) of
           None \<Rightarrow> Inr []
         | Some (JArr rows) \<Rightarrow>
            (if JNull \<in> set rows then Inl type_error
             else Inr (List.map_filter (\<lambda>row.
               if js_truthy (obj_get ''category'' row) then field_text (obj_get ''category'' row) else None) rows))
         | _ \<Rightarrow> Inl type_error))"

definition biller_of_row :: "(string \<Rightarrow> money option) \<Rightarrow> json \<Rightarrow> provider_biller option" where
  "biller_of_row num row =
    (if list_ex (\<lambda>k. \<not> js_truthy (obj_get k row)) [''id'', ''name'', ''division'', ''product''] then None
     else Some \<lparr>pb_id = text_or_empty (obj_get ''id'' row), pb_name = text_or_empty (obj_get ''name'' row),
       pb_division = text_or_empty (obj_get ''division'' row), pb_product = text_or_empty (obj_get ''product'' row),
       pb_category = text_or_empty (obj_get ''category'' row),
       pb_convenienceFee =
         (case field_text (obj_get ''convenienceFee'' row) of
            None \<Rightarrow> None
          | Some t \<Rightarrow> (case num (js_trim t) of
               None \<Rightarrow> None
             | Some fee \<Rightarrow> if js_trim t \<noteq> [] \<and> 0 < fee then Some fee else None))\<rparr>)"

definition vfd_listBillers ::
  "(string \<Rightarrow> money option) \<Rightarrow> vfd_send \<Rightarrow> string option \<Rightarrow> http_error + provider_biller list" where
  "vfd_listBillers num send category =
    (case billsGet send ''/billerlist''
            (case category of None \<Rightarrow> [] | Some c \<Rightarrow> if c = [] then [] else [(''categoryName'', c)]) ''load billers'' of
       Inl e \<Rightarrow> Inl e
     | Inr body \<Rightarrow>
        (case rows_of (field ''data'' body) of
           Inl e \<Rightarrow> Inl e | Inr rows \<Rightarrow> Inr (List.map_filter (biller_of_row num) rows)))"

definition item_of_row :: "(string \<Rightarrow> money option) \<Rightarrow> json \<Rightarrow> bill_item option" where
  "item_of_row num row =
    (if \<not> js_truthy (obj_get ''paymentCode'' row) then None
     else Some \<lparr>bi_paymentCode = text_or_empty (obj_get ''paymentCode'' row),
       bi_name = (case field_text (obj_get ''paymentitemname'' row) of
                    None \<Rightarrow> text_or_empty (obj_get ''paymentCode'' row) | Some n \<Rightarrow> n),
       bi_amount = (case field_text (obj_get ''amount'' row) of None \<Rightarrow> None | Some t \<Rightarrow> num t),
       bi_isAmountFixed = (to_lower (text_or_empty (obj_get ''isAmountFixed'' row)) = ''true''),
       bi_productId = field_text (obj_get ''productId'' row),
       bi_division = (if js_truthy (obj_get ''division'' row) then field_text (obj_get ''division'' row) else None)\<rparr>)"

definition vfd_listBillItems ::
  "(string \<Rightarrow> money option) \<Rightarrow> vfd_send \<Rightarrow> biller_key \<Rightarrow> http_error + bill_item list" where
  "vfd_listBillItems num send biller =
    (case biller of (bid, division, product) \<Rightarrow>
    (case billsGet send ''/billerItems''
            [(''billerId'', bid), (''divisionId'', division), (''productId'', product)] ''load bill items'' of
       Inl e \<Rightarrow> Inl e
     | Inr body \<Rightarrow>
        (case rows_of (field ''paymentitems'' (field ''data'' body)) of
           Inl e \<Rightarrow> Inl e | Inr rows \<Rightarrow> Inr (List.map_filter (item_of_row num) rows))))"

definition vfd_validateBillCustomer ::
  "vfd_send \<Rightarrow> string \<Rightarrow> biller_key \<Rightarrow> string \<Rightarrow> http_error + customer_validation" where
  "vfd_validateBillCustomer send customerId biller paymentItem =
    (case biller of (bid, division, product) \<Rightarrow>
    (case send (vfd_get BILLS_API ''/customervalidate''
            [(''divisionId'', division), (''paymentItem'', paymentItem), (''customerId'', customerId),
             (''billerId'', bid)]) of
       Inl e \<Rightarrow> Inl e
     | Inr response \<Rightarrow>
        (let body = body_of response in
         if status_is ''00'' body then
           (let info = extractCustomerInfo (field ''data'' body)
            in Inr \<lparr>cv_valid = True, cv_name = ci_name info, cv_address = ci_address info,
                    cv_details = ci_details info\<rparr>)
         else if status_is ''99'' body then
           Inr \<lparr>cv_valid = False, cv_name = None, cv_address = None, cv_details = []\<rparr>
         else Inl (ServiceUnavailable ''Unable to validate the customer right now. Please try again.''))))"

definition billOutcome :: "string option \<Rightarrow> bill_outcome" where
  "billOutcome c =
    (if c = Some ''00'' then BO_SUCCESSFUL else if c = Some ''99'' then BO_FAILED else BO_REQUERY)"

definition bill_payload :: "bill_pay_input \<Rightarrow> json" where
  "bill_payload input =
    (case bp_biller input of (bid, division, product) \<Rightarrow> JObj
      ([(''customerId'', JStr (bp_customerId input)), (''amount'', JStr (dp2_str (bp_amount input))),
        (''division'', JStr division), (''paymentItem'', JStr (bp_paymentItem input)),
        (''productId'', JStr product), (''billerId'', JStr bid), (''reference'', JStr (bp_reference input))] @
       (case bp_phoneNumber input of
          None \<Rightarrow> []
        | Some p \<Rightarrow> if js_trim p = [] then [] else [(''phoneNumber'', JStr (js_trim p))])))"

definition unknown_bill :: bill_result where
  "unknown_bill = \<lparr>br_outcome = BO_REQUERY, br_providerStatusCode = None, br_token = None,
    br_extraTokens = [], br_details = None, br_rawPayload = None\<rparr>"

definition bill_answer :: "string option \<Rightarrow> json option \<Rightarrow> bill_result" where
  "bill_answer c body =
    (let issued = extractBillTokens (field ''data'' body)
     in \<lparr>br_outcome = billOutcome c, br_providerStatusCode = c, br_token = fst issued,
         br_extraTokens = snd issued, br_details = Some (extractBillDetails (field ''data'' body)),
         br_rawPayload = body\<rparr>)"

definition vfd_payBill :: "vfd_send \<Rightarrow> bill_pay_input \<Rightarrow> http_error + bill_result" where
  "vfd_payBill send input =
    (case send \<lparr>rq_post = True, rq_base = BILLS_API, rq_path = ''/pay'', rq_query = [],
               rq_body = Some (bill_payload input)\<rparr> of
       Inl e \<Rightarrow> Inr unknown_bill
     | Inr response \<Rightarrow>
        (let body = body_of response in Inr (bill_answer (field_text (field ''status'' body)) body)))"

definition vfd_queryBillStatus :: "vfd_send \<Rightarrow> string \<Rightarrow> http_error + bill_result" where
  "vfd_queryBillStatus send reference =
    (case send (vfd_get BILLS_API ''/transactionStatus'' [(''transactionId'', reference)]) of
       Inl e \<Rightarrow> Inr unknown_bill
     | Inr response \<Rightarrow>
        (let body = body_of response in
         if status_is ''108'' body then
           Inr (unknown_bill\<lparr>br_outcome := BO_FAILED, br_providerStatusCode := Some ''108'', br_rawPayload := body\<rparr>)
         else Inr (bill_answer (field_text (field ''transactionStatus'' (field ''data'' body))) body)))"

definition vfd_bills :: "(string \<Rightarrow> money option) \<Rightarrow> vfd_send \<Rightarrow> bills_provider" where
  "vfd_bills num send =
    \<lparr>bv_listCategories = vfd_listBillCategories send, bv_listBillers = vfd_listBillers num send,
     bv_listItems = vfd_listBillItems num send, bv_validateCustomer = vfd_validateBillCustomer send,
     bv_payBill = vfd_payBill send, bv_queryStatus = vfd_queryBillStatus send\<rparr>"

end
