(* ===== verification/VfdProps.thy ===== *)
theory VfdProps
  imports VfdAdapter
begin

text \<open>
  What the VFD adapter gives the payment service: answers to money requests are always values,
  money is only given back or settled on codes of the tables, a payout through the adapter never
  gets stuck, and which amount the provider is told.
\<close>

section \<open>The amount that is sent\<close>

lemma digits_val_append: "digits_val (s @ t) = digits_val s * 10 ^ length t + digits_val t"
proof (induction t rule: rev_induct)
  case (snoc c t)
  have "digits_val (s @ t @ [c]) = 10 * digits_val (s @ t) + digit_val c"
    using digits_val_snoc [of "s @ t" c] by simp
  with snoc show ?case by (simp add: algebra_simps)
qed (simp add: digits_val_def)

lemma digits_val_zeros: "digits_val (replicate n CHR ''0'' @ s) = digits_val s"
  by (induction n) (simp_all add: digits_val_def digit_val_def)

lemma length_nat_str_2: "n < 100 \<Longrightarrow> length (nat_str n) \<le> 2"
proof -
  assume "n < 100"
  then have "n div 10 < 10" by simp
  then show ?thesis
    using nat_str.simps [of n] nat_str.simps [of "n div 10"] by (cases "n < 10") simp_all
qed

lemma digits_of_nat_str [simp]: "digits_of (nat_str n) = nat_str n"
  by (simp add: digits_of_id nat_str_digits)

lemma fixed2_digits: "digits_val (digits_of (fixed2_str a)) = kobo a"
proof -
  have zero: "is_digit CHR ''0''" "\<not> is_digit CHR ''.''" "\<not> is_digit CHR ''-''" by code_simp+
  have pad: "digits_of (pad_start 2 CHR ''0'' (nat_str n)) = pad_start 2 CHR ''0'' (nat_str n)" for n
    using zero nat_str_digits [of n] by (intro digits_of_id) (auto simp: pad_start_def list_all_iff)
  have "digits_val (nat_str (kobo a div 100) @ pad_start 2 CHR ''0'' (nat_str (kobo a mod 100))) =
      (kobo a div 100) * 10 ^ 2 + kobo a mod 100"
    using length_nat_str_2 [of "kobo a mod 100"]
    by (simp add: digits_val_append [of _ "pad_start 2 CHR ''0'' x" for x] max_def)
      (simp add: pad_start_def digits_val_zeros)
  moreover have "digits_of (fixed2_str a) =
      nat_str (kobo a div 100) @ pad_start 2 CHR ''0'' (nat_str (kobo a mod 100))"
    using zero pad by (simp add: fixed2_str_def) (simp add: digits_of_def)
  ultimately show ?thesis by simp
qed

lemma kobo_fits: "0 < a \<Longrightarrow> of_nat (kobo a) / 100 = to_fixed 2 a"
  by (simp add: kobo_def to_fixed_def round_half_up_def)

lemma kobo_exact_iff: "0 < a \<Longrightarrow> of_nat (kobo a) / 100 = a \<longleftrightarrow> fits 2 a"
  by (simp add: kobo_fits fits_def)

text \<open>
  The provider is told the amount debited only for whole kobo.  A payout of any amount of up
  to four decimals is debited exactly; the amount in the request to VFD, read as naira, is that
  amount if and only if it has at most two decimals.
\<close>

theorem transfer_amount_is_debited_iff_kobo:
  assumes "debit_payout e w ad p a l caps ref ben nar now s = (Inr t, s')" and "0 < a" and "fits 4 a"
    and "ti_amount input = a" and "obj_get ''amount'' (transfer_payload sha512 input) = Some (JStr sent)"
  shows "of_nat (digits_val (digits_of sent)) / 100 = t_amount t \<longleftrightarrow> fits 2 a"
proof -
  have "t_amount t = a"
    using debit_payout_InrD [OF assms(1,2)] to_fixed_fits [OF assms(3)] by fastforce
  moreover have "sent = fixed2_str a" using assms(4,5) by (simp add: obj_get_def transfer_payload_def)
  ultimately show ?thesis using kobo_exact_iff [OF assms(2)] by (simp add: fixed2_digits)
qed

definition sample_account :: account_details where
  "sample_account = \<lparr>ad_accountNumber = ''1001'', ad_accountId = ''5'', ad_clientId = ''6'',
    ad_clientName = ''Pool'', ad_bvn = None, ad_balance = None\<rparr>"

definition sample_transfer :: "money \<Rightarrow> transfer_input" where
  "sample_transfer a = \<lparr>ti_from = sample_account, ti_senderAccountId = None,
    ti_to = \<lparr>rc_name = None, rc_clientId = None, rc_bvn = None, rc_accountNumber = ''2002'',
             rc_accountId = None, rc_bankName = None, rc_currency = None\<rparr>,
    ti_bankCode = ''058'', ti_transferType = INTER, ti_amount = a, ti_reference = ''FIAM000000001'',
    ti_narration = ''Payout''\<rparr>"

lemma sample_fraction: "fits 4 (100005 / 1000)" "\<not> fits 2 (100005 / 1000)"
proof -
  show "fits 4 (100005 / 1000)" unfolding fits_iff by (rule exI [of _ 1000050]) simp
  have "round_half_up (20001 / 2) = 10001" by (simp add: round_half_up_def)
  then show "\<not> fits 2 (100005 / 1000)" by (simp add: fits_def to_fixed_def)
qed

text \<open>100.005 naira are debited and 100.01 are sent.\<close>

theorem transfer_amount_is_debited_iff_kobo_witness:
  "\<exists>t s' sent. debit_payout True sample_wallet sample_address VFD (100005 / 1000) None None
      ''FIAM000000001'' 4 None 50 (sample_pay []) = (Inr t, s') \<and>
    obj_get ''amount'' (transfer_payload id (sample_transfer (100005 / 1000))) = Some (JStr sent) \<and>
    of_nat (digits_val (digits_of sent)) / 100 \<noteq> t_amount t"
proof -
  have "payoutCharges 50 (Some 11) (100005 / 1000) (sample_pay []) = charges_for 0 0"
    by (simp add: payoutCharges_def Let_def freePayoutsEnabled_def payouts_today_def fee_defs stampDuty_def)
  then have "\<exists>t s'. debit_payout True sample_wallet sample_address VFD (100005 / 1000) None None
      ''FIAM000000001'' 4 None 50 (sample_pay []) = (Inr t, s')"
    by (simp add: debit_payout_def stm_simps debitForUpdate_eq Let_def find_wallet_set_balance
        assertWithinTransferLimit_def checkCaps_def insert_txn_def to_fixed_def round_half_up_def)
  then obtain t s' where d: "debit_payout True sample_wallet sample_address VFD (100005 / 1000) None None
      ''FIAM000000001'' 4 None 50 (sample_pay []) = (Inr t, s')" by blast
  obtain sent where sent: "obj_get ''amount'' (transfer_payload id (sample_transfer (100005 / 1000))) = Some (JStr sent)"
    by (simp add: obj_get_def transfer_payload_def)
  show ?thesis
    using transfer_amount_is_debited_iff_kobo [OF d _ sample_fraction(1) _ sent] sample_fraction(2) d sent
    by (auto simp: sample_transfer_def)
qed

section \<open>Answers\<close>

lemma transfer_codes:
  "resolveVfdOutcome (classifyVfdTransferResponse v) = TO_REQUERY \<or>
   resolveVfdOutcome (classifyVfdTransferResponse v) = TO_SUCCESSFUL \<and> v = Some ''00'' \<or>
   resolveVfdOutcome (classifyVfdTransferResponse v) = TO_FAILED \<and> (v = Some ''99'' \<or> v = Some ''02'')"
  by (auto simp: classifyVfdTransferResponse_def classify_with_def TRANSFER_RESPONSE_CODES_def
      UNKNOWN_TRANSFER_RESPONSE_def resolveVfdOutcome_def vfd_entry_def split: option.splits)

lemma initiate_answers:
  "\<exists>r. vfd_initiateTransfer sha512 send input = Inr r \<and>
    (tr_outcome r = TO_REQUERY \<or> (\<exists>rq resp c. send rq = Inr resp \<and>
       field_text (field ''status'' (body_of resp)) = Some c \<and> tr_providerStatusCode r = Some c \<and>
       (tr_outcome r = TO_SUCCESSFUL \<and> c = ''00'' \<or> tr_outcome r = TO_FAILED \<and> (c = ''99'' \<or> c = ''02''))))"
  (is "\<exists>r. _ \<and> ?ok r")
proof (cases "send \<lparr>rq_post = True, rq_base = WALLET_API, rq_path = ''/transfer'', rq_query = [],
               rq_body = Some (transfer_payload sha512 input)\<rparr>")
  case (Inl e)
  then show ?thesis by (simp add: vfd_initiateTransfer_def unknown_transfer_def)
next
  case (Inr resp)
  then show ?thesis
    using transfer_codes [of "field_text (field ''status'' (body_of resp))"]
    by (simp add: vfd_initiateTransfer_def Let_def) blast
qed

lemma query_answers:
  "\<exists>r. vfd_queryTransferStatus send ref = Inr r \<and>
    (tr_outcome r = TO_REQUERY \<or> (\<exists>rq resp c. send rq = Inr resp \<and> tr_providerStatusCode r = Some c \<and>
       (c = ''108'' \<and> tr_outcome r = TO_FAILED \<and> status_is ''108'' (body_of resp) \<or>
        field_text (field ''transactionStatus'' (field ''data'' (body_of resp))) = Some c \<and>
        resolveVfdOutcome (classifyVfdTransactionStatus (Some c)) = tr_outcome r)))"
proof (cases "send (vfd_get WALLET_API ''/transactions'' [(''reference'', ref)])")
  case (Inl e)
  then show ?thesis by (simp add: vfd_queryTransferStatus_def unknown_transfer_def)
next
  case (Inr resp)
  show ?thesis
  proof (cases "status_is ''108'' (body_of resp)")
    case True
    with Inr show ?thesis by (auto simp: vfd_queryTransferStatus_def Let_def)
  next
    case False
    then show ?thesis
      using Inr status_table.missing_requeries
      by (cases "field_text (field ''transactionStatus'' (field ''data'' (body_of resp)))")
        (auto simp: vfd_queryTransferStatus_def Let_def)
  qed
qed

lemma pay_bill_answers:
  "\<exists>b. vfd_payBill send pay = Inr b \<and>
    (br_outcome b = BO_REQUERY \<or> (\<exists>rq resp c. send rq = Inr resp \<and>
       field_text (field ''status'' (body_of resp)) = Some c \<and>
       (br_outcome b = BO_SUCCESSFUL \<and> c = ''00'' \<or> br_outcome b = BO_FAILED \<and> c = ''99'')))"
  by (cases "send \<lparr>rq_post = True, rq_base = BILLS_API, rq_path = ''/pay'', rq_query = [],
               rq_body = Some (bill_payload pay)\<rparr>")
    (auto simp: vfd_payBill_def unknown_bill_def bill_answer_def billOutcome_def Let_def)

lemma query_bill_answers:
  "\<exists>b. vfd_queryBillStatus send ref = Inr b \<and>
    (br_outcome b = BO_REQUERY \<or> (\<exists>rq resp c. send rq = Inr resp \<and> br_providerStatusCode b = Some c \<and>
       (br_outcome b = BO_SUCCESSFUL \<and> c = ''00'' \<or> br_outcome b = BO_FAILED \<and> (c = ''99'' \<or> c = ''108''))))"
  by (cases "send (vfd_get BILLS_API ''/transactionStatus'' [(''transactionId'', ref)])")
    (auto simp: vfd_queryBillStatus_def unknown_bill_def bill_answer_def billOutcome_def Let_def)

text \<open>
  What the adapter answers about money.  Starting or querying a transfer or a bill payment never
  throws, whatever the provider does: an exception, an answer without a body or without a code is
  answered as unresolved.  A transfer is reported paid or failed only when the provider's answer
  carries a code: 00 for paid, 99 or 02 for failed when it is started, and for a query what the
  status table says of the code, or failed on 108, a reference the provider does not know.  A bill
  is reported paid only on 00 and failed only on 99 or 108.
\<close>

theorem adapter_answers_about_money:
  "(\<exists>r. vfd_initiateTransfer sha512 send input = Inr r \<and>
    (tr_outcome r = TO_REQUERY \<or> (\<exists>rq resp c. send rq = Inr resp \<and>
       field_text (field ''status'' (body_of resp)) = Some c \<and> tr_providerStatusCode r = Some c \<and>
       (tr_outcome r = TO_SUCCESSFUL \<and> c = ''00'' \<or> tr_outcome r = TO_FAILED \<and> (c = ''99'' \<or> c = ''02''))))) \<and>
   (\<exists>r. vfd_queryTransferStatus send ref = Inr r \<and>
    (tr_outcome r = TO_REQUERY \<or> (\<exists>rq resp c. send rq = Inr resp \<and> tr_providerStatusCode r = Some c \<and>
       (c = ''108'' \<and> tr_outcome r = TO_FAILED \<and> status_is ''108'' (body_of resp) \<or>
        field_text (field ''transactionStatus'' (field ''data'' (body_of resp))) = Some c \<and>
        resolveVfdOutcome (classifyVfdTransactionStatus (Some c)) = tr_outcome r)))) \<and>
   (\<exists>b. vfd_payBill send pay = Inr b \<and>
    (br_outcome b = BO_REQUERY \<or> (\<exists>rq resp c. send rq = Inr resp \<and>
       field_text (field ''status'' (body_of resp)) = Some c \<and>
       (br_outcome b = BO_SUCCESSFUL \<and> c = ''00'' \<or> br_outcome b = BO_FAILED \<and> c = ''99'')))) \<and>
   (\<exists>b. vfd_queryBillStatus send ref = Inr b \<and>
    (br_outcome b = BO_REQUERY \<or> (\<exists>rq resp c. send rq = Inr resp \<and> br_providerStatusCode b = Some c \<and>
       (br_outcome b = BO_SUCCESSFUL \<and> c = ''00'' \<or> br_outcome b = BO_FAILED \<and> (c = ''99'' \<or> c = ''108'')))))"
  using initiate_answers query_answers pay_bill_answers query_bill_answers by (intro conjI)

section \<open>Payouts through the adapter\<close>

text \<open>A reversal of a debit that only its provider fields have changed since gives everything back.\<close>

lemma reversal_undoes_debit:
  assumes "debit_payout e w ad p a l caps ref ben nar now s = (Inr t, s1)" and "0 < a"
    and "find_wallet (w_id w) s = Some w0" and "fits 4 (w_balance w0)" and "fits 4 a"
    and s2: "find_txn (t_id t) s2 = Some t2" "wallets s2 = wallets s1"
    and t2: "t_status t2 = PROCESSING" "t_walletId t2 = Some (w_id w)" "t_amount t2 = t_amount t"
      "t_fee t2 = t_fee t" "t_id t2 = t_id t" "\<not> rev_used t2 s2"
  shows "\<exists>s3. reverseFailedPayout (\<lambda>x. x) (t_id t) later s2 = (Inr (), s3) \<and>
    wallet_balance s3 = wallet_balance s \<and> map_option t_status (find_txn (t_id t) s3) = Some FAILED"
proof -
  note bal = debit_payout_balances [OF assms(1-5)]
  have same: "wallet_balance s2 = wallet_balance s1" "find_wallet (w_id w) s2 = find_wallet (w_id w) s1"
    using s2(2) by (simp_all add: wallet_balance_def find_wallet_def fun_eq_iff)
  obtain w1 where w1: "find_wallet (w_id w) s2 = Some w1"
    and b1: "w_balance w1 = w_balance w0 - (a + the (t_fee t))"
    using bal(1) same(2) by (auto simp: wallet_balance_def fun_eq_iff map_option_eq_Some split: if_splits)
  have "t_fee t \<noteq> None" by (rule debit_payout_InrD [OF assms(1,2)]) simp
  then have refund: "refund_of t2 = a + the (t_fee t)" using bal(3) t2 by (auto simp: refund_of_def)
  let ?s3 = "reportIssueToSlack ''Payout failed at provider (customer refunded)'' (t_id t2)
            (notifyTransaction (Some t2) PAYOUT_FAILED True
              (reversed True ''Reversal for failed payout '' t2 w1 later s2))"
  have "reverseFailedPayout (\<lambda>x. x) (t_id t) later s2 = (Inr (), ?s3)"
    using reverseFailedPayout_eq [of "t_id t" s2 t2 "w_id w" "\<lambda>x. x" w1 later] s2(1) w1 t2
    by (simp add: is_final_def)
  moreover have "wallet_balance ?s3 = wallet_balance s"
  proof -
    have "wallet_balance ?s3 = wallet_balance (reversed True ''Reversal for failed payout '' t2 w1 later s2)"
      by (simp add: wallet_balance_def fun_eq_iff)
    also have "\<dots> = (wallet_balance s1)(w_id w \<mapsto> w_balance w0)"
      using reversed_balance [OF w1] to_fixed_fits [OF assms(4)] by (simp add: refund b1 same)
    also have "\<dots> = wallet_balance s"
      using assms(3) unfolding bal(1) by (auto simp: wallet_balance_def fun_eq_iff)
    finally show ?thesis .
  qed
  moreover have "map_option t_status (find_txn (t_id t) ?s3) = Some FAILED"
    using reversed_txn [of t2 s2] s2(1) t2(5) by simp
  ultimately show ?thesis by blast
qed

lemma debited_row:
  assumes "debit_payout e w ad p a l caps ref ben nar now s = (Inr t, s1)" and "0 < a" and "ids_fresh s"
  shows "find_txn (t_id t) s1 = Some t" and "t_status t = PROCESSING" and "t_walletId t = Some (w_id w)"
    and "t_reference t = ref" and "t_provider t = p" and "txns s1 = insert_row t (txns s)"
proof -
  obtain c b where t: "t = (payout_row w ad p a c b ref ben nar now)\<lparr>t_id := next_id s\<rparr>"
    and rows: "txns s1 = insert_row t (txns s)"
    by (rule debit_payout_InrD [OF assms(1,2)]) simp
  show "find_txn (t_id t) s1 = Some t" using find_txn_new [OF assms(3) rows] t by simp
  show "t_status t = PROCESSING" "t_walletId t = Some (w_id w)" "t_reference t = ref" "t_provider t = p"
    by (simp_all add: t)
  show "txns s1 = insert_row t (txns s)" by (fact rows)
qed

text \<open>What applying an answer does to the payout just debited, for each outcome but HOLD.\<close>

definition settled_or_queued :: "uuid \<Rightarrow> pay_state \<Rightarrow> pay_state \<Rightarrow> transaction \<Rightarrow> bool" where
  "settled_or_queued tid before s t \<longleftrightarrow>
    find_txn tid s = Some t \<and>
    (t_status t = SUCCESSFUL \<or>
     t_status t = FAILED \<and> wallet_balance s = wallet_balance before \<or>
     t_status t = PROCESSING \<and> (PayoutStatusQuery tid, 10) \<in> set (jobs s))"

lemma find_txn_notify [simp]: "find_txn i (notifyTransaction t ev r s) = find_txn i s"
  by (simp add: find_txn_def)

lemma apply_settles:
  assumes d: "debit_payout e w ad p a l caps ref ben nar now s = (Inr t, s1)" "0 < a"
    "find_wallet (w_id w) s = Some w0" "fits 4 (w_balance w0)" "fits 4 a" "ids_fresh s"
    and rev: "\<not> reference_taken p (''REV-'' @ ref) s"
    and hold: "tr_outcome r \<noteq> TO_HOLD"
  shows "\<exists>t' s'. applyTransferResult True t r later (emit ef s1) = (Inr t', s') \<and>
    settled_or_queued (t_id t) s s' t'"
proof -
  note row = debited_row [OF d(1,2,6)]
  let ?f = "\<lambda>x. x\<lparr>t_externalId := tr_externalId r, t_providerStatusCode := tr_providerStatusCode r,
      t_rawPayload := tr_rawPayload r\<rparr>"
  let ?s2 = "update_txn (t_id t) ?f (emit ef s1)"
  have found: "find_txn (t_id t) ?s2 = Some (?f t)" using row(1) by (simp add: find_txn_update_txn)
  show ?thesis
  proof (cases "tr_outcome r")
    case TO_SUCCESSFUL
    with row(1) show ?thesis
      by (simp add: applyTransferResult_def stm_simps mark_successful_def find_or_fail_def
          find_txn_update_txn settled_or_queued_def)
  next
    case TO_FAILED
    have "\<not> reference_taken p (''REV-'' @ ref) s1"
      using rev row by (auto simp: reference_taken_def find_row_insert_row same_reference_def
          split: option.splits if_splits)
    then have "\<not> rev_used (?f t) ?s2"
      using row(4,5) by (simp add: rev_used_def reference_taken_def update_txn_def same_reference_update)
    then obtain s3 where s3: "reverseFailedPayout (\<lambda>x. x) (t_id t) later ?s2 = (Inr (), s3)"
      "wallet_balance s3 = wallet_balance s" "map_option t_status (find_txn (t_id t) s3) = Some FAILED"
      using reversal_undoes_debit [OF d(1-5) found, where later = later] row(2,3) by auto
    then show ?thesis
      using TO_FAILED by (auto simp: applyTransferResult_def stm_simps find_or_fail_def settled_or_queued_def)
  next
    case TO_REQUERY
    with row(1,2) show ?thesis
      by (simp add: applyTransferResult_def stm_simps find_or_fail_def find_txn_update_txn settled_or_queued_def)
  qed (use hold in simp)
qed


definition vfd_down :: payment_provider where
  "vfd_down = vfd_provider ''999999'' id (\<lambda>rq. Inl (PlainError ''fetch failed''))"

definition sample_plan :: payout_plan where
  "sample_plan = \<lparr>pl_limit = None, pl_caps = None, pl_provider = vfd_down, pl_amount = 200,
    pl_wallet = sample_wallet, pl_address = sample_address, pl_bankCode = ''058'',
    pl_from = sample_account, pl_sender = sample_account, pl_recipient = ti_to (sample_transfer 200),
    pl_beneficiary = \<lparr>b_id = 4, b_userId = 7, b_currency = NGN, b_provider = VFD, b_bankCode = ''058'',
      b_bankName = None, b_accountNumber = ''2002'', b_accountName = None,
      b_updatedAt = 1\<rparr>, pl_reference = ''FIAM000000001''\<rparr>"

lemma sample_plan_debit:
  "\<exists>t s1. debit_payout True sample_wallet sample_address VFD 200 None None ''FIAM000000001'' 4 None 50
     (sample_pay []) = (Inr t, s1)"
  using sample_payoutCharges
  by (simp add: debit_payout_def stm_simps debitForUpdate_eq Let_def find_wallet_set_balance
      assertWithinTransferLimit_def checkCaps_def insert_txn_def to_fixed_fits)


end
