(* ===== verification/AuthEntities.thy ===== *)
theory AuthEntities
  imports PinVerifier
begin

text \<open>
  The data of the auth service (\<open>src/apps/auth/src\<close>): users, one-time codes, sessions, refresh and
  reset tokens, trusted devices, pending logins, deletion requests and KYC documents, as tables;
  the state its services work on; and what comes from outside (\<open>auth_env\<close>): the clock, the
  configuration, the hash functions, the random values and the signing of access tokens.
\<close>

section \<open>Enums\<close>

datatype user_status = US_PENDING_VERIFICATION | US_ACTIVE | US_SUSPENDED | US_CLOSED

datatype customer_tier = TIER_1 | TIER_2 | TIER_3

datatype tier_upgrade_status = TU_NONE | TU_UNDER_REVIEW | TU_APPROVED | TU_REJECTED

datatype otp_purpose =
  OP_REGISTRATION | OP_LOGIN | OP_PASSWORD_RESET | OP_PHONE_VERIFICATION | OP_BVN_VERIFICATION

datatype deletion_status = DR_PENDING | DR_COMPLETED | DR_REJECTED | DR_CANCELLED

datatype kyc_document_type = GOVERNMENT_ID_FRONT | GOVERNMENT_ID_BACK | NIN_SELFIE | PROOF_OF_ADDRESS

datatype government_id_type = NATIONAL_ID | DRIVERS_LICENSE | VOTERS_CARD | INTERNATIONAL_PASSPORT

datatype secret_kind = SK_PASSWORD | SK_PIN

section \<open>Entities\<close>

record user =
  u_id :: uuid
  u_firstName :: string
  u_lastName :: string
  u_email :: string
  u_emailVerifiedAt :: "date option"
  u_phone :: "string option"
  u_phoneVerifiedAt :: "date option"
  u_bvn :: "string option"
  u_bvnVerifiedAt :: "date option"
  u_dateOfBirth :: "string option"
  u_nin :: "string option"
  u_ninVerifiedAt :: "date option"
  u_passwordHash :: string
  u_status :: user_status
  u_tier :: customer_tier
  u_transactionPinHash :: "string option"
  u_deviceLimitUntil :: "date option"
  u_transferLimitPerTxn :: "money option"
  u_transferLimitDaily :: "money option"
  u_passwordFailedAttempts :: nat
  u_passwordLockedUntil :: "date option"
  u_pinFailedAttempts :: nat
  u_pinLockedUntil :: "date option"
  u_transactionPinSetAt :: "date option"
  u_tierUpgradeStatus :: tier_upgrade_status
  u_tierUpgradeSubmittedAt :: "date option"
  u_provisioningRequestedAt :: "date option"
  u_tierUpgradeDecidedAt :: "date option"
  u_tierUpgradeDecisionNote :: "string option"
  u_closedAt :: "date option"
  u_createdAt :: date

record otp =
  o_id :: uuid
  o_userId :: uuid
  o_purpose :: otp_purpose
  o_codeHash :: string
  o_attempts :: nat
  o_consumedAt :: "date option"
  o_expiresAt :: date
  o_createdAt :: date

record session =
  ss_id :: uuid
  ss_userId :: uuid
  ss_deviceId :: "string option"
  ss_deviceName :: "string option"
  ss_userAgent :: "string option"
  ss_ipAddress :: "string option"
  ss_lastSeenAt :: date
  ss_revokedAt :: "date option"

record refresh_token =
  rt_id :: uuid
  rt_userId :: uuid
  rt_sessionId :: uuid
  rt_tokenHash :: string
  rt_revokedAt :: "date option"
  rt_replacedByTokenId :: "uuid option"
  rt_expiresAt :: date

record password_reset_token =
  pr_id :: uuid
  pr_userId :: uuid
  pr_tokenHash :: string
  pr_consumedAt :: "date option"
  pr_expiresAt :: date

record trusted_device =
  td_id :: uuid
  td_userId :: uuid
  td_deviceId :: string
  td_deviceName :: "string option"
  td_trustedAt :: date
  td_lastSeenAt :: date
  td_biometricLoginEnabled :: bool
  td_biometricTransactionEnabled :: bool

record pending_login =
  lg_id :: uuid
  lg_userId :: uuid
  lg_ticketHash :: string
  lg_deviceId :: "string option"
  lg_userAgent :: "string option"
  lg_ipAddress :: "string option"
  lg_attempts :: nat
  lg_consumedAt :: "date option"
  lg_expiresAt :: date

record account_deletion_request =
  dr_id :: uuid
  dr_userId :: uuid
  dr_reason :: "string option"
  dr_status :: deletion_status
  dr_decidedAt :: "date option"
  dr_decidedByEmail :: "string option"
  dr_decisionNote :: "string option"
  dr_createdAt :: date

record kyc_document =
  kd_id :: uuid
  kd_userId :: uuid
  kd_docType :: kyc_document_type
  kd_idType :: "government_id_type option"
  kd_ocrText :: "string option"
  kd_objectKey :: string
  kd_originalFilename :: string
  kd_mimeType :: string
  kd_sizeBytes :: nat
  kd_uploadedAt :: date

section \<open>State\<close>

text \<open>
  Messages to the customer, the other services and staff, in the order they are sent; what several
  of them are told of one event is one entry.
\<close>

datatype auth_effect =
    EmailCode string string
  | SmsCode string string
  | LockoutAlert uuid secret_kind
  | NewDeviceAlert uuid
  | SignedUp uuid
  | KycCompleted uuid
  | ProvisioningRequest uuid string string
  | TierUpgradeRequested uuid
  | DeletionReceived uuid
  | DeletionRejected uuid
  | AccountClosedEmail string
  | KycApproved uuid
  | KycRejected uuid string

record auth_state =
  users :: "user list"
  otps :: "otp list"
  sessions :: "session list"
  refreshTokens :: "refresh_token list"
  resetTokens :: "password_reset_token list"
  devices :: "trusted_device list"
  pendingLogins :: "pending_login list"
  deletions :: "account_deletion_request list"
  kycDocs :: "kyc_document list"
  liveness :: "(string \<times> uuid \<times> date) list"
  sentOut :: "auth_effect list"
  fresh_id :: uuid

type_synonym 'a auth = "(http_error, 'a, auth_state) stm"

text \<open>
  \<open>ae_hash\<close> and \<open>ae_verifyHash\<close> are argon2 (\<open>PasswordService\<close>), \<open>ae_sha256\<close> the digest of tokens and
  codes.  \<open>ae_code\<close> and \<open>ae_token\<close> are the random code and token of this request, \<open>ae_others\<close> what
  other requests commit while this one awaits.  Durations are milliseconds.
\<close>

record auth_env =
  ae_now :: date
  ae_hash :: "string \<Rightarrow> string"
  ae_verifyHash :: "string \<Rightarrow> string \<Rightarrow> bool"
  ae_sha256 :: "string \<Rightarrow> string"
  ae_code :: string
  ae_token :: string
  ae_otpTtl :: int
  ae_otpCooldown :: int
  ae_otpMaxAttempts :: nat
  ae_refreshTtl :: int
  ae_deviceLimitAmount :: money
  ae_deviceLimitHours :: int
  ae_others :: "auth_state \<Rightarrow> auth_state"

record access_token =
  at_sub :: uuid
  at_sid :: uuid

record token_pair =
  tk_accessToken :: access_token
  tk_refreshToken :: string

record request_meta =
  rm_deviceId :: "string option"
  rm_deviceName :: "string option"
  rm_userAgent :: "string option"
  rm_ipAddress :: "string option"

definition send_out :: "auth_effect \<Rightarrow> auth_state \<Rightarrow> auth_state" where
  "send_out e s = s\<lparr>sentOut := sentOut s @ [e]\<rparr>"

definition update_user :: "uuid \<Rightarrow> (user \<Rightarrow> user) \<Rightarrow> auth_state \<Rightarrow> auth_state" where
  "update_user i f s = s\<lparr>users := update_where (by_key u_id i) f (users s)\<rparr>"

definition find_user :: "uuid \<Rightarrow> auth_state \<Rightarrow> user option" where
  "find_user i s = find_row (by_key u_id i) (users s)"

text \<open>The unique indexes of the users table: email, and phone, bvn and nin where not null.\<close>

definition user_conflict :: "user \<Rightarrow> user \<Rightarrow> bool" where
  "user_conflict x y \<longleftrightarrow> u_email x = u_email y \<or> (u_phone x \<noteq> None \<and> u_phone x = u_phone y) \<or>
    (u_bvn x \<noteq> None \<and> u_bvn x = u_bvn y) \<or> (u_nin x \<noteq> None \<and> u_nin x = u_nin y)"

definition write_user :: "uuid \<Rightarrow> (user \<Rightarrow> user) \<Rightarrow> unit auth" where
  "write_user i f s =
    (case find_user i s of
       None \<Rightarrow> (Inr (), s)
     | Some u \<Rightarrow>
        if list_ex (\<lambda>x. u_id x \<noteq> i \<and> user_conflict (f u) x) (users s) then (Inl UniqueViolation, s)
        else (Inr (), update_user i f s))"

lemma send_out_simps [simp]:
  "users (send_out e s) = users s" "otps (send_out e s) = otps s" "sessions (send_out e s) = sessions s"
  "refreshTokens (send_out e s) = refreshTokens s" "resetTokens (send_out e s) = resetTokens s"
  "devices (send_out e s) = devices s" "pendingLogins (send_out e s) = pendingLogins s"
  "deletions (send_out e s) = deletions s" "kycDocs (send_out e s) = kycDocs s"
  "liveness (send_out e s) = liveness s" "sentOut (send_out e s) = sentOut s @ [e]"
  "fresh_id (send_out e s) = fresh_id s"
  by (simp_all add: send_out_def)

lemma update_user_simps [simp]:
  "users (update_user i f s) = update_where (by_key u_id i) f (users s)"
  "otps (update_user i f s) = otps s" "sessions (update_user i f s) = sessions s"
  "refreshTokens (update_user i f s) = refreshTokens s" "resetTokens (update_user i f s) = resetTokens s"
  "devices (update_user i f s) = devices s" "pendingLogins (update_user i f s) = pendingLogins s"
  "deletions (update_user i f s) = deletions s" "kycDocs (update_user i f s) = kycDocs s"
  "liveness (update_user i f s) = liveness s" "sentOut (update_user i f s) = sentOut s"
  "fresh_id (update_user i f s) = fresh_id s"
  by (simp_all add: update_user_def)

lemma find_user_send_out [simp]: "find_user i (send_out e s) = find_user i s"
  by (simp add: find_user_def)

lemma find_user_update:
  assumes "\<And>u. u_id (f u) = u_id u"
  shows "find_user j (update_user i f s) = (if j = i then map_option f (find_user j s) else find_user j s)"
  using find_row_update_where_key [of u_id f, OF assms] by (simp add: find_user_def)

lemma find_user_id: "find_user i s = Some u \<Longrightarrow> u_id u = i \<and> u \<in> set (users s)"
  by (auto simp: find_user_def dest: find_row_SomeD)

end
