(* ===== verification/AuthUsers.thy ===== *)
theory AuthUsers
  imports AuthEntities
begin

text \<open>
  \<open>UsersService\<close> (\<open>users.service.ts\<close>), the tier ceilings (\<open>tier-limits.ts\<close>), and the normal forms of
  phone numbers and dates of birth (\<open>phone.util.ts\<close>, \<open>dob.util.ts\<close>).
\<close>

section \<open>Normal forms\<close>

definition normalizeEmail :: "string \<Rightarrow> string" where
  "normalizeEmail email = to_lower (js_trim email)"

definition mobile_local :: "string \<Rightarrow> bool" where
  "mobile_local t \<longleftrightarrow> length t = 10 \<and> list_all is_digit t \<and> hd t \<in> {CHR ''7'', CHR ''8'', CHR ''9''}"

definition invalid_phone :: http_error where
  "invalid_phone = PlainError ''Enter a valid Nigerian phone number''"

definition normalizeNigerianPhone :: "string \<Rightarrow> http_error + string" where
  "normalizeNigerianPhone raw =
    (let digits = digits_of raw;
         subscriber =
           (if starts_with ''234'' digits \<and> length digits = 13 then Some (drop 3 digits)
            else if starts_with ''0'' digits \<and> length digits = 11 then Some (drop 1 digits)
            else if length digits = 10 then Some digits else None)
     in case subscriber of
          None \<Rightarrow> Inl invalid_phone
        | Some t \<Rightarrow> if mobile_local t then Inr (''234'' @ t) else Inl invalid_phone)"

definition MONTHS :: "string list" where
  "MONTHS = [''jan'', ''feb'', ''mar'', ''apr'', ''may'', ''jun'', ''jul'', ''aug'', ''sep'', ''oct'', ''nov'', ''dec'']"

definition digit_run :: "nat \<Rightarrow> nat \<Rightarrow> string \<Rightarrow> bool" where
  "digit_run lo hi s \<longleftrightarrow> lo \<le> length s \<and> length s \<le> hi \<and> list_all is_digit s"

text \<open>The three parts of \<open>/^(..)[seps](..)[seps](..)$/\<close>.\<close>

definition three_parts :: "(char \<Rightarrow> bool) \<Rightarrow> string \<Rightarrow> (string \<times> string \<times> string) option" where
  "three_parts sep s =
    (let a = takeWhile (\<lambda>c. \<not> sep c) s; r = dropWhile (\<lambda>c. \<not> sep c) s;
         b = takeWhile (\<lambda>c. \<not> sep c) (tl r); q = dropWhile (\<lambda>c. \<not> sep c) (tl r)
     in if r = [] \<or> q = [] then None else Some (a, b, tl q))"

definition index_of :: "'a \<Rightarrow> 'a list \<Rightarrow> nat option" where
  "index_of x xs = (let n = length (takeWhile (\<lambda>y. y \<noteq> x) xs) in if n = length xs then None else Some n)"

definition dob_day_month_year :: "string \<Rightarrow> string option" where
  "dob_day_month_year t =
    (case three_parts (\<lambda>c. c = CHR ''-'' \<or> js_space c) t of
       None \<Rightarrow> None
     | Some (day, month, year) \<Rightarrow>
        if digit_run 1 2 day \<and> 3 \<le> length month \<and> list_all is_alpha month \<and> digit_run 4 4 year
        then map_option (\<lambda>m. year @ ''-'' @ pad_start 2 CHR ''0'' (nat_str (m + 1)) @ ''-'' @
               pad_start 2 CHR ''0'' day) (index_of (to_lower (take 3 month)) MONTHS)
        else None)"

definition dob_slashes :: "string \<Rightarrow> string option" where
  "dob_slashes t =
    (case three_parts (\<lambda>c. c = CHR ''/'') t of
       None \<Rightarrow> None
     | Some (day, month, year) \<Rightarrow>
        if digit_run 1 2 day \<and> digit_run 1 2 month \<and> digit_run 4 4 year
        then Some (year @ ''-'' @ pad_start 2 CHR ''0'' month @ ''-'' @ pad_start 2 CHR ''0'' day)
        else None)"

definition iso_shape :: "string \<Rightarrow> bool" where
  "iso_shape t \<longleftrightarrow>
    (case three_parts (\<lambda>c. c = CHR ''-'') t of
       None \<Rightarrow> False
     | Some (y, m, d) \<Rightarrow> digit_run 4 4 y \<and> digit_run 2 2 m \<and> digit_run 2 2 d)"

definition normalizeDobToIso :: "string \<Rightarrow> http_error + string" where
  "normalizeDobToIso raw =
    (let t = js_trim raw in
     if iso_shape t then Inr t
     else case dob_day_month_year t of
            Some d \<Rightarrow> Inr d
          | None \<Rightarrow> (case dob_slashes t of
                       Some d \<Rightarrow> Inr d
                     | None \<Rightarrow> Inl (PlainError ''Unrecognized date-of-birth format from BVN provider'')))"

section \<open>Finding and writing users\<close>

definition findByEmail :: "string \<Rightarrow> auth_state \<Rightarrow> user option" where
  "findByEmail email s = find_row (\<lambda>u. u_email u = normalizeEmail email) (users s)"

definition findByPhone :: "string \<Rightarrow> auth_state \<Rightarrow> user option" where
  "findByPhone phone s = find_row (\<lambda>u. u_phone u = Some phone) (users s)"

definition findByBvn :: "string \<Rightarrow> auth_state \<Rightarrow> user option" where
  "findByBvn bvn s = find_row (\<lambda>u. u_bvn u = Some bvn) (users s)"

definition findByNin :: "string \<Rightarrow> auth_state \<Rightarrow> user option" where
  "findByNin nin s = find_row (\<lambda>u. u_nin u = Some nin) (users s)"

definition findUserById :: "uuid \<Rightarrow> user auth" where
  "findUserById i = bindM (getM (find_user i)) (\<lambda>u. someM u (NotFound ''User not found''))"

definition new_user :: "string \<Rightarrow> string \<Rightarrow> string \<Rightarrow> string \<Rightarrow> date \<Rightarrow> user" where
  "new_user email passwordHash firstName lastName now =
    \<lparr>u_id = 0, u_firstName = firstName, u_lastName = lastName, u_email = normalizeEmail email,
     u_emailVerifiedAt = None, u_phone = None, u_phoneVerifiedAt = None, u_bvn = None,
     u_bvnVerifiedAt = None, u_dateOfBirth = None, u_nin = None, u_ninVerifiedAt = None,
     u_passwordHash = passwordHash, u_status = US_PENDING_VERIFICATION, u_tier = TIER_1,
     u_transactionPinHash = None, u_deviceLimitUntil = None, u_transferLimitPerTxn = None,
     u_transferLimitDaily = None, u_passwordFailedAttempts = 0, u_passwordLockedUntil = None,
     u_pinFailedAttempts = 0, u_pinLockedUntil = None, u_transactionPinSetAt = None,
     u_tierUpgradeStatus = TU_NONE, u_tierUpgradeSubmittedAt = None, u_provisioningRequestedAt = None,
     u_tierUpgradeDecidedAt = None, u_tierUpgradeDecisionNote = None, u_closedAt = None,
     u_createdAt = now\<rparr>"

definition create_user :: "string \<Rightarrow> string \<Rightarrow> string \<Rightarrow> string \<Rightarrow> date \<Rightarrow> user auth" where
  "create_user email passwordHash firstName lastName now s =
    (let u = (new_user email passwordHash firstName lastName now)\<lparr>u_id := fresh_id s\<rparr> in
     if list_ex (user_conflict u) (users s) then (Inl UniqueViolation, s)
     else (Inr u, s\<lparr>users := insert_row u (users s), fresh_id := Suc (fresh_id s)\<rparr>))"

definition updateRegistrationDetails :: "uuid \<Rightarrow> string \<Rightarrow> string \<Rightarrow> string \<Rightarrow> unit auth" where
  "updateRegistrationDetails i firstName lastName passwordHash =
    write_user i (\<lambda>u. u\<lparr>u_firstName := firstName, u_lastName := lastName, u_passwordHash := passwordHash\<rparr>)"

definition markEmailVerified :: "uuid \<Rightarrow> date \<Rightarrow> unit auth" where
  "markEmailVerified i now = write_user i (\<lambda>u. u\<lparr>u_status := US_ACTIVE, u_emailVerifiedAt := Some now\<rparr>)"

definition setPhone :: "uuid \<Rightarrow> string \<Rightarrow> unit auth" where
  "setPhone i phone = write_user i (\<lambda>u. u\<lparr>u_phone := Some phone\<rparr>)"

definition markPhoneVerified :: "uuid \<Rightarrow> date \<Rightarrow> unit auth" where
  "markPhoneVerified i now = write_user i (\<lambda>u. u\<lparr>u_phoneVerifiedAt := Some now\<rparr>)"

definition setBvn :: "uuid \<Rightarrow> string \<Rightarrow> unit auth" where
  "setBvn i bvn = write_user i (\<lambda>u. u\<lparr>u_bvn := Some bvn\<rparr>)"

definition markBvnVerified :: "uuid \<Rightarrow> date \<Rightarrow> unit auth" where
  "markBvnVerified i now = write_user i (\<lambda>u. u\<lparr>u_bvnVerifiedAt := Some now\<rparr>)"

definition setDateOfBirth :: "uuid \<Rightarrow> string \<Rightarrow> unit auth" where
  "setDateOfBirth i d = write_user i (\<lambda>u. u\<lparr>u_dateOfBirth := Some d\<rparr>)"

definition setNinVerified :: "uuid \<Rightarrow> string \<Rightarrow> date \<Rightarrow> unit auth" where
  "setNinVerified i nin now = write_user i (\<lambda>u. u\<lparr>u_nin := Some nin, u_ninVerifiedAt := Some now\<rparr>)"

definition updatePassword :: "uuid \<Rightarrow> string \<Rightarrow> unit auth" where
  "updatePassword i h = write_user i (\<lambda>u. u\<lparr>u_passwordHash := h\<rparr>)"

definition write_transaction_pin :: "uuid \<Rightarrow> string \<Rightarrow> date \<Rightarrow> unit auth" where
  "write_transaction_pin i h now =
    write_user i (\<lambda>u. u\<lparr>u_transactionPinHash := Some h, u_transactionPinSetAt := Some now\<rparr>)"

definition setTierUpgradeStatus :: "uuid \<Rightarrow> tier_upgrade_status \<Rightarrow> date option \<Rightarrow> unit auth" where
  "setTierUpgradeStatus i st submitted =
    write_user i (\<lambda>u. u\<lparr>u_tierUpgradeStatus := st, u_tierUpgradeSubmittedAt := submitted,
      u_tierUpgradeDecidedAt := None, u_tierUpgradeDecisionNote := None\<rparr>)"

definition setStatus :: "uuid \<Rightarrow> user_status \<Rightarrow> unit auth" where
  "setStatus i st = write_user i (\<lambda>u. u\<lparr>u_status := st\<rparr>)"

definition updateProfileFields :: "uuid \<Rightarrow> string option \<Rightarrow> string option \<Rightarrow> unit auth" where
  "updateProfileFields i firstName lastName =
    write_user i (\<lambda>u. u\<lparr>u_firstName := (case firstName of None \<Rightarrow> u_firstName u | Some n \<Rightarrow> n),
      u_lastName := (case lastName of None \<Rightarrow> u_lastName u | Some n \<Rightarrow> n)\<rparr>)"

definition setPhoneUnverified :: "uuid \<Rightarrow> string \<Rightarrow> unit auth" where
  "setPhoneUnverified i phone = write_user i (\<lambda>u. u\<lparr>u_phone := Some phone, u_phoneVerifiedAt := None\<rparr>)"

definition markClosed :: "uuid \<Rightarrow> string \<Rightarrow> date \<Rightarrow> unit auth" where
  "markClosed i email now =
    write_user i (\<lambda>u. u\<lparr>u_status := US_CLOSED, u_closedAt := Some now, u_email := email,
      u_phone := None, u_phoneVerifiedAt := None\<rparr>)"

section \<open>Claims decided by one conditional update\<close>

definition claimPaymentAccountProvisioning :: "uuid \<Rightarrow> date \<Rightarrow> bool auth" where
  "claimPaymentAccountProvisioning i now s =
    (case find_user i s of
       None \<Rightarrow> (Inr False, s)
     | Some u \<Rightarrow>
        if u_provisioningRequestedAt u \<noteq> None then (Inr False, s)
        else (Inr True, update_user i (\<lambda>u. u\<lparr>u_provisioningRequestedAt := Some now\<rparr>) s))"

definition decideTierUpgrade :: "uuid \<Rightarrow> bool \<Rightarrow> string option \<Rightarrow> date \<Rightarrow> bool auth" where
  "decideTierUpgrade i approve note now s =
    (case find_user i s of
       None \<Rightarrow> (Inr False, s)
     | Some u \<Rightarrow>
        if u_tierUpgradeStatus u \<noteq> TU_UNDER_REVIEW then (Inr False, s)
        else (Inr True, update_user i
          (\<lambda>u. u\<lparr>u_tierUpgradeStatus := (if approve then TU_APPROVED else TU_REJECTED),
                u_tierUpgradeDecidedAt := Some now, u_tierUpgradeDecisionNote := note,
                u_tier := (if approve then TIER_3 else u_tier u)\<rparr>) s))"

section \<open>Guesses of a password or PIN\<close>

definition MAX_FAILED_ATTEMPTS :: nat where "MAX_FAILED_ATTEMPTS = 5"

definition LOCKOUT_SECONDS :: int where "LOCKOUT_SECONDS = 15 * 60"

definition guard_of :: "secret_kind \<Rightarrow> user \<Rightarrow> nat \<times> date option" where
  "guard_of k u = (case k of
       SK_PASSWORD \<Rightarrow> (u_passwordFailedAttempts u, u_passwordLockedUntil u)
     | SK_PIN \<Rightarrow> (u_pinFailedAttempts u, u_pinLockedUntil u))"

definition set_guard :: "secret_kind \<Rightarrow> nat \<times> date option \<Rightarrow> user \<Rightarrow> user" where
  "set_guard k g u = (case k of
       SK_PASSWORD \<Rightarrow> u\<lparr>u_passwordFailedAttempts := fst g, u_passwordLockedUntil := snd g\<rparr>
     | SK_PIN \<Rightarrow> u\<lparr>u_pinFailedAttempts := fst g, u_pinLockedUntil := snd g\<rparr>)"

text \<open>The reserving UPDATE on one row: None when the row is locked, else the new counter and lock.\<close>

definition reserve :: "date \<Rightarrow> nat \<times> date option \<Rightarrow> (nat \<times> date option) option" where
  "reserve now g =
    (case g of (attempts, lockedUntil) \<Rightarrow>
      (let expired = (case lockedUntil of None \<Rightarrow> False | Some t \<Rightarrow> t \<le> now);
           next = (if expired then 1 else attempts + 1)
       in if lockedUntil = None \<or> expired
          then Some (next, if MAX_FAILED_ATTEMPTS \<le> next then Some (now + LOCKOUT_SECONDS * 1000) else None)
          else None))"

definition too_many_attempts :: http_error where
  "too_many_attempts = TooManyRequests ''Too many failed attempts. Try again in 15 minutes.''"

definition reserve_attempt :: "date \<Rightarrow> uuid \<Rightarrow> secret_kind \<Rightarrow> bool auth" where
  "reserve_attempt now i k s =
    (case find_user i s of
       None \<Rightarrow> (Inl too_many_attempts, s)
     | Some u \<Rightarrow>
        (case reserve now (guard_of k u) of
           None \<Rightarrow> (Inl too_many_attempts, s)
         | Some g \<Rightarrow> (Inr (snd g \<noteq> None), update_user i (set_guard k g) s)))"

text \<open>
  \<open>check\<close> is the outcome of the comparison, which reads nothing of the database; other requests
  run while it is computed.
\<close>

definition guardedVerify ::
  "auth_env \<Rightarrow> uuid \<Rightarrow> secret_kind \<Rightarrow> bool \<Rightarrow> bool auth" where
  "guardedVerify env i k check =
    bindM (reserve_attempt (ae_now env) i k) (\<lambda>locked.
    bindM (updM (ae_others env)) (\<lambda>_.
    bindM (updM (\<lambda>s. if \<not> check \<and> locked then send_out (LockoutAlert i k) s else s)) (\<lambda>_.
    bindM (updM (\<lambda>s. if check then update_user i (set_guard k (0, None)) s else s)) (\<lambda>_.
    retM check))))"

definition clearLockouts :: "uuid \<Rightarrow> unit auth" where
  "clearLockouts i =
    updM (update_user i (\<lambda>u. set_guard SK_PIN (0, None) (set_guard SK_PASSWORD (0, None) u)))"

section \<open>Transfer limits\<close>

definition startDeviceLimit :: "auth_env \<Rightarrow> uuid \<Rightarrow> unit auth" where
  "startDeviceLimit env i =
    updM (update_user i (\<lambda>u. u\<lparr>u_deviceLimitUntil := Some (ae_now env + ae_deviceLimitHours env * 3600000)\<rparr>))"

record tier_limit =
  tm_maxSingleDeposit :: "money option"
  tm_maxCumulativeBalance :: "money option"
  tm_maxPerTransfer :: "money option"
  tm_maxDailyTransfer :: "money option"

definition TIER_LIMITS :: "customer_tier \<Rightarrow> tier_limit" where
  "TIER_LIMITS t = (case t of
     TIER_1 \<Rightarrow> \<lparr>tm_maxSingleDeposit = Some 50000, tm_maxCumulativeBalance = Some 300000,
                tm_maxPerTransfer = Some 200000, tm_maxDailyTransfer = Some 200000\<rparr>
   | TIER_2 \<Rightarrow> \<lparr>tm_maxSingleDeposit = Some 200000, tm_maxCumulativeBalance = Some 500000,
                tm_maxPerTransfer = Some 5000000, tm_maxDailyTransfer = Some 5000000\<rparr>
   | TIER_3 \<Rightarrow> \<lparr>tm_maxSingleDeposit = None, tm_maxCumulativeBalance = None,
                tm_maxPerTransfer = Some 5000000, tm_maxDailyTransfer = Some 10000000\<rparr>)"

definition transferCapsFor :: "customer_tier \<Rightarrow> money option \<Rightarrow> money option \<Rightarrow> transfer_caps" where
  "transferCapsFor tier perTxn daily =
    (let tierPerTransfer = map_option (to_fixed 2) (tm_maxPerTransfer (TIER_LIMITS tier));
         tierDaily = map_option (to_fixed 2) (tm_maxDailyTransfer (TIER_LIMITS tier))
     in \<lparr>tc_perTransfer = coalesce perTxn tierPerTransfer, tc_daily = coalesce daily tierDaily,
         tc_tierPerTransfer = tierPerTransfer, tc_tierDaily = tierDaily\<rparr>)"

definition over :: "money option \<Rightarrow> money option \<Rightarrow> bool" where
  "over v cap = (case (v, cap) of (Some x, Some c) \<Rightarrow> c < x | _ \<Rightarrow> False)"

text \<open>\<open>Number(null)\<close> is 0.\<close>

definition number_or_0 :: "money option \<Rightarrow> money" where
  "number_or_0 v = (case v of None \<Rightarrow> 0 | Some x \<Rightarrow> x)"

definition setTransferCaps :: "uuid \<Rightarrow> money option \<Rightarrow> money option \<Rightarrow> transfer_caps auth" where
  "setTransferCaps i perTransfer daily =
    bindM (findUserById i) (\<lambda>user.
    (let t = TIER_LIMITS (u_tier user);
         effective = transferCapsFor (u_tier user) (map_option (to_fixed 2) perTransfer)
                       (map_option (to_fixed 2) daily)
     in bindM (assertM (\<not> over perTransfer (tm_maxPerTransfer t))
               (BadRequest ''Your per-transfer limit can't be more than your tier allows'')) (\<lambda>_.
        bindM (assertM (\<not> over daily (tm_maxDailyTransfer t))
               (BadRequest ''Your daily limit can't be more than your tier allows'')) (\<lambda>_.
        bindM (assertM (\<not> (tc_daily effective \<noteq> None \<and>
                 number_or_0 (tc_daily effective) < number_or_0 (tc_perTransfer effective)))
               (BadRequest ''Your per-transfer limit can't be more than your daily limit'')) (\<lambda>_.
        bindM (write_user i (\<lambda>u. u\<lparr>u_transferLimitPerTxn := map_option (to_fixed 2) perTransfer,
                 u_transferLimitDaily := map_option (to_fixed 2) daily\<rparr>)) (\<lambda>_.
        retM effective))))))"

definition transferLimitFor :: "auth_env \<Rightarrow> user \<Rightarrow> transfer_limit option" where
  "transferLimitFor env user =
    (case u_deviceLimitUntil user of
       None \<Rightarrow> None
     | Some until \<Rightarrow>
        if until \<le> ae_now env then None
        else Some \<lparr>tl_amount = to_fixed 2 (ae_deviceLimitAmount env),
                   tl_since = until - ae_deviceLimitHours env * 3600000, tl_until = until\<rparr>)"

end
