(* ===== verification/AuthTokens.thy ===== *)
theory AuthTokens
  imports AuthUsers
begin

text \<open>
  One-time codes (\<open>otp.service.ts\<close>), refresh and reset tokens (\<open>tokens.service.ts\<close>), sessions
  (\<open>sessions.service.ts\<close>, \<open>jwt.strategy.ts\<close>) and trusted devices (\<open>devices.service.ts\<close>).  Where a
  method reads a row, awaits, and then writes it, \<open>ae_others\<close> runs in between.  A signed access
  token is the pair it carries.
\<close>

section \<open>One-time codes\<close>

text \<open>The most recent row that matches (\<open>order: createdAt DESC\<close>); of two created at once, the later.\<close>

definition latest_otp :: "(otp \<Rightarrow> bool) \<Rightarrow> auth_state \<Rightarrow> otp option" where
  "latest_otp P s =
    (case filter P (otps s) of
       [] \<Rightarrow> None
     | o1 # os \<Rightarrow> Some (fold (\<lambda>x best. if o_createdAt best \<le> o_createdAt x then x else best) os o1))"

definition otp_generate :: "auth_env \<Rightarrow> uuid \<Rightarrow> otp_purpose \<Rightarrow> string auth" where
  "otp_generate env userId purpose =
    bindM (getM (latest_otp (\<lambda>x. o_userId x = userId \<and> o_purpose x = purpose \<and>
             ae_now env - ae_otpCooldown env < o_createdAt x))) (\<lambda>recent.
    bindM (assertM (recent = None) (TooManyRequests ''Please wait before requesting another code'')) (\<lambda>_.
    bindM (updM (\<lambda>s. s\<lparr>otps := insert_row
        \<lparr>o_id = fresh_id s, o_userId = userId, o_purpose = purpose, o_codeHash = ae_sha256 env (ae_code env),
         o_attempts = 0, o_consumedAt = None, o_expiresAt = ae_now env + ae_otpTtl env,
         o_createdAt = ae_now env\<rparr> (otps s), fresh_id := Suc (fresh_id s)\<rparr>)) (\<lambda>_.
    retM (ae_code env))))"

definition update_otp :: "uuid \<Rightarrow> (otp \<Rightarrow> otp) \<Rightarrow> auth_state \<Rightarrow> auth_state" where
  "update_otp i f s = s\<lparr>otps := update_where (by_key o_id i) f (otps s)\<rparr>"

definition otp_verify :: "auth_env \<Rightarrow> uuid \<Rightarrow> otp_purpose \<Rightarrow> string \<Rightarrow> bool auth" where
  "otp_verify env userId purpose c =
    bindM (getM (latest_otp (\<lambda>x. o_userId x = userId \<and> o_purpose x = purpose \<and> o_consumedAt x = None))) (\<lambda>found.
    case found of
      None \<Rightarrow> retM False
    | Some x \<Rightarrow>
        (if o_expiresAt x < ae_now env \<or> ae_otpMaxAttempts env \<le> o_attempts x then retM False
         else if ae_sha256 env c \<noteq> o_codeHash x then
           bindM (updM (ae_others env)) (\<lambda>_.
           bindM (updM (update_otp (o_id x) (\<lambda>y. y\<lparr>o_attempts := o_attempts x + 1\<rparr>))) (\<lambda>_. retM False))
         else
           bindM (updM (ae_others env)) (\<lambda>_.
           bindM (updM (update_otp (o_id x) (\<lambda>y. y\<lparr>o_consumedAt := Some (ae_now env)\<rparr>))) (\<lambda>_. retM True))))"

section \<open>Durations\<close>

definition duration_unit :: "char \<Rightarrow> int option" where
  "duration_unit c =
    (if c = CHR ''s'' then Some 1000 else if c = CHR ''m'' then Some 60000
     else if c = CHR ''h'' then Some 3600000 else if c = CHR ''d'' then Some 86400000 else None)"

definition addDuration :: "date \<Rightarrow> string \<Rightarrow> http_error + date" where
  "addDuration base duration =
    (let t = js_trim duration; amount = butlast t in
     if t = [] \<or> amount = [] \<or> \<not> list_all is_digit amount then Inl (PlainError ''Invalid duration string'')
     else (case duration_unit (last t) of
             None \<Rightarrow> Inl (PlainError ''Invalid duration string'')
           | Some ms \<Rightarrow> Inr (base + int (digits_val amount) * ms)))"

section \<open>Refresh tokens\<close>

definition token_row :: "auth_env \<Rightarrow> uuid \<Rightarrow> uuid \<Rightarrow> refresh_token" where
  "token_row env userId sessionId =
    \<lparr>rt_id = 0, rt_userId = userId, rt_sessionId = sessionId, rt_tokenHash = ae_sha256 env (ae_token env),
     rt_revokedAt = None, rt_replacedByTokenId = None, rt_expiresAt = ae_now env + ae_refreshTtl env\<rparr>"

text \<open>The hash is unique among the refresh tokens.\<close>

definition insert_refresh :: "refresh_token \<Rightarrow> refresh_token auth" where
  "insert_refresh t s =
    (if list_ex (\<lambda>x. rt_tokenHash x = rt_tokenHash t) (refreshTokens s) then (Inl UniqueViolation, s)
     else (let t' = t\<lparr>rt_id := fresh_id s\<rparr>
           in (Inr t', s\<lparr>refreshTokens := insert_row t' (refreshTokens s), fresh_id := Suc (fresh_id s)\<rparr>)))"

definition issueTokenPair :: "auth_env \<Rightarrow> uuid \<Rightarrow> uuid \<Rightarrow> token_pair auth" where
  "issueTokenPair env userId sessionId =
    bindM (insert_refresh (token_row env userId sessionId)) (\<lambda>_.
    retM \<lparr>tk_accessToken = \<lparr>at_sub = userId, at_sid = sessionId\<rparr>, tk_refreshToken = ae_token env\<rparr>)"

definition revoke_refresh :: "(refresh_token \<Rightarrow> bool) \<Rightarrow> date \<Rightarrow> auth_state \<Rightarrow> auth_state" where
  "revoke_refresh P now s =
    s\<lparr>refreshTokens := update_where (\<lambda>t. P t \<and> rt_revokedAt t = None) (\<lambda>t. t\<lparr>rt_revokedAt := Some now\<rparr>)
        (refreshTokens s)\<rparr>"

definition revokeSessionTokens :: "uuid \<Rightarrow> date \<Rightarrow> unit auth" where
  "revokeSessionTokens sid now = updM (revoke_refresh (\<lambda>t. rt_sessionId t = sid) now)"

definition revokeAllRefreshTokensForUser :: "uuid \<Rightarrow> date \<Rightarrow> unit auth" where
  "revokeAllRefreshTokensForUser uid now = updM (revoke_refresh (\<lambda>t. rt_userId t = uid) now)"

definition revokeAllRefreshTokensForUserExcept :: "uuid \<Rightarrow> uuid \<Rightarrow> date \<Rightarrow> unit auth" where
  "revokeAllRefreshTokensForUserExcept uid sid now =
    updM (revoke_refresh (\<lambda>t. rt_userId t = uid \<and> rt_sessionId t \<noteq> sid) now)"

definition find_refresh :: "string \<Rightarrow> auth_state \<Rightarrow> refresh_token option" where
  "find_refresh h s = find_row (\<lambda>t. rt_tokenHash t = h) (refreshTokens s)"

text \<open>The transaction of \<open>rotateRefreshToken\<close>: lock, check again, insert the new row, revoke the old.\<close>

definition rotate_in_tx :: "auth_env \<Rightarrow> uuid \<Rightarrow> token_pair auth" where
  "rotate_in_tx env tid =
    txM
      (bindM (getM (\<lambda>s. find_row (by_key rt_id tid) (refreshTokens s))) (\<lambda>row.
       bindM (someM row (Unauthorized ''Refresh token reuse detected'')) (\<lambda>locked.
       bindM (assertM (rt_revokedAt locked = None) (Unauthorized ''Refresh token reuse detected'')) (\<lambda>_.
       bindM (insert_refresh (token_row env (rt_userId locked) (rt_sessionId locked))) (\<lambda>new.
       bindM (updM (\<lambda>s. s\<lparr>refreshTokens := update_where (by_key rt_id tid)
           (\<lambda>t. t\<lparr>rt_revokedAt := Some (ae_now env), rt_replacedByTokenId := Some (rt_id new)\<rparr>)
           (refreshTokens s)\<rparr>)) (\<lambda>_.
       retM \<lparr>tk_accessToken = \<lparr>at_sub = rt_userId locked, at_sid = rt_sessionId locked\<rparr>,
             tk_refreshToken = ae_token env\<rparr>))))))"

definition rotateRefreshToken :: "auth_env \<Rightarrow> string \<Rightarrow> token_pair auth" where
  "rotateRefreshToken env raw =
    bindM (getM (find_refresh (ae_sha256 env raw))) (\<lambda>found.
    case found of
      None \<Rightarrow> failM (Unauthorized ''Invalid refresh token'')
    | Some existing \<Rightarrow>
        (if rt_revokedAt existing \<noteq> None then
           bindM (updM (revoke_refresh (\<lambda>t. rt_sessionId t = rt_sessionId existing) (ae_now env))) (\<lambda>_.
           failM (Unauthorized ''Refresh token reuse detected''))
         else if rt_expiresAt existing < ae_now env then failM (Unauthorized ''Refresh token expired'')
         else bindM (updM (ae_others env)) (\<lambda>_. rotate_in_tx env (rt_id existing))))"

section \<open>Reset tokens\<close>

definition RESET_TTL :: int where "RESET_TTL = 30 * 60000"

definition issuePasswordResetToken :: "auth_env \<Rightarrow> uuid \<Rightarrow> string auth" where
  "issuePasswordResetToken env userId =
    bindM (getM (\<lambda>s. list_ex (\<lambda>r. pr_tokenHash r = ae_sha256 env (ae_token env)) (resetTokens s))) (\<lambda>taken.
    bindM (assertM (\<not> taken) UniqueViolation) (\<lambda>_.
    bindM (updM (\<lambda>s. s\<lparr>resetTokens := insert_row
        \<lparr>pr_id = fresh_id s, pr_userId = userId, pr_tokenHash = ae_sha256 env (ae_token env),
         pr_consumedAt = None, pr_expiresAt = ae_now env + RESET_TTL\<rparr> (resetTokens s),
         fresh_id := Suc (fresh_id s)\<rparr>)) (\<lambda>_.
    retM (ae_token env))))"

definition consumePasswordResetToken :: "auth_env \<Rightarrow> string \<Rightarrow> uuid auth" where
  "consumePasswordResetToken env raw =
    bindM (getM (\<lambda>s. find_row (\<lambda>r. pr_tokenHash r = ae_sha256 env raw) (resetTokens s))) (\<lambda>row.
    bindM (someM row (Unauthorized ''Invalid or expired reset token'')) (\<lambda>r.
    bindM (assertM (pr_consumedAt r = None \<and> \<not> pr_expiresAt r < ae_now env)
             (Unauthorized ''Invalid or expired reset token'')) (\<lambda>_.
    bindM (updM (ae_others env)) (\<lambda>_.
    bindM (updM (\<lambda>s. s\<lparr>resetTokens := update_where (by_key pr_id (pr_id r))
        (\<lambda>x. x\<lparr>pr_consumedAt := Some (ae_now env)\<rparr>) (resetTokens s)\<rparr>)) (\<lambda>_.
    retM (pr_userId r))))))"

section \<open>Sessions\<close>

definition revoke_sessions :: "(session \<Rightarrow> bool) \<Rightarrow> date \<Rightarrow> auth_state \<Rightarrow> auth_state" where
  "revoke_sessions P now s =
    s\<lparr>sessions := update_where (\<lambda>x. P x \<and> ss_revokedAt x = None) (\<lambda>x. x\<lparr>ss_revokedAt := Some now\<rparr>)
        (sessions s)\<rparr>"

text \<open>One transaction under the advisory lock of the user.\<close>

definition createExclusive :: "date \<Rightarrow> uuid \<Rightarrow> request_meta \<Rightarrow> session auth" where
  "createExclusive now userId meta =
    txM
      (bindM (updM (revoke_sessions (\<lambda>x. ss_userId x = userId) now)) (\<lambda>_.
       bindM (getM fresh_id) (\<lambda>i.
       (let x = \<lparr>ss_id = i, ss_userId = userId, ss_deviceId = rm_deviceId meta,
                 ss_deviceName = rm_deviceName meta, ss_userAgent = rm_userAgent meta,
                 ss_ipAddress = rm_ipAddress meta, ss_lastSeenAt = now, ss_revokedAt = None\<rparr>
        in bindM (updM (\<lambda>s. s\<lparr>sessions := insert_row x (sessions s), fresh_id := Suc i\<rparr>)) (\<lambda>_.
           retM x)))))"

definition listActiveForUser :: "uuid \<Rightarrow> auth_state \<Rightarrow> session list" where
  "listActiveForUser uid s =
    sort_key (\<lambda>x. - ss_lastSeenAt x) (filter (\<lambda>x. ss_userId x = uid \<and> ss_revokedAt x = None) (sessions s))"

definition revoke_session :: "uuid \<Rightarrow> uuid \<Rightarrow> date \<Rightarrow> unit auth" where
  "revoke_session sid uid now =
    bindM (getM (\<lambda>s. find_row (by_key ss_id sid) (sessions s))) (\<lambda>row.
    bindM (someM row (NotFound ''Session not found'')) (\<lambda>x.
    bindM (assertM (ss_userId x = uid) (Forbidden ''Cannot revoke a session that is not yours'')) (\<lambda>_.
    updM (\<lambda>s. s\<lparr>sessions := update_where (by_key ss_id sid) (\<lambda>x. x\<lparr>ss_revokedAt := Some now\<rparr>) (sessions s)\<rparr>))))"

definition revokeAllForUser :: "uuid \<Rightarrow> date \<Rightarrow> unit auth" where
  "revokeAllForUser uid now = updM (revoke_sessions (\<lambda>x. ss_userId x = uid) now)"

definition revokeAllForUserExcept :: "uuid \<Rightarrow> uuid \<Rightarrow> date \<Rightarrow> unit auth" where
  "revokeAllForUserExcept uid sid now =
    updM (revoke_sessions (\<lambda>x. ss_userId x = uid \<and> ss_id x \<noteq> sid) now)"

text \<open>\<open>JwtStrategy.validate\<close> of the auth service, for a token whose signature is good.\<close>

definition jwt_validate :: "date \<Rightarrow> access_token \<Rightarrow> (uuid \<times> uuid) auth" where
  "jwt_validate now payload =
    bindM (getM (\<lambda>s. find_row (\<lambda>x. ss_id x = at_sid payload \<and> ss_revokedAt x = None) (sessions s))) (\<lambda>row.
    bindM (someM row (Unauthorized ''Session no longer active'')) (\<lambda>x.
    bindM (updM (\<lambda>s. s\<lparr>sessions := update_where (by_key ss_id (ss_id x))
        (\<lambda>y. y\<lparr>ss_lastSeenAt := now\<rparr>) (sessions s)\<rparr>)) (\<lambda>_.
    retM (at_sub payload, at_sid payload))))"

text \<open>The payment service's own strategy: signature and expiry only.\<close>

definition payment_jwt_validate :: "access_token \<Rightarrow> uuid \<times> uuid" where
  "payment_jwt_validate payload = (at_sub payload, at_sid payload)"

section \<open>Trusted devices\<close>

definition find_device :: "uuid \<Rightarrow> string \<Rightarrow> auth_state \<Rightarrow> trusted_device option" where
  "find_device uid d s = find_row (\<lambda>x. td_userId x = uid \<and> td_deviceId x = d) (devices s)"

definition isTrusted :: "uuid \<Rightarrow> string option \<Rightarrow> auth_state \<Rightarrow> bool" where
  "isTrusted uid deviceId s =
    (case deviceId of None \<Rightarrow> False | Some d \<Rightarrow> d \<noteq> [] \<and> find_device uid d s \<noteq> None)"

text \<open>Answers whether the device is new and whether the user had another one.\<close>

definition trust :: "date \<Rightarrow> uuid \<Rightarrow> string \<Rightarrow> string option \<Rightarrow> (bool \<times> bool) auth" where
  "trust now uid d name s =
    (case find_device uid d s of
       Some x \<Rightarrow> (Inr (False, True), s\<lparr>devices := update_where (by_key td_id (td_id x))
           (\<lambda>y. y\<lparr>td_lastSeenAt := now, td_deviceName := coalesce name (td_deviceName x)\<rparr>) (devices s)\<rparr>)
     | None \<Rightarrow>
        (let hadOther = list_ex (\<lambda>x. td_userId x = uid) (devices s)
         in (Inr (True, hadOther), s\<lparr>devices := insert_row
              \<lparr>td_id = fresh_id s, td_userId = uid, td_deviceId = d, td_deviceName = name, td_trustedAt = now,
               td_lastSeenAt = now, td_biometricLoginEnabled = False,
               td_biometricTransactionEnabled = False\<rparr> (devices s), fresh_id := Suc (fresh_id s)\<rparr>)))"

definition setBiometricPreferences ::
  "uuid \<Rightarrow> string \<Rightarrow> bool option \<Rightarrow> bool option \<Rightarrow> trusted_device auth" where
  "setBiometricPreferences uid d login transaction =
    bindM (getM (find_device uid d)) (\<lambda>row.
    bindM (someM row (NotFound ''This device is not yet trusted'')) (\<lambda>x.
    bindM (updM (\<lambda>s. s\<lparr>devices := update_where (by_key td_id (td_id x))
        (\<lambda>y. y\<lparr>td_biometricLoginEnabled := (case login of None \<Rightarrow> td_biometricLoginEnabled y | Some b \<Rightarrow> b),
              td_biometricTransactionEnabled :=
                (case transaction of None \<Rightarrow> td_biometricTransactionEnabled y | Some b \<Rightarrow> b)\<rparr>) (devices s)\<rparr>)) (\<lambda>_.
    bindM (getM (\<lambda>s. find_row (by_key td_id (td_id x)) (devices s))) (\<lambda>row'.
    someM row' (NotFound ''EntityNotFound'')))))"

definition listDevices :: "uuid \<Rightarrow> auth_state \<Rightarrow> trusted_device list" where
  "listDevices uid s = sort_key (\<lambda>x. - td_lastSeenAt x) (filter (\<lambda>x. td_userId x = uid) (devices s))"

end
