(* ===== verification/AuthFlows.thy ===== *)
theory AuthFlows
  imports AuthTokens
begin

text \<open>
  \<open>AuthService\<close> (\<open>auth.service.ts\<close>): registration, codes, sign-in and its confirmation with the PIN
  on a new device, PIN and password changes, phone and BVN, password reset, and the request to the
  payment service to open an account.  The reply of the BVN provider is an argument.  The code echoed
  in the answers of a development server (\<open>devOtp\<close>) is left out.
\<close>

section \<open>Registration\<close>

record onboarding_progress =
  op_emailVerified :: bool
  op_phoneVerified :: bool
  op_bvnVerified :: bool
  op_pinSet :: bool
  op_onboardingComplete :: bool

definition progressOf :: "user \<Rightarrow> onboarding_progress" where
  "progressOf u = \<lparr>op_emailVerified = (u_emailVerifiedAt u \<noteq> None), op_phoneVerified = (u_phoneVerifiedAt u \<noteq> None),
    op_bvnVerified = (u_bvnVerifiedAt u \<noteq> None), op_pinSet = (u_transactionPinHash u \<noteq> None),
    op_onboardingComplete = (u_emailVerifiedAt u \<noteq> None \<and> u_phoneVerifiedAt u \<noteq> None \<and> u_bvnVerifiedAt u \<noteq> None)\<rparr>"

definition email_taken :: http_error where
  "email_taken = Conflict ''An account with this email already exists''"

definition register :: "auth_env \<Rightarrow> string \<Rightarrow> string \<Rightarrow> string \<Rightarrow> string \<Rightarrow> (uuid \<times> string) auth" where
  "register env firstName lastName email password =
    bindM (getM (findByEmail email)) (\<lambda>found.
    bindM (assertM (\<not> (case found of None \<Rightarrow> False | Some u \<Rightarrow> u_status u = US_ACTIVE)) email_taken) (\<lambda>_.
    bindM (assertM (\<not> (case found of None \<Rightarrow> False | Some u \<Rightarrow> u_status u = US_SUSPENDED)) email_taken) (\<lambda>_.
    bindM (case found of
             Some u \<Rightarrow> bindM (updateRegistrationDetails (u_id u) firstName lastName (ae_hash env password)) (\<lambda>_. retM u)
           | None \<Rightarrow> create_user email (ae_hash env password) firstName lastName (ae_now env)) (\<lambda>user.
    bindM (otp_generate env (u_id user) OP_REGISTRATION) (\<lambda>c.
    bindM (updM (send_out (EmailCode (u_email user) c))) (\<lambda>_.
    retM (u_id user, u_email user)))))))"

definition resendRegistrationOtp :: "auth_env \<Rightarrow> string \<Rightarrow> unit auth" where
  "resendRegistrationOtp env email =
    bindM (getM (findByEmail email)) (\<lambda>found.
    bindM (someM (case found of None \<Rightarrow> None
             | Some u \<Rightarrow> if u_emailVerifiedAt u \<noteq> None \<or> u_status u \<noteq> US_PENDING_VERIFICATION then None else Some u)
             (BadRequest ''No pending registration for this email'')) (\<lambda>user.
    bindM (otp_generate env (u_id user) OP_REGISTRATION) (\<lambda>c.
    updM (send_out (EmailCode (u_email user) c)))))"

section \<open>Devices and sign-in\<close>

definition trustDevice :: "auth_env \<Rightarrow> user \<Rightarrow> string \<Rightarrow> string option \<Rightarrow> unit auth" where
  "trustDevice env user d name =
    bindM (trust (ae_now env) (u_id user) d name) (\<lambda>(created, hadOtherDevices).
    if \<not> created then retM ()
    else whenM (hadOtherDevices \<or> ae_now env - u_createdAt user > ae_deviceLimitHours env * 3600000)
           (startDeviceLimit env (u_id user)))"

definition trust_if_given :: "auth_env \<Rightarrow> user \<Rightarrow> string option \<Rightarrow> string option \<Rightarrow> unit auth" where
  "trust_if_given env user d name =
    (case d of None \<Rightarrow> retM () | Some x \<Rightarrow> if x = [] then retM () else trustDevice env user x name)"

text \<open>
  The end of every sign-in: the other sessions go and a new one comes, then its tokens; another
  request may run between the two.
\<close>

definition open_session :: "auth_env \<Rightarrow> uuid \<Rightarrow> request_meta \<Rightarrow> token_pair auth" where
  "open_session env uid meta =
    bindM (createExclusive (ae_now env) uid meta) (\<lambda>session.
    bindM (updM (ae_others env)) (\<lambda>_.
    issueTokenPair env uid (ss_id session)))"

definition invalid_code :: http_error where
  "invalid_code = Unauthorized ''Invalid or expired code''"

definition verifyOtp ::
  "auth_env \<Rightarrow> string \<Rightarrow> string \<Rightarrow> otp_purpose \<Rightarrow> request_meta \<Rightarrow> (token_pair \<times> onboarding_progress) auth" where
  "verifyOtp env email c purpose meta =
    bindM (getM (findByEmail email)) (\<lambda>found.
    bindM (someM found invalid_code) (\<lambda>user.
    bindM (otp_verify env (u_id user) purpose c) (\<lambda>isValid.
    bindM (assertM isValid invalid_code) (\<lambda>_.
    bindM (if purpose = OP_REGISTRATION then
             bindM (assertM (u_status user = US_PENDING_VERIFICATION) invalid_code) (\<lambda>_.
             bindM (markEmailVerified (u_id user) (ae_now env)) (\<lambda>_.
             updM (send_out (SignedUp (u_id user)))))
           else retM ()) (\<lambda>_.
    bindM (revokeAllRefreshTokensForUser (u_id user) (ae_now env)) (\<lambda>_.
    bindM (findUserById (u_id user)) (\<lambda>refreshed.
    bindM (createExclusive (ae_now env) (u_id user) meta) (\<lambda>session.
    bindM (updM (ae_others env)) (\<lambda>_.
    bindM (trust_if_given env user (rm_deviceId meta) (rm_deviceName meta)) (\<lambda>_.
    bindM (issueTokenPair env (u_id user) (ss_id session)) (\<lambda>tokens.
    retM (tokens, progressOf refreshed))))))))))))"

datatype login_result = PinRequired string | SignedIn token_pair onboarding_progress

definition LOGIN_TICKET_TTL_MS :: int where "LOGIN_TICKET_TTL_MS = 5 * 60 * 1000"

definition LOGIN_TICKET_MAX_ATTEMPTS :: nat where "LOGIN_TICKET_MAX_ATTEMPTS = 5"

definition save_pending_login :: "auth_env \<Rightarrow> uuid \<Rightarrow> request_meta \<Rightarrow> unit auth" where
  "save_pending_login env uid meta s =
    (if list_ex (\<lambda>x. lg_ticketHash x = ae_sha256 env (ae_token env)) (pendingLogins s) then (Inl UniqueViolation, s)
     else (Inr (), s\<lparr>pendingLogins := insert_row
        \<lparr>lg_id = fresh_id s, lg_userId = uid, lg_ticketHash = ae_sha256 env (ae_token env),
         lg_deviceId = rm_deviceId meta, lg_userAgent = rm_userAgent meta, lg_ipAddress = rm_ipAddress meta,
         lg_attempts = 0, lg_consumedAt = None, lg_expiresAt = ae_now env + LOGIN_TICKET_TTL_MS\<rparr>
        (pendingLogins s), fresh_id := Suc (fresh_id s)\<rparr>))"

definition login :: "auth_env \<Rightarrow> string \<Rightarrow> string \<Rightarrow> request_meta \<Rightarrow> login_result auth" where
  "login env email password meta =
    bindM (getM (findByEmail email)) (\<lambda>found.
    bindM (someM (case found of None \<Rightarrow> None | Some u \<Rightarrow> if u_status u \<noteq> US_ACTIVE then None else Some u)
             (Unauthorized ''Invalid credentials'')) (\<lambda>user.
    bindM (guardedVerify env (u_id user) SK_PASSWORD (ae_verifyHash env (u_passwordHash user) password)) (\<lambda>matches.
    bindM (assertM matches (Unauthorized ''Invalid credentials'')) (\<lambda>_.
    bindM (if u_transactionPinHash user = None then retM True
           else getM (isTrusted (u_id user) (rm_deviceId meta))) (\<lambda>deviceRecognized.
    if deviceRecognized then
      bindM (trust_if_given env user (rm_deviceId meta) (rm_deviceName meta)) (\<lambda>_.
      bindM (revokeAllRefreshTokensForUser (u_id user) (ae_now env)) (\<lambda>_.
      bindM (open_session env (u_id user) meta) (\<lambda>tokens.
      retM (SignedIn tokens (progressOf user)))))
    else
      bindM (updM (send_out (NewDeviceAlert (u_id user)))) (\<lambda>_.
      bindM (save_pending_login env (u_id user) meta) (\<lambda>_.
      retM (PinRequired (ae_token env)))))))))"

definition update_pending :: "uuid \<Rightarrow> (pending_login \<Rightarrow> pending_login) \<Rightarrow> auth_state \<Rightarrow> auth_state" where
  "update_pending i f s = s\<lparr>pendingLogins := update_where (by_key lg_id i) f (pendingLogins s)\<rparr>"

definition confirmLoginPin ::
  "auth_env \<Rightarrow> string \<Rightarrow> string \<Rightarrow> request_meta \<Rightarrow> (token_pair \<times> onboarding_progress) auth" where
  "confirmLoginPin env loginTicket pin meta =
    bindM (getM (\<lambda>s. find_row (\<lambda>x. lg_ticketHash x = ae_sha256 env loginTicket) (pendingLogins s))) (\<lambda>row.
    bindM (someM (case row of None \<Rightarrow> None
             | Some x \<Rightarrow> if lg_consumedAt x \<noteq> None \<or> lg_expiresAt x < ae_now env then None else Some x)
             (Unauthorized ''Login session expired'')) (\<lambda>pending.
    bindM (assertM (lg_attempts pending < LOGIN_TICKET_MAX_ATTEMPTS) (Unauthorized ''Too many attempts'')) (\<lambda>_.
    bindM (findUserById (lg_userId pending)) (\<lambda>user.
    bindM (someM (u_transactionPinHash user) (Unauthorized ''Transaction PIN not set'')) (\<lambda>pinHash.
    bindM (guardedVerify env (u_id user) SK_PIN (ae_verifyHash env pinHash pin)) (\<lambda>pinMatches.
    if \<not> pinMatches then
      bindM (updM (update_pending (lg_id pending) (\<lambda>x. x\<lparr>lg_attempts := lg_attempts pending + 1\<rparr>))) (\<lambda>_.
      failM (Unauthorized ''Incorrect PIN''))
    else
      bindM (updM (update_pending (lg_id pending) (\<lambda>x. x\<lparr>lg_consumedAt := Some (ae_now env)\<rparr>))) (\<lambda>_.
      (let deviceId = coalesce (lg_deviceId pending) (rm_deviceId meta) in
       bindM (trust_if_given env user deviceId (rm_deviceName meta)) (\<lambda>_.
       bindM (revokeAllRefreshTokensForUser (u_id user) (ae_now env)) (\<lambda>_.
       bindM (open_session env (u_id user) (meta\<lparr>rm_deviceId := deviceId,
                rm_userAgent := coalesce (lg_userAgent pending) (rm_userAgent meta),
                rm_ipAddress := coalesce (lg_ipAddress pending) (rm_ipAddress meta)\<rparr>)) (\<lambda>tokens.
       retM (tokens, progressOf user))))))))))))"

section \<open>Opening the payment account\<close>

definition maybeRequestPaymentProvisioning :: "auth_env \<Rightarrow> user \<Rightarrow> unit auth" where
  "maybeRequestPaymentProvisioning env user =
    (if u_bvnVerifiedAt user = None \<or> u_transactionPinHash user = None then retM ()
     else bindM (claimPaymentAccountProvisioning (u_id user) (ae_now env)) (\<lambda>claimed.
       if \<not> claimed then retM ()
       else bindM (updM (send_out (KycCompleted (u_id user)))) (\<lambda>_.
         (case (u_bvn user, u_dateOfBirth user) of
            (Some b, Some d) \<Rightarrow> if b = [] \<or> d = [] then retM ()
               else updM (send_out (ProvisioningRequest (u_id user) b d))
          | _ \<Rightarrow> retM ()))))"

definition bvn_ready :: "user \<Rightarrow> (string \<times> string) option" where
  "bvn_ready user =
    (case (u_bvnVerifiedAt user, u_bvn user, u_dateOfBirth user) of
       (Some _, Some b, Some d) \<Rightarrow> if b = [] \<or> d = [] then None else Some (b, d)
     | _ \<Rightarrow> None)"

definition retryPaymentProvisioning :: "uuid \<Rightarrow> (bool \<times> string option) auth" where
  "retryPaymentProvisioning i =
    bindM (findUserById i) (\<lambda>user.
    if u_status user = US_SUSPENDED then retM (False, Some ''Account is SUSPENDED'')
    else if u_status user = US_CLOSED then retM (False, Some ''Account is CLOSED'')
    else (case bvn_ready user of
       None \<Rightarrow> retM (False, Some ''BVN is not verified'')
     | Some (b, d) \<Rightarrow>
        (if u_transactionPinHash user = None then retM (False, Some ''Transaction PIN is not set'')
         else bindM (updM (send_out (ProvisioningRequest (u_id user) b d))) (\<lambda>_. retM (True, None)))))"

section \<open>PIN, password and limits\<close>

definition setTransactionPin :: "auth_env \<Rightarrow> uuid \<Rightarrow> string \<Rightarrow> string \<Rightarrow> unit auth" where
  "setTransactionPin env i pin confirmPin =
    bindM (findUserById i) (\<lambda>user.
    bindM (assertM (u_transactionPinHash user = None) (Conflict ''Transaction PIN already set - use reset instead'')) (\<lambda>_.
    bindM (assertM (pin = confirmPin) (BadRequest ''PINs don't match'')) (\<lambda>_.
    bindM (write_transaction_pin i (ae_hash env pin) (ae_now env)) (\<lambda>_.
    bindM (findUserById i) (maybeRequestPaymentProvisioning env)))))"

definition transferCaps :: "uuid \<Rightarrow> transfer_caps auth" where
  "transferCaps i = bindM (findUserById i) (\<lambda>u.
    retM (transferCapsFor (u_tier u) (u_transferLimitPerTxn u) (u_transferLimitDaily u)))"

definition transferLimit :: "auth_env \<Rightarrow> uuid \<Rightarrow> transfer_limit option auth" where
  "transferLimit env i = bindM (findUserById i) (\<lambda>u. retM (transferLimitFor env u))"

definition verifyTransactionPin :: "auth_env \<Rightarrow> uuid \<Rightarrow> string \<Rightarrow> unit auth" where
  "verifyTransactionPin env i pin =
    bindM (findUserById i) (\<lambda>user.
    bindM (someM (u_transactionPinHash user) (BadRequest ''No transaction PIN set'')) (\<lambda>pinHash.
    bindM (guardedVerify env i SK_PIN (ae_verifyHash env pinHash pin)) (\<lambda>matches.
    assertM matches (Unauthorized ''Incorrect PIN''))))"

definition change_transfer_caps ::
  "auth_env \<Rightarrow> uuid \<Rightarrow> string \<Rightarrow> money option \<Rightarrow> money option \<Rightarrow> transfer_caps auth" where
  "change_transfer_caps env i pin perTransfer daily =
    bindM (verifyTransactionPin env i pin) (\<lambda>_. setTransferCaps i perTransfer daily)"

definition resetTransactionPin :: "auth_env \<Rightarrow> uuid \<Rightarrow> string \<Rightarrow> string \<Rightarrow> string \<Rightarrow> unit auth" where
  "resetTransactionPin env i currentPin newPin confirmNewPin =
    bindM (findUserById i) (\<lambda>user.
    bindM (someM (u_transactionPinHash user) (BadRequest ''No transaction PIN set - use create instead'')) (\<lambda>h.
    bindM (guardedVerify env i SK_PIN (ae_verifyHash env h currentPin)) (\<lambda>matches.
    bindM (assertM matches (Unauthorized ''Current PIN is incorrect'')) (\<lambda>_.
    bindM (assertM (newPin = confirmNewPin) (BadRequest ''PINs don't match'')) (\<lambda>_.
    bindM (assertM (newPin \<noteq> currentPin) (BadRequest ''New PIN must be different from your current PIN'')) (\<lambda>_.
    write_transaction_pin i (ae_hash env newPin) (ae_now env)))))))"

definition changePassword :: "auth_env \<Rightarrow> uuid \<Rightarrow> uuid \<Rightarrow> string \<Rightarrow> string \<Rightarrow> string \<Rightarrow> unit auth" where
  "changePassword env i sid currentPassword newPassword confirmNewPassword =
    bindM (findUserById i) (\<lambda>user.
    bindM (guardedVerify env i SK_PASSWORD (ae_verifyHash env (u_passwordHash user) currentPassword)) (\<lambda>matches.
    bindM (assertM matches (Unauthorized ''Current password is incorrect'')) (\<lambda>_.
    bindM (assertM (newPassword = confirmNewPassword) (BadRequest ''Passwords don't match'')) (\<lambda>_.
    bindM (assertM (newPassword \<noteq> currentPassword)
             (BadRequest ''New password must be different from your current password'')) (\<lambda>_.
    bindM (updatePassword i (ae_hash env newPassword)) (\<lambda>_.
    bindM (revokeAllForUserExcept i sid (ae_now env)) (\<lambda>_.
    revokeAllRefreshTokensForUserExcept i sid (ae_now env))))))))"

definition logout :: "uuid \<Rightarrow> uuid \<Rightarrow> date \<Rightarrow> unit auth" where
  "logout i sid now = bindM (revoke_session sid i now) (\<lambda>_. revokeSessionTokens sid now)"

section \<open>Phone and BVN\<close>

definition plain_message :: "http_error \<Rightarrow> string" where
  "plain_message e = (case e of PlainError m \<Rightarrow> m | _ \<Rightarrow> [])"

definition addPhone :: "auth_env \<Rightarrow> uuid \<Rightarrow> string \<Rightarrow> string auth" where
  "addPhone env i rawPhone =
    bindM (liftM (case normalizeNigerianPhone rawPhone of
             Inl e \<Rightarrow> Inl (BadRequest (plain_message e)) | Inr p \<Rightarrow> Inr p)) (\<lambda>phone.
    bindM (getM (findByPhone phone)) (\<lambda>existing.
    bindM (assertM (\<not> (case existing of None \<Rightarrow> False | Some u \<Rightarrow> u_id u \<noteq> i))
             (Conflict ''This phone number is already linked to another account'')) (\<lambda>_.
    bindM (setPhone i phone) (\<lambda>_.
    bindM (otp_generate env i OP_PHONE_VERIFICATION) (\<lambda>c.
    bindM (updM (send_out (SmsCode phone c))) (\<lambda>_.
    retM phone))))))"

definition resendPhoneOtp :: "auth_env \<Rightarrow> uuid \<Rightarrow> unit auth" where
  "resendPhoneOtp env i =
    bindM (findUserById i) (\<lambda>user.
    bindM (someM (case u_phone user of None \<Rightarrow> None | Some p \<Rightarrow> if p = [] then None else Some p)
             (BadRequest ''No phone number on file'')) (\<lambda>phone.
    bindM (otp_generate env i OP_PHONE_VERIFICATION) (\<lambda>c.
    updM (send_out (SmsCode phone c)))))"

definition verifyPhoneOtp :: "auth_env \<Rightarrow> uuid \<Rightarrow> string \<Rightarrow> onboarding_progress auth" where
  "verifyPhoneOtp env i c =
    bindM (otp_verify env i OP_PHONE_VERIFICATION c) (\<lambda>isValid.
    bindM (assertM isValid invalid_code) (\<lambda>_.
    bindM (markPhoneVerified i (ae_now env)) (\<lambda>_.
    bindM (findUserById i) (\<lambda>user. retM (progressOf user)))))"

record bvn_result =
  bvn_matched :: bool
  bvn_dob :: "string option"

text \<open>\<open>if (result.dob)\<close>, and a date that cannot be parsed is no mismatch.\<close>

definition dob_agrees :: "string option \<Rightarrow> string \<Rightarrow> bool" where
  "dob_agrees providerDob d =
    (case providerDob of
       None \<Rightarrow> True
     | Some raw \<Rightarrow> raw = [] \<or> (case normalizeDobToIso raw of Inl e \<Rightarrow> True | Inr p \<Rightarrow> p = d))"

definition submitBvn ::
  "auth_env \<Rightarrow> (user \<Rightarrow> http_error + bvn_result) \<Rightarrow> uuid \<Rightarrow> string \<Rightarrow> string \<Rightarrow> unit auth" where
  "submitBvn env provider i bvn dateOfBirth =
    bindM (findUserById i) (\<lambda>user.
    bindM (getM (findByBvn bvn)) (\<lambda>existing.
    bindM (assertM (\<not> (case existing of None \<Rightarrow> False | Some u \<Rightarrow> u_id u \<noteq> i))
             (Conflict ''This BVN is already linked to another account'')) (\<lambda>_.
    bindM (liftM (provider user)) (\<lambda>result.
    bindM (assertM (bvn_matched result) (BadRequest ''BVN details do not match your registered name'')) (\<lambda>_.
    bindM (assertM (dob_agrees (bvn_dob result) dateOfBirth)
             (BadRequest ''Date of birth does not match your registered BVN details'')) (\<lambda>_.
    bindM (setBvn i bvn) (\<lambda>_.
    bindM (setDateOfBirth i dateOfBirth) (\<lambda>_.
    bindM (otp_generate env i OP_BVN_VERIFICATION) (\<lambda>c.
    updM (\<lambda>s. case u_phone user of
        None \<Rightarrow> s | Some p \<Rightarrow> if p = [] then s else send_out (SmsCode p c) s))))))))))"

definition verifyBvnOtp :: "auth_env \<Rightarrow> uuid \<Rightarrow> string \<Rightarrow> onboarding_progress auth" where
  "verifyBvnOtp env i c =
    bindM (otp_verify env i OP_BVN_VERIFICATION c) (\<lambda>isValid.
    bindM (assertM isValid invalid_code) (\<lambda>_.
    bindM (markBvnVerified i (ae_now env)) (\<lambda>_.
    bindM (findUserById i) (\<lambda>user.
    bindM (maybeRequestPaymentProvisioning env user) (\<lambda>_.
    retM (progressOf user))))))"

section \<open>Password reset\<close>

definition requestPasswordReset :: "auth_env \<Rightarrow> string \<Rightarrow> unit auth" where
  "requestPasswordReset env email =
    bindM (getM (findByEmail email)) (\<lambda>found.
    bindM (someM (case found of None \<Rightarrow> None | Some u \<Rightarrow> if u_status u \<noteq> US_ACTIVE then None else Some u)
             (BadRequest ''No account found with this email'')) (\<lambda>user.
    bindM (otp_generate env (u_id user) OP_PASSWORD_RESET) (\<lambda>c.
    updM (send_out (EmailCode (u_email user) c)))))"

definition verifyPasswordResetOtp :: "auth_env \<Rightarrow> string \<Rightarrow> string \<Rightarrow> string auth" where
  "verifyPasswordResetOtp env email c =
    bindM (getM (findByEmail email)) (\<lambda>found.
    bindM (someM found invalid_code) (\<lambda>user.
    bindM (otp_verify env (u_id user) OP_PASSWORD_RESET c) (\<lambda>isValid.
    bindM (assertM isValid invalid_code) (\<lambda>_.
    issuePasswordResetToken env (u_id user)))))"

definition confirmPasswordReset :: "auth_env \<Rightarrow> string \<Rightarrow> string \<Rightarrow> unit auth" where
  "confirmPasswordReset env resetToken newPassword =
    bindM (consumePasswordResetToken env resetToken) (\<lambda>userId.
    bindM (updatePassword userId (ae_hash env newPassword)) (\<lambda>_.
    bindM (revokeAllForUser userId (ae_now env)) (\<lambda>_.
    revokeAllRefreshTokensForUser userId (ae_now env))))"

end
