(* ===== verification/AuthAdmin.thy ===== *)
theory AuthAdmin
  imports AuthFlows
begin

text \<open>
  Account actions of the console (\<open>account-admin.service.ts\<close>), deletion requests
  (\<open>deletion.service.ts\<close>) and KYC (\<open>kyc-documents.service.ts\<close>): what staff and customers decide about
  an account.  The object store, the text recognition and the NIN provider are arguments.
\<close>

section \<open>Deletion requests\<close>

record deletion_summary =
  dv_id :: uuid
  dv_status :: deletion_status
  dv_reason :: "string option"
  dv_requestedAt :: date
  dv_decidedAt :: "date option"
  dv_rejectionReason :: "string option"

text \<open>None is the status NONE: no request yet.\<close>

definition deletion_view :: "account_deletion_request option \<Rightarrow> deletion_summary option" where
  "deletion_view r = map_option (\<lambda>x.
    \<lparr>dv_id = dr_id x, dv_status = dr_status x, dv_reason = dr_reason x, dv_requestedAt = dr_createdAt x,
     dv_decidedAt = dr_decidedAt x,
     dv_rejectionReason = (if dr_status x = DR_REJECTED then dr_decisionNote x else None)\<rparr>) r"

definition latest_deletion :: "uuid \<Rightarrow> auth_state \<Rightarrow> account_deletion_request option" where
  "latest_deletion uid s =
    (case filter (\<lambda>r. dr_userId r = uid) (deletions s) of
       [] \<Rightarrow> None
     | r # rs \<Rightarrow> Some (fold (\<lambda>x best. if dr_createdAt best \<le> dr_createdAt x then x else best) rs r))"

definition deletion_current :: "uuid \<Rightarrow> auth_state \<Rightarrow> deletion_summary option" where
  "deletion_current uid s = deletion_view (latest_deletion uid s)"

definition open_request :: "uuid \<Rightarrow> account_deletion_request \<Rightarrow> bool" where
  "open_request uid r \<longleftrightarrow> dr_userId r = uid \<and> dr_status r = DR_PENDING"

text \<open>The insert runs against the unique index on the pending request of a user.\<close>

definition insert_deletion :: "uuid \<Rightarrow> string option \<Rightarrow> date \<Rightarrow> account_deletion_request auth" where
  "insert_deletion uid reason now s =
    (if list_ex (open_request uid) (deletions s) then (Inl UniqueViolation, s)
     else (let r = \<lparr>dr_id = fresh_id s, dr_userId = uid, dr_reason = reason, dr_status = DR_PENDING,
                    dr_decidedAt = None, dr_decidedByEmail = None, dr_decisionNote = None, dr_createdAt = now\<rparr>
           in (Inr r, s\<lparr>deletions := insert_row r (deletions s), fresh_id := Suc (fresh_id s)\<rparr>)))"

definition already_pending :: http_error where
  "already_pending = Conflict ''You already have a deletion request pending''"

definition request_deletion ::
  "auth_env \<Rightarrow> uuid \<Rightarrow> string \<Rightarrow> string option \<Rightarrow> deletion_summary option auth" where
  "request_deletion env uid password reason =
    bindM (findUserById uid) (\<lambda>user.
    bindM (assertM (u_status user = US_ACTIVE) (BadRequest ''This account cannot request deletion'')) (\<lambda>_.
    bindM (guardedVerify env uid SK_PASSWORD (ae_verifyHash env (u_passwordHash user) password)) (\<lambda>passwordOk.
    bindM (assertM passwordOk (BadRequest ''Incorrect password'')) (\<lambda>_.
    bindM (getM (\<lambda>s. find_row (open_request uid) (deletions s))) (\<lambda>pending.
    bindM (assertM (pending = None) already_pending) (\<lambda>_.
    bindM (updM (ae_others env)) (\<lambda>_.
    bindM (catchM (insert_deletion uid (case reason of None \<Rightarrow> None
               | Some r \<Rightarrow> if js_trim r = [] then None else Some (js_trim r)) (ae_now env))
             (\<lambda>e. failM (if e = UniqueViolation then already_pending else e))) (\<lambda>saved.
    bindM (updM (send_out (DeletionReceived uid))) (\<lambda>_.
    retM (deletion_view (Some saved)))))))))))"

text \<open>\<open>UPDATE ... WHERE ... AND status = PENDING\<close>; the number of rows it changed.\<close>

definition decide_deletion ::
  "(account_deletion_request \<Rightarrow> bool) \<Rightarrow> (account_deletion_request \<Rightarrow> account_deletion_request) \<Rightarrow> nat auth" where
  "decide_deletion P f s =
    (Inr (affected (\<lambda>r. P r \<and> dr_status r = DR_PENDING) (deletions s)),
     s\<lparr>deletions := update_where (\<lambda>r. P r \<and> dr_status r = DR_PENDING) f (deletions s)\<rparr>)"

definition cancel_deletion :: "uuid \<Rightarrow> date \<Rightarrow> deletion_summary option auth" where
  "cancel_deletion uid now =
    bindM (decide_deletion (\<lambda>r. dr_userId r = uid)
             (\<lambda>r. r\<lparr>dr_status := DR_CANCELLED, dr_decidedAt := Some now\<rparr>)) (\<lambda>n.
    bindM (assertM (n \<noteq> 0) (NotFound ''You have no pending deletion request'')) (\<lambda>_.
    getM (deletion_current uid)))"

definition reject_deletion ::
  "uuid \<Rightarrow> string \<Rightarrow> string option \<Rightarrow> (auth_state \<Rightarrow> auth_state) \<Rightarrow> date \<Rightarrow> (uuid \<times> deletion_status) auth" where
  "reject_deletion i reason actorEmail others now =
    (let note = js_trim reason in
     bindM (assertM (3 \<le> length note) (BadRequest ''A reason is required to reject a request'')) (\<lambda>_.
     bindM (getM (\<lambda>s. find_row (by_key dr_id i) (deletions s))) (\<lambda>row.
     bindM (someM row (NotFound ''Request not found'')) (\<lambda>request.
     bindM (updM others) (\<lambda>_.
     bindM (decide_deletion (\<lambda>r. dr_id r = i)
              (\<lambda>r. r\<lparr>dr_status := DR_REJECTED, dr_decidedAt := Some now, dr_decidedByEmail := actorEmail,
                    dr_decisionNote := Some note\<rparr>)) (\<lambda>n.
     bindM (assertM (n \<noteq> 0) (Conflict ''This request was already decided'')) (\<lambda>_.
     bindM (findUserById (dr_userId request)) (\<lambda>user.
     bindM (updM (send_out (DeletionRejected (u_id user)))) (\<lambda>_.
     retM (i, DR_REJECTED))))))))))"

definition completeForUser :: "uuid \<Rightarrow> string option \<Rightarrow> date \<Rightarrow> bool auth" where
  "completeForUser uid actorEmail now =
    bindM (decide_deletion (\<lambda>r. dr_userId r = uid)
             (\<lambda>r. r\<lparr>dr_status := DR_COMPLETED, dr_decidedAt := Some now, dr_decidedByEmail := actorEmail\<rparr>)) (\<lambda>n.
    retM (n > 0))"

section \<open>Suspending and closing\<close>

definition endAllSessions :: "uuid \<Rightarrow> date \<Rightarrow> unit auth" where
  "endAllSessions uid now =
    bindM (revokeAllForUser uid now) (\<lambda>_. revokeAllRefreshTokensForUser uid now)"

definition account_closed :: http_error where
  "account_closed = BadRequest ''This account is closed''"

definition suspend :: "uuid \<Rightarrow> date \<Rightarrow> user auth" where
  "suspend i now =
    bindM (findUserById i) (\<lambda>user.
    if u_status user = US_SUSPENDED then retM user
    else bindM (assertM (u_status user \<noteq> US_CLOSED) account_closed) (\<lambda>_.
         bindM (setStatus i US_SUSPENDED) (\<lambda>_.
         bindM (endAllSessions i now) (\<lambda>_.
         findUserById i))))"

definition reactivate :: "uuid \<Rightarrow> user auth" where
  "reactivate i =
    bindM (findUserById i) (\<lambda>user.
    bindM (assertM (u_status user = US_SUSPENDED) (BadRequest ''Only a suspended account can be reactivated'')) (\<lambda>_.
    bindM (setStatus i (if u_emailVerifiedAt user \<noteq> None then US_ACTIVE else US_PENDING_VERIFICATION)) (\<lambda>_.
    findUserById i)))"

definition updateProfile :: "uuid \<Rightarrow> string option \<Rightarrow> string option \<Rightarrow> string option \<Rightarrow> user auth" where
  "updateProfile i firstName lastName phone =
    bindM (findUserById i) (\<lambda>user.
    bindM (assertM (u_status user \<noteq> US_CLOSED) account_closed) (\<lambda>_.
    bindM (whenM (firstName \<noteq> None \<or> lastName \<noteq> None)
             (updateProfileFields i (map_option js_trim firstName) (map_option js_trim lastName))) (\<lambda>_.
    bindM (case phone of
             None \<Rightarrow> retM ()
           | Some raw \<Rightarrow>
              bindM (liftM (case normalizeNigerianPhone raw of
                       Inl e \<Rightarrow> Inl (BadRequest (plain_message e)) | Inr p \<Rightarrow> Inr p)) (\<lambda>normalized.
              if Some normalized = u_phone user then retM ()
              else bindM (getM (findByPhone normalized)) (\<lambda>taken.
                   bindM (assertM (\<not> (case taken of None \<Rightarrow> False | Some t \<Rightarrow> u_id t \<noteq> i))
                            (Conflict ''That phone number belongs to another account'')) (\<lambda>_.
                   setPhoneUnverified i normalized)))) (\<lambda>_.
    findUserById i))))"

definition admin_revokeSessions :: "uuid \<Rightarrow> date \<Rightarrow> unit auth" where
  "admin_revokeSessions i now = bindM (findUserById i) (\<lambda>_. endAllSessions i now)"

definition admin_revokeSession :: "uuid \<Rightarrow> uuid \<Rightarrow> date \<Rightarrow> unit auth" where
  "admin_revokeSession uid sid now = bindM (revoke_session sid uid now) (\<lambda>_. revokeSessionTokens sid now)"

text \<open>\<open>closed+<id>@closed.fiam.invalid\<close>.\<close>

definition anonymized_email :: "uuid \<Rightarrow> string" where
  "anonymized_email i = ''closed+'' @ nat_str i @ ''@closed.fiam.invalid''"

definition close_account :: "uuid \<Rightarrow> string option \<Rightarrow> date \<Rightarrow> user auth" where
  "close_account i actorEmail now =
    bindM (findUserById i) (\<lambda>user.
    if u_status user = US_CLOSED then retM user
    else bindM (endAllSessions i now) (\<lambda>_.
         bindM (updM (\<lambda>s. s\<lparr>devices := filter (\<lambda>d. td_userId d \<noteq> i) (devices s)\<rparr>)) (\<lambda>_.
         bindM (updM (\<lambda>s. s\<lparr>pendingLogins := filter (\<lambda>x. lg_userId x \<noteq> i) (pendingLogins s)\<rparr>)) (\<lambda>_.
         bindM (markClosed i (anonymized_email i) now) (\<lambda>_.
         bindM (completeForUser i actorEmail now) (\<lambda>asked.
         bindM (whenM asked (updM (send_out (AccountClosedEmail (u_email user))))) (\<lambda>_.
         findUserById i)))))))"

section \<open>Tier upgrades\<close>

definition REQUIRED_DOC_TYPES :: "kyc_document_type list" where
  "REQUIRED_DOC_TYPES = [GOVERNMENT_ID_FRONT, GOVERNMENT_ID_BACK, PROOF_OF_ADDRESS]"

definition docs_complete :: "uuid \<Rightarrow> auth_state \<Rightarrow> bool" where
  "docs_complete uid s =
    list_all (\<lambda>t. list_ex (\<lambda>d. kd_userId d = uid \<and> kd_docType d = t) (kycDocs s)) REQUIRED_DOC_TYPES"

definition not_awaiting :: http_error where
  "not_awaiting = Conflict ''This upgrade is not awaiting review''"

definition just_decided :: http_error where
  "just_decided = Conflict ''This upgrade was just decided by someone else''"

definition approveTierUpgrade :: "uuid \<Rightarrow> (auth_state \<Rightarrow> auth_state) \<Rightarrow> date \<Rightarrow> user auth" where
  "approveTierUpgrade i others now =
    bindM (findUserById i) (\<lambda>user.
    bindM (assertM (u_status user = US_ACTIVE) (BadRequest ''Only an active account can be upgraded'')) (\<lambda>_.
    bindM (assertM (u_tierUpgradeStatus user = TU_UNDER_REVIEW) not_awaiting) (\<lambda>_.
    bindM (getM (docs_complete i)) (\<lambda>complete.
    bindM (assertM complete (BadRequest ''Missing required documents'')) (\<lambda>_.
    bindM (assertM (u_ninVerifiedAt user \<noteq> None) (BadRequest ''NIN has not been verified'')) (\<lambda>_.
    bindM (updM others) (\<lambda>_.
    bindM (decideTierUpgrade i True None now) (\<lambda>won.
    bindM (assertM won just_decided) (\<lambda>_.
    bindM (updM (send_out (KycApproved i))) (\<lambda>_.
    findUserById i))))))))))"

definition rejectTierUpgrade :: "uuid \<Rightarrow> string \<Rightarrow> (auth_state \<Rightarrow> auth_state) \<Rightarrow> date \<Rightarrow> user auth" where
  "rejectTierUpgrade i rawReason others now =
    (let reason = js_trim rawReason in
     bindM (assertM (3 \<le> length reason) (BadRequest ''A reason is required to reject an upgrade'')) (\<lambda>_.
     bindM (findUserById i) (\<lambda>user.
     bindM (assertM (u_tierUpgradeStatus user = TU_UNDER_REVIEW) not_awaiting) (\<lambda>_.
     bindM (updM others) (\<lambda>_.
     bindM (decideTierUpgrade i False (Some reason) now) (\<lambda>won.
     bindM (assertM won just_decided) (\<lambda>_.
     bindM (updM (send_out (KycRejected i reason))) (\<lambda>_.
     findUserById i))))))))"

definition kycDocumentFile :: "uuid \<Rightarrow> uuid \<Rightarrow> kyc_document auth" where
  "kycDocumentFile uid docId =
    bindM (getM (\<lambda>s. find_row (\<lambda>d. kd_id d = docId \<and> kd_userId d = uid) (kycDocs s))) (\<lambda>row.
    someM row (NotFound ''Document not found''))"

section \<open>Documents and the NIN\<close>

record kyc_file =
  kf_originalname :: string
  kf_mimetype :: string
  kf_size :: nat

definition GOVERNMENT_ID_DOC_TYPES :: "kyc_document_type list" where
  "GOVERNMENT_ID_DOC_TYPES = [GOVERNMENT_ID_FRONT, GOVERNMENT_ID_BACK]"

definition save_document :: "uuid \<Rightarrow> kyc_document_type \<Rightarrow> kyc_file \<Rightarrow> government_id_type option \<Rightarrow>
    string option \<Rightarrow> string \<Rightarrow> date \<Rightarrow> unit auth" where
  "save_document uid ty file idType ocrText objectKey now s =
    (case find_row (\<lambda>d. kd_userId d = uid \<and> kd_docType d = ty) (kycDocs s) of
       Some x \<Rightarrow> (Inr (), s\<lparr>kycDocs := update_where (by_key kd_id (kd_id x))
          (\<lambda>d. d\<lparr>kd_objectKey := objectKey, kd_originalFilename := kf_originalname file,
                kd_mimeType := kf_mimetype file, kd_sizeBytes := kf_size file, kd_uploadedAt := now,
                kd_idType := coalesce idType (kd_idType x), kd_ocrText := ocrText\<rparr>) (kycDocs s)\<rparr>)
     | None \<Rightarrow> (Inr (), s\<lparr>kycDocs := insert_row
          \<lparr>kd_id = fresh_id s, kd_userId = uid, kd_docType = ty, kd_idType = idType, kd_ocrText = ocrText,
           kd_objectKey = objectKey, kd_originalFilename = kf_originalname file,
           kd_mimeType = kf_mimetype file, kd_sizeBytes = kf_size file, kd_uploadedAt = now\<rparr> (kycDocs s),
          fresh_id := Suc (fresh_id s)\<rparr>))"

definition upload_document ::
  "(string \<Rightarrow> http_error + unit) \<Rightarrow> (string \<Rightarrow> http_error + unit) \<Rightarrow> string option \<Rightarrow> uuid \<Rightarrow>
   kyc_document_type \<Rightarrow> kyc_file option \<Rightarrow> government_id_type option \<Rightarrow> string \<Rightarrow> date \<Rightarrow> unit auth" where
  "upload_document store remove_file ocr uid ty file idType objectKey now =
    bindM (someM file (BadRequest ''No file provided'')) (\<lambda>f.
    bindM (assertM (\<not> (ty \<in> set GOVERNMENT_ID_DOC_TYPES \<and> idType = None))
             (BadRequest ''idType is required for a government ID upload'')) (\<lambda>_.
    bindM (liftM (store objectKey)) (\<lambda>_.
    bindM (getM (\<lambda>s. find_row (\<lambda>d. kd_userId d = uid \<and> kd_docType d = ty) (kycDocs s))) (\<lambda>existing.
    bindM (liftM (case existing of None \<Rightarrow> Inr () | Some x \<Rightarrow> remove_file (kd_objectKey x))) (\<lambda>_.
    save_document uid ty f idType (if ty \<in> set GOVERNMENT_ID_DOC_TYPES then ocr else None) objectKey now)))))"

definition LIVENESS_SESSION_TTL_MS :: int where "LIVENESS_SESSION_TTL_MS = 15 * 60 * 1000"

definition pruneExpiredLivenessSessions :: "date \<Rightarrow> auth_state \<Rightarrow> auth_state" where
  "pruneExpiredLivenessSessions now s =
    s\<lparr>liveness := filter (\<lambda>(sid, uid, created). \<not> created < now - LIVENESS_SESSION_TTL_MS) (liveness s)\<rparr>"

definition createNinLivenessSession :: "(http_error + string) \<Rightarrow> uuid \<Rightarrow> date \<Rightarrow> string auth" where
  "createNinLivenessSession minted uid now =
    bindM (updM (pruneExpiredLivenessSessions now)) (\<lambda>_.
    bindM (findUserById uid) (\<lambda>user.
    bindM (liftM minted) (\<lambda>sid.
    bindM (updM (\<lambda>s. s\<lparr>liveness := alist_set sid (uid, now) (liveness s)\<rparr>)) (\<lambda>_.
    retM sid))))"

definition verifyNin ::
  "auth_env \<Rightarrow> (user \<Rightarrow> http_error + bool) \<Rightarrow> uuid \<Rightarrow> string \<Rightarrow> string \<Rightarrow> unit auth" where
  "verifyNin env provider uid nin sid =
    bindM (updM (pruneExpiredLivenessSessions (ae_now env))) (\<lambda>_.
    bindM (getM (\<lambda>s. map_of (liveness s) sid)) (\<lambda>found.
    bindM (assertM (case found of None \<Rightarrow> False | Some (owner, created) \<Rightarrow> owner = uid)
             (BadRequest ''No matching liveness session - start the liveness check again'')) (\<lambda>_.
    bindM (updM (\<lambda>s. s\<lparr>liveness := filter (\<lambda>(k, v). k \<noteq> sid) (liveness s)\<rparr>)) (\<lambda>_.
    bindM (findUserById uid) (\<lambda>user.
    bindM (getM (findByNin nin)) (\<lambda>existing.
    bindM (assertM (\<not> (case existing of None \<Rightarrow> False | Some u \<Rightarrow> u_id u \<noteq> uid))
             (Conflict ''This NIN is already linked to another account'')) (\<lambda>_.
    bindM (liftM (provider user)) (\<lambda>matched.
    bindM (assertM matched (BadRequest ''NIN details do not match your registered name'')) (\<lambda>_.
    setNinVerified uid nin (ae_now env))))))))))"

definition submitTierUpgrade :: "uuid \<Rightarrow> date \<Rightarrow> user auth" where
  "submitTierUpgrade uid now =
    bindM (findUserById uid) (\<lambda>user.
    bindM (assertM (u_tier user \<noteq> TIER_3) (BadRequest ''Your account is already Tier 3'')) (\<lambda>_.
    bindM (assertM (u_tierUpgradeStatus user \<noteq> TU_UNDER_REVIEW)
             (Conflict ''Your upgrade is already under review'')) (\<lambda>_.
    bindM (getM (docs_complete uid)) (\<lambda>complete.
    bindM (assertM complete (BadRequest ''Missing required documents'')) (\<lambda>_.
    bindM (assertM (u_ninVerifiedAt user \<noteq> None) (BadRequest ''NIN has not been verified yet'')) (\<lambda>_.
    bindM (setTierUpgradeStatus uid TU_UNDER_REVIEW (Some now)) (\<lambda>_.
    bindM (updM (send_out (TierUpgradeRequested uid))) (\<lambda>_.
    findUserById uid))))))))"

end
