(* ===== verification/AuthKyc.thy ===== *)
theory AuthKyc
  imports AuthAdmin
begin

text \<open>
  The identity checks behind the auth service (\<open>kyc/qoreid-*.ts\<close>): tokens per project, what an answer
  to a BVN or NIN look-up means, liveness sessions, the signature of webhooks; and what the service
  shows of an account (\<open>me\<close>, the KYC status, the console's views, the internal API).  The HTTP calls
  and the HMAC are arguments.
\<close>

section \<open>Replies\<close>

record api_reply =
  hr_status :: nat
  hr_body :: "json option"

text \<open>\<open>hr_body\<close> is None for null and for a body that is not JSON (\<open>.catch(() => null)\<close>).\<close>

definition hr_ok :: "api_reply \<Rightarrow> bool" where
  "hr_ok r \<longleftrightarrow> 200 \<le> hr_status r \<and> hr_status r < 300"

text \<open>\<open>a?.b?.c\<close>.\<close>

fun path_get :: "string list \<Rightarrow> json option \<Rightarrow> json option" where
  "path_get [] v = v"
| "path_get (k # ks) v = path_get ks (case v of None \<Rightarrow> None | Some x \<Rightarrow> obj_get k x)"

text \<open>\<open>parseInt(s, 10)\<close>; None for NaN.\<close>

definition parse_int :: "string \<Rightarrow> int option" where
  "parse_int s =
    (let t = dropWhile js_space s;
         neg = (t \<noteq> [] \<and> hd t = CHR ''-'');
         u = (if t \<noteq> [] \<and> hd t \<in> {CHR ''-'', CHR ''+''} then tl t else t);
         ds = takeWhile is_digit u
     in if ds = [] then None else Some (if neg then - int (digits_val ds) else int (digits_val ds)))"

section \<open>Tokens of a project\<close>

datatype qoreid_project = MAIN_PROJECT | LIVENESS_PROJECT

text \<open>The empty string is a value that is not configured.\<close>

record qoreid_config =
  qc_clientId :: string
  qc_secret :: string
  qc_livenessClientId :: string
  qc_livenessSecret :: string

type_synonym qoreid_tokens = "qoreid_project \<Rightarrow> (string \<times> date) option"

type_synonym 'a qoreid = "(http_error, 'a, qoreid_tokens) stm"

definition or_else :: "string \<Rightarrow> string \<Rightarrow> string" where
  "or_else a b = (if a \<noteq> [] then a else b)"

definition project_credentials :: "qoreid_config \<Rightarrow> qoreid_project \<Rightarrow> string \<times> string" where
  "project_credentials cfg p = (case p of
     MAIN_PROJECT \<Rightarrow> (qc_clientId cfg, qc_secret cfg)
   | LIVENESS_PROJECT \<Rightarrow> (or_else (qc_livenessClientId cfg) (qc_clientId cfg), or_else (qc_livenessSecret cfg) (qc_secret cfg)))"

definition configured :: "string \<times> string \<Rightarrow> bool" where
  "configured c \<longleftrightarrow> fst c \<noteq> [] \<and> snd c \<noteq> []"

definition not_configured :: http_error where
  "not_configured = ServiceUnavailable ''Identity verification is not configured''"

text \<open>\<open>parseInt(body.expiresIn, 10) || 7200\<close>.\<close>

definition ttl_seconds :: "json option \<Rightarrow> int" where
  "ttl_seconds v =
    (case (case v of Some (JStr s) \<Rightarrow> parse_int s | Some (JNum s) \<Rightarrow> parse_int s | _ \<Rightarrow> None) of
       None \<Rightarrow> 7200 | Some n \<Rightarrow> if n = 0 then 7200 else n)"

definition auth_failed :: http_error where
  "auth_failed = ServiceUnavailable ''Failed to authenticate with identity verification provider''"

definition keep_token :: "date \<Rightarrow> qoreid_project \<Rightarrow> api_reply \<Rightarrow> string qoreid" where
  "keep_token now p r =
    (case json_str (path_get [''accessToken''] (hr_body r)) of
       None \<Rightarrow> failM auth_failed
     | Some tok \<Rightarrow>
        bindM (assertM (hr_ok r \<and> tok \<noteq> []) auth_failed) (\<lambda>_.
        bindM (updM (\<lambda>cache. cache(p := Some (tok, now + ttl_seconds (path_get [''expiresIn''] (hr_body r)) * 1000)))) (\<lambda>_.
        retM tok)))"

definition getQoreIdToken ::
  "qoreid_config \<Rightarrow> (string \<times> string \<Rightarrow> http_error + api_reply) \<Rightarrow> date \<Rightarrow> qoreid_project \<Rightarrow> string qoreid" where
  "getQoreIdToken cfg fetch now p =
    bindM (getM (\<lambda>cache. case cache p of None \<Rightarrow> None
             | Some (tok, expiresAt) \<Rightarrow> if now + 30000 < expiresAt then Some tok else None)) (\<lambda>cached.
    case cached of
      Some tok \<Rightarrow> retM tok
    | None \<Rightarrow>
        bindM (assertM (configured (project_credentials cfg p)) not_configured) (\<lambda>_.
        bindM (liftM (fetch (project_credentials cfg p))) (keep_token now p)))"

section \<open>BVN and NIN\<close>

text \<open>Both look-ups: found, and either both names match or the summary says so.\<close>

definition names_match :: "string \<Rightarrow> json option \<Rightarrow> bool" where
  "names_match check body =
    (let fieldMatches = path_get [''summary'', check, ''fieldMatches''] body in
     path_get [''status'', ''status''] body = Some (JStr ''verified'') \<and>
     (if js_truthy fieldMatches
      then js_truthy (path_get [''firstname''] fieldMatches) \<and> js_truthy (path_get [''lastname''] fieldMatches)
      else path_get [''summary'', check, ''status''] body = Some (JStr ''EXACT_MATCH'')))"

definition bvn_outcome :: "api_reply \<Rightarrow> http_error + bvn_result" where
  "bvn_outcome r =
    (if hr_status r \<in> {400, 422} then Inl (BadRequest ''Invalid BVN'')
     else if \<not> hr_ok r \<or> \<not> js_truthy (hr_body r) then Inl (ServiceUnavailable ''Failed to verify BVN'')
     else Inr \<lparr>bvn_matched = names_match ''bvn_check'' (hr_body r),
               bvn_dob = json_str (path_get [''bvn'', ''birthdate''] (hr_body r))\<rparr>)"

definition nin_outcome :: "api_reply \<Rightarrow> http_error + bool" where
  "nin_outcome r =
    (if hr_status r \<in> {400, 404, 422} then Inl (BadRequest ''Invalid NIN'')
     else if \<not> hr_ok r \<or> \<not> js_truthy (hr_body r) then Inl (ServiceUnavailable ''Failed to verify NIN'')
     else Inr (names_match ''nin_check'' (hr_body r)))"

definition qoreid_bvn ::
  "qoreid_config \<Rightarrow> (string \<times> string \<Rightarrow> http_error + api_reply) \<Rightarrow> (string \<Rightarrow> http_error + api_reply) \<Rightarrow>
   date \<Rightarrow> bvn_result qoreid" where
  "qoreid_bvn cfg fetch_token fetch_bvn now =
    bindM (getQoreIdToken cfg fetch_token now MAIN_PROJECT) (\<lambda>tok.
    bindM (liftM (fetch_bvn tok)) (\<lambda>r. liftM (bvn_outcome r)))"

definition qoreid_nin ::
  "qoreid_config \<Rightarrow> (string \<times> string \<Rightarrow> http_error + api_reply) \<Rightarrow> (string \<Rightarrow> http_error + api_reply) \<Rightarrow>
   date \<Rightarrow> bool qoreid" where
  "qoreid_nin cfg fetch_token fetch_nin now =
    bindM (getQoreIdToken cfg fetch_token now LIVENESS_PROJECT) (\<lambda>tok.
    bindM (liftM (fetch_nin tok)) (\<lambda>r. liftM (nin_outcome r)))"

definition passthrough_bvn :: bvn_result where
  "passthrough_bvn = \<lparr>bvn_matched = True, bvn_dob = None\<rparr>"

section \<open>Liveness sessions and text recognition\<close>

definition session_failed :: http_error where
  "session_failed = ServiceUnavailable ''Failed to start identity verification session''"

definition createSession ::
  "qoreid_config \<Rightarrow> (string \<times> string \<Rightarrow> (http_error + api_reply)) \<Rightarrow> http_error + json" where
  "createSession cfg fetch =
    (let c = project_credentials cfg LIVENESS_PROJECT in
     if \<not> configured c then Inl not_configured
     else case fetch c of
            Inl e \<Rightarrow> Inl session_failed
          | Inr r \<Rightarrow> (case hr_body r of
               None \<Rightarrow> Inl session_failed
             | Some body \<Rightarrow> if hr_ok r \<and> js_truthy (obj_get ''sdkSessionToken'' body) then Inr body else Inl session_failed))"

definition KYC_IMAGE_MIME_TYPES :: "string list" where
  "KYC_IMAGE_MIME_TYPES = [''image/jpeg'', ''image/png'', ''image/heic'']"

text \<open>\<open>worker\<close> starts the recogniser, \<open>recognize\<close> is what it reads or its failure.\<close>

definition extractText :: "http_error + unit \<Rightarrow> http_error + string \<Rightarrow> string \<Rightarrow> http_error + string option" where
  "extractText worker recognize mimeType =
    (if mimeType \<notin> set KYC_IMAGE_MIME_TYPES then Inr None
     else case worker of
            Inl e \<Rightarrow> Inl e
          | Inr _ \<Rightarrow> (case recognize of
               Inl e \<Rightarrow> Inr None
             | Inr text \<Rightarrow> if js_trim text = [] then Inr None else Inr (Some (js_trim text))))"

section \<open>Webhooks\<close>

definition hex_val :: "char \<Rightarrow> nat option" where
  "hex_val c =
    (if is_digit c then Some (digit_val c)
     else if CHR ''a'' \<le> c \<and> c \<le> CHR ''f'' then Some (of_char c - 87)
     else if CHR ''A'' \<le> c \<and> c \<le> CHR ''F'' then Some (of_char c - 55) else None)"

text \<open>\<open>Buffer.from(s, 'hex')\<close>: pairs of digits up to the first that is none.\<close>

fun hex_bytes :: "string \<Rightarrow> nat list" where
  "hex_bytes (a # b # s) =
    (case (hex_val a, hex_val b) of (Some x, Some y) \<Rightarrow> (16 * x + y) # hex_bytes s | _ \<Rightarrow> [])"
| "hex_bytes _ = []"

definition isValidQoreIdSignature :: "(string \<Rightarrow> string \<Rightarrow> string) \<Rightarrow> string option \<Rightarrow> string \<Rightarrow> string \<Rightarrow> bool" where
  "isValidQoreIdSignature hmac header rawBody secret =
    (case header of
       None \<Rightarrow> False
     | Some h \<Rightarrow> secret \<noteq> [] \<and> hex_bytes (to_lower (js_trim h)) = hex_bytes (hmac secret rawBody))"

definition qoreid_webhook ::
  "(string \<Rightarrow> string \<Rightarrow> string) \<Rightarrow> string \<Rightarrow> string option \<Rightarrow> string option \<Rightarrow> http_error + unit" where
  "qoreid_webhook hmac secret rawBody signature =
    (if secret = [] then Inl (ServiceUnavailable ''QoreID webhook is not configured'')
     else case rawBody of
            None \<Rightarrow> Inl (BadRequest ''Missing request body'')
          | Some body \<Rightarrow> if isValidQoreIdSignature hmac signature body secret then Inr ()
                         else Inl (Unauthorized ''Unauthorized''))"

section \<open>Views\<close>

record me_view =
  me_id :: uuid
  me_firstName :: string
  me_lastName :: string
  me_email :: string
  me_phone :: "string option"
  me_tier :: customer_tier
  me_tierUpgradeStatus :: tier_upgrade_status
  me_tierUpgradeSubmittedAt :: "date option"
  me_biometricLoginEnabled :: bool
  me_biometricTransactionEnabled :: bool
  me_progress :: onboarding_progress

definition me :: "uuid \<Rightarrow> string option \<Rightarrow> me_view auth" where
  "me i deviceId =
    bindM (findUserById i) (\<lambda>u.
    bindM (getM (\<lambda>s. case deviceId of None \<Rightarrow> None | Some d \<Rightarrow> if d = [] then None else find_device i d s)) (\<lambda>device.
    retM \<lparr>me_id = u_id u, me_firstName = u_firstName u, me_lastName = u_lastName u, me_email = u_email u,
          me_phone = u_phone u, me_tier = u_tier u, me_tierUpgradeStatus = u_tierUpgradeStatus u,
          me_tierUpgradeSubmittedAt = u_tierUpgradeSubmittedAt u,
          me_biometricLoginEnabled = (case device of None \<Rightarrow> False | Some d \<Rightarrow> td_biometricLoginEnabled d),
          me_biometricTransactionEnabled = (case device of None \<Rightarrow> False | Some d \<Rightarrow> td_biometricTransactionEnabled d),
          me_progress = progressOf u\<rparr>))"

record account_view =
  ac_id :: uuid
  ac_status :: user_status
  ac_firstName :: string
  ac_lastName :: string
  ac_email :: string
  ac_phone :: "string option"
  ac_closedAt :: "date option"

definition view_account :: "user \<Rightarrow> account_view" where
  "view_account u = \<lparr>ac_id = u_id u, ac_status = u_status u, ac_firstName = u_firstName u, ac_lastName = u_lastName u,
    ac_email = u_email u, ac_phone = u_phone u, ac_closedAt = u_closedAt u\<rparr>"

definition reviewView :: "user \<Rightarrow> uuid \<times> customer_tier \<times> tier_upgrade_status \<times> date option" where
  "reviewView u = (u_id u, u_tier u, u_tierUpgradeStatus u, u_tierUpgradeDecidedAt u)"

definition doc_summary :: "kyc_document \<Rightarrow> kyc_document_type \<times> government_id_type option \<times> date" where
  "doc_summary d = (kd_docType d, kd_idType d, kd_uploadedAt d)"

definition list_documents :: "uuid \<Rightarrow> auth_state \<Rightarrow> (kyc_document_type \<times> government_id_type option \<times> date) list" where
  "list_documents i s = map doc_summary (filter (\<lambda>d. kd_userId d = i) (kycDocs s))"

record tier_status_view =
  ts_tier :: customer_tier
  ts_status :: tier_upgrade_status
  ts_submittedAt :: "date option"
  ts_decidedAt :: "date option"
  ts_rejectionReason :: "string option"
  ts_requiredDocTypes :: "kyc_document_type list"
  ts_ninVerified :: bool

definition getTierUpgradeStatus :: "uuid \<Rightarrow> tier_status_view auth" where
  "getTierUpgradeStatus i =
    bindM (findUserById i) (\<lambda>u.
    retM \<lparr>ts_tier = u_tier u, ts_status = u_tierUpgradeStatus u, ts_submittedAt = u_tierUpgradeSubmittedAt u,
          ts_decidedAt = u_tierUpgradeDecidedAt u,
          ts_rejectionReason = (if u_tierUpgradeStatus u = TU_REJECTED then u_tierUpgradeDecisionNote u else None),
          ts_requiredDocTypes = REQUIRED_DOC_TYPES, ts_ninVerified = (u_ninVerifiedAt u \<noteq> None)\<rparr>)"

section \<open>The internal API\<close>

definition contact :: "uuid \<Rightarrow> (string \<times> string \<times> string option) auth" where
  "contact i = bindM (findUserById i) (\<lambda>u. retM (u_email u, u_firstName u, u_phone u))"

definition internal_verifyPin :: "auth_env \<Rightarrow> uuid \<Rightarrow> string \<Rightarrow> (transfer_limit option \<times> transfer_caps) auth" where
  "internal_verifyPin env i pin =
    bindM (verifyTransactionPin env i pin) (\<lambda>_.
    bindM (transferLimit env i) (\<lambda>limit.
    bindM (transferCaps i) (\<lambda>caps. retM (limit, caps))))"

definition internal_clearLockouts :: "uuid \<Rightarrow> unit auth" where
  "internal_clearLockouts i = bindM (findUserById i) (\<lambda>_. clearLockouts i)"

fun retryProvisioning :: "uuid list \<Rightarrow> (uuid \<times> bool \<times> string option) list auth" where
  "retryProvisioning [] = retM []"
| "retryProvisioning (i # is) =
    bindM (catchM (bindM (retryPaymentProvisioning i) (\<lambda>(queued, reason). retM (i, queued, reason)))
             (\<lambda>e. retM (i, False, Some ''User not found''))) (\<lambda>r.
    bindM (retryProvisioning is) (\<lambda>rs. retM (r # rs)))"

definition shown_inline :: "string \<Rightarrow> bool" where
  "shown_inline mimeType \<longleftrightarrow> mimeType \<in> {''image/jpeg'', ''image/png'', ''image/heic'', ''application/pdf''}"

text \<open>Content type and whether it is shown in place, for a stored document.\<close>

definition document_headers :: "kyc_document \<Rightarrow> string \<times> bool" where
  "document_headers d =
    (if shown_inline (kd_mimeType d) then (kd_mimeType d, True) else (''application/octet-stream'', False))"

end
