(* ===== verification/AuthSteps.thy ===== *)
theory AuthSteps
  imports AuthAdmin Steps
begin

text \<open>
  The atomic changes of the auth database, \<open>auth_step\<close>; the invariant \<open>accounts_ok\<close> they keep; and
  every request of the service as a sequence of such changes, whatever other requests run in
  between (\<open>served_auth\<close>).
\<close>

section \<open>Atomic changes\<close>

text \<open>What never goes back on a user: identity, verified e-mail and NIN; and what a tier rests on.\<close>

definition user_change :: "auth_state \<Rightarrow> user \<Rightarrow> user \<Rightarrow> bool" where
  "user_change s u v \<longleftrightarrow>
    u_id v = u_id u \<and>
    (u_emailVerifiedAt u \<noteq> None \<longrightarrow> u_emailVerifiedAt v \<noteq> None) \<and>
    (u_ninVerifiedAt u \<noteq> None \<longrightarrow> u_ninVerifiedAt v \<noteq> None) \<and>
    (u_status v = US_ACTIVE \<longrightarrow> u_status u = US_ACTIVE \<or> u_emailVerifiedAt v \<noteq> None) \<and>
    (u_tier v = TIER_3 \<longrightarrow> u_tier u = TIER_3 \<or> u_ninVerifiedAt v \<noteq> None \<and> docs_complete (u_id u) s)"

text \<open>A change of the tables that say nothing about users, sessions, tokens, documents and deletions.\<close>

definition same_accounts :: "auth_state \<Rightarrow> auth_state \<Rightarrow> bool" where
  "same_accounts s s' \<longleftrightarrow> users s' = users s \<and> sessions s' = sessions s \<and> deletions s' = deletions s \<and>
    kycDocs s' = kycDocs s \<and> refreshTokens s' = refreshTokens s \<and> fresh_id s \<le> fresh_id s'"

text \<open>A refresh token keeps its key, and stays revoked once it is.\<close>

definition same_token :: "refresh_token \<Rightarrow> refresh_token \<Rightarrow> bool" where
  "same_token a b \<longleftrightarrow> rt_id b = rt_id a \<and> rt_userId b = rt_userId a \<and> rt_sessionId b = rt_sessionId a \<and>
    rt_tokenHash b = rt_tokenHash a \<and> (rt_revokedAt a \<noteq> None \<longrightarrow> rt_revokedAt b \<noteq> None)"

definition active_session :: "uuid \<Rightarrow> session \<Rightarrow> bool" where
  "active_session uid x \<longleftrightarrow> ss_userId x = uid \<and> ss_revokedAt x = None"

inductive auth_step :: "auth_state \<Rightarrow> auth_state \<Rightarrow> bool" where
  writes: "find_user i s = Some u \<Longrightarrow> user_change s u (f u) \<Longrightarrow>
    \<not> list_ex (\<lambda>x. u_id x \<noteq> i \<and> user_conflict (f u) x) (users s) \<Longrightarrow> auth_step s (update_user i f s)"
| creates: "u_status u \<noteq> US_ACTIVE \<Longrightarrow> u_tier u \<noteq> TIER_3 \<Longrightarrow> u_id u = fresh_id s \<Longrightarrow>
    \<not> list_ex (user_conflict u) (users s) \<Longrightarrow>
    auth_step s (s\<lparr>users := insert_row u (users s), fresh_id := Suc (fresh_id s)\<rparr>)"
| revokes: "auth_step s (s\<lparr>sessions := update_where P f (sessions s)\<rparr>)"
    if "\<And>x. ss_userId (f x) = ss_userId x" and "\<And>x. ss_revokedAt x \<noteq> None \<Longrightarrow> ss_revokedAt (f x) \<noteq> None"
| opens: "\<not> list_ex (active_session (ss_userId x)) (sessions s) \<Longrightarrow>
    auth_step s (s\<lparr>sessions := insert_row x (sessions s), fresh_id := Suc (fresh_id s)\<rparr>)"
| asks: "\<not> list_ex (open_request (dr_userId r)) (deletions s) \<Longrightarrow>
    auth_step s (s\<lparr>deletions := insert_row r (deletions s), fresh_id := Suc (fresh_id s)\<rparr>)"
| decides: "auth_step s (s\<lparr>deletions := update_where P f (deletions s)\<rparr>)"
    if "\<And>r. dr_status (f r) \<noteq> DR_PENDING"
| documents: "fresh_id s \<le> n \<Longrightarrow> (\<And>uid t. list_ex (\<lambda>x. kd_userId x = uid \<and> kd_docType x = t) (kycDocs s) \<Longrightarrow>
      list_ex (\<lambda>x. kd_userId x = uid \<and> kd_docType x = t) d) \<Longrightarrow> auth_step s (s\<lparr>kycDocs := d, fresh_id := n\<rparr>)"
| issues: "rt_id t = fresh_id s \<Longrightarrow> \<not> list_ex (\<lambda>x. rt_tokenHash x = rt_tokenHash t) (refreshTokens s) \<Longrightarrow>
    auth_step s (s\<lparr>refreshTokens := insert_row t (refreshTokens s), fresh_id := Suc (fresh_id s)\<rparr>)"
| revokes_tokens: "auth_step s (s\<lparr>refreshTokens := update_where P f (refreshTokens s)\<rparr>)"
    if "\<And>t. same_token t (f t)"
| other_tables: "same_accounts s s' \<Longrightarrow> auth_step s s'"

section \<open>The invariant\<close>

definition unique_users :: "user list \<Rightarrow> bool" where
  "unique_users us \<longleftrightarrow> distinct (map u_id us) \<and>
    (\<forall>x \<in> set us. \<forall>y \<in> set us. u_id x \<noteq> u_id y \<longrightarrow> \<not> user_conflict x y)"

definition user_ok :: "auth_state \<Rightarrow> user \<Rightarrow> bool" where
  "user_ok s u \<longleftrightarrow> u_id u < fresh_id s \<and> (u_status u = US_ACTIVE \<longrightarrow> u_emailVerifiedAt u \<noteq> None) \<and>
    (u_tier u = TIER_3 \<longrightarrow> u_ninVerifiedAt u \<noteq> None \<and> docs_complete (u_id u) s)"

definition tokens_ok :: "auth_state \<Rightarrow> bool" where
  "tokens_ok s \<longleftrightarrow> distinct (map rt_id (refreshTokens s)) \<and> distinct (map rt_tokenHash (refreshTokens s)) \<and>
    (\<forall>t \<in> set (refreshTokens s). rt_id t < fresh_id s)"

definition accounts_ok :: "auth_state \<Rightarrow> bool" where
  "accounts_ok s \<longleftrightarrow> unique_users (users s) \<and> (\<forall>u \<in> set (users s). user_ok s u) \<and>
    (\<forall>uid. length (filter (active_session uid) (sessions s)) \<le> 1) \<and>
    (\<forall>uid. length (filter (open_request uid) (deletions s)) \<le> 1) \<and> tokens_ok s"

lemma tokens_ok_same:
  assumes "tokens_ok s" and "refreshTokens s' = refreshTokens s" and "fresh_id s \<le> fresh_id s'"
  shows "tokens_ok s'"
proof -
  have "rt_id t < fresh_id s'" if "t \<in> set (refreshTokens s)" for t
    using assms(1,3) that less_le_trans unfolding tokens_ok_def by blast
  then show ?thesis using assms(1,2) by (simp add: tokens_ok_def)
qed

lemma tokens_ok_frame [simp]:
  "tokens_ok (update_user i f s) = tokens_ok s" "tokens_ok (s\<lparr>sessions := x\<rparr>) = tokens_ok s"
  "tokens_ok (s\<lparr>deletions := d\<rparr>) = tokens_ok s"
  "tokens_ok s \<Longrightarrow> tokens_ok (s\<lparr>users := u, fresh_id := Suc (fresh_id s)\<rparr>)"
  "tokens_ok s \<Longrightarrow> tokens_ok (s\<lparr>sessions := x, fresh_id := Suc (fresh_id s)\<rparr>)"
  "tokens_ok s \<Longrightarrow> tokens_ok (s\<lparr>deletions := d, fresh_id := Suc (fresh_id s)\<rparr>)"
  by (auto simp: tokens_ok_def intro: less_SucI)

lemma length_filter_update:
  assumes "\<And>x. Q (f x) \<Longrightarrow> Q x"
  shows "length (filter Q (update_where P f t)) \<le> length (filter Q t)"
  using assms by (induction t) auto

lemma filter_none_iff: "filter Q t = [] \<longleftrightarrow> \<not> list_ex Q t"
  by (auto simp: list_ex_iff filter_empty_conv)

lemma length_filter_insert:
  assumes "length (filter Q t) \<le> 1" and "Q r \<Longrightarrow> \<not> list_ex Q t"
  shows "length (filter Q (insert_row r t)) \<le> 1"
  using assms by (auto simp: insert_row_def filter_none_iff [symmetric])

lemma user_ok_mono:
  assumes "user_ok s u" and "fresh_id s \<le> fresh_id s'" and "docs_complete (u_id u) s \<Longrightarrow> docs_complete (u_id u) s'"
  shows "user_ok s' u"
  using assms by (auto simp: user_ok_def)

lemma user_conflict_sym: "user_conflict x y \<longleftrightarrow> user_conflict y x"
  unfolding user_conflict_def by metis

lemma unique_users_insert:
  assumes "unique_users us" and "\<forall>x \<in> set us. u_id x < u_id u" and "\<not> list_ex (user_conflict u) us"
  shows "unique_users (insert_row u us)"
proof -
  have "u_id u \<notin> u_id ` set us" using assms(2) by force
  then show ?thesis using assms user_conflict_sym
    by (simp add: unique_users_def insert_row_def list_ex_iff)
qed

lemma unique_users_update:
  assumes "unique_users us" and "find_row (by_key u_id i) us = Some u" and "u_id (f u) = u_id u"
    and "\<not> list_ex (\<lambda>x. u_id x \<noteq> i \<and> user_conflict (f u) x) us"
  shows "unique_users (update_where (by_key u_id i) f us)"
proof -
  have d: "distinct (map u_id us)" using assms(1) by (simp add: unique_users_def)
  have only: "x = u" if "x \<in> set us" "u_id x = i" for x
    using update_where_key_eq [OF d assms(2)] that by blast
  have ids: "u_id (if u_id x = i then f x else x) = u_id x" if "x \<in> set us" for x
    using only that assms(3) by auto
  have map_ids: "map u_id (update_where (by_key u_id i) f us) = map u_id us"
    unfolding update_where_def map_map using ids by (intro map_cong) (auto simp: o_def)
  have conflict: "\<not> user_conflict (if u_id x = i then f x else x) (if u_id y = i then f y else y)"
    if "x \<in> set us" "y \<in> set us" "u_id x \<noteq> u_id y" for x y
  proof -
    have none: "\<not> user_conflict (f u) z" if "z \<in> set us" "u_id z \<noteq> i" for z
      using assms(4) that by (auto simp: list_ex_iff)
    show ?thesis
      using that none only user_conflict_sym assms(1) by (auto simp: unique_users_def)
  qed
  show ?thesis
    unfolding unique_users_def
  proof (intro conjI ballI impI)
    show "distinct (map u_id (update_where (by_key u_id i) f us))" unfolding map_ids by (rule d)
    fix v w assume v: "v \<in> set (update_where (by_key u_id i) f us)"
      and w: "w \<in> set (update_where (by_key u_id i) f us)" and ne: "u_id v \<noteq> u_id w"
    obtain x y where x: "x \<in> set us" "v = (if u_id x = i then f x else x)"
      and y: "y \<in> set us" "w = (if u_id y = i then f y else y)"
      using v w unfolding set_update_where by blast
    have "u_id x \<noteq> u_id y" using ne ids [OF x(1)] ids [OF y(1)] unfolding x(2) y(2) by simp
    then show "\<not> user_conflict v w" unfolding x(2) y(2) by (rule conflict [OF x(1) y(1)])
  qed
qed

lemma accounts_ok_same:
  assumes "accounts_ok s" and "users s' = users s" and "sessions s' = sessions s"
    and "deletions s' = deletions s" and "fresh_id s \<le> fresh_id s'"
    and "refreshTokens s' = refreshTokens s" and "\<And>uid. docs_complete uid s \<Longrightarrow> docs_complete uid s'"
  shows "accounts_ok s'"
proof -
  have "user_ok s' u" if "u \<in> set (users s)" for u
  proof (rule user_ok_mono)
    show "user_ok s u" using assms(1) that by (simp add: accounts_ok_def)
  qed (rule assms(5), rule assms(7))
  moreover have "tokens_ok s'" using assms(1) tokens_ok_same [OF _ assms(6,5)] by (simp add: accounts_ok_def)
  ultimately show ?thesis using assms(1) unfolding accounts_ok_def assms(2,3,4) by blast
qed

lemma accounts_ok_user:
  assumes ok: "accounts_ok s" and u: "find_user i s = Some u" "user_change s u (f u)"
    and free: "\<not> list_ex (\<lambda>x. u_id x \<noteq> i \<and> user_conflict (f u) x) (users s)"
  shows "accounts_ok (update_user i f s)"
proof -
  have us: "unique_users (users s)" and okU: "\<And>x. x \<in> set (users s) \<Longrightarrow> user_ok s x"
    using ok by (auto simp: accounts_ok_def)
  have row: "find_row (by_key u_id i) (users s) = Some u" using u(1) by (simp add: find_user_def)
  have only: "x = u" if "x \<in> set (users s)" "u_id x = i" for x
    using update_where_key_eq [OF _ row] that us by (auto simp: unique_users_def)
  have "user_ok s (f u)"
    using okU [of u] find_user_id [OF u(1)] u(2) by (auto simp: user_ok_def user_change_def)
  then have "user_ok s x" if "x \<in> set (update_where (by_key u_id i) f (users s))" for x
    using that only okU by (auto simp: set_update_where split: if_splits)
  then have "user_ok (update_user i f s) x" if "x \<in> set (update_where (by_key u_id i) f (users s))" for x
    using that user_ok_mono [of s x "update_user i f s"] by (simp add: docs_complete_def)
  moreover have "unique_users (update_where (by_key u_id i) f (users s))"
    using u(2) by (intro unique_users_update [where i = i and f = f and u = u, OF us row _ free])
      (simp add: user_change_def)
  ultimately show ?thesis using ok by (simp add: accounts_ok_def)
qed

lemma auth_step_keeps:
  assumes "auth_step s s'" and "accounts_ok s"
  shows "accounts_ok s'"
  using assms
proof (induction rule: auth_step.induct)
  case (writes i s u f)
  then show ?case by (blast intro: accounts_ok_user)
next
  case (creates u s)
  have us: "unique_users (users s)" and okU: "\<And>x. x \<in> set (users s) \<Longrightarrow> user_ok s x"
    using creates by (auto simp: accounts_ok_def)
  let ?s' = "s\<lparr>users := insert_row u (users s), fresh_id := Suc (fresh_id s)\<rparr>"
  have users_ok: "user_ok ?s' x" if "x \<in> set (insert_row u (users s))" for x
  proof -
    have "u_id y < Suc (fresh_id s)" if "y \<in> set (users s)" for y
      using okU [OF that] by (simp add: user_ok_def)
    then show ?thesis using that okU creates(1-3) by (auto simp: user_ok_def docs_complete_def)
  qed
  have "unique_users (insert_row u (users s))"
    using creates okU by (intro unique_users_insert [OF us]) (auto simp: user_ok_def)
  then show ?case using creates users_ok by (simp add: accounts_ok_def)
next
  case (revokes f s P)
  have "length (filter (active_session uid) (update_where P f (sessions s))) \<le> 1" for uid
  proof -
    have "length (filter (active_session uid) (update_where P f (sessions s))) \<le>
        length (filter (active_session uid) (sessions s))"
    proof (intro length_filter_update)
      fix x assume "active_session uid (f x)"
      then show "active_session uid x"
        using revokes(1,2) [of x] by (cases "ss_revokedAt x = None") (simp_all add: active_session_def)
    qed
    also have "\<dots> \<le> 1" using revokes(3) by (simp add: accounts_ok_def)
    finally show ?thesis .
  qed
  then show ?case using revokes(3) by (simp add: accounts_ok_def user_ok_def docs_complete_def)
next
  case (opens x s)
  have "length (filter (active_session uid) (insert_row x (sessions s))) \<le> 1" for uid
    using opens by (intro length_filter_insert) (auto simp: accounts_ok_def active_session_def)
  then show ?case using opens(2) by (auto simp: accounts_ok_def user_ok_def docs_complete_def)
next
  case (asks r s)
  have "length (filter (open_request uid) (insert_row r (deletions s))) \<le> 1" for uid
    using asks by (intro length_filter_insert) (auto simp: accounts_ok_def open_request_def)
  then show ?case using asks(2) by (auto simp: accounts_ok_def user_ok_def docs_complete_def)
next
  case (decides f s P)
  have "length (filter (open_request uid) (update_where P f (deletions s))) \<le> 1" for uid
  proof -
    have "length (filter (open_request uid) (update_where P f (deletions s))) \<le>
        length (filter (open_request uid) (deletions s))"
      using decides(1) by (intro length_filter_update) (auto simp: open_request_def)
    also have "\<dots> \<le> 1" using decides(2) by (simp add: accounts_ok_def)
    finally show ?thesis .
  qed
  then show ?case using decides(2) by (simp add: accounts_ok_def user_ok_def docs_complete_def)
next
  case (documents s d n)
  show ?case
    by (rule accounts_ok_same [OF documents(3)]) (use documents(1,2) in \<open>auto simp: docs_complete_def list_all_iff\<close>)
next
  case (issues t s)
  let ?s' = "s\<lparr>refreshTokens := insert_row t (refreshTokens s), fresh_id := Suc (fresh_id s)\<rparr>"
  have old: "tokens_ok s" using issues(3) by (simp add: accounts_ok_def)
  have "x \<noteq> fresh_id s" if "x \<in> rt_id ` set (refreshTokens s)" for x
    using old that by (auto simp: tokens_ok_def)
  then have "tokens_ok ?s'"
    using issues(1,2) old by (auto simp: tokens_ok_def insert_row_def list_ex_iff less_Suc_eq)
  moreover have "user_ok ?s' u" if "u \<in> set (users s)" for u
    using issues(3) that by (intro user_ok_mono [of s u ?s']) (simp_all add: accounts_ok_def docs_complete_def)
  ultimately show ?case using issues(3) by (simp add: accounts_ok_def)
next
  case (revokes_tokens f s P)
  let ?s' = "s\<lparr>refreshTokens := update_where P f (refreshTokens s)\<rparr>"
  have keys: "map rt_id (refreshTokens ?s') = map rt_id (refreshTokens s)"
    "map rt_tokenHash (refreshTokens ?s') = map rt_tokenHash (refreshTokens s)"
    using revokes_tokens(1) by (simp_all add: same_token_def)
  have "rt_id ` set (refreshTokens ?s') = rt_id ` set (refreshTokens s)"
    using keys(1) by (metis list.set_map)
  then have "\<forall>x \<in> rt_id ` set (refreshTokens ?s'). x < fresh_id s"
    using revokes_tokens(2) by (auto simp: accounts_ok_def tokens_ok_def)
  then have "tokens_ok ?s'"
    using revokes_tokens(2) keys by (simp add: accounts_ok_def tokens_ok_def)
  then show ?case using revokes_tokens(2) by (simp add: accounts_ok_def user_ok_def docs_complete_def)
next
  case (other_tables s s')
  then show ?case
    by (auto simp: same_accounts_def docs_complete_def intro!: accounts_ok_same [OF other_tables(2)])
qed

interpretation acc: step_system auth_step accounts_ok
  by unfold_locales (rule auth_step_keeps)

end
