(* ===== verification/AuthServed.thy ===== *)
theory AuthServed
  imports AuthSteps
begin

text \<open>
  Every request of the auth service as a sequence of the atomic changes of \<open>AuthSteps\<close>, whatever other
  requests commit in the middle of it (\<open>ae_others\<close>), and the relation \<open>served_auth\<close> of all of them.
\<close>

abbreviation on_accounts :: "'a auth \<Rightarrow> auth_state \<Rightarrow> bool" where
  "on_accounts \<equiv> stepwise auth_step accounts_ok"

text \<open>What other requests do meanwhile: steps.\<close>

definition acc_steps :: "(auth_state \<Rightarrow> auth_state) \<Rightarrow> bool" where
  "acc_steps f \<longleftrightarrow> (\<forall>s. accounts_ok s \<longrightarrow> auth_step\<^sup>*\<^sup>* s (f s))"

lemma acc_steps_id [simp]: "acc_steps (\<lambda>s. s)" "acc_steps id"
  by (simp_all add: acc_steps_def)

lemma on_accounts_others [intro]: "acc_steps f \<Longrightarrow> on_accounts (updM f) s"
  by (rule acc.stepwise_updM) (simp add: acc_steps_def)

section \<open>Rules for the pieces\<close>

lemmas [intro!, simp] = acc.stepwise_pure

lemmas acc_rules =
  acc.stepwise_bindM acc.stepwise_if acc.stepwise_option acc.stepwise_whenM acc.stepwise_catchM
  acc.stepwise_pure on_accounts_others

lemma on_accounts_same: "same_accounts s (f s) \<Longrightarrow> on_accounts (updM f) s"
  by (rule acc.stepwise_updM_step) (rule auth_step.other_tables)

lemma on_accounts_same_run: "same_accounts s (snd (m s)) \<Longrightarrow> on_accounts m s"
  by (rule acc.stepwise_atomic) (rule auth_step.other_tables)

lemma on_accounts_find [intro!, simp]: "on_accounts (findUserById i) s"
  by (simp add: findUserById_def)

lemma findUserById_Inr [simp]: "findUserById i s = (Inr u, s') \<longleftrightarrow> find_user i s = Some u \<and> s' = s"
  by (auto simp: findUserById_def bindM_def someM_def split: option.splits)

lemma on_accounts_send [intro!, simp]: "on_accounts (updM (send_out e)) s"
  by (rule on_accounts_same) (simp add: same_accounts_def)

lemma on_accounts_write:
  assumes "\<And>u. find_user i s = Some u \<Longrightarrow> user_change s u (f u)"
  shows "on_accounts (write_user i f) s"
proof (rule acc.stepwise_atomic)
  show "auth_step s (snd (write_user i f s))"
    using assms auth_step.writes [of i s _ f]
    by (auto simp: write_user_def same_accounts_def intro: auth_step.other_tables split: option.splits)
qed

text \<open>An update that touches neither the indexed columns nor what a status or tier rests on.\<close>

definition quiet_on_user :: "(user \<Rightarrow> user) \<Rightarrow> bool" where
  "quiet_on_user f \<longleftrightarrow> (\<forall>u. u_id (f u) = u_id u \<and> u_email (f u) = u_email u \<and> u_phone (f u) = u_phone u \<and>
    u_bvn (f u) = u_bvn u \<and> u_nin (f u) = u_nin u \<and> u_emailVerifiedAt (f u) = u_emailVerifiedAt u \<and>
    u_ninVerifiedAt (f u) = u_ninVerifiedAt u \<and> u_status (f u) = u_status u \<and> u_tier (f u) = u_tier u)"

lemma update_user_none: "find_user i s = None \<Longrightarrow> update_user i f s = s"
  by (simp add: find_user_def update_user_def find_row_None_iff)

lemma conflict_free:
  assumes "accounts_ok s" and "find_user i s = Some u"
    and "u_email v = u_email u" "u_phone v = u_phone u" "u_bvn v = u_bvn u" "u_nin v = u_nin u"
  shows "\<not> list_ex (\<lambda>x. u_id x \<noteq> i \<and> user_conflict v x) (users s)"
proof -
  have "\<not> user_conflict u x" if "x \<in> set (users s)" "u_id x \<noteq> i" for x
    using assms(1) find_user_id [OF assms(2)] that unfolding accounts_ok_def unique_users_def by metis
  moreover have "user_conflict v x = user_conflict u x" for x
    using assms(3-) by (simp add: user_conflict_def)
  ultimately show ?thesis by (auto simp: list_ex_iff)
qed

lemma auth_step_same_keys:
  assumes "accounts_ok s" and "find_user i s = Some u" and "user_change s u (f u)"
    and "u_email (f u) = u_email u" "u_phone (f u) = u_phone u" "u_bvn (f u) = u_bvn u" "u_nin (f u) = u_nin u"
  shows "auth_step s (update_user i f s)"
  using auth_step.writes [where f = f, OF assms(2,3)] conflict_free [OF assms(1,2,4-)] by blast

lemma auth_step_quiet:
  assumes "accounts_ok s" and "quiet_on_user f"
  shows "auth_step s (update_user i f s)"
proof (cases "find_user i s")
  case None
  then show ?thesis by (simp add: update_user_none same_accounts_def auth_step.other_tables)
next
  case (Some u)
  have "u \<in> set (users s)" using find_user_id [OF Some] by simp
  then have "user_ok s u" using assms(1) by (simp add: accounts_ok_def)
  then show ?thesis using assms(2)
    by (intro auth_step_same_keys [OF assms(1) Some]) (simp_all add: quiet_on_user_def user_change_def)
qed

lemma quiet_on_user_set_guard [simp]: "quiet_on_user (set_guard k g)"
  by (simp add: quiet_on_user_def set_guard_def split: secret_kind.splits)

lemma on_accounts_quiet: "quiet_on_user f \<Longrightarrow> on_accounts (updM (update_user i f)) s"
  by (rule acc.stepwise_updM_step) (rule auth_step_quiet)

section \<open>The services\<close>

lemma on_accounts_create [intro!, simp]: "on_accounts (create_user e h fname lname now) s"
proof (rule acc.stepwise_atomic)
  let ?u = "(new_user e h fname lname now)\<lparr>u_id := fresh_id s\<rparr>"
  show "auth_step s (snd (create_user e h fname lname now s))"
  proof (cases "list_ex (user_conflict ?u) (users s)")
    case True
    then show ?thesis
      by (simp add: create_user_def Let_def same_accounts_def auth_step.other_tables)
  next
    case False
    have "auth_step s (s\<lparr>users := insert_row ?u (users s), fresh_id := Suc (fresh_id s)\<rparr>)"
    proof (rule auth_step.creates)
      show "\<not> list_ex (user_conflict ?u) (users s)" by (rule False)
    qed (simp_all add: new_user_def)
    then show ?thesis using False by (simp add: create_user_def Let_def)
  qed
qed

lemma on_accounts_writes [intro!, simp]:
  "on_accounts (updateRegistrationDetails i fname lname h) s" "on_accounts (markEmailVerified i now) s"
  "on_accounts (setPhone i p) s" "on_accounts (markPhoneVerified i now) s" "on_accounts (setBvn i b) s"
  "on_accounts (markBvnVerified i now) s" "on_accounts (setDateOfBirth i d) s"
  "on_accounts (setNinVerified i n now) s" "on_accounts (updatePassword i h) s"
  "on_accounts (write_transaction_pin i h now) s" "on_accounts (setTierUpgradeStatus i st t) s"
  "on_accounts (updateProfileFields i oa ob) s" "on_accounts (setPhoneUnverified i p) s"
  "on_accounts (markClosed i e now) s"
  by (simp_all add: updateRegistrationDetails_def markEmailVerified_def setPhone_def markPhoneVerified_def
      setBvn_def markBvnVerified_def setDateOfBirth_def setNinVerified_def updatePassword_def
      write_transaction_pin_def setTierUpgradeStatus_def updateProfileFields_def setPhoneUnverified_def
      markClosed_def on_accounts_write user_change_def)

lemma on_accounts_otp_generate [intro!, simp]: "on_accounts (otp_generate env i p) s"
  unfolding otp_generate_def stepwise_read
  by (intro acc_rules on_accounts_same) (simp add: same_accounts_def)

lemma on_accounts_otp_verify [intro]: "acc_steps (ae_others env) \<Longrightarrow> on_accounts (otp_verify env i p c) s"
  unfolding otp_verify_def stepwise_read
  by (intro acc_rules on_accounts_same) (simp_all add: same_accounts_def update_otp_def)

lemma on_accounts_reserve [intro!, simp]: "on_accounts (reserve_attempt now i k) s"
  by (rule acc.stepwise_atomic)
    (auto simp: reserve_attempt_def same_accounts_def auth_step_quiet intro: auth_step.other_tables
      split: option.splits)

lemma on_accounts_guarded [intro]:
  "acc_steps (ae_others env) \<Longrightarrow> on_accounts (guardedVerify env i k b) s"
  unfolding guardedVerify_def
  by (intro acc_rules on_accounts_reserve acc.stepwise_updM_step)
    (auto simp: auth_step_quiet same_accounts_def intro: auth_step.other_tables)

lemma on_accounts_insert_refresh [intro!, simp]: "on_accounts (insert_refresh t) s"
proof (rule acc.stepwise_atomic)
  show "auth_step s (snd (insert_refresh t s))"
    using auth_step.issues [of "t\<lparr>rt_id := fresh_id s\<rparr>" s]
    by (simp add: insert_refresh_def same_accounts_def auth_step.other_tables Let_def)
qed

lemma auth_step_revoke_refresh: "auth_step s (revoke_refresh P now s)"
  unfolding revoke_refresh_def by (rule auth_step.revokes_tokens) (simp add: same_token_def)

lemma on_accounts_tokens [intro!, simp]:
  "on_accounts (issueTokenPair env u i) s" "on_accounts (revokeSessionTokens i now) s"
  "on_accounts (revokeAllRefreshTokensForUser i now) s"
  "on_accounts (revokeAllRefreshTokensForUserExcept i sid now) s"
  by (auto simp: issueTokenPair_def revokeSessionTokens_def revokeAllRefreshTokensForUser_def
      revokeAllRefreshTokensForUserExcept_def
      intro!: acc.stepwise_bindM acc.stepwise_updM_step auth_step_revoke_refresh)

lemma on_accounts_txM:
  assumes "on_accounts m s"
  shows "on_accounts (txM m) s"
  using assms by (auto simp: stepwise_def txM_def split: prod.splits sum.splits)

lemma on_accounts_rotate [intro]:
  assumes "acc_steps (ae_others env)"
  shows "on_accounts (rotateRefreshToken env raw) s"
proof -
  have body: "on_accounts (rotate_in_tx env tid) t" for tid t
    unfolding rotate_in_tx_def
    by (intro on_accounts_txM acc_rules on_accounts_insert_refresh acc.stepwise_updM_step
        auth_step.revokes_tokens) (simp add: same_token_def)
  show ?thesis
    unfolding rotateRefreshToken_def stepwise_read
    by (intro acc_rules acc.stepwise_updM_step auth_step_revoke_refresh body assms)
qed

lemma on_accounts_reset_tokens [intro]:
  "on_accounts (issuePasswordResetToken env i) s"
  "acc_steps (ae_others env) \<Longrightarrow> on_accounts (consumePasswordResetToken env raw) s"
  unfolding issuePasswordResetToken_def consumePasswordResetToken_def stepwise_read
  by (intro acc_rules on_accounts_same; simp add: same_accounts_def)+

section \<open>Sessions and devices\<close>

lemma auth_step_revoke: "auth_step s (revoke_sessions P now s)"
  unfolding revoke_sessions_def by (rule auth_step.revokes) simp_all

lemma revoked_none_active:
  "\<not> list_ex (active_session i) (sessions (revoke_sessions (\<lambda>x. ss_userId x = i) now s))"
  by (simp add: revoke_sessions_def list_ex_update_where) (auto simp: list_ex_iff active_session_def)

lemma on_accounts_exclusive [intro!, simp]: "on_accounts (createExclusive now i meta) s"
  unfolding stepwise_def
proof
  let ?s1 = "revoke_sessions (\<lambda>x. ss_userId x = i) now s"
  let ?x = "\<lparr>ss_id = fresh_id s, ss_userId = i, ss_deviceId = rm_deviceId meta,
      ss_deviceName = rm_deviceName meta, ss_userAgent = rm_userAgent meta,
      ss_ipAddress = rm_ipAddress meta, ss_lastSeenAt = now, ss_revokedAt = None\<rparr>"
  have "auth_step ?s1 (?s1\<lparr>sessions := insert_row ?x (sessions ?s1), fresh_id := Suc (fresh_id ?s1)\<rparr>)"
    by (rule auth_step.opens) (use revoked_none_active in simp)
  then have "auth_step ?s1 (snd (createExclusive now i meta s))"
    by (simp add: createExclusive_def txM_def bindM_def Let_def revoke_sessions_def)
  then show "auth_step\<^sup>*\<^sup>* s (snd (createExclusive now i meta s))"
    using auth_step_revoke [of s "\<lambda>x. ss_userId x = i" now] by (meson rtranclp.simps)
qed

lemma on_accounts_sessions [intro!, simp]:
  "on_accounts (revoke_session sid i now) s" "on_accounts (revokeAllForUser i now) s"
  "on_accounts (revokeAllForUserExcept i sid now) s" "on_accounts (jwt_validate now payload) s"
  unfolding revoke_session_def revokeAllForUser_def revokeAllForUserExcept_def jwt_validate_def stepwise_read
  by (intro acc_rules acc.stepwise_updM_step auth_step_revoke auth_step.revokes; simp)+

lemma on_accounts_trust [intro!, simp]: "on_accounts (trust now i d name) s"
  by (rule on_accounts_same_run) (simp add: trust_def same_accounts_def Let_def split: option.splits)

lemma on_accounts_device_limit [intro!, simp]: "on_accounts (startDeviceLimit env i) s"
  unfolding startDeviceLimit_def by (rule on_accounts_quiet) (simp add: quiet_on_user_def)

lemma on_accounts_trust_if [intro!, simp]: "on_accounts (trust_if_given env u d name) s"
  unfolding trust_if_given_def trustDevice_def
  by (intro acc_rules on_accounts_trust) (simp split: prod.split, intro impI allI acc_rules on_accounts_device_limit)

lemma on_accounts_biometrics [intro!, simp]: "on_accounts (setBiometricPreferences i d a b) s"
  unfolding setBiometricPreferences_def stepwise_read
  by (intro acc_rules on_accounts_same; simp add: same_accounts_def)

lemma on_accounts_open [intro]: "acc_steps (ae_others env) \<Longrightarrow> on_accounts (open_session env i meta) s"
  unfolding open_session_def by (intro acc_rules on_accounts_exclusive on_accounts_tokens)

end
