(* ===== verification/AuthRequests.thy ===== *)
theory AuthRequests
  imports AuthServed
begin

text \<open>
  The requests of the auth service, \<open>served_auth\<close>: one rule per handler that changes the database.
  Each is a sequence of atomic changes, so the invariant of \<open>AuthSteps\<close> holds in every state the
  service reaches.
\<close>

section \<open>What is never taken back\<close>

definition kept_facts :: "auth_state \<Rightarrow> auth_state \<Rightarrow> bool" where
  "kept_facts s s' \<longleftrightarrow>
    (\<forall>i u. find_user i s = Some u \<longrightarrow> (\<exists>v. find_user i s' = Some v \<and>
        (u_emailVerifiedAt u \<noteq> None \<longrightarrow> u_emailVerifiedAt v \<noteq> None) \<and>
        (u_ninVerifiedAt u \<noteq> None \<longrightarrow> u_ninVerifiedAt v \<noteq> None))) \<and>
    (\<forall>uid. docs_complete uid s \<longrightarrow> docs_complete uid s')"

lemma kept_facts_refl [simp]: "kept_facts s s"
  by (simp add: kept_facts_def)

lemma kept_facts_nin:
  assumes "kept_facts s s'" and "find_user i s = Some u" and "find_user i s' = Some v"
    and "u_ninVerifiedAt u \<noteq> None"
  shows "u_ninVerifiedAt v \<noteq> None"
proof -
  obtain w where "find_user i s' = Some w" "u_ninVerifiedAt u \<noteq> None \<longrightarrow> u_ninVerifiedAt w \<noteq> None"
    using assms(1,2) unfolding kept_facts_def by blast
  then show ?thesis using assms(3,4) by simp
qed

lemma kept_facts_docs: "kept_facts s s' \<Longrightarrow> docs_complete uid s \<Longrightarrow> docs_complete uid s'"
  by (simp add: kept_facts_def)

lemma kept_facts_trans:
  assumes ab: "kept_facts a b" and bc: "kept_facts b c"
  shows "kept_facts a c"
  unfolding kept_facts_def
proof (intro conjI allI impI)
  fix i u assume "find_user i a = Some u"
  then obtain v where v: "find_user i b = Some v" "u_emailVerifiedAt u \<noteq> None \<longrightarrow> u_emailVerifiedAt v \<noteq> None"
      "u_ninVerifiedAt u \<noteq> None \<longrightarrow> u_ninVerifiedAt v \<noteq> None"
    using ab unfolding kept_facts_def by blast
  obtain w where "find_user i c = Some w" "u_emailVerifiedAt v \<noteq> None \<longrightarrow> u_emailVerifiedAt w \<noteq> None"
      "u_ninVerifiedAt v \<noteq> None \<longrightarrow> u_ninVerifiedAt w \<noteq> None"
    using bc v(1) unfolding kept_facts_def by blast
  with v show "\<exists>v. find_user i c = Some v \<and> (u_emailVerifiedAt u \<noteq> None \<longrightarrow> u_emailVerifiedAt v \<noteq> None) \<and>
      (u_ninVerifiedAt u \<noteq> None \<longrightarrow> u_ninVerifiedAt v \<noteq> None)" by blast
next
  fix uid assume "docs_complete uid a"
  then show "docs_complete uid c" using ab bc unfolding kept_facts_def by blast
qed

lemma kept_facts_same_tables:
  "users s' = users s \<Longrightarrow> kycDocs s' = kycDocs s \<Longrightarrow> kept_facts s s'"
  by (simp add: kept_facts_def find_user_def docs_complete_def)

lemma kept_facts_step:
  assumes "auth_step s s'" and "accounts_ok s"
  shows "kept_facts s s'"
  using assms
proof (induction rule: auth_step.induct)
  case (writes i s u f)
  have "distinct (map u_id (users s))" using writes(4) by (simp add: accounts_ok_def unique_users_def)
  then have "find_user j (update_user i f s) = (if j = i then Some (f u) else find_user j s)" for j
    using writes(1,2) find_user_id [OF writes(1)]
    by (simp add: find_user_def user_change_def find_row_update_key_at [where r = u])
  then show ?case using writes(1,2)
    by (auto simp: kept_facts_def user_change_def docs_complete_def)
next
  case (creates u s)
  then show ?case by (simp add: kept_facts_def find_user_def find_row_insert_row docs_complete_def)
next
  case (documents s d n)
  then show ?case by (simp add: kept_facts_def find_user_def docs_complete_def list_all_iff)
next
  case (other_tables s s')
  then show ?case by (intro kept_facts_same_tables) (simp_all add: same_accounts_def)
qed (simp_all add: kept_facts_same_tables)

lemma kept_facts_steps: "auth_step\<^sup>*\<^sup>* s s' \<Longrightarrow> accounts_ok s \<Longrightarrow> kept_facts s s'"
proof (induction rule: rtranclp_induct)
  case (step y z)
  have "accounts_ok y" using acc.steps_keep [OF step(1,4)] .
  then show ?case using step kept_facts_trans kept_facts_step by blast
qed simp

section \<open>AuthService\<close>

lemma acc_steps_same: "(\<And>s. same_accounts s (f s)) \<Longrightarrow> acc_steps f"
  by (auto simp: acc_steps_def intro: auth_step.other_tables)

lemma acc_steps_send:
  "acc_steps (send_out e)"
  "acc_steps (\<lambda>s. case x of None \<Rightarrow> s | Some p \<Rightarrow> if p = [] then s else send_out (SmsCode p c) s)"
  by (rule acc_steps_same, simp add: same_accounts_def split: option.splits)+

lemma on_accounts_provision [intro!, simp]: "on_accounts (maybeRequestPaymentProvisioning env u) s"
proof -
  have claim: "on_accounts (claimPaymentAccountProvisioning i now) t" for i now t
    by (rule acc.stepwise_atomic)
      (auto simp: claimPaymentAccountProvisioning_def same_accounts_def quiet_on_user_def
        intro: auth_step_quiet auth_step.other_tables split: option.splits)
  show ?thesis
    unfolding maybeRequestPaymentProvisioning_def
    by (intro acc_rules claim on_accounts_send) (auto split: option.splits)
qed

lemma on_accounts_register [intro!, simp]:
  "on_accounts (register env fname lname e p) s" "on_accounts (resendRegistrationOtp env e) s"
  unfolding register_def resendRegistrationOtp_def stepwise_read
  by (intro acc_rules on_accounts_writes on_accounts_create on_accounts_otp_generate on_accounts_send)+

lemma on_accounts_sign_in [intro]:
  assumes "acc_steps (ae_others env)"
  shows "on_accounts (verifyOtp env e c p meta) s" "on_accounts (login env e pw meta) s"
    "on_accounts (confirmLoginPin env t pin meta) s"
proof -
  have ticket: "on_accounts (save_pending_login env i meta) t" for i meta t
    by (rule on_accounts_same_run) (simp add: save_pending_login_def same_accounts_def)
  have pending: "on_accounts (updM (update_pending i f)) t" for i f t
    by (rule on_accounts_same) (simp add: update_pending_def same_accounts_def)
  note rules = acc_rules on_accounts_find on_accounts_writes on_accounts_otp_verify on_accounts_send
    on_accounts_tokens on_accounts_exclusive on_accounts_trust_if on_accounts_open on_accounts_guarded
    ticket pending assms
  show "on_accounts (verifyOtp env e c p meta) s" unfolding verifyOtp_def stepwise_read by (intro rules)
  show "on_accounts (login env e pw meta) s" unfolding login_def stepwise_read by (intro rules)
  show "on_accounts (confirmLoginPin env t pin meta) s"
    unfolding confirmLoginPin_def stepwise_read Let_def by (intro rules)
qed

lemma on_accounts_limits [intro!, simp]: "on_accounts (setTransferCaps i a b) s"
  unfolding setTransferCaps_def Let_def
  by (intro acc_rules on_accounts_find on_accounts_write) (simp add: user_change_def)

lemma on_accounts_plain [intro!, simp]:
  "on_accounts (setTransactionPin env i pin pin2) s" "on_accounts (logout i sid now) s"
  "on_accounts (addPhone env i phone) s" "on_accounts (resendPhoneOtp env i) s"
  "on_accounts (submitBvn env provider i b d) s" "on_accounts (requestPasswordReset env e) s"
proof -
  note rules = acc_rules on_accounts_find on_accounts_writes on_accounts_otp_generate on_accounts_provision
    on_accounts_sessions on_accounts_tokens on_accounts_send acc_steps_send
  show "on_accounts (setTransactionPin env i pin pin2) s" unfolding setTransactionPin_def by (intro rules)
  show "on_accounts (logout i sid now) s" unfolding logout_def by (intro rules)
  show "on_accounts (addPhone env i phone) s" unfolding addPhone_def by (intro rules)
  show "on_accounts (resendPhoneOtp env i) s" unfolding resendPhoneOtp_def by (intro rules)
  show "on_accounts (submitBvn env provider i b d) s" unfolding submitBvn_def by (intro rules)
  show "on_accounts (requestPasswordReset env e) s" unfolding requestPasswordReset_def stepwise_read by (intro rules)
qed

lemma on_accounts_secrets [intro]:
  assumes "acc_steps (ae_others env)"
  shows "on_accounts (verifyTransactionPin env i pin) s"
    "on_accounts (change_transfer_caps env i pin a b) s" "on_accounts (resetTransactionPin env i p1 p2 p3) s"
    "on_accounts (changePassword env i sid p1 p2 p3) s"
proof -
  note rules = acc_rules on_accounts_find on_accounts_writes on_accounts_guarded on_accounts_provision
    on_accounts_sessions on_accounts_tokens on_accounts_limits assms
  show pin: "on_accounts (verifyTransactionPin env i pin) s" for s unfolding verifyTransactionPin_def by (intro rules)
  show "on_accounts (change_transfer_caps env i pin a b) s" unfolding change_transfer_caps_def by (intro rules pin)
  show "on_accounts (resetTransactionPin env i p1 p2 p3) s" unfolding resetTransactionPin_def by (intro rules)
  show "on_accounts (changePassword env i sid p1 p2 p3) s" unfolding changePassword_def by (intro rules)
qed

lemma on_accounts_contacts [intro]:
  assumes "acc_steps (ae_others env)"
  shows "on_accounts (verifyPhoneOtp env i c) s" "on_accounts (verifyBvnOtp env i c) s"
proof -
  note rules = acc_rules on_accounts_find on_accounts_writes on_accounts_otp_verify on_accounts_provision assms
  show "on_accounts (verifyPhoneOtp env i c) s" unfolding verifyPhoneOtp_def by (intro rules)
  show "on_accounts (verifyBvnOtp env i c) s" unfolding verifyBvnOtp_def by (intro rules)
qed

lemma on_accounts_reset [intro]:
  assumes "acc_steps (ae_others env)"
  shows "on_accounts (verifyPasswordResetOtp env e c) s"
    "on_accounts (confirmPasswordReset env t pw) s"
proof -
  note rules = acc_rules on_accounts_writes on_accounts_otp_generate on_accounts_otp_verify on_accounts_send
    on_accounts_reset_tokens on_accounts_sessions on_accounts_tokens assms
  show "on_accounts (verifyPasswordResetOtp env e c) s"
    unfolding verifyPasswordResetOtp_def stepwise_read by (intro rules)
  show "on_accounts (confirmPasswordReset env t pw) s" unfolding confirmPasswordReset_def by (intro rules)
qed

section \<open>Account actions\<close>

lemma on_accounts_status:
  assumes "\<And>u. find_user i s = Some u \<Longrightarrow> st = US_ACTIVE \<Longrightarrow> u_emailVerifiedAt u \<noteq> None"
  shows "on_accounts (setStatus i st) s"
  unfolding setStatus_def by (rule on_accounts_write) (use assms in \<open>simp add: user_change_def\<close>)

lemma on_accounts_end_sessions [intro!, simp]: "on_accounts (endAllSessions i now) s"
  unfolding endAllSessions_def by (intro acc_rules on_accounts_sessions on_accounts_tokens)

lemma on_accounts_decide_deletion:
  "(\<And>r. dr_status (f r) \<noteq> DR_PENDING) \<Longrightarrow> on_accounts (decide_deletion P f) s"
  by (rule acc.stepwise_atomic) (simp add: decide_deletion_def auth_step.decides)

lemma on_accounts_complete [intro!, simp]: "on_accounts (completeForUser i who now) s"
  unfolding completeForUser_def by (intro acc_rules on_accounts_decide_deletion) simp

lemma on_accounts_insert_deletion [intro!, simp]: "on_accounts (insert_deletion i reason now) s"
proof (rule acc.stepwise_atomic)
  let ?r = "\<lparr>dr_id = fresh_id s, dr_userId = i, dr_reason = reason, dr_status = DR_PENDING,
      dr_decidedAt = None, dr_decidedByEmail = None, dr_decisionNote = None, dr_createdAt = now\<rparr>"
  show "auth_step s (snd (insert_deletion i reason now s))"
    using auth_step.asks [of ?r s]
    by (simp add: insert_deletion_def Let_def same_accounts_def auth_step.other_tables)
qed

lemma on_accounts_deletion [intro]:
  "acc_steps (ae_others env) \<Longrightarrow> on_accounts (request_deletion env i pw reason) s"
  "on_accounts (cancel_deletion i now) s"
  "acc_steps others \<Longrightarrow> on_accounts (reject_deletion i why who others now) s"
proof -
  show "on_accounts (request_deletion env i pw reason) s" if "acc_steps (ae_others env)"
    unfolding request_deletion_def
    by (intro acc_rules on_accounts_find on_accounts_guarded on_accounts_insert_deletion on_accounts_send that)
  show "on_accounts (cancel_deletion i now) s" unfolding cancel_deletion_def
    by (intro acc_rules on_accounts_decide_deletion) simp
  show "on_accounts (reject_deletion i why who others now) s" if "acc_steps others"
    unfolding reject_deletion_def Let_def
    by (intro acc_rules on_accounts_decide_deletion on_accounts_find on_accounts_send that) simp
qed

lemma on_accounts_reactivate [intro!, simp]: "on_accounts (reactivate i) s"
  unfolding reactivate_def
  by (intro acc_rules on_accounts_find on_accounts_status) (auto split: if_splits)

lemma on_accounts_closing [intro!, simp]: "on_accounts (close_account i who now) s"
  unfolding close_account_def
  by (intro acc_rules on_accounts_find on_accounts_end_sessions on_accounts_writes on_accounts_complete
      on_accounts_send on_accounts_same) (simp_all add: same_accounts_def)

lemma on_accounts_console [intro!, simp]:
  "on_accounts (suspend i now) s" "on_accounts (updateProfile i a b c) s"
  "on_accounts (admin_revokeSessions i now) s" "on_accounts (admin_revokeSession i sid now) s"
  "on_accounts (clearLockouts i) s" "on_accounts (retryPaymentProvisioning i) s"
proof -
  note rules = acc_rules on_accounts_find on_accounts_end_sessions on_accounts_writes on_accounts_sessions
    on_accounts_tokens on_accounts_send
  show "on_accounts (suspend i now) s" unfolding suspend_def by (intro rules on_accounts_status) simp
  show "on_accounts (updateProfile i a b c) s" unfolding updateProfile_def by (intro rules)
  show "on_accounts (admin_revokeSessions i now) s" unfolding admin_revokeSessions_def by (intro rules)
  show "on_accounts (admin_revokeSession i sid now) s" unfolding admin_revokeSession_def by (intro rules)
  show "on_accounts (clearLockouts i) s" unfolding clearLockouts_def
    by (rule on_accounts_quiet) (use quiet_on_user_set_guard in \<open>simp add: quiet_on_user_def\<close>)
  show "on_accounts (retryPaymentProvisioning i) s" unfolding retryPaymentProvisioning_def
    by (intro rules) (simp split: prod.split, intro impI allI rules)
qed

section \<open>Tiers and documents\<close>

lemma on_accounts_decide_tier:
  assumes "\<And>u. approve \<Longrightarrow> find_user i s = Some u \<Longrightarrow> u_ninVerifiedAt u \<noteq> None \<and> docs_complete i s"
  shows "on_accounts (decideTierUpgrade i approve note now) s"
proof (rule acc.stepwise_atomic)
  assume ok: "accounts_ok s"
  let ?f = "\<lambda>u. u\<lparr>u_tierUpgradeStatus := (if approve then TU_APPROVED else TU_REJECTED),
    u_tierUpgradeDecidedAt := Some now, u_tierUpgradeDecisionNote := note,
    u_tier := (if approve then TIER_3 else u_tier u)\<rparr>"
  have step: "auth_step s (update_user i ?f s)" if u: "find_user i s = Some u" for u
  proof (rule auth_step_same_keys [OF ok u])
    show "user_change s u (?f u)" using assms u find_user_id [OF u] by (auto simp: user_change_def)
  qed simp_all
  show "auth_step s (snd (decideTierUpgrade i approve note now s))"
  proof (cases "find_user i s")
    case None
    then show ?thesis by (simp add: decideTierUpgrade_def same_accounts_def auth_step.other_tables)
  next
    case (Some u)
    have "auth_step s s" by (simp add: same_accounts_def auth_step.other_tables)
    with Some step [OF Some] show ?thesis by (simp add: decideTierUpgrade_def)
  qed
qed

lemma on_accounts_approve [intro]:
  assumes "acc_steps others"
  shows "on_accounts (approveTierUpgrade i others now) s"
proof -
  have decide: "on_accounts (decideTierUpgrade i True None now) s2"
    if u: "find_user i s1 = Some u" "u_ninVerifiedAt u \<noteq> None" "docs_complete i s1"
      and steps: "auth_step\<^sup>*\<^sup>* s1 s2" "accounts_ok s1" for s1 s2 u
  proof (rule on_accounts_decide_tier)
    fix v assume "find_user i s2 = Some v"
    then show "u_ninVerifiedAt v \<noteq> None \<and> docs_complete i s2"
      using kept_facts_nin [OF kept_facts_steps [OF steps] u(1) _ u(2)]
        kept_facts_docs [OF kept_facts_steps [OF steps] u(3)] by blast
  qed
  show ?thesis
    unfolding approveTierUpgrade_def stepwise_read
  proof (intro acc_rules assms decide on_accounts_send on_accounts_find, goal_cases)
  qed (auto simp: assertM_def acc_steps_send split: if_splits)
qed

lemma on_accounts_reject_tier [intro]:
  "acc_steps others \<Longrightarrow> on_accounts (rejectTierUpgrade i why others now) s"
  unfolding rejectTierUpgrade_def Let_def
  by (intro acc_rules on_accounts_decide_tier on_accounts_find on_accounts_send) simp_all

lemma on_accounts_document [intro!, simp]: "on_accounts (save_document i ty f idt ocr key now) s"
proof (rule acc.stepwise_atomic)
  let ?has = "\<lambda>d uid t. list_ex (\<lambda>x. kd_userId x = uid \<and> kd_docType x = t) d"
  show "auth_step s (snd (save_document i ty f idt ocr key now s))"
  proof (cases "find_row (\<lambda>d. kd_userId d = i \<and> kd_docType d = ty) (kycDocs s)")
    case None
    have "auth_step s (s\<lparr>kycDocs := insert_row r (kycDocs s), fresh_id := Suc (fresh_id s)\<rparr>)" for r
      by (rule auth_step.documents) (auto simp: list_ex_iff)
    then show ?thesis using None by (simp add: save_document_def)
  next
    case (Some x)
    have "?has (update_where P g (kycDocs s)) uid t"
      if "?has (kycDocs s) uid t" and "\<And>d. kd_userId (g d) = kd_userId d" "\<And>d. kd_docType (g d) = kd_docType d"
      for P g uid t
      unfolding list_ex_update_where using that by (auto simp: list_ex_iff)
    then have "auth_step s (s\<lparr>kycDocs := update_where P g (kycDocs s), fresh_id := fresh_id s\<rparr>)"
      if "\<And>d. kd_userId (g d) = kd_userId d" "\<And>d. kd_docType (g d) = kd_docType d" for P g
      using that by (intro auth_step.documents) simp_all
    then show ?thesis using Some by (simp add: save_document_def)
  qed
qed

lemma on_accounts_kyc [intro!, simp]:
  "on_accounts (upload_document store remove_file ocr i ty file idt key now) s"
  "on_accounts (createNinLivenessSession minted i now) s"
  "on_accounts (verifyNin env nin_provider i nin sid) s" "on_accounts (submitTierUpgrade i now) s"
proof -
  note rules = acc_rules on_accounts_find on_accounts_writes on_accounts_document on_accounts_send on_accounts_same
  show "on_accounts (upload_document store remove_file ocr i ty file idt key now) s"
    unfolding upload_document_def by (intro rules)
  show "on_accounts (createNinLivenessSession minted i now) s"
    unfolding createNinLivenessSession_def
    by (intro rules) (simp_all add: same_accounts_def pruneExpiredLivenessSessions_def)
  show "on_accounts (verifyNin env nin_provider i nin sid) s" unfolding verifyNin_def
    by (intro rules) (simp_all add: same_accounts_def pruneExpiredLivenessSessions_def)
  show "on_accounts (submitTierUpgrade i now) s" unfolding submitTierUpgrade_def by (intro rules)
qed

section \<open>The service\<close>

definition after_run :: "'a auth \<Rightarrow> auth_state \<Rightarrow> auth_state" where
  "after_run m s = snd (m s)"

inductive served_auth :: "auth_state \<Rightarrow> auth_state \<Rightarrow> bool" where
  r_register: "served_auth s (after_run (register env fname lname e pw) s)"
| r_resend: "served_auth s (after_run (resendRegistrationOtp env e) s)"
| r_verify: "acc_steps (ae_others env) \<Longrightarrow> served_auth s (after_run (verifyOtp env e c p meta) s)"
| r_login: "acc_steps (ae_others env) \<Longrightarrow> served_auth s (after_run (login env e pw meta) s)"
| r_confirm: "acc_steps (ae_others env) \<Longrightarrow> served_auth s (after_run (confirmLoginPin env ticket pin meta) s)"
| r_refresh: "acc_steps (ae_others env) \<Longrightarrow> served_auth s (after_run (rotateRefreshToken env raw) s)"
| r_set_pin: "served_auth s (after_run (setTransactionPin env i pin pin2) s)"
| r_verify_pin: "acc_steps (ae_others env) \<Longrightarrow> served_auth s (after_run (verifyTransactionPin env i pin) s)"
| r_caps: "acc_steps (ae_others env) \<Longrightarrow> served_auth s (after_run (change_transfer_caps env i pin cap1 cap2) s)"
| r_reset_pin: "acc_steps (ae_others env) \<Longrightarrow> served_auth s (after_run (resetTransactionPin env i pin pin2 pin3) s)"
| r_password: "acc_steps (ae_others env) \<Longrightarrow> served_auth s (after_run (changePassword env i sid pw pw2 pw3) s)"
| r_logout: "served_auth s (after_run (logout i sid now) s)"
| r_revoke: "served_auth s (after_run (revoke_session sid i now) s)"
| r_seen: "served_auth s (after_run (jwt_validate now payload) s)"
| r_biometrics: "served_auth s (after_run (setBiometricPreferences i device b1 b2) s)"
| r_phone: "served_auth s (after_run (addPhone env i phone) s)"
| r_phone_again: "served_auth s (after_run (resendPhoneOtp env i) s)"
| r_phone_code: "acc_steps (ae_others env) \<Longrightarrow> served_auth s (after_run (verifyPhoneOtp env i c) s)"
| r_bvn: "served_auth s (after_run (submitBvn env bvn_provider i bvn dob) s)"
| r_bvn_code: "acc_steps (ae_others env) \<Longrightarrow> served_auth s (after_run (verifyBvnOtp env i c) s)"
| r_forgot: "served_auth s (after_run (requestPasswordReset env e) s)"
| r_forgot_code: "acc_steps (ae_others env) \<Longrightarrow> served_auth s (after_run (verifyPasswordResetOtp env e c) s)"
| r_forgot_done: "acc_steps (ae_others env) \<Longrightarrow> served_auth s (after_run (confirmPasswordReset env ticket pw) s)"
| r_provision: "served_auth s (after_run (retryPaymentProvisioning i) s)"
| r_delete: "acc_steps (ae_others env) \<Longrightarrow> served_auth s (after_run (request_deletion env i pw reason) s)"
| r_delete_not: "served_auth s (after_run (cancel_deletion i now) s)"
| r_delete_no: "acc_steps others \<Longrightarrow> served_auth s (after_run (reject_deletion i why who others now) s)"
| r_suspend: "served_auth s (after_run (suspend i now) s)"
| r_reactivate: "served_auth s (after_run (reactivate i) s)"
| r_profile: "served_auth s (after_run (updateProfile i name1 name2 mobile) s)"
| r_revoke_all: "served_auth s (after_run (admin_revokeSessions i now) s)"
| r_revoke_one: "served_auth s (after_run (admin_revokeSession i sid now) s)"
| r_unlock: "served_auth s (after_run (clearLockouts i) s)"
| r_close: "served_auth s (after_run (close_account i who now) s)"
| r_approve: "acc_steps others \<Longrightarrow> served_auth s (after_run (approveTierUpgrade i others now) s)"
| r_reject: "acc_steps others \<Longrightarrow> served_auth s (after_run (rejectTierUpgrade i why others now) s)"
| r_upload: "served_auth s (after_run (upload_document store remove_file ocr i ty file idt key now) s)"
| r_liveness: "served_auth s (after_run (createNinLivenessSession minted i now) s)"
| r_nin: "served_auth s (after_run (verifyNin env nin_provider i nin ticket) s)"
| r_upgrade: "served_auth s (after_run (submitTierUpgrade i now) s)"

lemma on_accounts_run: "on_accounts m s \<Longrightarrow> accounts_ok s \<Longrightarrow> auth_step\<^sup>*\<^sup>* s (after_run m s)"
  by (simp add: stepwise_def after_run_def)

lemmas on_accounts_handlers =
  on_accounts_register on_accounts_sign_in on_accounts_rotate on_accounts_plain on_accounts_secrets
  on_accounts_sessions on_accounts_biometrics on_accounts_contacts on_accounts_reset on_accounts_deletion
  on_accounts_console on_accounts_reactivate on_accounts_closing on_accounts_approve on_accounts_reject_tier
  on_accounts_kyc

lemma served_auth_steps:
  assumes "served_auth s s'" and "accounts_ok s"
  shows "auth_step\<^sup>*\<^sup>* s s'"
  using assms
proof (induction rule: served_auth.induct)
qed (assumption | rule on_accounts_run on_accounts_handlers)+

interpretation auth: step_system served_auth accounts_ok
  by unfold_locales (rule acc.steps_keep [OF served_auth_steps])

text \<open>What other requests commit while one waits is again a sequence of requests.\<close>

lemma served_auth_many: "served_auth\<^sup>*\<^sup>* s s' \<Longrightarrow> accounts_ok s \<Longrightarrow> auth_step\<^sup>*\<^sup>* s s'"
proof (induction rule: rtranclp_induct)
  case (step y z)
  then show ?case using served_auth_steps auth.steps_keep [OF step(1,4)] by (meson rtranclp_trans)
qed simp

lemma acc_steps_served: "(\<And>s. accounts_ok s \<Longrightarrow> served_auth\<^sup>*\<^sup>* s (f s)) \<Longrightarrow> acc_steps f"
  by (simp add: acc_steps_def served_auth_many)

definition empty_auth :: auth_state where
  "empty_auth = \<lparr>users = [], otps = [], sessions = [], refreshTokens = [], resetTokens = [], devices = [],
    pendingLogins = [], deletions = [], kycDocs = [], liveness = [], sentOut = [], fresh_id = 10\<rparr>"

lemma accounts_ok_empty: "accounts_ok empty_auth"
  by (simp add: accounts_ok_def empty_auth_def unique_users_def tokens_ok_def)

lemma reached_ok: "served_auth\<^sup>*\<^sup>* empty_auth s \<Longrightarrow> accounts_ok s"
  by (rule auth.steps_keep [OF _ accounts_ok_empty])

end
