(* ===== verification/Attempts.thy ===== *)
theory Attempts
  imports AuthUsers
begin

text \<open>
  A counter of wrong guesses with a lock, whatever it protects: the customers' passwords and PINs in
  the auth service, and the staff's passwords and codes in the console.  The contract is that every
  guess goes through the conditional update \<open>reserve\<close> before it is looked at; what follows from it is
  the bound on the guesses that are looked at.
\<close>

text \<open>
  What happens to one counter: a guess reserves its attempt before it is checked; anything else that
  leaves the counter and its lock alone.
\<close>

datatype 's guess_event = Reserve date | Meanwhile "'s \<Rightarrow> 's"

definition in_window :: "('s \<Rightarrow> (nat \<times> date option) option) \<Rightarrow> date \<Rightarrow> 's guess_event \<Rightarrow> bool" where
  "in_window guard start ev \<longleftrightarrow>
    (case ev of Reserve t \<Rightarrow> start \<le> t \<and> t < start + LOCKOUT_SECONDS * 1000
     | Meanwhile f \<Rightarrow> \<forall>s. guard (f s) = guard s)"

fun guesses_checked :: "(date \<Rightarrow> ('e, 'a, 's) stm) \<Rightarrow> 's guess_event list \<Rightarrow> 's \<Rightarrow> nat" where
  "guesses_checked attempt [] s = 0"
| "guesses_checked attempt (Reserve t # evs) s =
    (case attempt t s of
       (Inl e, s') \<Rightarrow> guesses_checked attempt evs s' | (Inr b, s') \<Rightarrow> Suc (guesses_checked attempt evs s'))"
| "guesses_checked attempt (Meanwhile f # evs) s = guesses_checked attempt evs (f s)"

text \<open>How many guesses the counter still lets through in the window from \<open>start\<close>.\<close>

definition room :: "date \<Rightarrow> nat \<times> date option \<Rightarrow> nat" where
  "room start g = (case snd g of
      None \<Rightarrow> max 1 (MAX_FAILED_ATTEMPTS - fst g)
    | Some u \<Rightarrow> if start + LOCKOUT_SECONDS * 1000 \<le> u then 0 else MAX_FAILED_ATTEMPTS)"

lemma room_reserve:
  assumes "reserve t g = Some g'" and "start \<le> t" and "t < start + LOCKOUT_SECONDS * 1000"
  shows "Suc (room start g') \<le> room start g"
proof (cases "snd g")
  case None
  then show ?thesis using assms
    by (cases g) (auto simp: reserve_def room_def Let_def MAX_FAILED_ATTEMPTS_def max_def split: if_splits)
next
  case (Some u)
  then have "u \<le> t" using assms(1) by (cases g) (auto simp: reserve_def Let_def split: if_splits)
  then show ?thesis using assms Some
    by (cases g) (auto simp: reserve_def room_def Let_def MAX_FAILED_ATTEMPTS_def)
qed

lemma room_bound: "room start g \<le> 5"
  by (auto simp: room_def MAX_FAILED_ATTEMPTS_def split: option.split)

locale attempt_counter =
  fixes guard :: "'s \<Rightarrow> (nat \<times> date option) option"
    and attempt :: "date \<Rightarrow> ('e, bool, 's) stm"
    and refused :: 'e
  assumes attempt_nobody: "guard s = None \<Longrightarrow> attempt t s = (Inl refused, s)"
    and attempt_locked: "guard s = Some g \<Longrightarrow> reserve t g = None \<Longrightarrow> attempt t s = (Inl refused, s)"
    and attempt_counted: "guard s = Some g \<Longrightarrow> reserve t g = Some g' \<Longrightarrow>
      \<exists>s'. attempt t s = (Inr (snd g' \<noteq> None), s') \<and> guard s' = Some g'"
begin

lemma refusal_is_final: "fst (attempt t s) = Inl e \<Longrightarrow> attempt t s = (Inl refused, s)"
proof (cases "guard s")
  case (Some g)
  assume e: "fst (attempt t s) = Inl e"
  then have "reserve t g = None" using attempt_counted [OF Some] by (cases "reserve t g") fastforce+
  then show ?thesis by (rule attempt_locked [OF Some])
qed (rule attempt_nobody)

lemma nobody_guesses: "list_all (in_window guard start) evs \<Longrightarrow> guard s = None \<Longrightarrow> guesses_checked attempt evs s = 0"
proof (induction evs arbitrary: s)
  case (Cons ev evs)
  then show ?case by (cases ev) (simp_all add: attempt_nobody in_window_def)
qed simp

lemma guesses_room:
  assumes "list_all (in_window guard start) evs" and "guard s = Some g"
  shows "guesses_checked attempt evs s \<le> room start g"
  using assms
proof (induction evs arbitrary: s g)
  case (Cons ev evs)
  show ?case
  proof (cases ev)
    case (Meanwhile f)
    with Cons.prems have "guard (f s) = Some g" by (simp add: in_window_def)
    with Cons.IH Cons.prems Meanwhile show ?thesis by simp
  next
    case (Reserve t)
    show ?thesis
    proof (cases "reserve t g")
      case None
      then show ?thesis using Cons Reserve by (simp add: attempt_locked [OF Cons.prems(2)])
    next
      case (Some g')
      then obtain s' where s': "attempt t s = (Inr (snd g' \<noteq> None), s')" "guard s' = Some g'"
        using attempt_counted [OF Cons.prems(2)] by blast
      have "guesses_checked attempt evs s' \<le> room start g'" using Cons.IH Cons.prems(1) s'(2) by simp
      moreover have "Suc (room start g') \<le> room start g"
        using room_reserve [OF Some] Cons.prems(1) Reserve by (simp add: in_window_def)
      ultimately show ?thesis using s'(1) Reserve by simp
    qed
  qed
qed simp

lemma guesses_bounded: "list_all (in_window guard start) evs \<Longrightarrow> guesses_checked attempt evs s \<le> 5"
proof (cases "guard s")
  case (Some g)
  assume "list_all (in_window guard start) evs"
  then show ?thesis using guesses_room [OF _ Some] room_bound le_trans by blast
qed (simp add: nobody_guesses)

end

end
