(* ===== verification/AuthProps.thy ===== *)
theory AuthProps
  imports AuthRequests Attempts
begin

text \<open>
  Properties of the auth service: what its tables keep, how often a password or PIN can be guessed,
  how refresh tokens are exchanged, and which requests open a session.
\<close>

section \<open>A sample run\<close>

definition sample_env :: "date \<Rightarrow> string \<Rightarrow> auth_env" where
  "sample_env now token =
    \<lparr>ae_now = now, ae_hash = (\<lambda>p. CHR ''h'' # p), ae_verifyHash = (\<lambda>h p. h = CHR ''h'' # p),
     ae_sha256 = (\<lambda>x. CHR ''s'' # x), ae_code = ''c'', ae_token = token, ae_otpTtl = 300000,
     ae_otpCooldown = 60000, ae_otpMaxAttempts = 5, ae_refreshTtl = 86400000,
     ae_deviceLimitAmount = 20000, ae_deviceLimitHours = 24, ae_others = (\<lambda>s. s)\<rparr>"

definition sample_meta :: request_meta where
  "sample_meta = \<lparr>rm_deviceId = Some ''d'', rm_deviceName = None, rm_userAgent = None, rm_ipAddress = None\<rparr>"

definition registered :: auth_state where
  "registered = after_run (register (sample_env 1000 ''t'') ''A'' ''B'' ''a'' ''p'') empty_auth"

definition activated :: auth_state where
  "activated = after_run (verifyOtp (sample_env 2000 ''t'') ''a'' ''c'' OP_REGISTRATION sample_meta) registered"

lemmas sample_simps = sample_env_def sample_meta_def

section \<open>What the tables keep\<close>

lemma unique_emails: "unique_users us \<Longrightarrow> distinct (map u_email us)"
proof -
  assume u: "unique_users us"
  then have d: "distinct (map u_id us)" by (simp add: unique_users_def)
  have "inj_on u_email (set us)"
  proof (rule inj_onI)
    fix x y assume xy: "x \<in> set us" "y \<in> set us" "u_email x = u_email y"
    then have "u_id x = u_id y" using u by (auto simp: unique_users_def user_conflict_def)
    then show "x = y" using d xy unfolding distinct_map inj_on_def by blast
  qed
  with d show ?thesis by (simp add: distinct_map)
qed

text \<open>
  C3: From an empty database, after any interleaving of the requests of the auth service: a customer
  has at most one session that is not revoked and at most one deletion request waiting, no two
  customers share an e-mail, an ACTIVE customer has verified the e-mail, and a TIER_3 customer has a
  verified NIN and every required document.
\<close>

theorem account_invariants:
  assumes "served_auth\<^sup>*\<^sup>* empty_auth s"
  shows "length (filter (active_session uid) (sessions s)) \<le> 1 \<and>
    length (filter (open_request uid) (deletions s)) \<le> 1 \<and>
    distinct (map u_email (users s)) \<and>
    (\<forall>u \<in> set (users s). (u_status u = US_ACTIVE \<longrightarrow> u_emailVerifiedAt u \<noteq> None) \<and>
      (u_tier u = TIER_3 \<longrightarrow> u_ninVerifiedAt u \<noteq> None \<and> docs_complete (u_id u) s))"
  using reached_ok [OF assms] unique_emails by (simp add: accounts_ok_def user_ok_def)

lemma activated_reached: "served_auth\<^sup>*\<^sup>* empty_auth activated"
proof -
  have "served_auth empty_auth registered"
    unfolding registered_def by (rule served_auth.r_register)
  moreover have "served_auth registered activated"
    unfolding activated_def by (rule served_auth.r_verify) (simp add: sample_env_def)
  ultimately show ?thesis
    by (rule rtranclp.rtrancl_into_rtrancl [OF r_into_rtranclp [where r = served_auth]])
qed

theorem account_invariants_witness:
  "map u_status (users activated) = [US_ACTIVE] \<and> map u_emailVerifiedAt (users activated) = [Some 2000] \<and>
    map ss_revokedAt (sessions activated) = [None] \<and>
    length (filter (active_session 10) (sessions activated)) \<le> 1 \<and> distinct (map u_email (users activated))"
proof -
  have "map u_status (users activated) = [US_ACTIVE]" "map u_emailVerifiedAt (users activated) = [Some 2000]"
    "map ss_revokedAt (sessions activated) = [None]"
    by code_simp+
  then show ?thesis using account_invariants [OF activated_reached, of 10] by blast
qed

section \<open>Refresh tokens\<close>

lemma same_token_refl [simp]: "same_token t t"
  by (simp add: same_token_def)

lemma same_token_trans: "same_token a b \<Longrightarrow> same_token b c \<Longrightarrow> same_token a c"
  by (simp add: same_token_def)

lemma token_kept_step:
  assumes "auth_step s s'" and "find_refresh h s = Some t"
  shows "\<exists>t'. find_refresh h s' = Some t' \<and> same_token t t'"
  using assms
proof (induction rule: auth_step.induct)
  case (revokes_tokens f s P)
  have "rt_tokenHash (f x) = rt_tokenHash x" for x using revokes_tokens(1) [of x] by (simp add: same_token_def)
  then show ?case using revokes_tokens by (simp add: find_refresh_def find_row_update_any)
qed (simp_all add: find_refresh_def find_row_insert_row same_accounts_def)

lemma token_kept_steps:
  "auth_step\<^sup>*\<^sup>* s s' \<Longrightarrow> find_refresh h s = Some t \<Longrightarrow> \<exists>t'. find_refresh h s' = Some t' \<and> same_token t t'"
  by (induction rule: rtranclp_induct) (auto dest: token_kept_step intro: same_token_trans)

lemma find_refresh_id:
  assumes "accounts_ok s" and "find_refresh h s = Some t"
  shows "find_row (by_key rt_id (rt_id t)) (refreshTokens s) = Some t"
  using assms find_row_SomeD [of _ "refreshTokens s" t]
  by (intro find_row_by_key) (auto simp: accounts_ok_def tokens_ok_def find_refresh_def)

text \<open>A rotation that succeeds reads an unrevoked token and leaves it revoked.\<close>

lemma rotate_in_tx_Inr:
  assumes "rotate_in_tx env tid s = (Inr p, s')"
  shows "\<exists>t. find_row (by_key rt_id tid) (refreshTokens s) = Some t \<and> rt_revokedAt t = None \<and>
    at_sid (tk_accessToken p) = rt_sessionId t \<and> at_sub (tk_accessToken p) = rt_userId t \<and>
    (\<forall>h r. find_refresh h s = Some r \<longrightarrow> rt_id r = tid \<longrightarrow>
      (\<exists>r'. find_refresh h s' = Some r' \<and> same_token r r' \<and> rt_revokedAt r' \<noteq> None))"
  using assms unfolding rotate_in_tx_def
  by (auto simp: bindM_def someM_def assertM_def insert_refresh_def find_refresh_def Let_def
      find_row_update_any find_row_insert_row same_token_def
      split: option.splits if_splits sum.splits prod.splits)

lemma rotate_Inr:
  assumes "rotateRefreshToken env raw s = (Inr p, s')" and "acc_steps (ae_others env)" and "accounts_ok s"
  shows "\<exists>t t'. find_refresh (ae_sha256 env raw) s = Some t \<and> rt_revokedAt t = None \<and>
    find_refresh (ae_sha256 env raw) s' = Some t' \<and> same_token t t' \<and> rt_revokedAt t' \<noteq> None \<and>
    at_sid (tk_accessToken p) = rt_sessionId t \<and> at_sub (tk_accessToken p) = rt_userId t"
proof -
  let ?h = "ae_sha256 env raw" and ?s1 = "ae_others env s"
  obtain t where t: "find_refresh ?h s = Some t" "rt_revokedAt t = None"
    and tx: "rotate_in_tx env (rt_id t) ?s1 = (Inr p, s')"
    using assms(1) unfolding rotateRefreshToken_def
    by (auto simp: bindM_def split: option.splits if_splits)
  have steps: "auth_step\<^sup>*\<^sup>* s ?s1" using assms(2,3) by (simp add: acc_steps_def)
  then have ok1: "accounts_ok ?s1" using assms(3) by (rule acc.steps_keep)
  obtain t1 where t1: "find_refresh ?h ?s1 = Some t1" "same_token t t1"
    using token_kept_steps [OF steps t(1)] by blast
  have row: "find_row (by_key rt_id (rt_id t)) (refreshTokens ?s1) = Some t1"
    using find_refresh_id [OF ok1 t1(1)] t1(2) by (simp add: same_token_def)
  have p: "at_sid (tk_accessToken p) = rt_sessionId t1" "at_sub (tk_accessToken p) = rt_userId t1"
    and kept: "\<And>r. find_refresh ?h ?s1 = Some r \<Longrightarrow> rt_id r = rt_id t \<Longrightarrow>
      \<exists>r'. find_refresh ?h s' = Some r' \<and> same_token r r' \<and> rt_revokedAt r' \<noteq> None"
    using rotate_in_tx_Inr [OF tx] row by auto
  obtain t2 where "find_refresh ?h s' = Some t2" "same_token t1 t2" "rt_revokedAt t2 \<noteq> None"
    using kept [OF t1(1)] t1(2) by (auto simp: same_token_def)
  with t t1 p show ?thesis using same_token_trans [of t t1 t2] by (simp add: same_token_def)
qed

text \<open>
  C4: A refresh token is exchanged at most once.  After an exchange, and whatever requests are served
  since, presenting the token again is refused and revokes every token of its session; and an exchange
  that read the token before and only gets to its transaction now is refused as well.
\<close>

theorem refresh_token_exchanged_once:
  assumes "served_auth\<^sup>*\<^sup>* empty_auth s" and "acc_steps (ae_others env)"
    and "rotateRefreshToken env raw s = (Inr p, s1)" and "served_auth\<^sup>*\<^sup>* s1 s2"
    and "ae_sha256 env' = ae_sha256 env"
  shows "fst (rotateRefreshToken env' raw s2) = Inl (Unauthorized ''Refresh token reuse detected'') \<and>
    list_all (\<lambda>t. rt_sessionId t = at_sid (tk_accessToken p) \<longrightarrow> rt_revokedAt t \<noteq> None)
      (refreshTokens (snd (rotateRefreshToken env' raw s2))) \<and>
    (\<exists>m. fst (rotateRefreshToken (env'\<lparr>ae_others := (\<lambda>x. s2)\<rparr>) raw s) = Inl (Unauthorized m))"
proof -
  let ?h = "ae_sha256 env raw"
  have ok: "accounts_ok s" using reached_ok [OF assms(1)] .
  have run: "auth_step\<^sup>*\<^sup>* s s1"
    using on_accounts_run [OF on_accounts_rotate [OF assms(2)] ok, of raw] assms(3) by (simp add: after_run_def)
  then have ok1: "accounts_ok s1" using ok by (rule acc.steps_keep)
  have steps: "auth_step\<^sup>*\<^sup>* s1 s2" and ok2: "accounts_ok s2"
    using served_auth_many [OF assms(4) ok1] auth.steps_keep [OF assms(4) ok1] by blast+
  obtain t t1 where t: "find_refresh ?h s = Some t" "rt_revokedAt t = None"
    and t1: "find_refresh ?h s1 = Some t1" "same_token t t1" "rt_revokedAt t1 \<noteq> None"
    and sid: "at_sid (tk_accessToken p) = rt_sessionId t"
    using rotate_Inr [OF assms(3,2) ok] by blast
  obtain t2 where t2: "find_refresh ?h s2 = Some t2" "same_token t1 t2"
    using token_kept_steps [OF steps t1(1)] by blast
  have dead: "rt_revokedAt t2 \<noteq> None" "rt_sessionId t2 = rt_sessionId t" "rt_id t2 = rt_id t"
    using t1 t2 by (simp_all add: same_token_def)
  obtain y where dead_at: "rt_revokedAt t2 = Some y" using dead(1) by blast
  have again: "rotateRefreshToken env' raw s2 = (Inl (Unauthorized ''Refresh token reuse detected''),
      revoke_refresh (\<lambda>x. rt_sessionId x = rt_sessionId t) (ae_now env') s2)"
    using t2(1) dead(1,2) assms(5) by (simp add: rotateRefreshToken_def bindM_def)
  have row: "find_row (by_key rt_id (rt_id t)) (refreshTokens s2) = Some t2"
    using find_refresh_id [OF ok2 t2(1)] dead(3) by simp
  have "\<exists>m. fst (rotateRefreshToken (env'\<lparr>ae_others := (\<lambda>x. s2)\<rparr>) raw s) = Inl (Unauthorized m)"
    using t row dead_at assms(5)
    by (simp add: rotateRefreshToken_def rotate_in_tx_def bindM_def txM_def assertM_def)
  then show ?thesis unfolding again
    by (auto simp: sid revoke_refresh_def list_all_iff set_update_where)
qed

definition exchanged :: auth_state where
  "exchanged = after_run (rotateRefreshToken (sample_env 3000 ''u'') ''t'') activated"

lemma exchanged_run:
  "rotateRefreshToken (sample_env 3000 ''u'') ''t'' activated =
    (Inr \<lparr>tk_accessToken = \<lparr>at_sub = 10, at_sid = 12\<rparr>, tk_refreshToken = ''u''\<rparr>, exchanged)"
proof -
  have "fst (rotateRefreshToken (sample_env 3000 ''u'') ''t'' activated) =
      Inr \<lparr>tk_accessToken = \<lparr>at_sub = 10, at_sid = 12\<rparr>, tk_refreshToken = ''u''\<rparr>"
    by code_simp
  then show ?thesis by (metis after_run_def exchanged_def prod.collapse)
qed

theorem refresh_token_exchanged_once_witness:
  "fst (rotateRefreshToken (sample_env 4000 ''v'') ''t'' exchanged) =
    Inl (Unauthorized ''Refresh token reuse detected'')"
  by (rule refresh_token_exchanged_once
        [where env' = "sample_env 4000 ''v''", OF activated_reached _ exchanged_run, THEN conjunct1])
    (simp_all add: sample_env_def)

section \<open>Guesses\<close>

definition user_guard :: "uuid \<Rightarrow> secret_kind \<Rightarrow> auth_state \<Rightarrow> (nat \<times> date option) option" where
  "user_guard i k s = map_option (guard_of k) (find_user i s)"

lemma guard_of_set_guard [simp]: "guard_of k (set_guard k g u) = g"
  by (cases k) (simp_all add: guard_of_def set_guard_def)

lemma set_guard_id [simp]: "u_id (set_guard k g u) = u_id u"
  by (cases k) (simp_all add: set_guard_def)

lemma reserve_attempt_guard:
  "reserve_attempt t i k s =
    (case user_guard i k s of
       None \<Rightarrow> (Inl too_many_attempts, s)
     | Some g \<Rightarrow> (case reserve t g of
         None \<Rightarrow> (Inl too_many_attempts, s)
       | Some g' \<Rightarrow> (Inr (snd g' \<noteq> None), update_user i (set_guard k g') s)))"
  by (simp add: reserve_attempt_def user_guard_def split: option.splits)

lemma user_guard_update:
  "user_guard i k s = Some g \<Longrightarrow> user_guard i k (update_user i (set_guard k g') s) = Some g'"
  by (auto simp: user_guard_def find_user_update)

interpretation customer: attempt_counter "user_guard i k" "\<lambda>t. reserve_attempt t i k" too_many_attempts for i k
proof
  fix s t g g'
  show "reserve_attempt t i k s = (Inl too_many_attempts, s)" if "user_guard i k s = None"
    using that by (simp add: reserve_attempt_guard)
  show "reserve_attempt t i k s = (Inl too_many_attempts, s)" if "user_guard i k s = Some g" "reserve t g = None"
    using that by (simp add: reserve_attempt_guard)
  show "\<exists>s'. reserve_attempt t i k s = (Inr (snd g' \<noteq> None), s') \<and> user_guard i k s' = Some g'"
    if "user_guard i k s = Some g" "reserve t g = Some g'"
    using that by (simp add: reserve_attempt_guard user_guard_update)
qed


definition six_guesses :: "auth_state guess_event list" where
  "six_guesses = map Reserve [1000, 1000, 2000, 3000, 4000, 5000]"


end
