(* ===== verification/AuthAccess.thy ===== *)
theory AuthAccess
  imports AuthProps
begin

text \<open>
  Who gets a session: what the sign-in of a password and its confirmation by PIN ask for, and the
  requests that ask for less.
\<close>

section \<open>Sign-in\<close>

lemma trust_if_given_Inr [simp]: "\<exists>s'. trust_if_given env u d name s = (Inr (), s')"
proof -
  have "\<exists>s'. trustDevice env u x name s = (Inr (), s')" for x
    by (cases "find_device (u_id u) x s")
      (simp_all add: trustDevice_def bindM_def trust_def Let_def startDeviceLimit_def whenM_def split: if_splits)
  then show ?thesis by (simp add: trust_if_given_def split: option.split)
qed

lemma open_session_Inr:
  assumes "open_session env uid meta s = (Inr tk, s')"
  shows "at_sub (tk_accessToken tk) = uid"
  using assms unfolding open_session_def issueTokenPair_def
  by (auto elim!: bindM_InrE)

lemma guardedVerify_Inr:
  assumes "guardedVerify env i k b s = (Inr m, s')"
  shows "m = b"
  using assms unfolding guardedVerify_def by (auto elim!: bindM_InrE)

lemma recognized_eq: "(if c then retM True else getM g) s = (Inr (c \<or> g s), s)"
  by simp

lemma login_user:
  assumes "login env e pw meta s = (Inr r, s')"
  obtains u s1 where "findByEmail e s = Some u" "u_status u = US_ACTIVE"
    "ae_verifyHash env (u_passwordHash u) pw" "guardedVerify env (u_id u) SK_PASSWORD True s = (Inr True, s1)"
    "(if u_transactionPinHash u = None \<or> isTrusted (u_id u) (rm_deviceId meta) s1 then
      bindM (trust_if_given env u (rm_deviceId meta) (rm_deviceName meta)) (\<lambda>_.
      bindM (revokeAllRefreshTokensForUser (u_id u) (ae_now env)) (\<lambda>_.
      bindM (open_session env (u_id u) meta) (\<lambda>tokens.
      retM (SignedIn tokens (progressOf u)))))
    else
      bindM (updM (send_out (NewDeviceAlert (u_id u)))) (\<lambda>_.
      bindM (save_pending_login env (u_id u) meta) (\<lambda>_.
      retM (PinRequired (ae_token env))))) s1 = (Inr r, s')"
proof -
  obtain u where u: "findByEmail e s = Some u" "u_status u = US_ACTIVE"
    using assms unfolding login_def by (auto simp: bindM_def someM_def split: option.splits if_splits)
  obtain m s1 where m: "guardedVerify env (u_id u) SK_PASSWORD (ae_verifyHash env (u_passwordHash u) pw) s = (Inr m, s1)"
    and rest: "bindM (assertM m (Unauthorized ''Invalid credentials'')) (\<lambda>_.
        bindM (if u_transactionPinHash u = None then retM True
               else getM (isTrusted (u_id u) (rm_deviceId meta))) (\<lambda>deviceRecognized.
        if deviceRecognized then
          bindM (trust_if_given env u (rm_deviceId meta) (rm_deviceName meta)) (\<lambda>_.
          bindM (revokeAllRefreshTokensForUser (u_id u) (ae_now env)) (\<lambda>_.
          bindM (open_session env (u_id u) meta) (\<lambda>tokens.
          retM (SignedIn tokens (progressOf u)))))
        else
          bindM (updM (send_out (NewDeviceAlert (u_id u)))) (\<lambda>_.
          bindM (save_pending_login env (u_id u) meta) (\<lambda>_.
          retM (PinRequired (ae_token env)))))) s1 = (Inr r, s')"
    using assms u unfolding login_def by (auto simp: bindM_def [of "getM g" for g] bindM_def [of "someM a b" for a b]
        elim: bindM_InrE)
  have "m" using rest by (auto simp: bindM_def assertM_def split: if_splits)
  then have ok: "ae_verifyHash env (u_passwordHash u) pw" using guardedVerify_Inr [OF m] by simp
  show thesis
    by (rule that [OF u ok]) (use m ok \<open>m\<close> rest in \<open>auto simp: bindM_def [of "assertM a b" for a b]
      bindM_def [of "if c then m else n" for c m n] recognized_eq\<close>)
qed

lemma save_pending_login_tables:
  "save_pending_login env i meta s = (Inr (), s') \<Longrightarrow> sessions s' = sessions s \<and> refreshTokens s' = refreshTokens s"
  by (auto simp: save_pending_login_def split: if_splits)

lemma login_Inr:
  assumes "login env e pw meta s = (Inr r, s')"
  shows "\<exists>u s1. findByEmail e s = Some u \<and> u_status u = US_ACTIVE \<and> ae_verifyHash env (u_passwordHash u) pw \<and>
    guardedVerify env (u_id u) SK_PASSWORD True s = (Inr True, s1) \<and>
    (case r of
       SignedIn tk pg \<Rightarrow> at_sub (tk_accessToken tk) = u_id u \<and>
         (u_transactionPinHash u = None \<or> isTrusted (u_id u) (rm_deviceId meta) s1)
     | PinRequired t \<Rightarrow> u_transactionPinHash u \<noteq> None \<and> \<not> isTrusted (u_id u) (rm_deviceId meta) s1 \<and>
         sessions s' = sessions s1 \<and> refreshTokens s' = refreshTokens s1)"
proof -
  obtain u s1 where u: "findByEmail e s = Some u" "u_status u = US_ACTIVE"
    "ae_verifyHash env (u_passwordHash u) pw" "guardedVerify env (u_id u) SK_PASSWORD True s = (Inr True, s1)"
    and rest: "(if u_transactionPinHash u = None \<or> isTrusted (u_id u) (rm_deviceId meta) s1 then
      bindM (trust_if_given env u (rm_deviceId meta) (rm_deviceName meta)) (\<lambda>_.
      bindM (revokeAllRefreshTokensForUser (u_id u) (ae_now env)) (\<lambda>_.
      bindM (open_session env (u_id u) meta) (\<lambda>tokens.
      retM (SignedIn tokens (progressOf u)))))
    else
      bindM (updM (send_out (NewDeviceAlert (u_id u)))) (\<lambda>_.
      bindM (save_pending_login env (u_id u) meta) (\<lambda>_.
      retM (PinRequired (ae_token env))))) s1 = (Inr r, s')"
    by (rule login_user [OF assms])
  have "case r of
       SignedIn tk pg \<Rightarrow> at_sub (tk_accessToken tk) = u_id u \<and>
         (u_transactionPinHash u = None \<or> isTrusted (u_id u) (rm_deviceId meta) s1)
     | PinRequired t \<Rightarrow> u_transactionPinHash u \<noteq> None \<and> \<not> isTrusted (u_id u) (rm_deviceId meta) s1 \<and>
         sessions s' = sessions s1 \<and> refreshTokens s' = refreshTokens s1"
    using rest
    by (auto elim!: bindM_InrE split: if_splits dest!: open_session_Inr save_pending_login_tables)
  with u show ?thesis by blast
qed

lemma confirmLoginPin_Inr:
  assumes "confirmLoginPin env ticket pin meta s = (Inr c, s')"
  shows "\<exists>x u h. find_row (\<lambda>x. lg_ticketHash x = ae_sha256 env ticket) (pendingLogins s) = Some x \<and>
    lg_consumedAt x = None \<and> ae_now env \<le> lg_expiresAt x \<and> lg_attempts x < 5 \<and>
    find_user (lg_userId x) s = Some u \<and> u_transactionPinHash u = Some h \<and> ae_verifyHash env h pin \<and>
    at_sub (tk_accessToken (fst c)) = u_id u"
  using assms unfolding confirmLoginPin_def Let_def LOGIN_TICKET_MAX_ATTEMPTS_def
  by (auto elim!: bindM_InrE split: option.splits if_splits dest!: open_session_Inr guardedVerify_Inr)


text \<open>The customer sets a PIN, and signs in from another device.\<close>

definition with_pin :: auth_state where
  "with_pin = after_run (setTransactionPin (sample_env 3000 ''t'') 10 ''1'' ''1'') activated"

definition other_meta :: request_meta where
  "other_meta = sample_meta\<lparr>rm_deviceId := Some ''x''\<rparr>"

definition ticketed :: auth_state where
  "ticketed = after_run (login (sample_env 4000 ''k'') ''a'' ''p'' other_meta) with_pin"

definition confirmed :: auth_state where
  "confirmed = after_run (confirmLoginPin (sample_env 5000 ''w'') ''k'' ''1'' other_meta) ticketed"

lemma run_eq: "fst (m s) = r \<Longrightarrow> m s = (r, after_run m s)"
  by (metis after_run_def prod.collapse)


section \<open>A code of any purpose signs in\<close>

lemma trusted_after_trust:
  assumes "trust_if_given env u (Some d) name s = (r, s')" and "d \<noteq> []"
  shows "isTrusted (u_id u) (Some d) s' \<and> sessions s' = sessions s \<and> refreshTokens s' = refreshTokens s"
  using assms
  by (auto simp: trust_if_given_def trustDevice_def bindM_def trust_def isTrusted_def find_device_def Let_def
      find_row_insert_row startDeviceLimit_def whenM_def find_row_update_any
      split: option.splits if_splits prod.splits)

lemma verify_code_Inr:
  assumes "latest_otp (\<lambda>x. o_userId x = i \<and> o_purpose x = p \<and> o_consumedAt x = None) s = Some x"
    and "ae_now env \<le> o_expiresAt x" and "o_attempts x < ae_otpMaxAttempts env"
    and "ae_sha256 env c = o_codeHash x" and "ae_others env = (\<lambda>s. s)"
  shows "otp_verify env i p c s = (Inr True, update_otp (o_id x) (\<lambda>y. y\<lparr>o_consumedAt := Some (ae_now env)\<rparr>) s)"
  using assms by (simp add: otp_verify_def bindM_def)

text \<open>
  C40: The code of any purpose, given to \<open>verifyOtp\<close>, opens a session and trusts the device.  The code of
  a password reset is enough: no password, no PIN although the device is new, and no look at the
  status, so a suspended customer gets a session too.
\<close>

theorem any_code_signs_in:
  assumes "findByEmail email s = Some u" and "find_user (u_id u) s = Some u" and "purpose \<noteq> OP_REGISTRATION"
    and "latest_otp (\<lambda>x. o_userId x = u_id u \<and> o_purpose x = purpose \<and> o_consumedAt x = None) s = Some x"
    and "ae_now env \<le> o_expiresAt x" and "o_attempts x < ae_otpMaxAttempts env"
    and "ae_sha256 env c = o_codeHash x" and "ae_others env = (\<lambda>s. s)"
    and "\<not> list_ex (\<lambda>t. rt_tokenHash t = ae_sha256 env (ae_token env)) (refreshTokens s)"
    and "rm_deviceId meta = Some d" and "d \<noteq> []"
  shows "\<exists>tk pg s'. verifyOtp env email c purpose meta s = (Inr (tk, pg), s') \<and>
    at_sub (tk_accessToken tk) = u_id u \<and> isTrusted (u_id u) (Some d) s' \<and>
    list_ex (\<lambda>x. active_session (u_id u) x \<and> ss_id x = at_sid (tk_accessToken tk)) (sessions s')"
proof -
  let ?i = "u_id u" and ?now = "ae_now env"
  let ?s1 = "revoke_refresh (\<lambda>t. rt_userId t = ?i) ?now
    (update_otp (o_id x) (\<lambda>y. y\<lparr>o_consumedAt := Some ?now\<rparr>) s)"
  let ?ss = "\<lparr>ss_id = fresh_id s, ss_userId = ?i, ss_deviceId = Some d, ss_deviceName = rm_deviceName meta,
    ss_userAgent = rm_userAgent meta, ss_ipAddress = rm_ipAddress meta, ss_lastSeenAt = ?now, ss_revokedAt = None\<rparr>"
  obtain s2 where s2: "createExclusive ?now ?i meta ?s1 = (Inr ?ss, s2)" "?ss \<in> set (sessions s2)"
      "refreshTokens s2 = refreshTokens ?s1"
    using assms(10)
    by (simp add: createExclusive_def txM_def bindM_def revoke_sessions_def revoke_refresh_def update_otp_def
        Let_def)
  obtain s3 where s3: "trust_if_given env u (Some d) (rm_deviceName meta) s2 = (Inr (), s3)"
    using trust_if_given_Inr by blast
  have fresh: "\<not> list_ex (\<lambda>t. rt_tokenHash t = ae_sha256 env (ae_token env)) (refreshTokens s3)"
    using assms(9) trusted_after_trust [OF s3 assms(11)] s2(3)
    by (auto simp: revoke_refresh_def update_otp_def list_ex_iff set_update_where)
  obtain s4 where s4: "issueTokenPair env ?i (fresh_id s) s3 =
      (Inr \<lparr>tk_accessToken = \<lparr>at_sub = ?i, at_sid = fresh_id s\<rparr>, tk_refreshToken = ae_token env\<rparr>, s4)"
      "sessions s4 = sessions s3" "devices s4 = devices s3"
    using fresh by (simp add: issueTokenPair_def insert_refresh_def bindM_def token_row_def Let_def)
  have found: "find_user ?i ?s1 = Some u"
    using assms(2) by (simp add: find_user_def revoke_refresh_def update_otp_def)
  have "verifyOtp env email c purpose meta s =
      (Inr (\<lparr>tk_accessToken = \<lparr>at_sub = ?i, at_sid = fresh_id s\<rparr>, tk_refreshToken = ae_token env\<rparr>, progressOf u), s4)"
    using assms(1,3,8,10) verify_code_Inr [OF assms(4-8)] s2(1) s3 s4(1) found
    by (simp add: verifyOtp_def bindM_def revokeAllRefreshTokensForUser_def findUserById_def)
  moreover have "isTrusted ?i (Some d) s4"
    using trusted_after_trust [OF s3 assms(11)] s4(3) by (simp add: isTrusted_def find_device_def)
  moreover have "list_ex (\<lambda>x. active_session ?i x \<and> ss_id x = fresh_id s) (sessions s4)"
  proof -
    have "active_session ?i ?ss \<and> ss_id ?ss = fresh_id s" by (simp add: active_session_def)
    moreover have "?ss \<in> set (sessions s4)"
      using s2(2) trusted_after_trust [OF s3 assms(11)] s4(2) by simp
    ultimately show ?thesis unfolding list_ex_iff by blast
  qed
  ultimately show ?thesis by simp
qed

text \<open>A suspended customer with a PIN, whose reset code was sent before.\<close>

definition reset_asked :: auth_state where
  "reset_asked = after_run (suspend 10 7000) (after_run (requestPasswordReset (sample_env 6000 ''t'') ''a'') with_pin)"

theorem any_code_signs_in_witness:
  "map u_status (users reset_asked) = [US_SUSPENDED] \<and> map u_transactionPinHash (users reset_asked) = [Some ''h1''] \<and>
    (\<exists>tk pg s'. verifyOtp (sample_env 8000 ''z'') ''a'' ''c'' OP_PASSWORD_RESET other_meta reset_asked = (Inr (tk, pg), s') \<and>
      at_sub (tk_accessToken tk) = 10 \<and> isTrusted 10 (Some ''x'') s')"
proof -
  let ?env = "sample_env 8000 ''z''"
  let ?u = "hd (users reset_asked)"
  let ?P = "\<lambda>x. o_userId x = 10 \<and> o_purpose x = OP_PASSWORD_RESET \<and> o_consumedAt x = None"
  have u: "u_id ?u = 10" "findByEmail ''a'' reset_asked = Some ?u" "find_user 10 reset_asked = Some ?u"
    by code_simp+
  let ?x = "hd (filter ?P (otps reset_asked))"
  have x: "latest_otp ?P reset_asked = Some ?x" by code_simp
  have y: "ae_now ?env \<le> o_expiresAt ?x" "o_attempts ?x < ae_otpMaxAttempts ?env"
    "ae_sha256 ?env ''c'' = o_codeHash ?x" by code_simp+
  have f: "\<not> list_ex (\<lambda>t. rt_tokenHash t = ae_sha256 ?env (ae_token ?env)) (refreshTokens reset_asked)"
    by code_simp
  have "\<exists>tk pg s'. verifyOtp ?env ''a'' ''c'' OP_PASSWORD_RESET other_meta reset_asked = (Inr (tk, pg), s') \<and>
      at_sub (tk_accessToken tk) = u_id ?u \<and> isTrusted (u_id ?u) (Some ''x'') s' \<and>
      list_ex (\<lambda>x. active_session (u_id ?u) x \<and> ss_id x = at_sid (tk_accessToken tk)) (sessions s')"
    by (rule any_code_signs_in [where x = ?x, OF u(2) _ _ _ y])
      (use u x f in \<open>simp_all add: sample_env_def other_meta_def sample_meta_def\<close>)
  moreover have "map u_status (users reset_asked) = [US_SUSPENDED]"
    "map u_transactionPinHash (users reset_asked) = [Some ''h1'']" by code_simp+
  ultimately show ?thesis unfolding u(1) by blast
qed

section \<open>A code sent to one number verifies another\<close>

lemma latest_otp_exists: "x \<in> set (otps s) \<Longrightarrow> P x \<Longrightarrow> latest_otp P s \<noteq> None"
  by (auto simp: latest_otp_def filter_empty_conv split: list.splits)

lemma write_user_Inr:
  assumes "find_user i s = Some u" and "\<not> list_ex (\<lambda>x. u_id x \<noteq> i \<and> user_conflict (f u) x) (users s)"
  shows "write_user i f s = (Inr (), update_user i f s)"
  using assms by (simp add: write_user_def)

lemma new_phone_free:
  assumes "accounts_ok s" and "find_user i s = Some u"
    and "\<not> list_ex (\<lambda>x. u_id x \<noteq> i \<and> u_phone x = Some p) (users s)"
  shows "\<not> list_ex (\<lambda>x. u_id x \<noteq> i \<and> user_conflict (u\<lparr>u_phone := Some p\<rparr>) x) (users s)"
proof -
  have "\<not> user_conflict u x" if "x \<in> set (users s)" "u_id x \<noteq> i" for x
    using conflict_free [OF assms(1,2) refl refl refl refl] that by (auto simp: list_ex_iff)
  moreover have "user_conflict u x \<or> u_phone x = Some p" if "user_conflict (u\<lparr>u_phone := Some p\<rparr>) x" for x
    using that by (simp add: user_conflict_def) metis
  ultimately show ?thesis using assms(3) unfolding list_ex_iff by blast
qed

text \<open>
  \<open>addPhone\<close> writes the number before it asks for a code, and the request for the code may be
  refused (one a minute).  The number then stays, nothing is sent to it, and the code that went to the
  number before it marks it verified.
\<close>

theorem code_for_another_number_accepted:
  assumes "served_auth\<^sup>*\<^sup>* empty_auth s" and "find_user i s = Some u" and "normalizeNigerianPhone raw = Inr p"
    and "\<not> list_ex (\<lambda>x. u_id x \<noteq> i \<and> u_phone x = Some p) (users s)"
    and "latest_otp (\<lambda>x. o_userId x = i \<and> o_purpose x = OP_PHONE_VERIFICATION \<and> o_consumedAt x = None) s = Some x"
    and "x \<in> set (otps s)" "o_userId x = i" "o_purpose x = OP_PHONE_VERIFICATION"
    and "ae_now env - ae_otpCooldown env < o_createdAt x"
    and "ae_now env' \<le> o_expiresAt x" and "o_attempts x < ae_otpMaxAttempts env'"
    and "ae_sha256 env' c = o_codeHash x" and "ae_others env' = (\<lambda>s. s)"
  shows "\<exists>e s1 pg s2 v. addPhone env i raw s = (Inl e, s1) \<and> sentOut s1 = sentOut s \<and>
    verifyPhoneOtp env' i c s1 = (Inr pg, s2) \<and> sentOut s2 = sentOut s \<and>
    find_user i s2 = Some v \<and> u_phone v = Some p \<and> u_phoneVerifiedAt v = Some (ae_now env')"
proof -
  let ?f = "\<lambda>u. u\<lparr>u_phone := Some p\<rparr>" and ?g = "\<lambda>u. u\<lparr>u_phoneVerifiedAt := Some (ae_now env')\<rparr>"
  let ?s1 = "update_user i ?f s"
  let ?s1' = "update_otp (o_id x) (\<lambda>y. y\<lparr>o_consumedAt := Some (ae_now env')\<rparr>) ?s1"
  let ?s2 = "update_user i ?g ?s1'"
  have ok: "accounts_ok s" by (rule reached_ok [OF assms(1)])
  have phone: "setPhone i p s = (Inr (), ?s1)"
    unfolding setPhone_def by (rule write_user_Inr [where f = ?f, OF assms(2) new_phone_free [OF ok assms(2,4)]])
  have "auth_step\<^sup>*\<^sup>* s (after_run (setPhone i p) s)"
    by (rule on_accounts_run [OF on_accounts_writes(3) ok])
  then have "auth_step\<^sup>*\<^sup>* s ?s1" by (simp add: after_run_def phone)
  then have ok1: "accounts_ok ?s1" using ok by (rule acc.steps_keep)
  have same: "users ?s1' = users ?s1" by (simp add: update_otp_def)
  have found: "find_user i ?s1 = Some (?f u)" using assms(2) by (simp add: find_user_update)
  then have found': "find_user i ?s1' = Some (?f u)" by (simp add: find_user_def same)
  have "\<not> list_ex (\<lambda>x. u_id x \<noteq> i \<and> user_conflict (?g (?f u)) x) (users ?s1')"
    unfolding same by (rule conflict_free [OF ok1 found]) simp_all
  then have marked: "markPhoneVerified i (ae_now env') ?s1' = (Inr (), ?s2)"
    unfolding markPhoneVerified_def by (rule write_user_Inr [where f = ?g, OF found'])
  have mine: "\<not> (case findByPhone p s of None \<Rightarrow> False | Some v \<Rightarrow> u_id v \<noteq> i)"
    using assms(4) by (auto simp: findByPhone_def list_ex_iff split: option.splits dest: find_row_SomeD)
  obtain y where "latest_otp (\<lambda>x. o_userId x = i \<and> o_purpose x = OP_PHONE_VERIFICATION \<and>
      ae_now env - ae_otpCooldown env < o_createdAt x) ?s1 = Some y"
    using latest_otp_exists [of x ?s1 "\<lambda>x. o_userId x = i \<and> o_purpose x = OP_PHONE_VERIFICATION \<and>
      ae_now env - ae_otpCooldown env < o_createdAt x"] assms(6-9) by auto
  then have add: "addPhone env i raw s = (Inl (TooManyRequests ''Please wait before requesting another code''), ?s1)"
    using assms(3) mine phone by (simp add: addPhone_def bindM_def otp_generate_def assertM_def)
  have "latest_otp (\<lambda>x. o_userId x = i \<and> o_purpose x = OP_PHONE_VERIFICATION \<and> o_consumedAt x = None) ?s1 = Some x"
    using assms(5) by (simp add: latest_otp_def)
  then have v: "verifyPhoneOtp env' i c ?s1 = (Inr (progressOf (?g (?f u))), ?s2)"
    using verify_code_Inr [OF _ assms(10-13)] marked found'
    by (simp add: verifyPhoneOtp_def bindM_def findUserById_def find_user_update)
  show ?thesis
  proof (intro exI conjI)
    show "addPhone env i raw s = (Inl (TooManyRequests ''Please wait before requesting another code''), ?s1)"
      by (rule add)
    show "verifyPhoneOtp env' i c ?s1 = (Inr (progressOf (?g (?f u))), ?s2)" by (rule v)
    show "find_user i ?s2 = Some (?g (?f u))" using found' by (simp add: find_user_update)
  qed (simp_all add: update_otp_def)
qed

text \<open>A code is sent to one number; half a minute later another number is entered.\<close>

definition phone_added :: auth_state where
  "phone_added = after_run (addPhone (sample_env 3000 ''t'') 10 ''08031234567'') activated"

lemma phone_added_reached: "served_auth\<^sup>*\<^sup>* empty_auth phone_added"
  unfolding phone_added_def
  by (rule rtranclp.rtrancl_into_rtrancl [OF activated_reached served_auth.r_phone])

theorem code_for_another_number_accepted_witness:
  "sentOut phone_added = [EmailCode ''a'' ''c'', SignedUp 10, SmsCode ''2348031234567'' ''c''] \<and>
    (\<exists>e s1 pg s2 v. addPhone (sample_env 33000 ''t'') 10 ''08039999999'' phone_added = (Inl e, s1) \<and>
      verifyPhoneOtp (sample_env 40000 ''t'') 10 ''c'' s1 = (Inr pg, s2) \<and> sentOut s2 = sentOut phone_added \<and>
      find_user 10 s2 = Some v \<and> u_phone v = Some ''2348039999999'' \<and> u_phoneVerifiedAt v = Some 40000)"
proof -
  let ?u = "hd (users phone_added)"
  let ?P = "\<lambda>x. o_userId x = 10 \<and> o_purpose x = OP_PHONE_VERIFICATION \<and> o_consumedAt x = None"
  let ?x = "hd (filter ?P (otps phone_added))"
  have u: "find_user 10 phone_added = Some ?u" by code_simp
  have n: "normalizeNigerianPhone ''08039999999'' = Inr ''2348039999999''" by code_simp
  have free: "\<not> list_ex (\<lambda>x. u_id x \<noteq> 10 \<and> u_phone x = Some ''2348039999999'') (users phone_added)" by code_simp
  have x: "latest_otp ?P phone_added = Some ?x" "o_userId ?x = 10" "o_purpose ?x = OP_PHONE_VERIFICATION" by code_simp+
  have mem: "?x \<in> set (otps phone_added)" by code_simp
  have y: "ae_now (sample_env 33000 ''t'') - ae_otpCooldown (sample_env 33000 ''t'') < o_createdAt ?x"
    "ae_now (sample_env 40000 ''t'') \<le> o_expiresAt ?x"
    "o_attempts ?x < ae_otpMaxAttempts (sample_env 40000 ''t'')"
    "ae_sha256 (sample_env 40000 ''t'') ''c'' = o_codeHash ?x" by code_simp+
  have others: "ae_others (sample_env 40000 ''t'') = (\<lambda>s. s)" "ae_now (sample_env 40000 ''t'') = 40000"
    by (simp_all add: sample_env_def)
  have "sentOut phone_added = [EmailCode ''a'' ''c'', SignedUp 10, SmsCode ''2348031234567'' ''c'']" by code_simp
  then show ?thesis
    using code_for_another_number_accepted
      [OF phone_added_reached u n free x(1) mem x(2,3) y(1,2,3,4) others(1)] others(2) by metis
qed

section \<open>Revoking a session from the list\<close>

lemma revoke_session_Inr:
  assumes "revoke_session sid uid now s = (Inr (), s1)"
  shows "s1 = s\<lparr>sessions := update_where (by_key ss_id sid) (\<lambda>x. x\<lparr>ss_revokedAt := Some now\<rparr>) (sessions s)\<rparr>"
  using assms unfolding revoke_session_def by (auto elim!: bindM_InrE)

lemma revoked_session_refused:
  assumes "revoke_session sid uid now s = (Inr (), s1)"
  shows "fst (jwt_validate now' \<lparr>at_sub = u, at_sid = sid\<rparr> s1) = Inl (Unauthorized ''Session no longer active'')"
proof -
  have "find_row (\<lambda>x. ss_id x = sid \<and> ss_revokedAt x = None) (sessions s1) = None"
    unfolding revoke_session_Inr [OF assms] by (simp add: find_row_update_none)
  then show ?thesis by (simp add: jwt_validate_def bindM_def)
qed

text \<open>
  Revoking a session from the list of sessions (\<open>DELETE /auth/sessions/:id\<close>) stops its access token
  at the auth service but leaves its refresh token: it is exchanged for a new access token, which the
  payment service accepts.  After a log-out the exchange is refused.
\<close>

theorem revoked_session_still_refreshes:
  assumes "served_auth\<^sup>*\<^sup>* empty_auth s" and "find_refresh (ae_sha256 env raw) s = Some t"
    and "rt_revokedAt t = None" and "ae_now env \<le> rt_expiresAt t" and "ae_others env = (\<lambda>x. x)"
    and "\<not> list_ex (\<lambda>x. rt_tokenHash x = ae_sha256 env (ae_token env)) (refreshTokens s)"
    and "revoke_session (rt_sessionId t) (rt_userId t) now s = (Inr (), s1)"
  shows "fst (jwt_validate now' \<lparr>at_sub = rt_userId t, at_sid = rt_sessionId t\<rparr> s1) =
      Inl (Unauthorized ''Session no longer active'') \<and>
    (\<exists>tk s2. rotateRefreshToken env raw s1 = (Inr tk, s2) \<and>
      payment_jwt_validate (tk_accessToken tk) = (rt_userId t, rt_sessionId t)) \<and>
    (\<exists>s3. logout (rt_userId t) (rt_sessionId t) now s = (Inr (), s3) \<and>
      fst (rotateRefreshToken env raw s3) = Inl (Unauthorized ''Refresh token reuse detected''))"
proof (intro conjI)
  let ?sid = "rt_sessionId t" and ?uid = "rt_userId t"
  have s1: "refreshTokens s1 = refreshTokens s" by (simp add: revoke_session_Inr [OF assms(7)])
  show "fst (jwt_validate now' \<lparr>at_sub = ?uid, at_sid = ?sid\<rparr> s1) = Inl (Unauthorized ''Session no longer active'')"
    by (rule revoked_session_refused [OF assms(7)])
  have "find_row (by_key rt_id (rt_id t)) (refreshTokens s1) = Some t"
    using find_refresh_id [OF reached_ok [OF assms(1)] assms(2)] s1 by simp
  then show "\<exists>tk s2. rotateRefreshToken env raw s1 = (Inr tk, s2) \<and>
      payment_jwt_validate (tk_accessToken tk) = (?uid, ?sid)"
    using assms(2-6) s1
    by (simp add: rotateRefreshToken_def rotate_in_tx_def find_refresh_def bindM_def txM_def insert_refresh_def
        token_row_def payment_jwt_validate_def Let_def)
  let ?s3 = "revoke_refresh (\<lambda>x. rt_sessionId x = ?sid) now s1"
  have out: "logout ?uid ?sid now s = (Inr (), ?s3)"
    using assms(7) by (simp add: logout_def bindM_def revokeSessionTokens_def)
  have "find_refresh (ae_sha256 env raw) ?s3 = Some (t\<lparr>rt_revokedAt := Some now\<rparr>)"
    using assms(2,3) s1 by (simp add: find_refresh_def revoke_refresh_def find_row_update_any)
  then have "fst (rotateRefreshToken env raw ?s3) = Inl (Unauthorized ''Refresh token reuse detected'')"
    by (simp add: rotateRefreshToken_def bindM_def)
  with out show "\<exists>s3. logout ?uid ?sid now s = (Inr (), s3) \<and>
      fst (rotateRefreshToken env raw s3) = Inl (Unauthorized ''Refresh token reuse detected'')" by blast
qed

theorem revoked_session_still_refreshes_witness:
  "\<exists>s1. revoke_session 12 10 3000 activated = (Inr (), s1) \<and>
    fst (jwt_validate 4000 \<lparr>at_sub = 10, at_sid = 12\<rparr> s1) = Inl (Unauthorized ''Session no longer active'') \<and>
    (\<exists>tk s2. rotateRefreshToken (sample_env 5000 ''y'') ''t'' s1 = (Inr tk, s2) \<and>
      payment_jwt_validate (tk_accessToken tk) = (10, 12))"
proof -
  let ?env = "sample_env 5000 ''y''"
  let ?t = "hd (refreshTokens activated)"
  let ?s1 = "after_run (revoke_session 12 10 3000) activated"
  have t: "find_refresh (ae_sha256 ?env ''t'') activated = Some ?t" "rt_revokedAt ?t = None"
    "ae_now ?env \<le> rt_expiresAt ?t" by code_simp+
  have ids: "rt_sessionId ?t = 12" "rt_userId ?t = 10" by code_simp+
  have f: "\<not> list_ex (\<lambda>x. rt_tokenHash x = ae_sha256 ?env (ae_token ?env)) (refreshTokens activated)"
    by code_simp
  have run: "revoke_session 12 10 3000 activated = (Inr (), ?s1)"
    by (rule run_eq) code_simp
  show ?thesis
    using revoked_session_still_refreshes [OF activated_reached t _ f, of 3000 ?s1 4000] run
    unfolding ids by (simp add: sample_env_def)
qed

end
