(* ===== verification/AuthPayment.thy ===== *)
theory AuthPayment
  imports AuthKyc AuthAccess
begin

text \<open>
  The payment service checks a PIN by asking the auth service: the client (\<open>PinVerifierService\<close>)
  against the handler of the internal API, and the specification both together implement.
\<close>

section \<open>The reply\<close>

text \<open>The status a NestJS exception is answered with.\<close>

definition status_of :: "http_error \<Rightarrow> nat" where
  "status_of e = (case e of
     BadRequest m \<Rightarrow> 400 | Unauthorized m \<Rightarrow> 401 | Forbidden m \<Rightarrow> 403 | LimitExceeded m r \<Rightarrow> 403
   | NotFound m \<Rightarrow> 404 | Conflict m \<Rightarrow> 409 | TooManyRequests m \<Rightarrow> 429 | ServiceUnavailable m \<Rightarrow> 503
   | PlainError m \<Rightarrow> 500 | UniqueViolation \<Rightarrow> 500)"

definition pin_reply ::
  "pin_body \<Rightarrow> (http_error + (transfer_limit option \<times> transfer_caps)) \<Rightarrow> pin_body http_reply" where
  "pin_reply error_body r =
    (case r of Inr (limit, caps) \<Rightarrow> Reply 200 \<lparr>pb_transferLimit = limit, pb_caps = Some caps\<rparr>
     | Inl e \<Rightarrow> Reply (status_of e) error_body)"

section \<open>The contract\<close>

definition payouts_unavailable :: http_error where
  "payouts_unavailable = ServiceUnavailable ''Payouts are temporarily unavailable''"

text \<open>
  What a PIN check is: a guess is only looked at when the counter admits it; right, it gives the limits
  in force and clears the counter; wrong, it leaves the attempt counted.
\<close>

definition pin_spec ::
  "auth_env \<Rightarrow> uuid \<Rightarrow> string \<Rightarrow> auth_state \<Rightarrow>
   (http_error + (transfer_limit option \<times> transfer_caps option)) \<times> (nat \<times> date option) option" where
  "pin_spec env i pin s =
    (case find_user i s of
       None \<Rightarrow> (Inl payouts_unavailable, None)
     | Some u \<Rightarrow>
        (case (u_transactionPinHash u, reserve (ae_now env) (guard_of SK_PIN u)) of
           (None, g) \<Rightarrow> (Inl payouts_unavailable, Some (guard_of SK_PIN u))
         | (Some h, None) \<Rightarrow>
             (Inl (TooManyRequests ''Too many failed PIN attempts. Try again in 15 minutes.''), Some (guard_of SK_PIN u))
         | (Some h, Some g) \<Rightarrow>
             if ae_verifyHash env h pin
             then (Inr (transferLimitFor env u,
                        Some (transferCapsFor (u_tier u) (u_transferLimitPerTxn u) (u_transferLimitDaily u))),
                   Some (0, None))
             else (Inl (Forbidden ''Incorrect PIN''), Some g)))"

lemma limits_of_guard [simp]:
  "transferLimitFor env (set_guard k g u) = transferLimitFor env u"
  "u_tier (set_guard k g u) = u_tier u" "u_transferLimitPerTxn (set_guard k g u) = u_transferLimitPerTxn u"
  "u_transferLimitDaily (set_guard k g u) = u_transferLimitDaily u"
  by (cases k; simp add: set_guard_def transferLimitFor_def)+

text \<open>
  C17: The payment service's PIN check against the auth service's handler implements the contract: it
  passes exactly for a right PIN the counter admits, with the new-device limit and the caps in force; a
  wrong PIN is refused and counted, a locked one is refused unseen, and no PIN or no such user never passes.
\<close>

theorem pin_check_refines_contract:
  assumes "key \<noteq> []" and "ae_others env = (\<lambda>s. s)"
  shows "pin_assertValid key (pin_reply e (fst (internal_verifyPin env i pin s))) = fst (pin_spec env i pin s) \<and>
    user_guard i SK_PIN (snd (internal_verifyPin env i pin s)) = snd (pin_spec env i pin s)"
proof (cases "find_user i s")
  case None
  then show ?thesis using assms(1)
    by (simp add: internal_verifyPin_def verifyTransactionPin_def findUserById_def bindM_def pin_reply_def status_of_def
        pin_assertValid_def http_ok_def pin_spec_def payouts_unavailable_def user_guard_def)
next
  case (Some u)
  show ?thesis
  proof (cases "u_transactionPinHash u")
    case None
    with Some assms(1) show ?thesis
      by (simp add: internal_verifyPin_def verifyTransactionPin_def findUserById_def bindM_def pin_reply_def status_of_def
          pin_assertValid_def http_ok_def pin_spec_def payouts_unavailable_def user_guard_def)
  next
    case (Some h)
    show ?thesis
    proof (cases "reserve (ae_now env) (guard_of SK_PIN u)")
      case None
      with \<open>find_user i s = Some u\<close> Some assms(1) show ?thesis
        by (simp add: internal_verifyPin_def verifyTransactionPin_def findUserById_def bindM_def pin_reply_def
            status_of_def pin_assertValid_def http_ok_def pin_spec_def user_guard_def guardedVerify_def
            reserve_attempt_def too_many_attempts_def)
    next
      case (Some g)
      with \<open>find_user i s = Some u\<close> \<open>u_transactionPinHash u = Some h\<close> assms show ?thesis
        by (simp add: internal_verifyPin_def verifyTransactionPin_def findUserById_def bindM_def pin_reply_def
            status_of_def pin_assertValid_def http_ok_def pin_spec_def user_guard_def guardedVerify_def
            reserve_attempt_def transferLimit_def transferCaps_def find_user_update)
    qed
  qed
qed

definition no_body :: pin_body where
  "no_body = \<lparr>pb_transferLimit = None, pb_caps = None\<rparr>"

theorem pin_check_refines_contract_witness:
  "pin_assertValid ''k'' (pin_reply no_body (fst (internal_verifyPin (sample_env 6000 ''t'') 10 ''2'' with_pin))) =
      Inl (Forbidden ''Incorrect PIN'') \<and>
    user_guard 10 SK_PIN (snd (internal_verifyPin (sample_env 6000 ''t'') 10 ''2'' with_pin)) = Some (1, None)"
proof -
  have "pin_spec (sample_env 6000 ''t'') 10 ''2'' with_pin = (Inl (Forbidden ''Incorrect PIN''), Some (1, None))"
    by code_simp
  then show ?thesis
    using pin_check_refines_contract [of "''k''" "sample_env 6000 ''t''" no_body 10 "''2''" with_pin]
    by (simp add: sample_env_def)
qed

end
