(* ===== verification/AdminEntities.thy ===== *)
theory AdminEntities
  imports AuthPayment Requests
begin

text \<open>
  The data of the admin service (\<open>src/apps/admin/src\<close>): staff, their refresh tokens and devices,
  manual postings, broadcasts and the audit log; the audit service and its alerts; the state of the
  console together with the two services it drives; and the calls to their internal APIs.
\<close>

section \<open>Enums and entities\<close>

datatype staff_role = SUPER_ADMIN | COMPLIANCE | SUPPORT | FINANCE

datatype staff_status = STAFF_ACTIVE | STAFF_DISABLED

datatype device_status = DEV_PENDING | DEV_ACTIVE | DEV_REVOKED

datatype posting_status = MP_PENDING | MP_PROCESSING | MP_POSTED | MP_REJECTED | MP_CANCELLED | MP_FAILED

datatype broadcast_status = BC_QUEUED | BC_PROCESSING | BC_COMPLETED | BC_FAILED

record staff_user =
  su_id :: uuid
  su_fullName :: string
  su_email :: string
  su_passwordHash :: string
  su_role :: staff_role
  su_status :: staff_status
  su_mustChangePassword :: bool
  su_failedLoginAttempts :: nat
  su_lockedUntil :: "date option"
  su_totpSecretEnc :: "string option"
  su_totpEnabledAt :: "date option"
  su_totpLastStep :: "int option"
  su_recoveryCodeHashes :: "string list"
  su_lastLoginAt :: "date option"
  su_createdAt :: date

record staff_refresh_token =
  sr_id :: uuid
  sr_staffId :: uuid
  sr_tokenHash :: string
  sr_familyId :: uuid
  sr_deviceId :: "uuid option"
  sr_expiresAt :: date
  sr_revokedAt :: "date option"

record staff_device =
  sd_id :: uuid
  sd_staffId :: uuid
  sd_label :: string
  sd_credentialId :: string
  sd_publicKey :: string
  sd_counter :: nat
  sd_transports :: "string list"
  sd_status :: device_status
  sd_approvedBy :: "uuid option"
  sd_approvedAt :: "date option"
  sd_lastUsedAt :: "date option"
  sd_createdAt :: date

text \<open>The amount is the decimal text of the request (or of the deposit), as the entity has it.\<close>

record posting =
  mp_id :: uuid
  mp_customerId :: uuid
  mp_walletId :: uuid
  mp_sourceTransactionId :: "uuid option"
  mp_currency :: currency_code
  mp_type :: transaction_type
  mp_amount :: string
  mp_reason :: string
  mp_narration :: string
  mp_status :: posting_status
  mp_requestedById :: uuid
  mp_requestedByEmail :: string
  mp_decidedById :: "uuid option"
  mp_decidedByEmail :: "string option"
  mp_decidedAt :: "date option"
  mp_decisionNote :: "string option"
  mp_transactionId :: "uuid option"
  mp_balanceAfter :: "money option"
  mp_failureReason :: "string option"
  mp_createdAt :: date

record broadcast =
  bc_id :: uuid
  bc_channels :: "string list"
  bc_title :: string
  bc_body :: string
  bc_customerIds :: "uuid list option"
  bc_status :: broadcast_status
  bc_recipientCount :: nat
  bc_publishedCount :: nat
  bc_error :: "string option"
  bc_createdBy :: uuid
  bc_completedAt :: "date option"

text \<open>An entry of the audit log; its \<open>metadata\<close> (a JSON column no code reads) is left out.\<close>

record audit_entry =
  au_staffId :: "uuid option"
  au_staffEmail :: "string option"
  au_action :: string
  au_resourceType :: "string option"
  au_resourceId :: "uuid option"
  au_ip :: "string option"

section \<open>State\<close>

datatype admin_effect =
    StaffAlert string string
  | BroadcastJob uuid
  | BroadcastPush string uuid
  | BroadcastEmail string string string

record admin_state =
  staff :: "staff_user list"
  staffTokens :: "staff_refresh_token list"
  staffDevices :: "staff_device list"
  postings :: "posting list"
  broadcasts :: "broadcast list"
  auditLog :: "audit_entry list"
  adminOut :: "admin_effect list"
  admin_next :: uuid

definition empty_admin :: admin_state where
  "empty_admin = \<lparr>staff = [], staffTokens = [], staffDevices = [], postings = [], broadcasts = [],
     auditLog = [], adminOut = [], admin_next = 50\<rparr>"

type_synonym 'a admin = "(http_error, 'a, admin_state) stm"

text \<open>
  What comes from outside: the clock, the configuration, argon2 and sha256, the random values of this
  request, whether the audit row can be written, and (\<open>ad_others\<close>) what other requests commit in the
  n-th gap of this one.  \<open>ad_totp\<close> is the otpauth library on the deciphered secret: the offset of the
  time step a code belongs to; \<open>ad_encrypt\<close> the cipher the secret is stored under.  \<open>ad_registration\<close> and
  \<open>ad_assertion\<close> are the WebAuthn library: the credential (or its new counter) when the browser's
  response answers the challenge, None when it does not or the library throws.
\<close>

record credential =
  cr_id :: string
  cr_publicKey :: string
  cr_counter :: nat
  cr_transports :: "string list"

record assertion_response =
  ar_id :: string
  ar_proof :: string

record admin_env =
  ad_now :: date
  ad_hash :: "string \<Rightarrow> string"
  ad_verifyHash :: "string \<Rightarrow> string \<Rightarrow> bool"
  ad_sha256 :: "string \<Rightarrow> string"
  ad_token :: string
  ad_family :: uuid
  ad_password :: string
  ad_refreshTtlDays :: int
  ad_accessTtl :: int
  ad_totpRequired :: bool
  ad_deviceRequired :: bool
  ad_totp :: "string \<Rightarrow> string \<Rightarrow> int option"
  ad_encrypt :: "string \<Rightarrow> string"
  ad_challenge :: string
  ad_registration :: "string \<Rightarrow> string \<Rightarrow> credential option"
  ad_assertion :: "string \<Rightarrow> assertion_response \<Rightarrow> staff_device \<Rightarrow> nat option"
  ad_newSecret :: string
  ad_newCodes :: "string list"
  ad_auditOk :: bool
  ad_alertsEnabled :: bool
  ad_others :: "nat \<Rightarrow> admin_state \<Rightarrow> admin_state"

text \<open>\<open>AuthenticatedStaff\<close> with the address of the caller: who acts.\<close>

record staff_ctx =
  cx_staffId :: uuid
  cx_deviceId :: "uuid option"
  cx_email :: string
  cx_role :: staff_role
  cx_mustChangePassword :: bool
  cx_twoFactorEnabled :: bool
  cx_ip :: "string option"

section \<open>Audit and alerts\<close>

definition ALERT_ACTIONS :: "(string \<times> string) list" where
  "ALERT_ACTIONS =
    [(''staff.created'', ''Staff account created''),
     (''staff.updated'', ''Staff account role or status changed''),
     (''staff.deleted'', ''Staff account deleted''),
     (''staff.password_reset'', ''Staff password reset''),
     (''staff.mfa_reset'', ''Staff two-factor reset''),
     (''auth.account_locked'', ''Staff account locked after failed sign-ins''),
     (''auth.mfa_disabled'', ''Staff turned off two-factor''),
     (''customer.closed'', ''Customer account closed''),
     (''posting.approved'', ''Manual posting approved''),
     (''posting.failed'', ''Manual posting failed''),
     (''settings.free_payouts_toggled'', ''Free-payouts rule switched on or off'')]"

definition active_super_admin :: "staff_user \<Rightarrow> bool" where
  "active_super_admin u \<longleftrightarrow> su_role u = SUPER_ADMIN \<and> su_status u = STAFF_ACTIVE"

text \<open>One e-mail to every active super admin; best effort, never awaited.\<close>

definition alerts_notify :: "admin_env \<Rightarrow> audit_entry \<Rightarrow> admin_state \<Rightarrow> admin_state" where
  "alerts_notify env e s =
    (case map_of ALERT_ACTIONS (au_action e) of
       None \<Rightarrow> s
     | Some title \<Rightarrow>
        if ad_alertsEnabled env
        then s\<lparr>adminOut := adminOut s @ map (\<lambda>u. StaffAlert (su_email u) title) (filter active_super_admin (staff s))\<rparr>
        else s)"

definition audit_record :: "admin_env \<Rightarrow> audit_entry \<Rightarrow> unit admin" where
  "audit_record env e =
    bindM (assertM (ad_auditOk env) (PlainError ''audit'')) (\<lambda>_.
    bindM (updM (\<lambda>s. s\<lparr>auditLog := auditLog s @ [e]\<rparr>)) (\<lambda>_.
    updM (alerts_notify env e)))"

definition audit_recordSafe :: "admin_env \<Rightarrow> audit_entry \<Rightarrow> unit admin" where
  "audit_recordSafe env e = catchM (audit_record env e) (\<lambda>_. retM ())"

text \<open>The filter and page of the log's screen, newest first, and the capped list of its export.\<close>

record audit_filter =
  af_staffId :: "uuid option"
  af_action :: "string option"
  af_resourceId :: "uuid option"

definition matches_opt :: "'a option \<Rightarrow> 'a option \<Rightarrow> bool" where
  "matches_opt wanted v \<longleftrightarrow> (case wanted of None \<Rightarrow> True | Some x \<Rightarrow> v = Some x)"

definition audit_rows :: "audit_filter \<Rightarrow> admin_state \<Rightarrow> audit_entry list" where
  "audit_rows f s = rev (filter (\<lambda>e. matches_opt (af_staffId f) (au_staffId e) \<and>
      matches_opt (af_action f) (Some (au_action e)) \<and> matches_opt (af_resourceId f) (au_resourceId e)) (auditLog s))"

definition page_of :: "nat \<Rightarrow> nat \<Rightarrow> 'a list \<Rightarrow> 'a list" where
  "page_of pg n rows = take n (drop ((pg - 1) * n) rows)"

definition audit_list :: "audit_filter \<Rightarrow> nat \<Rightarrow> nat \<Rightarrow> admin_state \<Rightarrow> audit_entry list \<times> nat" where
  "audit_list f pg n s = (let rows = audit_rows f s in (page_of pg n rows, length rows))"

definition audit_listForExport :: "audit_filter \<Rightarrow> nat \<Rightarrow> admin_state \<Rightarrow> audit_entry list \<times> bool" where
  "audit_listForExport f cap s =
    (let rows = take (cap + 1) (audit_rows f s) in (take cap rows, cap < length rows))"

section \<open>Roles\<close>

definition rolesGuard :: "staff_role list \<Rightarrow> staff_ctx \<Rightarrow> http_error + bool" where
  "rolesGuard required ctx =
    (if required = [] then Inr True
     else if cx_role ctx = SUPER_ADMIN \<or> cx_role ctx \<in> set required then Inr True
     else Inl (Forbidden ''Insufficient role for this action''))"

text \<open>The guard of every console route: a temporary password opens only the routes that change it.\<close>

definition jwtGuard :: "bool \<Rightarrow> staff_ctx \<Rightarrow> http_error + staff_ctx" where
  "jwtGuard allow_password_change ctx =
    (if \<not> allow_password_change \<and> cx_mustChangePassword ctx then Inl (Forbidden ''Password change required'')
     else Inr ctx)"

section \<open>The console and the services it drives\<close>

record console =
  con_admin :: admin_state
  con_auth :: auth_state
  con_pay :: pay_state

type_synonym 'a con = "(http_error, 'a, console) stm"

definition on_admin :: "'a admin \<Rightarrow> 'a con" where
  "on_admin m c = (case m (con_admin c) of (r, s) \<Rightarrow> (r, c\<lparr>con_admin := s\<rparr>))"

definition on_auth :: "'a auth \<Rightarrow> 'a con" where
  "on_auth m c = (case m (con_auth c) of (r, s) \<Rightarrow> (r, c\<lparr>con_auth := s\<rparr>))"

definition on_pay :: "'a pay \<Rightarrow> 'a con" where
  "on_pay m c = (case m (con_pay c) of (r, s) \<Rightarrow> (r, c\<lparr>con_pay := s\<rparr>))"

text \<open>
  What can happen to one internal call: the handler runs and its answer arrives; the request never
  gets there; the handler runs and its answer is lost (15 seconds pass); or something in front of the
  handler (the key guard, the rate limiter, a proxy) answers and it does not run.
\<close>

datatype transport = Answered | NotReached | AnswerLost | AnsweredBy http_error

text \<open>An error answer is rethrown with its status; NestJS hides the text of a 500.\<close>

definition http_answer :: "http_error \<Rightarrow> http_error" where
  "http_answer e = (if status_of e = 500 then PlainError ''Internal server error'' else e)"

definition rethrown :: "'a con \<Rightarrow> 'a con" where
  "rethrown m = catchM m (\<lambda>e. failM (http_answer e))"

definition internal_call :: "bool \<Rightarrow> transport \<Rightarrow> string \<Rightarrow> 'a con \<Rightarrow> 'a con" where
  "internal_call keyConfigured net service handler =
    (if \<not> keyConfigured then
       failM (ServiceUnavailable ''INTERNAL_API_KEY is not configured for the admin service'')
     else
       (case net of
          Answered \<Rightarrow> rethrown handler
        | NotReached \<Rightarrow> failM (ServiceUnavailable (''The '' @ service @ '' service is unreachable''))
        | AnswerLost \<Rightarrow>
            bindM (catchM (bindM handler (\<lambda>_. retM ())) (\<lambda>_. retM ())) (\<lambda>_.
            failM (ServiceUnavailable (''The '' @ service @ '' service is unreachable'')))
        | AnsweredBy e \<Rightarrow> failM (http_answer e)))"

text \<open>
  The outside of a console request: the admin part, the wire of its n-th internal call, what others
  commit in its n-th gap, what is committed inside the payment handler, the auth service's own
  environment, and how the payment database prints and reads decimals.
\<close>

record console_env =
  ce_admin :: admin_env
  ce_keyConfigured :: bool
  ce_net :: "nat \<Rightarrow> transport"
  ce_meanwhile :: "nat \<Rightarrow> console \<Rightarrow> console"
  ce_payOthers :: "pay_state \<Rightarrow> pay_state"
  ce_auth :: auth_env
  ce_dec :: "string \<Rightarrow> money option"
  ce_text :: "money \<Rightarrow> string"
  ce_stamp :: json

definition call_payment :: "console_env \<Rightarrow> nat \<Rightarrow> 'a pay \<Rightarrow> 'a con" where
  "call_payment env n m = internal_call (ce_keyConfigured env) (ce_net env n) ''payment'' (on_pay m)"

definition call_auth :: "console_env \<Rightarrow> nat \<Rightarrow> 'a auth \<Rightarrow> 'a con" where
  "call_auth env n m = internal_call (ce_keyConfigured env) (ce_net env n) ''auth'' (on_auth m)"

definition console_audit :: "console_env \<Rightarrow> staff_ctx \<Rightarrow> string \<Rightarrow> string \<Rightarrow> uuid \<Rightarrow> unit con" where
  "console_audit env ctx action kind i =
    on_admin (audit_record (ce_admin env)
      \<lparr>au_staffId = Some (cx_staffId ctx), au_staffEmail = Some (cx_email ctx), au_action = action,
       au_resourceType = Some kind, au_resourceId = Some i, au_ip = cx_ip ctx\<rparr>)"

end
