(* ===== verification/AdminPostings.thy ===== *)
theory AdminPostings
  imports AdminEntities
begin

text \<open>
  Manual postings, maker-checker (\<open>postings.service.ts\<close>): one person requests, another decides, and an
  approval calls the payment service.  With the customer and deposit reads the request rests on
  (\<open>customers.service.ts\<close>, \<open>transactions.service.ts\<close>).  A gap between two steps of a handler, where
  other requests commit, is \<open>meanwhile env n\<close>.
\<close>

definition meanwhile :: "console_env \<Rightarrow> nat \<Rightarrow> unit con" where
  "meanwhile env n = updM (ce_meanwhile env n)"

section \<open>What the request reads\<close>

definition customer_snapshot :: "uuid \<Rightarrow> user con" where
  "customer_snapshot i =
    bindM (getM (\<lambda>c. find_user i (con_auth c))) (\<lambda>u. someM u (NotFound ''Customer not found''))"

definition walletFor :: "uuid \<Rightarrow> currency_code \<Rightarrow> console \<Rightarrow> wallet option" where
  "walletFor uid cur c = find_row (\<lambda>w. w_userId w = uid \<and> w_currency w = cur) (wallets (con_pay c))"

definition depositForAssignment :: "uuid \<Rightarrow> transaction con" where
  "depositForAssignment i =
    bindM (getM (\<lambda>c. find_txn i (con_pay c))) (\<lambda>t. someM t (NotFound ''Transaction not found''))"

record contact =
  ct_name :: string
  ct_email :: string

definition contact_of :: "user \<Rightarrow> contact" where
  "contact_of u = \<lparr>ct_name = js_trim (u_firstName u @ '' '' @ u_lastName u), ct_email = u_email u\<rparr>"

definition contacts :: "uuid \<Rightarrow> console \<Rightarrow> contact option" where
  "contacts i c = map_option contact_of (find_user i (con_auth c))"

section \<open>The table\<close>

definition open_posting :: "posting \<Rightarrow> bool" where
  "open_posting p \<longleftrightarrow> mp_status p = MP_PENDING \<or> mp_status p = MP_PROCESSING"

text \<open>\<open>UQ_postings_open_source_transaction\<close>\<close>

definition same_open_source :: "posting \<Rightarrow> posting \<Rightarrow> bool" where
  "same_open_source p q \<longleftrightarrow> open_posting p \<and> open_posting q \<and> mp_sourceTransactionId p \<noteq> None \<and>
    mp_sourceTransactionId p = mp_sourceTransactionId q"

definition insert_posting :: "posting \<Rightarrow> posting admin" where
  "insert_posting p s =
    (if list_ex (same_open_source p) (postings s) then (Inl UniqueViolation, s)
     else (let q = p\<lparr>mp_id := admin_next s\<rparr> in
           (Inr q, s\<lparr>postings := insert_row q (postings s), admin_next := Suc (admin_next s)\<rparr>)))"

definition find_posting :: "uuid \<Rightarrow> admin_state \<Rightarrow> posting option" where
  "find_posting i s = find_row (by_key mp_id i) (postings s)"

definition update_posting :: "uuid \<Rightarrow> (posting \<Rightarrow> posting) \<Rightarrow> admin_state \<Rightarrow> admin_state" where
  "update_posting i f s = s\<lparr>postings := update_where (by_key mp_id i) f (postings s)\<rparr>"

definition load_posting :: "uuid \<Rightarrow> posting con" where
  "load_posting i =
    bindM (getM (\<lambda>c. find_posting i (con_admin c))) (\<lambda>p. someM p (NotFound ''Posting not found''))"

record mposting_view =
  mv_posting :: posting
  mv_customer :: "contact option"

definition view_posting :: "posting \<Rightarrow> mposting_view con" where
  "view_posting p = bindM (getM (contacts (mp_customerId p))) (\<lambda>c. retM \<lparr>mv_posting = p, mv_customer = c\<rparr>)"

definition get_posting :: "uuid \<Rightarrow> mposting_view con" where
  "get_posting i = bindM (load_posting i) view_posting"

text \<open>\<open>list\<close>: newest first, by status and customer.\<close>

record posting_query =
  pq_status :: "posting_status list"
  pq_customerId :: "uuid option"
  pq_page :: nat
  pq_pageSize :: nat

definition list_postings :: "posting_query \<Rightarrow> console \<Rightarrow> mposting_view list \<times> nat" where
  "list_postings q c =
    (let rows = rev (filter (\<lambda>p. (pq_status q = [] \<or> mp_status p \<in> set (pq_status q)) \<and>
                   matches_opt (pq_customerId q) (Some (mp_customerId p))) (postings (con_admin c)))
     in (map (\<lambda>p. \<lparr>mv_posting = p, mv_customer = contacts (mp_customerId p) c\<rparr>)
           (page_of (pq_page q) (pq_pageSize q) rows), length rows))"

section \<open>Request\<close>

record create_posting_dto =
  cp_customerId :: uuid
  cp_type :: transaction_type
  cp_amount :: string
  cp_sourceTransactionId :: "uuid option"
  cp_reason :: string
  cp_narration :: "string option"

text \<open>The amount the body may hold: \<open>/^\d{1,11}(\.\d{1,4})?$/\<close>.\<close>

definition valid_amount :: "string \<Rightarrow> bool" where
  "valid_amount s =
    (let n = takeWhile is_digit s; rest = dropWhile is_digit s
     in 1 \<le> length n \<and> length n \<le> 11 \<and>
        (rest = [] \<or> hd rest = CHR ''.'' \<and> 1 \<le> length (tl rest) \<and> length (tl rest) \<le> 4 \<and> list_all is_digit (tl rest)))"

definition DEFAULT_NARRATION :: "transaction_type \<Rightarrow> string" where
  "DEFAULT_NARRATION t = (case t of CREDIT \<Rightarrow> ''Account credit adjustment'' | DEBIT \<Rightarrow> ''Account debit adjustment'')"

definition narration_of :: "create_posting_dto \<Rightarrow> transaction_type \<Rightarrow> string" where
  "narration_of dto t =
    (case map_option js_trim (cp_narration dto) of
       None \<Rightarrow> DEFAULT_NARRATION t | Some n \<Rightarrow> if n = [] then DEFAULT_NARRATION t else n)"

text \<open>\<open>Number(text)\<close> of a decimal column or validated body; amounts have at most 15 digits.\<close>

definition js_number :: "console_env \<Rightarrow> string \<Rightarrow> money" where
  "js_number env s = (case ce_dec env s of Some a \<Rightarrow> a | None \<Rightarrow> 0)"

definition open_for_source :: "uuid option \<Rightarrow> posting \<Rightarrow> bool" where
  "open_for_source src p \<longleftrightarrow> mp_sourceTransactionId p = src \<and> open_posting p"

text \<open>What is to be moved: the body's type and amount, or those of the deposit to assign.\<close>

definition requested_move :: "console_env \<Rightarrow> create_posting_dto \<Rightarrow> wallet \<Rightarrow> (transaction_type \<times> string) con" where
  "requested_move env dto w =
    (case cp_sourceTransactionId dto of
       None \<Rightarrow> retM (cp_type dto, cp_amount dto)
     | Some src \<Rightarrow>
         bindM (depositForAssignment src) (\<lambda>dep.
         bindM (assertM (t_type dep = CREDIT \<and> t_status dep = UNMATCHED \<and> t_walletId dep = None)
                  (BadRequest ''That deposit is not awaiting assignment'')) (\<lambda>_.
         bindM (assertM (t_currency dep = w_currency w)
                  (BadRequest ''The deposit is in another currency than this customer's wallet'')) (\<lambda>_.
         bindM (getM (\<lambda>c. find_row (open_for_source (Some src)) (postings (con_admin c)))) (\<lambda>pending.
         bindM (assertM (pending = None) (Conflict ''There is already a pending request for this deposit'')) (\<lambda>_.
         retM (CREDIT, ce_text env (t_amount dep))))))))"

definition new_posting ::
  "create_posting_dto \<Rightarrow> wallet \<Rightarrow> transaction_type \<Rightarrow> string \<Rightarrow> staff_ctx \<Rightarrow> date \<Rightarrow> posting" where
  "new_posting dto w ty amount ctx now =
    \<lparr>mp_id = 0, mp_customerId = cp_customerId dto, mp_walletId = w_id w,
     mp_sourceTransactionId = cp_sourceTransactionId dto, mp_currency = w_currency w, mp_type = ty,
     mp_amount = amount, mp_reason = js_trim (cp_reason dto), mp_narration = narration_of dto ty,
     mp_status = MP_PENDING, mp_requestedById = cx_staffId ctx, mp_requestedByEmail = cx_email ctx,
     mp_decidedById = None, mp_decidedByEmail = None, mp_decidedAt = None, mp_decisionNote = None,
     mp_transactionId = None, mp_balanceAfter = None, mp_failureReason = None, mp_createdAt = now\<rparr>"

definition request_posting :: "console_env \<Rightarrow> create_posting_dto \<Rightarrow> staff_ctx \<Rightarrow> mposting_view con" where
  "request_posting env dto ctx =
    bindM (customer_snapshot (cp_customerId dto)) (\<lambda>customer.
    bindM (assertM (u_status customer \<noteq> US_CLOSED) (BadRequest ''This account is closed'')) (\<lambda>_.
    bindM (getM (walletFor (cp_customerId dto) NGN)) (\<lambda>found.
    bindM (someM found (BadRequest ''This customer has no wallet'')) (\<lambda>w.
    bindM (requested_move env dto w) (\<lambda>(ty, amount).
    bindM (assertM (0 < js_number env amount) (BadRequest ''Amount must be greater than zero'')) (\<lambda>_.
    bindM (assertM (\<not> (ty = DEBIT \<and> w_balance w < js_number env amount))
             (BadRequest (''Insufficient balance (wallet holds '' @ ce_text env (w_balance w) @ '')''))) (\<lambda>_.
    bindM (meanwhile env 0) (\<lambda>_.
    bindM (on_admin (insert_posting (new_posting dto w ty amount ctx (ad_now (ce_admin env))))) (\<lambda>p.
    bindM (console_audit env ctx ''posting.requested'' ''posting'' (mp_id p)) (\<lambda>_.
    view_posting p))))))))))"

section \<open>Decisions\<close>

definition decided :: "posting_status \<Rightarrow> staff_ctx \<Rightarrow> string option \<Rightarrow> date \<Rightarrow> posting \<Rightarrow> posting" where
  "decided to_status ctx note now p =
    p\<lparr>mp_status := to_status, mp_decidedById := Some (cx_staffId ctx), mp_decidedByEmail := Some (cx_email ctx),
      mp_decidedAt := Some now, mp_decisionNote := note\<rparr>"

text \<open>The conditional update: PENDING to the new status, or nothing.\<close>

definition claim_posting ::
  "uuid \<Rightarrow> posting_status \<Rightarrow> staff_ctx \<Rightarrow> string option \<Rightarrow> date \<Rightarrow> bool admin" where
  "claim_posting i to_status ctx note now s =
    (let hit = (\<lambda>p. mp_id p = i \<and> mp_status p = MP_PENDING)
     in (Inr (affected hit (postings s) = 1),
         s\<lparr>postings := update_where hit (decided to_status ctx note now) (postings s)\<rparr>))"

definition status_word :: "posting_status \<Rightarrow> string" where
  "status_word st = (case st of MP_PENDING \<Rightarrow> ''pending'' | MP_PROCESSING \<Rightarrow> ''processing'' | MP_POSTED \<Rightarrow> ''posted''
    | MP_REJECTED \<Rightarrow> ''rejected'' | MP_CANCELLED \<Rightarrow> ''cancelled'' | MP_FAILED \<Rightarrow> ''failed'')"

definition already :: "posting \<Rightarrow> http_error" where
  "already p = Conflict (''This posting is already '' @ status_word (mp_status p))"

definition posting_reference :: "uuid \<Rightarrow> string" where
  "posting_reference i = ''MAN-'' @ nat_str i"

definition posting_meta :: "posting \<Rightarrow> staff_ctx \<Rightarrow> (string \<times> json) list" where
  "posting_meta p ctx =
    [(''postingId'', JStr (nat_str (mp_id p))), (''reason'', JStr (mp_reason p)),
     (''requestedBy'', JStr (mp_requestedByEmail p)), (''approvedBy'', JStr (cx_email ctx))]"

definition posting_dto_of :: "posting \<Rightarrow> staff_ctx \<Rightarrow> posting_dto" where
  "posting_dto_of p ctx =
    \<lparr>pg_walletId = mp_walletId p, pg_type = mp_type p, pg_amount = mp_amount p,
     pg_reference = posting_reference (mp_id p), pg_narration = mp_narration p, pg_meta = posting_meta p ctx\<rparr>"

definition assign_dto_of :: "posting \<Rightarrow> staff_ctx \<Rightarrow> assign_dto" where
  "assign_dto_of p ctx =
    \<lparr>as_walletId = mp_walletId p, as_reference = posting_reference (mp_id p), as_meta = posting_meta p ctx\<rparr>"

text \<open>The call that moves the money: the transaction and the balance it left.\<close>

definition apply_at_payment :: "console_env \<Rightarrow> staff_ctx \<Rightarrow> posting \<Rightarrow> (uuid \<times> money option) con" where
  "apply_at_payment env ctx p =
    (case mp_sourceTransactionId p of
       Some src \<Rightarrow>
         bindM (call_payment env 0
           (assign_unmatched src (assign_dto_of p ctx) (ce_stamp env) (ad_now (ce_admin env)))) (\<lambda>v.
         retM (av_transactionId v, av_balanceAfter v))
     | None \<Rightarrow>
         bindM (call_payment env 0
           (post_adjustment (ce_dec env) (ce_payOthers env) (posting_dto_of p ctx) (ad_now (ce_admin env)))) (\<lambda>v.
         retM (pv_transactionId v, pv_balanceAfter v)))"

text \<open>An HTTP error below 500 is a refusal; anything else leaves the outcome unknown.\<close>

definition refusal :: "http_error \<Rightarrow> bool" where
  "refusal e \<longleftrightarrow> status_of e < 500"

definition message_of :: "http_error \<Rightarrow> string" where
  "message_of e = (case e of BadRequest m \<Rightarrow> m | Unauthorized m \<Rightarrow> m | Forbidden m \<Rightarrow> m | LimitExceeded m r \<Rightarrow> m
    | NotFound m \<Rightarrow> m | Conflict m \<Rightarrow> m | TooManyRequests m \<Rightarrow> m | ServiceUnavailable m \<Rightarrow> m | PlainError m \<Rightarrow> m
    | UniqueViolation \<Rightarrow> '''')"

definition unconfirmed :: http_error where
  "unconfirmed = ServiceUnavailable
    ''The payment service did not confirm the posting. It may or may not have been applied - approve again to retry safely.''"

definition posted :: "uuid \<Rightarrow> money option \<Rightarrow> posting \<Rightarrow> posting" where
  "posted tid bal p =
    p\<lparr>mp_status := MP_POSTED, mp_transactionId := Some tid, mp_balanceAfter := bal, mp_failureReason := None\<rparr>"

definition failed :: "string \<Rightarrow> posting \<Rightarrow> posting" where
  "failed m p = p\<lparr>mp_status := MP_FAILED, mp_failureReason := Some m\<rparr>"

definition settle_posting :: "console_env \<Rightarrow> staff_ctx \<Rightarrow> posting \<Rightarrow> mposting_view con" where
  "settle_posting env ctx p =
    bindM (apply_at_payment env ctx p) (\<lambda>(tid, bal).
    bindM (meanwhile env 2) (\<lambda>_.
    bindM (on_admin (updM (update_posting (mp_id p) (posted tid bal)))) (\<lambda>_.
    bindM (load_posting (mp_id p)) (\<lambda>done_row.
    bindM (console_audit env ctx ''posting.approved'' ''posting'' (mp_id done_row)) (\<lambda>_.
    view_posting done_row)))))"

definition unsettled :: "console_env \<Rightarrow> staff_ctx \<Rightarrow> posting \<Rightarrow> http_error \<Rightarrow> mposting_view con" where
  "unsettled env ctx p err =
    (if refusal err then
       bindM (meanwhile env 3) (\<lambda>_.
       bindM (on_admin (updM (update_posting (mp_id p) (failed (message_of err))))) (\<lambda>_.
       bindM (console_audit env ctx ''posting.failed'' ''posting'' (mp_id p)) (\<lambda>_.
       failM (BadRequest (''Could not post: '' @ message_of err)))))
     else failM unconfirmed)"

definition approve_posting :: "console_env \<Rightarrow> uuid \<Rightarrow> string option \<Rightarrow> staff_ctx \<Rightarrow> mposting_view con" where
  "approve_posting env i note ctx =
    bindM (load_posting i) (\<lambda>p.
    bindM (assertM (mp_requestedById p \<noteq> cx_staffId ctx) (Forbidden ''You can't approve your own request'')) (\<lambda>_.
    bindM (meanwhile env 0) (\<lambda>_.
    bindM (if mp_status p = MP_PENDING then
             bindM (on_admin (claim_posting i MP_PROCESSING ctx note (ad_now (ce_admin env)))) (\<lambda>ok.
             assertM ok (Conflict ''This posting was just decided by someone else''))
           else assertM (mp_status p = MP_PROCESSING \<and> mp_decidedById p = Some (cx_staffId ctx)) (already p)) (\<lambda>_.
    bindM (meanwhile env 1) (\<lambda>_.
    catchM (settle_posting env ctx p) (unsettled env ctx p))))))"

definition reject_posting :: "console_env \<Rightarrow> uuid \<Rightarrow> string \<Rightarrow> staff_ctx \<Rightarrow> mposting_view con" where
  "reject_posting env i note ctx =
    bindM (load_posting i) (\<lambda>p.
    bindM (assertM (mp_requestedById p \<noteq> cx_staffId ctx)
             (Forbidden ''You can't decide your own request - cancel it instead'')) (\<lambda>_.
    bindM (meanwhile env 0) (\<lambda>_.
    bindM (on_admin (claim_posting i MP_REJECTED ctx (Some note) (ad_now (ce_admin env)))) (\<lambda>ok.
    bindM (assertM ok (already p)) (\<lambda>_.
    bindM (console_audit env ctx ''posting.rejected'' ''posting'' (mp_id p)) (\<lambda>_.
    get_posting i))))))"

definition cancel_posting :: "console_env \<Rightarrow> uuid \<Rightarrow> staff_ctx \<Rightarrow> mposting_view con" where
  "cancel_posting env i ctx =
    bindM (load_posting i) (\<lambda>p.
    bindM (assertM (mp_requestedById p = cx_staffId ctx)
             (Forbidden ''Only the person who requested it can cancel'')) (\<lambda>_.
    bindM (meanwhile env 0) (\<lambda>_.
    bindM (on_admin (claim_posting i MP_CANCELLED ctx None (ad_now (ce_admin env)))) (\<lambda>ok.
    bindM (assertM ok (already p)) (\<lambda>_.
    bindM (console_audit env ctx ''posting.cancelled'' ''posting'' (mp_id p)) (\<lambda>_.
    get_posting i))))))"

end
