(* ===== verification/AdminSteps.thy ===== *)
theory AdminSteps
  imports AdminPostings
begin

text \<open>
  The atomic changes of the console and the payment service that concern manual postings,
  \<open>console_step\<close>, and the invariant \<open>console_ok\<close> they keep: money moved by hand is money somebody asked
  for and somebody else approved.  Each handler of \<open>AdminPostings\<close> is a sequence of such changes.
\<close>

section \<open>Postings and their transactions\<close>

definition same_request :: "posting \<Rightarrow> posting \<Rightarrow> bool" where
  "same_request p q \<longleftrightarrow> mp_id q = mp_id p \<and> mp_customerId q = mp_customerId p \<and> mp_walletId q = mp_walletId p \<and>
    mp_sourceTransactionId q = mp_sourceTransactionId p \<and> mp_currency q = mp_currency p \<and> mp_type q = mp_type p \<and>
    mp_amount q = mp_amount p \<and> mp_reason q = mp_reason p \<and> mp_narration q = mp_narration p \<and>
    mp_requestedById q = mp_requestedById p \<and> mp_requestedByEmail q = mp_requestedByEmail p"

definition decided_by_other :: "posting \<Rightarrow> bool" where
  "decided_by_other p \<longleftrightarrow> (\<exists>d. mp_decidedById p = Some d \<and> d \<noteq> mp_requestedById p)"

definition approved :: "posting \<Rightarrow> bool" where
  "approved p \<longleftrightarrow> mp_status p \<in> {MP_PROCESSING, MP_POSTED, MP_FAILED} \<and> decided_by_other p"

text \<open>The transaction that is a posting's money; amounts are those \<open>dec\<close> reads.\<close>

definition by_hand :: "transaction \<Rightarrow> bool" where
  "by_hand t \<longleftrightarrow> t_provider t = MANUAL \<or> t_kind t = ADJUSTMENT"

definition effect_of :: "(string \<Rightarrow> money option) \<Rightarrow> posting \<Rightarrow> transaction \<Rightarrow> bool" where
  "effect_of dec p t \<longleftrightarrow>
    (case mp_sourceTransactionId p of
       None \<Rightarrow> t_kind t = ADJUSTMENT \<and> t_provider t = MANUAL \<and> t_reference t = posting_reference (mp_id p) \<and>
         t_walletId t = Some (mp_walletId p) \<and> t_type t = mp_type p \<and>
         (\<exists>a. dec (mp_amount p) = Some a \<and> 0 < a \<and> t_amount t = to_fixed 4 a)
     | Some src \<Rightarrow> t_id t = src \<and> t_walletId t = Some (mp_walletId p))"

definition posting_ok :: "(string \<Rightarrow> money option) \<Rightarrow> pay_state \<Rightarrow> posting \<Rightarrow> bool" where
  "posting_ok dec pay p \<longleftrightarrow>
    (case mp_status p of
       MP_PENDING \<Rightarrow> mp_decidedById p = None
     | MP_CANCELLED \<Rightarrow> mp_decidedById p = Some (mp_requestedById p)
     | MP_POSTED \<Rightarrow> decided_by_other p \<and> (\<exists>t \<in> set (txns pay). mp_transactionId p = Some (t_id t) \<and> effect_of dec p t)
     | _ \<Rightarrow> decided_by_other p)"

definition asked_for :: "(string \<Rightarrow> money option) \<Rightarrow> posting list \<Rightarrow> transaction \<Rightarrow> bool" where
  "asked_for dec ps t \<longleftrightarrow> (\<exists>p \<in> set ps. mp_sourceTransactionId p = None \<and> approved p \<and> effect_of dec p t)"

definition console_ok :: "(string \<Rightarrow> money option) \<Rightarrow> console \<Rightarrow> bool" where
  "console_ok dec c \<longleftrightarrow> ledger_ok (con_pay c) \<and> distinct (map mp_id (postings (con_admin c))) \<and>
    (\<forall>p \<in> set (postings (con_admin c)). mp_id p < admin_next (con_admin c) \<and> posting_ok dec (con_pay c) p) \<and>
    (\<forall>t \<in> set (txns (con_pay c)). by_hand t \<longrightarrow> asked_for dec (postings (con_admin c)) t)"

section \<open>Atomic changes\<close>

text \<open>
  A step of the payment service that is not a posting: it writes no row under the provider \<open>MANUAL\<close>
  (deposits carry the webhook's provider, payouts and bills the registry's).
\<close>

definition not_by_hand :: "pay_state \<Rightarrow> pay_state \<Rightarrow> bool" where
  "not_by_hand s s' \<longleftrightarrow> (\<forall>t \<in> set (txns s'). by_hand t \<longrightarrow> (\<exists>x \<in> set (txns s). same_payment x t))"

definition may_decide :: "posting_status \<Rightarrow> staff_ctx \<Rightarrow> posting \<Rightarrow> bool" where
  "may_decide to_status ctx p \<longleftrightarrow>
    (if to_status = MP_CANCELLED then mp_requestedById p = cx_staffId ctx
     else to_status \<in> {MP_PROCESSING, MP_REJECTED} \<and> mp_requestedById p \<noteq> cx_staffId ctx)"

inductive console_step :: "(string \<Rightarrow> money option) \<Rightarrow> console \<Rightarrow> console \<Rightarrow> bool" for dec where
  requests: "mp_status p = MP_PENDING \<Longrightarrow> mp_decidedById p = None \<Longrightarrow>
    insert_posting p (con_admin c) = (r, s) \<Longrightarrow> console_step dec c (c\<lparr>con_admin := s\<rparr>)"
| decides: "find_posting i (con_admin c) = Some p \<Longrightarrow> may_decide st ctx p \<Longrightarrow>
    claim_posting i st ctx note now (con_admin c) = (r1, s) \<Longrightarrow> console_step dec c (c\<lparr>con_admin := s\<rparr>)"
| moves: "find_posting i (con_admin c) = Some p \<Longrightarrow> approved p \<Longrightarrow> mp_sourceTransactionId p = None \<Longrightarrow>
    dec (mp_amount p) = Some a \<Longrightarrow> 0 < a \<Longrightarrow> fits 4 a \<Longrightarrow>
    apply_posting (posting_dto_of p ctx) a now (con_pay c) = (r2, s1) \<Longrightarrow> console_step dec c (c\<lparr>con_pay := s1\<rparr>)"
| settles: "find_posting i (con_admin c) = Some p \<Longrightarrow> approved p \<Longrightarrow> t \<in> set (txns (con_pay c)) \<Longrightarrow>
    effect_of dec p t \<Longrightarrow>
    console_step dec c (c\<lparr>con_admin := update_posting i (posted (t_id t) bal) (con_admin c)\<rparr>)"
| fails: "find_posting i (con_admin c) = Some p \<Longrightarrow> approved p \<Longrightarrow>
    console_step dec c (c\<lparr>con_admin := update_posting i (failed m) (con_admin c)\<rparr>)"
| payments: "pay_step (con_pay c) s1 \<Longrightarrow> not_by_hand (con_pay c) s1 \<Longrightarrow> console_step dec c (c\<lparr>con_pay := s1\<rparr>)"
| other_tables: "postings s = postings (con_admin c) \<Longrightarrow> admin_next (con_admin c) \<le> admin_next s \<Longrightarrow>
    console_step dec c (c\<lparr>con_admin := s, con_auth := au\<rparr>)"

section \<open>Rows of a wallet stay\<close>

definition owned_kept :: "pay_state \<Rightarrow> pay_state \<Rightarrow> bool" where
  "owned_kept s s' \<longleftrightarrow>
    (\<forall>x \<in> set (txns s). t_walletId x \<noteq> None \<longrightarrow> (\<exists>y \<in> set (txns s'). same_payment x y))"

lemma owned_kept_rows: "rows_kept s s' \<Longrightarrow> owned_kept s s'"
  by (simp add: owned_kept_def rows_kept_def)

lemma owned_kept_run: "m s = (r, s') \<Longrightarrow> keeps_payments m \<Longrightarrow> owned_kept s s'"
  unfolding keeps_payments_def by (metis owned_kept_rows snd_conv)

lemma owned_kept_assignment:
  assumes "ledger_ok s" and "assign_in_tx tid dto stamp now s = (r, s')"
  shows "owned_kept s s'"
proof (cases "s' = s")
  case False
  then obtain t where t: "find_txn tid s = Some t"
    using assms(2) by (cases "find_txn tid s") (auto simp: assign_in_tx_def stm_simps)
  with False assms(2) obtain f where c: "t_walletId t = None"
    and s': "txns s' = update_where (by_key t_id tid) f (txns s)"
    unfolding assign_in_tx_eq [OF t] by (auto split: if_splits option.splits)
  note key = ledger_ok_rows [OF assms(1)] t [unfolded find_txn_def]
  show ?thesis
    unfolding owned_kept_def
  proof (intro ballI impI)
    fix x assume x: "x \<in> set (txns s)" "t_walletId x \<noteq> None"
    then have "t_id x \<noteq> tid" using c update_where_key_eq [OF key] by auto
    then have "x \<in> set (txns s')"
      using x(1) imageI [OF x(1), of "\<lambda>x. if by_key t_id tid x then f x else x"]
      by (simp add: s' set_update_where)
    then show "\<exists>y \<in> set (txns s'). same_payment x y" using same_payment_refl by blast
  qed
qed (simp add: owned_kept_rows)

lemma pay_step_owned: "pay_step s s' \<Longrightarrow> ledger_ok s \<Longrightarrow> owned_kept s s'"
proof (induction rule: pay_step.induct)
  case (other_tables s' s)
  then show ?case by (intro owned_kept_rows rows_kept_same)
next
  case (new_wallet u c s r s')
  then show ?case by (intro owned_kept_rows rows_kept_same)
      (auto simp: insert_wallet_def Let_def split: option.splits)
next
  case (update_row f s tid)
  show ?case by (intro owned_kept_rows rows_kept_update_txn update_row(1))
next
  case (assignment tid dto stamp now s r s')
  then show ?case by (intro owned_kept_assignment)
qed (erule owned_kept_run, rule keeps_payments_transactions)+

section \<open>The invariant\<close>

lemma effect_posted [simp]: "effect_of dec (posted tid bal p) t = effect_of dec p t"
  by (cases "mp_sourceTransactionId p") (simp_all add: effect_of_def posted_def)

lemma effect_same_payment: "effect_of dec p t \<Longrightarrow> same_payment t u \<Longrightarrow> effect_of dec p u"
  by (auto simp: effect_of_def same_payment_def split: option.splits)

lemma effect_owned: "effect_of dec p t \<Longrightarrow> t_walletId t \<noteq> None"
  by (auto simp: effect_of_def split: option.splits)

lemma effect_kept:
  assumes "owned_kept s s'" and "t \<in> set (txns s)" and "effect_of dec p t"
  shows "\<exists>u \<in> set (txns s'). t_id u = t_id t \<and> effect_of dec p u"
proof -
  obtain u where "u \<in> set (txns s')" "same_payment t u"
    using assms effect_owned unfolding owned_kept_def by blast
  then show ?thesis using effect_same_payment [OF assms(3)] by (auto simp: same_payment_def)
qed

lemma posting_ok_kept:
  assumes "owned_kept s s'" and "posting_ok dec s p"
  shows "posting_ok dec s' p"
proof (cases "mp_status p = MP_POSTED")
  case True
  then obtain t where t: "t \<in> set (txns s)" "mp_transactionId p = Some (t_id t)" "effect_of dec p t"
    using assms(2) by (auto simp: posting_ok_def)
  then obtain u where "u \<in> set (txns s')" "t_id u = t_id t" "effect_of dec p u"
    using effect_kept [OF assms(1)] by blast
  then have "\<exists>u \<in> set (txns s'). mp_transactionId p = Some (t_id u) \<and> effect_of dec p u" using t(2) by metis
  then show ?thesis using True assms(2) by (simp add: posting_ok_def)
next
  case False
  then show ?thesis using assms(2) by (simp add: posting_ok_def split: posting_status.splits)
qed

lemma asked_for_same: "asked_for dec ps x \<Longrightarrow> same_payment x t \<Longrightarrow> asked_for dec ps t"
  unfolding asked_for_def using effect_same_payment by blast

lemma asked_for_mono:
  assumes "asked_for dec ps t"
    and "\<And>p. p \<in> set ps \<Longrightarrow> approved p \<Longrightarrow> \<exists>q \<in> set qs. same_request p q \<and> approved q"
  shows "asked_for dec qs t"
proof -
  obtain p where p: "p \<in> set ps" "mp_sourceTransactionId p = None" "approved p" "effect_of dec p t"
    using assms(1) by (auto simp: asked_for_def)
  then obtain q where "q \<in> set qs" "same_request p q" "approved q" using assms(2) by blast
  then show ?thesis using p(2,4) by (auto simp: asked_for_def same_request_def effect_of_def)
qed

lemma by_hand_same: "same_payment x t \<Longrightarrow> by_hand t = by_hand x"
  by (simp add: by_hand_def same_payment_def)

text \<open>A step of the payment service.\<close>

lemma console_ok_pay:
  assumes "console_ok dec c" and "ledger_ok s" and "owned_kept (con_pay c) s"
    and "\<And>t. t \<in> set (txns s) \<Longrightarrow> by_hand t \<Longrightarrow> (\<exists>x \<in> set (txns (con_pay c)). same_payment x t) \<or>
      asked_for dec (postings (con_admin c)) t"
  shows "console_ok dec (c\<lparr>con_pay := s\<rparr>)"
proof -
  have "asked_for dec (postings (con_admin c)) t" if "t \<in> set (txns s)" "by_hand t" for t
    using assms(1) assms(4) [OF that] that(2) by_hand_same asked_for_same unfolding console_ok_def by blast
  then show ?thesis using assms(1,2) posting_ok_kept [OF assms(3)] by (simp add: console_ok_def)
qed

text \<open>A change of one posting that keeps the request and never takes an approval back.\<close>

lemma console_ok_update:
  assumes ok: "console_ok dec c"
    and f: "\<And>p. p \<in> set (postings (con_admin c)) \<Longrightarrow> P p \<Longrightarrow>
      same_request p (f p) \<and> posting_ok dec (con_pay c) (f p) \<and> (approved p \<longrightarrow> approved (f p))"
  shows "console_ok dec (c\<lparr>con_admin := (con_admin c)\<lparr>postings := update_where P f (postings (con_admin c))\<rparr>\<rparr>)"
proof -
  let ?ps = "postings (con_admin c)"
  let ?g = "\<lambda>p. if P p then f p else p"
  have g: "same_request p (?g p) \<and> posting_ok dec (con_pay c) (?g p) \<and> (approved p \<longrightarrow> approved (?g p))"
    if "p \<in> set ?ps" for p
    using f [OF that] ok that by (simp add: console_ok_def same_request_def)
  have ids: "map mp_id (map ?g ?ps) = map mp_id ?ps"
    using g by (simp add: same_request_def)
  have "asked_for dec (map ?g ?ps) t" if "asked_for dec ?ps t" for t
  proof (rule asked_for_mono [OF that])
    fix p assume p: "p \<in> set ?ps" "approved p"
    then have "same_request p (?g p) \<and> approved (?g p)" using g by blast
    moreover have "?g p \<in> set (map ?g ?ps)" using imageI [OF p(1), of ?g] by simp
    ultimately show "\<exists>q \<in> set (map ?g ?ps). same_request p q \<and> approved q" by blast
  qed
  moreover have "mp_id q < admin_next (con_admin c) \<and> posting_ok dec (con_pay c) q" if q: "q \<in> set (map ?g ?ps)" for q
  proof -
    obtain p where p: "p \<in> set ?ps" "q = ?g p" using q unfolding set_map by blast
    then show ?thesis using g [OF p(1)] ok unfolding p(2) by (simp add: console_ok_def same_request_def)
  qed
  moreover have "distinct (map mp_id (map ?g ?ps))" using ok unfolding ids by (simp add: console_ok_def)
  ultimately have "(\<forall>t. asked_for dec ?ps t \<longrightarrow> asked_for dec qs t) \<and> distinct (map mp_id qs) \<and>
      (\<forall>q \<in> set qs. mp_id q < admin_next (con_admin c) \<and> posting_ok dec (con_pay c) q)" if "qs = map ?g ?ps" for qs
    unfolding that by blast
  then show ?thesis using ok by (simp add: console_ok_def update_where_def)
qed

lemma find_posting_id: "find_posting i s = Some p \<Longrightarrow> mp_id p = i \<and> p \<in> set (postings s)"
  by (auto simp: find_posting_def dest: find_row_SomeD)

lemma find_posting_only:
  assumes "console_ok dec c" and "find_posting i (con_admin c) = Some p"
    and "q \<in> set (postings (con_admin c))" and "mp_id q = i"
  shows "q = p"
  using update_where_key_eq [of mp_id] assms by (auto simp: console_ok_def find_posting_def)

lemma claim_eq:
  "claim_posting i st ctx note now s =
    (Inr (affected (\<lambda>p. mp_id p = i \<and> mp_status p = MP_PENDING) (postings s) = 1),
     s\<lparr>postings := update_where (\<lambda>p. mp_id p = i \<and> mp_status p = MP_PENDING) (decided st ctx note now) (postings s)\<rparr>)"
  by (simp add: claim_posting_def Let_def)

lemma decided_ok:
  assumes "may_decide st ctx p" and "mp_status p = MP_PENDING"
  shows "same_request p (decided st ctx note now p)" "posting_ok dec pay (decided st ctx note now p)"
  using assms by (auto simp: may_decide_def decided_def same_request_def posting_ok_def decided_by_other_def
      split: if_splits)

lemma console_ok_insert:
  assumes ok: "console_ok dec c" and p: "mp_status p = MP_PENDING" "mp_decidedById p = None"
    and run: "insert_posting p (con_admin c) = (r, s)"
  shows "console_ok dec (c\<lparr>con_admin := s\<rparr>)"
proof (cases "list_ex (same_open_source p) (postings (con_admin c))")
  case True
  then have "s = con_admin c" using run by (simp add: insert_posting_def)
  then show ?thesis using ok by simp
next
  case False
  let ?q = "p\<lparr>mp_id := admin_next (con_admin c)\<rparr>"
  have s: "s = (con_admin c)\<lparr>postings := insert_row ?q (postings (con_admin c)), admin_next := Suc (admin_next (con_admin c))\<rparr>"
    using run False by (simp add: insert_posting_def Let_def)
  have fresh: "admin_next (con_admin c) \<notin> mp_id ` set (postings (con_admin c))"
    using ok by (auto simp: console_ok_def)
  have "asked_for dec (insert_row ?q (postings (con_admin c))) t" if "asked_for dec (postings (con_admin c)) t" for t
    using that by (auto simp: asked_for_def)
  then show ?thesis using ok p fresh
    by (auto simp: console_ok_def s posting_ok_def less_SucI)
qed

lemma console_step_keeps:
  assumes "console_step dec c c'" and "console_ok dec c"
  shows "console_ok dec c'"
  using assms
proof (induction rule: console_step.induct)
  case (requests p c r s)
  then show ?case by (intro console_ok_insert)
next
  case (decides i c p st ctx nt now r1 s)
  have "same_request q (decided st ctx nt now q) \<and> posting_ok dec (con_pay c) (decided st ctx nt now q) \<and>
      (approved q \<longrightarrow> approved (decided st ctx nt now q))"
    if "q \<in> set (postings (con_admin c))" "mp_id q = i \<and> mp_status q = MP_PENDING" for q
  proof -
    have "q = p" using find_posting_only [OF decides(4,1)] that by blast
    then show ?thesis using decided_ok decides(2) that(2) by (simp add: approved_def)
  qed
  then show ?case using decides(3) console_ok_update [OF decides(4)] by (auto simp: claim_eq)
next
  case (moves i c p a ctx now r2 s1)
  have step: "pay_step (con_pay c) s1" by (rule pay_step.posting [OF moves(7,5,6)])
  have ledger: "ledger_ok (con_pay c)" using moves(8) by (simp add: console_ok_def)
  show ?case
  proof (rule console_ok_pay [OF moves(8)])
    show "ledger_ok s1" by (rule pay_step_ledger_ok [OF step ledger])
    show "owned_kept (con_pay c) s1" by (rule pay_step_owned [OF step ledger])
    fix t assume t: "t \<in> set (txns s1)" "by_hand t"
    show "(\<exists>x \<in> set (txns (con_pay c)). same_payment x t) \<or> asked_for dec (postings (con_admin c)) t"
    proof (cases "t \<in> set (txns (con_pay c))")
      case True
      then show ?thesis using same_payment_refl by blast
    next
      case False
      then obtain w where "t = posted_row (posting_dto_of p ctx) a now w (con_pay c)"
        using t(1) moves(7) by (auto simp: apply_posting_eq split: option.splits if_splits)
      then have "effect_of dec p t"
        using moves(3-5) by (simp add: effect_of_def posted_row_def posting_row_def posting_dto_of_def)
      then show ?thesis using moves(1-3) find_posting_id by (auto simp: asked_for_def)
    qed
  qed
next
  case (settles i c p t bal)
  have "same_request q (posted (t_id t) bal q) \<and> posting_ok dec (con_pay c) (posted (t_id t) bal q) \<and>
      (approved q \<longrightarrow> approved (posted (t_id t) bal q))"
    if "q \<in> set (postings (con_admin c))" "mp_id q = i" for q
  proof -
    have "q = p" using find_posting_only [OF settles(5,1)] that by blast
    moreover have "effect_of dec (posted (t_id t) bal p) t" using settles(4) by simp
    moreover have "same_request p (posted (t_id t) bal p)" "mp_transactionId (posted (t_id t) bal p) = Some (t_id t)"
      "mp_status (posted (t_id t) bal p) = MP_POSTED" "decided_by_other (posted (t_id t) bal p)"
      using settles(2) by (simp_all add: same_request_def approved_def decided_by_other_def posted_def)
    ultimately show ?thesis using settles(3) by (auto simp: posting_ok_def approved_def)
  qed
  then show ?case using console_ok_update [OF settles(5)] by (simp add: update_posting_def)
next
  case (fails i c p m)
  have "same_request q (failed m q) \<and> posting_ok dec (con_pay c) (failed m q) \<and> (approved q \<longrightarrow> approved (failed m q))"
    if "q \<in> set (postings (con_admin c))" "mp_id q = i" for q
  proof -
    have "q = p" using find_posting_only [OF fails(3,1)] that by blast
    then show ?thesis using fails(2)
      by (auto simp: same_request_def posting_ok_def approved_def decided_by_other_def failed_def)
  qed
  then show ?case using console_ok_update [OF fails(3)] by (simp add: update_posting_def)
next
  case (payments c s1)
  then have "ledger_ok (con_pay c)" by (simp add: console_ok_def)
  then show ?case using payments pay_step_ledger_ok pay_step_owned
    by (intro console_ok_pay) (auto simp: not_by_hand_def)
next
  case (other_tables s c au)
  then show ?case by (auto simp: console_ok_def intro: less_le_trans)
qed

interpretation con: step_system "console_step dec" "console_ok dec" for dec
  by unfold_locales (rule console_step_keeps)

end
