(* ===== verification/AdminServed.thy ===== *)
theory AdminServed
  imports AdminSteps
begin

text \<open>
  The handlers of manual postings as sequences of the atomic changes of \<open>AdminSteps\<close>, whatever other
  requests commit in their gaps, and the relation \<open>served_console\<close> of the requests of the console.
\<close>

abbreviation on_con :: "(string \<Rightarrow> money option) \<Rightarrow> 'a con \<Rightarrow> console \<Rightarrow> bool" where
  "on_con dec \<equiv> stepwise (console_step dec) (console_ok dec)"

definition con_steps :: "(string \<Rightarrow> money option) \<Rightarrow> (console \<Rightarrow> console) \<Rightarrow> bool" where
  "con_steps dec f \<longleftrightarrow> (\<forall>c. console_ok dec c \<longrightarrow> (console_step dec)\<^sup>*\<^sup>* c (f c))"

lemma con_steps_id [simp]: "con_steps dec (\<lambda>c. c)"
  by (simp add: con_steps_def)

text \<open>What the code relies on: the decimals of the database, and other requests that are such steps too.\<close>

definition console_env_ok :: "(string \<Rightarrow> money option) \<Rightarrow> console_env \<Rightarrow> bool" where
  "console_env_ok dec env \<longleftrightarrow> ce_dec env = dec \<and> decimals_ok dec \<and> (\<forall>n. con_steps dec (ce_meanwhile env n)) \<and>
    con_steps dec (\<lambda>c. c\<lparr>con_pay := ce_payOthers env (con_pay c)\<rparr>)"

section \<open>What steps keep\<close>

definition con_kept :: "console \<Rightarrow> console \<Rightarrow> bool" where
  "con_kept c c' \<longleftrightarrow>
    (\<forall>i p. find_posting i (con_admin c) = Some p \<longrightarrow>
      (\<exists>q. find_posting i (con_admin c') = Some q \<and> same_request p q \<and> (approved p \<longrightarrow> approved q))) \<and>
    owned_kept (con_pay c) (con_pay c')"

lemma same_request_refl [simp]: "same_request p p"
  by (simp add: same_request_def)

lemma same_request_trans: "same_request p q \<Longrightarrow> same_request q r \<Longrightarrow> same_request p r"
  by (simp add: same_request_def)

lemma owned_kept_refl [simp]: "owned_kept s s"
  by (rule owned_kept_rows) simp

lemma owned_kept_trans: "owned_kept a b \<Longrightarrow> owned_kept b c \<Longrightarrow> owned_kept a c"
  unfolding owned_kept_def by (metis same_payment_def same_payment_trans)

lemma con_kept_refl [simp]: "con_kept c c"
  by (simp add: con_kept_def)

lemma con_kept_trans:
  assumes ab: "con_kept a b" and bc: "con_kept b c"
  shows "con_kept a c"
  unfolding con_kept_def
proof (intro conjI allI impI)
  show "owned_kept (con_pay a) (con_pay c)"
    using assms owned_kept_trans unfolding con_kept_def by blast
  fix i p assume "find_posting i (con_admin a) = Some p"
  then obtain q where q: "find_posting i (con_admin b) = Some q" "same_request p q" "approved p \<longrightarrow> approved q"
    using ab unfolding con_kept_def by blast
  then obtain r where "find_posting i (con_admin c) = Some r" "same_request q r" "approved q \<longrightarrow> approved r"
    using bc unfolding con_kept_def by blast
  with q show "\<exists>r. find_posting i (con_admin c) = Some r \<and> same_request p r \<and> (approved p \<longrightarrow> approved r)"
    using same_request_trans by blast
qed

lemma con_kept_posting_update:
  assumes "\<And>p. p \<in> set (postings (con_admin c)) \<Longrightarrow> P p \<Longrightarrow> same_request p (f p) \<and> (approved p \<longrightarrow> approved (f p))"
    and "\<And>p. mp_id (f p) = mp_id p"
  shows "con_kept c (c\<lparr>con_admin := (con_admin c)\<lparr>postings := update_where P f (postings (con_admin c))\<rparr>\<rparr>)"
  unfolding con_kept_def
proof (intro conjI allI impI)
  let ?c' = "c\<lparr>con_admin := (con_admin c)\<lparr>postings := update_where P f (postings (con_admin c))\<rparr>\<rparr>"
  fix i p assume p: "find_posting i (con_admin c) = Some p"
  have found: "find_posting i (con_admin ?c') = Some (if P p then f p else p)"
    using p assms(2) by (simp add: find_posting_def find_row_update_any)
  have "p \<in> set (postings (con_admin c))" using find_posting_id [OF p] by simp
  then have "same_request p (if P p then f p else p) \<and> (approved p \<longrightarrow> approved (if P p then f p else p))"
    using assms(1) by (simp add: same_request_def)
  with found show "\<exists>q. find_posting i (con_admin ?c') = Some q \<and> same_request p q \<and> (approved p \<longrightarrow> approved q)"
    by blast
qed simp

lemma con_kept_pay: "owned_kept (con_pay c) s \<Longrightarrow> con_kept c (c\<lparr>con_pay := s\<rparr>)"
  by (simp add: con_kept_def)

lemma con_kept_step:
  assumes "console_step dec c c'" and "console_ok dec c"
  shows "con_kept c c'"
  using assms
proof (induction rule: console_step.induct)
  case (requests p c r s)
  then show ?case
    by (auto simp: con_kept_def insert_posting_def Let_def find_posting_def find_row_insert_row
        split: if_splits option.splits)
next
  case (decides i c p st ctx nt now r1 s)
  then show ?case
    by (auto simp: claim_eq decided_def approved_def same_request_def intro!: con_kept_posting_update)
next
  case (moves i c p a ctx now r2 s1)
  then show ?case by (intro con_kept_pay pay_step_owned pay_step.posting [OF moves(7)]) (simp_all add: console_ok_def)
next
  case (settles i c p t bal)
  then show ?case
    by (auto simp: update_posting_def posted_def approved_def decided_by_other_def same_request_def
        intro!: con_kept_posting_update)
next
  case (fails i c p m)
  then show ?case
    by (auto simp: update_posting_def failed_def approved_def decided_by_other_def same_request_def
        intro!: con_kept_posting_update)
next
  case (payments c s1)
  then show ?case by (intro con_kept_pay pay_step_owned) (simp_all add: console_ok_def)
next
  case (other_tables s c au)
  then show ?case by (simp add: con_kept_def find_posting_def)
qed

lemma con_kept_steps: "(console_step dec)\<^sup>*\<^sup>* c c' \<Longrightarrow> console_ok dec c \<Longrightarrow> con_kept c c'"
proof (induction rule: rtranclp_induct)
  case (step y z)
  have "console_ok dec y" using con.steps_keep [OF step(1,4)] .
  then show ?case using step con_kept_trans con_kept_step by blast
qed simp

definition approved_as :: "posting \<Rightarrow> console \<Rightarrow> bool" where
  "approved_as p c \<longleftrightarrow> (\<exists>q. find_posting (mp_id p) (con_admin c) = Some q \<and> same_request p q \<and> approved q)"

lemma approved_as_kept:
  assumes "approved_as p c" and "con_kept c c'"
  shows "approved_as p c'"
proof -
  obtain q where q: "find_posting (mp_id p) (con_admin c) = Some q" "same_request p q" "approved q"
    using assms(1) by (auto simp: approved_as_def)
  then obtain r where "find_posting (mp_id p) (con_admin c') = Some r" "same_request q r" "approved r"
    using assms(2) unfolding con_kept_def by blast
  then show ?thesis using q(2) same_request_trans by (auto simp: approved_as_def)
qed

definition paid_as :: "(string \<Rightarrow> money option) \<Rightarrow> posting \<Rightarrow> uuid \<Rightarrow> console \<Rightarrow> bool" where
  "paid_as dec p tid c \<longleftrightarrow> (\<exists>t \<in> set (txns (con_pay c)). t_id t = tid \<and> effect_of dec p t)"

lemma paid_as_kept: "paid_as dec p tid c \<Longrightarrow> con_kept c c' \<Longrightarrow> paid_as dec p tid c'"
  unfolding paid_as_def con_kept_def by (metis effect_kept)

section \<open>Running a service's handler from the console\<close>

lemma on_pay_simps:
  "on_pay (bindM m k) = bindM (on_pay m) (\<lambda>a. on_pay (k a))" "on_pay (retM x) = retM x"
  "on_pay (failM e) = failM e" "on_pay (liftM r) = liftM r" "on_pay (assertM b e) = assertM b e"
  "on_pay (someM v e) = someM v e" "on_pay (getM g) = getM (\<lambda>c. g (con_pay c))"
  "on_pay (updM f) = updM (\<lambda>c. c\<lparr>con_pay := f (con_pay c)\<rparr>)"
  "on_pay (catchM m h) = catchM (on_pay m) (\<lambda>e. on_pay (h e))"
  "on_pay (whenM b n) = whenM b (on_pay n)"
  "on_pay (if b then m1 else m2) = (if b then on_pay m1 else on_pay m2)"
  by (auto simp: fun_eq_iff on_pay_def stm_simps liftM_def split: prod.splits sum.splits option.splits)

lemma on_pay_option:
  "on_pay (case v of None \<Rightarrow> n | Some x \<Rightarrow> f x) = (case v of None \<Rightarrow> on_pay n | Some x \<Rightarrow> on_pay (f x))"
  by (cases v) simp_all

lemmas [intro!, simp] = con.stepwise_pure

lemmas con_rules =
  con.stepwise_bindM con.stepwise_if con.stepwise_option con.stepwise_whenM con.stepwise_catchM con.stepwise_pure

lemma on_con_updM: "con_steps dec f \<Longrightarrow> on_con dec (updM f) c"
  by (rule con.stepwise_updM) (simp add: con_steps_def)

lemma on_con_meanwhile: "console_env_ok dec env \<Longrightarrow> on_con dec (meanwhile env n) c"
  unfolding meanwhile_def by (rule on_con_updM) (simp add: console_env_ok_def)

lemma on_con_quiet:
  assumes "postings (snd (m (con_admin c))) = postings (con_admin c)"
    and "admin_next (con_admin c) \<le> admin_next (snd (m (con_admin c)))"
  shows "on_con dec (on_admin m) c"
proof (rule con.stepwise_atomic)
  show "console_step dec c (snd (on_admin m c))"
    using console_step.other_tables [OF assms, of dec "con_auth c"]
    by (cases "m (con_admin c)") (simp add: on_admin_def)
qed

lemma audit_record_quiet:
  "postings (snd (audit_record env e s)) = postings s" "admin_next (snd (audit_record env e s)) = admin_next s"
  by (simp_all add: audit_record_def alerts_notify_def stm_simps split: option.splits)

lemma on_con_audit [intro!, simp]: "on_con dec (console_audit env ctx a k i) c"
  unfolding console_audit_def by (rule on_con_quiet) (simp_all add: audit_record_quiet)

lemma on_con_call:
  fixes m :: "'a pay"
  assumes "on_con dec (on_pay m) c"
  shows "on_con dec (call_payment env n m) c"
proof -
  have "on_con dec (rethrown (on_pay m)) c" unfolding rethrown_def by (intro con_rules assms)
  moreover have "on_con dec (bindM (catchM (bindM (on_pay m) (\<lambda>_. retM ())) (\<lambda>_. retM ())) (\<lambda>_. failM e :: 'a con)) c" for e
    by (intro con_rules assms)
  ultimately show ?thesis
    by (cases "ce_net env n") (simp_all add: call_payment_def internal_call_def)
qed

lemma call_payment_Inr:
  "call_payment env n m c = (Inr v, c') \<longleftrightarrow>
    ce_keyConfigured env \<and> ce_net env n = Answered \<and> (\<exists>s. m (con_pay c) = (Inr v, s) \<and> c' = c\<lparr>con_pay := s\<rparr>)"
  by (cases "ce_net env n")
    (auto simp: call_payment_def internal_call_def rethrown_def catchM_def bindM_def on_pay_def
      split: prod.splits sum.splits)

section \<open>The payment handlers\<close>

lemma not_by_hand_same: "txns s' = txns s \<Longrightarrow> not_by_hand s s'"
  unfolding not_by_hand_def using same_payment_refl by metis

lemma on_con_pay_step:
  assumes "\<And>s. pay_step s (f s)" and "\<And>s. txns (f s) = txns s"
  shows "on_con dec (updM (\<lambda>c. c\<lparr>con_pay := f (con_pay c)\<rparr>)) c"
  by (rule con.stepwise_updM_step) (auto intro: console_step.payments assms not_by_hand_same)

lemma txns_notify [simp]: "txns (notifyTransaction t ev b s) = txns s"
  by (auto simp: notifyTransaction_def split: option.splits)

lemma on_con_notify [intro!, simp]:
  "on_con dec (updM (\<lambda>c. c\<lparr>con_pay := notifyTransaction t ev b (con_pay c)\<rparr>)) c"
  by (rule on_con_pay_step) simp_all

lemma same_request_dto:
  "same_request p q \<Longrightarrow> posting_dto_of q ctx = posting_dto_of p ctx \<and> assign_dto_of q ctx = assign_dto_of p ctx"
  by (simp add: same_request_def posting_dto_of_def assign_dto_of_def posting_meta_def)

lemma on_con_apply:
  assumes "approved_as p c" and "mp_sourceTransactionId p = None" and "dec (mp_amount p) = Some a"
    and "0 < a" and "fits 4 a"
  shows "on_con dec (on_pay (apply_posting (posting_dto_of p ctx) a now)) c"
proof (rule con.stepwise_atomic)
  obtain q where q: "find_posting (mp_id p) (con_admin c) = Some q" "same_request p q" "approved q"
    using assms(1) by (auto simp: approved_as_def)
  obtain r s where run: "apply_posting (posting_dto_of p ctx) a now (con_pay c) = (r, s)" by fastforce
  have "console_step dec c (c\<lparr>con_pay := s\<rparr>)"
    using q assms(2-5) run same_request_dto [OF q(2)]
    by (intro console_step.moves [OF q(1,3)]) (auto simp: same_request_def)
  then show "console_step dec c (snd (on_pay (apply_posting (posting_dto_of p ctx) a now) c))"
    by (simp add: on_pay_def run)
qed

lemma assign_not_by_hand:
  assumes "console_ok dec c" and "assign_in_tx tid dto stamp now (con_pay c) = (r, s)"
  shows "not_by_hand (con_pay c) s"
proof (cases "txns s = txns (con_pay c)")
  case False
  then obtain t where t: "find_txn tid (con_pay c) = Some t"
    using assms(2) by (cases "find_txn tid (con_pay c)") (auto simp: assign_in_tx_def stm_simps)
  obtain w where free: "t_walletId t = None"
    and s: "txns s = update_where (by_key t_id tid) (assigned t w dto stamp now) (txns (con_pay c))"
    using False assms(2) unfolding assign_in_tx_eq [OF t] by (auto split: if_splits option.splits)
  have ledger: "ledger_ok (con_pay c)" using assms(1) by (simp add: console_ok_def)
  note key = ledger_ok_rows [OF ledger] t [unfolded find_txn_def]
  have "\<exists>x \<in> set (txns (con_pay c)). same_payment x y" if y: "y \<in> set (txns s)" "by_hand y" for y
  proof -
    obtain x where x: "x \<in> set (txns (con_pay c))" "y = (if t_id x = tid then assigned t w dto stamp now x else x)"
      using y(1) unfolding s set_update_where by auto
    have "by_hand x" using y(2) x(2) by (auto simp: by_hand_def assigned_def split: if_splits)
    then have "t_walletId x \<noteq> None"
      using assms(1) x(1) effect_owned by (auto simp: console_ok_def asked_for_def)
    then have "t_id x \<noteq> tid" using update_where_key_eq [OF key x(1)] free by auto
    then show ?thesis using x by (metis same_payment_refl)
  qed
  then show ?thesis by (simp add: not_by_hand_def)
qed (simp add: not_by_hand_same)

lemma on_con_assign: "on_con dec (on_pay (assign_in_tx tid dto stamp now)) c"
proof (rule con.stepwise_atomic)
  assume ok: "console_ok dec c"
  obtain r s where run: "assign_in_tx tid dto stamp now (con_pay c) = (r, s)" by fastforce
  have "console_step dec c (c\<lparr>con_pay := s\<rparr>)"
    by (rule console_step.payments [OF pay_step.assignment [OF run] assign_not_by_hand [OF ok run]])
  then show "console_step dec c (snd (on_pay (assign_in_tx tid dto stamp now) c))"
    by (simp add: on_pay_def run)
qed

lemma on_con_assign_unmatched: "on_con dec (on_pay (assign_unmatched tid dto stamp now)) c"
  unfolding assign_unmatched_def on_pay_simps
  by (rule con.stepwise_bindM [OF on_con_assign])
    (auto simp: on_pay_simps intro!: con.stepwise_bindM con.stepwise_whenM split: prod.splits)

lemma on_con_post_adjustment:
  assumes "console_env_ok dec env" and "approved_as p c" and "mp_sourceTransactionId p = None"
  shows "on_con dec (on_pay (post_adjustment dec (ce_payOthers env) (posting_dto_of p ctx) now)) c"
  unfolding post_adjustment_def on_pay_simps
proof (rule con.stepwise_bindM [OF con.stepwise_pure(4)], goal_cases)
  case (1 a c1)
  then have c1: "c1 = c" and amount: "parseAmount dec (mp_amount p) = Inr a" by (simp_all add: posting_dto_of_def)
  then have a: "dec (mp_amount p) = Some a" "fits 4 a"
    using assms(1) by (auto simp: console_env_ok_def decimals_ok_def parseAmount_def split: option.splits)
  show ?case
    unfolding c1
  proof (rule con.stepwise_bindM [OF con.stepwise_pure(5)], goal_cases)
    case (1 u c2)
    then have pos: "0 < a" and c2: "c2 = c" by auto
    have others: "on_con dec (updM (\<lambda>c. c\<lparr>con_pay := ce_payOthers env (con_pay c)\<rparr>)) x" for x
      using assms(1) by (intro on_con_updM) (simp add: console_env_ok_def)
    have applied: "on_con dec (on_pay (apply_posting (posting_dto_of p ctx) a now)) x"
      if "(console_step dec)\<^sup>*\<^sup>* c x" "console_ok dec c" for x
      by (rule on_con_apply [where dec = dec, OF approved_as_kept [OF assms(2) con_kept_steps [OF that]] assms(3) a(1) pos a(2)])
    show ?case
      unfolding c2 stepwise_read on_pay_option on_pay_simps
      by (intro con_rules others on_con_notify applied) assumption+
  qed
qed

section \<open>The call that moves the money\<close>

lemma on_con_apply_at_payment:
  assumes "console_env_ok dec env" and "approved_as p c"
  shows "on_con dec (apply_at_payment env ctx p) c"
  unfolding apply_at_payment_def
  by (intro con_rules on_con_call on_con_assign_unmatched)
    (use assms in \<open>simp add: console_env_ok_def on_con_post_adjustment [OF assms]\<close>)

text \<open>What its answer is: the transaction of this posting.\<close>

lemma reference_inj [simp]: "posting_reference i = posting_reference j \<longleftrightarrow> i = j"
  by (auto simp: posting_reference_def dest: nat_str_inj)

lemma by_reference:
  assumes "console_ok dec c" and "approved_as p c" and "mp_sourceTransactionId p = None"
    and "findExisting (posting_reference (mp_id p)) (con_pay c) = Some t"
  shows "paid_as dec p (t_id t) c"
proof -
  have t: "t \<in> set (txns (con_pay c))" "t_provider t = MANUAL" "t_reference t = posting_reference (mp_id p)"
    using assms(4) by (auto simp: findExisting_def same_reference_def dest!: find_row_SomeD)
  then obtain q where q: "q \<in> set (postings (con_admin c))" "mp_sourceTransactionId q = None" "effect_of dec q t"
    using assms(1) by (auto simp: console_ok_def asked_for_def by_hand_def)
  then have id: "mp_id q = mp_id p" using t(3) by (simp add: effect_of_def)
  obtain r where r: "find_posting (mp_id p) (con_admin c) = Some r" "same_request p r"
    using assms(2) by (auto simp: approved_as_def)
  then have "q = r" using find_posting_only [OF assms(1) r(1) q(1) id] by simp
  then have "effect_of dec p t" using q(3) r(2) by (simp add: effect_of_def same_request_def split: option.splits)
  then show ?thesis using t(1) by (auto simp: paid_as_def)
qed

lemma assign_paid:
  assumes "assign_in_tx src (assign_dto_of p ctx) stamp now s = (Inr (t, replayed), s')"
    and "mp_sourceTransactionId p = Some src"
  shows "\<exists>u \<in> set (txns s'). t_id u = t_id t \<and> effect_of dec p u"
proof -
  obtain x where x: "find_txn src s = Some x"
    using assms(1) by (cases "find_txn src s") (auto simp: assign_in_tx_def stm_simps)
  have mem: "x \<in> set (txns s)" "t_id x = src" using find_txn_id [OF x] by auto
  show ?thesis
  proof (cases "t_status x = SUCCESSFUL \<and> t_walletId x = Some (mp_walletId p)")
    case True
    then have "t = x" "s' = s" using assms(1) by (simp_all add: assign_in_tx_eq [OF x] assign_dto_of_def)
    then show ?thesis using mem True assms(2) by (auto simp: effect_of_def)
  next
    case False
    then obtain w where w: "find_wallet (mp_walletId p) s = Some w"
      and t: "t = assigned x w (assign_dto_of p ctx) stamp now x"
      and s': "txns s' = update_where (by_key t_id src) (assigned x w (assign_dto_of p ctx) stamp now) (txns s)"
      using assms(1) by (auto simp: assign_in_tx_eq [OF x] assign_dto_of_def split: if_splits option.splits)
    have "t \<in> set (txns s')" unfolding s' set_update_where t using mem by force
    moreover have "effect_of dec p t"
      using mem find_wallet_id [OF w] assms(2) by (simp add: effect_of_def t)
    ultimately show ?thesis by blast
  qed
qed

lemma apply_at_payment_paid:
  assumes run: "apply_at_payment env ctx p c = (Inr (tid, bal), c')" and env: "console_env_ok dec env"
    and p: "approved_as p c" and ok: "console_ok dec c"
  shows "paid_as dec p tid c'"
proof (cases "mp_sourceTransactionId p")
  case None
  have ok': "console_ok dec c'"
    using con.stepwise_keeps [OF on_con_apply_at_payment [OF env p] ok, of ctx] run by simp
  have "(console_step dec)\<^sup>*\<^sup>* c c'"
    using on_con_apply_at_payment [OF env p, of ctx] ok run by (simp add: stepwise_def)
  then have p': "approved_as p c'" using approved_as_kept [OF p con_kept_steps [OF _ ok]] by blast
  obtain v s where v: "post_adjustment dec (ce_payOthers env) (posting_dto_of p ctx) (ad_now (ce_admin env)) (con_pay c) = (Inr v, s)"
    and c': "c' = c\<lparr>con_pay := s\<rparr>" and tid: "tid = pv_transactionId v"
    using run env None
    by (auto simp: apply_at_payment_def console_env_ok_def call_payment_Inr elim!: bindM_InrE)
  obtain t where t: "findExisting (posting_reference (mp_id p)) s = Some t"
    and vt: "v\<lparr>pv_replayed := True\<rparr> = posting_view_of True t"
    using post_adjustment_known [OF v] by (auto simp: posting_dto_of_def)
  have "tid = t_id t" using arg_cong [OF vt, of pv_transactionId] by (simp add: tid posting_view_of_def)
  then show ?thesis using by_reference [OF ok' p' None] t by (simp add: c')
next
  case (Some src)
  then obtain v s where v: "assign_unmatched src (assign_dto_of p ctx) (ce_stamp env) (ad_now (ce_admin env)) (con_pay c) = (Inr v, s)"
    and c': "c' = c\<lparr>con_pay := s\<rparr>" and tid: "tid = av_transactionId v"
    using run by (auto simp: apply_at_payment_def call_payment_Inr elim!: bindM_InrE)
  then obtain t replayed s0 where t: "assign_in_tx src (assign_dto_of p ctx) (ce_stamp env) (ad_now (ce_admin env)) (con_pay c) = (Inr (t, replayed), s0)"
    and "av_transactionId v = t_id t" "txns s = txns s0"
    by (auto simp: assign_unmatched_eq assign_view_of_def split: prod.splits sum.splits)
  then show ?thesis using assign_paid [OF t Some] by (simp add: paid_as_def c' tid)
qed

section \<open>The handlers\<close>

lemma on_con_posted:
  assumes "approved_as p c" and "paid_as dec p tid c"
  shows "on_con dec (on_admin (updM (update_posting (mp_id p) (posted tid bal)))) c"
proof (rule con.stepwise_atomic)
  obtain q where q: "find_posting (mp_id p) (con_admin c) = Some q" "same_request p q" "approved q"
    using assms(1) by (auto simp: approved_as_def)
  obtain t where t: "t \<in> set (txns (con_pay c))" "t_id t = tid" "effect_of dec p t"
    using assms(2) by (auto simp: paid_as_def)
  have "effect_of dec q t" using q(2) t(3) by (simp add: effect_of_def same_request_def split: option.splits)
  then show "console_step dec c (snd (on_admin (updM (update_posting (mp_id p) (posted tid bal))) c))"
    using console_step.settles [OF q(1,3) t(1)] t(2) by (simp add: on_admin_def)
qed

lemma on_con_failed:
  assumes "approved_as p c"
  shows "on_con dec (on_admin (updM (update_posting (mp_id p) (failed m)))) c"
proof (rule con.stepwise_atomic)
  obtain q where q: "find_posting (mp_id p) (con_admin c) = Some q" "approved q"
    using assms by (auto simp: approved_as_def)
  show "console_step dec c (snd (on_admin (updM (update_posting (mp_id p) (failed m))) c))"
    using console_step.fails [OF q] by (simp add: on_admin_def)
qed

lemma on_con_settle:
  assumes "console_env_ok dec env" and "approved_as p c"
  shows "on_con dec (settle_posting env ctx p) c"
  unfolding settle_posting_def
proof (rule con.stepwise_bindM [OF on_con_apply_at_payment [OF assms]], goal_cases)
  case (1 v c1)
  obtain tid bal where v: "v = (tid, bal)" by (cases v)
  have p1: "approved_as p c1" and paid: "paid_as dec p tid c1"
    using approved_as_kept [OF assms(2) con_kept_steps [OF 1(2,3)]] apply_at_payment_paid [OF _ assms 1(3)] 1(1) v
    by auto
  have "on_con dec (on_admin (updM (update_posting (mp_id p) (posted tid bal)))) c2"
    if "(console_step dec)\<^sup>*\<^sup>* c1 c2" for c2
    using con_kept_steps [OF that 1(4)] p1 paid
    by (intro on_con_posted) (blast intro: approved_as_kept paid_as_kept)+
  then show ?case
    unfolding v load_posting_def view_posting_def prod.case
    by (intro con_rules on_con_meanwhile [OF assms(1)] on_con_audit) assumption+
qed

lemma on_con_unsettled:
  assumes "console_env_ok dec env" and "approved_as p c" and "console_ok dec c"
  shows "on_con dec (unsettled env ctx p e) c"
proof -
  have "on_con dec (on_admin (updM (update_posting (mp_id p) (failed m)))) c1"
    if "(console_step dec)\<^sup>*\<^sup>* c c1" for c1 m
    by (rule on_con_failed [OF approved_as_kept [OF assms(2) con_kept_steps [OF that assms(3)]]])
  then show ?thesis
    unfolding unsettled_def
    by (intro con_rules on_con_meanwhile [OF assms(1)] on_con_audit) assumption+
qed

end
