(* ===== verification/AdminPostingProps.thy ===== *)
theory AdminPostingProps
  imports AdminServed
begin

text \<open>
  The requests of the console about manual postings, \<open>served_console\<close>, and what holds of the money
  moved by hand after any interleaving of them with the payment service's own work.
\<close>

section \<open>Requests and decisions\<close>

lemma on_con_load [intro!, simp]: "on_con dec (load_posting i) c" "on_con dec (view_posting p) c"
  "on_con dec (customer_snapshot u) c" "on_con dec (depositForAssignment t) c"
  unfolding load_posting_def view_posting_def customer_snapshot_def depositForAssignment_def
  by (intro con_rules)+

lemma on_con_get [intro!, simp]: "on_con dec (get_posting i) c"
  unfolding get_posting_def by (intro con_rules on_con_load)

lemma load_posting_Inr [simp]:
  "load_posting i c = (Inr p, c') \<longleftrightarrow> find_posting i (con_admin c) = Some p \<and> c' = c"
  by (auto simp: load_posting_def bindM_def split: sum.splits prod.splits)

lemma on_con_insert:
  assumes "mp_status p = MP_PENDING" and "mp_decidedById p = None"
  shows "on_con dec (on_admin (insert_posting p)) c"
proof (rule con.stepwise_atomic)
  obtain r s where run: "insert_posting p (con_admin c) = (r, s)" by fastforce
  show "console_step dec c (snd (on_admin (insert_posting p) c))"
    using console_step.requests [OF assms run] by (simp add: on_admin_def run)
qed

lemma on_con_request:
  assumes "console_env_ok dec env"
  shows "on_con dec (request_posting env dto ctx) c"
proof -
  have move: "on_con dec (requested_move env dto w) x" for w x
    unfolding requested_move_def by (intro con_rules on_con_load)
  show ?thesis
    unfolding request_posting_def split_def
    by (intro con_rules on_con_load move on_con_meanwhile [OF assms] on_con_insert on_con_audit)
      (simp_all add: new_posting_def)
qed

text \<open>The row a handler has loaded is still that request at the claim.\<close>

lemma loaded_later:
  assumes "find_posting i (con_admin c) = Some p" and "(console_step dec)\<^sup>*\<^sup>* c c1" and "console_ok dec c"
  obtains q where "find_posting i (con_admin c1) = Some q" and "same_request p q"
  using con_kept_steps [OF assms(2,3)] assms(1) unfolding con_kept_def by blast

lemma on_con_claim:
  assumes "find_posting i (con_admin c) = Some q" and "may_decide st ctx q"
  shows "on_con dec (on_admin (claim_posting i st ctx nt now)) c"
proof (rule con.stepwise_atomic)
  obtain r s where run: "claim_posting i st ctx nt now (con_admin c) = (r, s)" by fastforce
  show "console_step dec c (snd (on_admin (claim_posting i st ctx nt now) c))"
    using console_step.decides [OF assms run] by (simp add: on_admin_def run)
qed

lemma claim_wins:
  assumes "on_admin (claim_posting i st ctx nt now) c = (Inr True, c')" and "console_ok dec c"
    and "find_posting i (con_admin c) = Some q"
  shows "find_posting i (con_admin c') = Some (decided st ctx nt now q)" and "mp_status q = MP_PENDING"
proof -
  let ?hit = "\<lambda>p. mp_id p = i \<and> mp_status p = MP_PENDING"
  have hits: "affected ?hit (postings (con_admin c)) = 1"
    and c': "postings (con_admin c') = update_where ?hit (decided st ctx nt now) (postings (con_admin c))"
    using assms(1) by (auto simp: on_admin_def claim_eq)
  have "affected ?hit (postings (con_admin c)) \<noteq> 0" using hits by simp
  then obtain x where x: "x \<in> set (postings (con_admin c))" "?hit x" unfolding affected_0_iff by blast
  then have "x = q" using find_posting_only [OF assms(2,3)] by blast
  then show pending: "mp_status q = MP_PENDING" using x by simp
  have "find_posting i (con_admin c') = map_option (\<lambda>r. if ?hit r then decided st ctx nt now r else r) (find_posting i (con_admin c))"
    unfolding find_posting_def c' by (rule find_row_update_any) (simp add: decided_def)
  then show "find_posting i (con_admin c') = Some (decided st ctx nt now q)"
    using assms(3) pending find_posting_id [OF assms(3)] by simp
qed

lemma on_con_decide:
  assumes "console_env_ok dec env" and "find_posting i (con_admin c) = Some p" and "may_decide st ctx p"
    and "(console_step dec)\<^sup>*\<^sup>* c c1" and "console_ok dec c"
  shows "on_con dec (on_admin (claim_posting i st ctx nt now)) c1"
proof -
  obtain q where q: "find_posting i (con_admin c1) = Some q" "same_request p q"
    by (rule loaded_later [OF assms(2,4,5)])
  have "may_decide st ctx q" using q(2) assms(3) by (auto simp: may_decide_def same_request_def split: if_splits)
  then show ?thesis by (rule on_con_claim [OF q(1)])
qed

lemma on_con_reject:
  assumes "console_env_ok dec env"
  shows "on_con dec (reject_posting env i nt ctx) c" "on_con dec (cancel_posting env i ctx) c"
proof -
  note pieces = on_con_load on_con_get on_con_meanwhile [OF assms] on_con_audit
  have claim: "on_con dec (on_admin (claim_posting i st ctx n now)) c1"
    if "find_posting i (con_admin c) = Some p" "may_decide st ctx p" "(console_step dec)\<^sup>*\<^sup>* c c1" "console_ok dec c"
    for p st n now c1 using on_con_decide [OF assms that] .
  show "on_con dec (reject_posting env i nt ctx) c"
    unfolding reject_posting_def
    by (intro con_rules pieces) (auto simp: may_decide_def dest: rtranclp_trans intro!: claim)
  show "on_con dec (cancel_posting env i ctx) c"
    unfolding cancel_posting_def
    by (intro con_rules pieces) (auto simp: may_decide_def dest: rtranclp_trans intro!: claim)
qed

text \<open>An approval: what it does with a posting it may work on, and how it gets hold of one.\<close>

lemma on_con_finish:
  assumes "console_env_ok dec env" and "approved_as p c"
  shows "on_con dec (bindM (meanwhile env 1) (\<lambda>_. catchM (settle_posting env ctx p) (unsettled env ctx p))) c"
proof (rule con.stepwise_bindM [OF on_con_meanwhile [OF assms(1)]], goal_cases)
  case (1 w c4)
  have p4: "approved_as p c4" by (rule approved_as_kept [OF assms(2) con_kept_steps [OF 1(2,3)]])
  show ?case
  proof (rule con.stepwise_catchM [OF on_con_settle [OF assms(1) p4]], goal_cases)
    case (1 e c5)
    then show ?case
      by (intro on_con_unsettled [OF assms(1)] approved_as_kept [OF p4] con_kept_steps [OF 1(2,3)])
  qed
qed

lemma claim_approves:
  assumes "on_admin (claim_posting i MP_PROCESSING ctx nt now) c = (Inr True, c')" and "console_ok dec c"
    and "find_posting i (con_admin c) = Some q" and "same_request p q" and "mp_id p = i"
    and "mp_requestedById p \<noteq> cx_staffId ctx"
  shows "approved_as p c'"
proof -
  let ?d = "decided MP_PROCESSING ctx nt now q"
  have "find_posting (mp_id p) (con_admin c') = Some ?d" using claim_wins(1) [OF assms(1-3)] assms(5) by simp
  moreover have "same_request p ?d" using assms(4) by (simp add: decided_def same_request_def)
  moreover have "approved ?d" using assms(4,6)
    by (simp add: decided_def same_request_def approved_def decided_by_other_def)
  ultimately show ?thesis by (auto simp: approved_as_def)
qed

lemma on_con_approve_loaded:
  assumes env: "console_env_ok dec env" and p: "find_posting i (con_admin c) = Some p"
    and other: "mp_requestedById p \<noteq> cx_staffId ctx"
    and s2: "(console_step dec)\<^sup>*\<^sup>* c c2" and ok: "console_ok dec c" and ok2: "console_ok dec c2"
  shows "on_con dec
    (bindM (if mp_status p = MP_PENDING then
              bindM (on_admin (claim_posting i MP_PROCESSING ctx nt now)) (\<lambda>ok. assertM ok e)
            else assertM (mp_status p = MP_PROCESSING \<and> mp_decidedById p = Some (cx_staffId ctx)) e2) (\<lambda>_.
     bindM (meanwhile env 1) (\<lambda>_. catchM (settle_posting env ctx p) (unsettled env ctx p)))) c2"
proof (cases "mp_status p = MP_PENDING")
  case True
  have id: "mp_id p = i" using find_posting_id [OF p] by simp
  have "on_con dec (on_admin (claim_posting i MP_PROCESSING ctx nt now)) c2"
    using other by (intro on_con_decide [OF env p _ s2 ok]) (simp add: may_decide_def)
  note claim = con.stepwise_bindM [OF this con.stepwise_pure(5)]
  obtain q where q: "find_posting i (con_admin c2) = Some q" "same_request p q"
    by (rule loaded_later [OF p s2 ok])
  show ?thesis
    unfolding if_P [OF True]
  proof (rule con.stepwise_bindM [OF claim], goal_cases)
    case (1 w c3)
    then have "on_admin (claim_posting i MP_PROCESSING ctx nt now) c2 = (Inr True, c3)" by (auto elim!: bindM_InrE)
    then show ?case by (intro on_con_finish [OF env] claim_approves [OF _ ok2 q id other])
  qed
next
  case False
  show ?thesis
    unfolding if_not_P [OF False]
  proof (rule con.stepwise_bindM [OF con.stepwise_pure(5)], goal_cases)
    case (1 w c3)
    then have "approved_as p c" and c3: "c3 = c2"
      using p find_posting_id [OF p] other by (auto simp: approved_as_def approved_def decided_by_other_def)
    then show ?case unfolding c3 by (intro on_con_finish [OF env] approved_as_kept [OF _ con_kept_steps [OF s2 ok]])
  qed
qed

lemma on_con_approve:
  assumes "console_env_ok dec env"
  shows "on_con dec (approve_posting env i nt ctx) c"
  unfolding approve_posting_def
proof (rule con.stepwise_bindM [OF on_con_load(1)], goal_cases)
  case (1 p c0)
  then have p: "find_posting i (con_admin c) = Some p" and c0: "c0 = c" by simp_all
  show ?case
    unfolding c0
  proof (rule con.stepwise_bindM [OF con.stepwise_pure(5)], goal_cases)
    case (1 u c1)
    then have other: "mp_requestedById p \<noteq> cx_staffId ctx" and c1: "c1 = c" by auto
    show ?case
      unfolding c1
      by (rule con.stepwise_bindM [OF on_con_meanwhile [OF assms]]) (rule on_con_approve_loaded [OF assms p other])
  qed
qed

section \<open>The console\<close>

text \<open>
  The requests about postings, each with any other steps in its gaps; and everything else the console,
  the auth service and the payment service do.
\<close>

inductive served_console :: "(string \<Rightarrow> money option) \<Rightarrow> console \<Rightarrow> console \<Rightarrow> bool" for dec where
  asks: "console_env_ok dec env \<Longrightarrow> served_console dec c (snd (request_posting env dto ctx c))"
| approves: "console_env_ok dec env \<Longrightarrow> served_console dec c (snd (approve_posting env i nt ctx c))"
| rejects: "console_env_ok dec env \<Longrightarrow> served_console dec c (snd (reject_posting env i n ctx c))"
| cancels: "console_env_ok dec env \<Longrightarrow> served_console dec c (snd (cancel_posting env i ctx c))"
| pays: "pay_step (con_pay c) s \<Longrightarrow> not_by_hand (con_pay c) s \<Longrightarrow> served_console dec c (c\<lparr>con_pay := s\<rparr>)"
| others: "postings s = postings (con_admin c) \<Longrightarrow> admin_next (con_admin c) \<le> admin_next s \<Longrightarrow>
    served_console dec c (c\<lparr>con_admin := s, con_auth := au\<rparr>)"

lemma served_console_steps: "served_console dec c c' \<Longrightarrow> console_ok dec c \<Longrightarrow> (console_step dec)\<^sup>*\<^sup>* c c'"
proof (induction rule: served_console.induct)
  case (asks env c dto ctx)
  then show ?case using on_con_request by (simp add: stepwise_def)
next
  case (approves env c i nt ctx)
  then show ?case using on_con_approve by (simp add: stepwise_def)
next
  case (rejects env c i n ctx)
  then show ?case using on_con_reject(1) by (simp add: stepwise_def)
next
  case (cancels env c i ctx)
  then show ?case using on_con_reject(2) by (simp add: stepwise_def)
qed (blast intro: console_step.payments console_step.other_tables)+

interpretation hand: step_system "served_console dec" "console_ok dec" for dec
  by unfold_locales (rule con.steps_keep [OF served_console_steps])

end
