(* ===== verification/AdminSamples.thy ===== *)
theory AdminSamples
  imports AdminEntities
begin

text \<open>The outside of the console in the sample runs: a hash that marks its input, one right code, one challenge.\<close>

definition staff_env :: "date \<Rightarrow> string \<Rightarrow> admin_env" where
  "staff_env now token =
    \<lparr>ad_now = now, ad_hash = (\<lambda>p. CHR ''h'' # p), ad_verifyHash = (\<lambda>h p. h = CHR ''h'' # p),
     ad_sha256 = (\<lambda>x. CHR ''s'' # x), ad_token = token, ad_family = 900, ad_password = ''tmp'',
     ad_refreshTtlDays = 1, ad_accessTtl = 900, ad_totpRequired = False, ad_deviceRequired = False,
     ad_totp = (\<lambda>secret c. if c = ''123456'' then Some 0 else None), ad_encrypt = (\<lambda>x. CHR ''e'' # x),
     ad_challenge = ''ch'',
     ad_registration = (\<lambda>ch r. if ch = ''ch'' then Some \<lparr>cr_id = r, cr_publicKey = ''pk'', cr_counter = 0, cr_transports = []\<rparr> else None),
     ad_assertion = (\<lambda>ch r d. if ch = ''ch'' \<and> ar_proof r = ''ok'' then Some (Suc (sd_counter d)) else None),
     ad_newSecret = ''secret'',
     ad_newCodes = [''aaaaabbbbb'', ''cccccddddd''], ad_auditOk = True, ad_alertsEnabled = True,
     ad_others = (\<lambda>n s. s)\<rparr>"

end
