(* ===== verification/AdminMoney.thy ===== *)
theory AdminMoney
  imports AdminPostingProps AdminSamples
begin

text \<open>
  Properties of manual postings, over the console and the payment service together: money moved by
  hand follows a decision, an unanswered approval can be retried, and when a retry goes wrong.
\<close>

section \<open>A sample console\<close>

definition new_console :: "auth_state \<Rightarrow> console" where
  "new_console au = \<lparr>con_admin = empty_admin, con_auth = au, con_pay = empty_pay\<rparr>"

definition sample_dec :: "string \<Rightarrow> money option" where
  "sample_dec s = (if s = ''500'' then Some 500 else if s = ''400'' then Some 400 else None)"

definition console_at :: "date \<Rightarrow> transport \<Rightarrow> console_env" where
  "console_at now net =
    \<lparr>ce_admin = staff_env now ''t'', ce_keyConfigured = True, ce_net = (\<lambda>n. net), ce_meanwhile = (\<lambda>n c. c),
     ce_payOthers = (\<lambda>s. s), ce_auth = AuthProps.sample_env now ''t'', ce_dec = sample_dec, ce_text = (\<lambda>a. ''500''),
     ce_stamp = JNull\<rparr>"

definition staff_member :: "uuid \<Rightarrow> staff_role \<Rightarrow> staff_ctx" where
  "staff_member i role = \<lparr>cx_staffId = i, cx_deviceId = None, cx_email = ''staff'', cx_role = role,
     cx_mustChangePassword = False, cx_twoFactorEnabled = True, cx_ip = None\<rparr>"

lemma console_at_ok: "console_env_ok sample_dec (console_at now net)"
  by (simp add: console_env_ok_def console_at_def decimals_ok_def sample_dec_def con_steps_def)

section \<open>Money moved by hand follows a decision\<close>

lemma empty_console_ok: "console_ok dec (new_console au)"
  by (simp add: console_ok_def new_console_def empty_admin_def ledger_ok_empty)

lemma hand_ok: "(served_console dec)\<^sup>*\<^sup>* (new_console au) c \<Longrightarrow> console_ok dec c"
  using hand.steps_keep empty_console_ok by blast

text \<open>
  C6: From an empty database, after any interleaving of the console's requests with the payment service's
  own work: every adjustment in the books is a posting somebody asked for, of that wallet, type and
  amount, under that posting's reference, that a different member of staff approved; no posting has two
  of them; and a posting shown as POSTED has its transaction in the books, on its wallet.
\<close>

theorem postings_follow_decisions:
  assumes "(served_console dec)\<^sup>*\<^sup>* (new_console au) c"
  shows "(\<forall>t \<in> set (txns (con_pay c)). t_kind t = ADJUSTMENT \<longrightarrow>
      (\<exists>p \<in> set (postings (con_admin c)). \<exists>d a.
        t_reference t = posting_reference (mp_id p) \<and> t_walletId t = Some (mp_walletId p) \<and>
        t_type t = mp_type p \<and> dec (mp_amount p) = Some a \<and> t_amount t = to_fixed 4 a \<and>
        mp_decidedById p = Some d \<and> d \<noteq> mp_requestedById p \<and>
        mp_status p \<in> {MP_PROCESSING, MP_POSTED, MP_FAILED})) \<and>
    (\<forall>t \<in> set (txns (con_pay c)). \<forall>u \<in> set (txns (con_pay c)).
      t_kind t = ADJUSTMENT \<and> t_kind u = ADJUSTMENT \<and> t_reference t = t_reference u \<longrightarrow> t = u) \<and>
    (\<forall>p \<in> set (postings (con_admin c)). mp_status p = MP_POSTED \<longrightarrow>
      (\<exists>t \<in> set (txns (con_pay c)). mp_transactionId p = Some (t_id t) \<and> t_walletId t = Some (mp_walletId p)))"
proof (intro conjI ballI impI)
  note ok = hand_ok [OF assms]
  have asked: "\<exists>p \<in> set (postings (con_admin c)). mp_sourceTransactionId p = None \<and> approved p \<and> effect_of dec p t"
    if "t \<in> set (txns (con_pay c))" "t_kind t = ADJUSTMENT" for t
    using ok that by (simp add: console_ok_def by_hand_def asked_for_def)
  fix t assume t: "t \<in> set (txns (con_pay c))" "t_kind t = ADJUSTMENT"
  then obtain p where "p \<in> set (postings (con_admin c))" "mp_sourceTransactionId p = None" "approved p" "effect_of dec p t"
    using asked by blast
  then show "\<exists>p \<in> set (postings (con_admin c)). \<exists>d a.
        t_reference t = posting_reference (mp_id p) \<and> t_walletId t = Some (mp_walletId p) \<and>
        t_type t = mp_type p \<and> dec (mp_amount p) = Some a \<and> t_amount t = to_fixed 4 a \<and>
        mp_decidedById p = Some d \<and> d \<noteq> mp_requestedById p \<and>
        mp_status p \<in> {MP_PROCESSING, MP_POSTED, MP_FAILED}"
    by (auto simp: effect_of_def approved_def decided_by_other_def intro!: bexI [of _ p])
next
  note ok = hand_ok [OF assms]
  fix t u assume tu: "t \<in> set (txns (con_pay c))" "u \<in> set (txns (con_pay c))"
    "t_kind t = ADJUSTMENT \<and> t_kind u = ADJUSTMENT \<and> t_reference t = t_reference u"
  then have "t_provider t = MANUAL" "t_provider u = MANUAL"
    using ok by (auto simp: console_ok_def by_hand_def asked_for_def effect_of_def split: option.splits)
  then have "ref_key t = ref_key u" using tu(3) by (simp add: ref_key_def)
  moreover have "distinct (map ref_key (txns (con_pay c)))" using ok by (simp add: console_ok_def ledger_ok_def rows_ok_def)
  ultimately show "t = u" using tu(1,2) by (metis distinct_map inj_onD)
next
  note ok = hand_ok [OF assms]
  fix p assume p: "p \<in> set (postings (con_admin c))" "mp_status p = MP_POSTED"
  then obtain t where "t \<in> set (txns (con_pay c))" "mp_transactionId p = Some (t_id t)" "effect_of dec p t"
    using ok by (fastforce simp: console_ok_def posting_ok_def)
  then show "\<exists>t \<in> set (txns (con_pay c)). mp_transactionId p = Some (t_id t) \<and> t_walletId t = Some (mp_walletId p)"
    by (auto simp: effect_of_def split: option.splits)
qed

text \<open>A customer with a wallet; 500 is asked for by one member of staff and approved by another.\<close>

definition with_wallet :: console where
  "with_wallet = (new_console activated)\<lparr>con_pay := snd (insert_wallet 10 NGN empty_pay)\<rparr>"

definition sample_request :: "transaction_type \<Rightarrow> string \<Rightarrow> create_posting_dto" where
  "sample_request ty amount = \<lparr>cp_customerId = 10, cp_type = ty, cp_amount = amount, cp_sourceTransactionId = None,
     cp_reason = ''correction'', cp_narration = None\<rparr>"

definition asked_console :: console where
  "asked_console = snd (request_posting (console_at 10 Answered) (sample_request CREDIT ''500'') (staff_member 1 FINANCE) with_wallet)"

definition posted_console :: console where
  "posted_console = snd (approve_posting (console_at 20 Answered) 50 None (staff_member 2 COMPLIANCE) asked_console)"

lemma asked_console_reached: "(served_console sample_dec)\<^sup>*\<^sup>* (new_console activated) asked_console"
proof -
  have "pay_step empty_pay (snd (insert_wallet 10 NGN empty_pay))"
    by (rule pay_step.new_wallet [OF surjective_pairing])
  moreover have "txns (snd (insert_wallet 10 NGN empty_pay)) = []"
    by (simp add: insert_wallet_def findByUserAndCurrency_def Let_def)
  ultimately have "served_console sample_dec (new_console activated) with_wallet"
    unfolding with_wallet_def by (intro served_console.pays) (simp_all add: new_console_def not_by_hand_def)
  moreover have "served_console sample_dec with_wallet asked_console"
    unfolding asked_console_def by (rule served_console.asks [OF console_at_ok])
  ultimately show ?thesis by (meson converse_rtranclp_into_rtranclp rtranclp.rtrancl_refl)
qed

lemma posted_console_reached: "(served_console sample_dec)\<^sup>*\<^sup>* (new_console activated) posted_console"
  unfolding posted_console_def
  by (rule rtranclp.rtrancl_into_rtrancl [OF asked_console_reached served_console.approves [OF console_at_ok]])

theorem postings_follow_decisions_witness:
  "map t_kind (txns (con_pay posted_console)) = [ADJUSTMENT] \<and>
    map w_balance (wallets (con_pay posted_console)) = [500] \<and>
    map (\<lambda>p. (mp_status p, mp_requestedById p, mp_decidedById p)) (postings (con_admin posted_console)) =
      [(MP_POSTED, 1, Some 2)] \<and>
    (\<exists>t \<in> set (txns (con_pay posted_console)).
      mp_transactionId (hd (postings (con_admin posted_console))) = Some (t_id t) \<and> t_walletId t = Some 10)"
proof -
  have one: "map mp_status (postings (con_admin posted_console)) = [MP_POSTED]"
    "map mp_walletId (postings (con_admin posted_console)) = [10]" by code_simp+
  then obtain p where p: "postings (con_admin posted_console) = [p]" "mp_status p = MP_POSTED" "mp_walletId p = 10"
    by (auto simp: map_eq_Cons_conv)
  have "\<exists>t \<in> set (txns (con_pay posted_console)). mp_transactionId p = Some (t_id t) \<and> t_walletId t = Some (mp_walletId p)"
    using postings_follow_decisions [OF posted_console_reached, THEN conjunct2, THEN conjunct2] p by simp
  moreover have "map t_kind (txns (con_pay posted_console)) = [ADJUSTMENT]"
    "map w_balance (wallets (con_pay posted_console)) = [500]"
    "map (\<lambda>p. (mp_status p, mp_requestedById p, mp_decidedById p)) (postings (con_admin posted_console)) =
      [(MP_POSTED, 1, Some 2)]" by code_simp+
  ultimately show ?thesis using p by simp
qed

section \<open>An approval that got no answer\<close>

lemma update_posting_find:
  assumes "find_posting i s = Some p" and "\<And>x. mp_id (f x) = mp_id x"
  shows "find_posting i (update_posting i f s) = Some (f p)"
  using assms by (simp add: find_posting_def update_posting_def find_row_update_where_key)

lemma unused_reference:
  assumes "console_ok dec c" and "find_posting i (con_admin c) = Some p" and "\<not> approved p"
  shows "findExisting (posting_reference (mp_id p)) (con_pay c) = None"
proof (rule ccontr)
  assume "findExisting (posting_reference (mp_id p)) (con_pay c) \<noteq> None"
  then obtain t where t: "t \<in> set (txns (con_pay c))" "t_provider t = MANUAL" "t_reference t = posting_reference (mp_id p)"
    by (auto simp: findExisting_def same_reference_def dest!: find_row_SomeD)
  then obtain q where q: "q \<in> set (postings (con_admin c))" "mp_sourceTransactionId q = None" "approved q" "effect_of dec q t"
    using assms(1) by (auto simp: console_ok_def asked_for_def by_hand_def)
  then have "mp_id q = i" using t(3) find_posting_id [OF assms(2)] by (simp add: effect_of_def)
  then show False using find_posting_only [OF assms(1,2) q(1)] q(3) assms(3) by simp
qed

lemma claim_pending:
  assumes "console_ok dec c" and "find_posting i (con_admin c) = Some p" and "mp_status p = MP_PENDING"
  shows "claim_posting i st ctx nt now (con_admin c) =
    (Inr True, update_posting i (decided st ctx nt now) (con_admin c))"
proof -
  have only: "(mp_id x = i \<and> mp_status x = MP_PENDING) = (mp_id x = i)" if "x \<in> set (postings (con_admin c))" for x
    using find_posting_only [OF assms(1,2) that] assms(3) by blast
  have "update_where (\<lambda>p. mp_id p = i \<and> mp_status p = MP_PENDING) (decided st ctx nt now) (postings (con_admin c)) =
      update_where (by_key mp_id i) (decided st ctx nt now) (postings (con_admin c))"
    unfolding update_where_def using only by (intro map_cong) auto
  moreover have "affected (\<lambda>p. mp_id p = i \<and> mp_status p = MP_PENDING) (postings (con_admin c)) = 1"
  proof -
    have "filter (\<lambda>p. mp_id p = i \<and> mp_status p = MP_PENDING) ps = [p]"
      if "distinct (map mp_id ps)" "find_row (by_key mp_id i) ps = Some p" for ps
      using that assms(3)
    proof (induction ps)
      case (Cons x ps)
      then show ?case
      proof (cases "mp_id x = i")
        case True
        then have "\<forall>y \<in> set ps. mp_id y \<noteq> i" using Cons.prems(1) by (auto simp: rev_image_eqI)
        then show ?thesis using True Cons.prems by (simp add: filter_empty_conv)
      qed simp
    qed simp
    then show ?thesis using assms(1,2) by (simp add: affected_def console_ok_def find_posting_def)
  qed
  ultimately show ?thesis by (simp add: claim_eq update_posting_def)
qed

text \<open>No other request runs in between, the key is configured and the audit log can be written.\<close>

definition undisturbed :: "console_env \<Rightarrow> bool" where
  "undisturbed env \<longleftrightarrow> ce_keyConfigured env \<and> ad_auditOk (ce_admin env) \<and>
    (\<forall>n c. ce_meanwhile env n c = c) \<and> (\<forall>s. ce_payOthers env s = s)"

lemma undisturbed_simps:
  assumes "undisturbed env"
  shows "meanwhile env n = retM ()" "ce_payOthers env = (\<lambda>s. s)" "ce_keyConfigured env"
  using assms by (auto simp: undisturbed_def meanwhile_def fun_eq_iff)

abbreviation payment_of :: "console_env \<Rightarrow> staff_ctx \<Rightarrow> posting \<Rightarrow> posting_view pay" where
  "payment_of env ctx p \<equiv>
    post_adjustment (ce_dec env) (ce_payOthers env) (posting_dto_of p ctx) (ad_now (ce_admin env))"

lemma approve_lost:
  assumes "console_ok dec c" and "find_posting i (con_admin c) = Some p" and "mp_status p = MP_PENDING"
    and "mp_requestedById p \<noteq> cx_staffId ctx" and "mp_sourceTransactionId p = None" and "undisturbed env"
    and "ce_net env 0 = NotReached \<or> ce_net env 0 = AnswerLost"
  shows "approve_posting env i nt ctx c = (Inl unconfirmed,
    c\<lparr>con_admin := update_posting i (decided MP_PROCESSING ctx nt (ad_now (ce_admin env))) (con_admin c),
      con_pay := (if ce_net env 0 = AnswerLost then snd (payment_of env ctx p (con_pay c)) else con_pay c)\<rparr>)"
proof -
  have call: "\<exists>m. settle_posting env ctx p x = (Inl (ServiceUnavailable m),
      x\<lparr>con_pay := (if ce_net env 0 = AnswerLost then snd (payment_of env ctx p (con_pay x)) else con_pay x)\<rparr>)" for x
    using assms(5,7) undisturbed_simps(3) [OF assms(6)]
    by (auto simp: settle_posting_def apply_at_payment_def call_payment_def internal_call_def bindM_def
        catchM_def on_pay_def split: prod.split sum.split)
  have "unsettled env ctx p (ServiceUnavailable m) x = (Inl unconfirmed, x)" for m x
    by (simp add: unsettled_def refusal_def status_of_def)
  then have "catchM (settle_posting env ctx p) (unsettled env ctx p) x = (Inl unconfirmed,
      x\<lparr>con_pay := (if ce_net env 0 = AnswerLost then snd (payment_of env ctx p (con_pay x)) else con_pay x)\<rparr>)" for x
    using call [of x] by (auto simp: catchM_def)
  then show ?thesis
    using assms(1-4) claim_pending [OF assms(1-3)] undisturbed_simps [OF assms(6)]
    by (simp add: approve_posting_def load_posting_def bindM_def on_admin_def)
qed

lemma approve_again:
  assumes q: "find_posting i (con_admin c) = Some q" and "mp_status q = MP_PROCESSING"
    and "mp_decidedById q = Some (cx_staffId ctx)" and "mp_requestedById q \<noteq> cx_staffId ctx"
    and "mp_sourceTransactionId q = None" and "undisturbed env" and "ce_net env 0 = Answered"
    and pay: "payment_of env ctx q (con_pay c) = (Inr v, s)"
  shows "\<exists>w c2. approve_posting env i nt ctx c = (Inr w, c2) \<and>
    mv_posting w = posted (pv_transactionId v) (pv_balanceAfter v) q \<and> con_pay c2 = s"
proof -
  let ?p = "posted (pv_transactionId v) (pv_balanceAfter v)"
  have id: "mp_id q = i" using find_posting_id [OF q] by simp
  let ?c1 = "c\<lparr>con_pay := s, con_admin := update_posting i ?p (con_admin c)\<rparr>"
  have call: "apply_at_payment env ctx q c = (Inr (pv_transactionId v, pv_balanceAfter v), c\<lparr>con_pay := s\<rparr>)"
    using assms(5,7) undisturbed_simps(3) [OF assms(6)] pay
    by (simp add: apply_at_payment_def call_payment_def internal_call_def rethrown_def bindM_def catchM_def on_pay_def)
  have found: "find_posting i (con_admin ?c1) = Some (?p q)"
    using q by (simp add: update_posting_find posted_def)
  obtain c2 where audit: "console_audit env ctx ''posting.approved'' ''posting'' i ?c1 = (Inr (), c2)"
    and c2: "con_pay c2 = s"
    using assms(6) by (simp add: console_audit_def on_admin_def audit_record_def undisturbed_def bindM_def)
  have "settle_posting env ctx q c = view_posting (?p q) c2"
    using call found audit undisturbed_simps [OF assms(6)] id
    by (simp add: settle_posting_def bindM_def load_posting_def on_admin_def posted_def)
  then have "approve_posting env i nt ctx c = (Inr \<lparr>mv_posting = ?p q, mv_customer = contacts (mp_customerId q) c2\<rparr>, c2)"
    using q assms(2-4) undisturbed_simps [OF assms(6)]
    by (simp add: approve_posting_def load_posting_def bindM_def catchM_def view_posting_def posted_def)
  then show ?thesis using c2 by simp
qed

lemma fresh_posting_applies:
  assumes "ledger_ok s" and "findExisting (pg_reference dto) s = None" and "dec (pg_amount dto) = Some a"
    and "0 < a" and "fits 4 a" and "find_wallet (pg_walletId dto) s = Some w"
    and "pg_type dto = DEBIT \<longrightarrow> a \<le> w_balance w"
  shows "\<exists>v s' t. post_adjustment dec (\<lambda>x. x) dto now s = (Inr v, s') \<and> findExisting (pg_reference dto) s' = Some t \<and>
    wallet_balance s' (pg_walletId dto) =
      Some (if pg_type dto = CREDIT then w_balance w + a else w_balance w - a)"
proof -
  have pa: "parseAmount dec (pg_amount dto) = Inr a" using assms(3) by (simp add: parseAmount_def)
  have bal: "posting_balance dto a w = (if pg_type dto = CREDIT then w_balance w + a else w_balance w - a)"
    using ledger_okD(3) [OF assms(1,6)] assms(5) unfolding posting_balance_def by (auto intro!: to_fixed_fits)
  obtain v s' where run: "post_adjustment dec (\<lambda>x. x) dto now s = (Inr v, s')" and new: "\<not> pv_replayed v"
    using assms(2,6,7) by (auto simp: post_adjustment_eq [OF pa assms(4,2)] apply_posting_eq Let_def posting_view_of_def)
  show ?thesis
    by (rule post_adjustment_known [OF run]) (use run new assms(3,6) bal in auto)
qed


definition asked_posting :: posting where
  "asked_posting = hd (postings (con_admin asked_console))"

lemma asked_posting_is:
  "find_posting 50 (con_admin asked_console) = Some asked_posting" "mp_status asked_posting = MP_PENDING"
  "mp_requestedById asked_posting = 1" "mp_sourceTransactionId asked_posting = None"
  "mp_amount asked_posting = ''500''" "mp_walletId asked_posting = 10" "mp_type asked_posting = CREDIT"
  "find_wallet 10 (con_pay asked_console) = Some \<lparr>w_id = 10, w_userId = 10, w_currency = NGN, w_balance = 0\<rparr>"
  by code_simp+


section \<open>A retry while the first attempt is in flight\<close>

text \<open>The debit of the first attempt commits after the retry has looked for it, and leaves too little for a second one.\<close>

lemma overtaken_debit:
  assumes "ledger_ok s" and "findExisting (pg_reference dto) s = None" and "dec (pg_amount dto) = Some a"
    and "0 < a" and "fits 4 a" and "find_wallet (pg_walletId dto) s = Some w" and "pg_type dto = DEBIT"
    and "a \<le> w_balance w" and "w_balance w < 2 * a"
  shows "post_adjustment dec (\<lambda>x. snd (post_adjustment dec (\<lambda>x. x) dto first x)) dto now s =
      (Inl (BadRequest ''Insufficient balance''), snd (post_adjustment dec (\<lambda>x. x) dto first s))" (is ?refused)
    and "wallet_balance (snd (post_adjustment dec (\<lambda>x. x) dto first s)) (pg_walletId dto) = Some (w_balance w - a)"
    and "findExisting (pg_reference dto) (snd (post_adjustment dec (\<lambda>x. x) dto first s)) \<noteq> None"
proof -
  let ?s1 = "snd (post_adjustment dec (\<lambda>x. x) dto first s)"
  have pa: "parseAmount dec (pg_amount dto) = Inr a" using assms(3) by (simp add: parseAmount_def)
  show bal: "wallet_balance ?s1 (pg_walletId dto) = Some (w_balance w - a)"
    and "findExisting (pg_reference dto) ?s1 \<noteq> None"
    using fresh_posting_applies [where dec = dec and a = a and w = w and dto = dto and now = first, OF assms(1-6)] assms(7,8) by auto
  obtain v where v: "find_wallet (pg_walletId dto) ?s1 = Some v" "w_balance v = w_balance w - a"
    using bal by (auto simp: wallet_balance_def)
  then have "w_balance v < a" using assms(9) by simp
  then have "apply_posting dto a now ?s1 = (Inl (BadRequest ''Insufficient balance''), ?s1)"
    using v(1) assms(7) by (simp add: apply_posting_eq)
  then show ?refused by (simp add: post_adjustment_eq [OF pa assms(4,2)] Let_def)
qed

text \<open>
  C39: When the approver sends the approval of a debit again while the first attempt is still in flight, and
  the first attempt's debit commits between the retry's look-up and its own debit, the retry is answered
  "insufficient balance": the posting is marked FAILED, as money that must be asked for again, although
  the wallet has been debited for it.
\<close>

theorem retry_in_flight_fails_an_applied_debit:
  assumes "console_ok dec c" and p: "find_posting i (con_admin c) = Some p" "mp_status p = MP_PROCESSING"
    "mp_decidedById p = Some (cx_staffId ctx)" "mp_requestedById p \<noteq> cx_staffId ctx" "mp_sourceTransactionId p = None"
    "mp_type p = DEBIT"
    and "findExisting (posting_reference (mp_id p)) (con_pay c) = None"
    and a: "dec (mp_amount p) = Some a" "0 < a" "fits 4 a"
    and w: "find_wallet (mp_walletId p) (con_pay c) = Some w" "a \<le> w_balance w" "w_balance w < 2 * a"
    and env: "ce_keyConfigured env" "ad_auditOk (ce_admin env)" "\<And>n x. ce_meanwhile env n x = x" "ce_dec env = dec"
      "ce_net env 0 = Answered"
      "ce_payOthers env = (\<lambda>x. snd (post_adjustment dec (\<lambda>x. x) (posting_dto_of p ctx) first x))"
  shows "\<exists>c' q. approve_posting env i nt ctx c = (Inl (BadRequest ''Could not post: Insufficient balance''), c') \<and>
    find_posting i (con_admin c') = Some q \<and> mp_status q = MP_FAILED \<and>
    wallet_balance (con_pay c') (mp_walletId p) = Some (w_balance w - a) \<and>
    findExisting (posting_reference i) (con_pay c') \<noteq> None"
proof -
  let ?dto = "posting_dto_of p ctx"
  have fields: "pg_walletId ?dto = mp_walletId p" "pg_type ?dto = mp_type p" "pg_amount ?dto = mp_amount p"
    "pg_reference ?dto = posting_reference (mp_id p)" by (simp_all add: posting_dto_of_def)
  have id: "mp_id p = i" using find_posting_id [OF p(1)] by simp
  have led: "ledger_ok (con_pay c)" using assms(1) by (simp add: console_ok_def)
  note race = overtaken_debit [where dto = ?dto and dec = dec, unfolded fields, OF led assms(8) a w(1) p(6) w(2,3)]
  let ?s1 = "snd (post_adjustment dec (\<lambda>x. x) ?dto first (con_pay c))"
  let ?c1 = "c\<lparr>con_pay := ?s1\<rparr>"
  have quiet: "meanwhile env n = retM ()" for n using env(3) by (simp add: meanwhile_def fun_eq_iff)
  have settle: "settle_posting env ctx p c = (Inl (BadRequest ''Insufficient balance''), ?c1)"
    using race(1) p(5) env(1,4,5,6)
    by (simp add: settle_posting_def apply_at_payment_def call_payment_def internal_call_def rethrown_def bindM_def
        catchM_def on_pay_def http_answer_def status_of_def)
  let ?c2 = "?c1\<lparr>con_admin := update_posting i (failed ''Insufficient balance'') (con_admin c)\<rparr>"
  obtain c' where audit: "console_audit env ctx ''posting.failed'' ''posting'' i ?c2 = (Inr (), c')"
    and c': "con_pay c' = ?s1" "postings (con_admin c') = postings (con_admin ?c2)"
    using env(2) by (simp add: console_audit_def on_admin_def audit_record_def bindM_def alerts_notify_def
        split: option.split)
  have "unsettled env ctx p (BadRequest ''Insufficient balance'') ?c1 =
      (Inl (BadRequest ''Could not post: Insufficient balance''), c')"
    using audit id by (simp add: unsettled_def refusal_def status_of_def message_of_def quiet bindM_def on_admin_def)
  then have "approve_posting env i nt ctx c = (Inl (BadRequest ''Could not post: Insufficient balance''), c')"
    using p settle quiet by (simp add: approve_posting_def load_posting_def bindM_def catchM_def)
  moreover have "find_posting i (con_admin c') = Some (failed ''Insufficient balance'' p)"
    using update_posting_find [OF p(1), of "failed ''Insufficient balance''"] c'(2)
    by (simp add: failed_def find_posting_def)
  ultimately show ?thesis using race(2,3) c'(1) id by (simp add: failed_def)
qed

definition debit_asked :: console where
  "debit_asked = snd (request_posting (console_at 30 Answered) (sample_request DEBIT ''400'') (staff_member 1 FINANCE) posted_console)"

definition in_flight :: console where
  "in_flight = snd (approve_posting (console_at 40 NotReached) 51 None (staff_member 2 COMPLIANCE) debit_asked)"

lemma in_flight_ok: "console_ok sample_dec in_flight"
proof -
  have 1: "served_console sample_dec posted_console debit_asked"
    unfolding debit_asked_def by (rule served_console.asks [OF console_at_ok])
  have 2: "served_console sample_dec debit_asked in_flight"
    unfolding in_flight_def by (rule served_console.approves [OF console_at_ok])
  show ?thesis
    by (rule hand_ok [OF rtranclp.rtrancl_into_rtrancl
          [OF rtranclp.rtrancl_into_rtrancl [OF posted_console_reached 1] 2]])
qed

definition debit_posting :: posting where
  "debit_posting = hd (tl (postings (con_admin in_flight)))"

lemma debit_posting_is:
  "find_posting 51 (con_admin in_flight) = Some debit_posting" "mp_status debit_posting = MP_PROCESSING"
  "mp_decidedById debit_posting = Some 2" "mp_requestedById debit_posting = 1"
  "mp_sourceTransactionId debit_posting = None" "mp_type debit_posting = DEBIT" "mp_amount debit_posting = ''400''"
  "mp_id debit_posting = 51" "mp_walletId debit_posting = 10"
  "findExisting (posting_reference 51) (con_pay in_flight) = None"
  "find_wallet 10 (con_pay in_flight) = Some \<lparr>w_id = 10, w_userId = 10, w_currency = NGN, w_balance = 500\<rparr>"
  by code_simp+

definition racing_env :: console_env where
  "racing_env = (console_at 50 Answered)\<lparr>ce_payOthers := (\<lambda>x. snd (post_adjustment sample_dec (\<lambda>x. x)
     (posting_dto_of debit_posting (staff_member 2 COMPLIANCE)) 45 x))\<rparr>"

theorem retry_in_flight_fails_an_applied_debit_witness:
  "\<exists>c' q. approve_posting racing_env 51 None (staff_member 2 COMPLIANCE) in_flight =
      (Inl (BadRequest ''Could not post: Insufficient balance''), c') \<and>
    find_posting 51 (con_admin c') = Some q \<and> mp_status q = MP_FAILED \<and>
    wallet_balance (con_pay c') 10 = Some 100 \<and> findExisting (posting_reference 51) (con_pay c') \<noteq> None"
  using retry_in_flight_fails_an_applied_debit [OF in_flight_ok debit_posting_is(1,2) _ _ debit_posting_is(5,6),
      of "staff_member 2 COMPLIANCE" 400 "\<lparr>w_id = 10, w_userId = 10, w_currency = NGN, w_balance = 500\<rparr>"
        racing_env 45 None]
  by (simp add: debit_posting_is racing_env_def console_at_def staff_env_def staff_member_def sample_dec_def)

end
