(* ===== verification/AdminDevices.thy ===== *)
theory AdminDevices
  imports AdminEntities
begin

text \<open>
  What the staff sign-in rests on: the tables of staff, their devices and refresh tokens
  (\<open>staff/entities\<close>, \<open>auth/entities\<close>), authenticator and recovery codes (\<open>auth/totp.service.ts\<close>), and
  the registered devices (\<open>auth/devices.service.ts\<close>).  A signed token is its claims, or None for a text
  that was not signed with the secret of its kind.
\<close>

section \<open>Rows\<close>

abbreviation others_at :: "admin_env \<Rightarrow> nat \<Rightarrow> unit admin" where
  "others_at env n \<equiv> updM (ad_others env n)"

definition find_staff :: "uuid \<Rightarrow> admin_state \<Rightarrow> staff_user option" where
  "find_staff i s = find_row (by_key su_id i) (staff s)"

definition update_staff :: "uuid \<Rightarrow> (staff_user \<Rightarrow> staff_user) \<Rightarrow> admin_state \<Rightarrow> admin_state" where
  "update_staff i f s = s\<lparr>staff := update_where (by_key su_id i) f (staff s)\<rparr>"

text \<open>\<open>findOneByOrFail\<close>: the library's error is answered 500.\<close>

definition staff_or_fail :: "uuid \<Rightarrow> staff_user admin" where
  "staff_or_fail i = bindM (getM (find_staff i)) (\<lambda>u. someM u (PlainError ''EntityNotFoundError''))"

definition find_staff_token :: "string \<Rightarrow> admin_state \<Rightarrow> staff_refresh_token option" where
  "find_staff_token h s = find_row (\<lambda>t. sr_tokenHash t = h) (staffTokens s)"

definition revoke_staff_tokens :: "(staff_refresh_token \<Rightarrow> bool) \<Rightarrow> date \<Rightarrow> admin_state \<Rightarrow> admin_state" where
  "revoke_staff_tokens P now s =
    s\<lparr>staffTokens := update_where (\<lambda>t. P t \<and> sr_revokedAt t = None) (\<lambda>t. t\<lparr>sr_revokedAt := Some now\<rparr>) (staffTokens s)\<rparr>"

definition staff_audit ::
  "admin_env \<Rightarrow> staff_user \<Rightarrow> string \<Rightarrow> uuid option \<Rightarrow> string option \<Rightarrow> unit admin" where
  "staff_audit env u action resource ip =
    audit_recordSafe env
      \<lparr>au_staffId = Some (su_id u), au_staffEmail = Some (su_email u), au_action = action,
       au_resourceType = None, au_resourceId = resource, au_ip = ip\<rparr>"

text \<open>An entry written in the name of the member of staff who acts on an account.\<close>

definition actor_audit ::
  "staff_ctx \<Rightarrow> string \<Rightarrow> string option \<Rightarrow> uuid \<Rightarrow> string option \<Rightarrow> audit_entry" where
  "actor_audit ctx action kind i ip =
    \<lparr>au_staffId = Some (cx_staffId ctx), au_staffEmail = Some (cx_email ctx), au_action = action,
     au_resourceType = kind, au_resourceId = Some i, au_ip = ip\<rparr>"

section \<open>Authenticator and recovery codes\<close>

definition PERIOD :: int where "PERIOD = 30"

definition RECOVERY_CODE_COUNT :: nat where "RECOVERY_CODE_COUNT = 10"

definition six_digits :: "string \<Rightarrow> bool" where
  "six_digits s \<longleftrightarrow> length s = 6 \<and> list_all is_digit s"

text \<open>The time step a code belongs to.\<close>

definition totp_verify :: "admin_env \<Rightarrow> string \<Rightarrow> string \<Rightarrow> int option" where
  "totp_verify env secret c =
    (if \<not> six_digits c then None
     else map_option (\<lambda>delta. ad_now env div (1000 * PERIOD) + delta) (ad_totp env secret c))"

definition hashRecovery :: "admin_env \<Rightarrow> string \<Rightarrow> string" where
  "hashRecovery env c = ad_sha256 env (to_lower (filter (\<lambda>x. \<not> js_space x \<and> x \<noteq> CHR ''-'') c))"

text \<open>\<open>ad_newCodes\<close> are the random letters, ten to a code.\<close>

definition newRecoveryCodes :: "admin_env \<Rightarrow> string list \<times> string list" where
  "newRecoveryCodes env =
    (let codes = map (\<lambda>raw. take 5 raw @ ''-'' @ drop 5 raw) (take RECOVERY_CODE_COUNT (ad_newCodes env))
     in (codes, map (hashRecovery env) codes))"

section \<open>Challenges\<close>

definition MAX_DEVICES_PER_STAFF :: nat where "MAX_DEVICES_PER_STAFF = 3"

definition CHALLENGE_SECONDS :: int where "CHALLENGE_SECONDS = 5 * 60"

datatype challenge_kind = CH_REG | CH_AUTH

record challenge_claims =
  ch_sub :: uuid
  ch_kind :: challenge_kind
  ch_challenge :: string
  ch_exp :: int

text \<open>A token is valid until the second of its \<open>exp\<close>.\<close>

definition in_time :: "admin_env \<Rightarrow> int \<Rightarrow> bool" where
  "in_time env t \<longleftrightarrow> ad_now env div 1000 < t"

definition signChallenge :: "admin_env \<Rightarrow> uuid \<Rightarrow> challenge_kind \<Rightarrow> challenge_claims" where
  "signChallenge env i k =
    \<lparr>ch_sub = i, ch_kind = k, ch_challenge = ad_challenge env, ch_exp = ad_now env div 1000 + CHALLENGE_SECONDS\<rparr>"

definition readChallenge ::
  "admin_env \<Rightarrow> challenge_claims option \<Rightarrow> uuid \<Rightarrow> challenge_kind \<Rightarrow> http_error + string" where
  "readChallenge env tok i k =
    (case tok of
       Some c \<Rightarrow>
         if in_time env (ch_exp c) \<and> ch_sub c = i \<and> ch_kind c = k then Inr (ch_challenge c)
         else Inl (Unauthorized ''Device check expired, please try again'')
     | None \<Rightarrow> Inl (Unauthorized ''Device check expired, please try again''))"

section \<open>Devices\<close>

definition live_device :: "uuid \<Rightarrow> staff_device \<Rightarrow> bool" where
  "live_device i d \<longleftrightarrow> sd_staffId d = i \<and> sd_status d \<noteq> DEV_REVOKED"

definition devices_list :: "uuid \<Rightarrow> admin_state \<Rightarrow> staff_device list" where
  "devices_list i s = filter (live_device i) (staffDevices s)"

record device_state =
  ds_hasActive :: bool
  ds_hasPending :: bool
  ds_canRegister :: bool

definition devices_state :: "uuid \<Rightarrow> admin_state \<Rightarrow> device_state" where
  "devices_state i s =
    (let rows = devices_list i s
     in \<lparr>ds_hasActive = list_ex (\<lambda>d. sd_status d = DEV_ACTIVE) rows,
         ds_hasPending = list_ex (\<lambda>d. sd_status d = DEV_PENDING) rows,
         ds_canRegister = length rows < MAX_DEVICES_PER_STAFF\<rparr>)"

definition devices_isActive :: "uuid \<Rightarrow> uuid \<Rightarrow> admin_state \<Rightarrow> bool" where
  "devices_isActive d i s =
    list_ex (\<lambda>x. sd_id x = d \<and> sd_staffId x = i \<and> sd_status x = DEV_ACTIVE) (staffDevices s)"

definition limitError :: http_error where
  "limitError = Conflict ''You can register at most 3 devices. Remove one first.''"

text \<open>The credentials the browser must not register again, and the signed challenge.\<close>

definition registrationOptions :: "admin_env \<Rightarrow> staff_user \<Rightarrow> (string list \<times> challenge_claims) admin" where
  "registrationOptions env u =
    bindM (getM (devices_list (su_id u))) (\<lambda>existing.
    bindM (assertM (length existing < MAX_DEVICES_PER_STAFF) limitError) (\<lambda>_.
    retM (map sd_credentialId existing, signChallenge env (su_id u) CH_REG)))"

definition device_label :: "string \<Rightarrow> string" where
  "device_label s = (let l = take 60 (js_trim s) in if l = [] then ''Unnamed device'' else l)"

definition new_device :: "admin_env \<Rightarrow> uuid \<Rightarrow> credential \<Rightarrow> string \<Rightarrow> device_status \<Rightarrow> uuid \<Rightarrow> staff_device" where
  "new_device env i cred lbl st did =
    \<lparr>sd_id = did, sd_staffId = i, sd_label = device_label lbl, sd_credentialId = cr_id cred,
     sd_publicKey = cr_publicKey cred, sd_counter = cr_counter cred, sd_transports = cr_transports cred,
     sd_status = st, sd_approvedBy = (if st = DEV_ACTIVE then Some i else None),
     sd_approvedAt = (if st = DEV_ACTIVE then Some (ad_now env) else None),
     sd_lastUsedAt = None, sd_createdAt = ad_now env\<rparr>"

text \<open>The transaction under the lock of the staff row.\<close>

definition save_device ::
  "admin_env \<Rightarrow> uuid \<Rightarrow> credential \<Rightarrow> string \<Rightarrow> device_status \<Rightarrow> staff_device admin" where
  "save_device env i cred lbl st =
    txM (bindM (staff_or_fail i) (\<lambda>_.
         bindM (getM (devices_list i)) (\<lambda>rows.
         bindM (assertM (length rows < MAX_DEVICES_PER_STAFF) limitError) (\<lambda>_.
         bindM (getM (\<lambda>s. list_ex (\<lambda>d. sd_credentialId d = cr_id cred) (staffDevices s))) (\<lambda>known.
         bindM (assertM (\<not> known) (Conflict ''This device is already registered'')) (\<lambda>_.
         bindM (getM admin_next) (\<lambda>n.
         bindM (updM (\<lambda>s. s\<lparr>staffDevices := insert_row (new_device env i cred lbl st n) (staffDevices s),
                            admin_next := Suc n\<rparr>)) (\<lambda>_.
         retM (new_device env i cred lbl st n)))))))))"

definition register_device ::
  "admin_env \<Rightarrow> staff_user \<Rightarrow> challenge_claims option \<Rightarrow> string \<Rightarrow> string \<Rightarrow> device_status \<Rightarrow> string option \<Rightarrow>
    (uuid \<times> device_status) admin" where
  "register_device env u tok response lbl st ip =
    bindM (liftM (readChallenge env tok (su_id u) CH_REG)) (\<lambda>expected.
    bindM (someM (ad_registration env expected response) (BadRequest ''Could not verify this device'')) (\<lambda>cred.
    bindM (others_at env 10) (\<lambda>_.
    bindM (save_device env (su_id u) cred lbl st) (\<lambda>d.
    bindM (staff_audit env u (if st = DEV_ACTIVE then ''auth.device_added'' else ''auth.device_requested'')
             (Some (sd_id d)) ip) (\<lambda>_.
    retM (sd_id d, sd_status d))))))"

definition active_devices :: "uuid \<Rightarrow> admin_state \<Rightarrow> staff_device list" where
  "active_devices i s = filter (\<lambda>d. sd_staffId d = i \<and> sd_status d = DEV_ACTIVE) (staffDevices s)"

definition authenticationOptions :: "admin_env \<Rightarrow> uuid \<Rightarrow> (string list \<times> challenge_claims) admin" where
  "authenticationOptions env i =
    bindM (getM (active_devices i)) (\<lambda>active.
    bindM (assertM (active \<noteq> []) (BadRequest ''No approved device on this account'')) (\<lambda>_.
    retM (map sd_credentialId active, signChallenge env i CH_AUTH)))"

definition not_approved :: http_error where
  "not_approved = Unauthorized ''This device is not approved''"

definition update_device :: "uuid \<Rightarrow> (staff_device \<Rightarrow> staff_device) \<Rightarrow> admin_state \<Rightarrow> admin_state" where
  "update_device d f s = s\<lparr>staffDevices := update_where (by_key sd_id d) f (staffDevices s)\<rparr>"

definition authenticate_device ::
  "admin_env \<Rightarrow> uuid \<Rightarrow> challenge_claims option \<Rightarrow> assertion_response \<Rightarrow> staff_device admin" where
  "authenticate_device env i tok response =
    bindM (liftM (readChallenge env tok i CH_AUTH)) (\<lambda>expected.
    bindM (getM (\<lambda>s. find_row (\<lambda>d. sd_credentialId d = ar_id response) (active_devices i s))) (\<lambda>found.
    bindM (someM found not_approved) (\<lambda>d.
    bindM (someM (ad_assertion env expected response d) not_approved) (\<lambda>counter.
    bindM (others_at env 11) (\<lambda>_.
    bindM (updM (update_device (sd_id d)
             (\<lambda>x. x\<lparr>sd_counter := counter, sd_lastUsedAt := Some (ad_now env)\<rparr>))) (\<lambda>_.
    retM d))))))"

section \<open>Managing devices\<close>

definition change_device ::
  "(staff_device \<Rightarrow> bool) \<Rightarrow> (staff_device \<Rightarrow> staff_device) \<Rightarrow> bool admin" where
  "change_device P f s =
    (Inr (0 < affected P (staffDevices s)), s\<lparr>staffDevices := update_where P f (staffDevices s)\<rparr>)"

definition approve_device :: "admin_env \<Rightarrow> uuid \<Rightarrow> uuid \<Rightarrow> staff_ctx \<Rightarrow> string option \<Rightarrow> unit admin" where
  "approve_device env i did ctx ip =
    bindM (change_device (\<lambda>d. sd_id d = did \<and> sd_staffId d = i \<and> sd_status d = DEV_PENDING)
             (\<lambda>d. d\<lparr>sd_status := DEV_ACTIVE, sd_approvedBy := Some (cx_staffId ctx),
                   sd_approvedAt := Some (ad_now env)\<rparr>)) (\<lambda>hit.
    bindM (assertM hit (NotFound ''No pending device found'')) (\<lambda>_.
    audit_recordSafe env (actor_audit ctx ''auth.device_approved'' None did ip)))"

definition revoke_device :: "admin_env \<Rightarrow> uuid \<Rightarrow> uuid \<Rightarrow> staff_ctx \<Rightarrow> string option \<Rightarrow> unit admin" where
  "revoke_device env i did ctx ip =
    bindM (change_device (\<lambda>d. sd_id d = did \<and> sd_staffId d = i \<and> sd_status d \<in> {DEV_ACTIVE, DEV_PENDING})
             (\<lambda>d. d\<lparr>sd_status := DEV_REVOKED\<rparr>)) (\<lambda>hit.
    bindM (assertM hit (NotFound ''Device not found'')) (\<lambda>_.
    bindM (others_at env 12) (\<lambda>_.
    bindM (updM (revoke_staff_tokens (\<lambda>t. sr_deviceId t = Some did) (ad_now env))) (\<lambda>_.
    audit_recordSafe env (actor_audit ctx ''auth.device_revoked'' None did ip)))))"

end
