(* ===== verification/AdminAuth.thy ===== *)
theory AdminAuth
  imports AdminDevices
begin

text \<open>
  The staff sign-in (\<open>auth/auth.service.ts\<close>) and the check of an access token (\<open>auth/jwt.strategy.ts\<close>):
  attempts, password, second factor, device, sessions.  What other requests commit in a gap of a
  handler is \<open>ad_others\<close> with the number of the gap.
\<close>

section \<open>Attempt limiting\<close>

definition STAFF_MAX_FAILED_ATTEMPTS :: nat where "STAFF_MAX_FAILED_ATTEMPTS = 5"

definition LOCK_MINUTES :: int where "LOCK_MINUTES = 15"

text \<open>The reserving UPDATE on one row: None when the row is locked, else the new counter and lock.\<close>

definition staff_reserve :: "date \<Rightarrow> nat \<times> date option \<Rightarrow> (nat \<times> date option) option" where
  "staff_reserve now g =
    (let expired = (snd g \<noteq> None \<and> the (snd g) \<le> now);
         next = (if expired then 1 else fst g + 1)
     in if snd g = None \<or> expired
        then Some (next, if STAFF_MAX_FAILED_ATTEMPTS \<le> next then Some (now + LOCK_MINUTES * 60000) else None)
        else None)"

definition set_attempts :: "nat \<times> date option \<Rightarrow> staff_user \<Rightarrow> staff_user" where
  "set_attempts g u = u\<lparr>su_failedLoginAttempts := fst g, su_lockedUntil := snd g\<rparr>"

definition lockedError :: http_error where
  "lockedError = TooManyRequests
    ''Account temporarily locked after repeated failed sign-ins. Try again later.''"

text \<open>Whether this attempt has just locked the account.\<close>

definition reserveAttempt :: "date \<Rightarrow> uuid \<Rightarrow> bool admin" where
  "reserveAttempt now i s =
    (case find_staff i s of
       None \<Rightarrow> (Inl lockedError, s)
     | Some u \<Rightarrow>
        (case staff_reserve now (su_failedLoginAttempts u, su_lockedUntil u) of
           None \<Rightarrow> (Inl lockedError, s)
         | Some g \<Rightarrow> (Inr (snd g \<noteq> None), update_staff i (set_attempts g) s)))"

definition resetAttempts :: "uuid \<Rightarrow> unit admin" where
  "resetAttempts i = updM (update_staff i (set_attempts (0, None)))"

section \<open>Sessions\<close>

record staff_access =
  ac_sub :: uuid
  ac_did :: "uuid option"
  ac_exp :: int

record staff_session =
  ssn_access :: staff_access
  ssn_refreshToken :: string
  ssn_staff :: staff_user

text \<open>The answer shows id, name, e-mail, role, and whether password and second factor are set of \<open>ssn_staff\<close>.\<close>

definition new_staff_token ::
  "admin_env \<Rightarrow> uuid \<Rightarrow> uuid \<Rightarrow> uuid option \<Rightarrow> uuid \<Rightarrow> staff_refresh_token" where
  "new_staff_token env i family did rid =
    \<lparr>sr_id = rid, sr_staffId = i, sr_tokenHash = ad_sha256 env (ad_token env), sr_familyId = family,
     sr_deviceId = did, sr_expiresAt = ad_now env + ad_refreshTtlDays env * 86400000, sr_revokedAt = None\<rparr>"

definition insert_staff_token :: "staff_refresh_token \<Rightarrow> unit admin" where
  "insert_staff_token t s =
    (if list_ex (\<lambda>x. sr_tokenHash x = sr_tokenHash t) (staffTokens s) then (Inl UniqueViolation, s)
     else (Inr (), s\<lparr>staffTokens := insert_row (t\<lparr>sr_id := admin_next s\<rparr>) (staffTokens s),
                     admin_next := Suc (admin_next s)\<rparr>))"

definition issueStaffTokens :: "admin_env \<Rightarrow> staff_user \<Rightarrow> uuid \<Rightarrow> uuid option \<Rightarrow> staff_session admin" where
  "issueStaffTokens env u family did =
    bindM (insert_staff_token (new_staff_token env (su_id u) family did 0)) (\<lambda>_.
    retM \<lparr>ssn_access = \<lparr>ac_sub = su_id u, ac_did = did, ac_exp = ad_now env div 1000 + ad_accessTtl env\<rparr>,
          ssn_refreshToken = ad_token env, ssn_staff = u\<rparr>)"

definition revokeStaffFamily :: "admin_env \<Rightarrow> uuid \<Rightarrow> unit admin" where
  "revokeStaffFamily env family = updM (revoke_staff_tokens (\<lambda>t. sr_familyId t = family) (ad_now env))"

section \<open>The steps of a sign-in\<close>

datatype mfa_step = MFA_VERIFY | MFA_ENROLL | MFA_DEVICE

record mfa_claims =
  mt_sub :: uuid
  mt_step :: mfa_step
  mt_exp :: int

definition MFA_TOKEN_SECONDS :: int where "MFA_TOKEN_SECONDS = 5 * 60"

definition signMfaToken :: "admin_env \<Rightarrow> uuid \<Rightarrow> mfa_step \<Rightarrow> mfa_claims" where
  "signMfaToken env i st = \<lparr>mt_sub = i, mt_step = st, mt_exp = ad_now env div 1000 + MFA_TOKEN_SECONDS\<rparr>"

definition start_again :: http_error where
  "start_again = Unauthorized ''Sign-in expired - please start again''"

definition active_staff :: "staff_user \<Rightarrow> bool" where
  "active_staff u \<longleftrightarrow> su_status u = STAFF_ACTIVE"

definition readMfaToken :: "admin_env \<Rightarrow> mfa_claims option \<Rightarrow> mfa_step \<Rightarrow> staff_user admin" where
  "readMfaToken env tok expected =
    bindM (someM tok start_again) (\<lambda>c.
    bindM (assertM (in_time env (mt_exp c) \<and> mt_step c = expected) start_again) (\<lambda>_.
    bindM (getM (find_staff (mt_sub c))) (\<lambda>found.
    bindM (someM found start_again) (\<lambda>u.
    bindM (assertM (active_staff u) start_again) (\<lambda>_.
    retM u)))))"

datatype sign_in_answer =
    SignedIn staff_session
  | NextStep mfa_step mfa_claims "device_state option"

definition requiredMfaStep :: "admin_env \<Rightarrow> staff_user \<Rightarrow> mfa_step option" where
  "requiredMfaStep env u =
    (if su_totpEnabledAt u \<noteq> None then Some MFA_VERIFY
     else if ad_totpRequired env then Some MFA_ENROLL else None)"

definition finishLogin :: "admin_env \<Rightarrow> staff_user \<Rightarrow> string option \<Rightarrow> uuid option \<Rightarrow> sign_in_answer admin" where
  "finishLogin env u ip did =
    bindM (updM (update_staff (su_id u)
             (\<lambda>x. (set_attempts (0, None) x)\<lparr>su_lastLoginAt := Some (ad_now env)\<rparr>))) (\<lambda>_.
    bindM (staff_audit env u ''auth.login'' None ip) (\<lambda>_.
    bindM (others_at env 5) (\<lambda>_.
    bindM (issueStaffTokens env u (ad_family env) did) (\<lambda>ses.
    retM (SignedIn ses)))))"

definition completeLogin :: "admin_env \<Rightarrow> staff_user \<Rightarrow> string option \<Rightarrow> sign_in_answer admin" where
  "completeLogin env u ip =
    (if ad_deviceRequired env then
       bindM (getM (devices_state (su_id u))) (\<lambda>d.
       retM (NextStep MFA_DEVICE (signMfaToken env (su_id u) MFA_DEVICE) (Some d)))
     else finishLogin env u ip None)"

definition find_staff_by_email :: "string \<Rightarrow> admin_state \<Rightarrow> staff_user option" where
  "find_staff_by_email e s = find_row (\<lambda>u. su_email u = to_lower (js_trim e)) (staff s)"

definition invalid_login :: http_error where
  "invalid_login = Unauthorized ''Invalid email or password''"

definition refused_login :: "admin_env \<Rightarrow> string \<Rightarrow> string option \<Rightarrow> 'a admin" where
  "refused_login env e ip =
    bindM (audit_recordSafe env
      \<lparr>au_staffId = None, au_staffEmail = Some e, au_action = ''auth.login_failed'',
       au_resourceType = None, au_resourceId = None, au_ip = ip\<rparr>) (\<lambda>_.
    failM invalid_login)"

definition attempt_action :: "bool \<Rightarrow> string \<Rightarrow> string" where
  "attempt_action justLocked action = (if justLocked then ''auth.account_locked'' else action)"

definition check_password :: "admin_env \<Rightarrow> staff_user \<Rightarrow> string \<Rightarrow> string option \<Rightarrow> unit admin" where
  "check_password env u password ip =
    bindM (reserveAttempt (ad_now env) (su_id u)) (\<lambda>justLocked.
    bindM (others_at env 0) (\<lambda>_.
    if ad_verifyHash env (su_passwordHash u) password then retM ()
    else bindM (staff_audit env u (attempt_action justLocked ''auth.login_failed'') None ip) (\<lambda>_.
         failM invalid_login)))"

definition staff_login :: "admin_env \<Rightarrow> string \<Rightarrow> string \<Rightarrow> string option \<Rightarrow> sign_in_answer admin" where
  "staff_login env e password ip =
    bindM (getM (find_staff_by_email e)) (\<lambda>found.
    case found of
      None \<Rightarrow> refused_login env e ip
    | Some u \<Rightarrow>
       if \<not> active_staff u then refused_login env e ip
       else
         bindM (check_password env u password ip) (\<lambda>_.
         case requiredMfaStep env u of
           Some st \<Rightarrow> retM (NextStep st (signMfaToken env (su_id u) st) None)
         | None \<Rightarrow> completeLogin env u ip))"

section \<open>The second factor\<close>

datatype factor_method = BY_TOTP | BY_RECOVERY

text \<open>The two atomic updates that spend a code: a later time step only, a stored hash only.\<close>

definition claim_step :: "uuid \<Rightarrow> int \<Rightarrow> bool admin" where
  "claim_step i n s =
    (let hit = (\<lambda>u. su_id u = i \<and> (case su_totpLastStep u of None \<Rightarrow> True | Some m \<Rightarrow> m < n))
     in (Inr (0 < affected hit (staff s)),
         s\<lparr>staff := update_where hit (\<lambda>u. u\<lparr>su_totpLastStep := Some n\<rparr>) (staff s)\<rparr>))"

definition spend_recovery :: "uuid \<Rightarrow> string \<Rightarrow> bool admin" where
  "spend_recovery i h s =
    (let hit = (\<lambda>u. su_id u = i \<and> h \<in> set (su_recoveryCodeHashes u))
     in (Inr (0 < affected hit (staff s)),
         s\<lparr>staff := update_where hit (\<lambda>u. u\<lparr>su_recoveryCodeHashes := filter (\<lambda>x. x \<noteq> h) (su_recoveryCodeHashes u)\<rparr>)
                      (staff s)\<rparr>))"

definition checkSecondFactor :: "admin_env \<Rightarrow> staff_user \<Rightarrow> string \<Rightarrow> factor_method option admin" where
  "checkSecondFactor env u rawCode =
    (let c = js_trim rawCode in
     if six_digits c then
       (case su_totpSecretEnc u of
          None \<Rightarrow> failM (PlainError ''decrypt'')
        | Some secret \<Rightarrow>
           (case totp_verify env secret c of
              None \<Rightarrow> retM None
            | Some n \<Rightarrow> bindM (claim_step (su_id u) n) (\<lambda>ok. retM (if ok then Some BY_TOTP else None))))
     else bindM (spend_recovery (su_id u) (hashRecovery env c)) (\<lambda>ok.
          retM (if ok then Some BY_RECOVERY else None)))"

definition enrolled :: "staff_user \<Rightarrow> bool" where
  "enrolled u \<longleftrightarrow> su_totpEnabledAt u \<noteq> None \<and> su_totpSecretEnc u \<noteq> None"

definition verifyMfa :: "admin_env \<Rightarrow> mfa_claims option \<Rightarrow> string \<Rightarrow> string option \<Rightarrow> sign_in_answer admin" where
  "verifyMfa env tok c ip =
    bindM (readMfaToken env tok MFA_VERIFY) (\<lambda>u.
    bindM (assertM (enrolled u) start_again) (\<lambda>_.
    bindM (reserveAttempt (ad_now env) (su_id u)) (\<lambda>justLocked.
    bindM (others_at env 1) (\<lambda>_.
    bindM (checkSecondFactor env u c) (\<lambda>how.
    case how of
      None \<Rightarrow> bindM (staff_audit env u (attempt_action justLocked ''auth.mfa_failed'') None ip) (\<lambda>_.
              failM (Unauthorized ''Invalid code''))
    | Some m \<Rightarrow> completeLogin env u ip)))))"

text \<open>The secret and the stored, enciphered one.\<close>

definition startEnrollment :: "admin_env \<Rightarrow> uuid \<Rightarrow> string admin" where
  "startEnrollment env i =
    bindM (staff_or_fail i) (\<lambda>u.
    bindM (assertM (su_totpEnabledAt u = None) (Conflict ''Two-factor authentication is already on'')) (\<lambda>_.
    bindM (others_at env 2) (\<lambda>_.
    bindM (updM (update_staff (su_id u)
             (\<lambda>x. x\<lparr>su_totpSecretEnc := Some (ad_encrypt env (ad_newSecret env)), su_totpLastStep := None\<rparr>))) (\<lambda>_.
    retM (ad_newSecret env)))))"

definition startEnrollmentWithToken :: "admin_env \<Rightarrow> mfa_claims option \<Rightarrow> string admin" where
  "startEnrollmentWithToken env tok =
    bindM (readMfaToken env tok MFA_ENROLL) (\<lambda>u. startEnrollment env (su_id u))"

definition confirmEnrollment :: "admin_env \<Rightarrow> uuid \<Rightarrow> string \<Rightarrow> string option \<Rightarrow> string list admin" where
  "confirmEnrollment env i c ip =
    bindM (staff_or_fail i) (\<lambda>u.
    bindM (assertM (su_totpEnabledAt u = None) (BadRequest ''Start two-factor setup first'')) (\<lambda>_.
    bindM (someM (su_totpSecretEnc u) (BadRequest ''Start two-factor setup first'')) (\<lambda>secret.
    bindM (reserveAttempt (ad_now env) (su_id u)) (\<lambda>_.
    bindM (someM (totp_verify env secret c) (Unauthorized ''Invalid code'')) (\<lambda>n.
    bindM (others_at env 3) (\<lambda>_.
    bindM (resetAttempts (su_id u)) (\<lambda>_.
    (let (codes, hashes) = newRecoveryCodes env in
     bindM (updM (update_staff (su_id u)
              (\<lambda>x. x\<lparr>su_totpEnabledAt := Some (ad_now env), su_totpLastStep := Some n,
                    su_recoveryCodeHashes := hashes\<rparr>))) (\<lambda>_.
     bindM (staff_audit env u ''auth.mfa_enrolled'' None ip) (\<lambda>_.
     retM codes))))))))))"

definition confirmEnrollmentWithToken ::
  "admin_env \<Rightarrow> mfa_claims option \<Rightarrow> string \<Rightarrow> string option \<Rightarrow> (sign_in_answer \<times> string list) admin" where
  "confirmEnrollmentWithToken env tok c ip =
    bindM (readMfaToken env tok MFA_ENROLL) (\<lambda>u.
    bindM (confirmEnrollment env (su_id u) c ip) (\<lambda>codes.
    bindM (others_at env 4) (\<lambda>_.
    bindM (staff_or_fail (su_id u)) (\<lambda>fresh_row.
    bindM (completeLogin env fresh_row ip) (\<lambda>ses.
    retM (ses, codes))))))"

definition clear_factor :: "staff_user \<Rightarrow> staff_user" where
  "clear_factor u =
    u\<lparr>su_totpSecretEnc := None, su_totpEnabledAt := None, su_totpLastStep := None, su_recoveryCodeHashes := []\<rparr>"

definition clearTwoFactor :: "uuid \<Rightarrow> unit admin" where
  "clearTwoFactor i = updM (update_staff i clear_factor)"

definition disableTwoFactor :: "admin_env \<Rightarrow> uuid \<Rightarrow> string \<Rightarrow> string \<Rightarrow> string option \<Rightarrow> unit admin" where
  "disableTwoFactor env i password c ip =
    bindM (assertM (\<not> ad_totpRequired env)
             (Forbidden ''Two-factor authentication is required for all staff'')) (\<lambda>_.
    bindM (staff_or_fail i) (\<lambda>u.
    bindM (assertM (enrolled u) (BadRequest ''Two-factor authentication is not on'')) (\<lambda>_.
    bindM (reserveAttempt (ad_now env) (su_id u)) (\<lambda>_.
    bindM (others_at env 6) (\<lambda>_.
    bindM (assertM (ad_verifyHash env (su_passwordHash u) password)
             (Unauthorized ''Password or code is incorrect'')) (\<lambda>_.
    bindM (checkSecondFactor env u c) (\<lambda>how.
    bindM (assertM (how \<noteq> None) (Unauthorized ''Password or code is incorrect'')) (\<lambda>_.
    bindM (resetAttempts (su_id u)) (\<lambda>_.
    bindM (clearTwoFactor (su_id u)) (\<lambda>_.
    staff_audit env u ''auth.mfa_disabled'' None ip))))))))))"

definition regenerateRecoveryCodes :: "admin_env \<Rightarrow> uuid \<Rightarrow> string \<Rightarrow> string option \<Rightarrow> string list admin" where
  "regenerateRecoveryCodes env i c ip =
    bindM (staff_or_fail i) (\<lambda>u.
    bindM (assertM (enrolled u) (BadRequest ''Two-factor authentication is not on'')) (\<lambda>_.
    bindM (reserveAttempt (ad_now env) (su_id u)) (\<lambda>_.
    bindM (checkSecondFactor env u c) (\<lambda>how.
    bindM (assertM (how = Some BY_TOTP) (Unauthorized ''Invalid code'')) (\<lambda>_.
    bindM (others_at env 7) (\<lambda>_.
    bindM (resetAttempts (su_id u)) (\<lambda>_.
    (let (codes, hashes) = newRecoveryCodes env in
     bindM (updM (update_staff (su_id u) (\<lambda>x. x\<lparr>su_recoveryCodeHashes := hashes\<rparr>))) (\<lambda>_.
     bindM (staff_audit env u ''auth.mfa_recovery_codes_regenerated'' None ip) (\<lambda>_.
     retM codes))))))))))"

section \<open>Devices\<close>

definition addDeviceOptions :: "admin_env \<Rightarrow> uuid \<Rightarrow> (string list \<times> challenge_claims) admin" where
  "addDeviceOptions env i = bindM (staff_or_fail i) (registrationOptions env)"

definition addDevice ::
  "admin_env \<Rightarrow> uuid \<Rightarrow> challenge_claims option \<Rightarrow> string \<Rightarrow> string \<Rightarrow> string option \<Rightarrow> (uuid \<times> device_status) admin" where
  "addDevice env i tok response lbl ip =
    bindM (staff_or_fail i) (\<lambda>u. register_device env u tok response lbl DEV_ACTIVE ip)"

definition deviceOptions ::
  "admin_env \<Rightarrow> mfa_claims option \<Rightarrow> bool \<Rightarrow> (string list \<times> challenge_claims) admin" where
  "deviceOptions env tok assert_mode =
    bindM (readMfaToken env tok MFA_DEVICE) (\<lambda>u.
    if assert_mode then authenticationOptions env (su_id u) else registrationOptions env u)"

definition deviceAssert ::
  "admin_env \<Rightarrow> mfa_claims option \<Rightarrow> challenge_claims option \<Rightarrow> assertion_response \<Rightarrow> string option \<Rightarrow>
    sign_in_answer admin" where
  "deviceAssert env tok ch response ip =
    bindM (readMfaToken env tok MFA_DEVICE) (\<lambda>u.
    bindM (authenticate_device env (su_id u) ch response) (\<lambda>d.
    finishLogin env u ip (Some (sd_id d))))"

definition deviceRegister ::
  "admin_env \<Rightarrow> mfa_claims option \<Rightarrow> challenge_claims option \<Rightarrow> string \<Rightarrow> string \<Rightarrow> string option \<Rightarrow>
    (uuid \<times> device_status) admin" where
  "deviceRegister env tok ch response lbl ip =
    bindM (readMfaToken env tok MFA_DEVICE) (\<lambda>u. register_device env u ch response lbl DEV_PENDING ip)"

section \<open>Refresh, sign-out, password\<close>

definition staff_refresh :: "admin_env \<Rightarrow> string \<Rightarrow> staff_session admin" where
  "staff_refresh env raw =
    bindM (getM (find_staff_token (ad_sha256 env raw))) (\<lambda>found.
    bindM (someM found (Unauthorized '''')) (\<lambda>t.
    if sr_revokedAt t \<noteq> None then bindM (revokeStaffFamily env (sr_familyId t)) (\<lambda>_. failM (Unauthorized ''''))
    else
      bindM (assertM (ad_now env \<le> sr_expiresAt t) (Unauthorized '''')) (\<lambda>_.
      bindM (getM (find_staff (sr_staffId t))) (\<lambda>owner.
      bindM (someM owner (Unauthorized '''')) (\<lambda>u.
      bindM (assertM (active_staff u) (Unauthorized '''')) (\<lambda>_.
      bindM (others_at env 8) (\<lambda>_.
      bindM (updM (\<lambda>s. s\<lparr>staffTokens :=
               update_where (by_key sr_id (sr_id t)) (\<lambda>x. x\<lparr>sr_revokedAt := Some (ad_now env)\<rparr>) (staffTokens s)\<rparr>)) (\<lambda>_.
      bindM (getM (\<lambda>s. \<not> ad_deviceRequired env \<or>
               (case sr_deviceId t of None \<Rightarrow> False | Some d \<Rightarrow> devices_isActive d (su_id u) s))) (\<lambda>fit.
      bindM (assertM fit (Unauthorized '''')) (\<lambda>_.
      issueStaffTokens env u (sr_familyId t) (sr_deviceId t)))))))))))"

definition staff_logout :: "admin_env \<Rightarrow> string \<Rightarrow> unit admin" where
  "staff_logout env raw =
    bindM (getM (find_staff_token (ad_sha256 env raw))) (\<lambda>found.
    case found of None \<Rightarrow> retM () | Some t \<Rightarrow> revokeStaffFamily env (sr_familyId t))"

definition staff_changePassword ::
  "admin_env \<Rightarrow> uuid \<Rightarrow> string \<Rightarrow> string \<Rightarrow> string option \<Rightarrow> uuid option \<Rightarrow> staff_session admin" where
  "staff_changePassword env i current new ip did =
    bindM (staff_or_fail i) (\<lambda>u.
    bindM (assertM (ad_verifyHash env (su_passwordHash u) current)
             (Unauthorized ''Current password is incorrect'')) (\<lambda>_.
    bindM (assertM (current \<noteq> new) (BadRequest ''New password must differ from the current one'')) (\<lambda>_.
    bindM (others_at env 9) (\<lambda>_.
    bindM (updM (update_staff (su_id u)
             (\<lambda>x. x\<lparr>su_passwordHash := ad_hash env new, su_mustChangePassword := False\<rparr>))) (\<lambda>_.
    bindM (updM (revoke_staff_tokens (\<lambda>t. sr_staffId t = su_id u) (ad_now env))) (\<lambda>_.
    bindM (staff_audit env u ''auth.password_changed'' None ip) (\<lambda>_.
    issueStaffTokens env (u\<lparr>su_mustChangePassword := False\<rparr>) (ad_family env) did)))))))"

section \<open>The access token of a request\<close>

definition validateStaff :: "admin_env \<Rightarrow> string option \<Rightarrow> staff_access option \<Rightarrow> staff_ctx admin" where
  "validateStaff env ip tok =
    bindM (someM tok (Unauthorized '''')) (\<lambda>c.
    bindM (assertM (in_time env (ac_exp c)) (Unauthorized '''')) (\<lambda>_.
    bindM (getM (find_staff (ac_sub c))) (\<lambda>found.
    bindM (someM found (Unauthorized '''')) (\<lambda>u.
    bindM (assertM (active_staff u) (Unauthorized '''')) (\<lambda>_.
    bindM (getM (\<lambda>s. \<not> ad_deviceRequired env \<or>
             (case ac_did c of None \<Rightarrow> False | Some d \<Rightarrow> devices_isActive d (su_id u) s))) (\<lambda>fit.
    bindM (assertM fit (Unauthorized '''')) (\<lambda>_.
    retM \<lparr>cx_staffId = su_id u, cx_deviceId = ac_did c, cx_email = su_email u, cx_role = su_role u,
          cx_mustChangePassword = su_mustChangePassword u, cx_twoFactorEnabled = su_totpEnabledAt u \<noteq> None,
          cx_ip = ip\<rparr>)))))))"

end
