(* ===== verification/AdminStaff.thy ===== *)
theory AdminStaff
  imports AdminAuth
begin

text \<open>
  Managing the staff (\<open>staff/staff.service.ts\<close>), for super admins.  \<open>save\<close> of a loaded entity writes
  every column it was loaded with, and inserts the row when it is gone.
\<close>

record staff_detail =
  sf_staff :: staff_user
  sf_isLocked :: bool
  sf_activeSessions :: nat

definition staff_view :: "admin_env \<Rightarrow> staff_user \<Rightarrow> nat \<Rightarrow> staff_detail" where
  "staff_view env u n =
    \<lparr>sf_staff = u, sf_isLocked = (case su_lockedUntil u of None \<Rightarrow> False | Some t \<Rightarrow> ad_now env < t),
     sf_activeSessions = n\<rparr>"

definition live_staff_token :: "admin_env \<Rightarrow> uuid \<Rightarrow> staff_refresh_token \<Rightarrow> bool" where
  "live_staff_token env i t \<longleftrightarrow> sr_staffId t = i \<and> sr_revokedAt t = None \<and> ad_now env < sr_expiresAt t"

definition staff_or_404 :: "uuid \<Rightarrow> staff_user admin" where
  "staff_or_404 i = bindM (getM (find_staff i)) (\<lambda>u. someM u (NotFound ''Not Found''))"

definition get_staff :: "admin_env \<Rightarrow> uuid \<Rightarrow> staff_detail admin" where
  "get_staff env i =
    bindM (staff_or_404 i) (\<lambda>u.
    bindM (getM (\<lambda>s. affected (live_staff_token env i) (staffTokens s))) (\<lambda>n.
    retM (staff_view env u n)))"

definition list_staff :: "admin_state \<Rightarrow> staff_user list" where
  "list_staff s = staff s"

section \<open>Creating\<close>

record create_staff_dto =
  cs_fullName :: string
  cs_email :: string
  cs_role :: staff_role

definition new_staff :: "admin_env \<Rightarrow> create_staff_dto \<Rightarrow> staff_user" where
  "new_staff env dto =
    \<lparr>su_id = 0, su_fullName = js_trim (cs_fullName dto), su_email = to_lower (js_trim (cs_email dto)),
     su_passwordHash = ad_hash env (ad_password env), su_role = cs_role dto, su_status = STAFF_ACTIVE,
     su_mustChangePassword = True, su_failedLoginAttempts = 0, su_lockedUntil = None,
     su_totpSecretEnc = None, su_totpEnabledAt = None, su_totpLastStep = None, su_recoveryCodeHashes = [],
     su_lastLoginAt = None, su_createdAt = ad_now env\<rparr>"

definition insert_staff :: "staff_user \<Rightarrow> staff_user admin" where
  "insert_staff u s =
    (if list_ex (\<lambda>x. su_email x = su_email u) (staff s) then (Inl UniqueViolation, s)
     else (let v = u\<lparr>su_id := admin_next s\<rparr> in
           (Inr v, s\<lparr>staff := insert_row v (staff s), admin_next := Suc (admin_next s)\<rparr>)))"

definition create_staff ::
  "admin_env \<Rightarrow> create_staff_dto \<Rightarrow> staff_ctx \<Rightarrow> string option \<Rightarrow> (staff_user \<times> string) admin" where
  "create_staff env dto ctx ip =
    bindM (getM (\<lambda>s. list_ex (\<lambda>x. su_email x = to_lower (js_trim (cs_email dto))) (staff s))) (\<lambda>taken.
    bindM (assertM (\<not> taken) (Conflict ''A staff member with this email exists'')) (\<lambda>_.
    bindM (others_at env 0) (\<lambda>_.
    bindM (insert_staff (new_staff env dto)) (\<lambda>u.
    bindM (audit_record env (actor_audit ctx ''staff.created'' (Some ''staff'') (su_id u) ip)) (\<lambda>_.
    retM (u, ad_password env))))))"

section \<open>Role and status\<close>

record update_staff_dto =
  us_role :: "staff_role option"
  us_status :: "staff_status option"

definition guardLastSuperAdmin :: "staff_user \<Rightarrow> update_staff_dto \<Rightarrow> unit admin" where
  "guardLastSuperAdmin u dto =
    (let demoting = (case us_role dto of None \<Rightarrow> False | Some r \<Rightarrow> r \<noteq> SUPER_ADMIN);
         disabling = (us_status dto = Some STAFF_DISABLED)
     in if su_role u \<noteq> SUPER_ADMIN \<or> \<not> demoting \<and> \<not> disabling then retM ()
        else bindM (getM (\<lambda>s. affected active_super_admin (staff s))) (\<lambda>remaining.
             assertM (1 < remaining) (BadRequest ''At least one active super admin is required'')))"

definition with_changes :: "update_staff_dto \<Rightarrow> staff_user \<Rightarrow> staff_user" where
  "with_changes dto u =
    u\<lparr>su_role := (case us_role dto of None \<Rightarrow> su_role u | Some r \<Rightarrow> r),
      su_status := (case us_status dto of None \<Rightarrow> su_status u | Some st \<Rightarrow> st)\<rparr>"

definition save_staff :: "staff_user \<Rightarrow> unit admin" where
  "save_staff u s =
    (if list_ex (\<lambda>x. su_id x \<noteq> su_id u \<and> su_email x = su_email u) (staff s) then (Inl UniqueViolation, s)
     else if find_staff (su_id u) s = None then (Inr (), s\<lparr>staff := insert_row u (staff s)\<rparr>)
     else (Inr (), update_staff (su_id u) (\<lambda>_. u) s))"

definition update_staff_member ::
  "admin_env \<Rightarrow> uuid \<Rightarrow> update_staff_dto \<Rightarrow> staff_ctx \<Rightarrow> string option \<Rightarrow> staff_user admin" where
  "update_staff_member env i dto ctx ip =
    bindM (staff_or_404 i) (\<lambda>u.
    bindM (assertM (i \<noteq> cx_staffId ctx) (BadRequest ''You cannot change your own role or status'')) (\<lambda>_.
    bindM (guardLastSuperAdmin u dto) (\<lambda>_.
    bindM (others_at env 0) (\<lambda>_.
    bindM (save_staff (with_changes dto u)) (\<lambda>_.
    bindM (others_at env 1) (\<lambda>_.
    bindM (whenM (us_status dto = Some STAFF_DISABLED)
             (updM (revoke_staff_tokens (\<lambda>t. sr_staffId t = i) (ad_now env)))) (\<lambda>_.
    bindM (audit_record env (actor_audit ctx ''staff.updated'' (Some ''staff'') i ip)) (\<lambda>_.
    retM (with_changes dto u)))))))))"

section \<open>Resets\<close>

definition staff_resetTwoFactor :: "admin_env \<Rightarrow> uuid \<Rightarrow> staff_ctx \<Rightarrow> string option \<Rightarrow> unit admin" where
  "staff_resetTwoFactor env i ctx ip =
    bindM (staff_or_404 i) (\<lambda>_.
    bindM (updM (update_staff i clear_factor)) (\<lambda>_.
    bindM (others_at env 0) (\<lambda>_.
    bindM (updM (revoke_staff_tokens (\<lambda>t. sr_staffId t = i) (ad_now env))) (\<lambda>_.
    audit_record env (actor_audit ctx ''staff.mfa_reset'' (Some ''staff'') i ip)))))"

definition staff_resetPassword :: "admin_env \<Rightarrow> uuid \<Rightarrow> staff_ctx \<Rightarrow> string option \<Rightarrow> string admin" where
  "staff_resetPassword env i ctx ip =
    bindM (staff_or_404 i) (\<lambda>_.
    bindM (updM (update_staff i (\<lambda>u. (set_attempts (0, None) u)
             \<lparr>su_passwordHash := ad_hash env (ad_password env), su_mustChangePassword := True\<rparr>))) (\<lambda>_.
    bindM (others_at env 0) (\<lambda>_.
    bindM (updM (revoke_staff_tokens (\<lambda>t. sr_staffId t = i) (ad_now env))) (\<lambda>_.
    bindM (audit_record env (actor_audit ctx ''staff.password_reset'' (Some ''staff'') i ip)) (\<lambda>_.
    retM (ad_password env))))))"

definition staff_unlock :: "admin_env \<Rightarrow> uuid \<Rightarrow> staff_ctx \<Rightarrow> string option \<Rightarrow> staff_detail admin" where
  "staff_unlock env i ctx ip =
    bindM (staff_or_404 i) (\<lambda>_.
    bindM (updM (update_staff i (set_attempts (0, None)))) (\<lambda>_.
    bindM (audit_record env (actor_audit ctx ''staff.unlocked'' (Some ''staff'') i ip)) (\<lambda>_.
    get_staff env i)))"

definition remove_staff :: "admin_env \<Rightarrow> uuid \<Rightarrow> staff_ctx \<Rightarrow> string option \<Rightarrow> unit admin" where
  "remove_staff env i ctx ip =
    bindM (staff_or_404 i) (\<lambda>u.
    bindM (assertM (i \<noteq> cx_staffId ctx) (BadRequest ''You cannot delete your own account'')) (\<lambda>_.
    bindM (assertM (su_status u = STAFF_DISABLED) (BadRequest ''Disable the account before deleting it'')) (\<lambda>_.
    bindM (others_at env 0) (\<lambda>_.
    bindM (updM (\<lambda>s. s\<lparr>staffTokens := filter (\<lambda>t. sr_staffId t \<noteq> i) (staffTokens s)\<rparr>)) (\<lambda>_.
    bindM (updM (\<lambda>s. s\<lparr>staff := filter (\<lambda>x. su_id x \<noteq> i) (staff s)\<rparr>)) (\<lambda>_.
    audit_record env (actor_audit ctx ''staff.deleted'' (Some ''staff'') i ip)))))))"

section \<open>Tools run on the server\<close>

text \<open>\<open>seed-super-admin.ts\<close>: the first account; a blank name is replaced.\<close>

definition seed_super_admin :: "admin_env \<Rightarrow> string \<Rightarrow> string \<Rightarrow> string admin" where
  "seed_super_admin env e fullName =
    bindM (assertM (to_lower (js_trim e) \<noteq> []) (PlainError ''SEED_EMAIL is required'')) (\<lambda>_.
    bindM (getM (\<lambda>s. list_ex (\<lambda>x. su_email x = to_lower (js_trim e)) (staff s))) (\<lambda>taken.
    bindM (assertM (\<not> taken) (PlainError ''Staff user already exists'')) (\<lambda>_.
    bindM (insert_staff (new_staff env
             \<lparr>cs_fullName = (if js_trim fullName = [] then ''Super Admin'' else fullName), cs_email = e,
              cs_role = SUPER_ADMIN\<rparr>)) (\<lambda>_.
    retM (ad_password env)))))"

text \<open>\<open>device-admin.ts\<close>: approve what is pending, or revoke every device and session; how many devices.\<close>

datatype device_tool = TOOL_APPROVE | TOOL_RESET

definition device_admin :: "admin_env \<Rightarrow> device_tool \<Rightarrow> string \<Rightarrow> nat admin" where
  "device_admin env action e =
    bindM (getM (find_staff_by_email e)) (\<lambda>found.
    bindM (someM found (PlainError ''No staff user'')) (\<lambda>u.
    case action of
      TOOL_APPROVE \<Rightarrow>
        (let hit = (\<lambda>d. sd_staffId d = su_id u \<and> sd_status d = DEV_PENDING) in
         bindM (getM (\<lambda>s. affected hit (staffDevices s))) (\<lambda>n.
         bindM (change_device hit (\<lambda>d. d\<lparr>sd_status := DEV_ACTIVE, sd_approvedAt := Some (ad_now env)\<rparr>)) (\<lambda>_.
         retM n)))
    | TOOL_RESET \<Rightarrow>
        (let hit = (\<lambda>d. sd_staffId d = su_id u) in
         bindM (getM (\<lambda>s. affected hit (staffDevices s))) (\<lambda>n.
         bindM (change_device hit (\<lambda>d. d\<lparr>sd_status := DEV_REVOKED\<rparr>)) (\<lambda>_.
         bindM (updM (revoke_staff_tokens (\<lambda>t. sr_staffId t = su_id u) (ad_now env))) (\<lambda>_.
         retM n))))))"

end
