(* ===== verification/StaffSteps.thy ===== *)
theory StaffSteps
  imports AdminStaff
begin

text \<open>
  The atomic changes of the staff tables, \<open>staff_step\<close>, the invariant \<open>staff_ok\<close> they keep, and what stays.  Each handler
  of \<open>AdminAuth\<close>, \<open>AdminDevices\<close> and \<open>AdminStaff\<close> as a sequence of them (\<open>StaffServed\<close>).
\<close>

section \<open>Atomic changes\<close>

definition same_staff_token :: "staff_refresh_token \<Rightarrow> staff_refresh_token \<Rightarrow> bool" where
  "same_staff_token t u \<longleftrightarrow> sr_id u = sr_id t \<and> sr_staffId u = sr_staffId t \<and> sr_tokenHash u = sr_tokenHash t \<and>
    sr_familyId u = sr_familyId t \<and> sr_deviceId u = sr_deviceId t \<and>
    (sr_revokedAt t \<noteq> None \<longrightarrow> sr_revokedAt u \<noteq> None)"

definition same_device :: "staff_device \<Rightarrow> staff_device \<Rightarrow> bool" where
  "same_device d e \<longleftrightarrow> sd_id e = sd_id d \<and> sd_staffId e = sd_staffId d \<and> sd_credentialId e = sd_credentialId d \<and>
    (sd_status d = DEV_REVOKED \<longrightarrow> sd_status e = DEV_REVOKED)"

lemma same_device_refl [simp]: "same_device d d"
  by (simp add: same_device_def)

lemma same_device_trans: "same_device d e \<Longrightarrow> same_device e f \<Longrightarrow> same_device d f"
  by (simp add: same_device_def)

definition taken_email :: "uuid \<Rightarrow> string \<Rightarrow> admin_state \<Rightarrow> bool" where
  "taken_email i e s \<longleftrightarrow> list_ex (\<lambda>x. su_id x \<noteq> i \<and> su_email x = e) (staff s)"

inductive staff_step :: "admin_state \<Rightarrow> admin_state \<Rightarrow> bool" where
  writes: "(\<And>u. su_id (f u) = su_id u \<and> su_email (f u) = su_email u) \<Longrightarrow>
    staff_step s (s\<lparr>staff := update_where P f (staff s)\<rparr>)"
| saves: "find_staff (su_id u) s \<noteq> None \<Longrightarrow> \<not> taken_email (su_id u) (su_email u) s \<Longrightarrow>
    staff_step s (update_staff (su_id u) (\<lambda>_. u) s)"
| inserts: "find_staff (su_id u) s = None \<Longrightarrow> \<not> taken_email (su_id u) (su_email u) s \<Longrightarrow>
    su_id u < n \<Longrightarrow> admin_next s \<le> n \<Longrightarrow>
    staff_step s (s\<lparr>staff := insert_row u (staff s), admin_next := n\<rparr>)"
| deletes: "staff_step s (s\<lparr>staff := filter P (staff s)\<rparr>)"
| registers: "length (devices_list (sd_staffId d) s) < MAX_DEVICES_PER_STAFF \<Longrightarrow>
    \<not> list_ex (\<lambda>x. sd_credentialId x = sd_credentialId d) (staffDevices s) \<Longrightarrow> sd_id d = admin_next s \<Longrightarrow>
    staff_step s (s\<lparr>staffDevices := insert_row d (staffDevices s), admin_next := Suc (admin_next s)\<rparr>)"
| changes_device: "(\<And>d. P d \<Longrightarrow> same_device d (f d)) \<Longrightarrow>
    staff_step s (s\<lparr>staffDevices := update_where P f (staffDevices s)\<rparr>)"
| issues: "sr_id t = admin_next s \<Longrightarrow> \<not> list_ex (\<lambda>x. sr_tokenHash x = sr_tokenHash t) (staffTokens s) \<Longrightarrow>
    staff_step s (s\<lparr>staffTokens := insert_row t (staffTokens s), admin_next := Suc (admin_next s)\<rparr>)"
| revokes: "(\<And>t. same_staff_token t (f t)) \<Longrightarrow>
    staff_step s (s\<lparr>staffTokens := update_where P f (staffTokens s)\<rparr>)"
| drops_tokens: "staff_step s (s\<lparr>staffTokens := filter P (staffTokens s)\<rparr>)"
| other_tables: "staff s' = staff s \<Longrightarrow> staffDevices s' = staffDevices s \<Longrightarrow> staffTokens s' = staffTokens s \<Longrightarrow>
    admin_next s \<le> admin_next s' \<Longrightarrow> staff_step s s'"

section \<open>The invariant\<close>

definition staff_rows_ok :: "admin_state \<Rightarrow> bool" where
  "staff_rows_ok s \<longleftrightarrow> distinct (map su_id (staff s)) \<and> distinct (map su_email (staff s)) \<and>
    (\<forall>u \<in> set (staff s). su_id u < admin_next s)"

definition devices_ok :: "admin_state \<Rightarrow> bool" where
  "devices_ok s \<longleftrightarrow> distinct (map sd_id (staffDevices s)) \<and> distinct (map sd_credentialId (staffDevices s)) \<and>
    (\<forall>d \<in> set (staffDevices s). sd_id d < admin_next s) \<and>
    (\<forall>i. length (devices_list i s) \<le> MAX_DEVICES_PER_STAFF)"

definition staff_tokens_ok :: "admin_state \<Rightarrow> bool" where
  "staff_tokens_ok s \<longleftrightarrow> distinct (map sr_id (staffTokens s)) \<and> distinct (map sr_tokenHash (staffTokens s)) \<and>
    (\<forall>t \<in> set (staffTokens s). sr_id t < admin_next s)"

definition staff_ok :: "admin_state \<Rightarrow> bool" where
  "staff_ok s \<longleftrightarrow> staff_rows_ok s \<and> devices_ok s \<and> staff_tokens_ok s"

lemma staff_step_next: "staff_step s s' \<Longrightarrow> admin_next s \<le> admin_next s'"
  by (induction rule: staff_step.induct) (simp_all add: update_staff_def)

lemma staff_steps_next: "staff_step\<^sup>*\<^sup>* s s' \<Longrightarrow> admin_next s \<le> admin_next s'"
  by (induction rule: rtranclp_induct) (auto dest: staff_step_next)

lemma staff_rows_ok_more:
  assumes "staff_rows_ok s" and "staff s' = staff s" and "admin_next s \<le> admin_next s'"
  shows "staff_rows_ok s'"
  using assms less_le_trans unfolding staff_rows_ok_def by metis

lemma devices_ok_more:
  assumes "devices_ok s" and "staffDevices s' = staffDevices s" and "admin_next s \<le> admin_next s'"
  shows "devices_ok s'"
proof -
  have "\<forall>d \<in> set (staffDevices s'). sd_id d < admin_next s'"
    using assms less_le_trans unfolding devices_ok_def by metis
  then show ?thesis using assms by (simp add: devices_ok_def devices_list_def)
qed

lemma staff_tokens_ok_more:
  assumes "staff_tokens_ok s" and "staffTokens s' = staffTokens s" and "admin_next s \<le> admin_next s'"
  shows "staff_tokens_ok s'"
  using assms less_le_trans unfolding staff_tokens_ok_def by metis

lemmas parts_more = staff_rows_ok_more devices_ok_more staff_tokens_ok_more

lemma map_update_where_same:
  "(\<And>r. P r \<Longrightarrow> g (f r) = g r) \<Longrightarrow> map g (update_where P f t) = map g t"
  by (induction t) auto

lemma below_same_keys:
  assumes "map g t' = map g t" and "\<forall>x \<in> set t. g x < n"
  shows "\<forall>x \<in> set t'. g x < (n :: nat)"
proof -
  have "\<forall>j \<in> set (map g t). j < n" using assms(2) by simp
  then have "\<forall>j \<in> set (map g t'). j < n" unfolding assms(1) .
  then show ?thesis by simp
qed

lemma distinct_map_replace:
  assumes "distinct (map g t)" and "distinct (map key t)"
    and "\<And>x. x \<in> set t \<Longrightarrow> key x \<noteq> k \<Longrightarrow> g x \<noteq> g v"
  shows "distinct (map g (update_where (by_key key k) (\<lambda>_. v) t))"
  using assms
proof (induction t)
  case (Cons x t)
  have rest: "distinct (map g (update_where (by_key key k) (\<lambda>_. v) t))" using Cons by simp
  show ?case
  proof (cases "key x = k")
    case True
    then have other: "key y \<noteq> k" if "y \<in> set t" for y
      using Cons.prems(2) imageI [OF that, of key] by auto
    then have "update_where (by_key key k) (\<lambda>_. v) t = t" by simp
    moreover have "g v \<notin> g ` set t" using Cons.prems(3) other by force
    ultimately show ?thesis using True Cons.prems(1) by simp
  next
    case False
    then have "g x \<notin> g ` set (update_where (by_key key k) (\<lambda>_. v) t)"
      using Cons.prems(1,3) by (auto simp: set_update_where)
    then show ?thesis using False rest by simp
  qed
qed simp

lemma staff_rows_ok_save:
  assumes "staff_rows_ok s" and "find_staff (su_id u) s \<noteq> None" and "\<not> taken_email (su_id u) (su_email u) s"
  shows "staff_rows_ok (update_staff (su_id u) (\<lambda>_. u) s)"
proof -
  let ?rows = "update_where (by_key su_id (su_id u)) (\<lambda>_. u) (staff s)"
  have ids: "map su_id ?rows = map su_id (staff s)" by (rule map_update_where_same) simp
  have free: "\<And>x. x \<in> set (staff s) \<Longrightarrow> su_id x \<noteq> su_id u \<Longrightarrow> su_email x \<noteq> su_email u"
    using assms(3) by (auto simp: taken_email_def list_ex_iff)
  have "distinct (map su_email ?rows)"
    using assms(1) by (intro distinct_map_replace free) (simp_all add: staff_rows_ok_def)
  moreover have "\<forall>x \<in> set ?rows. su_id x < admin_next s"
    using assms(1) by (intro below_same_keys [OF ids]) (simp add: staff_rows_ok_def)
  ultimately show ?thesis using assms(1) ids by (simp add: staff_rows_ok_def update_staff_def)
qed

lemma staff_rows_ok_insert:
  assumes "staff_rows_ok s" and "find_staff (su_id u) s = None" and "\<not> taken_email (su_id u) (su_email u) s"
    and "su_id u < n" and "admin_next s \<le> n"
  shows "staff_rows_ok (s\<lparr>staff := insert_row u (staff s), admin_next := n\<rparr>)"
proof -
  have new: "su_id x \<noteq> su_id u" if "x \<in> set (staff s)" for x
    using assms(2) that by (auto simp: find_staff_def find_row_None_iff)
  have "su_email x \<noteq> su_email u" if "x \<in> set (staff s)" for x
    using assms(3) that new by (auto simp: taken_email_def list_ex_iff)
  moreover have "su_id x < n" if "x \<in> set (staff s)" for x
    using assms(1,5) that by (auto simp: staff_rows_ok_def intro: less_le_trans)
  ultimately show ?thesis using assms(1,4) new by (fastforce simp: staff_rows_ok_def insert_row_def)
qed

lemma devices_list_update:
  assumes "\<And>d. P d \<Longrightarrow> same_device d (f d)"
  shows "length (devices_list i (s\<lparr>staffDevices := update_where P f (staffDevices s)\<rparr>)) \<le> length (devices_list i s)"
proof -
  have live: "live_device i d" if "live_device i (if P d then f d else d)" for d
    using that assms [of d] by (auto simp: live_device_def same_device_def split: if_splits)
  have "length (filter (live_device i) (update_where P f t)) \<le> length (filter (live_device i) t)" for t
  proof (induction t)
    case (Cons d t)
    then show ?case using live [of d] by (cases "P d") (auto simp: le_SucI)
  qed simp
  then show ?thesis by (simp add: devices_list_def)
qed

lemma devices_ok_update:
  assumes "devices_ok s" and "\<And>d. P d \<Longrightarrow> same_device d (f d)"
  shows "devices_ok (s\<lparr>staffDevices := update_where P f (staffDevices s)\<rparr>)"
proof -
  let ?rows = "update_where P f (staffDevices s)"
  have ids: "map sd_id ?rows = map sd_id (staffDevices s)" "map sd_credentialId ?rows = map sd_credentialId (staffDevices s)"
    using assms(2) by (auto simp: same_device_def intro!: map_update_where_same)
  have "\<forall>x \<in> set ?rows. sd_id x < admin_next s"
    using assms(1) by (intro below_same_keys [OF ids(1)]) (simp add: devices_ok_def)
  moreover have "length (devices_list i (s\<lparr>staffDevices := ?rows\<rparr>)) \<le> MAX_DEVICES_PER_STAFF" for i
    using devices_list_update [of P f i s, OF assms(2)] assms(1) le_trans unfolding devices_ok_def by blast
  ultimately show ?thesis using assms(1) ids by (simp add: devices_ok_def)
qed

lemma devices_ok_insert:
  assumes "devices_ok s" and "length (devices_list (sd_staffId d) s) < MAX_DEVICES_PER_STAFF"
    and "\<not> list_ex (\<lambda>x. sd_credentialId x = sd_credentialId d) (staffDevices s)" and "sd_id d = admin_next s"
  shows "devices_ok (s\<lparr>staffDevices := insert_row d (staffDevices s), admin_next := Suc (admin_next s)\<rparr>)"
proof -
  have "length (filter (live_device i) (staffDevices s @ [d])) \<le> MAX_DEVICES_PER_STAFF" for i
    using assms(1,2) by (auto simp: devices_ok_def devices_list_def live_device_def)
  moreover have "sd_id x < Suc (admin_next s) \<and> sd_id x \<noteq> sd_id d" if "x \<in> set (staffDevices s)" for x
    using assms(1,4) that by (auto simp: devices_ok_def)
  ultimately show ?thesis using assms
    by (auto simp: devices_ok_def devices_list_def insert_row_def list_ex_iff)
qed

lemma staff_tokens_ok_insert:
  assumes "staff_tokens_ok s" and "sr_id t = admin_next s"
    and "\<not> list_ex (\<lambda>x. sr_tokenHash x = sr_tokenHash t) (staffTokens s)"
  shows "staff_tokens_ok (s\<lparr>staffTokens := insert_row t (staffTokens s), admin_next := Suc (admin_next s)\<rparr>)"
proof -
  have "sr_id x < Suc (admin_next s) \<and> sr_id x \<noteq> sr_id t" if "x \<in> set (staffTokens s)" for x
    using assms(1,2) that by (auto simp: staff_tokens_ok_def)
  then show ?thesis using assms by (auto simp: staff_tokens_ok_def insert_row_def list_ex_iff)
qed

lemma staff_tokens_ok_update:
  assumes "staff_tokens_ok s" and "\<And>t. same_staff_token t (f t)"
  shows "staff_tokens_ok (s\<lparr>staffTokens := update_where P f (staffTokens s)\<rparr>)"
proof -
  let ?rows = "update_where P f (staffTokens s)"
  have ids: "map sr_id ?rows = map sr_id (staffTokens s)" "map sr_tokenHash ?rows = map sr_tokenHash (staffTokens s)"
    using assms(2) by (auto simp: same_staff_token_def intro!: map_update_where_same)
  have "\<forall>x \<in> set ?rows. sr_id x < admin_next s"
    using assms(1) by (intro below_same_keys [OF ids(1)]) (simp add: staff_tokens_ok_def)
  then show ?thesis using assms(1) ids by (simp add: staff_tokens_ok_def)
qed

lemma distinct_map_filter_rows: "distinct (map g t) \<Longrightarrow> distinct (map g (filter P t))"
  by (induction t) auto

lemma staff_step_keeps: "staff_step s s' \<Longrightarrow> staff_ok s \<Longrightarrow> staff_ok s'"
proof (induction rule: staff_step.induct)
  case (writes f s P)
  let ?rows = "update_where P f (staff s)"
  have ids: "map su_id ?rows = map su_id (staff s)" "map su_email ?rows = map su_email (staff s)"
    using writes(1) by (auto intro!: map_update_where_same)
  have "\<forall>x \<in> set ?rows. su_id x < admin_next s"
    using writes(2) by (intro below_same_keys [OF ids(1)]) (simp add: staff_ok_def staff_rows_ok_def)
  then have "staff_rows_ok (s\<lparr>staff := ?rows\<rparr>)"
    using writes(2) ids by (simp add: staff_ok_def staff_rows_ok_def)
  then show ?case using writes(2) by (auto simp: staff_ok_def intro: parts_more)
next
  case (saves u s)
  then show ?case using staff_rows_ok_save [of s u]
    by (auto simp: staff_ok_def update_staff_def intro: devices_ok_more [of s] staff_tokens_ok_more [of s])
next
  case (inserts u s n)
  then show ?case using staff_rows_ok_insert [of s u n]
    by (auto simp: staff_ok_def intro: devices_ok_more [of s] staff_tokens_ok_more [of s])
next
  case (deletes s P)
  then have "staff_rows_ok (s\<lparr>staff := filter P (staff s)\<rparr>)"
    by (simp add: staff_ok_def staff_rows_ok_def distinct_map_filter_rows)
  then show ?case using deletes
    by (auto simp: staff_ok_def intro: devices_ok_more [of s] staff_tokens_ok_more [of s])
next
  case (registers d s)
  then show ?case using devices_ok_insert [of s d]
    by (auto simp: staff_ok_def intro: staff_rows_ok_more [of s] staff_tokens_ok_more [of s])
next
  case (changes_device P f s)
  then show ?case using devices_ok_update [of s P f]
    by (auto simp: staff_ok_def intro: staff_rows_ok_more [of s] staff_tokens_ok_more [of s])
next
  case (issues t s)
  then show ?case using staff_tokens_ok_insert [of s t]
    by (auto simp: staff_ok_def intro: staff_rows_ok_more [of s] devices_ok_more [of s])
next
  case (revokes f s P)
  then show ?case using staff_tokens_ok_update [of s f P]
    by (auto simp: staff_ok_def intro: staff_rows_ok_more [of s] devices_ok_more [of s])
next
  case (drops_tokens s P)
  then have "staff_tokens_ok (s\<lparr>staffTokens := filter P (staffTokens s)\<rparr>)"
    by (simp add: staff_ok_def staff_tokens_ok_def distinct_map_filter_rows)
  then show ?case using drops_tokens
    by (auto simp: staff_ok_def intro: staff_rows_ok_more [of s] devices_ok_more [of s])
next
  case (other_tables s' s)
  then show ?case by (auto simp: staff_ok_def intro: parts_more [of s])
qed

interpretation stf: step_system staff_step staff_ok
  by unfold_locales (rule staff_step_keeps)

section \<open>Revoked devices stay revoked\<close>

definition devices_kept :: "admin_state \<Rightarrow> admin_state \<Rightarrow> bool" where
  "devices_kept s s' \<longleftrightarrow> (\<forall>d \<in> set (staffDevices s). \<exists>e \<in> set (staffDevices s'). same_device d e)"

lemma devices_kept_same: "staffDevices s' = staffDevices s \<Longrightarrow> devices_kept s s'"
  by (auto simp: devices_kept_def intro: same_device_refl)

lemma staff_step_devices: "staff_step s s' \<Longrightarrow> devices_kept s s'"
proof (induction rule: staff_step.induct)
  case (registers d s)
  then show ?case by (auto simp: devices_kept_def intro: same_device_refl)
next
  case (changes_device P f s)
  have "\<exists>e \<in> set (update_where P f (staffDevices s)). same_device d e" if "d \<in> set (staffDevices s)" for d
    using changes_device [of d] that same_device_refl
    by (intro bexI [of _ "if P d then f d else d"]) (auto simp: set_update_where)
  then show ?case by (simp add: devices_kept_def)
qed (simp_all add: devices_kept_same update_staff_def)

lemma staff_steps_devices: "staff_step\<^sup>*\<^sup>* s s' \<Longrightarrow> devices_kept s s'"
proof (induction rule: rtranclp_induct)
  case (step y z)
  then show ?case using staff_step_devices [OF step(2)] same_device_trans unfolding devices_kept_def by meson
qed (simp add: devices_kept_same)

end
