(* ===== verification/StaffRequests.thy ===== *)
theory StaffRequests
  imports AdminStaff
begin

text \<open>
  The routes of \<open>auth/auth.controller.ts\<close> and \<open>staff/staff.controller.ts\<close>, their guards, and the
  refresh cookie (\<open>auth/refresh-cookie.ts\<close>).  The rate limits of the routes are not modelled.
\<close>

section \<open>The refresh cookie\<close>

definition REFRESH_COOKIE :: string where "REFRESH_COOKIE = ''fiam_console_rt''"

text \<open>The value after the first equals sign; \<open>decode\<close> is \<open>decodeURIComponent\<close>.\<close>

definition cookie_value :: "(string \<Rightarrow> string) \<Rightarrow> string \<Rightarrow> string option" where
  "cookie_value decode part =
    (let v = drop 1 (dropWhile (\<lambda>c. c \<noteq> CHR ''='') (js_trim part)) in if v = [] then None else Some (decode v))"

definition cookie_named :: "string \<Rightarrow> string \<Rightarrow> bool" where
  "cookie_named name part \<longleftrightarrow> takeWhile (\<lambda>c. c \<noteq> CHR ''='') (js_trim part) = name"

definition readRefreshCookie :: "(string \<Rightarrow> string) \<Rightarrow> string option \<Rightarrow> string option" where
  "readRefreshCookie decode header =
    (case header of
       None \<Rightarrow> None
     | Some h \<Rightarrow>
        (case find_row (cookie_named REFRESH_COOKIE) (split_on CHR '';'' h) of
           None \<Rightarrow> None
         | Some part \<Rightarrow> cookie_value decode part))"

section \<open>Routes\<close>

datatype staff_request =
    PostLogin string string
  | PostMfaVerify "mfa_claims option" string
  | PostMfaEnrollStart "mfa_claims option"
  | PostMfaEnrollConfirm "mfa_claims option" string
  | PostDeviceOptions "mfa_claims option" bool
  | PostDeviceAssert "mfa_claims option" "challenge_claims option" assertion_response
  | PostDeviceRegister "mfa_claims option" "challenge_claims option" string string
  | GetDevices
  | PostDevicesOptions
  | PostDevices "challenge_claims option" string string
  | DeleteDevice uuid
  | PostTwoFactorSetup
  | PostTwoFactorEnable string
  | PostTwoFactorDisable string string
  | PostRecoveryCodes string
  | PostRefresh "string option"
  | PostLogout "string option"
  | GetMe
  | PostChangePassword string string
  | GetStaffList
  | GetStaffDevices uuid
  | PostApproveDevice uuid uuid
  | DeleteStaffDevice uuid uuid
  | GetStaff uuid
  | PostStaff create_staff_dto
  | PatchStaff uuid update_staff_dto
  | PostResetPassword uuid
  | PostResetTwoFactor uuid
  | PostUnlock uuid
  | DeleteStaff uuid

datatype staff_answer =
    AnswerSignIn sign_in_answer
  | AnswerEnrolled sign_in_answer "string list"
  | AnswerSession staff_session
  | AnswerText string
  | AnswerCodes "string list"
  | AnswerChallenge "string list" challenge_claims
  | AnswerDevice uuid device_status
  | AnswerDevices "staff_device list"
  | AnswerMe staff_ctx
  | AnswerStaffList "staff_user list"
  | AnswerStaff staff_user
  | AnswerDetail staff_detail
  | AnswerNewStaff staff_user string
  | AnswerDone

definition answers :: "('a \<Rightarrow> 'b) \<Rightarrow> 'a admin \<Rightarrow> 'b admin" where
  "answers f m = bindM m (\<lambda>a. retM (f a))"

text \<open>The routes open to anyone.\<close>

fun serve_open :: "admin_env \<Rightarrow> string option \<Rightarrow> staff_request \<Rightarrow> staff_answer admin option" where
  "serve_open env ip (PostLogin e p) = Some (answers AnswerSignIn (staff_login env e p ip))"
| "serve_open env ip (PostMfaVerify tok c) = Some (answers AnswerSignIn (verifyMfa env tok c ip))"
| "serve_open env ip (PostMfaEnrollStart tok) = Some (answers AnswerText (startEnrollmentWithToken env tok))"
| "serve_open env ip (PostMfaEnrollConfirm tok c) =
    Some (answers (case_prod AnswerEnrolled) (confirmEnrollmentWithToken env tok c ip))"
| "serve_open env ip (PostDeviceOptions tok m) = Some (answers (case_prod AnswerChallenge) (deviceOptions env tok m))"
| "serve_open env ip (PostDeviceAssert tok ch r) = Some (answers AnswerSignIn (deviceAssert env tok ch r ip))"
| "serve_open env ip (PostDeviceRegister tok ch r lbl) =
    Some (answers (case_prod AnswerDevice) (deviceRegister env tok ch r lbl ip))"
| "serve_open env ip (PostRefresh cookie) =
    Some (bindM (someM cookie (Unauthorized '''')) (\<lambda>raw. answers AnswerSession (staff_refresh env raw)))"
| "serve_open env ip (PostLogout cookie) =
    Some (case cookie of None \<Rightarrow> retM AnswerDone | Some raw \<Rightarrow> answers (\<lambda>_. AnswerDone) (staff_logout env raw))"
| "serve_open env ip req = None"

text \<open>\<open>@AllowPendingPasswordChange()\<close>.\<close>

fun allows_pending :: "staff_request \<Rightarrow> bool" where
  "allows_pending PostTwoFactorSetup = True"
| "allows_pending (PostTwoFactorEnable c) = True"
| "allows_pending GetMe = True"
| "allows_pending (PostChangePassword p q) = True"
| "allows_pending req = False"

text \<open>The routes of \<open>staff\<close> are for super admins.\<close>

fun required_roles :: "staff_request \<Rightarrow> staff_role list" where
  "required_roles GetStaffList = [SUPER_ADMIN]"
| "required_roles (GetStaffDevices i) = [SUPER_ADMIN]"
| "required_roles (PostApproveDevice i d) = [SUPER_ADMIN]"
| "required_roles (DeleteStaffDevice i d) = [SUPER_ADMIN]"
| "required_roles (GetStaff i) = [SUPER_ADMIN]"
| "required_roles (PostStaff dto) = [SUPER_ADMIN]"
| "required_roles (PatchStaff i dto) = [SUPER_ADMIN]"
| "required_roles (PostResetPassword i) = [SUPER_ADMIN]"
| "required_roles (PostResetTwoFactor i) = [SUPER_ADMIN]"
| "required_roles (PostUnlock i) = [SUPER_ADMIN]"
| "required_roles (DeleteStaff i) = [SUPER_ADMIN]"
| "required_roles req = []"

text \<open>\<open>StaffController\<close>, and the routes of \<open>AuthController\<close> for those signed in.\<close>

fun serve_staff_screen :: "admin_env \<Rightarrow> string option \<Rightarrow> staff_ctx \<Rightarrow> staff_request \<Rightarrow> staff_answer admin" where
  "serve_staff_screen env ip ctx GetStaffList = getM (\<lambda>s. AnswerStaffList (list_staff s))"
| "serve_staff_screen env ip ctx (GetStaffDevices i) = getM (\<lambda>s. AnswerDevices (devices_list i s))"
| "serve_staff_screen env ip ctx (PostApproveDevice i d) = answers (\<lambda>_. AnswerDone) (approve_device env i d ctx ip)"
| "serve_staff_screen env ip ctx (DeleteStaffDevice i d) = answers (\<lambda>_. AnswerDone) (revoke_device env i d ctx ip)"
| "serve_staff_screen env ip ctx (GetStaff i) = answers AnswerDetail (get_staff env i)"
| "serve_staff_screen env ip ctx (PostStaff dto) = answers (case_prod AnswerNewStaff) (create_staff env dto ctx ip)"
| "serve_staff_screen env ip ctx (PatchStaff i dto) = answers AnswerStaff (update_staff_member env i dto ctx ip)"
| "serve_staff_screen env ip ctx (PostResetPassword i) = answers AnswerText (staff_resetPassword env i ctx ip)"
| "serve_staff_screen env ip ctx (PostResetTwoFactor i) = answers (\<lambda>_. AnswerDone) (staff_resetTwoFactor env i ctx ip)"
| "serve_staff_screen env ip ctx (PostUnlock i) = answers AnswerDetail (staff_unlock env i ctx ip)"
| "serve_staff_screen env ip ctx (DeleteStaff i) = answers (\<lambda>_. AnswerDone) (remove_staff env i ctx ip)"
| "serve_staff_screen env ip ctx req = failM (NotFound ''Not Found'')"

fun serve_signed_in :: "admin_env \<Rightarrow> string option \<Rightarrow> staff_ctx \<Rightarrow> staff_request \<Rightarrow> staff_answer admin" where
  "serve_signed_in env ip ctx GetDevices = getM (\<lambda>s. AnswerDevices (devices_list (cx_staffId ctx) s))"
| "serve_signed_in env ip ctx PostDevicesOptions =
    answers (case_prod AnswerChallenge) (addDeviceOptions env (cx_staffId ctx))"
| "serve_signed_in env ip ctx (PostDevices ch r lbl) =
    answers (case_prod AnswerDevice) (addDevice env (cx_staffId ctx) ch r lbl ip)"
| "serve_signed_in env ip ctx (DeleteDevice d) =
    answers (\<lambda>_. AnswerDone) (revoke_device env (cx_staffId ctx) d ctx ip)"
| "serve_signed_in env ip ctx PostTwoFactorSetup = answers AnswerText (startEnrollment env (cx_staffId ctx))"
| "serve_signed_in env ip ctx (PostTwoFactorEnable c) =
    answers AnswerCodes (confirmEnrollment env (cx_staffId ctx) c ip)"
| "serve_signed_in env ip ctx (PostTwoFactorDisable p c) =
    answers (\<lambda>_. AnswerDone) (disableTwoFactor env (cx_staffId ctx) p c ip)"
| "serve_signed_in env ip ctx (PostRecoveryCodes c) =
    answers AnswerCodes (regenerateRecoveryCodes env (cx_staffId ctx) c ip)"
| "serve_signed_in env ip ctx GetMe = retM (AnswerMe ctx)"
| "serve_signed_in env ip ctx (PostChangePassword p q) =
    answers AnswerSession (staff_changePassword env (cx_staffId ctx) p q ip (cx_deviceId ctx))"
| "serve_signed_in env ip ctx req = serve_staff_screen env ip ctx req"

definition guarded ::
  "admin_env \<Rightarrow> string option \<Rightarrow> staff_access option \<Rightarrow> bool \<Rightarrow> staff_role list \<Rightarrow> (staff_ctx \<Rightarrow> 'a admin) \<Rightarrow> 'a admin" where
  "guarded env ip access pending roles handler =
    bindM (validateStaff env ip access) (\<lambda>ctx.
    bindM (liftM (jwtGuard pending ctx)) (\<lambda>_.
    bindM (liftM (rolesGuard roles ctx)) (\<lambda>_.
    handler ctx)))"

definition serve_staff ::
  "admin_env \<Rightarrow> string option \<Rightarrow> staff_access option \<Rightarrow> staff_request \<Rightarrow> staff_answer admin" where
  "serve_staff env ip access req =
    (case serve_open env ip req of
       Some m \<Rightarrow> m
     | None \<Rightarrow> guarded env ip access (allows_pending req) (required_roles req)
                 (\<lambda>ctx. serve_signed_in env ip ctx req))"

end
