(* ===== verification/StaffServed.thy ===== *)
theory StaffServed
  imports StaffSteps StaffRequests
begin

text \<open>
  Every handler of the staff sign-in, the devices and the staff screen as a sequence of the atomic
  changes of \<open>StaffSteps\<close>, whatever other requests commit in its gaps (\<open>staff_gaps\<close>), and the relation
  \<open>served_staff\<close> of all of them.
\<close>

abbreviation on_staff :: "'a admin \<Rightarrow> admin_state \<Rightarrow> bool" where
  "on_staff \<equiv> stepwise staff_step staff_ok"

definition staff_gaps :: "admin_env \<Rightarrow> bool" where
  "staff_gaps env \<longleftrightarrow> (\<forall>n s. staff_ok s \<longrightarrow> staff_step\<^sup>*\<^sup>* s (ad_others env n s))"

lemma on_staff_others [intro]: "staff_gaps env \<Longrightarrow> on_staff (updM (ad_others env n)) s"
  by (rule stf.stepwise_updM) (simp add: staff_gaps_def)

lemmas [intro!, simp] = stf.stepwise_pure

lemmas staff_rules =
  stf.stepwise_bindM stf.stepwise_if stf.stepwise_option stf.stepwise_whenM stf.stepwise_catchM
  stf.stepwise_pure on_staff_others

lemma on_staff_other:
  "staff (f s) = staff s \<Longrightarrow> staffDevices (f s) = staffDevices s \<Longrightarrow> staffTokens (f s) = staffTokens s \<Longrightarrow>
    admin_next s \<le> admin_next (f s) \<Longrightarrow> on_staff (updM f) s"
  by (rule stf.stepwise_updM_step) (rule staff_step.other_tables)

lemma on_staff_audit_record [intro!, simp]: "on_staff (audit_record env e) s"
  unfolding audit_record_def
  by (intro staff_rules on_staff_other) (simp_all add: alerts_notify_def split: option.splits)

lemma on_staff_audit_safe [intro!, simp]: "on_staff (audit_recordSafe env e) s"
  unfolding audit_recordSafe_def by (intro staff_rules on_staff_audit_record)

lemma on_staff_staff_audit [intro!, simp]: "on_staff (staff_audit env u a r ip) s"
  by (simp add: staff_audit_def)

lemma on_staff_reads [intro!, simp]:
  "on_staff (staff_or_fail i) s" "on_staff (staff_or_404 i) s" "on_staff (readMfaToken env tok st) s"
  "on_staff (registrationOptions env u) s" "on_staff (authenticationOptions env i) s"
  unfolding staff_or_fail_def staff_or_404_def readMfaToken_def registrationOptions_def authenticationOptions_def
  by (intro staff_rules)+

text \<open>An update of staff rows that leaves id and e-mail.\<close>

definition keeps_identity :: "(staff_user \<Rightarrow> staff_user) \<Rightarrow> bool" where
  "keeps_identity f \<longleftrightarrow> (\<forall>u. su_id (f u) = su_id u \<and> su_email (f u) = su_email u)"

lemma keeps_identity_attempts [simp]:
  "keeps_identity (set_attempts g)" "keeps_identity clear_factor"
  by (simp_all add: keeps_identity_def set_attempts_def clear_factor_def)

lemma staff_step_update: "keeps_identity f \<Longrightarrow> staff_step s (update_staff i f s)"
  unfolding update_staff_def by (rule staff_step.writes) (simp add: keeps_identity_def)

lemma on_staff_update: "keeps_identity f \<Longrightarrow> on_staff (updM (update_staff i f)) s"
  by (rule stf.stepwise_updM_step) (rule staff_step_update)

lemma on_staff_reserve [intro!, simp]: "on_staff (reserveAttempt now i) s"
proof (rule stf.stepwise_atomic)
  show "staff_step s (snd (reserveAttempt now i s))"
    by (auto simp: reserveAttempt_def staff_step_update staff_step.other_tables split: option.splits)
qed

lemma on_staff_reset [intro!, simp]: "on_staff (resetAttempts i) s" "on_staff (clearTwoFactor i) s"
  by (simp_all add: resetAttempts_def clearTwoFactor_def on_staff_update)

lemma on_staff_insert_token [intro!, simp]: "on_staff (insert_staff_token t) s"
proof (rule stf.stepwise_atomic)
  show "staff_step s (snd (insert_staff_token t s))"
    using staff_step.issues [of "t\<lparr>sr_id := admin_next s\<rparr>" s]
    by (auto simp: insert_staff_token_def staff_step.other_tables)
qed

lemma on_staff_issue [intro!, simp]: "on_staff (issueStaffTokens env u f d) s"
  unfolding issueStaffTokens_def by (intro staff_rules on_staff_insert_token)

lemma on_staff_revoke_tokens [intro!, simp]: "on_staff (updM (revoke_staff_tokens P now)) s"
  unfolding revoke_staff_tokens_def
  by (rule stf.stepwise_updM_step) (rule staff_step.revokes, simp add: same_staff_token_def)

lemma on_staff_revoke_family [intro!, simp]: "on_staff (revokeStaffFamily env f) s"
  by (simp add: revokeStaffFamily_def)

lemma on_staff_change_device:
  assumes "\<And>d. P d \<Longrightarrow> same_device d (f d)"
  shows "on_staff (change_device P f) s"
  by (rule stf.stepwise_atomic) (simp add: change_device_def staff_step.changes_device [OF assms])

lemma on_staff_claims [intro!, simp]: "on_staff (claim_step i n) s" "on_staff (spend_recovery i h) s"
  by (rule stf.stepwise_atomic, simp add: claim_step_def spend_recovery_def Let_def, rule staff_step.writes, simp)+

lemma on_staff_second_factor [intro!, simp]: "on_staff (checkSecondFactor env u c) s"
  unfolding checkSecondFactor_def Let_def by (intro staff_rules on_staff_claims)

section \<open>Devices\<close>

lemma on_staff_save_device [intro!, simp]: "on_staff (save_device env i cred lbl st) s"
proof (rule stf.stepwise_atomic)
  let ?d = "new_device env i cred lbl st (admin_next s)"
  have "staff_step s (s\<lparr>staffDevices := insert_row ?d (staffDevices s), admin_next := Suc (admin_next s)\<rparr>)"
    if "length (devices_list i s) < MAX_DEVICES_PER_STAFF"
      "\<not> list_ex (\<lambda>x. sd_credentialId x = cr_id cred) (staffDevices s)"
    using that by (intro staff_step.registers) (simp_all add: new_device_def)
  then show "staff_step s (snd (save_device env i cred lbl st s))"
    by (auto simp: save_device_def staff_or_fail_def stm_simps staff_step.other_tables split: option.splits)
qed

lemma on_staff_register [intro!, simp]: "staff_gaps env \<Longrightarrow> on_staff (register_device env u tok r lbl st ip) s"
  unfolding register_device_def by (intro staff_rules on_staff_save_device on_staff_staff_audit)

lemma on_staff_authenticate [intro!, simp]: "staff_gaps env \<Longrightarrow> on_staff (authenticate_device env i tok r) s"
  unfolding authenticate_device_def update_device_def stepwise_read
  by (intro staff_rules stf.stepwise_updM_step staff_step.changes_device) (simp_all add: same_device_def)

lemma on_staff_approve [intro!, simp]: "on_staff (approve_device env i d ctx ip) s"
  unfolding approve_device_def
  by (intro staff_rules on_staff_change_device on_staff_audit_safe) (auto simp: same_device_def)

lemma on_staff_revoke [intro!, simp]: "staff_gaps env \<Longrightarrow> on_staff (revoke_device env i d ctx ip) s"
  unfolding revoke_device_def
  by (intro staff_rules on_staff_change_device on_staff_audit_safe on_staff_revoke_tokens) (auto simp: same_device_def)

section \<open>Sign-in\<close>

lemma on_staff_finish [intro!, simp]: "staff_gaps env \<Longrightarrow> on_staff (finishLogin env u ip d) s"
  unfolding finishLogin_def
  by (intro staff_rules on_staff_update on_staff_staff_audit on_staff_issue)
    (simp_all add: keeps_identity_def set_attempts_def)

lemma on_staff_complete [intro!, simp]: "staff_gaps env \<Longrightarrow> on_staff (completeLogin env u ip) s"
  unfolding completeLogin_def by (intro staff_rules on_staff_finish)

lemma on_staff_refused [intro!, simp]: "on_staff (refused_login env e ip) s"
  unfolding refused_login_def by (intro staff_rules on_staff_audit_safe)

lemma on_staff_check_password [intro!, simp]: "staff_gaps env \<Longrightarrow> on_staff (check_password env u p ip) s"
  unfolding check_password_def by (intro staff_rules on_staff_reserve on_staff_staff_audit)

lemma on_staff_login [intro!, simp]: "staff_gaps env \<Longrightarrow> on_staff (staff_login env e p ip) s"
  unfolding staff_login_def stepwise_read
  by (intro staff_rules on_staff_refused on_staff_check_password on_staff_complete)

lemma on_staff_verify [intro!, simp]: "staff_gaps env \<Longrightarrow> on_staff (verifyMfa env tok c ip) s"
  unfolding verifyMfa_def
  by (intro staff_rules on_staff_reads on_staff_reserve on_staff_second_factor on_staff_staff_audit on_staff_complete)

lemma on_staff_start [intro!, simp]: "staff_gaps env \<Longrightarrow> on_staff (startEnrollment env i) s"
  unfolding startEnrollment_def
  by (intro staff_rules on_staff_reads on_staff_update) (simp_all add: keeps_identity_def)

lemma on_staff_confirm [intro!, simp]: "staff_gaps env \<Longrightarrow> on_staff (confirmEnrollment env i c ip) s"
  unfolding confirmEnrollment_def Let_def split_beta
  by (intro staff_rules on_staff_reads on_staff_reserve on_staff_reset on_staff_update on_staff_staff_audit)
    (simp_all add: keeps_identity_def)

lemma on_staff_with_token [intro!, simp]:
  "staff_gaps env \<Longrightarrow> on_staff (startEnrollmentWithToken env tok) s"
  "staff_gaps env \<Longrightarrow> on_staff (confirmEnrollmentWithToken env tok c ip) s"
  unfolding startEnrollmentWithToken_def confirmEnrollmentWithToken_def
  by (intro staff_rules on_staff_reads on_staff_start on_staff_confirm on_staff_complete | assumption)+

lemma on_staff_disable [intro!, simp]: "staff_gaps env \<Longrightarrow> on_staff (disableTwoFactor env i p c ip) s"
  unfolding disableTwoFactor_def
  by (intro staff_rules on_staff_reads on_staff_reserve on_staff_second_factor on_staff_reset on_staff_staff_audit)

lemma on_staff_regenerate [intro!, simp]: "staff_gaps env \<Longrightarrow> on_staff (regenerateRecoveryCodes env i c ip) s"
  unfolding regenerateRecoveryCodes_def Let_def split_beta
  by (intro staff_rules on_staff_reads on_staff_reserve on_staff_second_factor on_staff_reset on_staff_update
      on_staff_staff_audit) (simp_all add: keeps_identity_def)

lemma on_staff_own_devices [intro!, simp]:
  "on_staff (addDeviceOptions env i) s" "staff_gaps env \<Longrightarrow> on_staff (addDevice env i tok r lbl ip) s"
  "on_staff (deviceOptions env tk m) s" "staff_gaps env \<Longrightarrow> on_staff (deviceAssert env tk tok ar ip) s"
  "staff_gaps env \<Longrightarrow> on_staff (deviceRegister env tk tok r lbl ip) s"
  unfolding addDeviceOptions_def addDevice_def deviceOptions_def deviceAssert_def deviceRegister_def
  by (intro staff_rules on_staff_reads on_staff_register on_staff_authenticate on_staff_finish | assumption)+

lemma on_staff_refresh [intro!, simp]: "staff_gaps env \<Longrightarrow> on_staff (staff_refresh env raw) s"
  unfolding staff_refresh_def stepwise_read
  by (intro staff_rules on_staff_revoke_family stf.stepwise_updM_step staff_step.revokes on_staff_issue)
    (simp_all add: same_staff_token_def)

lemma on_staff_logout [intro!, simp]: "on_staff (staff_logout env raw) s"
  unfolding staff_logout_def stepwise_read by (intro staff_rules on_staff_revoke_family)

lemma on_staff_change_password [intro!, simp]:
  "staff_gaps env \<Longrightarrow> on_staff (staff_changePassword env i p q ip d) s"
  unfolding staff_changePassword_def
  by (intro staff_rules on_staff_reads on_staff_update on_staff_revoke_tokens on_staff_staff_audit on_staff_issue)
    (simp_all add: keeps_identity_def)

section \<open>The staff screen\<close>

lemma on_staff_get [intro!, simp]: "on_staff (get_staff env i) s"
  unfolding get_staff_def by (intro staff_rules on_staff_reads)

lemma on_staff_insert [intro!, simp]: "on_staff (insert_staff u) s"
proof (rule stf.stepwise_atomic)
  assume ok: "staff_ok s"
  let ?v = "u\<lparr>su_id := admin_next s\<rparr>"
  have "su_id x \<noteq> admin_next s" if "x \<in> set (staff s)" for x
    using ok that by (auto simp: staff_ok_def staff_rows_ok_def)
  then have "find_staff (su_id ?v) s = None" by (simp add: find_staff_def find_row_None_iff)
  then have "staff_step s (s\<lparr>staff := insert_row ?v (staff s), admin_next := Suc (admin_next s)\<rparr>)"
    if "\<not> list_ex (\<lambda>x. su_email x = su_email u) (staff s)"
    using that by (intro staff_step.inserts) (auto simp: taken_email_def list_ex_iff)
  then show "staff_step s (snd (insert_staff u s))"
    by (auto simp: insert_staff_def Let_def staff_step.other_tables)
qed

lemma on_staff_create [intro!, simp]: "staff_gaps env \<Longrightarrow> on_staff (create_staff env dto ctx ip) s"
  unfolding create_staff_def by (intro staff_rules on_staff_insert on_staff_audit_record)

lemma staff_or_404_Inr: "staff_or_404 i s = (Inr u, s') \<Longrightarrow> find_staff i s = Some u \<and> s' = s"
  by (auto simp: staff_or_404_def stm_simps split: option.splits)

lemma find_staff_id: "find_staff i s = Some u \<Longrightarrow> su_id u = i \<and> u \<in> set (staff s)"
  by (auto simp: find_staff_def dest: find_row_SomeD)

lemma on_staff_save:
  assumes "su_id u < admin_next s"
  shows "on_staff (save_staff u) s"
proof (rule stf.stepwise_atomic)
  have "s\<lparr>staff := insert_row u (staff s)\<rparr> = s\<lparr>staff := insert_row u (staff s), admin_next := admin_next s\<rparr>" by simp
  then show "staff_step s (snd (save_staff u s))"
    using assms staff_step.inserts [of u s "admin_next s"] staff_step.saves [of u s]
    by (auto simp: save_staff_def taken_email_def staff_step.other_tables)
qed

lemma guardLastSuperAdmin_state: "snd (guardLastSuperAdmin u dto s) = s"
  by (simp add: guardLastSuperAdmin_def Let_def stm_simps)

lemma loaded_below:
  assumes "staff_or_404 i s = (Inr u, s1)" and "staff_ok s" and "staff_step\<^sup>*\<^sup>* s1 s2"
  shows "su_id u < admin_next s2"
proof -
  have "su_id u < admin_next s"
    using assms(2) find_staff_id staff_or_404_Inr [OF assms(1)] by (auto simp: staff_ok_def staff_rows_ok_def)
  then show ?thesis using staff_steps_next [OF assms(3)] staff_or_404_Inr [OF assms(1)] by simp
qed

lemma on_staff_guard [intro!, simp]: "on_staff (guardLastSuperAdmin u dto) s"
  by (rule stf.stepwise_same) (rule guardLastSuperAdmin_state)

lemma on_staff_update_member [intro!, simp]:
  "staff_gaps env \<Longrightarrow> on_staff (update_staff_member env i dto ctx ip) s"
  unfolding update_staff_member_def
  apply (intro staff_rules on_staff_reads on_staff_guard on_staff_save on_staff_revoke_tokens on_staff_audit_record)
     apply assumption
  subgoal for u s1 a s2 b s3 c s4
    using loaded_below [of i s u s1 s4] rtranclp_trans [of staff_step s1 s3 s4] by (simp add: with_changes_def)
  by assumption

lemma on_staff_resets [intro!, simp]:
  "staff_gaps env \<Longrightarrow> on_staff (staff_resetTwoFactor env i ctx ip) s"
  "staff_gaps env \<Longrightarrow> on_staff (staff_resetPassword env i ctx ip) s"
  "on_staff (staff_unlock env i ctx ip) s"
  unfolding staff_resetTwoFactor_def staff_resetPassword_def staff_unlock_def
  by (intro staff_rules on_staff_reads on_staff_update on_staff_revoke_tokens on_staff_audit_record on_staff_get
      | assumption | simp add: keeps_identity_def set_attempts_def clear_factor_def)+

lemma on_staff_remove [intro!, simp]: "staff_gaps env \<Longrightarrow> on_staff (remove_staff env i ctx ip) s"
  unfolding remove_staff_def
  by (intro staff_rules on_staff_reads stf.stepwise_updM_step staff_step.drops_tokens staff_step.deletes
      on_staff_audit_record)

section \<open>Requests\<close>

lemma on_staff_validate [intro!, simp]: "on_staff (validateStaff env ip tok) s"
  unfolding validateStaff_def by (intro staff_rules)

lemma on_staff_answers [intro!, simp]: "on_staff m s \<Longrightarrow> on_staff (answers f m) s"
  unfolding answers_def by (intro staff_rules)

lemma on_staff_guarded [intro!, simp]: "(\<And>ctx t. on_staff (h ctx) t) \<Longrightarrow> on_staff (guarded env ip tok p r h) s"
  unfolding guarded_def by (intro staff_rules on_staff_validate)

lemma on_staff_open: "staff_gaps env \<Longrightarrow> serve_open env ip req = Some m \<Longrightarrow> on_staff m s"
  by (cases req) (auto split: option.splits intro!: stf.stepwise_bindM)

lemma on_staff_signed_in [intro!, simp]: "staff_gaps env \<Longrightarrow> on_staff (serve_signed_in env ip ctx req) s"
  by (cases req) simp_all

lemma on_staff_serve [intro!, simp]: "staff_gaps env \<Longrightarrow> on_staff (serve_staff env ip tok req) s"
  unfolding serve_staff_def by (intro stf.stepwise_option on_staff_guarded on_staff_signed_in on_staff_open)

lemma on_staff_seed [intro!, simp]: "on_staff (seed_super_admin env e n) s"
  unfolding seed_super_admin_def by (intro staff_rules on_staff_insert)

lemma on_staff_device_tool [intro!, simp]: "on_staff (device_admin env a e) s"
  unfolding device_admin_def stepwise_read
proof (intro staff_rules)
  fix u s'
  show "on_staff (case a of
      TOOL_APPROVE \<Rightarrow>
        (let hit = (\<lambda>d. sd_staffId d = su_id u \<and> sd_status d = DEV_PENDING) in
         bindM (getM (\<lambda>s. affected hit (staffDevices s))) (\<lambda>n.
         bindM (change_device hit (\<lambda>d. d\<lparr>sd_status := DEV_ACTIVE, sd_approvedAt := Some (ad_now env)\<rparr>)) (\<lambda>_.
         retM n)))
    | TOOL_RESET \<Rightarrow>
        (let hit = (\<lambda>d. sd_staffId d = su_id u) in
         bindM (getM (\<lambda>s. affected hit (staffDevices s))) (\<lambda>n.
         bindM (change_device hit (\<lambda>d. d\<lparr>sd_status := DEV_REVOKED\<rparr>)) (\<lambda>_.
         bindM (updM (revoke_staff_tokens (\<lambda>t. sr_staffId t = su_id u) (ad_now env))) (\<lambda>_.
         retM n))))) s'"
    by (cases a) (auto simp: Let_def same_device_def intro!: stf.stepwise_bindM on_staff_change_device)
qed

text \<open>One request after another, in any order and with any interleaving; or a tool, run on the server.\<close>

inductive served_staff :: "admin_state \<Rightarrow> admin_state \<Rightarrow> bool" where
  request: "staff_gaps env \<Longrightarrow> served_staff s (snd (serve_staff env ip tok req s))"
| seed: "served_staff s (snd (seed_super_admin env e n s))"
| device_tool: "served_staff s (snd (device_admin env a e s))"
| other_tables: "staff s' = staff s \<Longrightarrow> staffDevices s' = staffDevices s \<Longrightarrow> staffTokens s' = staffTokens s \<Longrightarrow>
    admin_next s \<le> admin_next s' \<Longrightarrow> served_staff s s'"

lemma served_staff_steps: "served_staff s s' \<Longrightarrow> staff_ok s \<Longrightarrow> staff_step\<^sup>*\<^sup>* s s'"
proof (induction rule: served_staff.induct)
  case (request env s ip tok req)
  then show ?case using on_staff_serve [OF request(1)] by (simp add: stepwise_def)
next
  case (seed s env e n)
  then show ?case using on_staff_seed by (simp add: stepwise_def)
next
  case (device_tool s env a e)
  then show ?case using on_staff_device_tool by (simp add: stepwise_def)
qed (blast intro: staff_step.other_tables)

lemma staff_ok_empty [simp]: "staff_ok empty_admin"
  by (simp add: staff_ok_def staff_rows_ok_def devices_ok_def staff_tokens_ok_def devices_list_def empty_admin_def)

lemma served_staff_run:
  assumes "served_staff\<^sup>*\<^sup>* s s'" and "staff_ok s"
  shows "staff_ok s' \<and> staff_step\<^sup>*\<^sup>* s s'"
  using assms
proof (induction rule: rtranclp_induct)
  case (step y z)
  then have y: "staff_ok y" "staff_step\<^sup>*\<^sup>* s y" by simp_all
  then have "staff_step\<^sup>*\<^sup>* y z" using served_staff_steps [OF step(2)] by simp
  then show ?case using y stf.steps_keep by (meson rtranclp_trans)
qed simp

end
