(* ===== verification/StaffProps.thy ===== *)
theory StaffProps
  imports StaffServed Attempts AdminSamples
begin

text \<open>
  Properties of the staff sign-in: what its tables keep, that a revoked device is out, and how often
  passwords and codes can be guessed.
\<close>

section \<open>A sample run\<close>

lemma staff_env_gaps [simp]: "staff_gaps (staff_env now token)"
  by (simp add: staff_gaps_def staff_env_def)

definition staff_access_of :: "uuid \<Rightarrow> staff_access option" where
  "staff_access_of i = Some \<lparr>ac_sub = i, ac_did = None, ac_exp = 600\<rparr>"

definition after_request :: "date \<Rightarrow> string \<Rightarrow> staff_request \<Rightarrow> admin_state \<Rightarrow> admin_state" where
  "after_request now token req s = snd (serve_staff (staff_env now token) None (staff_access_of 50) req s)"

text \<open>The first super admin (row 50) changes the password and registers keys (rows 52 to 54).\<close>

definition seeded :: admin_state where
  "seeded = snd (seed_super_admin (staff_env 1000 ''a'') ''Ada@fiam.ng'' ''Ada'' empty_admin)"

definition key_request :: "string \<Rightarrow> staff_request" where
  "key_request k = PostDevices (Some (signChallenge (staff_env 4000 ''u'') 50 CH_REG)) k ''laptop''"

definition ada :: staff_user where
  "ada = \<lparr>su_id = 50, su_fullName = ''Ada'', su_email = ''ada@fiam.ng'', su_passwordHash = ''hnew password'',
     su_role = SUPER_ADMIN, su_status = STAFF_ACTIVE, su_mustChangePassword = False, su_failedLoginAttempts = 0,
     su_lockedUntil = None, su_totpSecretEnc = None, su_totpEnabledAt = None, su_totpLastStep = None,
     su_recoveryCodeHashes = [], su_lastLoginAt = None, su_createdAt = 1000\<rparr>"

definition by_ada :: "string \<Rightarrow> uuid option \<Rightarrow> audit_entry" where
  "by_ada action r = \<lparr>au_staffId = Some 50, au_staffEmail = Some ''ada@fiam.ng'', au_action = action,
     au_resourceType = None, au_resourceId = r, au_ip = None\<rparr>"

definition key_of :: "uuid \<Rightarrow> string \<Rightarrow> staff_device" where
  "key_of n k = \<lparr>sd_id = n, sd_staffId = 50, sd_label = ''laptop'', sd_credentialId = k, sd_publicKey = ''pk'',
     sd_counter = 0, sd_transports = [], sd_status = DEV_ACTIVE, sd_approvedBy = Some 50,
     sd_approvedAt = Some 4000, sd_lastUsedAt = None, sd_createdAt = 4000\<rparr>"

definition ada_console :: "staff_device list \<Rightarrow> admin_state" where
  "ada_console keys = \<lparr>staff = [ada],
     staffTokens = [\<lparr>sr_id = 51, sr_staffId = 50, sr_tokenHash = ''st'', sr_familyId = 900, sr_deviceId = None,
       sr_expiresAt = 86403000, sr_revokedAt = None\<rparr>],
     staffDevices = keys, postings = [], broadcasts = [],
     auditLog = by_ada ''auth.password_changed'' None # map (\<lambda>k. by_ada ''auth.device_added'' (Some (sd_id k))) keys,
     adminOut = [], admin_next = 52 + length keys\<rparr>"

definition keys :: "staff_device list" where
  "keys = [key_of 52 ''k1'', key_of 53 ''k2'', key_of 54 ''k3'']"

lemma after_request_served: "served_staff s (after_request now token req s)"
  unfolding after_request_def by (rule served_staff.request) simp

lemma sample_run:
  "after_request 3000 ''t'' (PostChangePassword ''tmp'' ''new password'') seeded = ada_console []"
  "after_request 4000 ''u'' (key_request ''k1'') (ada_console []) = ada_console (take 1 keys)"
  "after_request 4000 ''u'' (key_request ''k2'') (ada_console (take 1 keys)) = ada_console (take 2 keys)"
  "after_request 4000 ''u'' (key_request ''k3'') (ada_console (take 2 keys)) = ada_console keys"
  by code_simp+

lemma keys_reached: "served_staff\<^sup>*\<^sup>* empty_admin (ada_console keys)"
proof -
  have "served_staff empty_admin seeded" unfolding seeded_def by (rule served_staff.seed)
  moreover have "served_staff seeded (ada_console [])"
    "served_staff (ada_console []) (ada_console (take 1 keys))"
    "served_staff (ada_console (take 1 keys)) (ada_console (take 2 keys))"
    "served_staff (ada_console (take 2 keys)) (ada_console keys)"
    unfolding sample_run [symmetric] by (rule after_request_served)+
  ultimately show ?thesis by (meson converse_rtranclp_into_rtranclp rtranclp.rtrancl_refl)
qed

section \<open>Tables\<close>

lemma served_from_empty:
  "served_staff\<^sup>*\<^sup>* empty_admin s \<Longrightarrow> staff_ok s"
  by (drule served_staff_run) simp_all

text \<open>
  C14: After any requests of staff and anyone else to the console, in any order and overlapping in any
  way, and any use of the server tools: no two staff accounts share an e-mail, nobody has more than
  three devices that are not revoked, no passkey is registered twice, and no two refresh tokens share
  a hash.
\<close>

theorem staff_accounts_invariant:
  assumes "served_staff\<^sup>*\<^sup>* empty_admin s"
  shows "distinct (map su_email (staff s)) \<and>
    length (filter (\<lambda>d. sd_staffId d = i \<and> sd_status d \<noteq> DEV_REVOKED) (staffDevices s)) \<le> 3 \<and>
    distinct (map sd_credentialId (staffDevices s)) \<and> distinct (map sr_tokenHash (staffTokens s))"
proof -
  have "live_device i = (\<lambda>d. sd_staffId d = i \<and> sd_status d \<noteq> DEV_REVOKED)"
    by (rule ext) (simp add: live_device_def)
  then show ?thesis using served_from_empty [OF assms]
    by (simp add: staff_ok_def staff_rows_ok_def devices_ok_def staff_tokens_ok_def devices_list_def
        MAX_DEVICES_PER_STAFF_def) metis
qed

text \<open>Three keys, and the fourth is refused.\<close>

theorem staff_accounts_invariant_witness:
  "length (filter (\<lambda>d. sd_staffId d = 50 \<and> sd_status d \<noteq> DEV_REVOKED) (staffDevices (ada_console keys))) = 3 \<and>
    length (filter (\<lambda>d. sd_staffId d = 50 \<and> sd_status d \<noteq> DEV_REVOKED) (staffDevices (ada_console keys))) \<le> 3 \<and>
    fst (serve_staff (staff_env 5000 ''u'') None (staff_access_of 50) (key_request ''k4'') (ada_console keys)) = Inl limitError"
proof -
  have "length (filter (\<lambda>d. sd_staffId d = 50 \<and> sd_status d \<noteq> DEV_REVOKED) (staffDevices (ada_console keys))) \<le> 3"
    using staff_accounts_invariant [OF keys_reached] by blast
  moreover have "length (filter (\<lambda>d. sd_staffId d = 50 \<and> sd_status d \<noteq> DEV_REVOKED) (staffDevices (ada_console keys))) = 3"
    by code_simp
  moreover have "fst (serve_staff (staff_env 5000 ''u'') None (staff_access_of 50) (key_request ''k4'') (ada_console keys)) =
      Inl limitError"
    by code_simp
  ultimately show ?thesis by blast
qed

section \<open>Revoked devices\<close>

definition revoked_in :: "uuid \<Rightarrow> admin_state \<Rightarrow> bool" where
  "revoked_in d s \<longleftrightarrow> (\<exists>e \<in> set (staffDevices s). sd_id e = d \<and> sd_status e = DEV_REVOKED)"

lemma revoked_in_steps: "revoked_in d s \<Longrightarrow> staff_step\<^sup>*\<^sup>* s s' \<Longrightarrow> revoked_in d s'"
  using staff_steps_devices [of s s'] unfolding revoked_in_def devices_kept_def same_device_def by metis

lemma revoked_only:
  assumes "staff_ok s" and "revoked_in d s" and "e \<in> set (staffDevices s)" and "sd_id e = d"
  shows "sd_status e = DEV_REVOKED"
proof -
  obtain r where r: "r \<in> set (staffDevices s)" "sd_id r = d" "sd_status r = DEV_REVOKED"
    using assms(2) by (auto simp: revoked_in_def)
  have "distinct (map sd_id (staffDevices s))" using assms(1) by (simp add: staff_ok_def devices_ok_def)
  then have "e = r" using r assms(3,4) by (metis distinct_map inj_onD)
  then show ?thesis using r(3) by simp
qed

lemma revoked_not_active: "staff_ok s \<Longrightarrow> revoked_in d s \<Longrightarrow> \<not> devices_isActive d i s"
  by (auto simp: devices_isActive_def list_ex_iff dest: revoked_only)

lemma revoke_device_revokes:
  assumes "revoke_device env i d ctx ip s = (Inr u, s')" and "staff_gaps env" and "staff_ok s"
  shows "revoked_in d s'"
proof -
  let ?P = "\<lambda>x. sd_id x = d \<and> sd_staffId x = i \<and> sd_status x \<in> {DEV_ACTIVE, DEV_PENDING}"
  let ?s1 = "s\<lparr>staffDevices := update_where ?P (\<lambda>x. x\<lparr>sd_status := DEV_REVOKED\<rparr>) (staffDevices s)\<rparr>"
  let ?rest = "bindM (others_at env 12) (\<lambda>_.
    bindM (updM (revoke_staff_tokens (\<lambda>t. sr_deviceId t = Some d) (ad_now env))) (\<lambda>_.
    audit_recordSafe env (actor_audit ctx ''auth.device_revoked'' None d ip)))"
  have run: "0 < affected ?P (staffDevices s)" "?rest ?s1 = (Inr u, s')"
    using assms(1) by (auto simp: revoke_device_def bindM_def change_device_def assertM_def split: if_splits)
  then obtain x where x: "x \<in> set (staffDevices s)" "?P x"
    using affected_0_iff [of ?P "staffDevices s"] by auto
  have "x\<lparr>sd_status := DEV_REVOKED\<rparr> \<in> set (staffDevices ?s1)"
    using x imageI [OF x(1), of "\<lambda>y. if ?P y then y\<lparr>sd_status := DEV_REVOKED\<rparr> else y"] by (simp add: set_update_where)
  then have in1: "revoked_in d ?s1" using x(2) unfolding revoked_in_def by (intro bexI) simp_all
  have "staff_ok ?s1"
    using staff_step_keeps [OF staff_step.changes_device, of ?P "\<lambda>x. x\<lparr>sd_status := DEV_REVOKED\<rparr>" s] assms(3)
    by (simp add: same_device_def)
  moreover have "on_staff ?rest ?s1"
    using assms(2) by (intro staff_rules on_staff_revoke_tokens on_staff_audit_safe)
  ultimately have "staff_step\<^sup>*\<^sup>* ?s1 (snd (?rest ?s1))" unfolding stepwise_def by blast
  then show ?thesis using revoked_in_steps [OF in1] unfolding run(2) snd_conv by blast
qed

lemma refresh_of_revoked:
  assumes "staff_ok s" and "revoked_in d s" and "staff_gaps env" and "ad_deviceRequired env"
    and "find_staff_token (ad_sha256 env raw) s = Some t" and "sr_deviceId t = Some d"
  shows "fst (staff_refresh env raw s) = Inl (Unauthorized '''')"
proof -
  let ?f = "\<lambda>s. s\<lparr>staffTokens := update_where (by_key sr_id (sr_id t)) (\<lambda>x. x\<lparr>sr_revokedAt := Some (ad_now env)\<rparr>) (staffTokens s)\<rparr>"
  have steps: "staff_step\<^sup>*\<^sup>* s (ad_others env 8 s)" using assms(1,3) by (simp add: staff_gaps_def)
  then have "staff_ok (ad_others env 8 s)" using assms(1) by (rule stf.steps_keep)
  moreover have "revoked_in d (ad_others env 8 s)" by (rule revoked_in_steps [OF assms(2) steps])
  ultimately have "\<not> devices_isActive d i (?f (ad_others env 8 s))" for i
    using revoked_not_active by (simp add: devices_isActive_def)
  then show ?thesis using assms(4-6)
    by (simp add: staff_refresh_def bindM_def revokeStaffFamily_def someM_def assertM_def split: option.split)
qed

lemma assert_of_revoked:
  assumes "staff_ok s" and "revoked_in d s"
    and "deviceAssert env tok ch r ip s = (Inr (SignedIn ses), s')"
  shows "ac_did (ssn_access ses) \<noteq> Some d"
proof -
  obtain u s1 x s2 where u: "readMfaToken env tok MFA_DEVICE s = (Inr u, s1)"
    and x: "authenticate_device env (su_id u) ch r s1 = (Inr x, s2)"
    and f: "finishLogin env u ip (Some (sd_id x)) s2 = (Inr (SignedIn ses), s')"
    using assms(3) unfolding deviceAssert_def by (blast elim: bindM_InrE)
  have s1: "s1 = s" using u by (auto simp: readMfaToken_def elim!: bindM_InrE)
  have "x \<in> set (active_devices (su_id u) s)"
    using x unfolding s1 authenticate_device_def
    by (auto elim!: bindM_InrE dest!: find_row_SomeD)
  then have "sd_id x \<noteq> d" using revoked_only [OF assms(1,2)] by (auto simp: active_devices_def)
  moreover have "ac_did (ssn_access ses) = Some (sd_id x)"
    using f by (auto simp: finishLogin_def issueStaffTokens_def elim!: bindM_InrE)
  ultimately show ?thesis by simp
qed

text \<open>
  C12: Once a device was revoked, it is out for good: whatever anyone does afterwards, and however it
  overlaps, with the device lock on an access token of the device is refused on every route that
  needs one, a refresh token of the device is not exchanged, and a sign-in never ends with the device.
\<close>

theorem revoked_device_is_out:
  assumes "served_staff\<^sup>*\<^sup>* empty_admin s" and "staff_gaps env"
    and "revoke_device env i d ctx ip s = (Inr u, s1)" and "served_staff\<^sup>*\<^sup>* s1 s2"
    and "staff_gaps env'" and "ad_deviceRequired env'"
  shows "(ac_did c = Some d \<longrightarrow> serve_open env' ip' req = None \<longrightarrow>
      serve_staff env' ip' (Some c) req s2 = (Inl (Unauthorized ''''), s2)) \<and>
    (find_staff_token (ad_sha256 env' raw) s2 = Some t \<and> sr_deviceId t = Some d \<longrightarrow>
      fst (staff_refresh env' raw s2) = Inl (Unauthorized '''')) \<and>
    (fst (deviceAssert env' tok ch r ip' s2) = Inr (SignedIn ses) \<longrightarrow> ac_did (ssn_access ses) \<noteq> Some d)"
proof -
  have ok: "staff_ok s" using served_from_empty [OF assms(1)] .
  have "staff_step\<^sup>*\<^sup>* s s1" using on_staff_revoke [OF assms(2)] ok assms(3) unfolding stepwise_def by (metis snd_conv)
  then have ok1: "staff_ok s1" using ok by (rule stf.steps_keep)
  have ok2: "staff_ok s2" and steps: "staff_step\<^sup>*\<^sup>* s1 s2" using served_staff_run [OF assms(4) ok1] by simp_all
  have out: "revoked_in d s2" using revoked_in_steps [OF revoke_device_revokes [OF assms(3,2) ok] steps] .
  have "serve_staff env' ip' (Some c) req s2 = (Inl (Unauthorized ''''), s2)"
    if "ac_did c = Some d" "serve_open env' ip' req = None"
    using that revoked_not_active [OF ok2 out] assms(6)
    by (simp add: serve_staff_def guarded_def validateStaff_def bindM_def someM_def assertM_def split: option.split)
  then show ?thesis
    using refresh_of_revoked [OF ok2 out assms(5,6)] assert_of_revoked [OF ok2 out] by (metis prod.collapse)
qed

definition ada_ctx :: staff_ctx where
  "ada_ctx = \<lparr>cx_staffId = 50, cx_deviceId = Some 53, cx_email = ''ada@fiam.ng'', cx_role = SUPER_ADMIN,
     cx_mustChangePassword = False, cx_twoFactorEnabled = False, cx_ip = None\<rparr>"

definition locked_env :: "date \<Rightarrow> string \<Rightarrow> admin_env" where
  "locked_env now token = (staff_env now token)\<lparr>ad_deviceRequired := True\<rparr>"

lemma locked_env_simps [simp]: "staff_gaps (locked_env now token)" "ad_deviceRequired (locked_env now token)"
  by (simp_all add: staff_gaps_def staff_env_def locked_env_def)

definition key_revoked :: admin_state where
  "key_revoked = snd (revoke_device (staff_env 5000 ''w'') 50 52 ada_ctx None (ada_console keys))"

text \<open>The first key opens a route; once revoked it does not, while the second one still does.\<close>

theorem revoked_device_is_out_witness:
  "fst (serve_staff (locked_env 6000 ''x'') None (Some \<lparr>ac_sub = 50, ac_did = Some 52, ac_exp = 600\<rparr>) GetStaffList
      (ada_console keys)) = Inr (AnswerStaffList [ada]) \<and>
    serve_staff (locked_env 6000 ''x'') None (Some \<lparr>ac_sub = 50, ac_did = Some 52, ac_exp = 600\<rparr>) GetStaffList
      key_revoked = (Inl (Unauthorized ''''), key_revoked) \<and>
    fst (serve_staff (locked_env 6000 ''x'') None (Some \<lparr>ac_sub = 50, ac_did = Some 53, ac_exp = 600\<rparr>) GetStaffList
      key_revoked) = Inr (AnswerStaffList [ada])"
proof (intro conjI)
  have run: "revoke_device (staff_env 5000 ''w'') 50 52 ada_ctx None (ada_console keys) = (Inr (), key_revoked)"
  proof -
    have "fst (revoke_device (staff_env 5000 ''w'') 50 52 ada_ctx None (ada_console keys)) = Inr ()" by code_simp
    then show ?thesis unfolding key_revoked_def by (metis prod.collapse)
  qed
  show "serve_staff (locked_env 6000 ''x'') None (Some \<lparr>ac_sub = 50, ac_did = Some 52, ac_exp = 600\<rparr>) GetStaffList
      key_revoked = (Inl (Unauthorized ''''), key_revoked)"
    using revoked_device_is_out [OF keys_reached _ run, of key_revoked "locked_env 6000 ''x''"
      "\<lparr>ac_sub = 50, ac_did = Some 52, ac_exp = 600\<rparr>" None GetStaffList]
    by simp
qed code_simp+

section \<open>Guesses\<close>

definition staff_guard :: "uuid \<Rightarrow> admin_state \<Rightarrow> (nat \<times> date option) option" where
  "staff_guard i s = map_option (\<lambda>u. (su_failedLoginAttempts u, su_lockedUntil u)) (find_staff i s)"

text \<open>The console counts as the auth service does.\<close>

lemma staff_reserve_eq: "staff_reserve = reserve"
proof (intro ext)
  fix now g
  show "staff_reserve now g = reserve now g"
    by (cases g, cases "snd g")
      (simp_all add: staff_reserve_def reserve_def Let_def STAFF_MAX_FAILED_ATTEMPTS_def MAX_FAILED_ATTEMPTS_def
        LOCK_MINUTES_def LOCKOUT_SECONDS_def)
qed

lemma reserveAttempt_guard:
  "reserveAttempt t i s =
    (case staff_guard i s of
       None \<Rightarrow> (Inl lockedError, s)
     | Some g \<Rightarrow> (case reserve t g of
         None \<Rightarrow> (Inl lockedError, s)
       | Some g' \<Rightarrow> (Inr (snd g' \<noteq> None), update_staff i (set_attempts g') s)))"
  by (simp add: reserveAttempt_def staff_guard_def staff_reserve_eq split: option.splits)

lemma find_staff_update:
  "(\<And>u. su_id (f u) = su_id u) \<Longrightarrow>
    find_staff j (update_staff i f s) = (if j = i then map_option f (find_staff j s) else find_staff j s)"
  unfolding find_staff_def update_staff_def by (simp add: find_row_update_where_key)

lemma staff_guard_update: "staff_guard i s = Some g \<Longrightarrow> staff_guard i (update_staff i (set_attempts g') s) = Some g'"
  by (auto simp: staff_guard_def find_staff_update set_attempts_def)

interpretation member: attempt_counter "staff_guard i" "\<lambda>t. reserveAttempt t i" lockedError for i
proof
  fix s t g g'
  show "reserveAttempt t i s = (Inl lockedError, s)" if "staff_guard i s = None"
    using that by (simp add: reserveAttempt_guard)
  show "reserveAttempt t i s = (Inl lockedError, s)" if "staff_guard i s = Some g" "reserve t g = None"
    using that by (simp add: reserveAttempt_guard)
  show "\<exists>s'. reserveAttempt t i s = (Inr (snd g' \<noteq> None), s') \<and> staff_guard i s' = Some g'"
    if "staff_guard i s = Some g" "reserve t g = Some g'"
    using that by (simp add: reserveAttempt_guard staff_guard_update)
qed

definition quiet_gaps :: "uuid \<Rightarrow> admin_env \<Rightarrow> bool" where
  "quiet_gaps i env \<longleftrightarrow> (\<forall>n s. staff_guard i (ad_others env n s) = staff_guard i s)"

lemma check_password_guard:
  assumes "check_password env u p ip s = (Inr v, s')" and "quiet_gaps (su_id u) env"
  shows "\<exists>g. staff_guard (su_id u) s = Some g \<and> staff_guard (su_id u) s' = staff_reserve (ad_now env) g \<and>
    staff_reserve (ad_now env) g \<noteq> None"
proof -
  obtain b s1 where r: "reserveAttempt (ad_now env) (su_id u) s = (Inr b, s1)" "s' = ad_others env 0 s1"
    using assms(1) unfolding check_password_def
    by (auto simp: staff_audit_def audit_recordSafe_def elim!: bindM_InrE split: if_splits)
  obtain g g' where g: "staff_guard (su_id u) s = Some g" "reserve (ad_now env) g = Some g'"
    using r(1) by (auto simp: reserveAttempt_guard split: option.splits)
  then have "staff_guard (su_id u) s1 = Some g'"
    using r(1) member.attempt_counted [OF g] by auto
  then show ?thesis using g r(2) assms(2) by (simp add: quiet_gaps_def staff_reserve_eq)
qed

lemma refused_login_Inl [simp]: "fst (refused_login env e ip s) = Inl invalid_login"
  by (simp add: refused_login_def audit_recordSafe_def audit_record_def stm_simps split: sum.split prod.split)

lemma refused_login_not_Inr [simp]: "refused_login env e ip s \<noteq> (Inr a, s')"
  using refused_login_Inl [of env e ip s] by (metis fst_conv sum.distinct(1))

lemma finishLogin_SignedIn: "finishLogin env u ip d s = (Inr a, s') \<Longrightarrow> \<exists>ses. a = SignedIn ses"
  by (auto simp: finishLogin_def elim!: bindM_InrE)

lemma staff_login_known:
  "find_staff_by_email e s = Some u \<Longrightarrow> active_staff u \<Longrightarrow>
    staff_login env e p ip s =
      bindM (check_password env u p ip) (\<lambda>_.
        case requiredMfaStep env u of
          Some st \<Rightarrow> retM (NextStep st (signMfaToken env (su_id u) st) None)
        | None \<Rightarrow> completeLogin env u ip) s"
  by (simp add: staff_login_def bindM_def)

lemma staff_login_NextStep:
  assumes "staff_login env e p ip s = (Inr (NextStep st tok dv), s')"
  obtains u where "find_staff_by_email e s = Some u" and "active_staff u" and "mt_sub tok = su_id u"
    and "check_password env u p ip s = (Inr (), s')"
proof -
  obtain u where u: "find_staff_by_email e s = Some u" "active_staff u"
    using assms
    by (cases "find_staff_by_email e s") (auto simp: staff_login_def bindM_def split: if_splits)
  obtain a s1 where s1: "check_password env u p ip s = (Inr a, s1)"
    and rest: "(case requiredMfaStep env u of
           Some st \<Rightarrow> retM (NextStep st (signMfaToken env (su_id u) st) None)
         | None \<Rightarrow> completeLogin env u ip) s1 = (Inr (NextStep st tok dv), s')"
    using assms unfolding staff_login_known [OF u] by (rule bindM_InrE)
  have "mt_sub tok = su_id u \<and> s' = s1"
    using rest by (cases "requiredMfaStep env u")
      (auto simp: completeLogin_def signMfaToken_def bindM_def dest!: finishLogin_SignedIn split: if_splits)
  then show thesis using that u s1 by simp
qed


definition six_staff_guesses :: "admin_state guess_event list" where
  "six_staff_guesses = map Reserve [1000, 1000, 2000, 3000, 4000, 5000]"


end
