(* ===== verification/StaffGates.thy ===== *)
theory StaffGates
  imports StaffProps
begin

text \<open>
  What a sign-in to the console has shown: an exchange of requests and answers in which the step tokens
  presented were handed out before, and the checks passed on the way to a session.  Nothing is assumed
  about what happened to the tables between two requests.
\<close>

section \<open>Exchanges\<close>

type_synonym exchange = "admin_env \<times> staff_request \<times> admin_state \<times> staff_answer"

fun step_tokens :: "staff_answer \<Rightarrow> mfa_claims list" where
  "step_tokens (AnswerSignIn (NextStep st tok d)) = [tok]"
| "step_tokens (AnswerEnrolled (NextStep st tok d) codes) = [tok]"
| "step_tokens a = []"

fun opened :: "staff_answer \<Rightarrow> staff_session option" where
  "opened (AnswerSignIn (SignedIn ses)) = Some ses"
| "opened (AnswerEnrolled (SignedIn ses) codes) = Some ses"
| "opened a = None"

fun presented :: "staff_request \<Rightarrow> mfa_claims option" where
  "presented (PostMfaVerify tok c) = tok"
| "presented (PostMfaEnrollStart tok) = tok"
| "presented (PostMfaEnrollConfirm tok c) = tok"
| "presented (PostDeviceOptions tok m) = tok"
| "presented (PostDeviceAssert tok ch r) = tok"
| "presented (PostDeviceRegister tok ch r l) = tok"
| "presented req = None"

definition handed_out :: "exchange list \<Rightarrow> mfa_claims set" where
  "handed_out hist = (\<Union>(env, req, s, a) \<in> set hist. set (step_tokens a))"

inductive sign_ins :: "bool \<Rightarrow> bool \<Rightarrow> exchange list \<Rightarrow> bool" for mfa locked where
  start: "sign_ins mfa locked []"
| asks: "sign_ins mfa locked hist \<Longrightarrow> ad_totpRequired env = mfa \<Longrightarrow> ad_deviceRequired env = locked \<Longrightarrow>
    set_option (presented req) \<subseteq> handed_out hist \<Longrightarrow> serve_staff env ip access req s = (Inr a, s') \<Longrightarrow>
    sign_ins mfa locked (hist @ [(env, req, s, a)])"

section \<open>What was shown\<close>

definition password_shown :: "exchange list \<Rightarrow> uuid \<Rightarrow> mfa_step option \<Rightarrow> bool" where
  "password_shown hist i need \<longleftrightarrow>
    (\<exists>env e p s a u. (env, PostLogin e p, s, a) \<in> set hist \<and> find_staff_by_email e s = Some u \<and> su_id u = i \<and>
      active_staff u \<and> ad_verifyHash env (su_passwordHash u) p \<and> need = requiredMfaStep env u)"

text \<open>A code of the authenticator, or a recovery code that is still stored when it is spent.\<close>

definition right_code :: "admin_env \<Rightarrow> uuid \<Rightarrow> string \<Rightarrow> admin_state \<Rightarrow> bool" where
  "right_code env i c s \<longleftrightarrow>
    (let t = ad_others env 1 (snd (reserveAttempt (ad_now env) i s)) in
     (\<exists>u secret n. find_staff i s = Some u \<and> su_totpSecretEnc u = Some secret \<and>
        totp_verify env secret (js_trim c) = Some n) \<or>
     (\<exists>v \<in> set (staff t). su_id v = i \<and> hashRecovery env (js_trim c) \<in> set (su_recoveryCodeHashes v)))"

definition right_first_code :: "admin_env \<Rightarrow> uuid \<Rightarrow> string \<Rightarrow> admin_state \<Rightarrow> bool" where
  "right_first_code env i c s \<longleftrightarrow>
    (\<exists>u secret n. find_staff i s = Some u \<and> su_totpSecretEnc u = Some secret \<and> totp_verify env secret c = Some n)"

fun factor_shown :: "exchange list \<Rightarrow> uuid \<Rightarrow> mfa_step option \<Rightarrow> bool" where
  "factor_shown hist i None = True"
| "factor_shown hist i (Some MFA_VERIFY) =
    (\<exists>env tok c s a. (env, PostMfaVerify tok c, s, a) \<in> set hist \<and> right_code env i c s)"
| "factor_shown hist i (Some MFA_ENROLL) =
    (\<exists>env tok c s a. (env, PostMfaEnrollConfirm tok c, s, a) \<in> set hist \<and> right_first_code env i c s)"
| "factor_shown hist i (Some MFA_DEVICE) = False"

definition device_shown :: "exchange list \<Rightarrow> uuid \<Rightarrow> uuid \<Rightarrow> bool" where
  "device_shown hist i d \<longleftrightarrow>
    (\<exists>env tok ch r s a x expected. (env, PostDeviceAssert tok ch r, s, a) \<in> set hist \<and> x \<in> set (staffDevices s) \<and>
      sd_id x = d \<and> sd_staffId x = i \<and> sd_status x = DEV_ACTIVE \<and> readChallenge env ch i CH_AUTH = Inr expected \<and>
      ad_assertion env expected r x \<noteq> None)"

text \<open>What a token of a step stands for.\<close>

definition token_earned :: "bool \<Rightarrow> exchange list \<Rightarrow> mfa_claims \<Rightarrow> bool" where
  "token_earned locked hist tok \<longleftrightarrow>
    (case mt_step tok of
       MFA_DEVICE \<Rightarrow> locked \<and> (\<exists>need. password_shown hist (mt_sub tok) need \<and> factor_shown hist (mt_sub tok) need)
     | st \<Rightarrow> password_shown hist (mt_sub tok) (Some st))"

lemma password_shown_mono: "password_shown hist i need \<Longrightarrow> password_shown (hist @ xs) i need"
  unfolding password_shown_def set_append by blast

lemma factor_shown_mono: "factor_shown hist i need \<Longrightarrow> factor_shown (hist @ xs) i need"
proof (cases "(hist, i, need)" rule: factor_shown.cases)
  case (2 h j)
  then show "factor_shown hist i need \<Longrightarrow> factor_shown (hist @ xs) i need" by (simp only: prod.inject factor_shown.simps set_append) blast
next
  case (3 h j)
  then show "factor_shown hist i need \<Longrightarrow> factor_shown (hist @ xs) i need" by (simp only: prod.inject factor_shown.simps set_append) blast
qed simp_all

lemma device_shown_mono: "device_shown hist i d \<Longrightarrow> device_shown (hist @ xs) i d"
  unfolding device_shown_def set_append by blast

lemma token_earned_mono: "token_earned locked hist tok \<Longrightarrow> token_earned locked (hist @ xs) tok"
  using password_shown_mono factor_shown_mono
  by (cases "mt_step tok") (simp add: token_earned_def, blast?)+

section \<open>The handlers\<close>

lemma readMfaToken_Inr:
  assumes "readMfaToken env tok st s = (Inr u, s')"
  obtains c where "tok = Some c" and "mt_step c = st" and "find_staff (mt_sub c) s = Some u" and "su_id u = mt_sub c"
    and "s' = s"
proof -
  obtain c where c: "tok = Some c" "mt_step c = st" "find_staff (mt_sub c) s = Some u" "s' = s"
    using assms by (auto simp: readMfaToken_def bindM_def someM_def assertM_def split: option.splits if_splits)
  then show thesis using that find_staff_id [OF c(3)] by blast
qed

lemma login_shows:
  assumes "staff_login env e p ip s = (Inr a, s')"
  obtains u where "find_staff_by_email e s = Some u" and "active_staff u"
    and "ad_verifyHash env (su_passwordHash u) p"
    and "(\<exists>st. requiredMfaStep env u = Some st \<and> a = NextStep st (signMfaToken env (su_id u) st) None) \<or>
      (requiredMfaStep env u = None \<and> (\<exists>s1. completeLogin env u ip s1 = (Inr a, s')))"
proof -
  obtain u where u: "find_staff_by_email e s = Some u" "active_staff u"
    using assms by (cases "find_staff_by_email e s") (auto simp: staff_login_def bindM_def split: if_splits)
  have run: "bindM (check_password env u p ip) (\<lambda>_.
      case requiredMfaStep env u of
        Some st \<Rightarrow> retM (NextStep st (signMfaToken env (su_id u) st) None)
      | None \<Rightarrow> completeLogin env u ip) s = (Inr a, s')"
    using assms u by (simp add: staff_login_def bindM_def)
  then obtain b s1 where pw: "check_password env u p ip s = (Inr b, s1)"
    and rest: "(case requiredMfaStep env u of
        Some st \<Rightarrow> retM (NextStep st (signMfaToken env (su_id u) st) None)
      | None \<Rightarrow> completeLogin env u ip) s1 = (Inr a, s')" by (rule bindM_InrE)
  have "ad_verifyHash env (su_passwordHash u) p"
    using pw by (auto simp: check_password_def elim!: bindM_InrE split: if_splits)
  then show thesis using that [OF u] rest by (cases "requiredMfaStep env u") auto
qed

lemma completeLogin_Inr:
  assumes "completeLogin env u ip s = (Inr a, s')"
  shows "if ad_deviceRequired env then \<exists>d. a = NextStep MFA_DEVICE (signMfaToken env (su_id u) MFA_DEVICE) (Some d)
    else \<exists>ses. a = SignedIn ses \<and> ac_sub (ssn_access ses) = su_id u"
  using assms
  by (auto simp: completeLogin_def finishLogin_def issueStaffTokens_def elim!: bindM_InrE split: if_splits)

lemma checkSecondFactor_Inr:
  assumes "checkSecondFactor env u c t = (Inr (Some how), t')"
  shows "(\<exists>secret n. su_totpSecretEnc u = Some secret \<and> totp_verify env secret (js_trim c) = Some n) \<or>
    (\<exists>v \<in> set (staff t). su_id v = su_id u \<and> hashRecovery env (js_trim c) \<in> set (su_recoveryCodeHashes v))"
proof (cases "six_digits (js_trim c)")
  case True
  then show ?thesis using assms
    by (auto simp: checkSecondFactor_def Let_def bindM_def split: option.splits if_splits)
next
  case False
  let ?hit = "\<lambda>v. su_id v = su_id u \<and> hashRecovery env (js_trim c) \<in> set (su_recoveryCodeHashes v)"
  have "0 < affected ?hit (staff t)"
    using assms False
    by (auto simp: checkSecondFactor_def Let_def bindM_def spend_recovery_def split: if_splits)
  then have "affected ?hit (staff t) \<noteq> 0" by simp
  then show ?thesis unfolding affected_0_iff by blast
qed

lemma verify_shows:
  assumes "verifyMfa env tok c ip s = (Inr a, s')"
  obtains claims u s1 where "tok = Some claims" and "mt_step claims = MFA_VERIFY" and "su_id u = mt_sub claims"
    and "right_code env (mt_sub claims) c s" and "completeLogin env u ip s1 = (Inr a, s')"
proof -
  obtain u t where u: "readMfaToken env tok MFA_VERIFY s = (Inr u, t)"
    and run: "bindM (assertM (enrolled u) start_again) (\<lambda>_.
      bindM (reserveAttempt (ad_now env) (su_id u)) (\<lambda>justLocked.
      bindM (others_at env 1) (\<lambda>_.
      bindM (checkSecondFactor env u c) (\<lambda>how.
      case how of
        None \<Rightarrow> bindM (staff_audit env u (attempt_action justLocked ''auth.mfa_failed'') None ip) (\<lambda>_.
                failM (Unauthorized ''Invalid code''))
      | Some m \<Rightarrow> completeLogin env u ip)))) t = (Inr a, s')"
    using assms unfolding verifyMfa_def by (rule bindM_InrE)
  obtain claims where cl: "tok = Some claims" "mt_step claims = MFA_VERIFY" "find_staff (mt_sub claims) s = Some u"
    "su_id u = mt_sub claims" "t = s"
    using u by (rule readMfaToken_Inr)
  obtain j s0 how s1 where j: "reserveAttempt (ad_now env) (su_id u) s = (Inr j, s0)"
    and how: "checkSecondFactor env u c (ad_others env 1 s0) = (Inr how, s1)"
    and rest: "(case how of
        None \<Rightarrow> bindM (staff_audit env u (attempt_action j ''auth.mfa_failed'') None ip) (\<lambda>_.
                failM (Unauthorized ''Invalid code''))
      | Some m \<Rightarrow> completeLogin env u ip) s1 = (Inr a, s')"
    using run unfolding cl(5) by (auto elim!: bindM_InrE)
  obtain m where m: "how = Some m"
    using rest by (cases how) (auto elim!: bindM_InrE)
  have "right_code env (mt_sub claims) c s"
    using checkSecondFactor_Inr [OF how [unfolded m]] cl(3,4) j by (auto simp: right_code_def)
  then show thesis using that [OF cl(1,2,4)] rest m by simp
qed

lemma enrol_shows:
  assumes "confirmEnrollmentWithToken env tok c ip s = (Inr (a, codes), s')"
  obtains claims u s1 where "tok = Some claims" and "mt_step claims = MFA_ENROLL" and "su_id u = mt_sub claims"
    and "right_first_code env (mt_sub claims) c s" and "completeLogin env u ip s1 = (Inr a, s')"
proof -
  obtain u t where u: "readMfaToken env tok MFA_ENROLL s = (Inr u, t)"
    and run: "bindM (confirmEnrollment env (su_id u) c ip) (\<lambda>codes.
      bindM (others_at env 4) (\<lambda>_.
      bindM (staff_or_fail (su_id u)) (\<lambda>fresh_row.
      bindM (completeLogin env fresh_row ip) (\<lambda>ses.
      retM (ses, codes))))) t = (Inr (a, codes), s')"
    using assms unfolding confirmEnrollmentWithToken_def by (rule bindM_InrE)
  obtain claims where cl: "tok = Some claims" "mt_step claims = MFA_ENROLL" "find_staff (mt_sub claims) s = Some u"
    "su_id u = mt_sub claims" "t = s"
    using u by (rule readMfaToken_Inr)
  obtain x s1 v s2 where x: "confirmEnrollment env (su_id u) c ip s = (Inr x, s1)"
    and v: "find_staff (su_id u) (ad_others env 4 s1) = Some v" "completeLogin env v ip (ad_others env 4 s1) = (Inr a, s')"
    using run unfolding cl(5) by (auto simp: staff_or_fail_def elim!: bindM_InrE)
  have "right_first_code env (mt_sub claims) c s"
    using x cl(3,4) by (auto simp: confirmEnrollment_def staff_or_fail_def right_first_code_def elim!: bindM_InrE)
  moreover have "su_id v = mt_sub claims" using find_staff_id [OF v(1)] cl(4) by simp
  ultimately show thesis using that cl v(2) by blast
qed

lemma assert_shows:
  assumes "deviceAssert env tok ch r ip s = (Inr a, s')"
  obtains claims ses d x expected where "tok = Some claims" and "mt_step claims = MFA_DEVICE" and "a = SignedIn ses"
    and "ac_sub (ssn_access ses) = mt_sub claims" and "ac_did (ssn_access ses) = Some d"
    and "x \<in> set (staffDevices s)" and "sd_id x = d" and "sd_staffId x = mt_sub claims" and "sd_status x = DEV_ACTIVE"
    and "readChallenge env ch (mt_sub claims) CH_AUTH = Inr expected" and "ad_assertion env expected r x \<noteq> None"
proof -
  obtain u t where u: "readMfaToken env tok MFA_DEVICE s = (Inr u, t)"
    and run: "bindM (authenticate_device env (su_id u) ch r) (\<lambda>d. finishLogin env u ip (Some (sd_id d))) t = (Inr a, s')"
    using assms unfolding deviceAssert_def by (rule bindM_InrE)
  obtain claims where cl: "tok = Some claims" "mt_step claims = MFA_DEVICE" "su_id u = mt_sub claims" "t = s"
    using u by (rule readMfaToken_Inr)
  obtain x s1 where x: "authenticate_device env (su_id u) ch r s = (Inr x, s1)"
    and f: "finishLogin env u ip (Some (sd_id x)) s1 = (Inr a, s')"
    using run unfolding cl(4) by (rule bindM_InrE)
  obtain ses where ses: "a = SignedIn ses" "ac_sub (ssn_access ses) = su_id u" "ac_did (ssn_access ses) = Some (sd_id x)"
    using f by (auto simp: finishLogin_def issueStaffTokens_def elim!: bindM_InrE)
  obtain expected where ex: "readChallenge env ch (su_id u) CH_AUTH = Inr expected"
    "x \<in> set (active_devices (su_id u) s)" "ad_assertion env expected r x \<noteq> None"
    using x by (auto simp: authenticate_device_def elim!: bindM_InrE dest!: find_row_SomeD)
  then show thesis using that cl ses by (auto simp: active_devices_def)
qed

section \<open>The routes\<close>

lemma answers_Inr: "answers f m s = (Inr a, s') \<longleftrightarrow> (\<exists>x. m s = (Inr x, s') \<and> a = f x)"
  by (auto simp: answers_def bindM_def split: prod.splits sum.splits)

lemma signed_in_answer:
  "serve_signed_in env ip ctx req s = (Inr a, s') \<Longrightarrow> opened a = None \<and> step_tokens a = []"
  by (cases req) (auto simp: answers_Inr)

lemma guarded_Inr: "guarded env ip access p r h s = (Inr a, s') \<Longrightarrow> \<exists>ctx t. h ctx t = (Inr a, s')"
  by (auto simp: guarded_def elim!: bindM_InrE)

text \<open>The four routes whose answer carries a session of a sign-in or a step token.\<close>

lemma sign_in_routes:
  assumes "serve_staff env ip access req s = (Inr a, s')" and "opened a \<noteq> None \<or> step_tokens a \<noteq> []"
  obtains (Login) e p x where "req = PostLogin e p" and "staff_login env e p ip s = (Inr x, s')" and "a = AnswerSignIn x"
    | (Verify) tok c x where "req = PostMfaVerify tok c" and "verifyMfa env tok c ip s = (Inr x, s')" and "a = AnswerSignIn x"
    | (Enrol) tok c x codes where "req = PostMfaEnrollConfirm tok c"
        and "confirmEnrollmentWithToken env tok c ip s = (Inr (x, codes), s')" and "a = AnswerEnrolled x codes"
    | (Assert) tok ch r x where "req = PostDeviceAssert tok ch r" and "deviceAssert env tok ch r ip s = (Inr x, s')"
        and "a = AnswerSignIn x"
proof (cases "serve_open env ip req")
  case None
  then have "guarded env ip access (allows_pending req) (required_roles req) (\<lambda>ctx. serve_signed_in env ip ctx req) s =
      (Inr a, s')"
    using assms(1) by (simp add: serve_staff_def)
  then obtain ctx t where "serve_signed_in env ip ctx req t = (Inr a, s')" by (blast dest: guarded_Inr)
  then have "opened a = None \<and> step_tokens a = []" by (rule signed_in_answer)
  then show thesis using assms(2) by simp
next
  case (Some m)
  then have m: "m s = (Inr a, s')" using assms(1) by (simp add: serve_staff_def)
  show thesis
  proof (cases req)
    case (PostRefresh cookie)
    then have "\<exists>x. a = AnswerSession x" using Some m by (auto simp: answers_Inr elim!: bindM_InrE)
    then show thesis using assms(2) by auto
  next
    case (PostLogout cookie)
    then have "a = AnswerDone" using Some m by (cases cookie) (auto simp: answers_Inr)
    then show thesis using assms(2) by auto
  qed (use Some m assms(2) that in \<open>auto simp: answers_Inr\<close>)
qed

lemma answer_tokens:
  "step_tokens (AnswerSignIn x) = (case x of NextStep st tok d \<Rightarrow> [tok] | SignedIn ses \<Rightarrow> [])"
  "step_tokens (AnswerEnrolled x codes) = (case x of NextStep st tok d \<Rightarrow> [tok] | SignedIn ses \<Rightarrow> [])"
  "opened (AnswerSignIn x) = (case x of NextStep st tok d \<Rightarrow> None | SignedIn ses \<Rightarrow> Some ses)"
  "opened (AnswerEnrolled x codes) = (case x of NextStep st tok d \<Rightarrow> None | SignedIn ses \<Rightarrow> Some ses)"
  by (simp_all split: sign_in_answer.split)

text \<open>What the password and the second factor give: the rest of the sign-in.\<close>

definition earned :: "bool \<Rightarrow> exchange list \<Rightarrow> sign_in_answer \<Rightarrow> bool" where
  "earned locked hist x \<longleftrightarrow>
    (case x of
       NextStep st tok d \<Rightarrow> token_earned locked hist tok
     | SignedIn ses \<Rightarrow> \<exists>need i. ac_sub (ssn_access ses) = i \<and> password_shown hist i need \<and> factor_shown hist i need \<and>
         (locked \<longrightarrow> (\<exists>d. ac_did (ssn_access ses) = Some d \<and> device_shown hist i d)))"

lemma completed_earned:
  assumes "completeLogin env u ip s = (Inr x, s')" and "password_shown hist (su_id u) need"
    and "factor_shown hist (su_id u) need"
  shows "earned (ad_deviceRequired env) hist x"
  using completeLogin_Inr [OF assms(1)] assms(2,3)
  by (auto simp: earned_def token_earned_def signMfaToken_def split: if_splits)

lemma exchange_earned:
  assumes "serve_staff env ip access req s = (Inr a, s')" and "hist' = hist @ [(env, req, s, a)]"
    and "\<And>tok. presented req = Some tok \<Longrightarrow> token_earned (ad_deviceRequired env) hist tok"
    and "step_tokens a \<noteq> [] \<or> opened a \<noteq> None"
  shows "\<exists>x. earned (ad_deviceRequired env) hist' x \<and>
    step_tokens a = (case x of NextStep st tok d \<Rightarrow> [tok] | SignedIn ses \<Rightarrow> []) \<and>
    opened a = (case x of NextStep st tok d \<Rightarrow> None | SignedIn ses \<Rightarrow> Some ses)"
proof -
  have "opened a \<noteq> None \<or> step_tokens a \<noteq> []" using assms(4) by blast
  note routes = sign_in_routes [OF assms(1) this]
  have here: "(env, req, s, a) \<in> set hist'" by (simp add: assms(2))
  show ?thesis
  proof (rule routes)
    fix e p x assume r: "req = PostLogin e p" "staff_login env e p ip s = (Inr x, s')" "a = AnswerSignIn x"
    obtain u where u: "find_staff_by_email e s = Some u" "active_staff u" "ad_verifyHash env (su_passwordHash u) p"
      and go: "(\<exists>st. requiredMfaStep env u = Some st \<and> x = NextStep st (signMfaToken env (su_id u) st) None) \<or>
        (requiredMfaStep env u = None \<and> (\<exists>s1. completeLogin env u ip s1 = (Inr x, s')))"
      using r(2) by (rule login_shows)
    have pw: "password_shown hist' (su_id u) (requiredMfaStep env u)"
      unfolding password_shown_def using here u r(1) by blast
    have "earned (ad_deviceRequired env) hist' x"
    proof (cases "requiredMfaStep env u")
      case None
      then show ?thesis using go completed_earned pw by fastforce
    next
      case (Some st)
      then have "st \<noteq> MFA_DEVICE" by (auto simp: requiredMfaStep_def split: if_splits)
      then show ?thesis using go Some pw
        by (cases st) (simp_all add: earned_def token_earned_def signMfaToken_def)
    qed
    then show ?thesis using r(3) answer_tokens by metis
  next
    fix tok c x assume r: "req = PostMfaVerify tok c" "verifyMfa env tok c ip s = (Inr x, s')" "a = AnswerSignIn x"
    obtain cl u s1 where cl: "tok = Some cl" "mt_step cl = MFA_VERIFY" "su_id u = mt_sub cl"
      "right_code env (mt_sub cl) c s" "completeLogin env u ip s1 = (Inr x, s')"
      using r(2) by (rule verify_shows)
    have "password_shown hist' (mt_sub cl) (Some MFA_VERIFY)"
      using assms(3) r(1) cl(1,2) password_shown_mono unfolding assms(2) by (fastforce simp: token_earned_def)
    moreover have "factor_shown hist' (mt_sub cl) (Some MFA_VERIFY)"
      unfolding factor_shown.simps using here r(1) cl(4) by blast
    ultimately show ?thesis using completed_earned [OF cl(5)] cl(3) r(3) answer_tokens by metis
  next
    fix tok c x codes
    assume r: "req = PostMfaEnrollConfirm tok c" "confirmEnrollmentWithToken env tok c ip s = (Inr (x, codes), s')"
      "a = AnswerEnrolled x codes"
    obtain cl u s1 where cl: "tok = Some cl" "mt_step cl = MFA_ENROLL" "su_id u = mt_sub cl"
      "right_first_code env (mt_sub cl) c s" "completeLogin env u ip s1 = (Inr x, s')"
      using r(2) by (rule enrol_shows)
    have "password_shown hist' (mt_sub cl) (Some MFA_ENROLL)"
      using assms(3) r(1) cl(1,2) password_shown_mono unfolding assms(2) by (fastforce simp: token_earned_def)
    moreover have "factor_shown hist' (mt_sub cl) (Some MFA_ENROLL)"
      unfolding factor_shown.simps using here r(1) cl(4) by blast
    ultimately show ?thesis using completed_earned [OF cl(5)] cl(3) r(3) answer_tokens by metis
  next
    fix tok ch r' x
    assume r: "req = PostDeviceAssert tok ch r'" "deviceAssert env tok ch r' ip s = (Inr x, s')" "a = AnswerSignIn x"
    obtain cl ses d y expected where cl: "tok = Some cl" "mt_step cl = MFA_DEVICE" "x = SignedIn ses"
      "ac_sub (ssn_access ses) = mt_sub cl" "ac_did (ssn_access ses) = Some d"
      "y \<in> set (staffDevices s)" "sd_id y = d" "sd_staffId y = mt_sub cl" "sd_status y = DEV_ACTIVE"
      "readChallenge env ch (mt_sub cl) CH_AUTH = Inr expected" "ad_assertion env expected r' y \<noteq> None"
      using r(2) by (rule assert_shows)
    obtain need where "password_shown hist (mt_sub cl) need" "factor_shown hist (mt_sub cl) need"
      using assms(3) r(1) cl(1,2) by (fastforce simp: token_earned_def)
    moreover have "device_shown hist' (mt_sub cl) d"
      unfolding device_shown_def using here r(1) cl(6-11) by blast
    ultimately have "earned (ad_deviceRequired env) hist' x"
      using password_shown_mono factor_shown_mono cl(3-5) unfolding assms(2) by (fastforce simp: earned_def)
    then show ?thesis using r(3) answer_tokens by metis
  qed
qed

lemma earned_mono: "earned locked hist x \<Longrightarrow> earned locked (hist @ xs) x"
  using token_earned_mono password_shown_mono factor_shown_mono device_shown_mono
  unfolding earned_def by (cases x) (simp, blast, simp, blast?)

lemma handed_out_earned: "sign_ins mfa locked hist \<Longrightarrow> tok \<in> handed_out hist \<Longrightarrow> token_earned locked hist tok"
proof (induction arbitrary: tok rule: sign_ins.induct)
  case (asks hist env req ip access s a s')
  show ?case
  proof (cases "tok \<in> handed_out hist")
    case True
    then show ?thesis using asks.IH token_earned_mono by blast
  next
    case False
    then have tok: "tok \<in> set (step_tokens a)" using asks.prems by (auto simp: handed_out_def)
    have "\<And>t. presented req = Some t \<Longrightarrow> token_earned (ad_deviceRequired env) hist t"
      using asks.IH asks.hyps(3,4) by auto
    then obtain x where "earned locked (hist @ [(env, req, s, a)]) x"
      "step_tokens a = (case x of NextStep st tok d \<Rightarrow> [tok] | SignedIn ses \<Rightarrow> [])"
      using exchange_earned [OF asks.hyps(5) refl] tok asks.hyps(3) by fastforce
    then show ?thesis using tok by (cases x) (auto simp: earned_def)
  qed
qed (simp add: handed_out_def)

text \<open>
  C9: Whoever asks, in whatever order and with step tokens of any earlier answer: a sign-in session
  for a member of staff is only ever answered after a login with the right password of that active
  account; if at that login the second factor was on, after a right authenticator or recovery code,
  and if it was off but is required, after a right first code of the enrolment; and with the device
  lock on, after an assertion signed by an active device of that account, which the session carries.
\<close>

theorem staff_sign_in_gates:
  assumes "sign_ins mfa locked hist" and "(env, req, s, a) \<in> set hist" and "opened a = Some ses"
  shows "\<exists>need i. ac_sub (ssn_access ses) = i \<and> password_shown hist i need \<and> factor_shown hist i need \<and>
    (locked \<longrightarrow> (\<exists>d. ac_did (ssn_access ses) = Some d \<and> device_shown hist i d))"
proof -
  have "earned locked hist (SignedIn ses)"
    using assms
  proof (induction rule: sign_ins.induct)
    case (asks hist env' req' ip access s' a' s'')
    show ?case
    proof (cases "(env, req, s, a) \<in> set hist")
      case True
      then show ?thesis using asks.IH asks.prems(2) earned_mono by blast
    next
      case False
      then have a': "a' = a" using asks.prems(1) by simp
      have "\<And>t. presented req' = Some t \<Longrightarrow> token_earned (ad_deviceRequired env') hist t"
        using handed_out_earned [OF asks.hyps(1)] asks.hyps(3,4) by auto
      then obtain x where "earned locked (hist @ [(env', req', s', a')]) x"
        "opened a' = (case x of NextStep st tok d \<Rightarrow> None | SignedIn ses \<Rightarrow> Some ses)"
        using exchange_earned [OF asks.hyps(5) refl] asks.prems(2) a' asks.hyps(3) by fastforce
      then show ?thesis using asks.prems(2) a' by (cases x) auto
    qed
  qed simp
  then show ?thesis by (simp add: earned_def)
qed

text \<open>A sign-in with all three: password, authenticator code, passkey.\<close>

definition guarded_ada :: admin_state where
  "guarded_ada = (ada_console [key_of 52 ''k1''])
     \<lparr>staff := [ada\<lparr>su_totpSecretEnc := Some ''esecret'', su_totpEnabledAt := Some 1500\<rparr>]\<rparr>"

definition first_step :: mfa_claims where
  "first_step = \<lparr>mt_sub = 50, mt_step = MFA_VERIFY, mt_exp = 302\<rparr>"

definition second_step :: mfa_claims where
  "second_step = \<lparr>mt_sub = 50, mt_step = MFA_DEVICE, mt_exp = 303\<rparr>"

definition code_asked :: admin_state where
  "code_asked = snd (serve_staff (locked_env 2000 ''a'') None None (PostLogin ''ada@fiam.ng'' ''new password'') guarded_ada)"

definition device_asked :: admin_state where
  "device_asked = snd (serve_staff (locked_env 3000 ''b'') None None (PostMfaVerify (Some first_step) ''123456'') code_asked)"

definition assertion_request :: staff_request where
  "assertion_request = PostDeviceAssert (Some second_step)
     (Some \<lparr>ch_sub = 50, ch_kind = CH_AUTH, ch_challenge = ''ch'', ch_exp = 303\<rparr>) \<lparr>ar_id = ''k1'', ar_proof = ''ok''\<rparr>"

definition final_answer :: "http_error + staff_answer" where
  "final_answer = fst (serve_staff (locked_env 4000 ''c'') None None assertion_request device_asked)"

definition ada_signed_in :: staff_session where
  "ada_signed_in = \<lparr>ssn_access = \<lparr>ac_sub = 50, ac_did = Some 52, ac_exp = 904\<rparr>, ssn_refreshToken = ''c'',
     ssn_staff = ada\<lparr>su_totpSecretEnc := Some ''esecret'', su_totpEnabledAt := Some 1500,
       su_totpLastStep := Some 0, su_failedLoginAttempts := 2\<rparr>\<rparr>"

definition ada_exchange :: "exchange list" where
  "ada_exchange =
    [(locked_env 2000 ''a'', PostLogin ''ada@fiam.ng'' ''new password'', guarded_ada,
        AnswerSignIn (NextStep MFA_VERIFY first_step None)),
     (locked_env 3000 ''b'', PostMfaVerify (Some first_step) ''123456'', code_asked,
        AnswerSignIn (NextStep MFA_DEVICE second_step
          (Some \<lparr>ds_hasActive = True, ds_hasPending = False, ds_canRegister = True\<rparr>))),
     (locked_env 4000 ''c'', assertion_request, device_asked, AnswerSignIn (SignedIn ada_signed_in))]"

lemma ada_answers:
  "fst (serve_staff (locked_env 2000 ''a'') None None (PostLogin ''ada@fiam.ng'' ''new password'') guarded_ada) =
    Inr (AnswerSignIn (NextStep MFA_VERIFY first_step None))"
  "fst (serve_staff (locked_env 3000 ''b'') None None (PostMfaVerify (Some first_step) ''123456'') code_asked) =
    Inr (AnswerSignIn (NextStep MFA_DEVICE second_step
      (Some \<lparr>ds_hasActive = True, ds_hasPending = False, ds_canRegister = True\<rparr>)))"
  "final_answer = Inr (AnswerSignIn (SignedIn ada_signed_in))"
  by code_simp+

lemma served_pair: "fst (serve_staff env ip acc req s) = Inr a \<Longrightarrow>
    serve_staff env ip acc req s = (Inr a, snd (serve_staff env ip acc req s))"
  by (metis prod.collapse)

lemma locked_env_config [simp]: "ad_totpRequired (locked_env now token) = False"
  by (simp add: locked_env_def staff_env_def)

lemma ada_exchange_run: "sign_ins False True ada_exchange"
proof -
  have 1: "sign_ins False True ([] @ [hd ada_exchange])"
    unfolding ada_exchange_def list.sel
    by (rule sign_ins.asks [OF sign_ins.start _ _ _ served_pair [OF ada_answers(1)]]) simp_all
  have 2: "sign_ins False True (([] @ [hd ada_exchange]) @ [ada_exchange ! 1])"
    using 1 unfolding ada_exchange_def
    by (simp, intro sign_ins.asks [OF _ _ _ _ served_pair [OF ada_answers(2)], where hist = "[_]", simplified])
      (simp_all add: handed_out_def)
  have "sign_ins False True (([hd ada_exchange] @ [ada_exchange ! 1]) @ [ada_exchange ! 2])"
    using 2 unfolding ada_exchange_def
    by (simp, intro sign_ins.asks [OF _ _ _ _ served_pair [OF ada_answers(3) [unfolded final_answer_def]],
          where hist = "[_, _]", simplified])
      (simp_all add: handed_out_def assertion_request_def)
  then show ?thesis by (simp add: ada_exchange_def)
qed

theorem staff_sign_in_gates_witness:
  "opened (AnswerSignIn (SignedIn ada_signed_in)) = Some ada_signed_in \<and>
    (\<exists>need i. ac_sub (ssn_access ada_signed_in) = i \<and> password_shown ada_exchange i need \<and>
      factor_shown ada_exchange i need \<and>
      (\<exists>d. ac_did (ssn_access ada_signed_in) = Some d \<and> device_shown ada_exchange i d))"
proof -
  have "(locked_env 4000 ''c'', assertion_request, device_asked, AnswerSignIn (SignedIn ada_signed_in)) \<in> set ada_exchange"
    by (simp add: ada_exchange_def)
  moreover have opened: "opened (AnswerSignIn (SignedIn ada_signed_in)) = Some ada_signed_in" by simp
  ultimately have "\<exists>need i. ac_sub (ssn_access ada_signed_in) = i \<and> password_shown ada_exchange i need \<and>
      factor_shown ada_exchange i need \<and>
      (True \<longrightarrow> (\<exists>d. ac_did (ssn_access ada_signed_in) = Some d \<and> device_shown ada_exchange i d))"
    by (rule staff_sign_in_gates [OF ada_exchange_run])
  then show ?thesis using opened by simp
qed

end
