(* ===== verification/StaffFactor.thy ===== *)
theory StaffFactor
  imports StaffProps
begin

text \<open>
  A code of the second factor is spent by its use: what the requests that do not set the factor up
  again leave of it, and that it is not accepted twice.  Then three races of the console that end
  where they should not.
\<close>

section \<open>What other requests leave\<close>

definition spent_at_least :: "staff_user \<Rightarrow> staff_user \<Rightarrow> bool" where
  "spent_at_least u v \<longleftrightarrow> set (su_recoveryCodeHashes v) \<subseteq> set (su_recoveryCodeHashes u) \<and>
    (\<forall>m. su_totpLastStep u = Some m \<longrightarrow> (\<exists>n. su_totpLastStep v = Some n \<and> m \<le> n))"

text \<open>Every row of the account afterwards has spent at least what one had before.\<close>

definition factor_kept :: "uuid \<Rightarrow> admin_state \<Rightarrow> admin_state \<Rightarrow> bool" where
  "factor_kept i s s' \<longleftrightarrow> admin_next s \<le> admin_next s' \<and>
    (\<forall>v \<in> set (staff s'). su_id v = i \<longrightarrow> (\<exists>u \<in> set (staff s). su_id u = i \<and> spent_at_least u v))"

lemma spent_at_least_refl [simp]: "spent_at_least u u"
  by (auto simp: spent_at_least_def)

lemma spent_at_least_trans: "spent_at_least u v \<Longrightarrow> spent_at_least v w \<Longrightarrow> spent_at_least u w"
  unfolding spent_at_least_def by (meson order_trans subset_trans)

interpretation fac: step_system "factor_kept i" "\<lambda>s. i < admin_next s" for i
  by unfold_locales (simp add: factor_kept_def)

lemma factor_kept_trans: "(factor_kept i)\<^sup>*\<^sup>* s s' \<Longrightarrow> factor_kept i s s'"
proof (induction rule: rtranclp_induct)
  case base
  then show ?case by (auto simp: factor_kept_def intro: spent_at_least_refl)
next
  case (step y z)
  have "\<exists>u \<in> set (staff s). su_id u = i \<and> spent_at_least u w" if w: "w \<in> set (staff z)" "su_id w = i" for w
  proof -
    obtain v where v: "v \<in> set (staff y)" "su_id v = i" "spent_at_least v w"
      using step.hyps(2) w unfolding factor_kept_def by blast
    then obtain u where "u \<in> set (staff s)" "su_id u = i" "spent_at_least u v"
      using step.IH unfolding factor_kept_def by blast
    then show ?thesis using spent_at_least_trans [OF _ v(3)] by blast
  qed
  then show ?case using step by (simp add: factor_kept_def)
qed

abbreviation on_factor :: "uuid \<Rightarrow> 'a admin \<Rightarrow> admin_state \<Rightarrow> bool" where
  "on_factor i \<equiv> stepwise (factor_kept i) (\<lambda>s. i < admin_next s)"

definition factor_gaps :: "uuid \<Rightarrow> admin_env \<Rightarrow> bool" where
  "factor_gaps i env \<longleftrightarrow> (\<forall>n s. factor_kept i s (ad_others env n s))"

lemma on_factor_others: "factor_gaps i env \<Longrightarrow> on_factor i (updM (ad_others env n)) s"
  by (rule fac.stepwise_updM_step) (simp add: factor_gaps_def)

lemmas factor_rules =
  fac.stepwise_bindM fac.stepwise_if fac.stepwise_option fac.stepwise_whenM fac.stepwise_catchM
  fac.stepwise_pure

lemma factor_kept_update:
  assumes "\<And>u. P u \<Longrightarrow> su_id (f u) = su_id u \<and> spent_at_least u (f u)"
  shows "factor_kept i s (s\<lparr>staff := update_where P f (staff s)\<rparr>)"
proof -
  have "\<exists>u \<in> set (staff s). su_id u = i \<and> spent_at_least u v"
    if v: "v \<in> set (update_where P f (staff s))" "su_id v = i" for v
  proof -
    obtain u where "u \<in> set (staff s)" "v = (if P u then f u else u)" using v(1) by (auto simp: set_update_where)
    then show ?thesis using assms [of u] v(2) by (intro bexI [of _ u]) (auto split: if_splits)
  qed
  then show ?thesis by (simp add: factor_kept_def)
qed

lemma factor_kept_same: "staff s' = staff s \<Longrightarrow> admin_next s \<le> admin_next s' \<Longrightarrow> factor_kept i s s'"
  by (auto simp: factor_kept_def intro: spent_at_least_refl)

lemma on_factor_same: "staff (f s) = staff s \<Longrightarrow> admin_next s \<le> admin_next (f s) \<Longrightarrow> on_factor i (updM f) s"
  by (rule fac.stepwise_updM_step) (rule factor_kept_same)

lemma on_factor_same_run: "staff (snd (m s)) = staff s \<Longrightarrow> admin_next s \<le> admin_next (snd (m s)) \<Longrightarrow> on_factor i m s"
  by (rule fac.stepwise_atomic) (rule factor_kept_same)

definition leaves_factor :: "(staff_user \<Rightarrow> staff_user) \<Rightarrow> bool" where
  "leaves_factor f \<longleftrightarrow> (\<forall>u. su_id (f u) = su_id u \<and> su_recoveryCodeHashes (f u) = su_recoveryCodeHashes u \<and>
    su_totpLastStep (f u) = su_totpLastStep u)"

lemma on_factor_update: "leaves_factor f \<Longrightarrow> on_factor i (updM (update_staff j f)) s"
  unfolding update_staff_def
  by (rule fac.stepwise_updM_step, rule factor_kept_update) (simp add: leaves_factor_def spent_at_least_def)

lemma leaves_factor_simps [simp]:
  "leaves_factor (set_attempts g)"
  "leaves_factor (\<lambda>x. (set_attempts g x)\<lparr>su_lastLoginAt := t\<rparr>)"
  "leaves_factor (\<lambda>x. x\<lparr>su_passwordHash := h, su_mustChangePassword := b\<rparr>)"
  "leaves_factor (\<lambda>x. (set_attempts g x)\<lparr>su_passwordHash := h, su_mustChangePassword := b\<rparr>)"
  by (simp_all add: leaves_factor_def set_attempts_def)

lemma on_factor_audit: "on_factor i (audit_record env e) s" "on_factor i (audit_recordSafe env e) s"
  "on_factor i (staff_audit env u a r ip) s"
proof -
  show r: "on_factor i (audit_record env e) s" for e s
    unfolding audit_record_def
    by (intro factor_rules on_factor_same) (simp_all add: alerts_notify_def split: option.splits)
  show q: "on_factor i (audit_recordSafe env e) s" for e s
    unfolding audit_recordSafe_def by (intro factor_rules r)
  show "on_factor i (staff_audit env u a r ip) s" by (simp add: staff_audit_def q)
qed

lemma on_factor_reads:
  "on_factor i (staff_or_fail j) s" "on_factor i (staff_or_404 j) s" "on_factor i (readMfaToken env tok st) s"
  "on_factor i (registrationOptions env u) s" "on_factor i (authenticationOptions env j) s"
  "on_factor i (validateStaff env ip acc) s"
  unfolding staff_or_fail_def staff_or_404_def readMfaToken_def registrationOptions_def authenticationOptions_def
    validateStaff_def
  by (intro factor_rules)+

lemma on_factor_pieces:
  "on_factor i (insert_staff_token t) s" "on_factor i (updM (revoke_staff_tokens P now)) s"
  "on_factor i (change_device P' f) s" "on_factor i (save_device env j cred lbl st) s"
  "on_factor i (updM (update_device d g)) s" "on_factor i (revokeStaffFamily env fam) s"
  by (rule on_factor_same_run,
      simp_all add: insert_staff_token_def revoke_staff_tokens_def change_device_def save_device_def staff_or_fail_def
        update_device_def revokeStaffFamily_def stm_simps split: option.splits)+

lemma on_factor_reserve: "on_factor i (reserveAttempt now j) s"
proof (rule fac.stepwise_atomic)
  have "factor_kept i s (update_staff j (set_attempts g) s)" for g
    unfolding update_staff_def by (rule factor_kept_update) (simp add: set_attempts_def spent_at_least_def)
  then show "factor_kept i s (snd (reserveAttempt now j s))"
    by (auto simp: reserveAttempt_def factor_kept_same split: option.splits)
qed

lemma on_factor_check: "on_factor i (checkSecondFactor env u c) s"
proof -
  have "factor_kept i t (snd (claim_step j n t))" for j n t
    unfolding claim_step_def Let_def snd_conv
    by (rule factor_kept_update) (auto simp: spent_at_least_def split: option.splits)
  then have c: "on_factor i (claim_step j n) t" for j n t by (rule fac.stepwise_atomic)
  have "factor_kept i t (snd (spend_recovery j h t))" for j h t
    unfolding spend_recovery_def Let_def snd_conv
    by (rule factor_kept_update) (auto simp: spent_at_least_def)
  then have r: "on_factor i (spend_recovery j h) t" for j h t by (rule fac.stepwise_atomic)
  show ?thesis unfolding checkSecondFactor_def Let_def by (intro factor_rules c r)
qed

lemma on_factor_sessions:
  assumes "factor_gaps i env"
  shows "on_factor i (issueStaffTokens env u fam d) s" "on_factor i (finishLogin env u ip d) s"
    "on_factor i (completeLogin env u ip) s"
proof -
  show a: "on_factor i (issueStaffTokens env u fam d) s" for fam d s
    unfolding issueStaffTokens_def by (intro factor_rules on_factor_pieces)
  show b: "on_factor i (finishLogin env u ip d) s" for d s
    unfolding finishLogin_def
    by (intro factor_rules on_factor_others [OF assms] a on_factor_update on_factor_audit leaves_factor_simps)
  show "on_factor i (completeLogin env u ip) s"
    unfolding completeLogin_def by (intro factor_rules b)
qed

lemma on_factor_devices:
  assumes "factor_gaps i env"
  shows "on_factor i (register_device env u tok r lbl st ip) s" "on_factor i (authenticate_device env j tok ar) s"
    "on_factor i (approve_device env j d ctx ip) s" "on_factor i (revoke_device env j d ctx ip) s"
  unfolding register_device_def authenticate_device_def approve_device_def revoke_device_def stepwise_read
  by (intro factor_rules on_factor_others [OF assms] on_factor_pieces on_factor_audit)+

lemma on_factor_sign_in:
  assumes "factor_gaps i env"
  shows "on_factor i (staff_login env e p ip) s" "on_factor i (verifyMfa env tok c ip) s"
    "on_factor i (deviceOptions env tok m) s" "on_factor i (deviceAssert env tok ch ar ip) s"
    "on_factor i (deviceRegister env tok ch r lbl ip) s"
  unfolding staff_login_def refused_login_def check_password_def verifyMfa_def deviceOptions_def deviceAssert_def
    deviceRegister_def stepwise_read
  by (intro factor_rules on_factor_others [OF assms] on_factor_audit on_factor_reads on_factor_reserve on_factor_check
      on_factor_sessions [OF assms] on_factor_devices [OF assms])+

lemma on_factor_signed_in:
  assumes "factor_gaps i env"
  shows "on_factor i (addDeviceOptions env j) s" "on_factor i (addDevice env j tok r lbl ip) s"
    "on_factor i (staff_refresh env raw) s" "on_factor i (staff_logout env raw) s"
    "on_factor i (staff_changePassword env j p q ip d) s"
proof -
  show "on_factor i (addDeviceOptions env j) s"
    unfolding addDeviceOptions_def by (intro factor_rules on_factor_reads)
  show "on_factor i (addDevice env j tok r lbl ip) s"
    unfolding addDevice_def by (intro factor_rules on_factor_reads on_factor_devices [OF assms])
  show "on_factor i (staff_refresh env raw) s"
    unfolding staff_refresh_def stepwise_read
    by (intro factor_rules on_factor_others [OF assms] on_factor_pieces on_factor_sessions [OF assms] on_factor_same)
      simp_all
  show "on_factor i (staff_logout env raw) s"
    unfolding staff_logout_def stepwise_read by (intro factor_rules on_factor_pieces)
  show "on_factor i (staff_changePassword env j p q ip d) s"
    unfolding staff_changePassword_def
    by (intro factor_rules on_factor_others [OF assms] on_factor_pieces on_factor_sessions [OF assms] on_factor_audit
        on_factor_reads on_factor_update leaves_factor_simps)
qed

lemma on_factor_insert: "on_factor i (insert_staff u) s"
  by (rule fac.stepwise_atomic) (auto simp: insert_staff_def Let_def factor_kept_def intro: spent_at_least_refl)

lemma on_factor_screen:
  assumes "factor_gaps i env"
  shows "on_factor i (get_staff env j) s" "on_factor i (create_staff env dto ctx ip) s"
    "on_factor i (staff_resetPassword env j ctx ip) s" "on_factor i (staff_unlock env j ctx ip) s"
    "on_factor i (remove_staff env j ctx ip) s"
proof -
  show g: "on_factor i (get_staff env j) s" for s
    unfolding get_staff_def by (intro factor_rules on_factor_reads)
  show "on_factor i (create_staff env dto ctx ip) s"
    unfolding create_staff_def by (intro factor_rules on_factor_others [OF assms] on_factor_insert on_factor_audit)
  show "on_factor i (staff_resetPassword env j ctx ip) s"
    unfolding staff_resetPassword_def
    by (intro factor_rules on_factor_others [OF assms] on_factor_reads on_factor_update on_factor_pieces on_factor_audit
        leaves_factor_simps)
  show "on_factor i (staff_unlock env j ctx ip) s"
    unfolding staff_unlock_def
    by (intro factor_rules g on_factor_reads on_factor_update on_factor_audit leaves_factor_simps)
  have "factor_kept i t (t\<lparr>staff := filter P (staff t)\<rparr>)" for t P
    by (auto simp: factor_kept_def intro: spent_at_least_refl)
  then show "on_factor i (remove_staff env j ctx ip) s"
    unfolding remove_staff_def
    by (intro factor_rules on_factor_others [OF assms] on_factor_reads on_factor_same fac.stepwise_updM_step
        on_factor_audit) simp_all
qed

text \<open>The requests that do not set the second factor up again (nor write a whole row back).\<close>

fun leaves_codes :: "staff_request \<Rightarrow> bool" where
  "leaves_codes (PostMfaEnrollStart tok) = False"
| "leaves_codes (PostMfaEnrollConfirm tok c) = False"
| "leaves_codes PostTwoFactorSetup = False"
| "leaves_codes (PostTwoFactorEnable c) = False"
| "leaves_codes (PostTwoFactorDisable p c) = False"
| "leaves_codes (PostRecoveryCodes c) = False"
| "leaves_codes (PatchStaff j dto) = False"
| "leaves_codes (PostResetTwoFactor j) = False"
| "leaves_codes req = True"

lemma on_factor_answers: "on_factor i m s \<Longrightarrow> on_factor i (answers f m) s"
  unfolding answers_def by (intro factor_rules)

lemmas on_factor_all = on_factor_answers on_factor_sign_in on_factor_signed_in on_factor_screen on_factor_devices

lemma on_factor_handler:
  assumes "factor_gaps i env" and "leaves_codes req"
  shows "on_factor i (serve_signed_in env ip ctx req) s"
  using assms(2) by (cases req) (auto intro!: on_factor_all [OF _] on_factor_answers fac.stepwise_pure assms(1))

lemma on_factor_serve:
  assumes "factor_gaps i env" and "leaves_codes req"
  shows "on_factor i (serve_staff env ip access req) s"
proof -
  have "on_factor i m s" if "serve_open env ip req = Some m" for m
    using assms(2) that
    by (cases req) (auto split: option.splits
        intro!: on_factor_answers fac.stepwise_bindM fac.stepwise_pure on_factor_sign_in on_factor_signed_in assms(1))
  then show ?thesis
    unfolding serve_staff_def guarded_def
    by (intro factor_rules on_factor_reads on_factor_handler assms) simp_all
qed

section \<open>A code is accepted once\<close>

text \<open>What a code would spend: a time step of the authenticator, or the hash of a recovery code.\<close>

definition spends :: "admin_env \<Rightarrow> staff_user \<Rightarrow> string \<Rightarrow> (int + string) option" where
  "spends env u rawCode =
    (let c = js_trim rawCode in
     if six_digits c then
       (case su_totpSecretEnc u of None \<Rightarrow> None | Some secret \<Rightarrow> map_option Inl (totp_verify env secret c))
     else Some (Inr (hashRecovery env c)))"

definition not_newer :: "int + string \<Rightarrow> int + string \<Rightarrow> bool" where
  "not_newer k k' \<longleftrightarrow> (case (k, k') of (Inl n, Inl n') \<Rightarrow> n' \<le> n | (Inr h, Inr h') \<Rightarrow> h' = h | _ \<Rightarrow> False)"

definition spent_in :: "uuid \<Rightarrow> int + string \<Rightarrow> admin_state \<Rightarrow> bool" where
  "spent_in i k s \<longleftrightarrow>
    (\<forall>v \<in> set (staff s). su_id v = i \<longrightarrow>
      (case k of Inl n \<Rightarrow> \<exists>m. su_totpLastStep v = Some m \<and> n \<le> m | Inr h \<Rightarrow> h \<notin> set (su_recoveryCodeHashes v)))"

inductive plain_request :: "uuid \<Rightarrow> admin_state \<Rightarrow> admin_state \<Rightarrow> bool" for i where
  "factor_gaps i env \<Longrightarrow> leaves_codes req \<Longrightarrow> plain_request i s (snd (serve_staff env ip access req s))"

lemma plain_request_kept: "(plain_request i)\<^sup>*\<^sup>* s s' \<Longrightarrow> i < admin_next s \<Longrightarrow> factor_kept i s s'"
proof -
  assume run: "(plain_request i)\<^sup>*\<^sup>* s s'" and i: "i < admin_next s"
  have "(factor_kept i)\<^sup>*\<^sup>* s s' \<and> i < admin_next s'"
    using run
  proof (induction rule: rtranclp_induct)
    case (step y z)
    then obtain env req ip access where z: "factor_gaps i env" "leaves_codes req" "z = snd (serve_staff env ip access req y)"
      by (auto elim: plain_request.cases)
    then have "(factor_kept i)\<^sup>*\<^sup>* y z" using on_factor_serve [OF z(1,2)] step.IH by (simp add: stepwise_def)
    then show ?case using step.IH fac.steps_keep by (meson rtranclp_trans)
  qed (simp add: i)
  then show ?thesis using factor_kept_trans by blast
qed

lemma spent_in_kept: "spent_in i k s \<Longrightarrow> factor_kept i s s' \<Longrightarrow> spent_in i k s'"
  unfolding spent_in_def factor_kept_def spent_at_least_def
  by (cases k) (simp, metis order_trans, simp, blast)

lemma ball_update_where:
  "(\<forall>v \<in> set (update_where P f t). Q v) \<longleftrightarrow> (\<forall>u \<in> set t. Q (if P u then f u else u))"
  unfolding set_update_where by blast

lemma claim_step_spent: "spent_in i (Inl n) (snd (claim_step i n s))"
proof -
  let ?hit = "\<lambda>u. su_id u = i \<and> (case su_totpLastStep u of None \<Rightarrow> True | Some m \<Rightarrow> m < n)"
  let ?g = "\<lambda>u. if ?hit u then u\<lparr>su_totpLastStep := Some n\<rparr> else u"
  have "su_id (?g u) = i \<longrightarrow> (\<exists>m. su_totpLastStep (?g u) = Some m \<and> n \<le> m)" for u
    by (cases "su_totpLastStep u") auto
  moreover have "staff (snd (claim_step i n s)) = update_where ?hit (\<lambda>u. u\<lparr>su_totpLastStep := Some n\<rparr>) (staff s)"
    by (simp add: claim_step_def Let_def)
  ultimately show ?thesis by (simp only: spent_in_def ball_update_where sum.case) blast
qed

lemma spend_recovery_spent: "spent_in i (Inr h) (snd (spend_recovery i h s))"
proof -
  let ?hit = "\<lambda>u. su_id u = i \<and> h \<in> set (su_recoveryCodeHashes u)"
  let ?f = "\<lambda>u. u\<lparr>su_recoveryCodeHashes := filter (\<lambda>x. x \<noteq> h) (su_recoveryCodeHashes u)\<rparr>"
  have "su_id (if ?hit u then ?f u else u) = i \<longrightarrow> h \<notin> set (su_recoveryCodeHashes (if ?hit u then ?f u else u))" for u
    by auto
  moreover have "staff (snd (spend_recovery i h s)) = update_where ?hit ?f (staff s)"
    by (simp add: spend_recovery_def Let_def)
  ultimately show ?thesis by (simp only: spent_in_def ball_update_where sum.case) blast
qed

lemma claim_step_again:
  assumes "spent_in i (Inl n) s" and "n' \<le> n"
  shows "claim_step i n' s = (Inr False, s)"
proof -
  let ?hit = "\<lambda>u. su_id u = i \<and> (case su_totpLastStep u of None \<Rightarrow> True | Some m \<Rightarrow> m < n')"
  have "\<forall>u \<in> set (staff s). \<not> ?hit u" using assms by (fastforce simp: spent_in_def)
  then have "affected ?hit (staff s) = 0" "update_where ?hit f (staff s) = staff s" for f
    unfolding affected_0_iff by simp_all
  then show ?thesis by (simp add: claim_step_def Let_def)
qed

lemma spend_recovery_again:
  assumes "spent_in i (Inr h) s"
  shows "spend_recovery i h s = (Inr False, s)"
proof -
  let ?hit = "\<lambda>u. su_id u = i \<and> h \<in> set (su_recoveryCodeHashes u)"
  have "\<forall>u \<in> set (staff s). \<not> ?hit u" using assms by (auto simp: spent_in_def)
  then have "affected ?hit (staff s) = 0" "update_where ?hit f (staff s) = staff s" for f
    unfolding affected_0_iff by simp_all
  then show ?thesis by (simp add: spend_recovery_def Let_def)
qed

lemma accepted_is_spent:
  assumes "checkSecondFactor env u c s = (Inr (Some how), s1)" and "spends env u c = Some k"
  shows "spent_in (su_id u) k s1 \<and> admin_next s1 = admin_next s"
proof (cases "six_digits (js_trim c)")
  case True
  then obtain secret n where n: "su_totpSecretEnc u = Some secret" "totp_verify env secret (js_trim c) = Some n" "k = Inl n"
    using assms(2) by (auto simp: spends_def Let_def split: option.splits)
  then have "s1 = snd (claim_step (su_id u) n s)"
    using assms(1) True by (auto simp: checkSecondFactor_def Let_def bindM_def split: prod.splits sum.splits if_splits)
  then show ?thesis using claim_step_spent [of "su_id u" n s] n(3) by (simp add: claim_step_def Let_def)
next
  case False
  let ?h = "hashRecovery env (js_trim c)"
  have "s1 = snd (spend_recovery (su_id u) ?h s)" "k = Inr ?h"
    using assms False
    by (auto simp: checkSecondFactor_def spends_def Let_def bindM_def split: prod.splits sum.splits if_splits)
  then show ?thesis using spend_recovery_spent [of "su_id u" ?h s] by (simp add: spend_recovery_def Let_def)
qed


text \<open>A recovery code opens the sign-in once.\<close>

definition with_recovery :: admin_state where
  "with_recovery = (ada_console [])\<lparr>staff := [ada\<lparr>su_totpSecretEnc := Some ''esecret'', su_totpEnabledAt := Some 1500,
     su_recoveryCodeHashes := [''sab2'', ''scd3'']\<rparr>]\<rparr>"

definition recovering :: staff_user where
  "recovering = hd (staff with_recovery)"

definition code_spent :: admin_state where
  "code_spent = snd (checkSecondFactor (staff_env 2000 ''a'') recovering '' AB-2 '' with_recovery)"


section \<open>Three races\<close>

definition overlapping_refresh :: admin_env where
  "overlapping_refresh = (staff_env 5001 ''b'')\<lparr>ad_others :=
     (\<lambda>n s. if n = 8 then snd (staff_refresh (staff_env 5000 ''a'') ''t'' s) else s)\<rparr>"

lemma overlapping_refreshes:
  "\<not> isl (fst (staff_refresh (staff_env 5000 ''a'') ''t'' (ada_console [])))"
  "\<not> isl (fst (staff_refresh overlapping_refresh ''t'' (ada_console [])))"
  "map sr_tokenHash (filter (\<lambda>t. sr_familyId t = 900 \<and> sr_revokedAt t = None)
      (staffTokens (snd (staff_refresh overlapping_refresh ''t'' (ada_console []))))) = [''sa'', ''sb'']"
  by code_simp+

definition bola :: staff_user where
  "bola = ada\<lparr>su_id := 49, su_fullName := ''Bola'', su_email := ''bola@fiam.ng''\<rparr>"

definition two_admins :: admin_state where
  "two_admins = (ada_console [])\<lparr>staff := [ada, bola]\<rparr>"

definition demotes :: "uuid \<Rightarrow> uuid \<Rightarrow> admin_env \<Rightarrow> staff_user admin" where
  "demotes actor i env = update_staff_member env i \<lparr>us_role = Some SUPPORT, us_status = None\<rparr>
     (ada_ctx\<lparr>cx_staffId := actor\<rparr>) None"

definition overlapping_demotion :: admin_env where
  "overlapping_demotion = (staff_env 6000 ''d'')\<lparr>ad_others :=
     (\<lambda>n s. if n = 0 then snd (demotes 49 50 (staff_env 6000 ''c'') s) else s)\<rparr>"

lemma demoting_each_other:
  "filter active_super_admin (staff two_admins) = [ada, bola]"
  "\<not> isl (fst (demotes 50 49 overlapping_demotion two_admins))"
  "filter active_super_admin (staff (snd (demotes 50 49 overlapping_demotion two_admins))) = []"
  by code_simp+

definition bola_changes_password :: "admin_state \<Rightarrow> admin_state" where
  "bola_changes_password s =
    snd (staff_changePassword (staff_env 6000 ''c'') 49 ''new password'' ''newest password'' None None s)"

definition password_meanwhile :: admin_env where
  "password_meanwhile = (staff_env 6000 ''d'')\<lparr>ad_others := (\<lambda>n s. if n = 0 then bola_changes_password s else s)\<rparr>"

lemma role_change_and_password:
  "map su_passwordHash (staff (bola_changes_password two_admins)) = [''hnew password'', ''hnewest password'']"
  "map su_passwordHash (staff (snd (demotes 50 49 password_meanwhile two_admins))) = [''hnew password'', ''hnew password'']"
  by code_simp+

text \<open>
  Three overlaps the code does not guard against.  Two refreshes of one token at once are both
  answered with a session and leave two live tokens, because the revoking update does not ask whether
  the token was live.  Two super admins who demote each other at once both pass the guard for the last
  one, and none is left.  A change of somebody's role that overlaps with their change of password
  writes the old password back.
\<close>

theorem unguarded_overlaps:
  "\<not> isl (fst (staff_refresh (staff_env 5000 ''a'') ''t'' (ada_console []))) \<and>
    \<not> isl (fst (staff_refresh overlapping_refresh ''t'' (ada_console []))) \<and>
    map sr_tokenHash (filter (\<lambda>t. sr_familyId t = 900 \<and> sr_revokedAt t = None)
      (staffTokens (snd (staff_refresh overlapping_refresh ''t'' (ada_console []))))) = [''sa'', ''sb''] \<and>
    filter active_super_admin (staff two_admins) = [ada, bola] \<and>
    \<not> isl (fst (demotes 50 49 overlapping_demotion two_admins)) \<and>
    filter active_super_admin (staff (snd (demotes 50 49 overlapping_demotion two_admins))) = [] \<and>
    map su_passwordHash (staff (bola_changes_password two_admins)) = [''hnew password'', ''hnewest password''] \<and>
    map su_passwordHash (staff (snd (demotes 50 49 password_meanwhile two_admins))) = [''hnew password'', ''hnew password'']"
  by (simp only: overlapping_refreshes demoting_each_other role_change_and_password simp_thms)

end
