(* ===== verification/AdminCustomers.thy ===== *)
theory AdminCustomers
  imports AdminPostings
begin

text \<open>
  The customer screens of the console (\<open>customers/customers.service.ts\<close>): reads of the auth and payment
  databases.  A session, a KYC document or a beneficiary is created when it is inserted, so
  "newest first" is the reverse of table order; a \<open>sort_key\<close> is an \<open>ORDER BY\<close>.
\<close>

section \<open>Search\<close>

text \<open>
  PostgreSQL's \<open>LIKE\<close> (and \<open>ILIKE\<close>, which ignores case): a percent sign is any text, an underscore any
  character, and a backslash takes the next character literally (a pattern must not end in one).
\<close>

fun sql_like :: "string \<Rightarrow> string \<Rightarrow> bool" where
  "sql_like [] s = (s = [])"
| "sql_like (p # ps) [] = (p = CHR ''%'' \<and> sql_like ps [])"
| "sql_like (p # ps) (c # s) =
    (if p = CHR ''%'' then sql_like ps (c # s) \<or> sql_like (p # ps) s
     else if p = CHR ''_'' then sql_like ps s
     else if p = CHR 0x5C then (case ps of [] \<Rightarrow> False | q # qs \<Rightarrow> c = q \<and> sql_like qs s)
     else c = p \<and> sql_like ps s)"

definition ilike :: "string \<Rightarrow> string \<Rightarrow> bool" where
  "ilike pat s = sql_like (to_lower pat) (to_lower s)"

text \<open>\<open>term.replace(/[\\%_]/g, '\\$&')\<close>, between two percent signs.\<close>

definition like_escape :: "string \<Rightarrow> string" where
  "like_escape s = concat (map (\<lambda>c. if c \<in> {CHR 0x5C, CHR ''%'', CHR ''_''} then [CHR 0x5C, c] else [c]) s)"

definition like_pattern :: "string \<Rightarrow> string" where
  "like_pattern s = ''%'' @ like_escape s @ ''%''"

definition ilike_opt :: "string \<Rightarrow> string option \<Rightarrow> bool" where
  "ilike_opt pat v \<longleftrightarrow> (case v of None \<Rightarrow> False | Some s \<Rightarrow> ilike pat s)"

definition user_matches :: "string \<Rightarrow> user \<Rightarrow> bool" where
  "user_matches pat u \<longleftrightarrow>
    ilike pat (u_email u) \<or> ilike_opt pat (u_phone u) \<or> ilike pat (u_firstName u @ '' '' @ u_lastName u)"

text \<open>A search box left empty (or blank) searches nothing.\<close>

definition search_term :: "string option \<Rightarrow> string option" where
  "search_term q = (case q of None \<Rightarrow> None | Some t \<Rightarrow> if js_trim t = [] then None else Some (js_trim t))"

section \<open>The list\<close>

record customers_query =
  cq_q :: "string option"
  cq_status :: "user_status option"
  cq_tier :: "customer_tier option"
  cq_tierUpgradeStatus :: "tier_upgrade_status option"
  cq_page :: nat
  cq_pageSize :: nat

definition wanted_customer :: "customers_query \<Rightarrow> user \<Rightarrow> bool" where
  "wanted_customer q u \<longleftrightarrow>
    matches_opt (cq_status q) (Some (u_status u)) \<and> matches_opt (cq_tier q) (Some (u_tier u)) \<and>
    matches_opt (cq_tierUpgradeStatus q) (Some (u_tierUpgradeStatus u)) \<and>
    (case search_term (cq_q q) of None \<Rightarrow> True | Some t \<Rightarrow> user_matches (like_pattern t) u)"

text \<open>\<open>tier_upgrade_submitted_at ASC NULLS LAST, id\<close> for the review queue, else \<open>created_at DESC, id\<close>.\<close>

definition submitted_at :: "user \<Rightarrow> date" where
  "submitted_at u = (case u_tierUpgradeSubmittedAt u of None \<Rightarrow> 0 | Some d \<Rightarrow> d)"

definition order_customers :: "customers_query \<Rightarrow> user list \<Rightarrow> user list" where
  "order_customers q us =
    (let byId = sort_key u_id us in
     if cq_tierUpgradeStatus q = Some TU_UNDER_REVIEW then
       sort_key submitted_at (filter (\<lambda>u. u_tierUpgradeSubmittedAt u \<noteq> None) byId) @
       filter (\<lambda>u. u_tierUpgradeSubmittedAt u = None) byId
     else sort_key (\<lambda>u. - u_createdAt u) byId)"

record customer_view =
  cu_id :: uuid
  cu_name :: string
  cu_firstName :: string
  cu_lastName :: string
  cu_email :: string
  cu_phone :: "string option"
  cu_status :: user_status
  cu_tier :: customer_tier
  cu_tierUpgradeStatus :: tier_upgrade_status
  cu_tierUpgradeSubmittedAt :: "date option"
  cu_emailVerified :: bool
  cu_phoneVerified :: bool
  cu_bvnVerified :: bool
  cu_createdAt :: date
  cu_closedAt :: "date option"
  cu_wallets :: "(uuid \<times> currency_code \<times> money) list"

definition view_customer :: "user \<Rightarrow> wallet list \<Rightarrow> customer_view" where
  "view_customer u ws =
    \<lparr>cu_id = u_id u, cu_name = ct_name (contact_of u), cu_firstName = u_firstName u, cu_lastName = u_lastName u,
     cu_email = u_email u, cu_phone = u_phone u, cu_status = u_status u, cu_tier = u_tier u,
     cu_tierUpgradeStatus = u_tierUpgradeStatus u, cu_tierUpgradeSubmittedAt = u_tierUpgradeSubmittedAt u,
     cu_emailVerified = (u_emailVerifiedAt u \<noteq> None), cu_phoneVerified = (u_phoneVerifiedAt u \<noteq> None),
     cu_bvnVerified = (u_bvnVerifiedAt u \<noteq> None), cu_createdAt = u_createdAt u, cu_closedAt = u_closedAt u,
     cu_wallets = map (\<lambda>w. (w_id w, w_currency w, w_balance w)) ws\<rparr>"

definition wallets_of :: "uuid \<Rightarrow> pay_state \<Rightarrow> wallet list" where
  "wallets_of i s = filter (\<lambda>w. w_userId w = i) (wallets s)"

definition list_customers :: "customers_query \<Rightarrow> console \<Rightarrow> customer_view list \<times> nat" where
  "list_customers q c =
    (let rows = order_customers q (filter (wanted_customer q) (users (con_auth c)))
     in (map (\<lambda>u. view_customer u (wallets_of (u_id u) (con_pay c))) (page_of (cq_page q) (cq_pageSize q) rows),
         length rows))"

section \<open>One customer\<close>

text \<open>\<open>lockState\<close>: failed attempts, the lock, and whether it holds now.\<close>

definition lockState :: "date \<Rightarrow> nat \<Rightarrow> date option \<Rightarrow> nat \<times> date option \<times> bool" where
  "lockState now n until = (n, until, case until of None \<Rightarrow> False | Some d \<Rightarrow> now < d)"

text \<open>\<open>mask\<close>: so many bullets (U+2022, outside the characters of this model), then the tail.\<close>

definition mask :: "string option \<Rightarrow> (nat \<times> string) option" where
  "mask v =
    (case v of None \<Rightarrow> None
     | Some s \<Rightarrow> if s = [] then None else Some (length s - 4, drop (length s - 4) s))"

text \<open>\<open>GROUP BY status\<close>: the statuses present with their counts.\<close>

definition group_counts :: "('r \<Rightarrow> 'k) \<Rightarrow> 'r list \<Rightarrow> ('k \<times> nat) list" where
  "group_counts key t = map (\<lambda>k. (k, affected (by_key key k) t)) (remdups (map key t))"

definition txns_of :: "uuid \<Rightarrow> pay_state \<Rightarrow> transaction list" where
  "txns_of i s = filter (\<lambda>t. list_ex (\<lambda>w. t_walletId t = Some (w_id w)) (wallets_of i s)) (txns s)"

definition last_date :: "date list \<Rightarrow> date option" where
  "last_date ds = (case ds of [] \<Rightarrow> None | d # r \<Rightarrow> Some (fold max r d))"

record customer_detail =
  cd_view :: customer_view
  cd_dateOfBirth :: "string option"
  cd_bvn :: "(nat \<times> string) option"
  cd_nin :: "(nat \<times> string) option"
  cd_verifiedAt :: "date option \<times> date option \<times> date option \<times> date option"
  cd_ninVerified :: bool
  cd_pinSet :: bool
  cd_password :: "nat \<times> date option \<times> bool"
  cd_pin :: "nat \<times> date option \<times> bool"
  cd_newDeviceLimitUntil :: "date option"
  cd_kycDocuments :: "(kyc_document_type \<times> government_id_type option \<times> date) list"
  cd_transactionCounts :: "(transaction_status \<times> nat) list"
  cd_activeSessions :: nat
  cd_lastSeenAt :: "date option"
  cd_deviceCount :: nat
  cd_pendingDeletion :: "(uuid \<times> string option \<times> date) option"

definition sessions_of :: "uuid \<Rightarrow> auth_state \<Rightarrow> session list" where
  "sessions_of i s = filter (\<lambda>x. ss_userId x = i) (sessions s)"

definition devices_of :: "uuid \<Rightarrow> auth_state \<Rightarrow> trusted_device list" where
  "devices_of i s = filter (\<lambda>d. td_userId d = i) (devices s)"

definition documents_of :: "uuid \<Rightarrow> auth_state \<Rightarrow> kyc_document list" where
  "documents_of i s = filter (\<lambda>d. kd_userId d = i) (kycDocs s)"

definition pending_deletion :: "uuid \<Rightarrow> auth_state \<Rightarrow> (uuid \<times> string option \<times> date) option" where
  "pending_deletion i s = map_option (\<lambda>r. (dr_id r, dr_reason r, dr_createdAt r)) (find_row (open_request i) (deletions s))"

definition detail_of :: "date \<Rightarrow> user \<Rightarrow> auth_state \<Rightarrow> pay_state \<Rightarrow> customer_detail" where
  "detail_of now u s p =
    \<lparr>cd_view = view_customer u (wallets_of (u_id u) p), cd_dateOfBirth = u_dateOfBirth u,
     cd_bvn = mask (u_bvn u), cd_nin = mask (u_nin u),
     cd_verifiedAt = (u_emailVerifiedAt u, u_phoneVerifiedAt u, u_bvnVerifiedAt u, u_ninVerifiedAt u),
     cd_ninVerified = (u_ninVerifiedAt u \<noteq> None), cd_pinSet = (u_transactionPinSetAt u \<noteq> None),
     cd_password = lockState now (u_passwordFailedAttempts u) (u_passwordLockedUntil u),
     cd_pin = lockState now (u_pinFailedAttempts u) (u_pinLockedUntil u),
     cd_newDeviceLimitUntil = (case u_deviceLimitUntil u of None \<Rightarrow> None | Some d \<Rightarrow> if now < d then Some d else None),
     cd_kycDocuments = map doc_summary (sort_key (\<lambda>d. - kd_uploadedAt d) (documents_of (u_id u) s)),
     cd_transactionCounts = group_counts t_status (txns_of (u_id u) p),
     cd_activeSessions = affected (\<lambda>x. ss_revokedAt x = None) (sessions_of (u_id u) s),
     cd_lastSeenAt = last_date (map ss_lastSeenAt (sessions_of (u_id u) s)),
     cd_deviceCount = length (devices_of (u_id u) s),
     cd_pendingDeletion = pending_deletion (u_id u) s\<rparr>"

definition get_customer :: "date \<Rightarrow> uuid \<Rightarrow> customer_detail con" where
  "get_customer now i =
    bindM (customer_snapshot i) (\<lambda>u. getM (\<lambda>c. detail_of now u (con_auth c) (con_pay c)))"

definition assertExists :: "uuid \<Rightarrow> unit con" where
  "assertExists i = bindM (customer_snapshot i) (\<lambda>_. retM ())"

text \<open>The last fifty sessions, newest first, and whether each is live.\<close>

definition customer_sessions :: "uuid \<Rightarrow> (session \<times> bool) list con" where
  "customer_sessions i =
    bindM (assertExists i) (\<lambda>_.
    getM (\<lambda>c. map (\<lambda>x. (x, ss_revokedAt x = None)) (take 50 (rev (sessions_of i (con_auth c))))))"

definition customer_devices :: "uuid \<Rightarrow> trusted_device list con" where
  "customer_devices i =
    bindM (assertExists i) (\<lambda>_. getM (\<lambda>c. sort_key (\<lambda>d. - td_lastSeenAt d) (devices_of i (con_auth c))))"

record customer_wallet_view =
  wv_wallets :: "(wallet \<times> address list) list"
  wv_beneficiaries :: "beneficiary list"

definition customer_wallet :: "uuid \<Rightarrow> customer_wallet_view con" where
  "customer_wallet i =
    bindM (assertExists i) (\<lambda>_.
    bindM (getM (\<lambda>c. wallets_of i (con_pay c))) (\<lambda>ws.
    getM (\<lambda>c. \<lparr>wv_wallets = map (\<lambda>w. (w, sort_key (\<lambda>a. - a_activatedAt a)
                   (filter (\<lambda>a. a_walletId a = w_id w) (addresses (con_pay c))))) ws,
       wv_beneficiaries = rev (filter (\<lambda>b. b_userId b = i) (beneficiaries (con_pay c)))\<rparr>)))"

text \<open>What blocks a closure: money in the wallets, payments in flight.  The two reads are separate.\<close>

definition wallet_total :: "uuid \<Rightarrow> pay_state \<Rightarrow> money" where
  "wallet_total i s = sum_over w_balance (wallets_of i s)"

definition payments_in_flight :: "uuid \<Rightarrow> pay_state \<Rightarrow> nat" where
  "payments_in_flight i s = affected (\<lambda>t. t_status t = PENDING \<or> t_status t = PROCESSING) (txns_of i s)"

definition closureBlockers :: "console_env \<Rightarrow> nat \<Rightarrow> uuid \<Rightarrow> (money \<times> nat) con" where
  "closureBlockers env n i =
    bindM (getM (\<lambda>c. wallet_total i (con_pay c))) (\<lambda>total.
    bindM (meanwhile env n) (\<lambda>_.
    bindM (getM (\<lambda>c. payments_in_flight i (con_pay c))) (\<lambda>flying.
    retM (total, flying))))"

section \<open>KYC review\<close>

record kyc_screen =
  ks_accountStatus :: user_status
  ks_tier :: customer_tier
  ks_status :: tier_upgrade_status
  ks_submittedAt :: "date option"
  ks_decidedAt :: "date option"
  ks_decisionNote :: "string option"
  ks_accountActive :: bool
  ks_bvnVerified :: bool
  ks_ninVerified :: bool
  ks_documentsComplete :: bool
  ks_requiredDocTypes :: "kyc_document_type list"
  ks_documents :: "kyc_document list"

definition REQUIRED_KYC_DOCS :: "kyc_document_type list" where
  "REQUIRED_KYC_DOCS = [GOVERNMENT_ID_FRONT, GOVERNMENT_ID_BACK, PROOF_OF_ADDRESS]"

text \<open>\<open>ORDER BY doc_type\<close>: the column is an enum, ordered as it was declared.\<close>

definition doc_rank :: "kyc_document_type \<Rightarrow> nat" where
  "doc_rank t = (case t of GOVERNMENT_ID_FRONT \<Rightarrow> 0 | GOVERNMENT_ID_BACK \<Rightarrow> 1 | NIN_SELFIE \<Rightarrow> 2 | PROOF_OF_ADDRESS \<Rightarrow> 3)"

definition kyc_screen_of :: "user \<Rightarrow> user \<Rightarrow> auth_state \<Rightarrow> kyc_screen" where
  "kyc_screen_of u latest s =
    (let docs = sort_key (\<lambda>d. doc_rank (kd_docType d)) (documents_of (u_id u) s) in
     \<lparr>ks_accountStatus = u_status u, ks_tier = u_tier u, ks_status = u_tierUpgradeStatus u,
      ks_submittedAt = u_tierUpgradeSubmittedAt u, ks_decidedAt = u_tierUpgradeDecidedAt latest,
      ks_decisionNote = u_tierUpgradeDecisionNote latest, ks_accountActive = (u_status u = US_ACTIVE),
      ks_bvnVerified = (u_bvnVerifiedAt u \<noteq> None), ks_ninVerified = (u_ninVerifiedAt u \<noteq> None),
      ks_documentsComplete = list_all (\<lambda>t. t \<in> set (map kd_docType docs)) REQUIRED_KYC_DOCS,
      ks_requiredDocTypes = REQUIRED_KYC_DOCS, ks_documents = docs\<rparr>)"

definition get_kyc :: "console_env \<Rightarrow> uuid \<Rightarrow> kyc_screen con" where
  "get_kyc env i =
    bindM (customer_snapshot i) (\<lambda>u.
    bindM (meanwhile env 0) (\<lambda>_.
    getM (\<lambda>c. kyc_screen_of u (case find_user i (con_auth c) of None \<Rightarrow> u | Some v \<Rightarrow> v) (con_auth c))))"

definition documentMeta :: "uuid \<Rightarrow> uuid \<Rightarrow> kyc_document con" where
  "documentMeta i docId =
    bindM (getM (\<lambda>c. find_row (\<lambda>d. kd_id d = docId \<and> kd_userId d = i) (kycDocs (con_auth c)))) (\<lambda>row.
    someM row (NotFound ''Document not found''))"

end
