(* ===== verification/AdminActions.thy ===== *)
theory AdminActions
  imports AdminCustomers
begin

text \<open>
  What staff change about a customer: \<open>customers/customer-actions.service.ts\<close>,
  \<open>customers/provisioning.service.ts\<close> and \<open>deletion-requests/deletion-requests.service.ts\<close>.  Each calls the
  internal API of the auth service, whose handlers are those of \<open>AuthAdmin\<close>, and then writes the audit
  entry.
\<close>

abbreviation con_now :: "console_env \<Rightarrow> date" where
  "con_now env \<equiv> ad_now (ce_admin env)"

abbreviation auth_now :: "console_env \<Rightarrow> date" where
  "auth_now env \<equiv> ae_now (ce_auth env)"

definition record_action :: "console_env \<Rightarrow> staff_ctx \<Rightarrow> string \<Rightarrow> uuid \<Rightarrow> unit con" where
  "record_action env ctx action i = console_audit env ctx action ''customer'' i"

definition customer_now :: "console_env \<Rightarrow> uuid \<Rightarrow> customer_detail con" where
  "customer_now env i = get_customer (con_now env) i"

text \<open>A call, its audit entry, and what others commit before each of them.\<close>

definition audited_call :: "console_env \<Rightarrow> staff_ctx \<Rightarrow> string \<Rightarrow> uuid \<Rightarrow> 'a auth \<Rightarrow> unit con" where
  "audited_call env ctx action i m =
    bindM (meanwhile env 0) (\<lambda>_.
    bindM (call_auth env 0 m) (\<lambda>_.
    bindM (meanwhile env 1) (\<lambda>_.
    record_action env ctx action i)))"

section \<open>Account actions\<close>

record update_customer_dto =
  uc_firstName :: "string option"
  uc_lastName :: "string option"
  uc_phone :: "string option"

definition update_customer :: "console_env \<Rightarrow> uuid \<Rightarrow> update_customer_dto \<Rightarrow> staff_ctx \<Rightarrow> customer_detail con" where
  "update_customer env i dto ctx =
    bindM (customer_snapshot i) (\<lambda>_.
    bindM (assertM (uc_firstName dto \<noteq> None \<or> uc_lastName dto \<noteq> None \<or> uc_phone dto \<noteq> None)
             (BadRequest ''Nothing to change'')) (\<lambda>_.
    bindM (audited_call env ctx ''customer.updated'' i
             (updateProfile i (uc_firstName dto) (uc_lastName dto) (uc_phone dto))) (\<lambda>_.
    customer_now env i)))"

definition suspend_customer :: "console_env \<Rightarrow> uuid \<Rightarrow> staff_ctx \<Rightarrow> customer_detail con" where
  "suspend_customer env i ctx =
    bindM (customer_snapshot i) (\<lambda>_.
    bindM (audited_call env ctx ''customer.suspended'' i (suspend i (auth_now env))) (\<lambda>_.
    customer_now env i))"

definition reactivate_customer :: "console_env \<Rightarrow> uuid \<Rightarrow> staff_ctx \<Rightarrow> customer_detail con" where
  "reactivate_customer env i ctx =
    bindM (audited_call env ctx ''customer.reactivated'' i (reactivate i)) (\<lambda>_. customer_now env i)"

definition clear_customer_lockouts :: "console_env \<Rightarrow> uuid \<Rightarrow> staff_ctx \<Rightarrow> customer_detail con" where
  "clear_customer_lockouts env i ctx =
    bindM (audited_call env ctx ''customer.lockouts_cleared'' i (internal_clearLockouts i)) (\<lambda>_. customer_now env i)"

definition revoke_customer_sessions :: "console_env \<Rightarrow> uuid \<Rightarrow> staff_ctx \<Rightarrow> unit con" where
  "revoke_customer_sessions env i ctx =
    audited_call env ctx ''customer.sessions_revoked'' i (admin_revokeSessions i (auth_now env))"

definition revoke_customer_session :: "console_env \<Rightarrow> uuid \<Rightarrow> uuid \<Rightarrow> staff_ctx \<Rightarrow> unit con" where
  "revoke_customer_session env i sid ctx =
    audited_call env ctx ''customer.session_revoked'' i (admin_revokeSession i sid (auth_now env))"

section \<open>Closing\<close>

definition blocked :: "money \<times> nat \<Rightarrow> bool" where
  "blocked b \<longleftrightarrow> fst b \<noteq> 0 \<or> 0 < snd b"

definition closure_refusal :: "console_env \<Rightarrow> money \<times> nat \<Rightarrow> http_error" where
  "closure_refusal env b =
    BadRequest (if fst b \<noteq> 0 then ''Wallet balance must be zero before closing (currently '' @ ce_text env (fst b) @ '').''
      else nat_str (snd b) @ '' payment(s) are still in progress; wait for them to finish.'')"

definition close_customer :: "console_env \<Rightarrow> uuid \<Rightarrow> staff_ctx \<Rightarrow> customer_detail con" where
  "close_customer env i ctx =
    bindM (customer_snapshot i) (\<lambda>before.
    bindM (assertM (u_status before \<noteq> US_CLOSED) (BadRequest ''This account is already closed'')) (\<lambda>_.
    bindM (meanwhile env 0) (\<lambda>_.
    let weSuspended = u_status before \<noteq> US_SUSPENDED in
    bindM (whenM weSuspended (bindM (call_auth env 0 (suspend i (auth_now env))) (\<lambda>_. retM ()))) (\<lambda>_.
    bindM (meanwhile env 1) (\<lambda>_.
    bindM (closureBlockers env 2 i) (\<lambda>b.
    bindM (meanwhile env 3) (\<lambda>_.
    if blocked b then
      bindM (whenM weSuspended (bindM (call_auth env 1 (reactivate i)) (\<lambda>_. retM ()))) (\<lambda>_.
      failM (closure_refusal env b))
    else
      bindM (call_auth env 2 (close_account i (Some (cx_email ctx)) (auth_now env))) (\<lambda>_.
      bindM (meanwhile env 4) (\<lambda>_.
      bindM (record_action env ctx ''customer.closed'' i) (\<lambda>_.
      customer_now env i))))))))))"

section \<open>Tier upgrades and documents\<close>

definition approve_upgrade :: "console_env \<Rightarrow> uuid \<Rightarrow> staff_ctx \<Rightarrow> customer_detail con" where
  "approve_upgrade env i ctx =
    bindM (customer_snapshot i) (\<lambda>_.
    bindM (audited_call env ctx ''kyc.approved'' i
             (approveTierUpgrade i (ae_others (ce_auth env)) (auth_now env))) (\<lambda>_.
    customer_now env i))"

definition reject_upgrade :: "console_env \<Rightarrow> uuid \<Rightarrow> string \<Rightarrow> staff_ctx \<Rightarrow> customer_detail con" where
  "reject_upgrade env i reason ctx =
    bindM (audited_call env ctx ''kyc.rejected'' i
             (rejectTierUpgrade i reason (ae_others (ce_auth env)) (auth_now env))) (\<lambda>_.
    customer_now env i)"

text \<open>The file as stored, with the type and name it was uploaded under.\<close>

definition viewDocument :: "console_env \<Rightarrow> uuid \<Rightarrow> uuid \<Rightarrow> staff_ctx \<Rightarrow> (kyc_document \<times> string \<times> string) con" where
  "viewDocument env i docId ctx =
    bindM (documentMeta i docId) (\<lambda>meta.
    bindM (meanwhile env 0) (\<lambda>_.
    bindM (record_action env ctx ''kyc.document_viewed'' i) (\<lambda>_.
    bindM (meanwhile env 1) (\<lambda>_.
    bindM (call_auth env 0 (kycDocumentFile i docId)) (\<lambda>file.
    retM (file, kd_mimeType meta, kd_originalFilename meta))))))"

section \<open>Provisioning\<close>

definition BATCH_LIMIT :: nat where "BATCH_LIMIT = 200"

definition provisioning_candidate :: "user \<Rightarrow> bool" where
  "provisioning_candidate u \<longleftrightarrow> u_bvnVerifiedAt u \<noteq> None \<and> u_transactionPinSetAt u \<noteq> None \<and>
    u_status u \<noteq> US_SUSPENDED \<and> u_status u \<noteq> US_CLOSED"

definition has_account :: "pay_state \<Rightarrow> uuid \<Rightarrow> bool" where
  "has_account s i \<longleftrightarrow> list_ex (\<lambda>w. w_userId w = i \<and> w_currency w = NGN \<and>
    list_ex (\<lambda>a. a_walletId a = w_id w \<and> a_status a = ADDR_ACTIVE) (addresses s)) (wallets s)"

definition pending_provisioning :: "console_env \<Rightarrow> user list con" where
  "pending_provisioning env =
    bindM (getM (\<lambda>c. sort_key u_createdAt (filter provisioning_candidate (users (con_auth c))))) (\<lambda>cands.
    bindM (meanwhile env 0) (\<lambda>_.
    getM (\<lambda>c. filter (\<lambda>u. \<not> has_account (con_pay c) (u_id u)) cands)))"

record retry_result =
  rr_queued :: nat
  rr_skipped :: "(uuid \<times> bool \<times> string option) list"
  rr_notPending :: "uuid list"
  rr_remaining :: nat

definition wanted_ids :: "uuid list option \<Rightarrow> uuid list \<Rightarrow> uuid list" where
  "wanted_ids ids pending = (case ids of None \<Rightarrow> pending | Some l \<Rightarrow> filter (\<lambda>i. i \<in> set l) pending)"

definition was_queued :: "uuid \<times> bool \<times> string option \<Rightarrow> bool" where
  "was_queued r = fst (snd r)"

definition retry_result_of ::
  "uuid list option \<Rightarrow> uuid list \<Rightarrow> uuid list \<Rightarrow> (uuid \<times> bool \<times> string option) list \<Rightarrow> retry_result" where
  "retry_result_of ids pendingIds batch results =
    \<lparr>rr_queued = length (filter was_queued results), rr_skipped = filter (\<lambda>r. \<not> was_queued r) results,
     rr_notPending = filter (\<lambda>i. i \<notin> set pendingIds) (case ids of None \<Rightarrow> [] | Some l \<Rightarrow> l),
     rr_remaining = length (wanted_ids ids pendingIds) - length batch\<rparr>"

definition audit_entry_of :: "staff_ctx \<Rightarrow> string \<Rightarrow> string \<Rightarrow> audit_entry" where
  "audit_entry_of ctx action kind =
    \<lparr>au_staffId = Some (cx_staffId ctx), au_staffEmail = Some (cx_email ctx), au_action = action,
     au_resourceType = Some kind, au_resourceId = None, au_ip = cx_ip ctx\<rparr>"

definition retry_provisioning :: "console_env \<Rightarrow> uuid list option \<Rightarrow> staff_ctx \<Rightarrow> retry_result con" where
  "retry_provisioning env ids ctx =
    bindM (pending_provisioning env) (\<lambda>pending.
    let pendingIds = map u_id pending; batch = take BATCH_LIMIT (wanted_ids ids pendingIds) in
    bindM (meanwhile env 1) (\<lambda>_.
    bindM (if batch = [] then retM [] else call_auth env 0 (retryProvisioning batch)) (\<lambda>results.
    bindM (meanwhile env 2) (\<lambda>_.
    bindM (on_admin (audit_record (ce_admin env) (audit_entry_of ctx ''provisioning.retried'' ''customer''))) (\<lambda>_.
    retM (retry_result_of ids pendingIds batch results))))))"

section \<open>Deletion requests\<close>

record deletion_row =
  dl_request :: account_deletion_request
  dl_customer :: "contact option"
  dl_blockers :: "(money \<times> nat) option"

text \<open>Open requests first, then oldest first; only open ones are checked for what blocks them.\<close>

definition order_deletions :: "account_deletion_request list \<Rightarrow> account_deletion_request list" where
  "order_deletions rs =
    (let byDate = sort_key dr_createdAt rs in
     filter (\<lambda>r. dr_status r = DR_PENDING) byDate @ filter (\<lambda>r. dr_status r \<noteq> DR_PENDING) byDate)"

definition deletion_row_of :: "console \<Rightarrow> account_deletion_request \<Rightarrow> deletion_row" where
  "deletion_row_of c r =
    \<lparr>dl_request = r, dl_customer = contacts (dr_userId r) c,
     dl_blockers = (if dr_status r = DR_PENDING
       then Some (wallet_total (dr_userId r) (con_pay c), payments_in_flight (dr_userId r) (con_pay c)) else None)\<rparr>"

definition list_deletions :: "deletion_status list \<Rightarrow> nat \<Rightarrow> nat \<Rightarrow> console \<Rightarrow> deletion_row list \<times> nat" where
  "list_deletions sts pg n c =
    (let rows = order_deletions (filter (\<lambda>r. sts = [] \<or> dr_status r \<in> set sts) (deletions (con_auth c)))
     in (map (deletion_row_of c) (page_of pg n rows), length rows))"

definition deletion_word :: "deletion_status \<Rightarrow> string" where
  "deletion_word st = (case st of DR_PENDING \<Rightarrow> ''pending'' | DR_COMPLETED \<Rightarrow> ''completed''
    | DR_REJECTED \<Rightarrow> ''rejected'' | DR_CANCELLED \<Rightarrow> ''cancelled'')"

definition pending_request :: "uuid \<Rightarrow> account_deletion_request con" where
  "pending_request i =
    bindM (getM (\<lambda>c. find_row (by_key dr_id i) (deletions (con_auth c)))) (\<lambda>row.
    bindM (someM row (NotFound ''Request not found'')) (\<lambda>r.
    bindM (assertM (dr_status r = DR_PENDING)
             (BadRequest (''This request is already '' @ deletion_word (dr_status r)))) (\<lambda>_.
    retM r)))"

definition approve_deletion :: "console_env \<Rightarrow> uuid \<Rightarrow> staff_ctx \<Rightarrow> customer_detail con" where
  "approve_deletion env i ctx =
    bindM (pending_request i) (\<lambda>r.
    bindM (meanwhile env 5) (\<lambda>_.
    bindM (close_customer env (dr_userId r) ctx) (\<lambda>customer.
    bindM (record_action env ctx ''deletion_request.approved'' (dr_userId r)) (\<lambda>_.
    retM customer))))"

definition reject_deletion_request :: "console_env \<Rightarrow> uuid \<Rightarrow> string \<Rightarrow> staff_ctx \<Rightarrow> (uuid \<times> deletion_status) con" where
  "reject_deletion_request env i reason ctx =
    bindM (pending_request i) (\<lambda>r.
    bindM (audited_call env ctx ''deletion_request.rejected'' (dr_userId r)
             (reject_deletion i reason (Some (cx_email ctx)) (ae_others (ce_auth env)) (auth_now env))) (\<lambda>_.
    retM (i, DR_REJECTED)))"

end
