(* ===== verification/AdminTransactions.thy ===== *)
theory AdminTransactions
  imports AdminActions
begin

text \<open>
  The transaction screens (\<open>transactions/transactions.service.ts\<close>, \<open>transactions.controller.ts\<close>) and the
  export as CSV (\<open>common/csv.ts\<close>).  The rows are those of the payment database, their customers those of
  the auth database.
\<close>

section \<open>Rows\<close>

record tx_row =
  tr_txn :: transaction
  tr_userId :: "uuid option"
  tr_beneficiary :: "beneficiary option"

text \<open>The two left joins.\<close>

definition join_row :: "pay_state \<Rightarrow> transaction \<Rightarrow> tx_row" where
  "join_row s t =
    \<lparr>tr_txn = t,
     tr_userId = (case t_walletId t of None \<Rightarrow> None | Some w \<Rightarrow> map_option w_userId (find_wallet w s)),
     tr_beneficiary = (case t_beneficiaryId t of None \<Rightarrow> None | Some b \<Rightarrow> find_row (by_key b_id b) (beneficiaries s))\<rparr>"

record other_party =
  cy_name :: "string option"
  cy_accountNumber :: "string option"
  cy_bankName :: "string option"
  cy_bankCode :: "string option"

definition raw_text :: "string \<Rightarrow> transaction \<Rightarrow> string option" where
  "raw_text key t = (case t_rawPayload t of None \<Rightarrow> None | Some j \<Rightarrow> json_str (obj_get key j))"

definition other_party_of :: "tx_row \<Rightarrow> other_party" where
  "other_party_of r =
    (let t = tr_txn r in
     if t_provider t = MANUAL then
       \<lparr>cy_name = Some ''Manual adjustment'', cy_accountNumber = None, cy_bankName = None, cy_bankCode = None\<rparr>
     else if t_type t = DEBIT then
       (case tr_beneficiary r of
          None \<Rightarrow> \<lparr>cy_name = None, cy_accountNumber = None, cy_bankName = None, cy_bankCode = None\<rparr>
        | Some b \<Rightarrow> \<lparr>cy_name = b_accountName b, cy_accountNumber = Some (b_accountNumber b),
                    cy_bankName = b_bankName b, cy_bankCode = Some (b_bankCode b)\<rparr>)
     else \<lparr>cy_name = raw_text ''originator_account_name'' t,
           cy_accountNumber = raw_text ''originator_account_number'' t,
           cy_bankName = None, cy_bankCode = raw_text ''originator_bank'' t\<rparr>)"

record tx_customer =
  tc_id :: uuid
  tc_contact :: contact
  tc_phone :: "string option"
  tc_status :: user_status
  tc_tier :: customer_tier

definition tx_customer_of :: "auth_state \<Rightarrow> tx_row \<Rightarrow> tx_customer option" where
  "tx_customer_of s r =
    (case tr_userId r of None \<Rightarrow> None
     | Some i \<Rightarrow> map_option (\<lambda>u. \<lparr>tc_id = u_id u, tc_contact = contact_of u, tc_phone = u_phone u,
         tc_status = u_status u, tc_tier = u_tier u\<rparr>) (find_user i s))"

record tx_view =
  tv_txn :: transaction
  tv_customer :: "tx_customer option"
  tv_counterparty :: other_party

definition tx_view_of :: "auth_state \<Rightarrow> tx_row \<Rightarrow> tx_view" where
  "tx_view_of s r = \<lparr>tv_txn = tr_txn r, tv_customer = tx_customer_of s r, tv_counterparty = other_party_of r\<rparr>"

section \<open>The filter\<close>

record tx_query =
  tq_q :: "string option"
  tq_status :: "transaction_status list"
  tq_type :: "transaction_type option"
  tq_currency :: "currency_code option"
  tq_userId :: "uuid option"
  tq_walletId :: "uuid option"
  tq_from :: "date option"
  tq_to :: "date option"
  tq_page :: nat
  tq_pageSize :: nat

text \<open>At most 200 customers are resolved from the search term.\<close>

definition searched_users :: "string \<Rightarrow> auth_state \<Rightarrow> uuid list" where
  "searched_users pat s = map u_id (take 200 (filter (user_matches pat) (users s)))"

definition tx_matches :: "string \<Rightarrow> uuid list \<Rightarrow> tx_row \<Rightarrow> bool" where
  "tx_matches pat us r \<longleftrightarrow>
    (let t = tr_txn r in
     ilike pat (t_reference t) \<or> ilike_opt pat (t_externalId t) \<or> ilike pat (t_accountNumber t) \<or>
     ilike_opt pat (t_narration t) \<or> (case tr_userId r of None \<Rightarrow> False | Some i \<Rightarrow> i \<in> set us))"

definition wanted_tx :: "tx_query \<Rightarrow> auth_state \<Rightarrow> tx_row \<Rightarrow> bool" where
  "wanted_tx q s r \<longleftrightarrow>
    (let t = tr_txn r in
     (tq_status q = [] \<or> t_status t \<in> set (tq_status q)) \<and> matches_opt (tq_type q) (Some (t_type t)) \<and>
     matches_opt (tq_currency q) (Some (t_currency t)) \<and>
     (tq_walletId q = None \<or> t_walletId t = tq_walletId q) \<and> (tq_userId q = None \<or> tr_userId r = tq_userId q) \<and>
     (case tq_from q of None \<Rightarrow> True | Some d \<Rightarrow> d \<le> t_createdAt t) \<and>
     (case tq_to q of None \<Rightarrow> True | Some d \<Rightarrow> t_createdAt t \<le> d) \<and>
     (case search_term (tq_q q) of None \<Rightarrow> True
      | Some term \<Rightarrow> tx_matches (like_pattern term) (searched_users (like_pattern term) s) r))"

text \<open>\<open>ORDER BY t.created_at DESC, t.id\<close>.\<close>

definition tx_rows :: "tx_query \<Rightarrow> console \<Rightarrow> tx_row list" where
  "tx_rows q c =
    sort_key (\<lambda>r. - t_createdAt (tr_txn r)) (sort_key (\<lambda>r. t_id (tr_txn r))
      (filter (wanted_tx q (con_auth c)) (map (join_row (con_pay c)) (txns (con_pay c)))))"

record tx_summary =
  su_group :: "transaction_status \<times> transaction_type"
  su_count :: nat
  su_amount :: money

definition summary_of :: "tx_row list \<Rightarrow> tx_summary list" where
  "summary_of rows =
    (let key = (\<lambda>r. (t_status (tr_txn r), t_type (tr_txn r))) in
     map (\<lambda>k. \<lparr>su_group = k, su_count = affected (by_key key k) rows,
               su_amount = sum_over (\<lambda>r. t_amount (tr_txn r)) (filter (by_key key k) rows)\<rparr>)
       (remdups (map key rows)))"

record tx_list =
  tl_items :: "tx_view list"
  tl_total :: nat
  tl_summary :: "tx_summary list"

definition list_txns :: "tx_query \<Rightarrow> console \<Rightarrow> tx_list" where
  "list_txns q c =
    (let rows = tx_rows q c in
     \<lparr>tl_items = map (tx_view_of (con_auth c)) (page_of (tq_page q) (tq_pageSize q) rows),
      tl_total = length rows, tl_summary = summary_of rows\<rparr>)"

definition exportRows :: "tx_query \<Rightarrow> nat \<Rightarrow> console \<Rightarrow> bool \<times> tx_view list" where
  "exportRows q cap c =
    (let rows = take (cap + 1) (tx_rows q c); truncated = cap < length rows in
     (truncated, map (tx_view_of (con_auth c)) (if truncated then take cap rows else rows)))"

text \<open>One transaction, with its wallet and the wallet's accounts (creation order reversed).\<close>

record tx_detail =
  td_view :: tx_view
  td_wallet :: "(wallet \<times> address list) option"

definition get_txn :: "uuid \<Rightarrow> tx_detail con" where
  "get_txn i =
    bindM (depositForAssignment i) (\<lambda>t.
    getM (\<lambda>c. \<lparr>td_view = tx_view_of (con_auth c) (join_row (con_pay c) t),
      td_wallet = (case t_walletId t of None \<Rightarrow> None
        | Some w \<Rightarrow> map_option (\<lambda>x. (x, rev (filter (\<lambda>a. a_walletId a = w) (addresses (con_pay c)))))
                     (find_wallet w (con_pay c)))\<rparr>))"

section \<open>CSV\<close>

text \<open>A value of a cell: nothing (null or undefined), a text, or a date (\<open>stamp\<close> prints it in ISO form).\<close>

datatype csv_value = CsvNone | CsvText string | CsvDate date

definition formula_start :: "char \<Rightarrow> bool" where
  "formula_start c \<longleftrightarrow> c \<in> {CHR ''='', CHR ''+'', CHR ''-'', CHR ''@'', CHR 0x09, CHR 0x0D}"

text \<open>\<open>/^-\d+(\.\d+)?$/\<close>\<close>

definition negative_number :: "string \<Rightarrow> bool" where
  "negative_number s \<longleftrightarrow> s \<noteq> [] \<and> hd s = CHR ''-'' \<and>
    (let n = takeWhile is_digit (tl s); rest = dropWhile is_digit (tl s)
     in n \<noteq> [] \<and> (rest = [] \<or> hd rest = CHR ''.'' \<and> tl rest \<noteq> [] \<and> list_all is_digit (tl rest)))"

definition csv_plain :: "(date \<Rightarrow> string) \<Rightarrow> csv_value \<Rightarrow> string" where
  "csv_plain stamp v = (case v of CsvNone \<Rightarrow> [] | CsvText s \<Rightarrow> s | CsvDate d \<Rightarrow> stamp d)"

definition csv_safe :: "string \<Rightarrow> string" where
  "csv_safe s = (if s \<noteq> [] \<and> formula_start (hd s) \<and> \<not> negative_number s then CHR 0x27 # s else s)"

definition csv_special :: "char \<Rightarrow> bool" where
  "csv_special c \<longleftrightarrow> c \<in> {CHR 0x22, CHR '','', CHR 0x0D, CHR 0x0A}"

definition csv_quote :: "string \<Rightarrow> string" where
  "csv_quote s =
    (if list_ex csv_special s
     then [CHR 0x22] @ concat (map (\<lambda>c. if c = CHR 0x22 then [c, c] else [c]) s) @ [CHR 0x22] else s)"

definition csvCell :: "(date \<Rightarrow> string) \<Rightarrow> csv_value \<Rightarrow> string" where
  "csvCell stamp v = csv_quote (csv_safe (csv_plain stamp v))"

definition CRLF :: string where "CRLF = [CHR 0x0D, CHR 0x0A]"

text \<open>The lines; in front of them goes the byte order mark.\<close>

definition toCsv :: "(date \<Rightarrow> string) \<Rightarrow> string list \<Rightarrow> csv_value list list \<Rightarrow> string" where
  "toCsv stamp headers rows =
    join_with CRLF (map (\<lambda>r. join_with '','' (map (csvCell stamp) r)) (map CsvText headers # rows)) @ CRLF"

section \<open>The export and the routes that act\<close>

definition EXPORT_MAX_ROWS :: nat where "EXPORT_MAX_ROWS = 20000"

definition csv_opt :: "string option \<Rightarrow> csv_value" where
  "csv_opt v = (case v of None \<Rightarrow> CsvNone | Some s \<Rightarrow> CsvText s)"

definition type_word :: "transaction_type \<Rightarrow> string" where
  "type_word t = (case t of CREDIT \<Rightarrow> ''CREDIT'' | DEBIT \<Rightarrow> ''DEBIT'')"

definition tx_status_word :: "transaction_status \<Rightarrow> string" where
  "tx_status_word st = (case st of PENDING \<Rightarrow> ''PENDING'' | PROCESSING \<Rightarrow> ''PROCESSING'' | SUCCESSFUL \<Rightarrow> ''SUCCESSFUL''
    | FAILED \<Rightarrow> ''FAILED'' | UNMATCHED \<Rightarrow> ''UNMATCHED'')"

definition provider_word :: "payment_provider_key \<Rightarrow> string" where
  "provider_word p = (case p of VFD \<Rightarrow> ''VFD'' | MANUAL \<Rightarrow> ''MANUAL'')"

definition EXPORT_HEADERS :: "string list" where
  "EXPORT_HEADERS = [''Date (UTC)'', ''Reference'', ''Type'', ''Status'', ''Currency'', ''Amount'', ''Fee'',
     ''Provider'', ''Customer'', ''Customer email'', ''Counterparty'', ''Counterparty account'',
     ''Counterparty bank code'', ''Narration'']"

definition export_row :: "(money \<Rightarrow> string) \<Rightarrow> tx_view \<Rightarrow> csv_value list" where
  "export_row text v =
    (let t = tv_txn v; cp = tv_counterparty v in
     [CsvDate (t_createdAt t), CsvText (t_reference t), CsvText (type_word (t_type t)),
      CsvText (tx_status_word (t_status t)), CsvText ''NGN'', CsvText (text (t_amount t)),
      csv_opt (map_option text (t_fee t)), CsvText (provider_word (t_provider t)),
      csv_opt (map_option (ct_name \<circ> tc_contact) (tv_customer v)),
      csv_opt (map_option (ct_email \<circ> tc_contact) (tv_customer v)),
      csv_opt (cy_name cp), csv_opt (cy_accountNumber cp), csv_opt (cy_bankCode cp), csv_opt (t_narration t)])"

definition export_txns :: "console_env \<Rightarrow> (date \<Rightarrow> string) \<Rightarrow> tx_query \<Rightarrow> staff_ctx \<Rightarrow> string con" where
  "export_txns env stamp q ctx =
    bindM (getM (exportRows q EXPORT_MAX_ROWS)) (\<lambda>(truncated, items).
    bindM (meanwhile env 0) (\<lambda>_.
    bindM (on_admin (audit_record (ce_admin env) (audit_entry_of ctx ''transactions.exported'' ''transaction''))) (\<lambda>_.
    retM (toCsv stamp EXPORT_HEADERS (map (export_row (ce_text env)) items)))))"

text \<open>Asks the payment service to ask the provider (\<open>Internal.requery\<close>).\<close>

definition requery_txn :: "console_env \<Rightarrow> registry \<Rightarrow> uuid \<Rightarrow> staff_ctx \<Rightarrow> requery_view con" where
  "requery_txn env rg i ctx =
    bindM (call_payment env 0 (requery rg (ce_payOthers env) i (con_now env))) (\<lambda>v.
    bindM (meanwhile env 0) (\<lambda>_.
    bindM (console_audit env ctx ''transaction.requeried'' ''transaction'' i) (\<lambda>_.
    retM v)))"

definition view_txn :: "console_env \<Rightarrow> uuid \<Rightarrow> staff_ctx \<Rightarrow> tx_detail con" where
  "view_txn env i ctx =
    bindM (get_txn i) (\<lambda>v.
    bindM (catchM (console_audit env ctx ''transaction.viewed'' ''transaction'' i) (\<lambda>_. retM ())) (\<lambda>_.
    retM v))"

end
