(* ===== verification/AdminComms.thy ===== *)
theory AdminComms
  imports AdminTransactions
begin

text \<open>
  Broadcasts to customers (\<open>comms/comms.service.ts\<close>, \<open>comms.processor.ts\<close>).  The worker reads the auth
  database once per page: \<open>db k\<close> is that database at the k-th query, or the text of the error when the query
  fails.  While it runs, nothing else changes the row of its broadcast.
\<close>

section \<open>Requests\<close>

record create_broadcast_dto =
  cb_channels :: "string list"
  cb_title :: string
  cb_body :: string
  cb_customerIds :: "uuid list option"

definition insert_broadcast :: "broadcast \<Rightarrow> broadcast admin" where
  "insert_broadcast b s =
    (let x = b\<lparr>bc_id := admin_next s\<rparr>
     in (Inr x, s\<lparr>broadcasts := insert_row x (broadcasts s), admin_next := Suc (admin_next s)\<rparr>))"

definition create_broadcast :: "admin_env \<Rightarrow> create_broadcast_dto \<Rightarrow> staff_ctx \<Rightarrow> broadcast admin" where
  "create_broadcast env dto ctx =
    bindM (insert_broadcast \<lparr>bc_id = 0, bc_channels = cb_channels dto, bc_title = cb_title dto, bc_body = cb_body dto,
             bc_customerIds = cb_customerIds dto, bc_status = BC_QUEUED, bc_recipientCount = 0, bc_publishedCount = 0,
             bc_error = None, bc_createdBy = cx_staffId ctx, bc_completedAt = None\<rparr>) (\<lambda>b.
    bindM (updM (ad_others env 0)) (\<lambda>_.
    bindM (audit_record env
             \<lparr>au_staffId = Some (cx_staffId ctx), au_staffEmail = Some (cx_email ctx),
              au_action = ''broadcast.created'', au_resourceType = Some ''broadcast'',
              au_resourceId = Some (bc_id b), au_ip = cx_ip ctx\<rparr>) (\<lambda>_.
    bindM (updM (\<lambda>s. s\<lparr>adminOut := adminOut s @ [BroadcastJob (bc_id b)]\<rparr>)) (\<lambda>_.
    retM b))))"

definition list_broadcasts :: "nat \<Rightarrow> nat \<Rightarrow> admin_state \<Rightarrow> broadcast list \<times> nat" where
  "list_broadcasts pg n s = (page_of pg n (rev (broadcasts s)), length (broadcasts s))"

definition find_broadcast :: "uuid \<Rightarrow> admin_state \<Rightarrow> broadcast option" where
  "find_broadcast i s = find_row (by_key bc_id i) (broadcasts s)"

definition get_broadcast :: "uuid \<Rightarrow> broadcast admin" where
  "get_broadcast i = bindM (getM (find_broadcast i)) (\<lambda>b. someM b (NotFound ''Broadcast not found''))"

section \<open>The worker\<close>

definition BATCH :: nat where "BATCH = 500"

definition addressed :: "broadcast \<Rightarrow> user \<Rightarrow> bool" where
  "addressed b u \<longleftrightarrow> u_status u = US_ACTIVE \<and> (case bc_customerIds b of None \<Rightarrow> True | Some l \<Rightarrow> u_id u \<in> set l)"

text \<open>The page after an id, in the order of ids; the walk starts after the nil id, 0.\<close>

definition broadcast_page :: "broadcast \<Rightarrow> uuid \<Rightarrow> auth_state \<Rightarrow> user list" where
  "broadcast_page b after a = take BATCH (sort_key u_id (filter (\<lambda>u. addressed b u \<and> after < u_id u) (users a)))"

definition message_id :: "broadcast \<Rightarrow> user \<Rightarrow> string \<Rightarrow> string" where
  "message_id b u channel = nat_str (bc_id b) @ '':'' @ nat_str (u_id u) @ '':'' @ channel"

definition publish :: "broadcast \<Rightarrow> user \<Rightarrow> admin_effect list" where
  "publish b u =
    (if ''push'' \<in> set (bc_channels b) then [BroadcastPush (message_id b u ''push'') (u_id u)] else []) @
    (if ''email'' \<in> set (bc_channels b) \<and> u_email u \<noteq> [] then
       [BroadcastEmail (message_id b u ''email'') (u_email u)
          (if u_firstName u = [] then ''there'' else u_firstName u)] else [])"

definition update_broadcast :: "uuid \<Rightarrow> (broadcast \<Rightarrow> broadcast) \<Rightarrow> admin_state \<Rightarrow> admin_state" where
  "update_broadcast i f s = s\<lparr>broadcasts := update_where (by_key bc_id i) f (broadcasts s)\<rparr>"

definition send_page :: "broadcast \<Rightarrow> user list \<Rightarrow> nat \<Rightarrow> nat \<Rightarrow> admin_state \<Rightarrow> admin_state" where
  "send_page b rows recipients published s =
    update_broadcast (bc_id b) (\<lambda>x. x\<lparr>bc_recipientCount := recipients, bc_publishedCount := published\<rparr>)
      (s\<lparr>adminOut := adminOut s @ concat (map (publish b) rows)\<rparr>)"

text \<open>The \<open>for (;;)\<close>: None is a loop that never ends; it leaves with an error when a query failed.\<close>

partial_function (option) broadcast_loop ::
  "(nat \<Rightarrow> string + auth_state) \<Rightarrow> broadcast \<Rightarrow> nat \<Rightarrow> uuid \<Rightarrow> nat \<Rightarrow> nat \<Rightarrow> admin_state \<Rightarrow> (string option \<times> admin_state) option" where
  "broadcast_loop db b k after recipients published s =
    (case db k of
       Inl err \<Rightarrow> Some (Some err, s)
     | Inr a \<Rightarrow>
        (if broadcast_page b after a = [] then Some (None, s)
         else broadcast_loop db b (Suc k) (u_id (last (broadcast_page b after a)))
                (recipients + length (broadcast_page b after a))
                (published + length (concat (map (publish b) (broadcast_page b after a))))
                (send_page b (broadcast_page b after a)
                   (recipients + length (broadcast_page b after a))
                   (published + length (concat (map (publish b) (broadcast_page b after a)))) s)))"

definition finish_broadcast :: "broadcast \<Rightarrow> date \<Rightarrow> string option \<times> admin_state \<Rightarrow> admin_state" where
  "finish_broadcast b now r =
    update_broadcast (bc_id b)
      (case fst r of
         None \<Rightarrow> (\<lambda>x. x\<lparr>bc_status := BC_COMPLETED, bc_completedAt := Some now\<rparr>)
       | Some err \<Rightarrow> (\<lambda>x. x\<lparr>bc_status := BC_FAILED, bc_error := Some (take 500 err), bc_completedAt := Some now\<rparr>))
      (snd r)"

definition process_broadcast ::
  "(nat \<Rightarrow> string + auth_state) \<Rightarrow> date \<Rightarrow> uuid \<Rightarrow> admin_state \<Rightarrow> ((http_error + unit) \<times> admin_state) option" where
  "process_broadcast db now i s =
    (case find_broadcast i s of
       None \<Rightarrow> Some (Inl (PlainError ''EntityNotFoundError''), s)
     | Some b \<Rightarrow>
        map_option (\<lambda>r. (Inr (), finish_broadcast b now r))
          (broadcast_loop db b 0 0 0 0 (update_broadcast i (\<lambda>x. x\<lparr>bc_status := BC_PROCESSING\<rparr>) s)))"

end
