(* ===== verification/CommsProps.thy ===== *)
theory CommsProps
  imports AdminComms
begin

text \<open>
  The worker of broadcasts: its loop ends whatever other requests do to the customers meanwhile, nobody is
  sent the same message twice, and when the customers do not change everybody addressed is sent it once.
\<close>

section \<open>Pages\<close>

lemma page_ids:
  assumes "distinct (map u_id (users a))"
  shows "sorted_wrt (<) (map u_id (broadcast_page b after a))"
proof -
  have "distinct (map u_id (sort_key u_id (filter P (users a))))" for P
    using assms by (simp add: distinct_map inj_on_filter_key_eq distinct_filter inj_on_def)
  then have "sorted_wrt (<) (map u_id (sort_key u_id (filter P (users a))))" for P
    by (metis sorted_sort_key strict_sorted_iff)
  then show ?thesis unfolding broadcast_page_def by (metis sorted_wrt_take take_map)
qed

lemma page_member:
  assumes "u \<in> set (broadcast_page b after a)"
  shows "addressed b u \<and> after < u_id u \<and> u \<in> set (users a)"
  using assms unfolding broadcast_page_def by (auto dest!: in_set_takeD)

lemma send_page_twice:
  "send_page b vs n2 m2 (send_page b us n1 m1 s) = send_page b (us @ vs) n2 m2 s"
  by (auto simp: send_page_def update_broadcast_def update_where_def o_def)

text \<open>What a run of the loop leaves: the messages to \<open>us\<close>, in that order, and their number.\<close>

definition sent_to :: "broadcast \<Rightarrow> user list \<Rightarrow> nat \<Rightarrow> nat \<Rightarrow> admin_state \<Rightarrow> admin_state" where
  "sent_to b us n m s =
    (if us = [] then s else send_page b us (n + length us) (m + length (concat (map (publish b) us))) s)"

lemma sent_to_Nil [simp]: "sent_to b [] n m s = s"
  by (simp add: sent_to_def)

lemma sent_to_page:
  assumes "rows \<noteq> []"
  shows "sent_to b us (n + length rows) (m + length (concat (map (publish b) rows)))
      (send_page b rows (n + length rows) (m + length (concat (map (publish b) rows))) s) = sent_to b (rows @ us) n m s"
  using assms by (simp add: sent_to_def send_page_twice add.assoc)

section \<open>The loop ends\<close>

definition ids_below :: "nat \<Rightarrow> (nat \<Rightarrow> string + auth_state) \<Rightarrow> bool" where
  "ids_below N db \<longleftrightarrow>
    (\<forall>k a. db k = Inr a \<longrightarrow> distinct (map u_id (users a)) \<and> (\<forall>u \<in> set (users a). u_id u < N))"

lemma sorted_wrt_glue:
  assumes "sorted_wrt (<) (map f xs)" and "xs \<noteq> []" and "sorted_wrt (<) (f (last xs) # map f ys)"
  shows "sorted_wrt (<) (map f (xs @ ys) :: nat list)"
proof -
  have "f x \<le> f (last xs)" if "x \<in> set xs" for x
    using assms(1) that by (induction xs) (auto split: if_splits intro: less_imp_le)
  then show ?thesis using assms by (auto simp: sorted_wrt_append intro: le_less_trans)
qed

lemma broadcast_loop_ends:
  assumes "ids_below N db"
  shows "\<exists>err us. broadcast_loop db b k after n m s = Some (err, sent_to b us n m s) \<and>
    sorted_wrt (<) (after # map u_id us)"
proof (induction "N - after" arbitrary: k after n m s rule: less_induct)
  case less
  show ?case
  proof (cases "db k")
    case (Inl err)
    have "broadcast_loop db b k after n m s = Some (Some err, sent_to b [] n m s) \<and>
        sorted_wrt (<) (after # map u_id [])"
      using Inl by (subst broadcast_loop.simps) simp
    then show ?thesis by blast
  next
    case (Inr a)
    let ?rows = "broadcast_page b after a"
    show ?thesis
    proof (cases "?rows = []")
      case True
      then have "broadcast_loop db b k after n m s = Some (None, sent_to b [] n m s) \<and>
          sorted_wrt (<) (after # map u_id [])"
        using Inr by (subst broadcast_loop.simps) simp
      then show ?thesis by blast
    next
      case False
      let ?after = "u_id (last ?rows)"
      have rows: "after < u_id u \<and> u_id u < N" if "u \<in> set ?rows" for u
        using page_member [OF that] assms Inr by (auto simp: ids_below_def)
      have dec: "N - ?after < N - after" using rows [OF last_in_set [OF False]] by linarith
      let ?n = "n + length ?rows" and ?m = "m + length (concat (map (publish b) ?rows))"
      obtain err us where run: "broadcast_loop db b (Suc k) ?after ?n ?m (send_page b ?rows ?n ?m s) =
          Some (err, sent_to b us ?n ?m (send_page b ?rows ?n ?m s))"
        and ids: "sorted_wrt (<) (?after # map u_id us)"
        using less [OF dec] by blast
      have "broadcast_loop db b k after n m s = Some (err, sent_to b (?rows @ us) n m s)"
        using Inr False run sent_to_page [OF False] by (subst broadcast_loop.simps) simp
      moreover have "distinct (map u_id (users a))" using assms Inr by (simp add: ids_below_def)
      then have all: "sorted_wrt (<) (map u_id (?rows @ us))"
        using sorted_wrt_glue [OF page_ids False ids] by blast
      moreover have "after < u_id u" if "u \<in> set (?rows @ us)" for u
        using that rows ids rows [OF last_in_set [OF False]] by (auto intro: less_trans)
      ultimately show ?thesis by (intro exI [of _ err] exI [of _ "?rows @ us"]) auto
    qed
  qed
qed

section \<open>Customers who do not change\<close>

definition audience :: "broadcast \<Rightarrow> auth_state \<Rightarrow> user list" where
  "audience b a = sort_key u_id (filter (addressed b) (users a))"

abbreviation beyond :: "nat \<Rightarrow> user list \<Rightarrow> user list" where
  "beyond after us \<equiv> filter (\<lambda>u. after < u_id u) us"

lemma page_of_audience: "broadcast_page b after a = take BATCH (beyond after (audience b a))"
  by (simp add: broadcast_page_def audience_def filter_sort [symmetric] conj_commute)

lemma filter_above:
  fixes f :: "'a \<Rightarrow> nat"
  assumes "sorted_wrt (<) (map f (xs @ ys))" and "xs \<noteq> []"
  shows "filter (\<lambda>u. f (last xs) < f u) (xs @ ys) = ys"
proof -
  have up: "f x \<le> f (last xs)" if "x \<in> set xs" for x
    using assms that by (induction xs) (auto split: if_splits simp: less_imp_le)
  have "f (last xs) < f y" if "y \<in> set ys" for y
    using assms that last_in_set [OF assms(2)] by (auto simp: sorted_wrt_append)
  then have "filter (\<lambda>u. f (last xs) < f u) ys = ys" by (simp add: filter_id_conv)
  moreover have "filter (\<lambda>u. f (last xs) < f u) xs = []"
    using up by (auto simp: filter_empty_conv not_less)
  ultimately show ?thesis by simp
qed

lemma sorted_audience:
  assumes "distinct (map u_id (users a))"
  shows "sorted_wrt (<) (map u_id (audience b a))"
proof -
  have "distinct (map u_id (audience b a))"
    using assms by (simp add: audience_def distinct_map inj_on_def)
  then show ?thesis unfolding audience_def by (metis sorted_sort_key strict_sorted_iff)
qed

lemma sorted_beyond: "sorted_wrt (<) (map u_id us) \<Longrightarrow> sorted_wrt (<) (map u_id (beyond after us))"
  by (induction us) auto

lemma broadcast_loop_stable:
  assumes db: "\<And>k. db k = Inr a" and keys: "distinct (map u_id (users a))"
  shows "broadcast_loop db b k after n m s = Some (None, sent_to b (beyond after (audience b a)) n m s)"
proof (induction "length (beyond after (audience b a))" arbitrary: k after n m s rule: less_induct)
  case less
  let ?R = "beyond after (audience b a)" and ?rows = "broadcast_page b after a"
  have rows: "?rows = take BATCH ?R" by (rule page_of_audience)
  show ?case
  proof (cases "?R = []")
    case True
    then show ?thesis using db rows by (subst broadcast_loop.simps) simp
  next
    case False
    then have ne: "?rows \<noteq> []" by (simp add: rows BATCH_def)
    let ?after = "u_id (last ?rows)"
    have split: "?rows @ drop BATCH ?R = ?R" by (simp add: rows)
    have "sorted_wrt (<) (map u_id (?rows @ drop BATCH ?R))"
      unfolding split by (rule sorted_beyond [OF sorted_audience [OF keys]])
    from filter_above [OF this ne]
    have "beyond ?after ?R = drop BATCH ?R" by (simp only: split)
    moreover have "after < ?after" using page_member [OF last_in_set [OF ne]] by simp
    then have "beyond ?after ?R = beyond ?after (audience b a)" by (auto intro!: filter_cong)
    ultimately have rest: "beyond ?after (audience b a) = drop BATCH ?R" by simp
    have short: "length (beyond ?after (audience b a)) < length ?R"
      using False by (simp add: rest BATCH_def)
    show ?thesis
      using db ne less [OF short] sent_to_page [OF ne] split
      by (subst broadcast_loop.simps) (simp add: rest)
  qed
qed

section \<open>The row of the broadcast\<close>

lemma find_broadcast_id: "find_broadcast i s = Some b \<Longrightarrow> bc_id b = i"
  by (auto simp: find_broadcast_def dest: find_row_SomeD)

lemma find_broadcast_update:
  assumes "\<And>x. bc_id (f x) = bc_id x"
  shows "find_broadcast i (update_broadcast i f s) = map_option f (find_broadcast i s)"
  using assms by (simp add: find_broadcast_def update_broadcast_def find_row_update_where_key)

lemma adminOut_update [simp]: "adminOut (update_broadcast i f s) = adminOut s"
  by (simp add: update_broadcast_def)

lemma adminOut_sent [simp]: "adminOut (sent_to b us n m s) = adminOut s @ concat (map (publish b) us)"
  by (simp add: sent_to_def send_page_def)

lemma find_broadcast_sent:
  "find_broadcast (bc_id b) (sent_to b us 0 0 s) = map_option (\<lambda>x. if us = [] then x else
     x\<lparr>bc_recipientCount := length us, bc_publishedCount := length (concat (map (publish b) us))\<rparr>)
     (find_broadcast (bc_id b) s)"
  by (simp add: sent_to_def send_page_def find_broadcast_update option.map_ident)
    (simp add: find_broadcast_def)

lemma find_broadcast_finish:
  "find_broadcast (bc_id b) (finish_broadcast b now r) = map_option (case fst r of
       None \<Rightarrow> (\<lambda>x. x\<lparr>bc_status := BC_COMPLETED, bc_completedAt := Some now\<rparr>)
     | Some err \<Rightarrow> (\<lambda>x. x\<lparr>bc_status := BC_FAILED, bc_error := Some (take 500 err), bc_completedAt := Some now\<rparr>))
     (find_broadcast (bc_id b) (snd r))"
  by (simp add: finish_broadcast_def find_broadcast_update split: option.split)

lemma adminOut_finish [simp]: "adminOut (finish_broadcast b now r) = adminOut (snd r)"
  by (simp add: finish_broadcast_def)

lemma process_broadcast_run:
  assumes b: "find_broadcast i s = Some b"
    and run: "broadcast_loop db b 0 0 0 0 (update_broadcast i (\<lambda>x. x\<lparr>bc_status := BC_PROCESSING\<rparr>) s) =
      Some (err, sent_to b us 0 0 (update_broadcast i (\<lambda>x. x\<lparr>bc_status := BC_PROCESSING\<rparr>) s))"
  shows "\<exists>s' x. process_broadcast db now i s = Some (Inr (), s') \<and>
    adminOut s' = adminOut s @ concat (map (publish b) us) \<and> find_broadcast i s' = Some x \<and>
    bc_status x = (if err = None then BC_COMPLETED else BC_FAILED) \<and> bc_completedAt x = Some now \<and>
    bc_recipientCount x = (if us = [] then bc_recipientCount b else length us)"
proof -
  let ?s0 = "update_broadcast i (\<lambda>x. x\<lparr>bc_status := BC_PROCESSING\<rparr>) s"
  let ?s1 = "finish_broadcast b now (err, sent_to b us 0 0 ?s0)"
  have i: "bc_id b = i" by (rule find_broadcast_id [OF b])
  have "find_broadcast i ?s0 = Some (b\<lparr>bc_status := BC_PROCESSING\<rparr>)"
    using b by (simp add: find_broadcast_update)
  then have row: "find_broadcast i ?s1 = Some ((case err of
        None \<Rightarrow> (\<lambda>x. x\<lparr>bc_status := BC_COMPLETED, bc_completedAt := Some now\<rparr>)
      | Some e \<Rightarrow> (\<lambda>x. x\<lparr>bc_status := BC_FAILED, bc_error := Some (take 500 e), bc_completedAt := Some now\<rparr>))
      (if us = [] then b\<lparr>bc_status := BC_PROCESSING\<rparr> else b\<lparr>bc_status := BC_PROCESSING,
         bc_recipientCount := length us, bc_publishedCount := length (concat (map (publish b) us))\<rparr>))"
    using find_broadcast_finish [of b now "(err, sent_to b us 0 0 ?s0)"] find_broadcast_sent [of b us ?s0] i
    by simp
  show ?thesis
  proof (intro exI conjI)
    show "process_broadcast db now i s = Some (Inr (), ?s1)" using b run by (simp add: process_broadcast_def)
    show "find_broadcast i ?s1 = Some (the (find_broadcast i ?s1))" using row by simp
  qed (use row in \<open>auto split: option.splits\<close>)
qed

section \<open>Properties\<close>

text \<open>
  C25: The worker of a broadcast ends, whatever happens to the customers between its queries (their ids are
  128-bit numbers, so bounded), with the row COMPLETED or FAILED; and the messages it sent go to customers
  in strictly increasing order of ids, so nobody is sent one twice.
\<close>

theorem broadcast_ends_without_repeats:
  assumes "find_broadcast i s = Some b" and "ids_below N db"
  shows "\<exists>s' x us. process_broadcast db now i s = Some (Inr (), s') \<and>
    adminOut s' = adminOut s @ concat (map (publish b) us) \<and> sorted_wrt (<) (map u_id us) \<and>
    find_broadcast i s' = Some x \<and> (bc_status x = BC_COMPLETED \<or> bc_status x = BC_FAILED)"
proof -
  obtain err us where run: "broadcast_loop db b 0 0 0 0 (update_broadcast i (\<lambda>x. x\<lparr>bc_status := BC_PROCESSING\<rparr>) s) =
      Some (err, sent_to b us 0 0 (update_broadcast i (\<lambda>x. x\<lparr>bc_status := BC_PROCESSING\<rparr>) s))"
    and ids: "sorted_wrt (<) (0 # map u_id us)"
    using broadcast_loop_ends [OF assms(2)] by blast
  from process_broadcast_run [OF assms(1) run, where now = now] obtain s' x where
    out: "process_broadcast db now i s = Some (Inr (), s')"
      "adminOut s' = adminOut s @ concat (map (publish b) us)" "find_broadcast i s' = Some x"
    and st: "bc_status x = (if err = None then BC_COMPLETED else BC_FAILED)" by blast
  show ?thesis
    by (rule exI [of _ s'], rule exI [of _ x], rule exI [of _ us]) (use out st ids in simp)
qed

text \<open>
  C26: When the customers do not change while it runs, a broadcast reaches every ACTIVE customer it is
  addressed to, page after page, exactly once, and ends COMPLETED with their number.
\<close>

theorem broadcast_reaches_everyone_once:
  assumes "find_broadcast i s = Some b" and "\<And>k. db k = Inr a"
    and "distinct (map u_id (users a))" and "\<forall>u \<in> set (users a). 0 < u_id u"
  shows "\<exists>s' x us. process_broadcast db now i s = Some (Inr (), s') \<and>
    adminOut s' = adminOut s @ concat (map (publish b) us) \<and>
    set us = {u \<in> set (users a). addressed b u} \<and> distinct us \<and>
    find_broadcast i s' = Some x \<and> bc_status x = BC_COMPLETED \<and>
    bc_recipientCount x = (if us = [] then bc_recipientCount b else length us)"
proof -
  let ?us = "beyond 0 (audience b a)"
  have "set ?us = {u \<in> set (users a). addressed b u}" using assms(4) by (auto simp: audience_def)
  moreover have "distinct ?us"
    using sorted_audience [OF assms(3)] by (auto simp: strict_sorted_iff distinct_map)
  moreover
  note done_run = process_broadcast_run [OF assms(1) broadcast_loop_stable [where db = db, OF assms(2,3)], where now = now]
  have "None = None" ..
  note done_run [unfolded if_P [OF this]]
  then obtain s' x where "process_broadcast db now i s = Some (Inr (), s')"
      "adminOut s' = adminOut s @ concat (map (publish b) ?us)" "find_broadcast i s' = Some x"
      "bc_status x = BC_COMPLETED" "bc_recipientCount x = (if ?us = [] then bc_recipientCount b else length ?us)"
    by blast
  ultimately show ?thesis by blast
qed

text \<open>Two customers, one of them suspended, and a broadcast by push to everyone.\<close>

definition sample_customer :: "uuid \<Rightarrow> user_status \<Rightarrow> user" where
  "sample_customer i st = (new_user ''a'' ''h'' ''Ada'' ''B'' 1)\<lparr>u_id := i, u_status := st\<rparr>"

definition sample_customers :: auth_state where
  "sample_customers = empty_auth\<lparr>users := [sample_customer 7 US_ACTIVE, sample_customer 3 US_SUSPENDED]\<rparr>"

definition sample_broadcast :: broadcast where
  "sample_broadcast = \<lparr>bc_id = 4, bc_channels = [''push''], bc_title = ''t'', bc_body = ''b'', bc_customerIds = None,
     bc_status = BC_QUEUED, bc_recipientCount = 0, bc_publishedCount = 0, bc_error = None, bc_createdBy = 1,
     bc_completedAt = None\<rparr>"

definition queued_broadcast :: admin_state where
  "queued_broadcast = empty_admin\<lparr>broadcasts := [sample_broadcast]\<rparr>"

lemma sample_broadcast_found: "find_broadcast 4 queued_broadcast = Some sample_broadcast"
  by (simp add: find_broadcast_def queued_broadcast_def sample_broadcast_def)

lemma sample_customer_simps [simp]:
  "users sample_customers = [sample_customer 7 US_ACTIVE, sample_customer 3 US_SUSPENDED]"
  "u_id (sample_customer i st) = i" "u_status (sample_customer i st) = st"
  by (simp_all add: sample_customers_def sample_customer_def)

theorem broadcast_ends_without_repeats_witness:
  "\<exists>s' x us. process_broadcast (\<lambda>k. if k = 0 then Inr sample_customers else Inl ''down'') 9 4 queued_broadcast = Some (Inr (), s') \<and>
    adminOut s' = adminOut queued_broadcast @ concat (map (publish sample_broadcast) us) \<and> sorted_wrt (<) (map u_id us) \<and>
    find_broadcast 4 s' = Some x \<and> (bc_status x = BC_COMPLETED \<or> bc_status x = BC_FAILED)"
  by (rule broadcast_ends_without_repeats [OF sample_broadcast_found, of 8])
    (simp add: ids_below_def split: if_splits)

theorem broadcast_reaches_everyone_once_witness:
  "\<exists>s' x us. process_broadcast (\<lambda>k. Inr sample_customers) 9 4 queued_broadcast = Some (Inr (), s') \<and>
    adminOut s' = adminOut queued_broadcast @ concat (map (publish sample_broadcast) us) \<and>
    set us = {u \<in> set (users sample_customers). addressed sample_broadcast u} \<and> distinct us \<and>
    find_broadcast 4 s' = Some x \<and> bc_status x = BC_COMPLETED \<and>
    bc_recipientCount x = (if us = [] then bc_recipientCount sample_broadcast else length us)"
  by (rule broadcast_reaches_everyone_once [OF sample_broadcast_found]) simp_all

end
