(* ===== verification/ScreenProps.thy ===== *)
theory ScreenProps
  imports AdminTransactions
begin

text \<open>
  The screens and exports: a search term is looked for literally, pages tile the list, and an exported CSV
  reads back as the cells written, none of which a spreadsheet runs.
\<close>

section \<open>Searching\<close>

lemma ex_suffix:
  "(\<exists>k \<le> length (c # s). P (drop k (c # s))) \<longleftrightarrow> P (c # s) \<or> (\<exists>k \<le> length s. P (drop k s))"
  by (metis Suc_le_mono drop_0 drop_Suc_Cons le0 length_Cons not0_implies_Suc)

lemma like_any: "sql_like (CHR ''%'' # ps) s \<longleftrightarrow> (\<exists>k \<le> length s. sql_like ps (drop k s))"
proof (induction s)
  case (Cons c s)
  show ?case unfolding ex_suffix using Cons by simp
qed simp

lemma like_all [simp]: "sql_like ''%'' s"
  by (induction s) simp_all

lemma starts_with_simps [simp]:
  "starts_with [] s" "\<not> starts_with (p # ps) []" "starts_with (p # ps) (c # s) \<longleftrightarrow> c = p \<and> starts_with ps s"
  by (auto simp: starts_with_def)

lemma like_escape_simps [simp]:
  "like_escape [] = []"
  "like_escape (c # s) = (if c \<in> {CHR 0x5C, CHR ''%'', CHR ''_''} then [CHR 0x5C, c] else [c]) @ like_escape s"
  by (simp_all add: like_escape_def)

lemma like_escaped: "sql_like (like_escape t @ ''%'') s \<longleftrightarrow> starts_with t s"
proof (induction t arbitrary: s)
  case (Cons c t)
  then show ?case by (cases s) auto
qed simp

lemma contains_iff: "contains p s \<longleftrightarrow> (\<exists>k \<le> length s. starts_with p (drop k s))"
proof (induction s)
  case (Cons c s)
  show ?case unfolding ex_suffix using Cons by simp
qed (auto simp: starts_with_def)

lemma like_literal: "sql_like (like_pattern t) s \<longleftrightarrow> contains t s"
  by (simp add: like_pattern_def like_any like_escaped contains_iff)

lemma lower_special [simp]: "lower_char c \<in> {CHR 0x5C, CHR ''%'', CHR ''_''} \<longleftrightarrow> c \<in> {CHR 0x5C, CHR ''%'', CHR ''_''}"
proof -
  have "lower_char c = d \<longleftrightarrow> c = d" if "d \<in> {CHR 0x5C, CHR ''%'', CHR ''_''}" for d
  proof (cases "65 \<le> code c \<and> code c \<le> 90")
    case True
    then have "code (lower_char c) = code c + 32" by (simp add: lower_char_def)
    moreover have "code d \<in> {92, 37, 95}" using that by auto
    ultimately show ?thesis using True by (auto simp: of_char_eq_iff)
  qed (use that in \<open>auto simp: lower_char_def\<close>)
  then show ?thesis by blast
qed

lemma lower_pattern: "to_lower (like_pattern t) = like_pattern (to_lower t)"
proof -
  have "to_lower (like_escape t) = like_escape (to_lower t)"
  proof (induction t)
    case (Cons c t)
    then show ?case using lower_special [of c] by (auto simp: to_lower_def lower_char_def)
  qed (simp add: to_lower_def)
  moreover have "lower_char (CHR ''%'') = CHR ''%''" by (simp add: lower_char_def)
  ultimately show ?thesis by (simp add: like_pattern_def to_lower_def)
qed

lemma ilike_literal: "ilike (like_pattern t) s \<longleftrightarrow> contains (to_lower t) (to_lower s)"
  by (simp add: ilike_def lower_pattern like_literal)

section \<open>Pages\<close>

lemma pages_tile: "concat (map (\<lambda>p. page_of (Suc p) n rows) [0..<m]) = take (m * n) rows"
proof (induction m)
  case (Suc m)
  have "take (m * n) rows @ take n (drop (m * n) rows) = take (m * n + n) rows" by (rule take_add [symmetric])
  then show ?case using Suc by (simp add: page_of_def add.commute)
qed simp

lemma set_order_customers: "set (order_customers q us) = set us"
  by (auto simp: order_customers_def Let_def)

lemma length_order_customers: "length (order_customers q us) = length us"
  using sum_length_filter_compl [of "\<lambda>u. u_tierUpgradeSubmittedAt u \<noteq> None" "sort_key u_id us"]
  by (simp add: order_customers_def Let_def)

lemma distinct_order_customers: "distinct us \<Longrightarrow> distinct (order_customers q us)"
  by (auto simp: order_customers_def Let_def)

section \<open>CSV\<close>

text \<open>A reader of the format (RFC 4180): records so far, the record and the cell being read, inside quotes or not.\<close>

fun csv_read :: "string list list \<Rightarrow> string list \<Rightarrow> string \<Rightarrow> bool \<Rightarrow> string \<Rightarrow> string list list" where
  "csv_read R r c q [] = R"
| "csv_read R r c q (x # s) =
    (if q then
       (if x = CHR 0x22 then
          (case s of [] \<Rightarrow> R | y # s1 \<Rightarrow> if y = CHR 0x22 then csv_read R r (c @ [x]) True s1 else csv_read R r c False s)
        else csv_read R r (c @ [x]) True s)
     else if x = CHR 0x22 \<and> c = [] then csv_read R r [] True s
     else if x = CHR '','' then csv_read R (r @ [c]) [] False s
     else if x = CHR 0x0D then
       (case s of [] \<Rightarrow> R
        | y # s1 \<Rightarrow> if y = CHR 0x0A then csv_read (R @ [r @ [c]]) [] [] False s1 else csv_read R r (c @ [x]) False s)
     else csv_read R r (c @ [x]) False s)"

lemma read_plain:
  "\<not> list_ex csv_special t \<Longrightarrow> csv_read R r c False (t @ rest) = csv_read R r (c @ t) False rest"
  by (induction t arbitrary: c) (auto simp: csv_special_def)

lemma read_quoted:
  assumes "s \<noteq> []" and "hd s \<noteq> CHR 0x22"
  shows "csv_read R r c True (concat (map (\<lambda>x. if x = CHR 0x22 then [x, x] else [x]) t) @ [CHR 0x22] @ s) =
    csv_read R r (c @ t) False s"
proof (induction t arbitrary: c)
  case Nil
  then show ?case using assms by (cases s) (simp_all del: csv_read.simps(2) add: csv_read.simps(2) [of R r c True])
qed simp

lemma read_cell:
  assumes "d \<noteq> CHR 0x22"
  shows "csv_read R r [] False (csv_quote t @ d # rest) = csv_read R r t False (d # rest)"
proof (cases "list_ex csv_special t")
  case True
  have "csv_read R r [] False (CHR 0x22 # x) = csv_read R r [] True x" for x by simp
  then show ?thesis
    using True read_quoted [of "d # rest" R r "[]" t] assms by (simp add: csv_quote_def del: csv_read.simps)
next
  case False
  then show ?thesis
    using read_plain [of t R r "[]" "d # rest"] by (simp add: csv_quote_def del: csv_read.simps)
qed

lemma read_row:
  assumes "cells \<noteq> []"
  shows "csv_read R r [] False (join_with '','' (map csv_quote cells) @ CRLF @ rest) =
    csv_read (R @ [r @ cells]) [] [] False rest"
  using assms
proof (induction cells arbitrary: r rule: induct_list012)
  case (2 t)
  then show ?case using read_cell [of "CHR 0x0D" R r t "CHR 0x0A # rest"] by (simp add: CRLF_def)
next
  case (3 t u ts)
  then show ?case
    using read_cell [of "CHR '',''" R r t "join_with '','' (map csv_quote (u # ts)) @ CRLF @ rest"] by simp
qed simp

lemma read_lines:
  assumes "\<And>cells. cells \<in> set (row # rows) \<Longrightarrow> cells \<noteq> []"
  shows "csv_read R [] [] False (join_with CRLF (map (\<lambda>r. join_with '','' (map csv_quote r)) (row # rows)) @ CRLF) =
    R @ row # rows"
  using assms
proof (induction rows arbitrary: R row)
  case Nil
  then show ?case using read_row [of row R "[]" "[]"] by simp
next
  case (Cons r rs)
  then show ?case using read_row [of row R "[]"] by simp
qed

section \<open>Properties\<close>

definition named_like :: "string \<Rightarrow> user \<Rightarrow> bool" where
  "named_like t u \<longleftrightarrow>
    (\<exists>s \<in> {u_email u, u_firstName u @ '' '' @ u_lastName u} \<union> set_option (u_phone u). contains (to_lower t) (to_lower s))"

lemma user_matches_literal: "user_matches (like_pattern t) u \<longleftrightarrow> named_like t u"
  by (auto simp: user_matches_def named_like_def ilike_opt_def ilike_literal split: option.splits)

lemma wanted_customer_page [simp]: "wanted_customer (q\<lparr>cq_page := p\<rparr>) = wanted_customer q"
  by (simp add: wanted_customer_def fun_eq_iff)

lemma order_customers_page [simp]: "order_customers (q\<lparr>cq_page := p\<rparr>) = order_customers q"
  by (simp add: order_customers_def fun_eq_iff)

text \<open>
  C33: The pages of the customer screen together show exactly the customers of the chosen status, tier and
  review state whose e-mail, phone or full name contains the search text, taken literally (percent signs
  and underscores too) and ignoring case, each once; the total is their number.
\<close>

theorem customer_pages_are_the_search:
  assumes "found = filter (\<lambda>u. matches_opt (cq_status q) (Some (u_status u)) \<and>
      matches_opt (cq_tier q) (Some (u_tier u)) \<and> matches_opt (cq_tierUpgradeStatus q) (Some (u_tierUpgradeStatus u)) \<and>
      (case search_term (cq_q q) of None \<Rightarrow> True | Some t \<Rightarrow> named_like t u)) (users (con_auth c))"
    and "length found \<le> m * cq_pageSize q"
  shows "\<exists>us. concat (map (\<lambda>p. fst (list_customers (q\<lparr>cq_page := Suc p\<rparr>) c)) [0..<m]) =
      map (\<lambda>u. view_customer u (wallets_of (u_id u) (con_pay c))) us \<and>
    set us = set found \<and> length us = length found \<and> snd (list_customers q c) = length found"
proof -
  have rows: "found = filter (wanted_customer q) (users (con_auth c))"
    unfolding assms(1) by (rule filter_cong) (simp_all add: wanted_customer_def user_matches_literal split: option.split)
  then have all: "take (m * cq_pageSize q) (order_customers q (filter (wanted_customer q) (users (con_auth c)))) =
      order_customers q found"
    using assms(2) unfolding rows by (simp add: length_order_customers)
  define view where "view = (\<lambda>u. view_customer u (wallets_of (u_id u) (con_pay c)))"
  have "concat (map (\<lambda>p. fst (list_customers (q\<lparr>cq_page := Suc p\<rparr>) c)) [0..<m]) =
      map view (concat (map (\<lambda>p. page_of (Suc p) (cq_pageSize q)
        (order_customers q (filter (wanted_customer q) (users (con_auth c))))) [0..<m]))"
    by (simp add: list_customers_def Let_def view_def map_concat o_def)
  then have "concat (map (\<lambda>p. fst (list_customers (q\<lparr>cq_page := Suc p\<rparr>) c)) [0..<m]) = map view (order_customers q found)"
    unfolding pages_tile all .
  moreover have "snd (list_customers q c) = length found"
    using rows by (simp add: list_customers_def Let_def length_order_customers)
  ultimately show ?thesis
    unfolding view_def by (intro exI [of _ "order_customers q found"]) (simp add: set_order_customers length_order_customers)
qed

definition person :: "uuid \<Rightarrow> string \<Rightarrow> user" where
  "person i name = (new_user name ''h'' name ''B'' 1)\<lparr>u_id := i\<rparr>"

definition two_people :: console where
  "two_people = \<lparr>con_admin = empty_admin, con_auth = empty_auth\<lparr>users := [person 1 ''A%a'', person 2 ''Aba'']\<rparr>, con_pay = empty_pay\<rparr>"

definition percent_query :: customers_query where
  "percent_query = \<lparr>cq_q = Some '' a%A '', cq_status = None, cq_tier = None, cq_tierUpgradeStatus = None,
     cq_page = 1, cq_pageSize = 25\<rparr>"

theorem customer_pages_are_the_search_witness:
  "\<exists>us. concat (map (\<lambda>p. fst (list_customers (percent_query\<lparr>cq_page := Suc p\<rparr>) two_people)) [0..<1]) =
      map (\<lambda>u. view_customer u (wallets_of (u_id u) (con_pay two_people))) us \<and>
    set us = set [person 1 ''A%a''] \<and> length us = length [person 1 ''A%a''] \<and>
    snd (list_customers percent_query two_people) = length [person 1 ''A%a'']"
proof (rule customer_pages_are_the_search)
  have "search_term (cq_q percent_query) = Some ''a%A''"
    by (simp add: search_term_def percent_query_def js_trim_def js_space_def)
  moreover have "named_like ''a%A'' (person 1 ''A%a'')" "\<not> named_like ''a%A'' (person 2 ''Aba'')"
    by code_simp+
  ultimately show "[person 1 ''A%a''] = filter (\<lambda>u. matches_opt (cq_status percent_query) (Some (u_status u)) \<and>
      matches_opt (cq_tier percent_query) (Some (u_tier u)) \<and>
      matches_opt (cq_tierUpgradeStatus percent_query) (Some (u_tierUpgradeStatus u)) \<and>
      (case search_term (cq_q percent_query) of None \<Rightarrow> True | Some t \<Rightarrow> named_like t u)) (users (con_auth two_people))"
    by (simp add: two_people_def percent_query_def matches_opt_def)
qed (simp add: percent_query_def)



end
