(* ===== verification/AdminDashboard.thy ===== *)
theory AdminDashboard
  imports AdminTransactions
begin

text \<open>
  The dashboard (\<open>dashboard/dashboard.service.ts\<close>): totals of a window of days, the window before it, and a
  series of days for the charts.  \<open>db_day\<close> is the day PostgreSQL truncates a time to (in the session's time
  zone), \<open>js_day\<close> the first ten characters of \<open>toISOString()\<close>.  Counts and sums are the exact numbers.
\<close>

definition DAY_MS :: int where "DAY_MS = 86400000"

record tx_totals =
  tt_inflow :: money
  tt_outflow :: money
  tt_fees :: money
  tt_total :: nat
  tt_successful :: nat
  tt_problem :: nat
  tt_activeWallets :: nat

definition successful :: "transaction_type \<Rightarrow> transaction \<Rightarrow> bool" where
  "successful ty t \<longleftrightarrow> t_type t = ty \<and> t_status t = SUCCESSFUL"

definition sum_amounts :: "(transaction \<Rightarrow> bool) \<Rightarrow> transaction list \<Rightarrow> money" where
  "sum_amounts P ts = sum_over t_amount (filter P ts)"

definition totals_of :: "transaction list \<Rightarrow> tx_totals" where
  "totals_of ts =
    \<lparr>tt_inflow = sum_amounts (successful CREDIT) ts, tt_outflow = sum_amounts (successful DEBIT) ts,
     tt_fees = sum_over (\<lambda>t. opt_money (t_fee t)) (filter (\<lambda>t. t_status t = SUCCESSFUL) ts),
     tt_total = length ts, tt_successful = affected (\<lambda>t. t_status t = SUCCESSFUL) ts,
     tt_problem = affected (\<lambda>t. t_status t = FAILED \<or> t_status t = UNMATCHED) ts,
     tt_activeWallets = length (remdups (filter (\<lambda>w. w \<noteq> None)
       (map t_walletId (filter (\<lambda>t. t_status t = SUCCESSFUL) ts))))\<rparr>"

definition txns_between :: "date \<Rightarrow> date \<Rightarrow> pay_state \<Rightarrow> transaction list" where
  "txns_between since till s = filter (\<lambda>t. t_currency t = NGN \<and> since \<le> t_createdAt t \<and> t_createdAt t < till) (txns s)"

definition txTotals :: "date \<Rightarrow> date \<Rightarrow> pay_state \<Rightarrow> tx_totals" where
  "txTotals since till s = totals_of (txns_between since till s)"

definition signups :: "date \<Rightarrow> date \<Rightarrow> auth_state \<Rightarrow> nat" where
  "signups since till s = affected (\<lambda>u. since \<le> u_createdAt u \<and> u_createdAt u < till) (users s)"

section \<open>The series\<close>

record day_row =
  dy_date :: string
  dy_inflow :: money
  dy_outflow :: money
  dy_count :: nat
  dy_signups :: nat

definition txns_since :: "date \<Rightarrow> pay_state \<Rightarrow> transaction list" where
  "txns_since since s = filter (\<lambda>t. t_currency t = NGN \<and> since \<le> t_createdAt t) (txns s)"

text \<open>The grouped query looked up at one day; a day with no group is zero.\<close>

definition day_row_of :: "(date \<Rightarrow> string) \<Rightarrow> date \<Rightarrow> pay_state \<Rightarrow> auth_state \<Rightarrow> string \<Rightarrow> day_row" where
  "day_row_of db_day since p a day =
    (let ts = filter (\<lambda>t. db_day (t_createdAt t) = day) (txns_since since p) in
     \<lparr>dy_date = day, dy_inflow = sum_amounts (successful CREDIT) ts, dy_outflow = sum_amounts (successful DEBIT) ts,
      dy_count = length ts,
      dy_signups = affected (\<lambda>u. since \<le> u_createdAt u \<and> db_day (u_createdAt u) = day) (users a)\<rparr>)"

text \<open>The days of the chart: today and the \<open>days - 1\<close> before, oldest first.\<close>

definition chart_days :: "(date \<Rightarrow> string) \<Rightarrow> date \<Rightarrow> nat \<Rightarrow> string list" where
  "chart_days js_day now days = map (\<lambda>i. js_day (now - int i * DAY_MS)) (rev [0..<days])"

section \<open>The overview\<close>

record provider_row =
  pw_provider :: payment_provider_key
  pw_count :: nat
  pw_volume :: money

record type_row =
  ty_type :: transaction_type
  ty_count :: nat
  ty_avgAmount :: money

definition provider_rows :: "transaction list \<Rightarrow> provider_row list" where
  "provider_rows ts = sort_key (\<lambda>r. - pw_volume r)
    (map (\<lambda>(p, n). \<lparr>pw_provider = p, pw_count = n,
        pw_volume = sum_amounts (\<lambda>t. t_provider t = p \<and> t_status t = SUCCESSFUL) ts\<rparr>) (group_counts t_provider ts))"

definition average :: "transaction list \<Rightarrow> money" where
  "average ts = (if ts = [] then 0 else sum_over t_amount ts / of_nat (length ts))"

definition type_rows :: "transaction list \<Rightarrow> type_row list" where
  "type_rows ts = map (\<lambda>(ty, n). \<lparr>ty_type = ty, ty_count = n, ty_avgAmount = average (filter (successful ty) ts)\<rparr>)
    (group_counts t_type ts)"

record overview =
  ov_days :: nat
  ov_generatedAt :: date
  ov_current :: tx_totals
  ov_signups :: nat
  ov_previous :: tx_totals
  ov_previousSignups :: nat
  ov_series :: "day_row list"
  ov_byStatus :: "(transaction_status \<times> nat) list"
  ov_byProvider :: "provider_row list"
  ov_byType :: "type_row list"
  ov_heldBalance :: money
  ov_walletCount :: nat
  ov_stuckPayments :: nat
  ov_customersByStatus :: "(user_status \<times> nat) list"
  ov_customersByTier :: "(customer_tier \<times> nat) list"
  ov_kycReview :: nat
  ov_deletionRequests :: nat

definition stuck_payment :: "date \<Rightarrow> transaction \<Rightarrow> bool" where
  "stuck_payment now t \<longleftrightarrow>
    (t_status t = PENDING \<or> t_status t = PROCESSING) \<and> t_createdAt t < now - 15 * 60000"

definition overview :: "(date \<Rightarrow> string) \<Rightarrow> (date \<Rightarrow> string) \<Rightarrow> date \<Rightarrow> nat \<Rightarrow> console \<Rightarrow> overview" where
  "overview db_day js_day now days c =
    (let since = now - int days * DAY_MS; prev = since - int days * DAY_MS;
         p = con_pay c; a = con_auth c; recent = txns_since since p
     in \<lparr>ov_days = days, ov_generatedAt = now,
         ov_current = txTotals since now p, ov_signups = signups since now a,
         ov_previous = txTotals prev since p, ov_previousSignups = signups prev since a,
         ov_series = map (day_row_of db_day since p a) (chart_days js_day now days),
         ov_byStatus = group_counts t_status recent, ov_byProvider = provider_rows recent,
         ov_byType = type_rows recent, ov_heldBalance = owed_to_customers p,
         ov_walletCount = affected (\<lambda>w. w_currency w = NGN) (wallets p),
         ov_stuckPayments = affected (stuck_payment now) (txns p),
         ov_customersByStatus = group_counts u_status (users a),
         ov_customersByTier = group_counts u_tier (filter (\<lambda>u. u_status u \<noteq> US_CLOSED) (users a)),
         ov_kycReview = affected (\<lambda>u. u_tierUpgradeStatus u = TU_UNDER_REVIEW) (users a),
         ov_deletionRequests = affected (\<lambda>r. dr_status r = DR_PENDING) (deletions a)\<rparr>)"

text \<open>The controller: 7, 30 or 90 days; anything else is 30.\<close>

definition overview_days :: "int option \<Rightarrow> nat" where
  "overview_days q = (case q of Some d \<Rightarrow> if d \<in> {7, 30, 90} then nat d else 30 | None \<Rightarrow> 30)"

end
