(* ===== verification/ConsoleRequests.thy ===== *)
theory ConsoleRequests
  imports AdminDashboard AdminComms StaffRequests
begin

text \<open>
  The routes of the console about customers, transactions, postings, provisioning, deletion requests,
  broadcasts, settings, reconciliation, the dashboard and the audit log: their roles, the checks of their
  bodies (\<open>dto/\<close>) and what they run.  Not modelled: the rate limits, and the export of the audit log; a
  \<open>:id\<close> is a UUID by its type.
\<close>

section \<open>Requests and answers\<close>

datatype console_request =
    GetCustomers customers_query
  | GetCustomerLimits uuid
  | GetCustomer uuid
  | GetCustomerTransactions uuid tx_query
  | GetCustomerWallet uuid
  | GetCustomerSessions uuid
  | GetCustomerDevices uuid
  | GetKyc uuid
  | GetKycFile uuid uuid
  | PostApproveUpgrade uuid "string option"
  | PostRejectUpgrade uuid string
  | PatchCustomer uuid update_customer_dto string
  | PostSuspend uuid string
  | PostClearLockouts uuid string
  | PostReactivate uuid string
  | PostClose uuid string
  | PostRevokeSessions uuid string
  | DeleteSession uuid uuid
  | GetProvisioning
  | PostProvisioningRetry "uuid list option" string
  | GetDeletions "deletion_status list" nat nat
  | PostApproveDeletion uuid "string option"
  | PostRejectDeletion uuid string
  | GetTransactions tx_query
  | GetTransactionsExport tx_query
  | PostRequery uuid
  | GetTransaction uuid
  | GetPostings posting_query
  | GetPosting uuid
  | PostPosting create_posting_dto
  | PostApprovePosting uuid "string option"
  | PostRejectPosting uuid string
  | PostCancelPosting uuid
  | PostBroadcast create_broadcast_dto
  | GetBroadcasts nat nat
  | GetBroadcast uuid
  | GetFreePayouts
  | PutFreePayouts bool
  | GetReconciliation
  | GetDashboard "int option"
  | GetAuditLogs audit_filter nat nat

record limits_view =
  lm_caps :: transfer_caps
  lm_deviceRestriction :: "transfer_limit option"

datatype console_answer =
    ShowCustomers "customer_view list \<times> nat"
  | ShowLimits limits_view
  | ShowCustomer customer_detail
  | ShowTransactions tx_list
  | ShowWallet customer_wallet_view
  | ShowSessions "(session \<times> bool) list"
  | ShowDevices "trusted_device list"
  | ShowKyc kyc_screen
  | ShowFile kyc_document string bool
  | ShowDone
  | ShowPending "user list"
  | ShowRetry retry_result
  | ShowDeletions "deletion_row list \<times> nat"
  | ShowDecision uuid deletion_status
  | ShowCsv string
  | ShowRequery requery_view
  | ShowTransaction tx_detail
  | ShowPostings "mposting_view list \<times> nat"
  | ShowPosting mposting_view
  | ShowBroadcasts "broadcast list \<times> nat"
  | ShowBroadcast broadcast
  | ShowFlag bool
  | ShowReconciliation reconciliation
  | ShowDashboard overview
  | ShowAudit "audit_entry list \<times> nat"

section \<open>Roles\<close>

definition REVIEWER_ROLES :: "staff_role list" where "REVIEWER_ROLES = [SUPER_ADMIN, COMPLIANCE]"

text \<open>The roles of the handler, or else those of its controller.\<close>

fun console_roles :: "console_request \<Rightarrow> staff_role list" where
  "console_roles (GetCustomers q) = [SUPPORT, COMPLIANCE, FINANCE]"
| "console_roles (GetCustomerLimits i) = [SUPPORT, COMPLIANCE, FINANCE]"
| "console_roles (GetCustomer i) = [SUPPORT, COMPLIANCE, FINANCE]"
| "console_roles (GetCustomerTransactions i q) = [SUPPORT, COMPLIANCE, FINANCE]"
| "console_roles (GetCustomerWallet i) = [SUPPORT, COMPLIANCE, FINANCE]"
| "console_roles (GetCustomerSessions i) = [SUPPORT, COMPLIANCE, FINANCE]"
| "console_roles (GetCustomerDevices i) = [SUPPORT, COMPLIANCE, FINANCE]"
| "console_roles (PostClearLockouts i r) = [SUPPORT, COMPLIANCE]"
| "console_roles GetProvisioning = [COMPLIANCE, FINANCE]"
| "console_roles (PostProvisioningRetry ids r) = [COMPLIANCE, FINANCE]"
| "console_roles (GetDeletions sts p n) = [COMPLIANCE]"
| "console_roles (PostApproveDeletion i nt) = [COMPLIANCE]"
| "console_roles (PostRejectDeletion i r) = [COMPLIANCE]"
| "console_roles (GetTransactions q) = [SUPPORT, FINANCE]"
| "console_roles (GetTransactionsExport q) = [FINANCE]"
| "console_roles (PostRequery i) = [FINANCE]"
| "console_roles (GetTransaction i) = [SUPPORT, FINANCE]"
| "console_roles (GetPostings q) = [FINANCE, COMPLIANCE]"
| "console_roles (GetPosting i) = [FINANCE, COMPLIANCE]"
| "console_roles (PostPosting dto) = [FINANCE]"
| "console_roles (PostApprovePosting i nt) = [COMPLIANCE]"
| "console_roles (PostRejectPosting i r) = [COMPLIANCE]"
| "console_roles (PostCancelPosting i) = [FINANCE]"
| "console_roles (PostBroadcast dto) = [SUPER_ADMIN]"
| "console_roles (GetBroadcasts p n) = [SUPER_ADMIN]"
| "console_roles (GetBroadcast i) = [SUPER_ADMIN]"
| "console_roles GetFreePayouts = [FINANCE]"
| "console_roles (PutFreePayouts b) = [FINANCE]"
| "console_roles GetReconciliation = [FINANCE, COMPLIANCE]"
| "console_roles (GetDashboard d) = [SUPPORT, COMPLIANCE, FINANCE]"
| "console_roles (GetAuditLogs f p n) = [SUPER_ADMIN, COMPLIANCE]"
| "console_roles req = REVIEWER_ROLES"

section \<open>Checks of the body\<close>

definition sized :: "nat \<Rightarrow> nat \<Rightarrow> 'a list \<Rightarrow> bool" where
  "sized lo hi s \<longleftrightarrow> lo \<le> length s \<and> length s \<le> hi"

definition sized_opt :: "nat \<Rightarrow> nat \<Rightarrow> 'a list option \<Rightarrow> bool" where
  "sized_opt lo hi v \<longleftrightarrow> (case v of None \<Rightarrow> True | Some s \<Rightarrow> sized lo hi s)"

definition valid_page :: "nat \<Rightarrow> nat \<Rightarrow> bool" where
  "valid_page pg n \<longleftrightarrow> 1 \<le> pg \<and> 1 \<le> n \<and> n \<le> 100"

text \<open>\<open>/^[+\d\s-]{10,20}$/\<close>\<close>

definition phone_char :: "char \<Rightarrow> bool" where
  "phone_char c \<longleftrightarrow> c = CHR ''+'' \<or> is_digit c \<or> js_space c \<or> c = CHR ''-''"

definition valid_update :: "update_customer_dto \<Rightarrow> bool" where
  "valid_update dto \<longleftrightarrow> sized_opt 1 100 (uc_firstName dto) \<and> sized_opt 1 100 (uc_lastName dto) \<and>
    (case uc_phone dto of None \<Rightarrow> True | Some p \<Rightarrow> sized 10 20 p \<and> list_all phone_char p)"

definition valid_posting :: "create_posting_dto \<Rightarrow> bool" where
  "valid_posting dto \<longleftrightarrow> valid_amount (cp_amount dto) \<and> sized 5 500 (cp_reason dto) \<and> sized_opt 0 100 (cp_narration dto)"

definition valid_broadcast :: "create_broadcast_dto \<Rightarrow> bool" where
  "valid_broadcast dto \<longleftrightarrow> cb_channels dto \<noteq> [] \<and> distinct (cb_channels dto) \<and>
    list_all (\<lambda>c. c = ''push'' \<or> c = ''email'') (cb_channels dto) \<and> sized 1 65 (cb_title dto) \<and>
    sized 1 1000 (cb_body dto) \<and>
    (case cb_customerIds dto of None \<Rightarrow> True | Some l \<Rightarrow> sized 1 1000 l \<and> distinct l)"

fun valid_body :: "console_request \<Rightarrow> bool" where
  "valid_body (GetCustomers q) = (sized_opt 0 100 (cq_q q) \<and> valid_page (cq_page q) (cq_pageSize q))"
| "valid_body (GetCustomerTransactions i q) = (sized_opt 0 100 (tq_q q) \<and> valid_page (tq_page q) (tq_pageSize q))"
| "valid_body (GetTransactions q) = (sized_opt 0 100 (tq_q q) \<and> valid_page (tq_page q) (tq_pageSize q))"
| "valid_body (GetTransactionsExport q) = (sized_opt 0 100 (tq_q q) \<and> valid_page (tq_page q) (tq_pageSize q))"
| "valid_body (PostApproveUpgrade i nt) = sized_opt 0 500 nt"
| "valid_body (PostRejectUpgrade i r) = sized 3 500 r"
| "valid_body (PatchCustomer i dto r) = (valid_update dto \<and> sized 3 500 r)"
| "valid_body (PostSuspend i r) = sized 3 500 r"
| "valid_body (PostClearLockouts i r) = sized 3 500 r"
| "valid_body (PostReactivate i r) = sized 3 500 r"
| "valid_body (PostClose i r) = sized 3 500 r"
| "valid_body (PostRevokeSessions i r) = sized 3 500 r"
| "valid_body (PostProvisioningRetry ids r) = (sized_opt 0 200 ids \<and> sized 3 500 r)"
| "valid_body (GetDeletions sts p n) = valid_page p n"
| "valid_body (PostApproveDeletion i nt) = sized_opt 0 500 nt"
| "valid_body (PostRejectDeletion i r) = sized 3 500 r"
| "valid_body (GetPostings q) = valid_page (pq_page q) (pq_pageSize q)"
| "valid_body (PostPosting dto) = valid_posting dto"
| "valid_body (PostApprovePosting i nt) = sized_opt 0 500 nt"
| "valid_body (PostRejectPosting i r) = sized 3 500 r"
| "valid_body (PostBroadcast dto) = valid_broadcast dto"
| "valid_body (GetBroadcasts p n) = valid_page p n"
| "valid_body (GetAuditLogs f p n) = valid_page p n"
| "valid_body req = True"

section \<open>Handlers of the controllers\<close>

text \<open>What a route needs besides: the providers, the two ways to write a day, the ISO form of a date.\<close>

record route_env =
  re_console :: console_env
  re_registry :: registry
  re_dbDay :: "date \<Rightarrow> string"
  re_jsDay :: "date \<Rightarrow> string"
  re_stamp :: "date \<Rightarrow> string"

definition showing :: "('a \<Rightarrow> 'b) \<Rightarrow> 'a con \<Rightarrow> 'b con" where
  "showing f m = bindM m (\<lambda>a. retM (f a))"

definition customer_limits :: "console_env \<Rightarrow> uuid \<Rightarrow> limits_view con" where
  "customer_limits env i =
    bindM (call_auth env 0 (transferCaps i)) (\<lambda>caps.
    bindM (meanwhile env 0) (\<lambda>_.
    bindM (call_auth env 1 (transferLimit (ce_auth env) i)) (\<lambda>limit.
    retM \<lparr>lm_caps = caps, lm_deviceRestriction = limit\<rparr>)))"

text \<open>\<open>recordSafe\<close>: the view is shown even when its audit row cannot be written.\<close>

definition view_customer_audited :: "console_env \<Rightarrow> uuid \<Rightarrow> staff_ctx \<Rightarrow> customer_detail con" where
  "view_customer_audited env i ctx =
    bindM (get_customer (con_now env) i) (\<lambda>v.
    bindM (catchM (console_audit env ctx ''customer.viewed'' ''customer'' i) (\<lambda>_. retM ())) (\<lambda>_.
    retM v))"

definition customer_txns :: "uuid \<Rightarrow> tx_query \<Rightarrow> tx_list con" where
  "customer_txns i q =
    bindM (assertExists i) (\<lambda>_. getM (list_txns (q\<lparr>tq_userId := Some i, tq_walletId := None\<rparr>)))"

definition list_customers_as :: "customers_query \<Rightarrow> staff_ctx \<Rightarrow> (customer_view list \<times> nat) con" where
  "list_customers_as q ctx =
    bindM (assertM (\<not> (cq_tierUpgradeStatus q \<noteq> None \<and> cx_role ctx \<notin> set REVIEWER_ROLES))
             (Forbidden ''Insufficient role for the review queue'')) (\<lambda>_.
    getM (list_customers q))"

text \<open>Type and name of the upload; only images and PDF are shown in place.\<close>

definition kyc_file :: "console_env \<Rightarrow> uuid \<Rightarrow> uuid \<Rightarrow> staff_ctx \<Rightarrow> console_answer con" where
  "kyc_file env i docId ctx =
    bindM (viewDocument env i docId ctx) (\<lambda>(f, mime, name).
    retM (ShowFile f (if shown_inline mime then mime else ''application/octet-stream'') (shown_inline mime)))"

text \<open>\<open>settings.controller.ts\<close>; the resource id of its audit row is the name of the setting.\<close>

definition get_free_payouts :: "console_env \<Rightarrow> nat \<Rightarrow> bool con" where
  "get_free_payouts env n = call_payment env n (getM freePayoutsEnabled)"

definition set_free_payouts :: "console_env \<Rightarrow> bool \<Rightarrow> staff_ctx \<Rightarrow> bool con" where
  "set_free_payouts env b ctx =
    bindM (get_free_payouts env 0) (\<lambda>_.
    bindM (meanwhile env 0) (\<lambda>_.
    bindM (call_payment env 1 (setFreePayoutsEnabled b)) (\<lambda>after.
    bindM (meanwhile env 1) (\<lambda>_.
    bindM (on_admin (audit_record (ce_admin env) (audit_entry_of ctx ''settings.free_payouts_toggled'' ''setting''))) (\<lambda>_.
    retM after)))))"

section \<open>Serving\<close>

text \<open>\<open>CustomersController\<close>, \<open>ProvisioningController\<close> and \<open>DeletionRequestsController\<close>.\<close>

fun serve_customers :: "route_env \<Rightarrow> staff_ctx \<Rightarrow> console_request \<Rightarrow> console_answer con" where
  "serve_customers renv ctx (GetCustomers q) = showing ShowCustomers (list_customers_as q ctx)"
| "serve_customers renv ctx (GetCustomerLimits i) = showing ShowLimits (customer_limits (re_console renv) i)"
| "serve_customers renv ctx (GetCustomer i) = showing ShowCustomer (view_customer_audited (re_console renv) i ctx)"
| "serve_customers renv ctx (GetCustomerTransactions i q) = showing ShowTransactions (customer_txns i q)"
| "serve_customers renv ctx (GetCustomerWallet i) = showing ShowWallet (customer_wallet i)"
| "serve_customers renv ctx (GetCustomerSessions i) = showing ShowSessions (customer_sessions i)"
| "serve_customers renv ctx (GetCustomerDevices i) = showing ShowDevices (customer_devices i)"
| "serve_customers renv ctx (GetKyc i) = showing ShowKyc (get_kyc (re_console renv) i)"
| "serve_customers renv ctx (GetKycFile i d) = kyc_file (re_console renv) i d ctx"
| "serve_customers renv ctx (PostApproveUpgrade i nt) = showing ShowCustomer (approve_upgrade (re_console renv) i ctx)"
| "serve_customers renv ctx (PostRejectUpgrade i r) = showing ShowCustomer (reject_upgrade (re_console renv) i r ctx)"
| "serve_customers renv ctx (PatchCustomer i dto r) = showing ShowCustomer (update_customer (re_console renv) i dto ctx)"
| "serve_customers renv ctx (PostSuspend i r) = showing ShowCustomer (suspend_customer (re_console renv) i ctx)"
| "serve_customers renv ctx (PostClearLockouts i r) = showing ShowCustomer (clear_customer_lockouts (re_console renv) i ctx)"
| "serve_customers renv ctx (PostReactivate i r) = showing ShowCustomer (reactivate_customer (re_console renv) i ctx)"
| "serve_customers renv ctx (PostClose i r) = showing ShowCustomer (close_customer (re_console renv) i ctx)"
| "serve_customers renv ctx (PostRevokeSessions i r) =
    showing (\<lambda>_. ShowDone) (revoke_customer_sessions (re_console renv) i ctx)"
| "serve_customers renv ctx (DeleteSession i sid) =
    showing (\<lambda>_. ShowDone) (revoke_customer_session (re_console renv) i sid ctx)"
| "serve_customers renv ctx GetProvisioning = showing ShowPending (pending_provisioning (re_console renv))"
| "serve_customers renv ctx (PostProvisioningRetry ids r) =
    showing ShowRetry (retry_provisioning (re_console renv) ids ctx)"
| "serve_customers renv ctx (GetDeletions sts p n) = getM (\<lambda>c. ShowDeletions (list_deletions sts p n c))"
| "serve_customers renv ctx (PostApproveDeletion i nt) = showing ShowCustomer (approve_deletion (re_console renv) i ctx)"
| "serve_customers renv ctx (PostRejectDeletion i r) =
    showing (case_prod ShowDecision) (reject_deletion_request (re_console renv) i r ctx)"
| "serve_customers renv ctx req = failM (NotFound ''Not Found'')"

text \<open>The controllers of transactions, postings, broadcasts, settings, reconciliation, dashboard and audit.\<close>

fun serve_console :: "route_env \<Rightarrow> staff_ctx \<Rightarrow> console_request \<Rightarrow> console_answer con" where
  "serve_console renv ctx (GetTransactions q) = getM (\<lambda>c. ShowTransactions (list_txns q c))"
| "serve_console renv ctx (GetTransactionsExport q) =
    showing ShowCsv (export_txns (re_console renv) (re_stamp renv) q ctx)"
| "serve_console renv ctx (PostRequery i) =
    showing ShowRequery (requery_txn (re_console renv) (re_registry renv) i ctx)"
| "serve_console renv ctx (GetTransaction i) = showing ShowTransaction (view_txn (re_console renv) i ctx)"
| "serve_console renv ctx (GetPostings q) = getM (\<lambda>c. ShowPostings (list_postings q c))"
| "serve_console renv ctx (GetPosting i) = showing ShowPosting (get_posting i)"
| "serve_console renv ctx (PostPosting dto) = showing ShowPosting (request_posting (re_console renv) dto ctx)"
| "serve_console renv ctx (PostApprovePosting i nt) =
    showing ShowPosting (approve_posting (re_console renv) i nt ctx)"
| "serve_console renv ctx (PostRejectPosting i r) = showing ShowPosting (reject_posting (re_console renv) i r ctx)"
| "serve_console renv ctx (PostCancelPosting i) = showing ShowPosting (cancel_posting (re_console renv) i ctx)"
| "serve_console renv ctx (PostBroadcast dto) =
    showing ShowBroadcast (on_admin (create_broadcast (ce_admin (re_console renv)) dto ctx))"
| "serve_console renv ctx (GetBroadcasts p n) = getM (\<lambda>c. ShowBroadcasts (list_broadcasts p n (con_admin c)))"
| "serve_console renv ctx (GetBroadcast i) = showing ShowBroadcast (on_admin (get_broadcast i))"
| "serve_console renv ctx GetFreePayouts = showing ShowFlag (get_free_payouts (re_console renv) 0)"
| "serve_console renv ctx (PutFreePayouts b) = showing ShowFlag (set_free_payouts (re_console renv) b ctx)"
| "serve_console renv ctx GetReconciliation = showing ShowReconciliation
    (call_payment (re_console renv) 0
      (getM (reconciliation_summary (ce_dec (re_console renv)) (re_registry renv) (con_now (re_console renv)))))"
| "serve_console renv ctx (GetDashboard d) = getM (\<lambda>c. ShowDashboard
    (overview (re_dbDay renv) (re_jsDay renv) (con_now (re_console renv)) (overview_days d) c))"
| "serve_console renv ctx (GetAuditLogs f p n) = getM (\<lambda>c. ShowAudit (audit_list f p n (con_admin c)))"
| "serve_console renv ctx req = serve_customers renv ctx req"

text \<open>The access token, a temporary password, the role, the body, then the handler.\<close>

definition console_route ::
  "route_env \<Rightarrow> string option \<Rightarrow> staff_access option \<Rightarrow> console_request \<Rightarrow> console_answer con" where
  "console_route renv ip access req =
    bindM (on_admin (validateStaff (ce_admin (re_console renv)) ip access)) (\<lambda>ctx.
    bindM (liftM (jwtGuard False ctx)) (\<lambda>_.
    bindM (liftM (rolesGuard (console_roles req) ctx)) (\<lambda>_.
    bindM (assertM (valid_body req) (BadRequest ''Validation failed'')) (\<lambda>_.
    serve_console renv ctx req))))"

end
