(* ===== verification/ClosureProps.thy ===== *)
theory ClosureProps
  imports AdminActions AdminMoney
begin

text \<open>
  Closing an account from the console, across the three services: when it goes through, what a refusal
  leaves, and what others can commit in its gaps; and the record of every look at an identity document.
\<close>

section \<open>Running a handler of the auth service from the console\<close>

lemma call_auth_Inr:
  "call_auth env n m c = (Inr v, c') \<longleftrightarrow>
    ce_keyConfigured env \<and> ce_net env n = Answered \<and> (\<exists>s. m (con_auth c) = (Inr v, s) \<and> c' = c\<lparr>con_auth := s\<rparr>)"
  by (cases "ce_net env n")
    (auto simp: call_auth_def internal_call_def rethrown_def catchM_def bindM_def on_auth_def
      split: prod.splits sum.splits)

lemma call_auth_run:
  assumes "ce_keyConfigured env" and "ce_net env n = Answered" and "m (con_auth c) = (Inr v, s)"
  shows "call_auth env n m c = (Inr v, c\<lparr>con_auth := s\<rparr>)"
  using assms by (simp add: call_auth_Inr)

lemma meanwhile_eq [simp]: "meanwhile env n c = (Inr (), ce_meanwhile env n c)"
  by (simp add: meanwhile_def)

lemma console_audit_Inr:
  "console_audit env ctx a k i c = (Inr u, c') \<Longrightarrow>
    con_auth c' = con_auth c \<and> con_pay c' = con_pay c \<and>
    auditLog (con_admin c') = auditLog (con_admin c) @ [\<lparr>au_staffId = Some (cx_staffId ctx),
      au_staffEmail = Some (cx_email ctx), au_action = a, au_resourceType = Some k, au_resourceId = Some i,
      au_ip = cx_ip ctx\<rparr>]"
  by (auto simp: console_audit_def on_admin_def audit_record_def alerts_notify_def stm_simps split: option.splits if_splits)

section \<open>The auth service's part\<close>

definition signed_out :: "uuid \<Rightarrow> auth_state \<Rightarrow> bool" where
  "signed_out i s \<longleftrightarrow> (\<forall>x \<in> set (sessions s). \<not> active_session i x) \<and>
    (\<forall>t \<in> set (refreshTokens s). rt_userId t = i \<longrightarrow> rt_revokedAt t \<noteq> None)"

definition ended :: "uuid \<Rightarrow> date \<Rightarrow> auth_state \<Rightarrow> auth_state" where
  "ended i now s = revoke_refresh (\<lambda>t. rt_userId t = i) now (revoke_sessions (\<lambda>x. ss_userId x = i) now s)"

lemma endAllSessions_eq: "endAllSessions i now s = (Inr (), ended i now s)"
  by (simp add: endAllSessions_def revokeAllForUser_def revokeAllRefreshTokensForUser_def bindM_def ended_def)

lemma ended_simps [simp]:
  "users (ended i now s) = users s" "devices (ended i now s) = devices s" "deletions (ended i now s) = deletions s"
  "find_user j (ended i now s) = find_user j s"
  by (simp_all add: ended_def revoke_refresh_def revoke_sessions_def find_user_def)

lemma update_where_marks:
  assumes "y \<in> set (update_where (\<lambda>x. P x \<and> f x = None) g t)" and "P y" and "\<And>x. f (g x) \<noteq> None"
    and "\<And>x. P (g x) = P x"
  shows "f y \<noteq> None"
  using assms by (induction t) (auto split: if_splits)

lemma signed_out_ended [simp]: "signed_out i (ended i now s)"
  unfolding signed_out_def
proof (intro conjI ballI impI)
  fix x assume "x \<in> set (sessions (ended i now s))"
  then have "ss_revokedAt x \<noteq> None" if "ss_userId x = i"
    unfolding ended_def revoke_refresh_def revoke_sessions_def
    using that update_where_marks [of x "\<lambda>x. ss_userId x = i" ss_revokedAt "\<lambda>x. x\<lparr>ss_revokedAt := Some now\<rparr>" "sessions s"]
    by simp
  then show "\<not> active_session i x" by (auto simp: active_session_def)
next
  fix t assume "t \<in> set (refreshTokens (ended i now s))" and "rt_userId t = i"
  then show "rt_revokedAt t \<noteq> None"
    unfolding ended_def revoke_refresh_def revoke_sessions_def
    using update_where_marks [of t "\<lambda>t. rt_userId t = i" rt_revokedAt "\<lambda>t. t\<lparr>rt_revokedAt := Some now\<rparr>" "refreshTokens s"]
    by simp
qed

lemma user_conflict_status [simp]:
  "user_conflict (u\<lparr>u_status := st\<rparr>) x = user_conflict u x" "user_conflict x (u\<lparr>u_status := st\<rparr>) = user_conflict x u"
  by (simp_all add: user_conflict_def)

lemma write_status:
  assumes "unique_users (users s)" and "find_user i s = Some u"
  shows "write_user i (\<lambda>u. u\<lparr>u_status := st\<rparr>) s = (Inr (), update_user i (\<lambda>u. u\<lparr>u_status := st\<rparr>) s)"
proof -
  have "\<not> list_ex (\<lambda>x. u_id x \<noteq> i \<and> user_conflict (u\<lparr>u_status := st\<rparr>) x) (users s)"
    using assms find_user_id [OF assms(2)] by (auto simp: unique_users_def list_ex_iff)
  then show ?thesis using assms(2) by (simp add: write_user_def)
qed

lemma find_user_status:
  "find_user i (update_user i (\<lambda>u. u\<lparr>u_status := st\<rparr>) s) = map_option (\<lambda>u. u\<lparr>u_status := st\<rparr>) (find_user i s)"
  by (simp add: find_user_update)

lemma unique_users_status:
  "unique_users (users s) \<Longrightarrow> unique_users (update_where (by_key u_id i) (\<lambda>u. u\<lparr>u_status := st\<rparr>) (users s))"
  by (auto simp: unique_users_def set_update_where o_def)

lemma findUserById_eq: "find_user i s = Some u \<Longrightarrow> findUserById i s = (Inr u, s)"
  by (simp add: findUserById_def bindM_def)

lemma suspend_open:
  assumes "unique_users (users s)" and "find_user i s = Some u" and "u_status u \<noteq> US_SUSPENDED" and "u_status u \<noteq> US_CLOSED"
  shows "suspend i now s =
    (Inr (u\<lparr>u_status := US_SUSPENDED\<rparr>), ended i now (update_user i (\<lambda>u. u\<lparr>u_status := US_SUSPENDED\<rparr>) s))"
  using assms by (simp add: suspend_def setStatus_def bindM_def findUserById_eq write_status endAllSessions_eq find_user_status)

lemma reactivate_suspended:
  assumes "unique_users (users s)" and "find_user i s = Some u" and "u_status u = US_SUSPENDED"
  shows "reactivate i s =
    (Inr (u\<lparr>u_status := if u_emailVerifiedAt u \<noteq> None then US_ACTIVE else US_PENDING_VERIFICATION\<rparr>),
     update_user i (\<lambda>v. v\<lparr>u_status := if u_emailVerifiedAt u \<noteq> None then US_ACTIVE else US_PENDING_VERIFICATION\<rparr>) s)"
  using assms by (simp add: reactivate_def setStatus_def bindM_def findUserById_eq write_status find_user_status)

lemma setStatus_Inr:
  "setStatus i st s = (Inr x, s') \<Longrightarrow> s' = update_user i (\<lambda>u. u\<lparr>u_status := st\<rparr>) s \<or> find_user i s = None"
  by (auto simp: setStatus_def write_user_def split: option.splits if_splits)

lemma suspend_InrD:
  assumes "suspend i now s = (Inr v, s')"
  shows "find_user i s' = Some v \<and> u_status v = US_SUSPENDED \<and>
    (\<exists>u. find_user i s = Some u \<and> (u_status u \<noteq> US_SUSPENDED \<longrightarrow> signed_out i s'))"
proof -
  obtain u where u: "find_user i s = Some u" using assms
    by (auto simp: suspend_def elim!: bindM_InrE simp: findUserById_Inr)
  show ?thesis
  proof (cases "u_status u = US_SUSPENDED")
    case False
    with assms u obtain s1 x where "setStatus i US_SUSPENDED s = (Inr x, s1)" and s': "findUserById i (ended i now s1) = (Inr v, s')"
      by (auto simp: suspend_def findUserById_eq endAllSessions_eq bindM_def split: prod.splits sum.splits if_splits)
    then have "s1 = update_user i (\<lambda>u. u\<lparr>u_status := US_SUSPENDED\<rparr>) s" using setStatus_Inr u by fastforce
    then show ?thesis using s' u by (auto simp: findUserById_Inr find_user_status)
  qed (use assms u in \<open>auto simp: suspend_def findUserById_eq bindM_def\<close>)
qed

lemma markClosed_Inr:
  "markClosed i e now s = (Inr x, s') \<Longrightarrow> find_user i s = Some u \<Longrightarrow>
    s' = update_user i (\<lambda>u. u\<lparr>u_status := US_CLOSED, u_closedAt := Some now, u_email := e,
      u_phone := None, u_phoneVerifiedAt := None\<rparr>) s"
  by (auto simp: markClosed_def write_user_def split: if_splits)

lemma close_account_InrD:
  assumes "close_account i who now s = (Inr v, s')"
  shows "find_user i s' = Some v \<and> u_status v = US_CLOSED"
proof -
  obtain u where u: "find_user i s = Some u" using assms
    by (auto simp: close_account_def elim!: bindM_InrE simp: findUserById_Inr)
  show ?thesis
  proof (cases "u_status u = US_CLOSED")
    case False
    define s1 where "s1 = (ended i now s)\<lparr>devices := filter (\<lambda>d. td_userId d \<noteq> i) (devices s),
      pendingLogins := filter (\<lambda>x. lg_userId x \<noteq> i) (pendingLogins (ended i now s))\<rparr>"
    have "close_account i who now s =
      bindM (markClosed i (anonymized_email i) now) (\<lambda>_.
      bindM (completeForUser i who now) (\<lambda>asked.
      bindM (whenM asked (updM (send_out (AccountClosedEmail (u_email u))))) (\<lambda>_. findUserById i))) s1"
      using u False by (simp add: close_account_def findUserById_eq endAllSessions_eq bindM_def s1_def)
    with assms have run: "bindM (markClosed i (anonymized_email i) now) (\<lambda>_.
      bindM (completeForUser i who now) (\<lambda>asked.
      bindM (whenM asked (updM (send_out (AccountClosedEmail (u_email u))))) (\<lambda>_. findUserById i))) s1 = (Inr v, s')"
      by simp
    obtain x s2 where m: "markClosed i (anonymized_email i) now s1 = (Inr x, s2)"
      and run2: "bindM (completeForUser i who now) (\<lambda>asked.
        bindM (whenM asked (updM (send_out (AccountClosedEmail (u_email u))))) (\<lambda>_. findUserById i)) s2 = (Inr v, s')"
      by (rule bindM_InrE [OF run])
    obtain asked s3 where c: "completeForUser i who now s2 = (Inr asked, s3)"
      and run3: "bindM (whenM asked (updM (send_out (AccountClosedEmail (u_email u))))) (\<lambda>_. findUserById i) s3 = (Inr v, s')"
      by (rule bindM_InrE [OF run2])
    obtain y s4 where e: "whenM asked (updM (send_out (AccountClosedEmail (u_email u))) :: unit auth) s3 = (Inr y, s4)"
      and f: "findUserById i s4 = (Inr v, s')"
      by (rule bindM_InrE [OF run3])
    have u1: "find_user i s1 = Some u" using u by (simp add: s1_def find_user_def)
    have "find_user i s2 = Some (u\<lparr>u_status := US_CLOSED, u_closedAt := Some now, u_email := anonymized_email i,
        u_phone := None, u_phoneVerifiedAt := None\<rparr>)"
      using markClosed_Inr [OF m u1] u1 by (simp add: find_user_update)
    moreover have "find_user i s3 = find_user i s2"
      using c by (auto simp: completeForUser_def decide_deletion_def bindM_def find_user_def)
    moreover have "find_user i s4 = find_user i s3" using e by (auto simp: whenM_def split: if_splits)
    ultimately show ?thesis using f by (auto simp: findUserById_Inr)
  qed (use assms u in \<open>auto simp: close_account_def findUserById_eq bindM_def\<close>)
qed

section \<open>Closing\<close>

lemma bind_meanwhile [simp]: "bindM (meanwhile env n) k c = k () (ce_meanwhile env n c)"
  by (simp add: bindM_def)

lemma customer_snapshot_eq: "customer_snapshot i c = (case find_user i (con_auth c) of
    None \<Rightarrow> (Inl (NotFound ''Customer not found''), c) | Some u \<Rightarrow> (Inr u, c))"
  by (simp add: customer_snapshot_def bindM_def split: option.split)

lemma customer_now_Inr: "customer_now env i c = (Inr v, c') \<Longrightarrow> c' = c"
  by (auto simp: customer_now_def get_customer_def customer_snapshot_eq bindM_def split: option.splits)

lemma closureBlockers_eq: "closureBlockers env n i c =
    (Inr (wallet_total i (con_pay c), payments_in_flight i (con_pay (ce_meanwhile env n c))), ce_meanwhile env n c)"
  by (simp add: closureBlockers_def bindM_def)

text \<open>What runs from the check on, in the state \<open>c1\<close> of the first read.\<close>

definition decide_closure :: "console_env \<Rightarrow> uuid \<Rightarrow> staff_ctx \<Rightarrow> bool \<Rightarrow> console \<Rightarrow> (http_error + customer_detail) \<times> console" where
  "decide_closure env i ctx ours c1 =
    (let c2 = ce_meanwhile env 2 c1; b = (wallet_total i (con_pay c1), payments_in_flight i (con_pay c2)) in
     (if blocked b then
        bindM (whenM ours (bindM (call_auth env 1 (reactivate i)) (\<lambda>_. retM ()))) (\<lambda>_. failM (closure_refusal env b))
      else
        bindM (call_auth env 2 (close_account i (Some (cx_email ctx)) (auth_now env))) (\<lambda>_.
        bindM (meanwhile env 4) (\<lambda>_.
        bindM (record_action env ctx ''customer.closed'' i) (\<lambda>_.
        customer_now env i)))) (ce_meanwhile env 3 c2))"

lemma close_customer_eq:
  assumes "find_user i (con_auth c) = Some u" and "u_status u \<noteq> US_CLOSED"
  shows "close_customer env i ctx c =
    bindM (whenM (u_status u \<noteq> US_SUSPENDED) (bindM (call_auth env 0 (suspend i (auth_now env))) (\<lambda>_. retM ())))
      (\<lambda>_ c1. decide_closure env i ctx (u_status u \<noteq> US_SUSPENDED) (ce_meanwhile env 1 c1)) (ce_meanwhile env 0 c)"
  using assms
  by (simp add: close_customer_def customer_snapshot_eq bindM_def closureBlockers_eq decide_closure_def Let_def
      split: prod.split sum.split)

lemma decide_closure_Inr:
  assumes "decide_closure env i ctx ours c1 = (Inr v, c')"
  shows "wallet_total i (con_pay c1) = 0 \<and> payments_in_flight i (con_pay (ce_meanwhile env 2 c1)) = 0 \<and>
    (\<exists>c2 x. con_pay c2 = con_pay (ce_meanwhile env 3 (ce_meanwhile env 2 c1)) \<and>
      find_user i (con_auth c2) = Some x \<and> u_status x = US_CLOSED \<and>
      con_auth c' = con_auth (ce_meanwhile env 4 c2) \<and> con_pay c' = con_pay (ce_meanwhile env 4 c2) \<and>
      (\<exists>e. auditLog (con_admin c') = auditLog (con_admin (ce_meanwhile env 4 c2)) @ [e] \<and>
        au_action e = ''customer.closed'' \<and> au_resourceId e = Some i \<and> au_staffId e = Some (cx_staffId ctx)))"
proof -
  let ?c3 = "ce_meanwhile env 3 (ce_meanwhile env 2 c1)"
  let ?b = "(wallet_total i (con_pay c1), payments_in_flight i (con_pay (ce_meanwhile env 2 c1)))"
  have free: "\<not> blocked ?b"
  proof
    assume "blocked ?b"
    then show False using assms by (auto simp: decide_closure_def Let_def bindM_def split: prod.splits sum.splits)
  qed
  then have "bindM (call_auth env 2 (close_account i (Some (cx_email ctx)) (auth_now env))) (\<lambda>_.
      bindM (meanwhile env 4) (\<lambda>_.
      bindM (record_action env ctx ''customer.closed'' i) (\<lambda>_. customer_now env i))) ?c3 = (Inr v, c')"
    using assms by (simp add: decide_closure_def Let_def)
  then obtain w c2 where call: "call_auth env 2 (close_account i (Some (cx_email ctx)) (auth_now env)) ?c3 = (Inr w, c2)"
    and rest: "bindM (record_action env ctx ''customer.closed'' i) (\<lambda>_. customer_now env i) (ce_meanwhile env 4 c2) = (Inr v, c')"
    by (rule bindM_InrE) (simp only: bind_meanwhile)
  obtain s where "close_account i (Some (cx_email ctx)) (auth_now env) (con_auth ?c3) = (Inr w, s)"
    and c2: "c2 = ?c3\<lparr>con_auth := s\<rparr>"
    using call by (auto simp: call_auth_Inr)
  then have closed: "find_user i (con_auth c2) = Some w" "u_status w = US_CLOSED" using close_account_InrD by auto
  obtain y c5 where audit: "record_action env ctx ''customer.closed'' i (ce_meanwhile env 4 c2) = (Inr y, c5)"
    and "customer_now env i c5 = (Inr v, c')"
    by (rule bindM_InrE [OF rest])
  then have "c' = c5" using customer_now_Inr by blast
  then show ?thesis
    using free closed c2 console_audit_Inr [OF audit [unfolded record_action_def]]
    by (auto simp: blocked_def intro!: exI [of _ c2] exI [of _ w])
qed


section \<open>A sample customer\<close>

definition the_customer :: user where
  "the_customer = (new_user ''a'' ''h'' ''A'' ''B'' 1)\<lparr>u_id := 10, u_status := US_ACTIVE, u_emailVerifiedAt := Some 2\<rparr>"

definition live_session :: session where
  "live_session = \<lparr>ss_id = 11, ss_userId = 10, ss_deviceId = None, ss_deviceName = None, ss_userAgent = None,
     ss_ipAddress = None, ss_lastSeenAt = 3, ss_revokedAt = None\<rparr>"

definition open_deletion :: account_deletion_request where
  "open_deletion = \<lparr>dr_id = 12, dr_userId = 10, dr_reason = None, dr_status = DR_PENDING, dr_decidedAt = None,
     dr_decidedByEmail = None, dr_decisionNote = None, dr_createdAt = 4\<rparr>"

definition passport :: kyc_document where
  "passport = \<lparr>kd_id = 13, kd_userId = 10, kd_docType = GOVERNMENT_ID_FRONT, kd_idType = Some INTERNATIONAL_PASSPORT,
     kd_ocrText = None, kd_objectKey = ''k'', kd_originalFilename = ''p.png'', kd_mimeType = ''image/png'',
     kd_sizeBytes = 1, kd_uploadedAt = 5\<rparr>"

definition customer_console :: "money \<Rightarrow> console" where
  "customer_console balance =
    \<lparr>con_admin = empty_admin,
     con_auth = empty_auth\<lparr>users := [the_customer], sessions := [live_session], deletions := [open_deletion],
       kycDocs := [passport], fresh_id := 14\<rparr>,
     con_pay = empty_pay\<lparr>wallets := [\<lparr>w_id = 20, w_userId = 10, w_currency = NGN, w_balance = balance\<rparr>], next_id := 21\<rparr>\<rparr>"

definition reviewer :: staff_ctx where "reviewer = staff_member 1 COMPLIANCE"

text \<open>Another request commits in gap \<open>k\<close>.\<close>

definition with_gap :: "nat \<Rightarrow> (console \<Rightarrow> console) \<Rightarrow> console_env" where
  "with_gap k f = (console_at 20 Answered)\<lparr>ce_meanwhile := (\<lambda>n c. if n = k then f c else c)\<rparr>"

definition succeeded :: "(http_error + 'a) \<times> console \<Rightarrow> bool" where
  "succeeded r = (case fst r of Inl e \<Rightarrow> False | Inr v \<Rightarrow> True)"

lemma succeededE:
  assumes "succeeded r"
  obtains v where "r = (Inr v, snd r)"
  using assms by (cases r) (auto simp: succeeded_def split: sum.splits)

definition closed_console :: console where
  "closed_console = snd (close_customer (console_at 20 Answered) 10 reviewer (customer_console 0))"

lemma closing_succeeds: "succeeded (close_customer (console_at 20 Answered) 10 reviewer (customer_console 0))"
  by code_simp


section \<open>What a refused closure leaves\<close>

text \<open>
  A closure refused because money is left or payments are in flight puts the customer's row back as it
  was, but the customer is signed out everywhere; and when the auth service cannot be reached for the
  reactivation, the answer is 503 and the customer stays SUSPENDED.
\<close>

theorem refused_closure_signs_out:
  assumes "ce_keyConfigured env" and "ce_net env 0 = Answered" and "ce_net env 1 = Answered \<or> ce_net env 1 = NotReached"
    and quiet: "ce_meanwhile env = (\<lambda>n c. c)" and ok: "accounts_ok (con_auth c)"
    and u: "find_user i (con_auth c) = Some u" "u_status u = US_ACTIVE"
    and b: "b = (wallet_total i (con_pay c), payments_in_flight i (con_pay c))" "blocked b"
  shows "\<exists>c'. close_customer env i ctx c =
      (Inl (if ce_net env 1 = Answered then closure_refusal env b
            else ServiceUnavailable ''The auth service is unreachable''), c') \<and>
    con_pay c' = con_pay c \<and> con_admin c' = con_admin c \<and> signed_out i (con_auth c') \<and>
    find_user i (con_auth c') = Some (if ce_net env 1 = Answered then u else u\<lparr>u_status := US_SUSPENDED\<rparr>)"
proof -
  have un: "unique_users (users (con_auth c))" and "u_emailVerifiedAt u \<noteq> None"
    using ok find_user_id [OF u(1)] u(2) by (auto simp: accounts_ok_def user_ok_def)
  have same: "u\<lparr>u_status := US_ACTIVE\<rparr> = u" using u(2) by (cases u) simp
  define s1 where "s1 = ended i (auth_now env) (update_user i (\<lambda>u. u\<lparr>u_status := US_SUSPENDED\<rparr>) (con_auth c))"
  have susp: "call_auth env 0 (suspend i (auth_now env)) c = (Inr (u\<lparr>u_status := US_SUSPENDED\<rparr>), c\<lparr>con_auth := s1\<rparr>)"
    using suspend_open [OF un u(1)] by (simp add: call_auth_Inr assms(1,2) s1_def u(2))
  have s1: "find_user i s1 = Some (u\<lparr>u_status := US_SUSPENDED\<rparr>)" "unique_users (users s1)" "signed_out i s1"
    using u(1) unique_users_status [OF un] by (simp_all add: s1_def find_user_status)
  let ?s2 = "update_user i (\<lambda>v. v\<lparr>u_status := US_ACTIVE\<rparr>) s1"
  have again: "call_auth env 1 (reactivate i) (c\<lparr>con_auth := s1\<rparr>) = (Inr u, c\<lparr>con_auth := ?s2\<rparr>)"
    if "ce_net env 1 = Answered"
    using reactivate_suspended [OF s1(2,1)] \<open>u_emailVerifiedAt u \<noteq> None\<close> u(2)
      that assms(1) same by (simp add: call_auth_Inr)
  have lost: "call_auth env 1 (reactivate i) (c\<lparr>con_auth := s1\<rparr>) =
      (Inl (ServiceUnavailable ''The auth service is unreachable''), c\<lparr>con_auth := s1\<rparr>)"
    if "ce_net env 1 = NotReached"
    using that assms(1) by (simp add: call_auth_def internal_call_def)
  have "find_user i ?s2 = Some u" "signed_out i ?s2"
    using s1 same by (simp_all add: find_user_status signed_out_def)
  then show ?thesis
    using assms(3) susp again lost s1 b(2)
    by (auto simp: close_customer_eq [OF u(1)] u(2) decide_closure_def Let_def quiet b(1) bindM_def)
qed

lemma customer_console_simps [simp]:
  "con_admin (customer_console b) = empty_admin" "users (con_auth (customer_console b)) = [the_customer]"
  "sessions (con_auth (customer_console b)) = [live_session]" "deletions (con_auth (customer_console b)) = [open_deletion]"
  "refreshTokens (con_auth (customer_console b)) = []" "fresh_id (con_auth (customer_console b)) = 14"
  "wallets (con_pay (customer_console b)) = [\<lparr>w_id = 20, w_userId = 10, w_currency = NGN, w_balance = b\<rparr>]"
  "txns (con_pay (customer_console b)) = []"
  by (simp_all add: customer_console_def empty_auth_def empty_pay_def)

lemma the_customer_simps [simp]:
  "u_id the_customer = 10" "u_status the_customer = US_ACTIVE" "u_emailVerifiedAt the_customer = Some 2"
  "u_tier the_customer = TIER_1"
  by (simp_all add: the_customer_def new_user_def)

lemma customer_console_ok: "accounts_ok (con_auth (customer_console b))"
  by (simp add: accounts_ok_def unique_users_def user_ok_def tokens_ok_def active_session_def live_session_def
      open_request_def open_deletion_def)

theorem refused_closure_signs_out_witness:
  "\<exists>c'. close_customer (console_at 20 Answered) 10 reviewer (customer_console 500) =
      (Inl (BadRequest ''Wallet balance must be zero before closing (currently 500).''), c') \<and>
    signed_out 10 (con_auth c') \<and> find_user 10 (con_auth c') = Some the_customer"
proof -
  let ?b = "(wallet_total 10 (con_pay (customer_console 500)), payments_in_flight 10 (con_pay (customer_console 500)))"
  have "wallet_total 10 (con_pay (customer_console 500)) = 500" by (simp add: wallet_total_def wallets_of_def)
  then have b: "blocked ?b" "closure_refusal (console_at 20 Answered) ?b =
      BadRequest ''Wallet balance must be zero before closing (currently 500).''"
    by (simp_all add: blocked_def closure_refusal_def console_at_def)
  have "find_user 10 (con_auth (customer_console 500)) = Some the_customer" by (simp add: find_user_def)
  then show ?thesis
    using refused_closure_signs_out [where env = "console_at 20 Answered" and b = ?b and ctx = reviewer,
        OF _ _ _ _ customer_console_ok _ _ refl b(1)] b(2)
    by (auto simp: console_at_def)
qed

section \<open>What others can do in between\<close>

definition freeze :: "console \<Rightarrow> console" where
  "freeze c = snd (suspend_customer (console_at 15 Answered) 10 (staff_member 9 COMPLIANCE) c)"

definition cancel_request :: "console \<Rightarrow> console" where
  "cancel_request c = c\<lparr>con_auth := snd (cancel_deletion 10 15 (con_auth c))\<rparr>"

definition deposit_500 :: "console \<Rightarrow> console" where
  "deposit_500 c = c\<lparr>con_pay := snd (apply_posting \<lparr>pg_walletId = 20, pg_type = CREDIT, pg_amount = ''500'',
     pg_reference = ''MAN-1'', pg_narration = ''n'', pg_meta = []\<rparr> 500 15 (con_pay c))\<rparr>"

text \<open>
  Closing reads first and acts later.  A suspension that somebody else decided in between is lifted when
  the closure is refused; a deletion request that the customer cancelled in between is carried out all the
  same; and money that arrives after the check leaves a closed account that holds it.
\<close>

theorem closure_overlaps:
  "(let (r, c) = close_customer (with_gap 0 freeze) 10 reviewer (customer_console 500) in
     map au_action (auditLog (con_admin c)) = [''customer.suspended''] \<and> map u_status (users (con_auth c)) = [US_ACTIVE]) \<and>
   (let (r, c) = approve_deletion (with_gap 5 cancel_request) 12 reviewer (customer_console 0) in
     map u_status (users (con_auth c)) = [US_CLOSED] \<and> map dr_status (deletions (con_auth c)) = [DR_CANCELLED]) \<and>
   (let (r, c) = close_customer (with_gap 3 deposit_500) 10 reviewer (customer_console 0) in
     map u_status (users (con_auth c)) = [US_CLOSED] \<and> map w_balance (wallets (con_pay c)) = [500])"
  by (intro conjI) code_simp+

section \<open>Documents\<close>

text \<open>
  C24: A customer's identity document is returned only after the audit log has an entry that says who asked
  for it; when the entry cannot be written, nobody sees the file.  The file is of that customer.
\<close>

theorem document_views_are_logged:
  assumes "viewDocument env i docId ctx c = (Inr (file, mime, name), c')"
  shows "ad_auditOk (ce_admin env) \<and> kd_id file = docId \<and> kd_userId file = i \<and>
    (\<exists>c1 e. auditLog (con_admin c1) = auditLog (con_admin (ce_meanwhile env 0 c)) @ [e] \<and>
      au_action e = ''kyc.document_viewed'' \<and> au_staffId e = Some (cx_staffId ctx) \<and> au_resourceId e = Some i \<and>
      con_admin c' = con_admin (ce_meanwhile env 1 c1))"
proof -
  obtain doc c0 where "documentMeta i docId c = (Inr doc, c0)"
    and rest0: "bindM (meanwhile env 0) (\<lambda>_. bindM (record_action env ctx ''kyc.document_viewed'' i) (\<lambda>_.
      bindM (meanwhile env 1) (\<lambda>_.
      bindM (call_auth env 0 (kycDocumentFile i docId)) (\<lambda>f.
      retM (f, kd_mimeType doc, kd_originalFilename doc))))) c0 = (Inr (file, mime, name), c')"
    by (rule bindM_InrE [OF assms [unfolded viewDocument_def]])
  then have "c0 = c" by (simp add: documentMeta_def bindM_def)
  with rest0 have run: "bindM (record_action env ctx ''kyc.document_viewed'' i) (\<lambda>_.
      bindM (meanwhile env 1) (\<lambda>_.
      bindM (call_auth env 0 (kycDocumentFile i docId)) (\<lambda>f.
      retM (f, kd_mimeType doc, kd_originalFilename doc)))) (ce_meanwhile env 0 c) = (Inr (file, mime, name), c')"
    by simp
  obtain y c1 where audit: "record_action env ctx ''kyc.document_viewed'' i (ce_meanwhile env 0 c) = (Inr y, c1)"
    and rest: "bindM (meanwhile env 1) (\<lambda>_. bindM (call_auth env 0 (kycDocumentFile i docId)) (\<lambda>f.
      retM (f, kd_mimeType doc, kd_originalFilename doc))) c1 = (Inr (file, mime, name), c')"
    by (rule bindM_InrE [OF run])
  have "bindM (call_auth env 0 (kycDocumentFile i docId)) (\<lambda>f.
      retM (f, kd_mimeType doc, kd_originalFilename doc)) (ce_meanwhile env 1 c1) = (Inr (file, mime, name), c')"
    using rest by simp
  then obtain f c2 where "call_auth env 0 (kycDocumentFile i docId) (ce_meanwhile env 1 c1) = (Inr f, c2)"
      and "(Inr (f, kd_mimeType doc, kd_originalFilename doc), c2) = (Inr (file, mime, name), c')"
    by (auto elim!: bindM_InrE)
  then have call: "call_auth env 0 (kycDocumentFile i docId) (ce_meanwhile env 1 c1) = (Inr file, c')" by simp
  then have same_doc: "kd_id file = docId" "kd_userId file = i" "con_admin c' = con_admin (ce_meanwhile env 1 c1)"
    by (auto simp: call_auth_Inr kycDocumentFile_def bindM_def dest!: find_row_SomeD)
  have "ad_auditOk (ce_admin env)"
    using audit by (auto simp: record_action_def console_audit_def on_admin_def audit_record_def assertM_def bindM_def
        split: if_splits)
  then show ?thesis
    using same_doc console_audit_Inr [OF audit [unfolded record_action_def]] by (auto intro!: exI [of _ c1])
qed

definition seen_console :: console where
  "seen_console = snd (viewDocument (console_at 20 Answered) 10 13 reviewer (customer_console 0))"

theorem document_views_are_logged_witness:
  "viewDocument (console_at 20 Answered) 10 13 reviewer (customer_console 0) =
      (Inr (passport, ''image/png'', ''p.png''), seen_console) \<and>
    (\<exists>e. auditLog (con_admin seen_console) = [e] \<and> au_action e = ''kyc.document_viewed'' \<and> au_staffId e = Some 1)"
proof
  show run: "viewDocument (console_at 20 Answered) 10 13 reviewer (customer_console 0) =
      (Inr (passport, ''image/png'', ''p.png''), seen_console)"
  proof -
    have "fst (viewDocument (console_at 20 Answered) 10 13 reviewer (customer_console 0)) =
        Inr (passport, ''image/png'', ''p.png'')" by code_simp
    then show ?thesis unfolding seen_console_def by (metis prod.collapse)
  qed
  from document_views_are_logged [OF run] obtain c1 e where
    "auditLog (con_admin c1) = auditLog (con_admin (ce_meanwhile (console_at 20 Answered) 0 (customer_console 0))) @ [e]"
    "au_action e = ''kyc.document_viewed''" "au_staffId e = Some (cx_staffId reviewer)"
    "con_admin seen_console = con_admin (ce_meanwhile (console_at 20 Answered) 1 c1)"
    by blast
  then show "\<exists>e. auditLog (con_admin seen_console) = [e] \<and> au_action e = ''kyc.document_viewed'' \<and> au_staffId e = Some 1"
    by (simp add: console_at_def empty_admin_def reviewer_def staff_member_def)
qed

section \<open>Changes without a record\<close>

definition neighbour :: user where
  "neighbour = (new_user ''b'' ''h'' ''C'' ''D'' 1)\<lparr>u_id := 9, u_phone := Some ''2348031234567''\<rparr>"

definition two_customers :: console where
  "two_customers = (customer_console 0)\<lparr>con_auth := (con_auth (customer_console 0))\<lparr>users := [the_customer, neighbour]\<rparr>\<rparr>"

definition audit_down :: console_env where
  "audit_down = (console_at 20 Answered)\<lparr>ce_admin := (staff_env 20 ''t'')\<lparr>ad_auditOk := False\<rparr>\<rparr>"

text \<open>
  An action is recorded after the auth service has carried it out, so an error in between leaves it
  unrecorded: an edit of name and phone refused for the phone has already changed the name; an answer lost
  on the wire leaves a suspension without an entry; and when the audit row of a closure cannot be written,
  the customer's contact details are gone from both places.
\<close>

theorem unrecorded_changes:
  "(let (r, c) = update_customer (console_at 20 Answered) 10
        \<lparr>uc_firstName = Some ''Z'', uc_lastName = None, uc_phone = Some ''08031234567''\<rparr> reviewer two_customers in
     r = Inl (Conflict ''That phone number belongs to another account'') \<and>
     map u_firstName (users (con_auth c)) = [''Z'', ''C''] \<and> auditLog (con_admin c) = []) \<and>
   (let (r, c) = suspend_customer (console_at 20 AnswerLost) 10 reviewer (customer_console 0) in
     r = Inl (ServiceUnavailable ''The auth service is unreachable'') \<and>
     map u_status (users (con_auth c)) = [US_SUSPENDED] \<and> auditLog (con_admin c) = []) \<and>
   (let (r, c) = close_customer audit_down 10 reviewer (customer_console 0) in
     r = Inl (PlainError ''audit'') \<and> map u_email (users (con_auth c)) = [''closed+10@closed.fiam.invalid''] \<and>
     auditLog (con_admin c) = [])"
  by (intro conjI) code_simp+

end
