(* ===== verification/ConsoleGates.thy ===== *)
theory ConsoleGates
  imports ConsoleRequests ClosureProps
begin

text \<open>
  Who can change what from the console: which requests touch the auth and the payment service at all, and
  the roles they need.
\<close>

section \<open>Requests that leave a service alone\<close>

abbreviation quiet :: "console_env \<Rightarrow> bool" where
  "quiet env \<equiv> ce_meanwhile env = (\<lambda>n c. c)"

definition same_auth :: "auth_state \<Rightarrow> console \<Rightarrow> bool" where "same_auth a c \<longleftrightarrow> con_auth c = a"

definition same_pay :: "pay_state \<Rightarrow> console \<Rightarrow> bool" where "same_pay p c \<longleftrightarrow> con_pay c = p"

lemma keeps_on_admin [intro!, simp]: "keeps (same_auth a) (on_admin m)" "keeps (same_pay p) (on_admin m)"
  by (auto simp: keeps_def same_auth_def same_pay_def on_admin_def split: prod.split)

lemma keeps_other_service [intro!, simp]: "keeps (same_auth a) (on_pay m1)" "keeps (same_pay p) (on_auth m2)"
  by (auto simp: keeps_def same_auth_def same_pay_def on_pay_def on_auth_def split: prod.split)

lemma keeps_internal_call [intro]:
  fixes m :: "'a con"
  assumes "keeps I m"
  shows "keeps I (internal_call k net sv m)"
proof -
  have "keeps I (rethrown m)" unfolding rethrown_def by (intro keeps_catchM keeps_failM assms)
  moreover have "keeps I (bindM (catchM (bindM m (\<lambda>_. retM ())) (\<lambda>_. retM ())) (\<lambda>_. failM e :: 'a con))" for e
    by (intro keeps_bindM keeps_catchM keeps_retM keeps_failM assms)
  ultimately show ?thesis by (cases net) (auto simp: internal_call_def)
qed

lemma keeps_calls [intro!, simp]: "keeps (same_auth a) (call_payment env n m1)" "keeps (same_pay p) (call_auth env n m2)"
  by (auto simp: call_payment_def call_auth_def)

lemma keeps_meanwhile: "quiet env \<Longrightarrow> keeps I (meanwhile env n)"
  by (simp add: keeps_def meanwhile_def)

lemma keeps_if: "keeps I m1 \<Longrightarrow> keeps I m2 \<Longrightarrow> keeps I (if b then m1 else m2)"
  by simp

lemma keeps_prod: "(\<And>x y. keeps I (f x y)) \<Longrightarrow> keeps I (case v of (x, y) \<Rightarrow> f x y)"
  by (cases v) simp

lemma keeps_option: "keeps I m \<Longrightarrow> (\<And>x. keeps I (f x)) \<Longrightarrow> keeps I (case v of None \<Rightarrow> m | Some x \<Rightarrow> f x)"
  by (cases v) simp_all

lemma keeps_audit [intro!, simp]: "keeps (same_auth a) (console_audit env ctx act k i)" "keeps (same_pay p) (console_audit env ctx act k i)"
  by (simp_all add: console_audit_def)

lemmas keeps_rules = keeps_bindM keeps_catchM keeps_retM keeps_failM keeps_getM keeps_assertM keeps_someM keeps_liftM
  keeps_whenM keeps_if keeps_prod keeps_option keeps_on_admin keeps_other_service keeps_calls keeps_audit

lemmas read_defs = customer_snapshot_def get_customer_def customer_now_def assertExists_def customer_sessions_def
  customer_devices_def customer_wallet_def get_kyc_def documentMeta_def depositForAssignment_def get_txn_def
  load_posting_def view_posting_def get_posting_def pending_request_def closureBlockers_def

lemma keeps_reads [intro!, simp]:
  "keeps I (customer_snapshot i)" "keeps I (get_customer now i)" "keeps I (customer_now env i)" "keeps I (assertExists i)"
  "keeps I (customer_sessions i)" "keeps I (customer_devices i)" "keeps I (customer_wallet i)" "keeps I (documentMeta i d)"
  "keeps I (depositForAssignment i)" "keeps I (get_txn i)" "keeps I (load_posting i)" "keeps I (view_posting p)"
  "keeps I (get_posting i)" "keeps I (pending_request i)" "keeps I (customer_txns i q)" "keeps I (list_customers_as cq ctx)"
  unfolding read_defs customer_txns_def list_customers_as_def by (intro keeps_rules | assumption)+

lemma keeps_showing [intro]: "keeps I m \<Longrightarrow> keeps I (showing f m)"
  unfolding showing_def by (intro keeps_rules)

lemma keeps_read_call:
  assumes "keeps (\<lambda>s. s = a) m"
  shows "keeps (same_auth a) (call_auth env n m)"
proof -
  have "keeps (same_auth a) (on_auth m)"
    using assms by (auto simp: keeps_def same_auth_def on_auth_def split: prod.split)
  then show ?thesis by (simp add: call_auth_def keeps_internal_call)
qed

lemma keeps_read_payment: "keeps (same_pay p) (call_payment env n (getM f))"
proof -
  have "keeps (same_pay p) (on_pay (getM f))" by (simp add: keeps_def same_pay_def on_pay_def)
  then show ?thesis by (simp add: call_payment_def keeps_internal_call)
qed

lemma keeps_auth_reads [intro!, simp]:
  "keeps I (transferCaps i)" "keeps I (transferLimit env2 i)" "keeps I (kycDocumentFile i d)"
  unfolding transferCaps_def transferLimit_def kycDocumentFile_def findUserById_def by (intro keeps_rules | assumption)+

text \<open>The handlers that never write to the auth service.\<close>

lemma same_auth_handlers:
  assumes q: "quiet env"
  shows "keeps (same_auth a) (customer_limits env i)" "keeps (same_auth a) (view_customer_audited env i ctx)"
    "keeps (same_auth a) (get_kyc env i)" "keeps (same_auth a) (kyc_file env i d ctx)"
    "keeps (same_auth a) (pending_provisioning env)" "keeps (same_auth a) (export_txns env stamp tq ctx)"
    "keeps (same_auth a) (requery_txn env rg i ctx)" "keeps (same_auth a) (view_txn env i ctx)"
    "keeps (same_auth a) (get_free_payouts env n)" "keeps (same_auth a) (set_free_payouts env b ctx)"
  unfolding customer_limits_def view_customer_audited_def get_kyc_def kyc_file_def viewDocument_def record_action_def
    pending_provisioning_def export_txns_def requery_txn_def view_txn_def get_free_payouts_def set_free_payouts_def
  by (intro keeps_rules keeps_meanwhile [OF q] keeps_read_call keeps_reads keeps_auth_reads | assumption)+

lemma same_auth_postings:
  assumes q: "quiet env"
  shows "keeps (same_auth a) (request_posting env dto ctx)" "keeps (same_auth a) (approve_posting env i nt ctx)"
    "keeps (same_auth a) (reject_posting env i r ctx)" "keeps (same_auth a) (cancel_posting env i ctx)"
  unfolding request_posting_def requested_move_def approve_posting_def settle_posting_def apply_at_payment_def
    unsettled_def reject_posting_def cancel_posting_def
  by (intro keeps_rules keeps_meanwhile [OF q] keeps_reads | assumption)+

text \<open>The handlers that never write to the payment service.\<close>

lemma same_pay_handlers:
  assumes q: "quiet env"
  shows "keeps (same_pay p) (customer_limits env i)" "keeps (same_pay p) (view_customer_audited env i ctx)"
    "keeps (same_pay p) (get_kyc env i)" "keeps (same_pay p) (kyc_file env i d ctx)"
    "keeps (same_pay p) (pending_provisioning env)" "keeps (same_pay p) (export_txns env stamp tq ctx)"
    "keeps (same_pay p) (view_txn env i ctx)" "keeps (same_pay p) (get_free_payouts env n)"
    "keeps (same_pay p) (retry_provisioning env ids ctx)" "keeps (same_pay p) (approve_deletion env i ctx)"
    "keeps (same_pay p) (reject_deletion_request env i r ctx)" "keeps (same_pay p) (close_customer env i ctx)"
    "keeps (same_pay p) (request_posting env dto ctx)" "keeps (same_pay p) (reject_posting env i r ctx)"
    "keeps (same_pay p) (cancel_posting env i ctx)"
  unfolding customer_limits_def view_customer_audited_def get_kyc_def kyc_file_def viewDocument_def record_action_def
    pending_provisioning_def export_txns_def view_txn_def get_free_payouts_def retry_provisioning_def Let_def
    approve_deletion_def reject_deletion_request_def close_customer_def closureBlockers_def audited_call_def
    request_posting_def requested_move_def reject_posting_def cancel_posting_def
  by (intro keeps_rules keeps_meanwhile [OF q] keeps_reads keeps_read_payment | assumption)+

lemma same_pay_actions:
  assumes q: "quiet env"
  shows "keeps (same_pay p) (update_customer env i dto ctx)" "keeps (same_pay p) (suspend_customer env i ctx)"
    "keeps (same_pay p) (reactivate_customer env i ctx)" "keeps (same_pay p) (clear_customer_lockouts env i ctx)"
    "keeps (same_pay p) (revoke_customer_sessions env i ctx)" "keeps (same_pay p) (revoke_customer_session env i sid ctx)"
    "keeps (same_pay p) (approve_upgrade env i ctx)" "keeps (same_pay p) (reject_upgrade env i r ctx)"
  unfolding update_customer_def suspend_customer_def reactivate_customer_def clear_customer_lockouts_def
    revoke_customer_sessions_def revoke_customer_session_def approve_upgrade_def reject_upgrade_def
    audited_call_def record_action_def
  by (intro keeps_rules keeps_meanwhile [OF q] keeps_reads | assumption)+

section \<open>By request\<close>

fun writes_auth :: "console_request \<Rightarrow> bool" where
  "writes_auth (PostApproveUpgrade i nt) = True" | "writes_auth (PostRejectUpgrade i r) = True"
| "writes_auth (PatchCustomer i dto r) = True" | "writes_auth (PostSuspend i r) = True"
| "writes_auth (PostClearLockouts i r) = True" | "writes_auth (PostReactivate i r) = True"
| "writes_auth (PostClose i r) = True" | "writes_auth (PostRevokeSessions i r) = True"
| "writes_auth (DeleteSession i sid) = True" | "writes_auth (PostProvisioningRetry ids r) = True"
| "writes_auth (PostApproveDeletion i nt) = True" | "writes_auth (PostRejectDeletion i r) = True"
| "writes_auth req = False"

fun writes_pay :: "console_request \<Rightarrow> bool" where
  "writes_pay (PostRequery i) = True" | "writes_pay (PutFreePayouts b) = True"
| "writes_pay (PostApprovePosting i nt) = True" | "writes_pay req = False"

lemma serve_same_auth:
  assumes "quiet (re_console renv)" and "\<not> writes_auth req"
  shows "keeps (same_auth a) (serve_console renv ctx req)"
  using assms(2) same_auth_handlers [OF assms(1)] same_auth_postings [OF assms(1)]
  by (cases req) (auto intro!: keeps_showing simp del: keeps_calls)

lemma serve_same_pay:
  assumes "quiet (re_console renv)" and "\<not> writes_pay req"
  shows "keeps (same_pay p) (serve_console renv ctx req)"
  using assms(2) same_pay_handlers [OF assms(1)] same_pay_actions [OF assms(1)]
  by (cases req) (auto intro!: keeps_showing keeps_read_payment)

section \<open>Who may\<close>

definition signed_in_as :: "staff_access option \<Rightarrow> console \<Rightarrow> staff_role \<Rightarrow> bool" where
  "signed_in_as access c role \<longleftrightarrow>
    (\<exists>tok u. access = Some tok \<and> find_staff (ac_sub tok) (con_admin c) = Some u \<and> su_status u = STAFF_ACTIVE \<and>
      \<not> su_mustChangePassword u \<and> su_role u = role)"

lemma validateStaff_InrD:
  assumes "validateStaff env ip access s = (Inr ctx, s')"
  shows "s' = s \<and> (\<exists>tok u. access = Some tok \<and> find_staff (ac_sub tok) s = Some u \<and> su_status u = STAFF_ACTIVE \<and>
    cx_role ctx = su_role u \<and> cx_mustChangePassword ctx = su_mustChangePassword u)"
  using assms
  by (auto simp: validateStaff_def bindM_def someM_def assertM_def active_staff_def split: option.splits if_splits)

lemma console_route_cases:
  assumes "console_route renv ip access req c = (r, c')"
  obtains "c' = c"
  | ctx where "signed_in_as access c (cx_role ctx)" and "rolesGuard (console_roles req) ctx = Inr True"
      and "serve_console renv ctx req c = (r, c')"
proof (cases "fst (validateStaff (ce_admin (re_console renv)) ip access (con_admin c))")
  case (Inl e)
  moreover have "snd (validateStaff (ce_admin (re_console renv)) ip access (con_admin c)) = con_admin c"
    by (simp add: validateStaff_def bindM_def someM_def assertM_def split: option.split)
  ultimately have "c' = c" using assms
    by (auto simp: console_route_def bindM_def on_admin_def split: prod.splits)
  then show ?thesis by (rule that(1))
next
  case (Inr ctx)
  then obtain s where run: "validateStaff (ce_admin (re_console renv)) ip access (con_admin c) = (Inr ctx, s)"
    by (cases "validateStaff (ce_admin (re_console renv)) ip access (con_admin c)") simp
  from validateStaff_InrD [OF run] obtain tok u where s: "s = con_admin c"
    and u: "access = Some tok" "find_staff (ac_sub tok) (con_admin c) = Some u" "su_status u = STAFF_ACTIVE"
      "cx_role ctx = su_role u" "cx_mustChangePassword ctx = su_mustChangePassword u" by blast
  have on: "on_admin (validateStaff (ce_admin (re_console renv)) ip access) c = (Inr ctx, c)"
    by (simp add: on_admin_def run s)
  show ?thesis
  proof (cases "cx_mustChangePassword ctx \<or> rolesGuard (console_roles req) ctx \<noteq> Inr True \<or> \<not> valid_body req")
    case True
    then have "c' = c" using assms
      by (auto simp: console_route_def bindM_def on jwtGuard_def rolesGuard_def split: if_splits)
    then show ?thesis by (rule that(1))
  next
    case False
    then have "serve_console renv ctx req c = (r, c')" using assms
      by (simp add: console_route_def bindM_def on jwtGuard_def)
    moreover have "signed_in_as access c (cx_role ctx)" using u False by (auto simp: signed_in_as_def)
    ultimately show ?thesis using False that(2) by blast
  qed
qed

lemma rolesGuard_InrD:
  "rolesGuard roles ctx = Inr True \<Longrightarrow> roles \<noteq> [] \<Longrightarrow> cx_role ctx = SUPER_ADMIN \<or> cx_role ctx \<in> set roles"
  by (auto simp: rolesGuard_def split: if_splits)


definition support_member :: staff_user where
  "support_member = \<lparr>su_id = 51, su_fullName = ''Grace'', su_email = ''g'', su_passwordHash = ''h'', su_role = SUPPORT,
     su_status = STAFF_ACTIVE, su_mustChangePassword = False, su_failedLoginAttempts = 0, su_lockedUntil = None,
     su_totpSecretEnc = None, su_totpEnabledAt = None, su_totpLastStep = None, su_recoveryCodeHashes = [],
     su_lastLoginAt = None, su_createdAt = 1\<rparr>"

definition support_token :: staff_access where
  "support_token = \<lparr>ac_sub = 51, ac_did = None, ac_exp = 100000000\<rparr>"

definition support_console :: console where
  "support_console = (customer_console 0)\<lparr>con_admin := empty_admin\<lparr>staff := [support_member]\<rparr>,
     con_auth := (con_auth (customer_console 0))\<lparr>users := [the_customer\<lparr>u_pinFailedAttempts := 5\<rparr>]\<rparr>\<rparr>"

definition sample_route :: route_env where
  "sample_route = \<lparr>re_console = console_at 20 Answered,
     re_registry = \<lparr>rg_byKey = [], rg_byCurrency = []\<rparr>, re_dbDay = (\<lambda>d. ''d''), re_jsDay = (\<lambda>d. ''d''), re_stamp = (\<lambda>d. ''d'')\<rparr>"

definition unlocked_console :: console where
  "unlocked_console =
    snd (console_route sample_route None (Some support_token) (PostClearLockouts 10 ''locked out'') support_console)"


end
