(* ===== verification/CommonLib.thy ===== *)
theory CommonLib
  imports JsString
begin

text \<open>
  The parts of the shared library that decide something: the rate-limit counters
  (\<open>http/redis-throttler.storage.ts\<close>), redaction of what is logged (\<open>logging/redact.ts\<close>) and the Slack
  error reporter's rate control (\<open>observability/slack-error-reporter.ts\<close>).  Times are milliseconds.
\<close>

section \<open>Rate limits\<close>

text \<open>
  A Redis key holds its number and, when one was set, the time it expires; it is gone once that time has
  passed.  \<open>INCR\<close> starts from 0, \<open>PTTL\<close> is negative without an expiry, \<open>PEXPIRE\<close> sets one.
\<close>

type_synonym redis = "string \<Rightarrow> (nat \<times> int option) option"

definition redis_live :: "int \<Rightarrow> (nat \<times> int option) option \<Rightarrow> (nat \<times> int option) option" where
  "redis_live now v = (case v of Some (n, Some e) \<Rightarrow> if e < now then None else v | _ \<Rightarrow> v)"

definition pttl_of :: "int \<Rightarrow> int option \<Rightarrow> int" where
  "pttl_of now e = (case e of None \<Rightarrow> -1 | Some t \<Rightarrow> t - now)"

text \<open>The Lua script \<open>INCREMENT\<close>, which Redis runs as one step: the hits and the milliseconds left.\<close>

definition INCREMENT :: "int \<Rightarrow> string \<Rightarrow> int \<Rightarrow> redis \<Rightarrow> (nat \<times> int) \<times> redis" where
  "INCREMENT now key ttl st =
    (let (n, e) = (case redis_live now (st key) of None \<Rightarrow> (0, None) | Some v \<Rightarrow> v);
         hits = Suc n; pttl = pttl_of now e
     in if hits = 1 \<or> pttl < 0 then ((hits, ttl), st(key \<mapsto> (hits, Some (now + ttl))))
        else ((hits, pttl), st(key \<mapsto> (hits, e))))"

record throttler_record =
  tr_totalHits :: nat
  tr_timeToExpire :: int
  tr_isBlocked :: bool
  tr_timeToBlockExpire :: int

text \<open>\<open>Math.ceil(pttl / 1000)\<close>\<close>

definition ceil_seconds :: "int \<Rightarrow> int" where
  "ceil_seconds ms = - ((- ms) div 1000)"

text \<open>What becomes of the call to Redis: answered, never run, or run and not answered in time.\<close>

datatype redis_call = RedisAnswered | RedisDown | RedisUnanswered

definition throttle_increment ::
  "redis_call \<Rightarrow> string \<Rightarrow> string \<Rightarrow> string \<Rightarrow> int \<Rightarrow> nat \<Rightarrow> int \<Rightarrow> redis \<Rightarrow> throttler_record \<times> redis" where
  "throttle_increment net prefix throttlerName key ttl limit now st =
    (let k = ''throttle:'' @ prefix @ '':'' @ throttlerName @ '':'' @ key;
         ((hits, pttl), st') = INCREMENT now k ttl st;
         skipped = \<lparr>tr_totalHits = 0, tr_timeToExpire = 0, tr_isBlocked = False, tr_timeToBlockExpire = 0\<rparr>
     in case net of
          RedisDown \<Rightarrow> (skipped, st)
        | RedisUnanswered \<Rightarrow> (skipped, st')
        | RedisAnswered \<Rightarrow>
            (\<lparr>tr_totalHits = hits, tr_timeToExpire = ceil_seconds pttl, tr_isBlocked = (limit < hits),
              tr_timeToBlockExpire = (if limit < hits then ceil_seconds pttl else 0)\<rparr>, st'))"

section \<open>Redaction\<close>

definition REDACTED :: string where "REDACTED = ''[REDACTED]''"

definition SENSITIVE_KEYS :: "string list" where
  "SENSITIVE_KEYS = [''password'', ''pin'', ''otp'', ''code'', ''token'', ''secret'', ''authorization'', ''apikey'',
     ''bvn'', ''nin'', ''phone'', ''email'', ''dob'', ''dateofbirth'', ''firstname'', ''lastname'', ''fullname'',
     ''accountname'', ''accountnumber'', ''accountno'', ''beneficiaryaccount'', ''address'', ''liveness'', ''selfie'']"

text \<open>\<open>key.toLowerCase().replace(/[^a-z0-9]/g, '')\<close>\<close>

definition plain_key :: "string \<Rightarrow> string" where
  "plain_key key = filter (\<lambda>c. is_digit c \<or> (is_alpha c \<and> lower_char c = c)) (to_lower key)"

definition isSensitiveKey :: "string \<Rightarrow> bool" where
  "isSensitiveKey key \<longleftrightarrow> list_ex (\<lambda>s. plain_key key = s \<or> ends_with s (plain_key key)) SENSITIVE_KEYS"

fun redact :: "nat \<Rightarrow> json \<Rightarrow> json" where
  "redact d (JArr vs) = (if 6 < d then JStr REDACTED else JArr (map (redact (Suc d)) vs))"
| "redact d (JObj kvs) =
    (if 6 < d then JStr REDACTED
     else JObj (map (\<lambda>(k, v). (k, if isSensitiveKey k then JStr REDACTED else redact (Suc d) v)) kvs))"
| "redact d v = (if 6 < d then JStr REDACTED else v)"

section \<open>The error reporter\<close>

definition DEDUPE_MS :: int where "DEDUPE_MS = 300000"

definition MAX_PER_MINUTE :: nat where "MAX_PER_MINUTE = 20"

definition MAX_TRACKED :: nat where "MAX_TRACKED = 200"

text \<open>The module's variables; \<open>seen\<close> is a JavaScript \<open>Map\<close>: entries in the order they were first set.\<close>

record reporter =
  rp_seen :: "(string \<times> int \<times> nat) list"
  rp_windowStart :: int
  rp_windowCount :: nat

definition fresh_reporter :: reporter where
  "fresh_reporter = \<lparr>rp_seen = [], rp_windowStart = 0, rp_windowCount = 0\<rparr>"

definition roll_window :: "int \<Rightarrow> reporter \<Rightarrow> reporter" where
  "roll_window now r = (if 60000 < now - rp_windowStart r then r\<lparr>rp_windowStart := now, rp_windowCount := 0\<rparr> else r)"

definition drop_oldest :: "(string \<times> int \<times> nat) list \<Rightarrow> (string \<times> int \<times> nat) list" where
  "drop_oldest m = (if MAX_TRACKED \<le> length m then tl m else m)"

text \<open>May an alert with this fingerprint go out, and how many like it were held back?\<close>

definition allow :: "string \<Rightarrow> int \<Rightarrow> reporter \<Rightarrow> (bool \<times> nat) \<times> reporter" where
  "allow fp now r0 =
    (let r = roll_window now r0; previous = map_of (rp_seen r) fp in
     case previous of
       Some (t, n) \<Rightarrow>
         if now - t < DEDUPE_MS then ((False, 0), r\<lparr>rp_seen := alist_set fp (t, Suc n) (rp_seen r)\<rparr>)
         else if MAX_PER_MINUTE \<le> rp_windowCount r then ((False, 0), r)
         else ((True, n), r\<lparr>rp_windowCount := Suc (rp_windowCount r),
                            rp_seen := alist_set fp (now, 0) (drop_oldest (rp_seen r))\<rparr>)
     | None \<Rightarrow>
         if MAX_PER_MINUTE \<le> rp_windowCount r then ((False, 0), r)
         else ((True, 0), r\<lparr>rp_windowCount := Suc (rp_windowCount r),
                            rp_seen := alist_set fp (now, 0) (drop_oldest (rp_seen r))\<rparr>))"

text \<open>Without a webhook nothing is tracked and nothing goes out.\<close>

definition report :: "bool \<Rightarrow> string \<Rightarrow> int \<Rightarrow> reporter \<Rightarrow> nat option \<times> reporter" where
  "report configured fp now r =
    (if \<not> configured then (None, r)
     else (let ((send, held), r') = allow fp now r in (if send then Some held else None, r')))"

end
