(* ===== verification/CommonProps.thy ===== *)
theory CommonProps
  imports CommonLib
begin

text \<open>
  What the rate limit and the redaction guarantee.  A rate limit is first shown for the value of one key,
  then for a key among others.
\<close>

section \<open>One key\<close>

definition step_key :: "int \<Rightarrow> int \<Rightarrow> (nat \<times> int option) option \<Rightarrow> nat \<times> nat \<times> int option" where
  "step_key ttl now v =
    (let (n, e) = (case redis_live now v of None \<Rightarrow> (0, None) | Some x \<Rightarrow> x)
     in if Suc n = 1 \<or> pttl_of now e < 0 then (Suc n, Suc n, Some (now + ttl)) else (Suc n, Suc n, e))"

fun passed :: "int \<Rightarrow> nat \<Rightarrow> (int \<times> bool) list \<Rightarrow> (nat \<times> int option) option \<Rightarrow> nat" where
  "passed ttl limit [] v = 0"
| "passed ttl limit ((now, answered) # cs) v =
    (if answered \<and> fst (step_key ttl now v) \<le> limit then 1 else 0) +
    passed ttl limit cs (Some (snd (step_key ttl now v)))"

lemma step_open: "0 < n \<Longrightarrow> now \<le> e \<Longrightarrow> step_key ttl now (Some (n, Some e)) = (Suc n, Suc n, Some e)"
  by (simp add: step_key_def redis_live_def pttl_of_def)

lemma passed_open:
  assumes "0 < n" and "\<forall>(t, b) \<in> set cs. t \<le> e"
  shows "passed ttl limit cs (Some (n, Some e)) \<le> limit - n"
  using assms
proof (induction cs arbitrary: n)
  case (Cons c r)
  obtain t b where c: "c = (t, b)" by fastforce
  have "passed ttl limit r (Some (Suc n, Some e)) \<le> limit - Suc n" using Cons.prems by (intro Cons.IH) auto
  then show ?case using Cons.prems c by (auto simp: step_open)
qed simp

text \<open>No window is open at a time: the next hit opens one.\<close>

definition no_window :: "int \<Rightarrow> (nat \<times> int option) option \<Rightarrow> bool" where
  "no_window now v \<longleftrightarrow> (case v of None \<Rightarrow> True | Some (n, None) \<Rightarrow> True | Some (n, Some e) \<Rightarrow> n = 0 \<or> e < now)"

lemma step_opens: "no_window now v \<Longrightarrow> \<exists>h. step_key ttl now v = (Suc h, Suc h, Some (now + ttl))"
  by (auto simp: no_window_def step_key_def redis_live_def pttl_of_def split: option.splits)

lemma passed_new:
  assumes "cs = [] \<or> no_window (fst (hd cs)) v" and "sorted (map fst cs)"
    and "\<forall>(t, b) \<in> set cs. a \<le> t \<and> t \<le> a + ttl"
  shows "passed ttl limit cs v \<le> limit"
proof (cases cs)
  case (Cons c r)
  obtain t b where c: "c = (t, b)" by fastforce
  obtain h where h: "step_key ttl t v = (Suc h, Suc h, Some (t + ttl))"
    using assms(1) step_opens Cons c by fastforce
  have "\<forall>(u, b) \<in> set r. u \<le> t + ttl" using assms(3) Cons c by fastforce
  then have "passed ttl limit r (Some (Suc h, Some (t + ttl))) \<le> limit - Suc h" by (intro passed_open) simp_all
  then show ?thesis unfolding Cons c using h by auto
qed simp

lemma passed_window:
  assumes "0 < n" and "sorted (map fst cs)" and "\<forall>(t, b) \<in> set cs. a \<le> t \<and> t \<le> a + ttl"
  shows "passed ttl limit cs (Some (n, Some e)) \<le> limit - n + limit"
  using assms
proof (induction cs arbitrary: n)
  case (Cons c r)
  obtain t b where c: "c = (t, b)" by fastforce
  show ?case
  proof (cases "e < t")
    case True
    then have "passed ttl limit (c # r) (Some (n, Some e)) \<le> limit"
      using Cons.prems c by (intro passed_new [where a = a]) (simp_all add: no_window_def)
    then show ?thesis by simp
  next
    case False
    have "passed ttl limit r (Some (Suc n, Some e)) \<le> limit - Suc n + limit"
      using Cons.prems by (intro Cons.IH) auto
    then show ?thesis using False Cons.prems(1) c by (auto simp: step_open)
  qed
qed simp

lemma passed_any:
  assumes "sorted (map fst cs)" and "\<forall>(t, b) \<in> set cs. a \<le> t \<and> t \<le> a + ttl"
  shows "passed ttl limit cs v \<le> 2 * limit"
proof (cases "\<exists>n e. v = Some (n, Some e) \<and> 0 < n")
  case True
  then obtain n e where v: "v = Some (n, Some e)" "0 < n" by blast
  have "passed ttl limit cs v \<le> limit - n + limit" unfolding v(1) by (rule passed_window [OF v(2) assms])
  then show ?thesis by simp
next
  case False
  then have "no_window t v" for t by (auto simp: no_window_def split: option.splits)
  then show ?thesis using passed_new [OF _ assms, of v limit] by simp
qed

section \<open>A key among others\<close>

text \<open>Requests as they reach the limiter: whose, when, and what became of the call to Redis.\<close>

type_synonym arrival = "string \<times> int \<times> redis_call"

definition full_key :: "string \<Rightarrow> string \<Rightarrow> string \<Rightarrow> string" where
  "full_key prefix name key = ''throttle:'' @ prefix @ '':'' @ name @ '':'' @ key"

fun let_through :: "string \<Rightarrow> string \<Rightarrow> int \<Rightarrow> nat \<Rightarrow> arrival list \<Rightarrow> redis \<Rightarrow> arrival list" where
  "let_through prefix name ttl limit [] st = []"
| "let_through prefix name ttl limit ((key, now, net) # cs) st =
    (let (r, st') = throttle_increment net prefix name key ttl limit now st
     in (if tr_isBlocked r then [] else [(key, now, net)]) @ let_through prefix name ttl limit cs st')"

definition counted :: "string \<Rightarrow> arrival \<Rightarrow> bool" where
  "counted key c \<longleftrightarrow> fst c = key \<and> snd (snd c) = RedisAnswered"

definition calls_of :: "string \<Rightarrow> arrival list \<Rightarrow> (int \<times> bool) list" where
  "calls_of key cs = map (\<lambda>(k, t, net). (t, net = RedisAnswered)) (filter (\<lambda>(k, t, net). k = key \<and> net \<noteq> RedisDown) cs)"

lemma calls_of_simps [simp]:
  "calls_of key [] = []"
  "calls_of key ((k, t, net) # cs) =
    (if k = key \<and> net \<noteq> RedisDown then [(t, net = RedisAnswered)] else []) @ calls_of key cs"
  by (simp_all add: calls_of_def)

lemma INCREMENT_step:
  "INCREMENT now k ttl st = ((fst (step_key ttl now (st k)), p), st') \<Longrightarrow> st' = st(k \<mapsto> snd (step_key ttl now (st k)))"
  by (auto simp: INCREMENT_def step_key_def Let_def split: option.splits prod.splits if_splits)

lemma increment_cases:
  "throttle_increment net prefix name key ttl limit now st = (r, st') \<Longrightarrow>
    (net = RedisDown \<longrightarrow> \<not> tr_isBlocked r \<and> st' = st) \<and>
    (net = RedisUnanswered \<longrightarrow> \<not> tr_isBlocked r) \<and>
    (net = RedisAnswered \<longrightarrow>
      tr_isBlocked r = (limit < fst (step_key ttl now (st (full_key prefix name key))))) \<and>
    (net \<noteq> RedisDown \<longrightarrow>
      st' = st(full_key prefix name key \<mapsto> snd (step_key ttl now (st (full_key prefix name key)))))"
  by (cases net) (auto simp: throttle_increment_def INCREMENT_def step_key_def full_key_def Let_def
      split: option.splits prod.splits if_splits)

lemma let_through_passed:
  "length (filter (counted key) (let_through prefix name ttl limit cs st)) =
    passed ttl limit (calls_of key cs) (st (full_key prefix name key))"
proof (induction cs arbitrary: st)
  case (Cons c r)
  obtain k t net where c: "c = (k, t, net)" by (cases c) auto
  obtain rec st' where i: "throttle_increment net prefix name k ttl limit t st = (rec, st')" by fastforce
  have keys: "full_key prefix name k = full_key prefix name key \<longleftrightarrow> k = key" by (simp add: full_key_def)
  let ?v = "step_key ttl t (st (full_key prefix name k))"
  have st: "st' (full_key prefix name key) =
      (if k = key \<and> net \<noteq> RedisDown then Some (snd ?v) else st (full_key prefix name key))"
    using increment_cases [OF i] keys by (cases net) auto
  have stopped: "tr_isBlocked rec \<longleftrightarrow> net = RedisAnswered \<and> limit < fst ?v"
    using increment_cases [OF i] by (cases net) auto
  show ?case using Cons.IH [of st'] by (auto simp: c i st stopped counted_def not_less)
qed simp

lemma calls_of_times:
  assumes "sorted (map (\<lambda>c. fst (snd c)) cs)" and "\<forall>c \<in> set cs. a \<le> fst (snd c) \<and> fst (snd c) \<le> a + ttl"
  shows "sorted (map fst (calls_of key cs))" "\<forall>(t, b) \<in> set (calls_of key cs). a \<le> t \<and> t \<le> a + ttl"
  using assms by (induction cs) (auto simp: calls_of_def)

text \<open>
  C13: However many requests of however many clients arrive within one period, at most twice the limit
  of one client's requests get past the limiter while Redis answers, and at most the limit when no window of
  that client was open before; a request whose call to Redis fails is let through.
\<close>

theorem rate_limit_holds:
  assumes "sorted (map (\<lambda>c. fst (snd c)) cs)" and "\<forall>c \<in> set cs. a \<le> fst (snd c) \<and> fst (snd c) \<le> a + ttl"
    and "through = let_through prefix name ttl limit cs st"
  shows "length (filter (counted key) through) \<le> 2 * limit \<and>
    (st (''throttle:'' @ prefix @ '':'' @ name @ '':'' @ key) = None \<longrightarrow>
      length (filter (counted key) through) \<le> limit) \<and>
    filter (\<lambda>c. snd (snd c) \<noteq> RedisAnswered) through = filter (\<lambda>c. snd (snd c) \<noteq> RedisAnswered) cs"
proof -
  have "filter (\<lambda>c. snd (snd c) \<noteq> RedisAnswered) (let_through prefix name ttl limit cs st) =
      filter (\<lambda>c. snd (snd c) \<noteq> RedisAnswered) cs"
  proof (induction cs arbitrary: st)
    case (Cons c r)
    obtain k t net where c: "c = (k, t, net)" by (cases c) auto
    obtain rec st' where i: "throttle_increment net prefix name k ttl limit t st = (rec, st')" by fastforce
    have stopped: "tr_isBlocked rec \<Longrightarrow> net = RedisAnswered" using increment_cases [OF i] by (cases net) auto
    show ?case using Cons.IH [of st'] stopped by (auto simp: c i)
  qed simp
  moreover note times = calls_of_times [OF assms(1,2), of key]
  have "length (filter (counted key) through) \<le> 2 * limit"
    unfolding assms(3) let_through_passed by (rule passed_any [OF times])
  moreover have "length (filter (counted key) through) \<le> limit" if "st (full_key prefix name key) = None"
    unfolding assms(3) let_through_passed by (rule passed_new [OF _ times]) (simp add: that no_window_def)
  ultimately show ?thesis by (simp add: assms(3) full_key_def)
qed


theorem rate_limit_holds_witness:
  "length (filter (counted ''c'')
     (let_through ''auth'' ''default'' 60000 1 [(''c'', 0, RedisAnswered), (''c'', 5, RedisAnswered)] (\<lambda>_. None))) \<le> 1"
  using rate_limit_holds [of "[(''c'', 0, RedisAnswered), (''c'', 5, RedisAnswered)]" 0 60000
      "let_through ''auth'' ''default'' 60000 1 [(''c'', 0, RedisAnswered), (''c'', 5, RedisAnswered)] (\<lambda>_. None)"
      "''auth''" "''default''" 1 "\<lambda>_. None" "''c''"]
  by simp

section \<open>Redaction\<close>

text \<open>Every key with its value, anywhere in a document, and how deep objects and arrays nest.\<close>

fun fields :: "json \<Rightarrow> (string \<times> json) list" where
  "fields (JArr vs) = concat (map fields vs)"
| "fields (JObj kvs) = concat (map (\<lambda>(k, v). (k, v) # fields v) kvs)"
| "fields v = []"

fun nesting :: "json \<Rightarrow> nat" where
  "nesting (JArr vs) = Suc (foldr max (map nesting vs) 0)"
| "nesting (JObj kvs) = Suc (foldr max (map (\<lambda>(k, v). nesting v) kvs) 0)"
| "nesting v = 0"

lemma fields_REDACTED [simp]: "fields (JStr s) = []"
  by simp

lemma redact_fields: "(k, w) \<in> set (fields (redact d v)) \<Longrightarrow> isSensitiveKey k \<Longrightarrow> w = JStr REDACTED"
  by (induction d v rule: redact.induct) (auto split: if_splits)

lemma foldr_max_le: "foldr max ns 0 \<le> (b::nat) \<longleftrightarrow> (\<forall>n \<in> set ns. n \<le> b)"
  by (induction ns) auto

lemma nesting_le:
  "nesting (JArr vs) \<le> Suc b \<longleftrightarrow> (\<forall>v \<in> set vs. nesting v \<le> b)"
  "nesting (JObj kvs) \<le> Suc b \<longleftrightarrow> (\<forall>(k, v) \<in> set kvs. nesting v \<le> b)"
  by (auto simp: foldr_max_le)

lemma redact_nesting: "nesting (redact d v) \<le> 7 - d"
proof (induction d v rule: redact.induct)
  case (1 d vs)
  show ?case
  proof (cases "6 < d")
    case False
    then obtain b where b: "7 - d = Suc b" "7 - Suc d = b" by (metis Suc_diff_Suc not_less_eq numeral_eq_Suc pred_numeral_simps(3))
    show ?thesis unfolding b redact.simps using 1 False b by (simp del: nesting.simps(1,2) add: nesting_le)
  qed simp
next
  case (2 d kvs)
  show ?case
  proof (cases "6 < d")
    case False
    then obtain b where b: "7 - d = Suc b" "7 - Suc d = b" by (metis Suc_diff_Suc not_less_eq numeral_eq_Suc pred_numeral_simps(3))
    show ?thesis unfolding b redact.simps using 2 False b by (auto simp del: nesting.simps(1,2) simp: nesting_le)
  qed simp
qed simp_all

lemma redact_twice: "redact d (redact d v) = redact d v"
  by (induction d v rule: redact.induct) auto

lemma redact_harmless:
  "\<forall>(k, w) \<in> set (fields v). \<not> isSensitiveKey k \<Longrightarrow> nesting v + d \<le> 6 \<Longrightarrow> redact d v = v"
proof (induction d v rule: redact.induct)
  case (1 d vs)
  then obtain b where b: "6 - d = Suc b" by (cases "6 - d") auto
  have "redact (Suc d) v = v" if v: "v \<in> set vs" for v
  proof (rule 1(1) [OF _ v])
    show "\<forall>(k, w) \<in> set (fields v). \<not> isSensitiveKey k" using 1(2) v by auto
    have "nesting (JArr vs) \<le> Suc b" using 1(3) b by linarith
    then show "nesting v + Suc d \<le> 6" using v b unfolding nesting_le by fastforce
  qed (use 1(3) in simp)
  then show ?case using 1(3) by (simp add: map_idI)
next
  case (2 d kvs)
  then obtain b where b: "6 - d = Suc b" by (cases "6 - d") auto
  have "(k, if isSensitiveKey k then JStr REDACTED else redact (Suc d) v) = (k, v)" if kv: "(k, v) \<in> set kvs" for k v
  proof -
    have k: "\<not> isSensitiveKey k" using 2(2) kv by fastforce
    have "redact (Suc d) v = v"
    proof (rule 2(1) [OF _ kv refl k])
      show "\<forall>(k, w) \<in> set (fields v). \<not> isSensitiveKey k" using 2(2) kv by fastforce
      have "nesting (JObj kvs) \<le> Suc b" using 2(3) b by linarith
      then show "nesting v + Suc d \<le> 6" using kv b unfolding nesting_le by fastforce
    qed (use 2(3) in simp)
    then show ?thesis using k by simp
  qed
  then show ?case using 2(3) by (auto intro!: map_idI)
qed auto

text \<open>
  C28: What is logged of a body carries no value under a sensitive key at any depth, nests at most seven
  deep, and is not changed by another pass; a body without sensitive keys that nests at most six deep is
  logged as it is.
\<close>

theorem redaction_is_complete:
  "(\<forall>(k, w) \<in> set (fields (redact 0 v)). isSensitiveKey k \<longrightarrow> w = JStr REDACTED) \<and>
    nesting (redact 0 v) \<le> 7 \<and> redact 0 (redact 0 v) = redact 0 v \<and>
    ((\<forall>(k, w) \<in> set (fields v). \<not> isSensitiveKey k) \<longrightarrow> nesting v \<le> 6 \<longrightarrow> redact 0 v = v)"
  using redact_fields [of _ _ 0 v] redact_nesting [of 0 v] redact_twice [of 0 v] redact_harmless [of v 0] by auto

theorem redaction_is_complete_witness:
  "redact 0 (JObj [(''accountNo'', JStr ''1''), (''status'', JStr ''00'')]) =
    JObj [(''accountNo'', JStr REDACTED), (''status'', JStr ''00'')] \<and>
   redact 0 (JObj [(''status'', JArr [JNull])]) = JObj [(''status'', JArr [JNull])]"
proof
  have "\<not> isSensitiveKey ''status''" by code_simp
  then show "redact 0 (JObj [(''status'', JArr [JNull])]) = JObj [(''status'', JArr [JNull])]"
    using redaction_is_complete [of "JObj [(''status'', JArr [JNull])]"] by simp
qed code_simp


section \<open>The error reporter\<close>

fun alerts :: "(string \<times> int) list \<Rightarrow> reporter \<Rightarrow> (string \<times> int) list" where
  "alerts [] r = []"
| "alerts ((fp, now) # cs) r =
    (let ((send, held), r') = allow fp now r in (if send then [(fp, now)] else []) @ alerts cs r')"

definition reporter_ok :: "reporter \<Rightarrow> bool" where
  "reporter_ok r \<longleftrightarrow> length (rp_seen r) \<le> MAX_TRACKED \<and> rp_windowCount r \<le> MAX_PER_MINUTE"

lemma length_alist_set: "length (alist_set k v m) = (if map_of m k = None then Suc (length m) else length m)"
  by (induction m) auto

lemma allow_cases:
  assumes "allow fp now r = ((send, held), r')"
  shows "rp_windowStart r' = rp_windowStart (roll_window now r)"
    "rp_windowCount r' = rp_windowCount (roll_window now r) + (if send then 1 else 0)"
    "send \<Longrightarrow> rp_windowCount (roll_window now r) < MAX_PER_MINUTE"
    "length (rp_seen r) \<le> MAX_TRACKED \<Longrightarrow> length (rp_seen r') \<le> MAX_TRACKED"
proof -
  have drop: "length (drop_oldest m) < MAX_TRACKED" if "length m \<le> MAX_TRACKED" for m
    using that by (auto simp: drop_oldest_def MAX_TRACKED_def)
  have [simp]: "rp_seen (roll_window now r) = rp_seen r" by (simp add: roll_window_def)
  show "rp_windowStart r' = rp_windowStart (roll_window now r)"
    "rp_windowCount r' = rp_windowCount (roll_window now r) + (if send then 1 else 0)"
    "send \<Longrightarrow> rp_windowCount (roll_window now r) < MAX_PER_MINUTE"
    using assms by (auto simp: allow_def Let_def split: option.splits prod.splits if_splits)
  show "length (rp_seen r') \<le> MAX_TRACKED" if "length (rp_seen r) \<le> MAX_TRACKED"
    using assms that drop [OF that]
    by (auto simp: allow_def Let_def length_alist_set Suc_leI less_imp_le split: option.splits prod.splits if_splits)
qed

lemma reporter_ok_allow: "allow fp now r = (x, r') \<Longrightarrow> reporter_ok r \<Longrightarrow> reporter_ok r'"
  using allow_cases [of fp now r "fst x" "snd x" r']
  by (cases x) (auto simp: reporter_ok_def roll_window_def Suc_leI split: if_splits)

lemma alerts_in_window:
  assumes "\<forall>(fp, t) \<in> set cs. t \<le> rp_windowStart r + 60000"
  shows "length (alerts cs r) \<le> MAX_PER_MINUTE - rp_windowCount r"
  using assms
proof (induction cs arbitrary: r)
  case (Cons c cs)
  obtain fp t send held r' where c: "c = (fp, t)" "allow fp t r = ((send, held), r')" by (metis surj_pair)
  have "roll_window t r = r" using Cons.prems c(1) by (simp add: roll_window_def)
  note r' = allow_cases [OF c(2), unfolded this]
  have "length (alerts cs r') \<le> MAX_PER_MINUTE - rp_windowCount r'"
    using Cons.prems r'(1) by (intro Cons.IH) auto
  then show ?case using r'(2,3) by (auto simp: c)
qed simp

lemma alerts_bounded:
  assumes "sorted (map snd cs)" and "\<forall>(fp, t) \<in> set cs. a \<le> t \<and> t \<le> a + 60000"
    and "rp_windowCount r \<le> MAX_PER_MINUTE"
  shows "length (alerts cs r) \<le> 2 * MAX_PER_MINUTE - rp_windowCount r"
  using assms
proof (induction cs arbitrary: r)
  case (Cons c cs)
  obtain fp t send held r' where c: "c = (fp, t)" "allow fp t r = ((send, held), r')" by (metis surj_pair)
  note r' = allow_cases [OF c(2)]
  show ?case
  proof (cases "60000 < t - rp_windowStart r")
    case True
    then have "roll_window t r = r\<lparr>rp_windowStart := t, rp_windowCount := 0\<rparr>" by (simp add: roll_window_def)
    note r' = r' [unfolded this]
    have "length (alerts cs r') \<le> MAX_PER_MINUTE - rp_windowCount r'"
      using Cons.prems c(1) r'(1) by (intro alerts_in_window) fastforce
    then show ?thesis using r'(2,3) Cons.prems(3) by (auto simp: c)
  next
    case False
    then have "roll_window t r = r" by (simp add: roll_window_def)
    note r' = r' [unfolded this]
    have "length (alerts cs r') \<le> 2 * MAX_PER_MINUTE - rp_windowCount r'"
      using Cons.prems r'(2,3) by (intro Cons.IH) auto
    then show ?thesis using r'(2,3) by (auto simp: c)
  qed
qed simp

text \<open>
  However many errors occur, the reporter posts at most forty alerts in any minute and keeps at most two
  hundred fingerprints, and an error it posted or held back less than five minutes ago and still tracks is
  not posted again.
\<close>

theorem reporter_is_quiet:
  assumes "reporter_ok r" and "sorted (map snd cs)" and "\<forall>(fp, t) \<in> set cs. a \<le> t \<and> t \<le> a + 60000"
  shows "length (alerts cs r) \<le> 40 \<and> reporter_ok (snd (allow fp now r)) \<and>
    (\<forall>t n. map_of (rp_seen r) fp = Some (t, n) \<longrightarrow> now - t < DEDUPE_MS \<longrightarrow> \<not> fst (fst (allow fp now r)))"
proof -
  have "length (alerts cs r) \<le> 2 * MAX_PER_MINUTE - rp_windowCount r"
    using assms by (intro alerts_bounded) (simp_all add: reporter_ok_def)
  then have "length (alerts cs r) \<le> 40" by (simp add: MAX_PER_MINUTE_def)
  moreover have "reporter_ok (snd (allow fp now r))" by (rule reporter_ok_allow [OF surjective_pairing assms(1)])
  ultimately show ?thesis by (auto simp: allow_def Let_def roll_window_def)
qed

end
