(* ===== verification/Postoffice.thy ===== *)
theory Postoffice
  imports Providers
begin

text \<open>
  The postoffice service (\<open>src/apps/postoffice\<close>): it takes the notifications the other services publish
  (\<open>libs/common/src/messaging/notification.message.ts\<close>), renders them and hands them to a provider.  What
  the providers answer, the pug renderer and the locale's way to print an amount are arguments.
\<close>

section \<open>Messages\<close>

datatype notification_channel = CH_EMAIL | CH_SMS | CH_PUSH | CH_OTHER string

record notification =
  nt_messageId :: string
  nt_channel :: notification_channel
  nt_recipient :: string
  nt_template :: string
  nt_data :: "(string \<times> string) list"

abbreviation field :: "(string \<times> string) list \<Rightarrow> string \<Rightarrow> string option" where
  "field d k \<equiv> map_of d k"

text \<open>An absent value in a template string.\<close>

definition shown :: "string option \<Rightarrow> string" where
  "shown v = (case v of None \<Rightarrow> ''undefined'' | Some s \<Rightarrow> s)"

section \<open>Push\<close>

datatype push_template =
    PT_MONEY_RECEIVED | PT_PAYOUT_SUCCESSFUL | PT_PAYOUT_FAILED | PT_ACCOUNT_CREDITED | PT_ACCOUNT_DEBITED
  | PT_DELETION_REJECTED | PT_KYC_APPROVED | PT_KYC_REJECTED | PT_SECURITY_LOCKOUT | PT_SECURITY_NEW_DEVICE
  | PT_BROADCAST

definition push_word :: "push_template \<Rightarrow> string" where
  "push_word t =
    (case t of
       PT_MONEY_RECEIVED \<Rightarrow> ''push-money-received''
     | PT_PAYOUT_SUCCESSFUL \<Rightarrow> ''push-payout-successful''
     | PT_PAYOUT_FAILED \<Rightarrow> ''push-payout-failed''
     | PT_ACCOUNT_CREDITED \<Rightarrow> ''push-account-credited''
     | PT_ACCOUNT_DEBITED \<Rightarrow> ''push-account-debited''
     | PT_DELETION_REJECTED \<Rightarrow> ''push-deletion-rejected''
     | PT_KYC_APPROVED \<Rightarrow> ''push-kyc-approved''
     | PT_KYC_REJECTED \<Rightarrow> ''push-kyc-rejected''
     | PT_SECURITY_LOCKOUT \<Rightarrow> ''push-security-lockout''
     | PT_SECURITY_NEW_DEVICE \<Rightarrow> ''push-security-new-device''
     | PT_BROADCAST \<Rightarrow> ''push-broadcast'')"

definition PUSH_TEMPLATES :: "push_template list" where
  "PUSH_TEMPLATES = [PT_MONEY_RECEIVED, PT_PAYOUT_SUCCESSFUL, PT_PAYOUT_FAILED, PT_ACCOUNT_CREDITED,
     PT_ACCOUNT_DEBITED, PT_DELETION_REJECTED, PT_KYC_APPROVED, PT_KYC_REJECTED, PT_SECURITY_LOCKOUT,
     PT_SECURITY_NEW_DEVICE, PT_BROADCAST]"

text \<open>\<open>isPushTemplate\<close>: the template of that name, if there is one.\<close>

definition push_template_of :: "string \<Rightarrow> push_template option" where
  "push_template_of s = List.find (\<lambda>t. push_word t = s) PUSH_TEMPLATES"

record push_payload =
  pp_title :: "string option"
  pp_body :: "string option"
  pp_data :: "(string \<times> string) list option"

definition payload :: "string \<Rightarrow> string \<Rightarrow> (string \<times> string) list option \<Rightarrow> push_payload" where
  "payload title text extra = \<lparr>pp_title = Some title, pp_body = Some text, pp_data = extra\<rparr>"

text \<open>The wording; \<open>naira\<close> prints an amount.  A transaction id that is there and not empty can be opened.\<close>

definition renderPush ::
  "(string option \<Rightarrow> string) \<Rightarrow> push_template \<Rightarrow> (string \<times> string) list \<Rightarrow> push_payload" where
  "renderPush naira t d =
    (let amount = naira (field d ''amount'');
         tap = (case field d ''transactionId'' of
                  None \<Rightarrow> None
                | Some i \<Rightarrow> if i = [] then None else Some [(''type'', ''transaction''), (''transactionId'', i)])
     in case t of
       PT_MONEY_RECEIVED \<Rightarrow> payload ''Money received'' (amount @ '' has been added to your Fiam wallet.'') tap
     | PT_PAYOUT_SUCCESSFUL \<Rightarrow> payload ''Transfer successful'' (''Your transfer of '' @ amount @ '' was successful.'') tap
     | PT_PAYOUT_FAILED \<Rightarrow> payload ''Transfer failed''
         (''Your transfer of '' @ amount @ '' didn't go through. The money has been returned to your wallet.'') tap
     | PT_ACCOUNT_CREDITED \<Rightarrow> payload ''Account credited'' (amount @ '' was added to your Fiam wallet.'') tap
     | PT_ACCOUNT_DEBITED \<Rightarrow> payload ''Account debited'' (amount @ '' was debited from your Fiam wallet. Open the app for details, or contact support if you don't recognise this.'') tap
     | PT_DELETION_REJECTED \<Rightarrow> payload ''Account deletion request''
         ''We couldn't process your request to delete your account. Open the app to see why.''
         (Some [(''type'', ''account-deletion'')])
     | PT_KYC_APPROVED \<Rightarrow> payload ''You're verified''
         ''Your account has been upgraded to Tier 3. Higher limits are now available.'' (Some [(''type'', ''kyc'')])
     | PT_SECURITY_LOCKOUT \<Rightarrow> payload ''Security alert''
         (''Someone entered the wrong '' @ (if field d ''kind'' = Some ''pin'' then ''PIN'' else ''password'') @
          '' on your Fiam account several times, so we locked it for 15 minutes. If this wasn't you, change your password.'')
         (Some [(''type'', ''security'')])
     | PT_SECURITY_NEW_DEVICE \<Rightarrow> payload ''New device sign-in attempt''
         ''Someone signed in to your Fiam account from a new device. If this wasn't you, change your password right away.''
         (Some [(''type'', ''security'')])
     | PT_BROADCAST \<Rightarrow> 
         \<lparr>pp_title = field d ''title'', pp_body = field d ''body'', pp_data = Some [(''type'', ''broadcast'')]\<rparr>
     | PT_KYC_REJECTED \<Rightarrow> payload ''Update needed on your verification''
         ''We couldn't approve your upgrade. Open the app to see why and submit again.'' (Some [(''type'', ''kyc'')]))"

section \<open>E-mail\<close>

datatype email_template =
    ET_VERIFICATION_CODE | ET_WELCOME | ET_PASSWORD_CHANGED | ET_NEW_DEVICE_LOGIN | ET_WALLET_FUNDED
  | ET_TRANSACTION_RECEIPT | ET_BILL_RECEIPT | ET_KYC_TIER_APPROVED | ET_KYC_TIER_REJECTED
  | ET_DELETION_REQUEST_RECEIVED | ET_DELETION_REQUEST_REJECTED | ET_ACCOUNT_CLOSED | ET_SECURITY_ALERT
  | ET_STAFF_ALERT | ET_BROADCAST

definition email_word :: "email_template \<Rightarrow> string" where
  "email_word t =
    (case t of
       ET_VERIFICATION_CODE \<Rightarrow> ''verification-code'' | ET_WELCOME \<Rightarrow> ''welcome''
     | ET_PASSWORD_CHANGED \<Rightarrow> ''password-changed'' | ET_NEW_DEVICE_LOGIN \<Rightarrow> ''new-device-login''
     | ET_WALLET_FUNDED \<Rightarrow> ''wallet-funded'' | ET_TRANSACTION_RECEIPT \<Rightarrow> ''transaction-receipt''
     | ET_BILL_RECEIPT \<Rightarrow> ''bill-receipt'' | ET_KYC_TIER_APPROVED \<Rightarrow> ''kyc-tier-approved''
     | ET_KYC_TIER_REJECTED \<Rightarrow> ''kyc-tier-rejected''
     | ET_DELETION_REQUEST_RECEIVED \<Rightarrow> ''deletion-request-received''
     | ET_DELETION_REQUEST_REJECTED \<Rightarrow> ''deletion-request-rejected'' | ET_ACCOUNT_CLOSED \<Rightarrow> ''account-closed''
     | ET_SECURITY_ALERT \<Rightarrow> ''security-alert'' | ET_STAFF_ALERT \<Rightarrow> ''staff-alert'' | ET_BROADCAST \<Rightarrow> ''broadcast'')"

definition EMAIL_TEMPLATES :: "email_template list" where
  "EMAIL_TEMPLATES = [ET_VERIFICATION_CODE, ET_WELCOME, ET_PASSWORD_CHANGED, ET_NEW_DEVICE_LOGIN, ET_WALLET_FUNDED,
     ET_TRANSACTION_RECEIPT, ET_BILL_RECEIPT, ET_KYC_TIER_APPROVED, ET_KYC_TIER_REJECTED,
     ET_DELETION_REQUEST_RECEIVED, ET_DELETION_REQUEST_REJECTED, ET_ACCOUNT_CLOSED, ET_SECURITY_ALERT,
     ET_STAFF_ALERT, ET_BROADCAST]"

definition email_template_of :: "string \<Rightarrow> email_template option" where
  "email_template_of s = List.find (\<lambda>t. email_word t = s) EMAIL_TEMPLATES"

text \<open>The subject; \<open>undefined.toLowerCase()\<close> throws, and the title of a broadcast may be absent.\<close>

definition subjectFor :: "email_template \<Rightarrow> (string \<times> string) list \<Rightarrow> http_error + string option" where
  "subjectFor t d =
    (let credit = (field d ''direction'' = Some ''credit'') in
     case t of
       ET_VERIFICATION_CODE \<Rightarrow> Inr (Some ''Your Fiam verification code'')
     | ET_WELCOME \<Rightarrow> Inr (Some ''Welcome to Fiam'')
     | ET_PASSWORD_CHANGED \<Rightarrow> Inr (Some ''Your password was changed'')
     | ET_NEW_DEVICE_LOGIN \<Rightarrow> Inr (Some ''New sign-in to your Fiam account'')
     | ET_WALLET_FUNDED \<Rightarrow> Inr (Some ''Your wallet has been funded'')
     | ET_TRANSACTION_RECEIPT \<Rightarrow> Inr (Some
         (if field d ''adjustment'' = Some ''true''
          then (if credit then ''Your account was credited'' else ''Your account was debited'')
          else if credit then ''Money received'' else ''Money sent''))
     | ET_BILL_RECEIPT \<Rightarrow>
         (if field d ''hasToken'' = Some ''true''
          then (case field d ''billTypeLabel'' of
                  None \<Rightarrow> Inl (PlainError ''TypeError'')
                | Some l \<Rightarrow> Inr (Some (''Your '' @ to_lower l @ '' token'')))
          else Inr (Some (shown (field d ''billTypeLabel'') @ '' payment successful'')))
     | ET_KYC_TIER_APPROVED \<Rightarrow> Inr (Some (''You're now Tier '' @ shown (field d ''tier'') @ '' on Fiam''))
     | ET_KYC_TIER_REJECTED \<Rightarrow> Inr (Some ''Update needed on your verification'')
     | ET_DELETION_REQUEST_RECEIVED \<Rightarrow> Inr (Some ''We received your account deletion request'')
     | ET_DELETION_REQUEST_REJECTED \<Rightarrow> Inr (Some ''We couldn't delete your account yet'')
     | ET_ACCOUNT_CLOSED \<Rightarrow> Inr (Some ''Your Fiam account has been closed'')
     | ET_SECURITY_ALERT \<Rightarrow> Inr (Some ''Security alert on your Fiam account'')
     | ET_STAFF_ALERT \<Rightarrow> Inr (Some (''[Fiam Console] '' @ shown (field d ''title'')))
     | ET_BROADCAST \<Rightarrow> Inr (field d ''title''))"

section \<open>Providers\<close>

record mail =
  ml_to :: string
  ml_toName :: "string option"
  ml_subject :: "string option"
  ml_html :: string

text \<open>What leaves the service: a request to Termii or OneSignal, a mail handed to ZeptoMail's client.\<close>

datatype outgoing = HttpPost string json | SendMail string string "string option" string

text \<open>
  Configuration and outside world: keys, the answer to a request (no answer, or its \<open>ok\<close> flag and body),
  whether the mail client succeeds, the renderer of a template, the printing of an amount.
\<close>

record postoffice =
  po_termii :: "string \<times> string \<times> string"
  po_onesignal :: "string \<times> string"
  po_zeptoToken :: string
  po_envLabel :: string
  po_fetch :: "string \<Rightarrow> json \<Rightarrow> (bool \<times> json option) option"
  po_mailer :: "outgoing \<Rightarrow> bool"
  po_render :: "string \<Rightarrow> (string \<times> string) list \<Rightarrow> http_error + string"
  po_naira :: "string option \<Rightarrow> string"

type_synonym attempt = "outgoing list \<times> (http_error + unit)"

text \<open>\<open>baseUrl.replace(/\/+$/, '')\<close>\<close>

definition no_trailing_slash :: "string \<Rightarrow> string" where
  "no_trailing_slash s = rev (dropWhile (\<lambda>c. c = CHR ''/'') (rev s))"

definition sms_send :: "postoffice \<Rightarrow> string \<Rightarrow> string option \<Rightarrow> attempt" where
  "sms_send po recipient message =
    (let (apiKey, senderId, baseUrl) = po_termii po;
         url = no_trailing_slash baseUrl @ ''/api/sms/send'';
         body = JObj ([(''api_key'', JStr apiKey), (''to'', JStr recipient), (''from'', JStr senderId)] @
           (case message of None \<Rightarrow> [] | Some m \<Rightarrow> [(''sms'', JStr m)]) @
           [(''type'', JStr ''plain''), (''channel'', JStr ''dnd'')])
     in if apiKey = [] \<or> senderId = []
        then ([], Inl (ServiceUnavailable ''SMS delivery is not configured (missing TERMII_API_KEY / TERMII_SENDER_ID)''))
        else ([HttpPost url body],
          case po_fetch po url body of
            None \<Rightarrow> Inl (PlainError ''fetch failed'')
          | Some (ok, answer) \<Rightarrow>
              if \<not> ok \<or> Option.bind answer (obj_get ''code'') \<noteq> Some (JStr ''ok'')
              then Inl (ServiceUnavailable ''Failed to send SMS'') else Inr ()))"

definition ONESIGNAL_URL :: string where "ONESIGNAL_URL = ''https://api.onesignal.com/notifications''"

text \<open>A field that is undefined is left out of the JSON.\<close>

definition en_text :: "string option \<Rightarrow> json" where
  "en_text v = JObj (case v of None \<Rightarrow> [] | Some s \<Rightarrow> [(''en'', JStr s)])"

definition push_send :: "postoffice \<Rightarrow> string \<Rightarrow> push_payload \<Rightarrow> attempt" where
  "push_send po userId p =
    (let (appId, key) = po_onesignal po;
         body = JObj ([(''app_id'', JStr appId), (''target_channel'', JStr ''push''),
           (''include_aliases'', JObj [(''external_id'', JArr [JStr userId])]),
           (''headings'', en_text (pp_title p)), (''contents'', en_text (pp_body p))] @
           (case pp_data p of None \<Rightarrow> [] | Some d \<Rightarrow> [(''data'', JObj (map (\<lambda>(k, v). (k, JStr v)) d))]))
     in if appId = [] \<or> key = []
        then ([], Inl (ServiceUnavailable ''Push delivery is not configured (missing ONESIGNAL_APP_ID / ONESIGNAL_REST_API_KEY)''))
        else ([HttpPost ONESIGNAL_URL body],
          case po_fetch po ONESIGNAL_URL body of
            None \<Rightarrow> Inl (PlainError ''fetch failed'')
          | Some (ok, answer) \<Rightarrow> if \<not> ok then Inl (PlainError ''OneSignal push failed'') else Inr ()))"

definition email_send :: "postoffice \<Rightarrow> mail \<Rightarrow> attempt" where
  "email_send po m =
    (let subject = (if po_envLabel po = [] then ml_subject m
           else Some (''['' @ po_envLabel po @ ''] '' @ shown (ml_subject m)));
         sent = SendMail (ml_to m) (case ml_toName m of None \<Rightarrow> ml_to m | Some nm \<Rightarrow> nm) subject (ml_html m)
     in if po_zeptoToken po = []
        then ([], Inl (ServiceUnavailable ''Email delivery is not configured (missing ZEPTOMAIL_TOKEN)''))
        else ([sent],
              if po_mailer po sent then Inr () else Inl (ServiceUnavailable ''Failed to send email'')))"

section \<open>The consumer\<close>

definition sendPush :: "postoffice \<Rightarrow> notification \<Rightarrow> attempt" where
  "sendPush po n =
    (case push_template_of (nt_template n) of
       None \<Rightarrow> ([], Inl (PlainError (''Unknown push template: '' @ nt_template n)))
     | Some t \<Rightarrow> push_send po (nt_recipient n) (renderPush (po_naira po) t (nt_data n)))"

text \<open>The template is rendered before the subject is made; a mail without a name is addressed to the address.\<close>

definition sendEmail :: "postoffice \<Rightarrow> notification \<Rightarrow> attempt" where
  "sendEmail po n =
    (case email_template_of (nt_template n) of
       None \<Rightarrow> ([], Inl (PlainError (''Unknown email template: '' @ nt_template n)))
     | Some t \<Rightarrow>
        (case po_render po (nt_template n) (nt_data n) of
           Inl e \<Rightarrow> ([], Inl e)
         | Inr html \<Rightarrow>
            (case subjectFor t (nt_data n) of
               Inl e \<Rightarrow> ([], Inl e)
             | Inr subject \<Rightarrow>
                email_send po \<lparr>ml_to = nt_recipient n,
                  ml_toName = field (nt_data n) ''name'', ml_subject = subject, ml_html = html\<rparr>)))"

definition dispatch :: "postoffice \<Rightarrow> notification \<Rightarrow> attempt" where
  "dispatch po n =
    (case nt_channel n of
       CH_SMS \<Rightarrow> sms_send po (nt_recipient n) (field (nt_data n) ''message'')
     | CH_EMAIL \<Rightarrow> sendEmail po n
     | CH_PUSH \<Rightarrow> sendPush po n
     | CH_OTHER _ \<Rightarrow> ([], Inr ()))"

text \<open>\<open>ack\<close>, or \<open>nack\<close> without requeue: the broker moves the message to the dead-letter exchange.\<close>

definition process_notification :: "postoffice \<Rightarrow> notification \<Rightarrow> outgoing list \<times> delivery" where
  "process_notification po n =
    (let (sends, r) = dispatch po n in (sends, case r of Inl _ \<Rightarrow> DeadLetter | Inr _ \<Rightarrow> Ack))"

end
