(* ===== verification/Messages.thy ===== *)
theory Messages
  imports Postoffice AdminComms VfdParsing
begin

text \<open>
  The notifications the three services publish for postoffice: payment
  (\<open>notifications/notifications.service.ts\<close>), auth (\<open>messaging/\<close> and its callers) and admin
  (\<open>audit/alerts.service.ts\<close>, \<open>comms/comms.processor.ts\<close>).  Random message ids, the clock, and the locale's
  way to print dates and amounts are arguments.
\<close>

record publisher =
  pb_id :: string
  pb_naira :: "string \<Rightarrow> string"
  pb_text :: "money \<Rightarrow> string"
  pb_date :: "date \<Rightarrow> string"
  pb_lagosNow :: string

section \<open>Publishing\<close>

definition requestSms :: "publisher \<Rightarrow> string \<Rightarrow> string \<Rightarrow> notification" where
  "requestSms pb recipient text =
    \<lparr>nt_messageId = pb_id pb, nt_channel = CH_SMS, nt_recipient = recipient, nt_template = ''raw-text'',
     nt_data = [(''message'', text)]\<rparr>"

definition requestPush :: "publisher \<Rightarrow> uuid \<Rightarrow> push_template \<Rightarrow> (string \<times> string) list \<Rightarrow> notification" where
  "requestPush pb userId t d =
    \<lparr>nt_messageId = pb_id pb, nt_channel = CH_PUSH, nt_recipient = nat_str userId, nt_template = push_word t, nt_data = d\<rparr>"

definition requestEmail :: "publisher \<Rightarrow> string \<Rightarrow> string \<Rightarrow> (string \<times> string) list \<Rightarrow> notification" where
  "requestEmail pb recipient t d =
    \<lparr>nt_messageId = pb_id pb, nt_channel = CH_EMAIL, nt_recipient = recipient, nt_template = t, nt_data = d\<rparr>"

section \<open>Payment\<close>

text \<open>
  The auth service's answer about a customer: none (the call threw), or its \<open>ok\<close> flag with the e-mail and
  the first name of the body.
\<close>

type_synonym contact_reply = "(bool \<times> string option \<times> string option) option"

definition lookupContact :: "bool \<Rightarrow> contact_reply \<Rightarrow> (string \<times> string) option" where
  "lookupContact keyConfigured reply =
    (if \<not> keyConfigured then None
     else (case reply of
             None \<Rightarrow> None
           | Some (ok, email, firstName) \<Rightarrow>
               if \<not> ok then None
               else (case email of
                       None \<Rightarrow> None
                     | Some e \<Rightarrow> if e = [] then None else Some (e, case firstName of None \<Rightarrow> [] | Some f \<Rightarrow> f))))"

definition TEMPLATE_BY_EVENT :: "notification_event \<Rightarrow> push_template" where
  "TEMPLATE_BY_EVENT ev =
    (case ev of CREDIT_RECEIVED \<Rightarrow> PT_MONEY_RECEIVED | PAYOUT_SUCCESSFUL \<Rightarrow> PT_PAYOUT_SUCCESSFUL
     | PAYOUT_FAILED \<Rightarrow> PT_PAYOUT_FAILED | ACCOUNT_CREDITED \<Rightarrow> PT_ACCOUNT_CREDITED
     | ACCOUNT_DEBITED \<Rightarrow> PT_ACCOUNT_DEBITED)"

definition RECEIPT_DIRECTION :: "notification_event \<Rightarrow> string option" where
  "RECEIPT_DIRECTION ev =
    (case ev of CREDIT_RECEIVED \<Rightarrow> Some ''credit'' | PAYOUT_SUCCESSFUL \<Rightarrow> Some ''debit'' | PAYOUT_FAILED \<Rightarrow> None
     | ACCOUNT_CREDITED \<Rightarrow> Some ''credit'' | ACCOUNT_DEBITED \<Rightarrow> Some ''debit'')"

definition ADJUSTMENT_EVENTS :: "notification_event list" where
  "ADJUSTMENT_EVENTS = [ACCOUNT_CREDITED, ACCOUNT_DEBITED]"

definition BILL_TYPE_LABEL :: "bill_type \<Rightarrow> string" where
  "BILL_TYPE_LABEL t =
    (case t of AIRTIME \<Rightarrow> ''Airtime'' | DATA \<Rightarrow> ''Data'' | CABLE_TV \<Rightarrow> ''Cable TV'' | INTERNET \<Rightarrow> ''Internet''
     | UTILITY \<Rightarrow> ''Electricity'' | BETTING \<Rightarrow> ''Betting'' | OTHER \<Rightarrow> ''Bill'')"

definition BILL_CUSTOMER_LABEL :: "bill_type \<Rightarrow> string" where
  "BILL_CUSTOMER_LABEL t =
    (case t of AIRTIME \<Rightarrow> ''Phone number'' | DATA \<Rightarrow> ''Phone number'' | CABLE_TV \<Rightarrow> ''Smartcard / IUC number''
     | INTERNET \<Rightarrow> ''Customer ID'' | UTILITY \<Rightarrow> ''Meter number'' | BETTING \<Rightarrow> ''Account ID'' | OTHER \<Rightarrow> ''Account'')"

definition bill_type_word :: "bill_type \<Rightarrow> string" where
  "bill_type_word t =
    (case t of AIRTIME \<Rightarrow> ''AIRTIME'' | DATA \<Rightarrow> ''DATA'' | CABLE_TV \<Rightarrow> ''CABLE_TV'' | INTERNET \<Rightarrow> ''INTERNET''
     | UTILITY \<Rightarrow> ''UTILITY'' | BETTING \<Rightarrow> ''BETTING'' | OTHER \<Rightarrow> ''OTHER'')"

text \<open>\<open>occurredAt ?? createdAt\<close>\<close>

definition happened :: "transaction \<Rightarrow> date" where
  "happened t = (case t_occurredAt t of None \<Rightarrow> t_createdAt t | Some d \<Rightarrow> d)"

text \<open>The token, or that it is missing; the first two extra tokens as \<open>extra1\<close> and \<open>extra2\<close>.\<close>

definition token_fields :: "bill_details \<Rightarrow> bool \<Rightarrow> (string \<times> string) list" where
  "token_fields bill tokenMissing =
    (let missing = (if tokenMissing then [(''tokenMissing'', ''true'')] else []) in
     case bd_token bill of
       None \<Rightarrow> missing
     | Some t \<Rightarrow> if t = [] then missing else [(''hasToken'', ''true''), (''token'', formatTokenForDisplay t)])"

definition extra_fields :: "bill_details \<Rightarrow> (string \<times> string) list" where
  "extra_fields bill =
    concat (map (\<lambda>(i, e). [(''extra'' @ nat_str (Suc i) @ ''Label'', lv_label e),
                           (''extra'' @ nat_str (Suc i), formatTokenForDisplay (lv_value e))])
      (enumerate 0 (take 2 (case bd_extraTokens bill of None \<Rightarrow> [] | Some l \<Rightarrow> l))))"

definition emitBillReceipt ::
  "publisher \<Rightarrow> (string \<times> string) option \<Rightarrow> bool \<Rightarrow> transaction \<Rightarrow> notification list" where
  "emitBillReceipt pb who tokenMissing t =
    (case (t_bill t, who) of
       (Some bill, Some (email, firstName)) \<Rightarrow>
         (let ty = (case t_billType t of None \<Rightarrow> OTHER | Some x \<Rightarrow> x); fee = opt_money (t_fee t) in
          [requestEmail pb email ''bill-receipt''
            ([(''name'', firstName), (''firstName'', firstName), (''billType'', bill_type_word ty),
              (''billTypeLabel'', BILL_TYPE_LABEL ty), (''customerLabel'', BILL_CUSTOMER_LABEL ty),
              (''biller'', bd_billerName bill), (''plan'', bd_paymentItemName bill), (''paidFor'', bd_customerId bill),
              (''amount'', pb_naira pb (pb_text pb (t_amount t))),
              (''total'', pb_naira pb (pb_text pb (t_amount t + fee))), (''reference'', t_reference t),
              (''status'', ''Successful''), (''occurredAt'', pb_date pb (happened t))] @
             (if 0 < fee then [(''fee'', pb_naira pb (pb_text pb fee))] else []) @
             token_fields bill tokenMissing @ extra_fields bill)])
     | _ \<Rightarrow> [])"

text \<open>\<open>accountName\<close>: the beneficiary's, when the caller loaded it.\<close>

definition receipt_counterparty :: "transaction \<Rightarrow> string option \<Rightarrow> bool \<Rightarrow> string" where
  "receipt_counterparty t accountName inward =
    (if inward then (case t_narration t of None \<Rightarrow> ''Bank transfer'' | Some s \<Rightarrow> s)
     else (case accountName of None \<Rightarrow> t_accountNumber t | Some s \<Rightarrow> s))"

definition sendReceiptEmail ::
  "publisher \<Rightarrow> (string \<times> string) option \<Rightarrow> string option \<Rightarrow> notification_event \<Rightarrow> transaction \<Rightarrow> notification list" where
  "sendReceiptEmail pb who accountName ev t =
    (case RECEIPT_DIRECTION ev of
       None \<Rightarrow> []
     | Some direction \<Rightarrow>
        (if t_bill t \<noteq> None then emitBillReceipt pb who False t
         else (case who of
                 None \<Rightarrow> []
               | Some (email, firstName) \<Rightarrow>
                  (let adjustment = ev \<in> set ADJUSTMENT_EVENTS in
                   [requestEmail pb email ''transaction-receipt''
                     ([(''name'', firstName), (''firstName'', firstName), (''direction'', direction),
                       (''amount'', pb_naira pb (pb_text pb (t_amount t))),
                       (''counterparty'', receipt_counterparty t accountName (direction = ''credit'' \<or> adjustment)),
                       (''reference'', t_reference t), (''status'', ''Successful'')] @
                      (if adjustment then [(''adjustment'', ''true'')] else []) @
                      [(''occurredAt'', pb_date pb (happened t))])]))))"

definition transaction_messages ::
  "publisher \<Rightarrow> (uuid \<Rightarrow> (string \<times> string) option) \<Rightarrow> string option \<Rightarrow> transaction option \<Rightarrow> notification_event \<Rightarrow>
   bool \<Rightarrow> pay_state \<Rightarrow> notification list" where
  "transaction_messages pb contactFor accountName transaction ev receiptEmail s =
    (case transaction of
       None \<Rightarrow> []
     | Some t \<Rightarrow>
        (case Option.bind (t_walletId t) (\<lambda>w. findById w s) of
           None \<Rightarrow> []
         | Some w \<Rightarrow>
             requestPush pb (w_userId w) (TEMPLATE_BY_EVENT ev)
               [(''amount'', pb_text pb (t_amount t)), (''transactionId'', nat_str (t_id t))] #
             (if receiptEmail then sendReceiptEmail pb (contactFor (w_userId w)) accountName ev t else [])))"

definition bill_receipt_messages ::
  "publisher \<Rightarrow> (uuid \<Rightarrow> (string \<times> string) option) \<Rightarrow> transaction \<Rightarrow> bool \<Rightarrow> pay_state \<Rightarrow> notification list" where
  "bill_receipt_messages pb contactFor t tokenMissing s =
    (case Option.bind (t_walletId t) (\<lambda>w. findById w s) of
       None \<Rightarrow> []
     | Some w \<Rightarrow> emitBillReceipt pb (contactFor (w_userId w)) tokenMissing t)"

section \<open>Auth\<close>

definition lockout_messages :: "publisher \<Rightarrow> user \<Rightarrow> secret_kind \<Rightarrow> string option \<Rightarrow> notification list" where
  "lockout_messages pb u k ip =
    [requestEmail pb (u_email u) ''security-alert''
       [(''firstName'', u_firstName u), (''what'', if k = SK_PIN then ''transaction PIN'' else ''password''),
        (''occurredAt'', pb_lagosNow pb), (''ipAddress'', case ip of None \<Rightarrow> ''Unknown'' | Some s \<Rightarrow> s)],
     requestPush pb (u_id u) PT_SECURITY_LOCKOUT [(''kind'', if k = SK_PIN then ''pin'' else ''password'')]]"

definition new_device_messages :: "publisher \<Rightarrow> user \<Rightarrow> string option \<Rightarrow> string option \<Rightarrow> notification list" where
  "new_device_messages pb u deviceName ip =
    [requestEmail pb (u_email u) ''new-device-login''
       [(''firstName'', u_firstName u), (''deviceName'', case deviceName of None \<Rightarrow> ''Unknown device'' | Some s \<Rightarrow> s),
        (''occurredAt'', pb_lagosNow pb), (''ipAddress'', case ip of None \<Rightarrow> ''Unknown'' | Some s \<Rightarrow> s)],
     requestPush pb (u_id u) PT_SECURITY_NEW_DEVICE []]"

definition code_email :: "publisher \<Rightarrow> user \<Rightarrow> string \<Rightarrow> string \<Rightarrow> string \<Rightarrow> notification" where
  "code_email pb u heading intro otp =
    requestEmail pb (u_email u) ''verification-code''
      [(''heading'', heading), (''firstName'', u_firstName u), (''intro'', intro), (''code'', otp), (''expiryMinutes'', ''5'')]"

definition code_sms :: "publisher \<Rightarrow> string \<Rightarrow> bool \<Rightarrow> string \<Rightarrow> notification" where
  "code_sms pb phone bvn c =
    requestSms pb phone (''Your Fiam '' @ (if bvn then ''BVN '' else []) @ ''verification code is '' @ c @
      ''. It expires in 5 minutes.'')"

definition closed_message :: "publisher \<Rightarrow> string \<Rightarrow> string \<Rightarrow> notification" where
  "closed_message pb email firstName = requestEmail pb email ''account-closed'' [(''firstName'', firstName)]"

definition kyc_approved_messages :: "publisher \<Rightarrow> user \<Rightarrow> notification list" where
  "kyc_approved_messages pb u =
    [requestEmail pb (u_email u) ''kyc-tier-approved'' [(''firstName'', u_firstName u), (''tier'', ''3'')],
     requestPush pb (u_id u) PT_KYC_APPROVED []]"

definition kyc_rejected_messages :: "publisher \<Rightarrow> user \<Rightarrow> string \<Rightarrow> notification list" where
  "kyc_rejected_messages pb u reason =
    [requestEmail pb (u_email u) ''kyc-tier-rejected'' [(''firstName'', u_firstName u), (''reason'', reason)],
     requestPush pb (u_id u) PT_KYC_REJECTED []]"

definition deletion_received_message :: "publisher \<Rightarrow> user \<Rightarrow> notification" where
  "deletion_received_message pb u =
    requestEmail pb (u_email u) ''deletion-request-received'' [(''firstName'', u_firstName u)]"

definition deletion_rejected_messages :: "publisher \<Rightarrow> user \<Rightarrow> string \<Rightarrow> notification list" where
  "deletion_rejected_messages pb u why =
    [requestEmail pb (u_email u) ''deletion-request-rejected'' [(''firstName'', u_firstName u), (''reason'', why)],
     requestPush pb (u_id u) PT_DELETION_REJECTED []]"

section \<open>Admin\<close>

text \<open>\<open>fullName.split(' ')[0] || 'there'\<close>, and the target: what is known of the resource, or a dash.\<close>

definition first_word :: "string \<Rightarrow> string" where
  "first_word s = (let w = takeWhile (\<lambda>c. c \<noteq> CHR '' '') s in if w = [] then ''there'' else w)"

definition staff_alert_messages ::
  "publisher \<Rightarrow> (audit_entry \<Rightarrow> string) \<Rightarrow> string \<Rightarrow> audit_entry \<Rightarrow> staff_user list \<Rightarrow> notification list" where
  "staff_alert_messages pb target title e people =
    map (\<lambda>a. requestEmail pb (su_email a) ''staff-alert''
        [(''firstName'', first_word (su_fullName a)), (''title'', title),
         (''actor'', case au_staffEmail e of None \<Rightarrow> ''System'' | Some s \<Rightarrow> s), (''target'', target e),
         (''occurredAt'', pb_lagosNow pb), (''ipAddress'', case au_ip e of None \<Rightarrow> ''Unknown'' | Some s \<Rightarrow> s)])
      (filter active_super_admin people)"

text \<open>What \<open>publish\<close> emits for one customer, with the message ids of \<open>AdminComms.publish\<close>.\<close>

definition broadcast_message :: "broadcast \<Rightarrow> admin_effect \<Rightarrow> notification list" where
  "broadcast_message b e =
    (case e of
       BroadcastPush i userId \<Rightarrow>
         [\<lparr>nt_messageId = i, nt_channel = CH_PUSH, nt_recipient = nat_str userId, nt_template = push_word PT_BROADCAST,
           nt_data = [(''title'', bc_title b), (''body'', bc_body b)]\<rparr>]
     | BroadcastEmail i email firstName \<Rightarrow>
         [\<lparr>nt_messageId = i, nt_channel = CH_EMAIL, nt_recipient = email, nt_template = ''broadcast'',
           nt_data = [(''title'', bc_title b), (''body'', bc_body b), (''firstName'', firstName), (''name'', firstName)]\<rparr>]
     | _ \<Rightarrow> [])"

definition broadcast_messages :: "broadcast \<Rightarrow> user \<Rightarrow> notification list" where
  "broadcast_messages b u = concat (map (broadcast_message b) (publish b u))"

end
