(* ===== verification/Spec2Isabelle.thy ===== *)
theory Spec2Isabelle
  imports BillProps AccountProps History RowTypes VfdProps AdminMoney StaffGates StaffFactor CommsProps ScreenProps ConsoleGates
    CommonProps MessageProps
begin

text \<open>
  The Fiam retail APIs: customers hold NGN wallets, receive deposits at virtual accounts of a
  payment provider (VFD), send payouts to banks and pay bills; staff correct and reconcile from a
  console.  This library models the core of the payment service, \<open>src/apps/payment/src\<close>, of the auth
  service, \<open>src/apps/auth/src\<close>, and of the admin service, \<open>src/apps/admin/src\<close>, and proves what makes
  them correct.

  Parts and theories, in the order they build on each other.

  \<^item> \<open>Prelude\<close>: the state-and-error monad the handlers are written in (\<open>bindM\<close>, \<open>txM\<close> for a
    database transaction that rolls back, \<open>catchM\<close>), tables as lists with \<open>find_row\<close>,
    \<open>update_where\<close>, \<open>insert_row\<close>, and money: exact rationals, with decimal.js's \<open>toFixed\<close>.
  \<^item> \<open>JsString\<close>: the string and JSON operations the code uses.
  \<^item> \<open>PayEntities\<close>: the tables (\<open>transactions/entities\<close>, \<open>wallets/entities\<close>, ...) as records, the
    database with its unique indexes, the queue and the outgoing effects (\<open>pay_state\<close>).
  \<^item> \<open>Fees\<close> (\<open>payouts/fee.util.ts\<close>, \<open>bills/bill-fee.ts\<close>), \<open>Wallets\<close>, \<open>Addresses\<close> (\<open>wallets/\<close>),
    \<open>VfdCodes\<close> (\<open>providers/vfd/vfd-transfer-codes.ts\<close>), \<open>Providers\<close> (registry, provisioning),
    \<open>PayNotify\<close> (which notification goes out).
  \<^item> \<open>Payins\<close>: webhook, recording and worker of deposits (\<open>webhooks/\<close>, \<open>transactions/\<close>);
    \<open>History\<close>: the transaction lists (\<open>transactions.controller.ts\<close>).
  \<^item> \<open>Beneficiaries\<close>, \<open>PinVerifier\<close>, \<open>Payouts\<close> (\<open>payouts/payouts.service.ts\<close>: preview, limits,
    debit, provider answer, reversal, status job), with its laws in \<open>PayoutLaws\<close> and properties
    in \<open>PayoutProps\<close>; \<open>Bills\<close> (\<open>bills/\<close>); \<open>Internal\<close> (\<open>internal/\<close>, \<open>treasury/\<close>: the console's API)
    with \<open>InternalProps\<close>.
  \<^item> \<open>Ledger\<close>: the atomic database steps of all of these as one step relation \<open>pay_step\<close>, and the
    invariant \<open>ledger_ok\<close> they keep; \<open>Steps\<close>: the locale of step systems; \<open>Requests\<close>: every
    message, job, request and console action as a sequence of such steps, and what follows for
    the running service; \<open>AccountProps\<close> and \<open>BillProps\<close>: provisioning, provider switch and bills.
  \<^item> The VFD adapter (\<open>providers/vfd/\<close>): \<open>VfdParsing\<close> (tokens, customer data, dates, banks read from
    replies), \<open>VfdToken\<close> (the token cache and \<open>authorizedFetch\<close> as an interleaving of calls,
    \<open>vfd_step\<close>), \<open>VfdAdapter\<close> (every operation: its request and what it makes of the answer), and
    \<open>VfdProps\<close>, which puts the adapter into the payout and bill flows.
  \<^item> The auth service: \<open>AuthEntities\<close> (its tables, \<open>auth_state\<close>, and what comes from outside,
    \<open>auth_env\<close>), \<open>AuthUsers\<close> (\<open>users/\<close>, \<open>phone/\<close>, \<open>kyc/dob.util.ts\<close>), \<open>AuthTokens\<close> (\<open>otp/\<close>, \<open>tokens/\<close>,
    \<open>sessions/\<close>, \<open>devices/\<close>), \<open>AuthFlows\<close> (\<open>auth/auth.service.ts\<close>), \<open>AuthAdmin\<close> (\<open>internal/\<close>, \<open>deletion/\<close>,
    \<open>kyc/kyc-documents.service.ts\<close>), \<open>AuthKyc\<close> (\<open>kyc/qoreid-*\<close>, the internal API and the views).
    \<open>AuthSteps\<close> is its atomic steps and their invariant \<open>accounts_ok\<close>, \<open>AuthServed\<close> and \<open>AuthRequests\<close>
    show every handler to be a sequence of them (\<open>served_auth\<close>); \<open>AuthProps\<close> and \<open>AuthAccess\<close> hold
    the properties, \<open>AuthPayment\<close> the PIN check across both services.
  \<^item> The admin service, \<open>src/apps/admin/src\<close>: \<open>AdminEntities\<close> (its tables, the audit log, the console
    together with the two services it drives, and what can happen to a call on the wire),
    \<open>AdminPostings\<close> (\<open>postings/\<close>: maker-checker), \<open>AdminSteps\<close> (atomic steps of console and payment
    service, \<open>console_step\<close>, and their invariant), \<open>AdminServed\<close> and \<open>AdminPostingProps\<close> (the handlers as
    such steps, \<open>served_console\<close>), \<open>AdminMoney\<close> (the properties).
  \<^item> Staff: \<open>AdminDevices\<close> (\<open>auth/totp.service.ts\<close>, \<open>auth/devices.service.ts\<close>), \<open>AdminAuth\<close>
    (\<open>auth/auth.service.ts\<close>, \<open>auth/jwt.strategy.ts\<close>), \<open>AdminStaff\<close> (\<open>staff/\<close>, the two server tools of
    \<open>database/\<close>), \<open>StaffRequests\<close> (the routes of the two controllers).  \<open>Attempts\<close> is the locale of attempt
    counters, interpreted for customers and for staff; \<open>AdminSamples\<close> holds concrete people.
    \<open>StaffSteps\<close> is the atomic steps and their invariant, \<open>StaffServed\<close> the handlers as such steps;
    \<open>StaffProps\<close>, \<open>StaffGates\<close> and \<open>StaffFactor\<close> hold the properties.
  \<^item> The screens and actions of the console: \<open>AdminCustomers\<close> (\<open>customers/customers.service.ts\<close>: reads of both
    databases), \<open>AdminActions\<close> (\<open>customers/customer-actions.service.ts\<close>, \<open>customers/provisioning.service.ts\<close>,
    \<open>deletion-requests/\<close>: calls to the auth service's handlers, then the audit entry), \<open>AdminTransactions\<close>
    (\<open>transactions/\<close>, \<open>common/csv.ts\<close>), \<open>AdminComms\<close> (\<open>comms/\<close>: broadcasts and their worker), \<open>AdminDashboard\<close>
    (\<open>dashboard/\<close>) and \<open>ConsoleRequests\<close> (their routes with guards, roles and body checks).  The properties
    are in \<open>CommsProps\<close> (the worker ends and reaches everyone once), \<open>ScreenProps\<close> (search, pages, CSV),
    \<open>ClosureProps\<close> (closing an account, identity documents) and \<open>ConsoleGates\<close> (who can change what).
  \<^item> Shared parts: \<open>CommonLib\<close> (\<open>libs/common/src\<close>: rate-limit counters in Redis, redaction of logs, the error
    reporter's rate control) with \<open>CommonProps\<close>; \<open>Postoffice\<close> (\<open>src/apps/postoffice/src\<close>: templates, providers,
    the consumer of notifications) and \<open>Messages\<close> (what the three services publish for it), put together in
    \<open>MessageProps\<close>.
  \<^item> \<open>RowTypes\<close>: what the kind of a transaction says about its row, in every reachable state of the books.

  How the model corresponds to the code.  A method is a definition of the same name; its state is
  the whole database, passed and returned; an exception is an \<open>Inl\<close>.  A
  \<open>dataSource.transaction\<close> is \<open>txM\<close>.  Calls to the provider, the auth service, Redis caches, the
  clock and random digits are arguments.  Where the code awaits between database accesses, the
  definition takes a function (\<open>others\<close>, \<open>during\<close>) that stands for whatever other requests commit
  there; a wallet row locked for update makes the rest of its transaction atomic, which is why
  those bodies have no such argument.  Decimal strings are read by an argument \<open>dec\<close>, restricted
  where needed to what the request validation admits (at most four decimals).

  What the lemmas show: each operation's behaviour on every branch as an equation or an inversion
  rule (\<open>debitForUpdate_eq\<close>, \<open>debit_payout_InrD\<close>, \<open>apply_posting_eq\<close>, ...), preservation of the
  books by every atomic step (\<open>ledger_ok_...\<close>), and that every handler makes only such steps
  (\<open>on_books_...\<close>).  The properties, marked C1 and up, are stated from these.

  Bounds: the ten attempts of \<open>generateReference\<close> are the code's own.  The loop of the broadcast worker is a
  \<open>partial_function (option)\<close>, so that None is a loop that never ends, and its end is proved; nothing else
  needs fuel.

  Not modelled, and why.  HTTP, queue and Redis clients, Nest modules, configuration, migrations and logging
  are glue around what is modelled.  Left out are the HTML of the mails, the text of the Slack feeds, request
  ids and Sentry; the routes do not carry their rate limit (the limiter itself is \<open>CommonLib\<close>).  The setting
  of cookies and headers, the IP allow-list in front of the console and the metadata column of the audit log (with the CSV
  export of that log, which prints it) are left out.  A TypeORM \<open>save\<close> writes the columns of the entity it
  loaded, as the definitions say where it matters; columns nothing reads (\<open>updatedAt\<close>) are not kept.
  Libraries (argon2, JWT, WebAuthn, otpauth, the cipher, \<open>fetch\<close>, the providers behind it) are arguments of
  the definitions that use them.
\<close>

end
